(* ===== verification/Prelude.thy ===== *)
theory Prelude
  imports Complex_Main
begin

text \<open>
  Shared vocabulary of the development: Python strings (ASCII), truthiness and the
  \<open>x or y\<close> idiom, exceptions as values of the left component of a sum, SQLAlchemy
  result accessors, timestamps, and list lemmas on tables that the component theories use.

  A timestamp is the number of microseconds since the epoch as an \<open>int\<close>. Every
  \<open>DateTime(timezone=True)\<close> column holds a UTC instant, so the normalisations
  \<open>dt.replace(tzinfo=timezone.utc)\<close> of the source, which only relabel a naive UTC
  value, are the identity here.
\<close>

section \<open>Collections of simplification rules\<close>

named_theorems str_defs \<open>definitions of the Python string operations\<close>
named_theorems row_defs \<open>definitions of the row update functions\<close>
named_theorems state_defs \<open>definitions of the sets of execution states\<close>

section \<open>Exceptions\<close>

datatype py_error =
    InvalidOperation          \<comment> \<open>decimal.InvalidOperation, an ArithmeticError\<close>
  | ValueError string
  | IntegrityError string     \<comment> \<open>a CHECK or UNIQUE constraint of the database\<close>
  | MultipleResultsFound
  | NoResultFound
  | LiveSessionError string
  | LivePositionNotFound
  | MarketNotResolved
  | GammaApiError
  | TypeError string          \<comment> \<open>a value of the wrong type, such as \<open>float(None)\<close>\<close>
  | UnboundLocalError string  \<comment> \<open>a variable read before its assignment\<close>

type_synonym 'a outcome = "py_error + 'a"

abbreviation bind_out :: "'a outcome \<Rightarrow> ('a \<Rightarrow> 'b outcome) \<Rightarrow> 'b outcome" where
  "bind_out m f \<equiv> (case m of Inl e \<Rightarrow> Inl e | Inr x \<Rightarrow> f x)"

section \<open>Time\<close>

type_synonym time = int

definition seconds :: "int \<Rightarrow> int" where
  "seconds n = n * 1000000"

section \<open>Python strings\<close>

definition upper_char :: "char \<Rightarrow> char" where
  "upper_char c = (let n = (of_char c :: nat) in if 97 \<le> n \<and> n \<le> 122 then char_of (n - 32) else c)"

definition lower_char :: "char \<Rightarrow> char" where
  "lower_char c = (let n = (of_char c :: nat) in if 65 \<le> n \<and> n \<le> 90 then char_of (n + 32) else c)"

definition upper :: "string \<Rightarrow> string" where
  [str_defs]: "upper s = map upper_char s"

definition lower :: "string \<Rightarrow> string" where
  [str_defs]: "lower s = map lower_char s"

definition is_space :: "char \<Rightarrow> bool" where
  "is_space c = (let n = (of_char c :: nat) in n = 32 \<or> (9 \<le> n \<and> n \<le> 13) \<or> (28 \<le> n \<and> n \<le> 31))"

definition rstrip :: "string \<Rightarrow> string" where
  [str_defs]: "rstrip s = rev (dropWhile is_space (rev s))"

definition strip :: "string \<Rightarrow> string" where
  [str_defs]: "strip s = rstrip (dropWhile is_space s)"

definition starts_with :: "string \<Rightarrow> string \<Rightarrow> bool" where
  [str_defs]: "starts_with p s = (take (length p) s = p)"

definition ends_with :: "string \<Rightarrow> string \<Rightarrow> bool" where
  [str_defs]: "ends_with p s = (length p \<le> length s \<and> drop (length s - length p) s = p)"

text \<open>\<open>p in s\<close> for strings.\<close>

fun contains :: "string \<Rightarrow> string \<Rightarrow> bool" where
  "contains p [] = (p = [])"
| "contains p (c # cs) = (starts_with p (c # cs) \<or> contains p cs)"

lemma upper_char_not_lower: "\<not> (97 \<le> (of_char (upper_char c) :: nat) \<and> of_char (upper_char c) \<le> (122::nat))"
  by (auto simp: upper_char_def Let_def take_bit_nat_eq_self_iff of_char_of)

lemma upper_char_idem [simp]: "upper_char (upper_char c) = upper_char c"
  using upper_char_not_lower [of c] by (auto simp: upper_char_def [of "upper_char c"] Let_def)

lemma upper_upper [simp]: "upper (upper s) = upper s"
  by (simp add: upper_def)

lemma upper_append: "upper (a @ b) = upper a @ upper b"
  by (simp add: upper_def)

lemma contains_append_mid: "contains p (a @ p @ b)"
  by (induction a) (cases p; cases b; auto simp: starts_with_def)+

lemma contains_imp_append: "contains p s \<Longrightarrow> \<exists>a b. s = a @ p @ b"
proof (induction s)
  case Nil
  then show ?case by simp
next
  case (Cons c cs)
  show ?case
  proof (cases "starts_with p (c # cs)")
    case True
    then have "c # cs = [] @ p @ drop (length p) (c # cs)"
      by (metis append.left_neutral append_take_drop_id starts_with_def)
    then show ?thesis by blast
  next
    case False
    with Cons obtain a b where "cs = a @ p @ b" by auto
    then show ?thesis by (metis append_Cons)
  qed
qed

lemma contains_iff: "contains p s \<longleftrightarrow> (\<exists>a b. s = a @ p @ b)"
  using contains_imp_append contains_append_mid by blast

section \<open>Truthiness\<close>

text \<open>
  \<open>str(x or "")\<close> for an optional string, and \<open>x or d\<close> for an optional number, where
  \<open>None\<close> and zero are both falsy.
\<close>

definition str_or_empty :: "string option \<Rightarrow> string" where
  [str_defs]: "str_or_empty x = (case x of None \<Rightarrow> [] | Some s \<Rightarrow> s)"

definition num_or :: "rat option \<Rightarrow> rat \<Rightarrow> rat" where
  "num_or x d = (case x of None \<Rightarrow> d | Some v \<Rightarrow> if v = 0 then d else v)"

lemma num_or_zero [simp]: "num_or (Some v) 0 = v" "num_or None d = d"
  by (auto simp: num_or_def)

section \<open>Query results\<close>

text \<open>
  \<open>Result.scalar_one_or_none()\<close> raises when the query returned several rows;
  \<open>scalar_one()\<close> also when it returned none.
\<close>

fun scalar_one_or_none :: "'a list \<Rightarrow> 'a option outcome" where
  "scalar_one_or_none [] = Inr None"
| "scalar_one_or_none [x] = Inr (Some x)"
| "scalar_one_or_none _ = Inl MultipleResultsFound"

fun scalar_one :: "'a list \<Rightarrow> 'a outcome" where
  "scalar_one [] = Inl NoResultFound"
| "scalar_one [x] = Inr x"
| "scalar_one _ = Inl MultipleResultsFound"

text \<open>The first row, for a query with \<open>LIMIT 1\<close>.\<close>

definition first_row :: "'a list \<Rightarrow> 'a option" where
  "first_row xs = (case xs of [] \<Rightarrow> None | x # _ \<Rightarrow> Some x)"

lemma first_row_SomeD: "first_row xs = Some x \<Longrightarrow> x \<in> set xs"
  by (auto simp: first_row_def split: list.splits)

lemma scalar_one_or_none_Some: "scalar_one_or_none xs = Inr (Some x) \<longleftrightarrow> xs = [x]"
  by (cases xs rule: scalar_one_or_none.cases) auto

lemma scalar_one_or_none_None: "scalar_one_or_none xs = Inr None \<longleftrightarrow> xs = []"
  by (cases xs rule: scalar_one_or_none.cases) auto

lemma scalar_one_or_none_total:
  "length xs \<le> 1 \<Longrightarrow> scalar_one_or_none xs = Inr (first_row xs)"
  by (cases xs rule: scalar_one_or_none.cases) (auto simp: first_row_def)

section \<open>Tables\<close>

text \<open>
  A table is the list of its rows in insertion order; \<open>update_where P f\<close> is
  \<open>UPDATE ... SET f WHERE P\<close> (also an attribute assignment on the ORM object of a row).
\<close>

definition update_where :: "('r \<Rightarrow> bool) \<Rightarrow> ('r \<Rightarrow> 'r) \<Rightarrow> 'r list \<Rightarrow> 'r list" where
  [row_defs]: "update_where P f rows = map (\<lambda>r. if P r then f r else r) rows"

lemma length_update_where [simp]: "length (update_where P f rows) = length rows"
  by (simp add: update_where_def)

lemma update_where_Nil [simp]: "update_where P f [] = []"
  by (simp add: update_where_def)

lemma update_where_Cons [simp]:
  "update_where P f (r # rows) = (if P r then f r else r) # update_where P f rows"
  by (simp add: update_where_def)

lemma set_update_where: "set (update_where P f rows) = (\<lambda>r. if P r then f r else r) ` set rows"
  by (simp add: update_where_def)

lemma map_update_where_key:
  "(\<And>r. P r \<Longrightarrow> k (f r) = k r) \<Longrightarrow> map k (update_where P f rows) = map k rows"
  by (simp add: update_where_def)

lemma find_update_where_id:
  assumes "\<And>r. k (f r) = k r"
  shows "find (\<lambda>r. k r = i) (update_where (\<lambda>r. k r = i) f rows) =
         map_option f (find (\<lambda>r. k r = i) rows)"
  using assms by (induction rows) auto

lemma find_update_where_other:
  assumes "\<And>r. k (f r) = k r" "i \<noteq> j"
  shows "find (\<lambda>r. k r = i) (update_where (\<lambda>r. k r = j) f rows) = find (\<lambda>r. k r = i) rows"
  using assms by (induction rows) auto

lemma find_SomeD: "find P xs = Some x \<Longrightarrow> x \<in> set xs \<and> P x"
  by (induction xs) (auto split: if_splits)

lemma find_NoneD: "find P xs = None \<Longrightarrow> x \<in> set xs \<Longrightarrow> \<not> P x"
  by (auto simp: find_None_iff)

lemma find_snoc:
  "find P (xs @ [x]) = (case find P xs of Some y \<Rightarrow> Some y | None \<Rightarrow> if P x then Some x else None)"
  by (induction xs) auto

lemma find_map_distinct:
  "distinct (map k rows) \<Longrightarrow> r \<in> set rows \<Longrightarrow> find (\<lambda>x. k x = k r) rows = Some r"
  by (induction rows) (auto simp: image_iff)

lemma length_filter_le_1I:
  assumes "\<And>i j. i < length xs \<Longrightarrow> j < length xs \<Longrightarrow> P (xs ! i) \<Longrightarrow> P (xs ! j) \<Longrightarrow> i = j"
  shows "length (filter P xs) \<le> 1"
  using assms
proof (induction xs)
  case Nil
  then show ?case by simp
next
  case (Cons x xs)
  have tail: "length (filter P xs) \<le> 1"
  proof (rule Cons.IH)
    fix i j
    assume "i < length xs" "j < length xs" "P (xs ! i)" "P (xs ! j)"
    then show "i = j" using Cons.prems [of "Suc i" "Suc j"] by simp
  qed
  show ?case
  proof (cases "P x")
    case True
    have "filter P xs = []"
    proof (rule ccontr)
      assume "filter P xs \<noteq> []"
      then obtain y where "y \<in> set xs" "P y" by (auto simp: filter_empty_conv)
      then obtain j where "j < length xs" "P (xs ! j)" by (metis in_set_conv_nth)
      with Cons.prems [of 0 "Suc j"] True show False by simp
    qed
    with True show ?thesis by simp
  next
    case False
    with tail show ?thesis by simp
  qed
qed

end
