(* ===== verification/Exec_States.thy ===== *)
theory Exec_States
  imports Prelude
begin

text \<open>
  \<open>execution/states.py\<close> and the enumerations of \<open>execution/config.py\<close>: the states of an
  execution request and of a position, and the sets the workers classify them with. The
  database stores the names as text; the model uses one constructor per name. The states
  \<open>FAILED\<close> and \<open>RECONCILING_POS\<close> are named by the code (\<open>worker.py\<close>,
  \<open>live_session_service.py\<close>) although no modelled operation writes them.
\<close>

datatype exec_mode = PAPER | SHADOW | LIVE

datatype intent = OPEN | CLOSE

datatype req_state =
    AWAITING_APPROVAL | READY | CLAIMED | SUBMITTING | ACCEPTED | UNKNOWN | PARTIALLY_FILLED
  | RECONCILING | MANUAL_REVIEW_REQUIRED | FILLED | PARTIALLY_FILLED_FINAL
  | REJECTED | EXPIRED | CANCELED | MANUAL_REVIEW_FAILED | FAILED

datatype pos_status =
    OPENING_POS | OPEN_POS | PARTIALLY_CLOSED_POS | EXIT_REQUESTED_POS | CLOSING_POS
  | RECONCILING_POS | CLOSED_POS | RESOLVED_REDEEMABLE_POS | RESOLVED_LOST_POS | REDEEMED_POS
  | ENTRY_FAILED_POS | MANUAL_REVIEW_REQUIRED_POS

text \<open>Trigger reasons of requests and exit reasons of positions share one set of names.\<close>

datatype reason = STRATEGY | STOP_LOSS | TAKE_PROFIT | MANUAL | RECOVERY | SETTLEMENT | LIQUIDATION | MIRROR

fun mode_name :: "exec_mode \<Rightarrow> string" where
  "mode_name PAPER = ''PAPER''"
| "mode_name SHADOW = ''SHADOW''"
| "mode_name LIVE = ''LIVE''"

fun state_name :: "req_state \<Rightarrow> string" where
  "state_name AWAITING_APPROVAL = ''AWAITING_APPROVAL''"
| "state_name READY = ''READY''"
| "state_name CLAIMED = ''CLAIMED''"
| "state_name SUBMITTING = ''SUBMITTING''"
| "state_name ACCEPTED = ''ACCEPTED''"
| "state_name UNKNOWN = ''UNKNOWN''"
| "state_name PARTIALLY_FILLED = ''PARTIALLY_FILLED''"
| "state_name RECONCILING = ''RECONCILING''"
| "state_name MANUAL_REVIEW_REQUIRED = ''MANUAL_REVIEW_REQUIRED''"
| "state_name FILLED = ''FILLED''"
| "state_name PARTIALLY_FILLED_FINAL = ''PARTIALLY_FILLED_FINAL''"
| "state_name REJECTED = ''REJECTED''"
| "state_name EXPIRED = ''EXPIRED''"
| "state_name CANCELED = ''CANCELED''"
| "state_name MANUAL_REVIEW_FAILED = ''MANUAL_REVIEW_FAILED''"
| "state_name FAILED = ''FAILED''"

definition REQUEST_HOLD_STATES :: "req_state set" where
  [state_defs]: "REQUEST_HOLD_STATES =
     {AWAITING_APPROVAL, READY, CLAIMED, SUBMITTING, ACCEPTED, UNKNOWN, PARTIALLY_FILLED,
      RECONCILING, MANUAL_REVIEW_REQUIRED}"

definition RECONCILABLE_REQUEST_STATES :: "req_state set" where
  [state_defs]: "RECONCILABLE_REQUEST_STATES =
     {SUBMITTING, ACCEPTED, UNKNOWN, PARTIALLY_FILLED, RECONCILING}"

definition SUCCESS_TERMINAL_STATES :: "req_state set" where
  [state_defs]: "SUCCESS_TERMINAL_STATES = {FILLED, PARTIALLY_FILLED_FINAL}"

definition FAILURE_TERMINAL_STATES :: "req_state set" where
  [state_defs]: "FAILURE_TERMINAL_STATES = {REJECTED, EXPIRED, CANCELED, MANUAL_REVIEW_FAILED}"

definition TERMINAL_REQUEST_STATES :: "req_state set" where
  [state_defs]: "TERMINAL_REQUEST_STATES = SUCCESS_TERMINAL_STATES \<union> FAILURE_TERMINAL_STATES"

definition ACTIVE_REQUEST_STATES :: "req_state set" where
  [state_defs]: "ACTIVE_REQUEST_STATES = REQUEST_HOLD_STATES"

definition BLOCKING_REQUEST_STATES :: "req_state set" where
  [state_defs]: "BLOCKING_REQUEST_STATES = REQUEST_HOLD_STATES - {MANUAL_REVIEW_REQUIRED}"

definition ACTIVE_POSITION_STATES :: "pos_status set" where
  [state_defs]: "ACTIVE_POSITION_STATES =
     {OPENING_POS, OPEN_POS, PARTIALLY_CLOSED_POS, EXIT_REQUESTED_POS, CLOSING_POS,
      RESOLVED_REDEEMABLE_POS}"

definition FINAL_POSITION_STATES :: "pos_status set" where
  [state_defs]: "FINAL_POSITION_STATES =
     {CLOSED_POS, RESOLVED_REDEEMABLE_POS, RESOLVED_LOST_POS, REDEEMED_POS}"

definition exit_reason_values :: "reason set" where
  [state_defs]: "exit_reason_values = {SETTLEMENT, STOP_LOSS, TAKE_PROFIT, MANUAL, LIQUIDATION}"

lemma hold_not_terminal: "s \<in> REQUEST_HOLD_STATES \<Longrightarrow> s \<notin> TERMINAL_REQUEST_STATES"
  by (auto simp: state_defs)

lemma blocking_subset_hold: "BLOCKING_REQUEST_STATES \<subseteq> REQUEST_HOLD_STATES"
  by (auto simp: state_defs)

lemma reconcilable_subset_blocking: "RECONCILABLE_REQUEST_STATES \<subseteq> BLOCKING_REQUEST_STATES"
  by (auto simp: state_defs)

end
