(* ===== verification/Py_Number.thy ===== *)
theory Py_Number
  imports Prelude
begin

text \<open>
  Python's numbers. A finite \<open>decimal.Decimal\<close> and a finite \<open>float\<close> are
  both represented by the rational number they denote. An arithmetic operation on decimals
  returns the exact result rounded to the 28 significant digits of the default context
  (half even); an operation on floats returns the exact result rounded to 53 significant bits.
  Both are instances of one rounding function, whose laws (sign, monotonicity, exactness on
  representable numbers, error bound) are proved once in the locale \<open>sig_rounding\<close> and
  interpreted for the two formats. Not modelled: overflow to infinity and subnormal floats,
  the exponent range of decimals, the sign of zero and the number of trailing zeros of a
  decimal, none of which the modelled code observes.
\<close>

section \<open>Rounding to a number of significant digits\<close>

text \<open>Floor of the logarithm of a positive natural number.\<close>

function ilog :: "int \<Rightarrow> int \<Rightarrow> int" where
  "ilog b n = (if b < 2 \<or> n < b then 0 else 1 + ilog b (n div b))"
  by pat_completeness auto
termination
proof (relation "measure (\<lambda>(b, n). nat n)")
  fix b n :: int
  assume "\<not> (b < 2 \<or> n < b)"
  then have "n div b < n" by (intro int_div_less_self) auto
  with \<open>\<not> (b < 2 \<or> n < b)\<close> show "((b, n div b), (b, n)) \<in> measure (\<lambda>(b, n). nat n)" by simp
qed simp

declare ilog.simps [simp del]

lemma ilog_nonneg: "0 \<le> ilog b n"
  by (induction b n rule: ilog.induct) (subst ilog.simps, simp)

lemma ilog_bounds:
  assumes "2 \<le> b" "0 < n"
  shows "b ^ nat (ilog b n) \<le> n \<and> n < b ^ Suc (nat (ilog b n))"
  using assms
proof (induction b n rule: ilog.induct)
  case (1 b n)
  show ?case
  proof (cases "n < b")
    case True
    with 1 show ?thesis by (simp add: ilog.simps [of b n])
  next
    case False
    let ?i = "nat (ilog b (n div b))"
    from False 1 have IH: "b ^ ?i \<le> n div b" "n div b < b ^ Suc ?i"
      by (auto simp: pos_imp_zdiv_pos_iff)
    have "b * b ^ ?i \<le> b * (n div b)" using IH(1) 1(2) by simp
    also have "\<dots> \<le> n"
      using pos_mod_sign [of b n] mult_div_mod_eq [of b n] 1(2) by linarith
    finally have lo: "b ^ Suc ?i \<le> n" by simp
    have "n mod b < b" using 1(2) by simp
    then have "n < b * (n div b) + b" using mult_div_mod_eq [of b n] by linarith
    then have "n < b * (n div b + 1)" by (simp add: distrib_left)
    also have "\<dots> \<le> b * b ^ Suc ?i" using IH(2) 1(2) by (intro mult_left_mono) auto
    finally have hi: "n < b ^ Suc (Suc ?i)" by simp
    have "nat (ilog b n) = Suc ?i" using False 1(2) ilog_nonneg [of b "n div b"]
      by (simp add: ilog.simps [of b n] nat_add_distrib)
    with lo hi show ?thesis by simp
  qed
qed

text \<open>Rounding to the nearest integer, ties to the even one.\<close>

definition rhe :: "rat \<Rightarrow> int" where
  "rhe x = (let f = \<lfloor>x\<rfloor>; d = x - of_int f in
     if d < 1/2 then f else if 1/2 < d then f + 1 else if even f then f else f + 1)"

lemma rhe_of_int [simp]: "rhe (of_int n) = n"
  by (simp add: rhe_def)

lemma rhe_error: "\<bar>of_int (rhe x) - x\<bar> \<le> 1/2"
proof -
  have "of_int \<lfloor>x\<rfloor> \<le> x" "x < of_int \<lfloor>x\<rfloor> + 1" by linarith+
  then show ?thesis by (auto simp: rhe_def Let_def)
qed

lemma rhe_mono: "x \<le> y \<Longrightarrow> rhe x \<le> rhe y"
proof -
  assume xy: "x \<le> y"
  show ?thesis
  proof (cases "\<lfloor>x\<rfloor> = \<lfloor>y\<rfloor>")
    case True
    with xy show ?thesis by (auto simp: rhe_def Let_def)
  next
    case False
    with xy have "\<lfloor>x\<rfloor> + 1 \<le> \<lfloor>y\<rfloor>" using floor_mono [OF xy] by linarith
    moreover have "rhe x \<le> \<lfloor>x\<rfloor> + 1" "\<lfloor>y\<rfloor> \<le> rhe y" by (auto simp: rhe_def Let_def)
    ultimately show ?thesis by linarith
  qed
qed

text \<open>The exponent of the leading digit of a positive number in base \<open>b\<close>.\<close>

definition mag :: "nat \<Rightarrow> rat \<Rightarrow> int" where
  "mag b x = (let (p, q) = quotient_of x;
                  k = ilog (int b) p - ilog (int b) q
              in if rat_of_nat b powi k \<le> x then k else k - 1)"

text \<open>Nearest number with \<open>p\<close> significant digits in base \<open>b\<close>.\<close>

definition sig_round :: "nat \<Rightarrow> nat \<Rightarrow> rat \<Rightarrow> rat" where
  "sig_round b p x =
     (if x = 0 then 0
      else let e = mag b \<bar>x\<bar> - int p + 1
           in sgn x * of_int (rhe (\<bar>x\<bar> / rat_of_nat b powi e)) * rat_of_nat b powi e)"

lemma mag_bounds:
  assumes b: "2 \<le> b" and x: "0 < x"
  shows "rat_of_nat b powi (mag b x) \<le> x \<and> x < rat_of_nat b powi (mag b x + 1)"
proof -
  obtain p q where pq: "quotient_of x = (p, q)" by fastforce
  have q: "0 < q" using pq by (rule quotient_of_denom_pos)
  have xd: "x = of_int p / of_int q" using pq by (rule quotient_of_div)
  have p: "0 < p" using x xd q by (simp add: zero_less_divide_iff)
  define i j where "i = nat (ilog (int b) p)" and "j = nat (ilog (int b) q)"
  have b': "2 \<le> int b" using b by simp
  have Pn: "int b ^ i \<le> p" "p < int b ^ Suc i" and Qn: "int b ^ j \<le> q" "q < int b ^ Suc j"
    using ilog_bounds [OF b' p] ilog_bounds [OF b' q] by (auto simp: i_def j_def)
  let ?B = "rat_of_nat b"
  have B: "0 < ?B" "?B \<noteq> 0" using b by auto
  have Pr: "?B ^ i \<le> of_int p" "of_int p < ?B ^ Suc i"
    and Qr: "?B ^ j \<le> of_int q" "of_int q < ?B ^ Suc j"
    using Pn Qn by (metis of_int_le_iff of_int_less_iff of_int_of_nat_eq of_int_power)+
  have Q0: "0 < rat_of_int q" using q by simp
  define k where "k = int i - int j"
  have lo: "?B powi (k - 1) \<le> x"
  proof -
    have "?B powi (k - 1) = ?B ^ i / ?B ^ Suc j"
      using B by (simp add: k_def power_int_diff)
    also have "\<dots> \<le> x" unfolding xd
      using Pr(1) Qr(2) Q0 B p by (intro frac_le) auto
    finally show ?thesis .
  qed
  have hi: "x < ?B powi (k + 1)"
  proof -
    have "x < ?B ^ Suc i / ?B ^ j" unfolding xd
      using Pr(2) Qr(1) B p by (intro frac_less) auto
    also have "\<dots> = ?B powi (k + 1)"
      using B by (simp add: k_def power_int_diff power_int_add)
    finally show ?thesis .
  qed
  have m: "mag b x = (if ?B powi k \<le> x then k else k - 1)"
    by (simp add: mag_def pq k_def i_def j_def ilog_nonneg)
  show ?thesis using lo hi by (auto simp: m)
qed

locale sig_rounding =
  fixes b p :: nat
  assumes base: "2 \<le> b" and prec: "1 \<le> p"
begin

abbreviation B :: rat where "B \<equiv> rat_of_nat b"
abbreviation rnd :: "rat \<Rightarrow> rat" where "rnd \<equiv> sig_round b p"

lemma b_pos [simp]: "0 < b" and b_nz [simp]: "b \<noteq> 0"
  using base by simp_all

lemma B_pos: "0 < B" and B_gt: "1 < B"
  using base by auto

lemma powi_pos [simp]: "0 < B powi e" by (simp add: zero_less_power_int)

lemma mag_bounds': "0 < x \<Longrightarrow> B powi (mag b x) \<le> x" "0 < x \<Longrightarrow> x < B powi (mag b x + 1)"
  using mag_bounds [OF base] by auto

lemma powi_less_iff: "B powi i < B powi j \<longleftrightarrow> i < j"
  by (meson B_gt linorder_not_less order_less_imp_le power_int_increasing power_int_strict_increasing)

lemma powi_le_iff: "B powi i \<le> B powi j \<longleftrightarrow> i \<le> j"
  by (meson powi_less_iff linorder_not_less)

lemma mag_unique:
  assumes "B powi e \<le> x" "x < B powi (e + 1)"
  shows "mag b x = e"
proof -
  have x: "0 < x" using assms(1) powi_pos [of e] by linarith
  have "B powi (mag b x) < B powi (e + 1)" "B powi e < B powi (mag b x + 1)"
    using mag_bounds' [OF x] assms by linarith+
  then show ?thesis unfolding powi_less_iff by linarith
qed

lemma mag_mono: "0 < x \<Longrightarrow> x \<le> y \<Longrightarrow> mag b x \<le> mag b y"
proof -
  assume "0 < x" "x \<le> y"
  then have "B powi (mag b x) < B powi (mag b y + 1)"
    using mag_bounds'(1) [of x] mag_bounds'(2) [of y] by linarith
  then show ?thesis unfolding powi_less_iff by linarith
qed

lemma rnd_0 [simp]: "rnd 0 = 0" by (simp add: sig_round_def)

lemma rnd_minus: "rnd (- x) = - rnd x"
  by (simp add: sig_round_def Let_def)

lemma rnd_pos_eq:
  "0 < x \<Longrightarrow> rnd x = of_int (rhe (x / B powi (mag b x - int p + 1))) * B powi (mag b x - int p + 1)"
  by (simp add: sig_round_def Let_def)

lemma rnd_error:
  assumes x: "0 < x" shows "\<bar>rnd x - x\<bar> \<le> B powi (mag b x - int p + 1) / 2"
proof -
  let ?e = "mag b x - int p + 1" let ?u = "B powi ?e"
  have "rnd x - x = (of_int (rhe (x / ?u)) - x / ?u) * ?u"
    using x by (simp add: rnd_pos_eq left_diff_distrib)
  then have "\<bar>rnd x - x\<bar> = \<bar>of_int (rhe (x / ?u)) - x / ?u\<bar> * ?u"
    by (simp add: abs_mult)
  also have "\<dots> \<le> 1/2 * ?u" using rhe_error by (intro mult_right_mono) auto
  finally show ?thesis by simp
qed

lemma unit_split: "B powi (mag b x) = B ^ (p - 1) * B powi (mag b x - int p + 1)"
proof -
  have "B powi (mag b x) = B powi (int (p - 1) + (mag b x - int p + 1))"
    using prec by (simp add: of_nat_diff)
  then show ?thesis by (simp add: power_int_add)
qed

lemma rnd_bracket:
  assumes x: "0 < x" shows "B powi (mag b x) \<le> rnd x" "rnd x \<le> B powi (mag b x + 1)"
proof -
  let ?e = "mag b x - int p + 1" let ?u = "B powi ?e"
  have lo: "of_int (int b ^ (p - 1)) \<le> x / ?u" and hi: "x / ?u \<le> of_int (int b ^ p)"
  proof -
    have "B ^ (p - 1) * ?u \<le> x" using mag_bounds'(1) [OF x] unit_split [of x] by simp
    then show "of_int (int b ^ (p - 1)) \<le> x / ?u" by (simp add: pos_le_divide_eq)
    have "B powi (mag b x + 1) = B ^ p * ?u"
      using prec by (simp add: power_int_add [symmetric] flip: power_int_of_nat)
    then have "x \<le> B ^ p * ?u" using mag_bounds'(2) [OF x] by linarith
    then show "x / ?u \<le> of_int (int b ^ p)" by (simp add: pos_divide_le_eq)
  qed
  have "int b ^ (p - 1) \<le> rhe (x / ?u)" "rhe (x / ?u) \<le> int b ^ p"
    using rhe_mono [OF lo] rhe_mono [OF hi] by (simp_all only: rhe_of_int)
  then have L: "B ^ (p - 1) \<le> of_int (rhe (x / ?u))" and H: "of_int (rhe (x / ?u)) \<le> B ^ p"
    by (metis of_int_le_iff of_int_of_nat_eq of_int_power)+
  show "B powi (mag b x) \<le> rnd x"
    using mult_right_mono [OF L, of ?u] by (simp add: rnd_pos_eq [OF x] unit_split [of x])
  have "B powi (mag b x + 1) = B ^ p * ?u"
    using prec by (simp add: power_int_add [symmetric] flip: power_int_of_nat)
  then show "rnd x \<le> B powi (mag b x + 1)"
    using mult_right_mono [OF H, of ?u] by (simp add: rnd_pos_eq [OF x])
qed

lemma rnd_pos: "0 < x \<Longrightarrow> 0 < rnd x"
  using rnd_bracket(1) [of x] powi_pos [of "mag b x"] by linarith

lemma rnd_nonneg: "0 \<le> x \<Longrightarrow> 0 \<le> rnd x"
  using rnd_pos [of x] by (cases "x = 0") auto

lemma rnd_mono_pos:
  assumes "0 < x" "x \<le> y" shows "rnd x \<le> rnd y"
proof (cases "mag b x = mag b y")
  case True
  let ?u = "B powi (mag b y - int p + 1)"
  have "x / ?u \<le> y / ?u" using assms by (simp add: divide_right_mono less_imp_le)
  then have "rhe (x / ?u) \<le> rhe (y / ?u)" by (rule rhe_mono)
  then show ?thesis using assms True by (simp add: rnd_pos_eq)
next
  case False
  with assms have "mag b x + 1 \<le> mag b y" using mag_mono [of x y] by linarith
  then have "B powi (mag b x + 1) \<le> B powi (mag b y)" unfolding powi_le_iff .
  then show ?thesis using rnd_bracket(2) [of x] rnd_bracket(1) [of y] assms by linarith
qed

lemma rnd_mono: "x \<le> y \<Longrightarrow> rnd x \<le> rnd y"
proof -
  assume xy: "x \<le> y"
  consider "0 < x" | "x \<le> 0" "0 \<le> y" | "y < 0" by linarith
  then show ?thesis
  proof cases
    case 1 then show ?thesis using xy by (rule rnd_mono_pos)
  next
    case 2
    then have "rnd x \<le> 0" "0 \<le> rnd y"
      using rnd_nonneg [of "- x"] rnd_nonneg [of y] by (auto simp: rnd_minus)
    then show ?thesis by linarith
  next
    case 3
    with xy have "rnd (- y) \<le> rnd (- x)" by (intro rnd_mono_pos) auto
    then show ?thesis by (simp add: rnd_minus)
  qed
qed

lemma rnd_exact_pos:
  assumes c: "0 < c" "c < int b ^ p" shows "rnd (of_int c * B powi e) = of_int c * B powi e"
proof -
  let ?x = "of_int c * B powi e"
  have x: "0 < ?x" using c by simp
  define m where "m = mag b ?x"
  have "B powi m \<le> ?x" using mag_bounds'(1) [OF x] by (simp add: m_def)
  also have "?x < B ^ p * B powi e"
  proof -
    have "rat_of_int c < rat_of_int (int b ^ p)" using c(2) by (rule of_int_less_iff [THEN iffD2])
    then show ?thesis by simp
  qed
  also have "\<dots> = B powi (int p + e)" by (simp add: power_int_add)
  finally have "m - int p + 1 \<le> e" unfolding powi_less_iff by linarith
  then obtain d where d: "e = m - int p + 1 + int d" by (metis zle_iff_zadd)
  let ?u = "B powi (m - int p + 1)"
  have q: "?x / ?u = of_int (c * int b ^ d)"
    unfolding d by (simp add: power_int_add)
  have "rnd ?x = of_int (rhe (?x / ?u)) * ?u" using rnd_pos_eq [OF x] by (simp add: m_def)
  also have "\<dots> = of_int (c * int b ^ d) * ?u" unfolding q rhe_of_int ..
  also have "\<dots> = ?x" unfolding q [symmetric] by simp
  finally show ?thesis .
qed

lemma rnd_exact:
  assumes "\<bar>c\<bar> < int b ^ p" shows "rnd (of_int c * B powi e) = of_int c * B powi e"
  using assms rnd_exact_pos [of c e] rnd_exact_pos [of "- c" e]
  by (cases c "0::int" rule: linorder_cases) (auto simp: rnd_minus)

lemma rnd_form: "\<exists>c e. rnd x = of_int c * B powi e \<and> \<bar>c\<bar> < int b ^ p"
proof -
  have pos: "\<exists>c e. rnd y = of_int c * B powi e \<and> \<bar>c\<bar> < int b ^ p" if y: "0 < y" for y
  proof -
    let ?e = "mag b y - int p + 1"
    let ?c = "rhe (y / B powi ?e)"
    have eq: "rnd y = of_int ?c * B powi ?e" using y by (rule rnd_pos_eq)
    have "0 < rat_of_int ?c" using rnd_pos [OF y] unfolding eq by (rule zero_less_mult_pos2) simp
    then have "0 < ?c" by simp
    have "B powi (mag b y + 1) = B ^ p * B powi ?e"
      using prec by (simp add: power_int_add [symmetric] flip: power_int_of_nat)
    then have "rat_of_int ?c * B powi ?e \<le> B ^ p * B powi ?e" using rnd_bracket(2) [OF y] eq by simp
    then have "rat_of_int ?c \<le> B ^ p" by simp
    then have le: "?c \<le> int b ^ p" by (metis of_int_le_iff of_int_of_nat_eq of_int_power)
    show ?thesis
    proof (cases "?c = int b ^ p")
      case True
      have "1 < int b ^ p" using base prec by simp
      moreover have "rnd y = of_int 1 * B powi (int p + ?e)"
      proof -
        have "B powi (int p + ?e) = B ^ p * B powi ?e" by (subst power_int_add) auto
        then show ?thesis using eq True by simp
      qed
      ultimately show ?thesis by (intro exI [of _ 1] exI [of _ "int p + ?e"]) simp
    next
      case False
      with le \<open>0 < ?c\<close> eq show ?thesis by (intro exI [of _ ?c] exI [of _ ?e]) simp
    qed
  qed
  consider "x = 0" | "0 < x" | "0 < - x" by linarith
  then show ?thesis
  proof cases
    case 1 then show ?thesis using base by (intro exI [of _ 0]) simp
  next
    case 2 then show ?thesis by (rule pos)
  next
    case 3
    then obtain c e where "rnd (- x) = of_int c * B powi e" "\<bar>c\<bar> < int b ^ p" using pos by blast
    then show ?thesis by (intro exI [of _ "- c"] exI [of _ e]) (simp add: rnd_minus)
  qed
qed

lemma rnd_idem [simp]: "rnd (rnd x) = rnd x"
  using rnd_form [of x] rnd_exact by auto

lemma rnd_rel_error: "\<bar>rnd x - x\<bar> \<le> \<bar>x\<bar> * (B / B ^ p) / 2"
proof -
  have pos: "\<bar>rnd y - y\<bar> \<le> y * (B / B ^ p) / 2" if y: "0 < y" for y
  proof -
    have "B powi (mag b y - int p + 1) = B powi (mag b y) * (B / B ^ p)"
      by (simp add: power_int_add power_int_diff)
    also have "\<dots> \<le> y * (B / B ^ p)"
      using mag_bounds'(1) [OF y] by (intro mult_right_mono) auto
    finally have "B powi (mag b y - int p + 1) / 2 \<le> y * (B / B ^ p) / 2"
      by (rule divide_right_mono) simp
    with rnd_error [OF y] show ?thesis by (rule order_trans)
  qed
  show ?thesis
    using pos [of x] pos [of "- x"] by (cases x "0::rat" rule: linorder_cases) (auto simp: rnd_minus)
qed

end

interpretation dec28: sig_rounding 10 28
  by unfold_locales auto

interpretation bin53: sig_rounding 2 53
  by unfold_locales auto

section \<open>Decimal arithmetic\<close>

type_synonym decimal = rat
type_synonym pyfloat = rat

definition dec :: "rat \<Rightarrow> decimal" where
  "dec x = sig_round 10 28 x"

definition d_add :: "decimal \<Rightarrow> decimal \<Rightarrow> decimal" where
  "d_add x y = dec (x + y)"

definition d_sub :: "decimal \<Rightarrow> decimal \<Rightarrow> decimal" where
  "d_sub x y = dec (x - y)"

definition d_mul :: "decimal \<Rightarrow> decimal \<Rightarrow> decimal" where
  "d_mul x y = dec (x * y)"

text \<open>Division; every caller excludes a zero divisor, where Python raises.\<close>

definition d_div :: "decimal \<Rightarrow> decimal \<Rightarrow> decimal" where
  "d_div x y = dec (x / y)"

definition d_neg :: "decimal \<Rightarrow> decimal" where
  "d_neg x = dec (- x)"

text \<open>\<open>sum(xs, Decimal("0"))\<close>.\<close>

definition d_sum :: "decimal list \<Rightarrow> decimal" where
  "d_sum xs = foldl d_add 0 xs"

text \<open>
  \<open>x.quantize(Decimal("1e-n"))\<close> (also \<open>round(x, n)\<close>): half even to \<open>n\<close> places,
  \<open>None\<close> for the \<open>InvalidOperation\<close> raised when the coefficient needs more than 28 digits.
\<close>

definition quantize :: "nat \<Rightarrow> decimal \<Rightarrow> decimal option" where
  "quantize n x = (let c = rhe (x * 10 ^ n) in if 10 ^ 28 \<le> \<bar>c\<bar> then None else Some (of_int c / 10 ^ n))"

lemma dec_0 [simp]: "dec 0 = 0"
  by (simp add: dec_def)

lemma dec_mono: "x \<le> y \<Longrightarrow> dec x \<le> dec y"
  unfolding dec_def by (rule dec28.rnd_mono)

lemma dec_nonneg: "0 \<le> x \<Longrightarrow> 0 \<le> dec x"
  unfolding dec_def by (rule dec28.rnd_nonneg)

lemma dec_pos: "0 < x \<Longrightarrow> 0 < dec x"
  unfolding dec_def by (rule dec28.rnd_pos)

lemma dec_minus: "dec (- x) = - dec x"
  unfolding dec_def by (rule dec28.rnd_minus)

lemma dec_nonpos: "x \<le> 0 \<Longrightarrow> dec x \<le> 0"
  using dec_nonneg [of "- x"] by (simp add: dec_minus)

lemma dec_neg: "x < 0 \<Longrightarrow> dec x < 0"
  using dec_pos [of "- x"] by (simp add: dec_minus)

lemma dec_idem [simp]: "dec (dec x) = dec x"
  by (simp add: dec_def)

lemma dec_pos_iff [simp]: "0 < dec x \<longleftrightarrow> 0 < x"
  using dec_pos dec_nonpos [of x] by (metis not_le)

lemma dec_neg_iff [simp]: "dec x < 0 \<longleftrightarrow> x < 0"
  using dec_neg dec_nonneg [of x] by (metis not_le)

lemma dec_nonneg_iff [simp]: "0 \<le> dec x \<longleftrightarrow> 0 \<le> x"
  by (metis dec_neg_iff not_le)

lemma dec_nonpos_iff [simp]: "dec x \<le> 0 \<longleftrightarrow> x \<le> 0"
  by (metis dec_pos_iff not_le)

lemma dec_eq_0_iff [simp]: "dec x = 0 \<longleftrightarrow> x = 0"
  by (cases x "0::rat" rule: linorder_cases) (auto dest: dec_pos dec_neg)

lemma dec_error: "\<bar>dec x - x\<bar> \<le> \<bar>x\<bar> / (2 * 10 ^ 27)"
  using dec28.rnd_rel_error [of x] by (simp add: dec_def)

text \<open>Integer multiples of a power of ten with at most 28 digits are decimals.\<close>

lemma dec_exact: "\<bar>c\<bar> < 10 ^ 28 \<Longrightarrow> dec (of_int c / 10 ^ n) = of_int c / 10 ^ n"
  using dec28.rnd_exact [of c "- int n"] by (simp add: dec_def power_int_minus field_simps)

lemma d_add_le: "x \<le> x' \<Longrightarrow> y \<le> y' \<Longrightarrow> d_add x y \<le> d_add x' y'"
  unfolding d_add_def by (rule dec_mono) simp

lemma d_sub_le_0_iff [simp]: "d_sub x y \<le> 0 \<longleftrightarrow> x \<le> y"
  by (simp add: d_sub_def)

lemma d_sub_pos_iff [simp]: "0 < d_sub x y \<longleftrightarrow> y < x"
  by (simp add: d_sub_def)

lemma d_sub_nonneg_iff [simp]: "0 \<le> d_sub x y \<longleftrightarrow> y \<le> x"
  by (simp add: d_sub_def)

lemma d_mul_nonneg: "0 \<le> x \<Longrightarrow> 0 \<le> y \<Longrightarrow> 0 \<le> d_mul x y"
  by (simp add: d_mul_def)

lemma d_div_pos: "0 < x \<Longrightarrow> 0 < y \<Longrightarrow> 0 < d_div x y"
  by (simp add: d_div_def)

lemma d_add_nonneg: "0 \<le> x \<Longrightarrow> 0 \<le> y \<Longrightarrow> 0 \<le> d_add x y"
  by (simp add: d_add_def)

lemma foldl_d_add_nonneg: "0 \<le> a \<Longrightarrow> \<forall>x\<in>set xs. 0 \<le> x \<Longrightarrow> 0 \<le> foldl d_add a xs"
  by (induction xs arbitrary: a) (auto simp: d_add_nonneg)

lemma d_sum_nonneg: "\<forall>x\<in>set xs. 0 \<le> x \<Longrightarrow> 0 \<le> d_sum xs"
  by (simp add: d_sum_def foldl_d_add_nonneg)

section \<open>Floats\<close>

definition flt :: "rat \<Rightarrow> pyfloat" where
  "flt x = sig_round 2 53 x"

lemma flt_mono: "x \<le> y \<Longrightarrow> flt x \<le> flt y"
  unfolding flt_def by (rule bin53.rnd_mono)

lemma flt_0 [simp]: "flt 0 = 0"
  by (simp add: flt_def)

lemma flt_idem [simp]: "flt (flt x) = flt x"
  by (simp add: flt_def)

lemma flt_pos [simp]: "0 < flt x \<longleftrightarrow> 0 < x"
  by (metis flt_0 flt_def flt_mono bin53.rnd_pos not_le)

text \<open>
  \<open>Decimal(str(x))\<close> for a float: \<open>str\<close> gives the shortest decimal string that
  converts back to \<open>x\<close>, the nearest one when several have that length; 17 digits are
  always enough.
\<close>

definition repr_cand :: "pyfloat \<Rightarrow> nat \<Rightarrow> decimal option" where
  "repr_cand x n =
     (let u = 10 powi (mag 10 \<bar>x\<bar> - int n + 1);
          near = of_int (rhe (x / u)) * u; lo = of_int \<lfloor>x / u\<rfloor> * u; hi = of_int \<lceil>x / u\<rceil> * u
      in if flt near = x then Some near
         else if flt lo = x then Some lo
         else if flt hi = x then Some hi else None)"

definition repr_dec :: "pyfloat \<Rightarrow> decimal" where
  "repr_dec x =
     (if x = 0 then 0
      else case List.find (\<lambda>n. repr_cand x n \<noteq> None) [1..<18] of
             None \<Rightarrow> x
           | Some n \<Rightarrow> (case repr_cand x n of None \<Rightarrow> x | Some d \<Rightarrow> d))"

lemma flt_repr_cand: "repr_cand x n = Some d \<Longrightarrow> flt d = x"
  by (auto simp: repr_cand_def Let_def split: if_splits)

text \<open>Converting a float to a decimal through its string and back is the identity.\<close>

lemma flt_repr_dec:
  assumes "flt x = x" shows "flt (repr_dec x) = x"
proof (cases "List.find (\<lambda>n. repr_cand x n \<noteq> None) [1..<18]")
  case None
  then show ?thesis using assms by (simp add: repr_dec_def del: upt_rec_numeral)
next
  case (Some n)
  then show ?thesis using assms flt_repr_cand [of x n]
    by (cases "repr_cand x n") (simp_all add: repr_dec_def del: upt_rec_numeral)
qed

lemma repr_dec_pos: "flt x = x \<Longrightarrow> 0 < repr_dec x \<longleftrightarrow> 0 < x"
  by (metis flt_pos flt_repr_dec)

section \<open>Parsing\<close>

text \<open>
  The constructor \<open>Decimal(text)\<close>: surrounding white space and underscores are dropped; the
  rest is a signed number with optional fraction and exponent, or a name for an infinity or a
  NaN; anything else raises \<open>InvalidOperation\<close> (\<open>None\<close>). The constructor does not round.
\<close>

datatype dec_value = Finite rat | Infinite bool \<comment> \<open>negative\<close> | NotANumber

text \<open>
  The comparison \<open>x > y\<close> of a finite decimal with any decimal, and \<open>y >= 0\<close>: an ordering
  comparison with a NaN raises \<open>InvalidOperation\<close>.
\<close>

fun gt_value :: "decimal \<Rightarrow> dec_value \<Rightarrow> bool outcome" where
  "gt_value x (Finite y) = Inr (y < x)"
| "gt_value x (Infinite neg) = Inr neg"
| "gt_value x NotANumber = Inl InvalidOperation"

fun le_value :: "decimal \<Rightarrow> dec_value \<Rightarrow> bool outcome" where
  "le_value x (Finite y) = Inr (x \<le> y)"
| "le_value x (Infinite neg) = Inr (\<not> neg)"
| "le_value x NotANumber = Inl InvalidOperation"

definition is_digit :: "char \<Rightarrow> bool" where
  "is_digit c = (let n = (of_char c :: nat) in 48 \<le> n \<and> n \<le> 57)"

definition digits_value :: "string \<Rightarrow> int" where
  "digits_value s = foldl (\<lambda>a c. 10 * a + (int (of_char c) - 48)) 0 s"

definition split_sign :: "string \<Rightarrow> bool \<times> string" where
  "split_sign s =
     (case s of [] \<Rightarrow> (False, []) | c # cs \<Rightarrow>
        if c = CHR ''-'' then (True, cs) else if c = CHR ''+'' then (False, cs) else (False, s))"

definition parse_exponent :: "string \<Rightarrow> int option" where
  "parse_exponent s =
     (case s of [] \<Rightarrow> Some 0 | c # cs \<Rightarrow>
        if lower_char c \<noteq> CHR ''e'' then None
        else let (neg, ds) = split_sign cs
             in if ds = [] \<or> \<not> list_all is_digit ds then None
                else Some (if neg then - digits_value ds else digits_value ds))"

definition parse_number :: "string \<Rightarrow> rat option" where
  "parse_number u =
     (let ip = takeWhile is_digit u; r1 = dropWhile is_digit u;
          fp = (case r1 of [] \<Rightarrow> [] | c # cs \<Rightarrow> if c = CHR ''.'' then takeWhile is_digit cs else []);
          r2 = (case r1 of [] \<Rightarrow> [] | c # cs \<Rightarrow> if c = CHR ''.'' then dropWhile is_digit cs else r1)
      in if ip = [] \<and> fp = [] then None
         else case parse_exponent r2 of None \<Rightarrow> None
              | Some e \<Rightarrow> Some (of_int (digits_value (ip @ fp)) * 10 powi (e - int (length fp))))"

definition parse_decimal :: "string \<Rightarrow> dec_value option" where
  "parse_decimal s =
     (let (neg, u) = split_sign (filter (\<lambda>c. c \<noteq> CHR ''_'') (strip s)); l = lower u
      in if l = ''inf'' \<or> l = ''infinity'' then Some (Infinite neg)
         else if starts_with ''nan'' l \<and> list_all is_digit (drop 3 l) then Some NotANumber
         else if starts_with ''snan'' l \<and> list_all is_digit (drop 4 l) then Some NotANumber
         else case parse_number u of None \<Rightarrow> None
              | Some v \<Rightarrow> Some (Finite (if neg then - v else v)))"

text \<open>
  \<open>int(text)\<close>: surrounding white space is dropped, a sign is allowed, and single underscores
  may stand between digits; \<open>None\<close> is \<open>ValueError\<close>.
\<close>

fun underscores_ok :: "bool \<Rightarrow> string \<Rightarrow> bool" where
  "underscores_ok prev [] = prev"
| "underscores_ok prev (c # cs) =
     (if c = CHR ''_'' then prev \<and> underscores_ok False cs else is_digit c \<and> underscores_ok True cs)"

definition parse_int :: "string \<Rightarrow> int option" where
  "parse_int s =
     (let (neg, ds) = split_sign (strip s)
      in if underscores_ok False ds
         then let v = digits_value (filter (\<lambda>c. c \<noteq> CHR ''_'') ds) in Some (if neg then - v else v)
         else None)"

end
