(* ===== verification/Py_Text.thy ===== *)
theory Py_Text
  imports Py_Number
begin

text \<open>
  The text that f-strings of the source produce for numbers and timestamps. Some of it is
  read back: idempotency keys are compared by the database and error messages are searched
  for markers. An integer prints in decimal; a decimal prints in plain notation without
  trailing zeros (the scale of a \<open>Decimal\<close> is not part of the number model); a UTC
  timestamp prints as \<open>str(datetime)\<close> does.
\<close>

definition digit_char :: "int \<Rightarrow> char" where
  "digit_char d = char_of (nat (d + 48))"

function nat_digits :: "int \<Rightarrow> string" where
  "nat_digits n = (if n < 10 then [digit_char n] else nat_digits (n div 10) @ [digit_char (n mod 10)])"
  by pat_completeness auto
termination
  by (relation "measure nat") auto

declare nat_digits.simps [simp del]

definition int_str :: "int \<Rightarrow> string" where
  "int_str n = (if n < 0 then CHR ''-'' # nat_digits (- n) else nat_digits n)"

text \<open>The first \<open>n\<close> digits after the point of a number in [0, 1), up to the last non-zero one.\<close>

fun frac_digits :: "nat \<Rightarrow> rat \<Rightarrow> string" where
  "frac_digits 0 x = []"
| "frac_digits (Suc n) x =
     (if x = 0 then [] else digit_char \<lfloor>10 * x\<rfloor> # frac_digits n (10 * x - of_int \<lfloor>10 * x\<rfloor>))"

definition dec_str :: "decimal \<Rightarrow> string" where
  "dec_str x =
     (let a = \<bar>x\<bar>; i = \<lfloor>a\<rfloor>; f = frac_digits 60 (a - of_int i)
      in (if x < 0 then ''-'' else '''') @ nat_digits i @ (if f = [] then '''' else CHR ''.'' # f))"

text \<open>\<open>f"{x:.4f}"\<close> and its kin: rounded half to even, always with \<open>n\<close> digits after the point.\<close>

definition fixed_str :: "nat \<Rightarrow> decimal \<Rightarrow> string" where
  "fixed_str n x =
     (let k = rhe (\<bar>x\<bar> * 10 ^ n); f = nat_digits (k mod 10 ^ n)
      in (if x < 0 then ''-'' else '''') @ nat_digits (k div 10 ^ n) @ CHR ''.'' #
         replicate (n - length f) (CHR ''0'') @ f)"

text \<open>\<open>repr\<close> of a text without quotes in it.\<close>

definition quoted :: "string \<Rightarrow> string" where
  "quoted s = [char_of (39 :: nat)] @ s @ [char_of (39 :: nat)]"

text \<open>\<open>str(x)\<close> of a float between 1e-4 and 1e16: its shortest digits, with \<open>.0\<close> for a whole number.\<close>

definition float_str :: "pyfloat \<Rightarrow> string" where
  "float_str x = (let s = dec_str (repr_dec x) in if CHR ''.'' \<in> set s then s else s @ ''.0'')"

fun value_str :: "dec_value \<Rightarrow> string" where
  "value_str (Finite x) = dec_str x"
| "value_str (Infinite neg) = (if neg then ''-Infinity'' else ''Infinity'')"
| "value_str NotANumber = ''NaN''"

definition pad :: "nat \<Rightarrow> int \<Rightarrow> string" where
  "pad w n = (let s = nat_digits n in replicate (w - length s) (CHR ''0'') @ s)"

text \<open>Year, month and day of a day number counted from 1970-01-01 (proleptic Gregorian).\<close>

definition civil :: "int \<Rightarrow> int \<times> int \<times> int" where
  "civil days =
     (let z = days + 719468; era = z div 146097; doe = z - era * 146097;
          yoe = (doe - doe div 1460 + doe div 36524 - doe div 146096) div 365;
          doy = doe - (365 * yoe + yoe div 4 - yoe div 100);
          mp = (5 * doy + 2) div 153; d = doy - (153 * mp + 2) div 5 + 1;
          m = (if mp < 10 then mp + 3 else mp - 9);
          y = yoe + era * 400 + (if m \<le> 2 then 1 else 0)
      in (y, m, d))"

definition datetime_str :: "time \<Rightarrow> string" where
  "datetime_str t =
     (let us = t mod 1000000; s = t div 1000000; days = s div 86400; r = s mod 86400;
          (y, m, d) = civil days
      in pad 4 y @ ''-'' @ pad 2 m @ ''-'' @ pad 2 d @ '' '' @ pad 2 (r div 3600) @ '':'' @
         pad 2 ((r div 60) mod 60) @ '':'' @ pad 2 (r mod 60) @
         (if us = 0 then '''' else ''.'' @ pad 6 us) @ ''+00:00'')"

section \<open>Printing integers is injective\<close>

lemma of_digit_char: "0 \<le> d \<Longrightarrow> d < 10 \<Longrightarrow> (of_char (digit_char d) :: nat) = nat (d + 48)"
  by (simp add: digit_char_def of_char_of take_bit_nat_eq_self_iff)

lemma is_digit_digit_char: "0 \<le> d \<Longrightarrow> d < 10 \<Longrightarrow> is_digit (digit_char d)"
  by (simp add: is_digit_def of_digit_char Let_def nat_le_iff le_nat_iff)

lemma int_of_digit_char: "0 \<le> d \<Longrightarrow> d < 10 \<Longrightarrow> int (of_char (digit_char d)) = d + 48"
  by (simp add: of_digit_char)

lemma digits_value_snoc: "digits_value (s @ [c]) = 10 * digits_value s + (int (of_char c) - 48)"
  by (simp add: digits_value_def)

lemma nat_digits_ne [simp]: "nat_digits n \<noteq> []"
  by (subst nat_digits.simps) simp

lemma nat_digits_digits: "0 \<le> n \<Longrightarrow> \<forall>c\<in>set (nat_digits n). is_digit c"
proof (induction n rule: nat_digits.induct)
  case (1 n)
  show ?case
  proof (cases "n < 10")
    case True
    with 1 show ?thesis by (simp add: nat_digits.simps [of n] is_digit_digit_char)
  next
    case False
    with 1 show ?thesis by (simp add: nat_digits.simps [of n] is_digit_digit_char)
  qed
qed

lemma digits_value_nat_digits: "0 \<le> n \<Longrightarrow> digits_value (nat_digits n) = n"
proof (induction n rule: nat_digits.induct)
  case (1 n)
  show ?case
  proof (cases "n < 10")
    case True
    with 1 show ?thesis
      using int_of_digit_char [of n] digits_value_snoc [of "[]" "digit_char n"]
      by (simp add: nat_digits.simps [of n] digits_value_def)
  next
    case False
    with 1 show ?thesis
      by (simp add: nat_digits.simps [of n] digits_value_snoc int_of_digit_char)
  qed
qed

lemma minus_not_digit: "\<not> is_digit (CHR ''-'')"
  by (simp add: is_digit_def)

text \<open>\<open>int\<close> of a printed digit sequence is the number printed.\<close>

definition int_of_str :: "string \<Rightarrow> int" where
  "int_of_str s = (let (neg, ds) = split_sign s in if neg then - digits_value ds else digits_value ds)"

lemma split_sign_digits:
  assumes "0 \<le> n" shows "split_sign (nat_digits n) = (False, nat_digits n)"
proof -
  obtain c cs where c: "nat_digits n = c # cs" by (cases "nat_digits n") auto
  have "is_digit c" using nat_digits_digits [OF assms] c by simp
  then have "c \<noteq> CHR ''-''" "c \<noteq> CHR ''+''" by (auto simp: is_digit_def)
  then show ?thesis by (simp add: c split_sign_def)
qed

lemma int_of_int_str: "int_of_str (int_str n) = n"
  using split_sign_digits [of n] digits_value_nat_digits [of n] digits_value_nat_digits [of "- n"]
  by (auto simp: int_of_str_def int_str_def split_sign_def [of "CHR ''-'' # _"])

lemma int_str_inject [simp]: "int_str m = int_str n \<longleftrightarrow> m = n"
  by (metis int_of_int_str)

end
