(* ===== verification/Exec_Store.thy ===== *)
theory Exec_Store
  imports Exec_States Py_Text
begin

text \<open>
  The tables of \<open>db/execution_models.py\<close> and the columns of \<open>TradeHistory\<close>,
  \<open>LiveMarket\<close> and \<open>RuntimeSettings\<close> (\<open>db/models.py\<close>) the execution subsystem reads
  and writes. A row is a record, a table the list of its rows, the database the record of the
  tables. UUID primary keys are natural numbers. The partial unique indexes and the CHECK
  constraints of \<open>execution_requests\<close> are part of the insert operation, and the uniqueness
  they guarantee is the invariant \<open>db_ok\<close>, which the later theories show every operation
  keeps. Numeric columns hold the decimal the code assigned: the rounding of a
  \<open>Numeric(38, 18)\<close> column to 18 places is not modelled.
\<close>

section \<open>Rows\<close>

record exec_request =
  rq_id :: nat
  rq_idempotency_key :: "string option"
  rq_mode :: exec_mode
  rq_trade_id :: int
  rq_intent :: intent
  rq_trigger :: "reason option"
  rq_market_id :: string
  rq_asset :: string
  rq_source_paper_id :: "nat option"
  rq_live_session_id :: "nat option"
  rq_outcome :: string
  rq_requested_shares :: "decimal option"
  rq_target_amount :: decimal
  rq_max_slippage_pct :: pyfloat
  rq_ttl_seconds :: int
  rq_limit_price :: "decimal option"
  rq_max_spend :: "decimal option"
  rq_max_acceptable :: "decimal option"
  rq_order_mode :: "string option"
  rq_post_only :: bool
  rq_submit_quote_price :: "pyfloat option"
  rq_submit_quote_at :: "time option"
  rq_submitted_limit :: "pyfloat option"
  rq_terminal_code :: "string option"
  rq_state :: req_state
  rq_created_at :: time
  rq_updated_at :: time
  rq_expires_at :: "time option"
  rq_claimed_at :: "time option"
  rq_lease_expires_at :: "time option"
  rq_claimed_by :: "string option"
  rq_position_version :: "int option"
  rq_error_reason :: "string option"
  rq_filled_shares :: decimal
  rq_filled_cost :: decimal

datatype attempt_status = IN_PROGRESS | ATT_SUCCESS | ATT_FAILED | ATT_UNKNOWN

record exec_attempt =
  at_id :: nat
  at_request_id :: nat
  at_gateway :: string
  at_no :: int
  at_started_at :: time
  at_finished_at :: "time option"
  at_status :: attempt_status
  at_provider_status :: "string option"
  at_provider_order_id :: "string option"
  at_submission_key :: "string option"
  at_tx_hash :: "string option"
  at_error :: "string option"
  at_trade_ids :: "string list"
  at_tx_hashes :: "string list"
  at_settlement :: string

record exec_fill =
  fl_attempt_id :: nat
  fl_trade_id :: "string option"
  fl_gateway :: "string option"
  fl_price :: decimal
  fl_shares :: decimal
  fl_fee :: decimal
  fl_gross :: "decimal option"
  fl_timestamp :: time

record exec_event =
  ev_level :: string
  ev_type :: string
  ev_message :: string
  ev_source :: string
  ev_trade_id :: "int option"
  ev_request_id :: "nat option"
  ev_created_at :: time

record exposure_reservation =
  rs_request_id :: nat
  rs_trade_id :: int
  rs_market_id :: string
  rs_amount :: decimal
  rs_expires_at :: time
  rs_created_at :: time
  rs_released_at :: "time option"

record worker_status =
  ws_id :: string
  ws_mode :: exec_mode
  ws_heartbeat_at :: time
  ws_gateway_ready :: bool
  ws_credentials :: bool
  ws_wallet :: "string option"
  ws_balance :: "decimal option"
  ws_collateral_ready :: "bool option"
  ws_conditional_ready :: "bool option"
  ws_chain_id :: "int option"
  ws_error_code :: "string option"
  ws_error_message :: "string option"
  ws_checked_at :: "time option"
  ws_success_at :: "time option"

datatype session_status = DRAFT_S | READY_S | ACTIVE_S | BUDGET_EXHAUSTED_S | STOPPED_S | ERROR_S

record live_session =
  ls_id :: nat
  ls_status :: session_status
  ls_budget :: decimal
  ls_order_amount :: "decimal option"
  ls_reserved :: decimal
  ls_filled :: decimal
  ls_max_single :: decimal
  ls_max_exposure :: decimal
  ls_assets :: "string list"
  ls_max_open :: int
  ls_started_at :: "time option"
  ls_stopped_at :: "time option"
  ls_stop_reason :: "string option"

text \<open>The columns of a trade that record the decision behind it; the release gate copies them to the LIVE trade.\<close>

record trade_signal =
  sg_predicted_flip_prob :: pyfloat
  sg_active_features :: string
  sg_model_version :: "int option"
  sg_edge :: "pyfloat option"
  sg_net_edge :: "dec_value option"
  sg_gross_edge :: "pyfloat option"
  sg_p_flip_effective :: "pyfloat option"
  sg_model_key :: "string option"
  sg_confirm_model_key :: "string option"
  sg_confirm_model_version :: "int option"
  sg_attribution :: "string option"
  sg_direction_model_key :: "string option"
  sg_direction_model_version :: "int option"
  sg_entry_model_key :: "string option"
  sg_entry_model_version :: "int option"
  sg_entry_model_source :: "string option"
  sg_decision_run_id :: "string option"
  sg_config_snapshot :: "string option"

record trade =
  tr_id :: int
  tr_asset :: string
  tr_market_id :: string
  tr_outcome :: string
  tr_mode :: exec_mode
  tr_live_session_id :: "nat option"
  tr_status :: string
  tr_position :: pos_status
  tr_exit_reason :: "reason option"
  tr_error_msg :: "string option"
  tr_amount_usdc :: pyfloat
  tr_executed_price :: pyfloat
  tr_pnl :: "pyfloat option"
  tr_closed_at :: "time option"
  tr_close_price :: "decimal option"
  tr_entry_filled :: "decimal option"
  tr_entry_cost :: "decimal option"
  tr_remaining :: "decimal option"
  tr_realized_pnl :: "decimal option"
  tr_accounting_version :: int
  tr_position_version :: int
  tr_last_exit_error :: "string option"
  tr_exit_attempts :: int
  tr_market_end :: "time option"
  tr_sl_pct :: "pyfloat option"
  tr_sl_price :: "pyfloat option"
  tr_sl_status :: "string option"
  tr_sl_hit_at :: "time option"
  tr_sl_sell_price :: "pyfloat option"
  tr_tp_enabled :: bool
  tr_tp_multiplier :: "pyfloat option"
  tr_tp_price :: "pyfloat option"
  tr_tp_status :: "string option"
  tr_tp_hit_at :: "time option"
  tr_tp_sell_price :: "pyfloat option"
  tr_settlement_outcome :: "string option"
  tr_expected_payout :: "decimal option"
  tr_redeemable :: "decimal option"
  tr_redemption_status :: string
  tr_strategy_type :: "string option"
  tr_strategy_name :: "string option"
  tr_market_role :: "string option"
  tr_p_candidate_win :: "pyfloat option"
  tr_p_win_effective :: "pyfloat option"
  tr_cost_buffer :: "pyfloat option"
  tr_source_paper_id :: "int option"
  tr_signal :: trade_signal

record live_market =
  mk_id :: string
  mk_yes_token :: string
  mk_no_token :: string
  mk_end_time :: "time option"
  mk_trading_status :: string
  mk_resolution_status :: string
  mk_final_outcome :: "string option"
  mk_accepting :: bool
  mk_last_updated :: time

text \<open>The buffer between PAPER and LIVE; the snapshot is what \<open>_build_signal_snapshot\<close> of the mirror returns.\<close>

record signal_snapshot =
  sn_market_id :: string
  sn_asset :: string
  sn_outcome :: string
  sn_target_amount :: decimal
  sn_requested_shares :: "decimal option"
  sn_limit_price :: "decimal option"
  sn_max_acceptable :: "decimal option"
  sn_model_key :: "string option"
  sn_model_version :: "int option"
  sn_confirm_model_key :: "string option"
  sn_confirm_model_version :: "int option"
  sn_edge :: "pyfloat option"
  sn_market_role :: "string option"
  sn_predicted_flip_prob :: pyfloat
  sn_config_snapshot :: "string option"
  sn_source_created_at :: time

datatype candidate_state = NEW_C | ELIGIBLE_C | REJECTED_C | RELEASED_C

record candidate =
  mc_id :: nat
  mc_request_id :: nat
  mc_trade_id :: int
  mc_target :: exec_mode
  mc_state :: candidate_state
  mc_snapshot :: signal_snapshot
  mc_hash :: string
  mc_released_trade :: "int option"
  mc_released_request :: "nat option"
  mc_p_candidate_win :: "pyfloat option"
  mc_decision_ask :: "pyfloat option"
  mc_decision_net_edge :: "dec_value option"
  mc_cost_buffer :: "pyfloat option"
  mc_entry_model_source :: "string option"
  mc_direction_model_key :: "string option"
  mc_max_acceptable :: "pyfloat option"
  mc_rejection :: "string option"
  mc_created_at :: time
  mc_released_at :: "time option"

record db =
  db_requests :: "exec_request list"
  db_attempts :: "exec_attempt list"
  db_fills :: "exec_fill list"
  db_events :: "exec_event list"
  db_reservations :: "exposure_reservation list"
  db_workers :: "worker_status list"
  db_sessions :: "live_session list"
  db_trades :: "trade list"
  db_markets :: "live_market list"
  db_settings :: "string \<Rightarrow> string option"
  db_candidates :: "candidate list"

section \<open>Access by primary key\<close>

definition get_request :: "db \<Rightarrow> nat \<Rightarrow> exec_request option" where
  "get_request d i = List.find (\<lambda>r. rq_id r = i) (db_requests d)"

definition get_trade :: "db \<Rightarrow> int \<Rightarrow> trade option" where
  "get_trade d i = List.find (\<lambda>t. tr_id t = i) (db_trades d)"

definition get_attempt :: "db \<Rightarrow> nat \<Rightarrow> exec_attempt option" where
  "get_attempt d i = List.find (\<lambda>a. at_id a = i) (db_attempts d)"

definition get_market :: "db \<Rightarrow> string \<Rightarrow> live_market option" where
  "get_market d i = List.find (\<lambda>m. mk_id m = i) (db_markets d)"

definition upd_request :: "nat \<Rightarrow> (exec_request \<Rightarrow> exec_request) \<Rightarrow> db \<Rightarrow> db" where
  [row_defs]: "upd_request i f d = d\<lparr>db_requests := update_where (\<lambda>r. rq_id r = i) f (db_requests d)\<rparr>"

definition upd_trade :: "int \<Rightarrow> (trade \<Rightarrow> trade) \<Rightarrow> db \<Rightarrow> db" where
  [row_defs]: "upd_trade i f d = d\<lparr>db_trades := update_where (\<lambda>t. tr_id t = i) f (db_trades d)\<rparr>"

definition upd_attempt :: "nat \<Rightarrow> (exec_attempt \<Rightarrow> exec_attempt) \<Rightarrow> db \<Rightarrow> db" where
  [row_defs]: "upd_attempt i f d = d\<lparr>db_attempts := update_where (\<lambda>a. at_id a = i) f (db_attempts d)\<rparr>"

definition add_event :: "exec_event \<Rightarrow> db \<Rightarrow> db" where
  [row_defs]: "add_event e d = d\<lparr>db_events := db_events d @ [e]\<rparr>"

text \<open>\<open>select(...).where(request_id == req.id).values(released_at=now)\<close>.\<close>

definition release_reservation :: "nat \<Rightarrow> time \<Rightarrow> db \<Rightarrow> db" where
  [row_defs]: "release_reservation i now d =
     d\<lparr>db_reservations :=
         update_where (\<lambda>r. rs_request_id r = i \<and> rs_released_at r = None)
           (\<lambda>r. r\<lparr>rs_released_at := Some now\<rparr>) (db_reservations d)\<rparr>"

section \<open>The constraints of execution_requests\<close>

definition ACTIVE_OPEN_PREDICATE :: "exec_request \<Rightarrow> bool" where
  "ACTIVE_OPEN_PREDICATE r \<longleftrightarrow> rq_intent r = OPEN \<and> rq_state r \<in>
     {AWAITING_APPROVAL, READY, CLAIMED, SUBMITTING, ACCEPTED, UNKNOWN, PARTIALLY_FILLED,
      RECONCILING, MANUAL_REVIEW_REQUIRED}"

definition ACTIVE_CLOSE_PREDICATE :: "exec_request \<Rightarrow> bool" where
  "ACTIVE_CLOSE_PREDICATE r \<longleftrightarrow> rq_intent r = CLOSE \<and> rq_state r \<in>
     {AWAITING_APPROVAL, READY, CLAIMED, SUBMITTING, ACCEPTED, UNKNOWN, PARTIALLY_FILLED,
      RECONCILING, MANUAL_REVIEW_REQUIRED}"

text \<open>Two rows collide in the unique index \<open>uq_active_open_request\<close> or \<open>uq_active_close_request\<close>.\<close>

definition uq_active_open_request :: "exec_request \<Rightarrow> exec_request \<Rightarrow> bool" where
  "uq_active_open_request r s \<longleftrightarrow> ACTIVE_OPEN_PREDICATE r \<and> ACTIVE_OPEN_PREDICATE s \<and>
     rq_mode r = rq_mode s \<and> rq_market_id r = rq_market_id s"

definition uq_active_close_request :: "exec_request \<Rightarrow> exec_request \<Rightarrow> bool" where
  "uq_active_close_request r s \<longleftrightarrow> ACTIVE_CLOSE_PREDICATE r \<and> ACTIVE_CLOSE_PREDICATE s \<and>
     rq_trade_id r = rq_trade_id s"

definition ck_positive_shares :: "exec_request \<Rightarrow> bool" where
  "ck_positive_shares r \<longleftrightarrow> (case rq_requested_shares r of None \<Rightarrow> True | Some s \<Rightarrow> 0 < s)"

definition same_key :: "exec_request \<Rightarrow> exec_request \<Rightarrow> bool" where
  "same_key r s \<longleftrightarrow>
     (case rq_idempotency_key r of None \<Rightarrow> False | Some k \<Rightarrow> rq_idempotency_key s = Some k)"

text \<open>
  \<open>INSERT ... ON CONFLICT (index) DO NOTHING RETURNING id\<close>: a collision in the named partial
  index skips the insert (\<open>None\<close>), any other violated constraint raises.
\<close>

definition insert_request ::
  "(exec_request \<Rightarrow> exec_request \<Rightarrow> bool) \<Rightarrow> exec_request \<Rightarrow> db \<Rightarrow> (nat option \<times> db) outcome" where
  "insert_request arbiter r d =
     (if \<not> ck_positive_shares r then Inl (IntegrityError ''ck_execution_request_positive_shares'')
      else if \<exists>s\<in>set (db_requests d). arbiter r s then Inr (None, d)
      else if \<exists>s\<in>set (db_requests d). rq_id s = rq_id r then Inl (IntegrityError ''execution_requests_pkey'')
      else if \<exists>s\<in>set (db_requests d). same_key r s then Inl (IntegrityError ''idempotency_key'')
      else if \<exists>s\<in>set (db_requests d). uq_active_open_request r s then Inl (IntegrityError ''uq_active_open_request'')
      else if \<exists>s\<in>set (db_requests d). uq_active_close_request r s then Inl (IntegrityError ''uq_active_close_request'')
      else Inr (Some (rq_id r), d\<lparr>db_requests := db_requests d @ [r]\<rparr>))"

section \<open>The invariant of the store\<close>

definition pairwise_rows :: "('r \<Rightarrow> 'r \<Rightarrow> bool) \<Rightarrow> 'r list \<Rightarrow> bool" where
  "pairwise_rows R rows \<longleftrightarrow> (\<forall>i<length rows. \<forall>j<length rows. R (rows ! i) (rows ! j) \<longrightarrow> i = j)"

definition requests_ok :: "exec_request list \<Rightarrow> bool" where
  "requests_ok rs \<longleftrightarrow> distinct (map rq_id rs) \<and> pairwise_rows uq_active_open_request rs \<and>
     pairwise_rows uq_active_close_request rs \<and> pairwise_rows same_key rs"

definition db_ok :: "db \<Rightarrow> bool" where
  "db_ok d \<longleftrightarrow> requests_ok (db_requests d) \<and> distinct (map tr_id (db_trades d)) \<and>
     distinct (map at_id (db_attempts d)) \<and> distinct (map rs_request_id (db_reservations d))"

lemma pairwise_rows_Nil [simp]: "pairwise_rows R []"
  by (simp add: pairwise_rows_def)

lemma pairwise_rows_append1:
  assumes "pairwise_rows R rows" "\<forall>s\<in>set rows. \<not> R r s \<and> \<not> R s r"
  shows "pairwise_rows R (rows @ [r])"
  using assms by (fastforce simp: pairwise_rows_def nth_append less_Suc_eq)

text \<open>An update that makes no new pair related keeps pairwise uniqueness.\<close>

lemma pairwise_rows_update:
  assumes "pairwise_rows R rows"
    and "\<And>r s. r \<in> set rows \<Longrightarrow> s \<in> set rows \<Longrightarrow>
           R (if P r then f r else r) (if P s then f s else s) \<Longrightarrow> R r s"
  shows "pairwise_rows R (update_where P f rows)"
  unfolding pairwise_rows_def
proof (intro allI impI)
  fix i j
  assume ij: "i < length (update_where P f rows)" "j < length (update_where P f rows)"
    and "R (update_where P f rows ! i) (update_where P f rows ! j)"
  then have "R (rows ! i) (rows ! j)" using assms(2) [of "rows ! i" "rows ! j"]
    by (simp add: update_where_def)
  with assms(1) ij show "i = j" by (simp add: pairwise_rows_def)
qed

lemma requests_ok_snoc:
  assumes "requests_ok rs" "rq_id r \<notin> rq_id ` set rs"
    and "\<forall>s\<in>set rs. \<not> same_key r s \<and> \<not> uq_active_open_request r s \<and> \<not> uq_active_close_request r s"
  shows "requests_ok (rs @ [r])"
  using assms unfolding requests_ok_def
  by (auto intro!: pairwise_rows_append1
      simp: same_key_def uq_active_open_request_def uq_active_close_request_def split: option.splits)

lemma insert_request_ok:
  assumes "db_ok d" "insert_request arb r d = Inr (k, d')"
  shows "db_ok d'"
proof (cases "k")
  case None
  with assms show ?thesis by (auto simp: insert_request_def split: if_splits)
next
  case (Some i)
  then have d': "d' = d\<lparr>db_requests := db_requests d @ [r]\<rparr>"
    and fresh: "rq_id r \<notin> rq_id ` set (db_requests d)"
    and free: "\<forall>s\<in>set (db_requests d). \<not> same_key r s \<and> \<not> uq_active_open_request r s \<and>
      \<not> uq_active_close_request r s"
    using assms(2) by (auto simp: insert_request_def image_iff split: if_splits)
  show ?thesis using requests_ok_snoc [OF _ fresh free] assms(1) by (simp add: db_ok_def d')
qed

text \<open>
  What an update of one request may change for the store to stay well formed: its keys stay, and
  it does not become active again.
\<close>

definition keeps_request :: "exec_request \<Rightarrow> exec_request \<Rightarrow> bool" where
  "keeps_request r r' \<longleftrightarrow>
     rq_id r' = rq_id r \<and> rq_idempotency_key r' = rq_idempotency_key r \<and> rq_mode r' = rq_mode r \<and>
     rq_trade_id r' = rq_trade_id r \<and> rq_intent r' = rq_intent r \<and> rq_market_id r' = rq_market_id r \<and>
     (rq_state r' \<in> REQUEST_HOLD_STATES \<longrightarrow> rq_state r \<in> REQUEST_HOLD_STATES)"

lemma ACTIVE_OPEN_iff: "ACTIVE_OPEN_PREDICATE r \<longleftrightarrow> rq_intent r = OPEN \<and> rq_state r \<in> REQUEST_HOLD_STATES"
  by (simp add: ACTIVE_OPEN_PREDICATE_def REQUEST_HOLD_STATES_def)

lemma ACTIVE_CLOSE_iff: "ACTIVE_CLOSE_PREDICATE r \<longleftrightarrow> rq_intent r = CLOSE \<and> rq_state r \<in> REQUEST_HOLD_STATES"
  by (simp add: ACTIVE_CLOSE_PREDICATE_def REQUEST_HOLD_STATES_def)

lemma same_key_keeps:
  assumes "keeps_request r r'" "keeps_request s s'" "same_key r' s'" shows "same_key r s"
proof -
  have "rq_idempotency_key r' = rq_idempotency_key r" "rq_idempotency_key s' = rq_idempotency_key s"
    using assms(1,2) by (simp_all add: keeps_request_def)
  with assms(3) show ?thesis by (cases "rq_idempotency_key r") (simp_all add: same_key_def)
qed

lemma requests_ok_update:
  assumes ok: "requests_ok rs" and k: "\<And>r. r \<in> set rs \<Longrightarrow> P r \<Longrightarrow> keeps_request r (f r)"
  shows "requests_ok (update_where P f rs)"
proof -
  let ?g = "\<lambda>r. if P r then f r else r"
  have g: "keeps_request r (?g r)" if "r \<in> set rs" for r
    using k that by (auto simp: keeps_request_def)
  have ids: "map rq_id (update_where P f rs) = map rq_id rs"
    using g by (auto simp: update_where_def keeps_request_def)
  have pw: "pairwise_rows R (update_where P f rs)"
    if "pairwise_rows R rs" "\<And>r s r' s'. keeps_request r r' \<Longrightarrow> keeps_request s s' \<Longrightarrow> R r' s' \<Longrightarrow> R r s" for R
    using that g by (blast intro: pairwise_rows_update)
  have "pairwise_rows uq_active_open_request (update_where P f rs)"
    using ok by (intro pw) (auto simp: requests_ok_def uq_active_open_request_def ACTIVE_OPEN_iff keeps_request_def)
  moreover have "pairwise_rows uq_active_close_request (update_where P f rs)"
    using ok by (intro pw) (auto simp: requests_ok_def uq_active_close_request_def ACTIVE_CLOSE_iff keeps_request_def)
  moreover have "pairwise_rows same_key (update_where P f rs)"
    using ok same_key_keeps by (intro pw) (auto simp: requests_ok_def)
  ultimately show ?thesis using ok by (simp add: requests_ok_def ids)
qed

lemma upd_request_ok:
  assumes "db_ok d" "\<And>r. get_request d i = Some r \<Longrightarrow> keeps_request r (f r)"
  shows "db_ok (upd_request i f d)"
proof -
  have "keeps_request r (f r)" if r: "r \<in> set (db_requests d)" "rq_id r = i" for r
  proof (rule assms(2))
    show "get_request d i = Some r"
      using find_map_distinct [of rq_id "db_requests d" r] assms(1) r
      by (simp add: get_request_def db_ok_def requests_ok_def)
  qed
  then show ?thesis using assms(1)
    by (auto simp: db_ok_def upd_request_def intro!: requests_ok_update)
qed

lemma upd_trade_ok: "db_ok d \<Longrightarrow> (\<And>t. tr_id (f t) = tr_id t) \<Longrightarrow> db_ok (upd_trade i f d)"
  by (simp add: db_ok_def upd_trade_def map_update_where_key)

lemma upd_attempt_ok: "db_ok d \<Longrightarrow> (\<And>a. at_id (f a) = at_id a) \<Longrightarrow> db_ok (upd_attempt i f d)"
  by (simp add: db_ok_def upd_attempt_def map_update_where_key)

lemma add_event_ok: "db_ok (add_event e d) = db_ok d"
  by (simp add: db_ok_def add_event_def)

lemma release_reservation_ok: "db_ok (release_reservation i now d) = db_ok d"
  by (simp add: db_ok_def release_reservation_def map_update_where_key)

section \<open>Frame lemmas\<close>

lemma get_request_upd_request:
  "(\<And>r. rq_id (f r) = rq_id r) \<Longrightarrow>
   get_request (upd_request i f d) j = (if j = i then map_option f (get_request d i) else get_request d j)"
  by (simp add: get_request_def upd_request_def find_update_where_id find_update_where_other)

lemma get_trade_upd_trade:
  "(\<And>t. tr_id (f t) = tr_id t) \<Longrightarrow>
   get_trade (upd_trade i f d) j = (if j = i then map_option f (get_trade d i) else get_trade d j)"
  by (simp add: get_trade_def upd_trade_def find_update_where_id find_update_where_other)

lemma get_attempt_upd_attempt:
  "(\<And>a. at_id (f a) = at_id a) \<Longrightarrow>
   get_attempt (upd_attempt i f d) j = (if j = i then map_option f (get_attempt d i) else get_attempt d j)"
  by (simp add: get_attempt_def upd_attempt_def find_update_where_id find_update_where_other)

lemma get_request_frame [simp]:
  "get_request (upd_trade k g d) j = get_request d j"
  "get_request (upd_attempt a h d) j = get_request d j"
  "get_request (add_event e d) j = get_request d j"
  "get_request (release_reservation i now d) j = get_request d j"
  by (simp_all add: get_request_def row_defs)

lemma get_trade_frame [simp]:
  "get_trade (upd_request i f d) j = get_trade d j"
  "get_trade (upd_attempt a h d) j = get_trade d j"
  "get_trade (add_event e d) j = get_trade d j"
  "get_trade (release_reservation k now d) j = get_trade d j"
  by (simp_all add: get_trade_def row_defs)

lemma db_fields_frame [simp]:
  "db_fills (upd_request i f d) = db_fills d"
  "db_fills (upd_trade k g d) = db_fills d"
  "db_fills (upd_attempt a h d) = db_fills d"
  "db_fills (add_event e d) = db_fills d"
  "db_fills (release_reservation i now d) = db_fills d"
  "db_attempts (upd_request i f d) = db_attempts d"
  "db_attempts (upd_trade k g d) = db_attempts d"
  "db_attempts (add_event e d) = db_attempts d"
  "db_attempts (release_reservation i now d) = db_attempts d"
  "db_requests (upd_trade k g d) = db_requests d"
  "db_requests (upd_attempt a h d) = db_requests d"
  "db_requests (add_event e d) = db_requests d"
  "db_requests (release_reservation i now d) = db_requests d"
  "db_trades (upd_request i f d) = db_trades d"
  "db_trades (upd_attempt a h d) = db_trades d"
  "db_trades (add_event e d) = db_trades d"
  "db_trades (release_reservation i now d) = db_trades d"
  "db_reservations (upd_request i f d) = db_reservations d"
  "db_reservations (upd_trade k g d) = db_reservations d"
  "db_reservations (upd_attempt a h d) = db_reservations d"
  "db_reservations (add_event e d) = db_reservations d"
  "db_settings (upd_request i f d) = db_settings d"
  "db_settings (upd_trade k g d) = db_settings d"
  "db_settings (upd_attempt a h d) = db_settings d"
  "db_settings (add_event e d) = db_settings d"
  "db_settings (release_reservation i now d) = db_settings d"
  "db_markets (upd_request i f d) = db_markets d"
  "db_markets (upd_trade k g d) = db_markets d"
  "db_markets (upd_attempt a h d) = db_markets d"
  "db_markets (add_event e d) = db_markets d"
  "db_markets (release_reservation i now d) = db_markets d"
  by (simp_all add: upd_request_def upd_trade_def upd_attempt_def add_event_def release_reservation_def)

lemma get_requestD: "get_request d i = Some r \<Longrightarrow> r \<in> set (db_requests d) \<and> rq_id r = i"
  by (auto simp: get_request_def dest: find_SomeD)

lemma get_tradeD: "get_trade d i = Some t \<Longrightarrow> t \<in> set (db_trades d) \<and> tr_id t = i"
  by (auto simp: get_trade_def dest: find_SomeD)

text \<open>In a well-formed store a query for active requests of one key returns at most one row.\<close>

lemma active_open_query_le_1:
  assumes "requests_ok rs" "\<And>r. Q r \<Longrightarrow> ACTIVE_OPEN_PREDICATE r \<and> rq_mode r = m \<and> rq_market_id r = k"
  shows "length (filter Q rs) \<le> 1"
  using assms by (intro length_filter_le_1I)
    (auto simp: requests_ok_def pairwise_rows_def uq_active_open_request_def)

lemma active_close_query_le_1:
  assumes "requests_ok rs" "\<And>r. Q r \<Longrightarrow> ACTIVE_CLOSE_PREDICATE r \<and> rq_trade_id r = k"
  shows "length (filter Q rs) \<le> 1"
  using assms by (intro length_filter_le_1I)
    (auto simp: requests_ok_def pairwise_rows_def uq_active_close_request_def)

end
