(* ===== verification/Risk.thy ===== *)
theory Risk
  imports Exec_Store
begin

text \<open>
  \<open>execution/exposure.py\<close>, \<open>execution/risk_checks.py\<close> and the session lookup they use
  (\<open>execution/live_session_service.py\<close>, \<open>get_active_session\<close>). A check returns
  \<open>Inr None\<close> when the order may proceed, \<open>Inr (Some reason)\<close> when it is refused and
  \<open>Inl\<close> when an exception escapes. The checks run in the order of the source and the
  first refusal wins. Sums and quotients computed by the database are exact.
\<close>

section \<open>Reserved exposure\<close>

definition counts_as_reserved ::
  "db \<Rightarrow> exec_mode \<Rightarrow> string option \<Rightarrow> nat option \<Rightarrow> exposure_reservation \<Rightarrow> bool" where
  "counts_as_reserved d mode market exclude r \<longleftrightarrow>
     rs_released_at r = None \<and>
     (case get_request d (rs_request_id r) of None \<Rightarrow> False
      | Some q \<Rightarrow> rq_mode q = mode \<and> rq_state q \<in> ACTIVE_REQUEST_STATES) \<and>
     (case market of None \<Rightarrow> True | Some m \<Rightarrow> rs_market_id r = m) \<and>
     (case exclude of None \<Rightarrow> True | Some i \<Rightarrow> rs_request_id r \<noteq> i)"

definition get_reserved_exposure :: "db \<Rightarrow> exec_mode \<Rightarrow> string option \<Rightarrow> nat option \<Rightarrow> decimal" where
  "get_reserved_exposure d mode market exclude =
     sum_list (map rs_amount (filter (counts_as_reserved d mode market exclude) (db_reservations d)))"

section \<open>The active LIVE session\<close>

definition order_started_desc :: "live_session list \<Rightarrow> live_session list" where
  "order_started_desc ss =
     sort_key (\<lambda>s. case ls_started_at s of None \<Rightarrow> 0 | Some t \<Rightarrow> - t) (filter (\<lambda>s. ls_started_at s \<noteq> None) ss)
     @ filter (\<lambda>s. ls_started_at s = None) ss"

definition get_active_session :: "db \<Rightarrow> live_session option" where
  "get_active_session d =
     first_row (order_started_desc (filter (\<lambda>s. ls_status s = ACTIVE_S) (db_sessions d)))"

section \<open>Whether the financial limits apply\<close>

fun financial_limits_enabled :: "db \<Rightarrow> exec_mode \<Rightarrow> bool" where
  "financial_limits_enabled d PAPER = False"
| "financial_limits_enabled d LIVE = True"
| "financial_limits_enabled d SHADOW =
     (case db_settings d ''SHADOW_RISK_LIMITS_ENABLED'' of
        None \<Rightarrow> False | Some v \<Rightarrow> lower (strip v) = ''true'')"

definition mode_of_name :: "string \<Rightarrow> exec_mode option" where
  "mode_of_name s =
     (if s = ''PAPER'' then Some PAPER else if s = ''SHADOW'' then Some SHADOW
      else if s = ''LIVE'' then Some LIVE else None)"

lemma mode_of_mode_name [simp]: "mode_of_name (mode_name m) = Some m"
  by (cases m) (simp_all add: mode_of_name_def)

lemma mode_name_inject [simp]: "mode_name m = mode_name n \<longleftrightarrow> m = n"
  by (cases m; cases n) simp_all

section \<open>The limits\<close>

text \<open>
  A limit comes from the active session when it has a positive one, else from the settings. The
  handlers catch \<open>ValueError\<close> and \<open>TypeError\<close>; \<open>Decimal("text")\<close> raises
  \<open>InvalidOperation\<close>, which is neither, so malformed settings escape as an exception.
\<close>

definition decimal_setting :: "db \<Rightarrow> string \<Rightarrow> dec_value option outcome" where
  "decimal_setting d key =
     (case db_settings d key of None \<Rightarrow> Inr None
      | Some v \<Rightarrow> (case parse_decimal v of None \<Rightarrow> Inl InvalidOperation | Some x \<Rightarrow> Inr (Some x)))"

definition limit_from :: "decimal option \<Rightarrow> db \<Rightarrow> string \<Rightarrow> dec_value option outcome" where
  "limit_from sess d key =
     (case sess of Some x \<Rightarrow> if 0 < x then Inr (Some (Finite x)) else decimal_setting d key
      | None \<Rightarrow> decimal_setting d key)"

definition DEFAULT_MAX_OPEN_POSITIONS :: int where
  "DEFAULT_MAX_OPEN_POSITIONS = 20"

definition max_open_limit :: "live_session option \<Rightarrow> db \<Rightarrow> int" where
  "max_open_limit sess d =
     (let configured =
        (case db_settings d ''MAX_OPEN_POSITIONS'' of None \<Rightarrow> DEFAULT_MAX_OPEN_POSITIONS
         | Some v \<Rightarrow> (case parse_int v of None \<Rightarrow> DEFAULT_MAX_OPEN_POSITIONS | Some n \<Rightarrow> n))
      in case sess of None \<Rightarrow> configured
         | Some s \<Rightarrow> if 0 < ls_max_open s then ls_max_open s else configured)"

section \<open>The quantities compared with the limits\<close>

definition in_mode :: "string \<Rightarrow> int option \<Rightarrow> trade \<Rightarrow> bool" where
  "in_mode mode trade_id t \<longleftrightarrow>
     tr_position t \<in> ACTIVE_POSITION_STATES \<and> mode_name (tr_mode t) = mode \<and>
     (case trade_id of None \<Rightarrow> True | Some i \<Rightarrow> tr_id t \<noteq> i)"

definition open_positions :: "db \<Rightarrow> string \<Rightarrow> int option \<Rightarrow> int" where
  "open_positions d mode trade_id = int (length (filter (in_mode mode trade_id) (db_trades d)))"

text \<open>The SQL expression; \<open>None\<close> is NULL, which SUM skips.\<close>

definition remaining_cost :: "trade \<Rightarrow> decimal option" where
  "remaining_cost t =
     (case tr_entry_filled t of None \<Rightarrow> Some 0
      | Some f \<Rightarrow> if 0 < f
          then (case (tr_entry_cost t, tr_remaining t) of (Some c, Some r) \<Rightarrow> Some (c * r / f) | _ \<Rightarrow> None)
          else Some 0)"

definition sql_sum :: "decimal option list \<Rightarrow> decimal" where
  "sql_sum xs = sum_list (map (\<lambda>x. case x of None \<Rightarrow> 0 | Some v \<Rightarrow> v) xs)"

definition current_exposure :: "db \<Rightarrow> string \<Rightarrow> int option \<Rightarrow> decimal" where
  "current_exposure d mode trade_id =
     sql_sum (map remaining_cost (filter (in_mode mode trade_id) (db_trades d)))"

definition day_start :: "time \<Rightarrow> time" where
  "day_start now = now - now mod seconds 86400"

definition daily_pnl :: "db \<Rightarrow> string \<Rightarrow> time \<Rightarrow> decimal" where
  "daily_pnl d mode now =
     sql_sum (map tr_realized_pnl
       (filter (\<lambda>t. mode_name (tr_mode t) = mode \<and> tr_position t = CLOSED_POS \<and>
          (case tr_closed_at t of None \<Rightarrow> False | Some c \<Rightarrow> day_start now \<le> c)) (db_trades d)))"

section \<open>The checks\<close>

type_synonym verdict = "string option outcome"

definition then_check :: "verdict \<Rightarrow> verdict \<Rightarrow> verdict" where
  "then_check a b = (case a of Inl e \<Rightarrow> Inl e | Inr (Some msg) \<Rightarrow> Inr (Some msg) | Inr None \<Rightarrow> b)"

definition check_single_order :: "db \<Rightarrow> live_session option \<Rightarrow> decimal \<Rightarrow> verdict" where
  "check_single_order d sess spend =
     bind_out (limit_from (map_option ls_max_single sess) d ''MAX_SINGLE_ORDER_USDC'') (\<lambda>lim.
       case lim of None \<Rightarrow> Inr None
       | Some l \<Rightarrow> bind_out (gt_value spend l) (\<lambda>exceeds.
           Inr (if exceeds
                then Some (''Single order size '' @ dec_str spend @ '' USDC exceeds limit '' @ value_str l @ '' USDC'')
                else None)))"

definition check_open_positions :: "db \<Rightarrow> live_session option \<Rightarrow> string \<Rightarrow> int option \<Rightarrow> verdict" where
  "check_open_positions d sess mode trade_id =
     (let max_open = max_open_limit sess d
      in Inr (if max_open \<le> open_positions d mode trade_id
              then Some (''Max open positions limit reached ('' @ int_str max_open @ '')'') else None))"

definition total_exposure :: "db \<Rightarrow> exec_mode \<Rightarrow> decimal \<Rightarrow> nat option \<Rightarrow> int option \<Rightarrow> decimal" where
  "total_exposure d mode spend request_id trade_id =
     d_add (d_add (current_exposure d (mode_name mode) trade_id) (get_reserved_exposure d mode None request_id)) spend"

definition check_total_exposure ::
  "db \<Rightarrow> live_session option \<Rightarrow> exec_mode \<Rightarrow> decimal \<Rightarrow> nat option \<Rightarrow> int option \<Rightarrow> verdict" where
  "check_total_exposure d sess mode spend request_id trade_id =
     bind_out (limit_from (map_option ls_max_exposure sess) d ''MAX_TOTAL_EXPOSURE_USDC'') (\<lambda>lim.
       case lim of None \<Rightarrow> Inr None
       | Some l \<Rightarrow> bind_out (gt_value (total_exposure d mode spend request_id trade_id) l) (\<lambda>exceeds.
           Inr (if exceeds
                then Some (''Max total exposure '' @ value_str l @ '' USDC would be exceeded. Current: '' @
                       dec_str (current_exposure d (mode_name mode) trade_id) @ '', Reserved: '' @
                       dec_str (get_reserved_exposure d mode None request_id) @ '', Requested: '' @ dec_str spend)
                else None)))"

definition check_daily_loss :: "db \<Rightarrow> string \<Rightarrow> time \<Rightarrow> verdict" where
  "check_daily_loss d mode now =
     bind_out (decimal_setting d ''DAILY_LOSS_LIMIT_USDC'') (\<lambda>lim.
       case lim of None \<Rightarrow> Inr None
       | Some lfloor \<Rightarrow> bind_out (le_value 0 lfloor) (\<lambda>nonneg.
           if nonneg then Inr (Some (''Invalid DAILY_LOSS_LIMIT_USDC configuration: '' @
                                     ''expected a strictly negative value (e.g. -100)''))
           else bind_out (le_value (daily_pnl d mode now) lfloor) (\<lambda>breached.
             Inr (if breached
                  then Some (''Daily loss floor '' @ value_str lfloor @ '' USDC reached. Today PnL: '' @
                             dec_str (daily_pnl d mode now))
                  else None))))"

definition check_kill_switch :: "db \<Rightarrow> exec_mode \<Rightarrow> verdict" where
  "check_kill_switch d mode =
     (if mode = LIVE \<and> \<not> (case db_settings d ''LIVE_TRADING_ENABLED'' of
                             None \<Rightarrow> False | Some v \<Rightarrow> lower v = ''true'')
      then Inr (Some ''LIVE trading kill switch is off'') else Inr None)"

definition check_risk_limits ::
  "db \<Rightarrow> time \<Rightarrow> intent \<Rightarrow> decimal \<Rightarrow> string \<Rightarrow> nat option \<Rightarrow> int option \<Rightarrow> verdict" where
  "check_risk_limits d now i spend requested_mode request_id trade_id =
     (case mode_of_name requested_mode of
        None \<Rightarrow> Inr (Some (''Unsupported execution mode: '' @ requested_mode))
      | Some mode \<Rightarrow>
          if i = CLOSE then Inr None
          else then_check (check_kill_switch d mode)
            (if \<not> financial_limits_enabled d mode then Inr None
             else let sess = (if mode = LIVE then get_active_session d else None)
                  in then_check (check_single_order d sess spend)
                     (then_check (check_open_positions d sess requested_mode trade_id)
                     (then_check (check_total_exposure d sess mode spend request_id trade_id)
                        (check_daily_loss d requested_mode now)))))"

section \<open>What a passed check guarantees\<close>

lemma then_check_None: "then_check a b = Inr None \<longleftrightarrow> a = Inr None \<and> b = Inr None"
  by (auto simp: then_check_def split: sum.splits option.splits)

text \<open>The value does not exceed the limit.\<close>

fun within_limit :: "decimal \<Rightarrow> dec_value \<Rightarrow> bool" where
  "within_limit x (Finite y) \<longleftrightarrow> x \<le> y"
| "within_limit x (Infinite neg) \<longleftrightarrow> \<not> neg"
| "within_limit x NotANumber \<longleftrightarrow> False"

text \<open>\<open>above_floor x floor\<close>: the value is strictly above a strictly negative floor.\<close>

fun above_floor :: "decimal \<Rightarrow> dec_value \<Rightarrow> bool" where
  "above_floor x (Finite y) \<longleftrightarrow> y < 0 \<and> y < x"
| "above_floor x (Infinite neg) \<longleftrightarrow> neg"
| "above_floor x NotANumber \<longleftrightarrow> False"

lemma gt_value_False: "gt_value x l = Inr False \<longleftrightarrow> within_limit x l"
  by (cases l) auto

lemma check_single_order_None:
  "check_single_order d sess spend = Inr None \<longleftrightarrow>
   (\<exists>lim. limit_from (map_option ls_max_single sess) d ''MAX_SINGLE_ORDER_USDC'' = Inr lim \<and>
          (case lim of None \<Rightarrow> True | Some l \<Rightarrow> within_limit spend l))"
  by (auto simp: check_single_order_def gt_value_False [symmetric] split: sum.splits option.splits)

lemma check_open_positions_None:
  "check_open_positions d sess mode trade_id = Inr None \<longleftrightarrow> open_positions d mode trade_id < max_open_limit sess d"
  by (auto simp: check_open_positions_def Let_def)

lemma check_total_exposure_None:
  "check_total_exposure d sess mode spend request_id trade_id = Inr None \<longleftrightarrow>
   (\<exists>lim. limit_from (map_option ls_max_exposure sess) d ''MAX_TOTAL_EXPOSURE_USDC'' = Inr lim \<and>
          (case lim of None \<Rightarrow> True | Some l \<Rightarrow> within_limit (total_exposure d mode spend request_id trade_id) l))"
  by (auto simp: check_total_exposure_def gt_value_False [symmetric] split: sum.splits option.splits)

lemma check_daily_loss_None:
  "check_daily_loss d mode now = Inr None \<longleftrightarrow>
   (\<exists>lim. decimal_setting d ''DAILY_LOSS_LIMIT_USDC'' = Inr lim \<and>
          (case lim of None \<Rightarrow> True | Some fl \<Rightarrow> above_floor (daily_pnl d mode now) fl))"
proof -
  have "bind_out (le_value 0 fl) (\<lambda>nonneg. if nonneg then Inr (Some m)
           else bind_out (le_value x fl) (\<lambda>b. Inr (if b then Some k else None))) = Inr None \<longleftrightarrow> above_floor x fl"
    for fl x and m k :: string
    by (cases fl) auto
  then show ?thesis by (auto simp: check_daily_loss_def split: sum.splits option.splits)
qed

lemmas check_None_simps =
  then_check_None check_single_order_None check_open_positions_None check_total_exposure_None check_daily_loss_None

text \<open>
  The LIVE gate. An order to open a position passes \<open>check_risk_limits\<close> in LIVE mode exactly
  when the kill switch \<open>LIVE_TRADING_ENABLED\<close> is on and each of the four limits in force (the
  active session's when positive, else the configured one) holds: the order is not larger than the
  single-order limit, the number of other active positions is below the maximum, the exposure of the
  other positions plus the unreleased reservations plus this order stays within the total exposure
  limit, and today's realised PnL is above the (strictly negative) loss floor.
\<close>

theorem live_open_passes_iff:
  "check_risk_limits d now OPEN spend ''LIVE'' request_id trade_id = Inr None \<longleftrightarrow>
     (\<exists>v. db_settings d ''LIVE_TRADING_ENABLED'' = Some v \<and> lower v = ''true'') \<and>
     (\<exists>lim. limit_from (map_option ls_max_single (get_active_session d)) d ''MAX_SINGLE_ORDER_USDC'' = Inr lim \<and>
        (case lim of None \<Rightarrow> True | Some l \<Rightarrow> within_limit spend l)) \<and>
     open_positions d ''LIVE'' trade_id < max_open_limit (get_active_session d) d \<and>
     (\<exists>lim. limit_from (map_option ls_max_exposure (get_active_session d)) d ''MAX_TOTAL_EXPOSURE_USDC'' = Inr lim \<and>
        (case lim of None \<Rightarrow> True | Some l \<Rightarrow> within_limit (total_exposure d LIVE spend request_id trade_id) l)) \<and>
     (\<exists>lim. decimal_setting d ''DAILY_LOSS_LIMIT_USDC'' = Inr lim \<and>
        (case lim of None \<Rightarrow> True | Some fl \<Rightarrow> above_floor (daily_pnl d ''LIVE'' now) fl))"
proof -
  have m: "mode_of_name ''LIVE'' = Some LIVE" by (simp add: mode_of_name_def)
  have k: "check_kill_switch d LIVE = Inr None \<longleftrightarrow>
      (\<exists>v. db_settings d ''LIVE_TRADING_ENABLED'' = Some v \<and> lower v = ''true'')"
    by (auto simp: check_kill_switch_def split: option.splits)
  let ?s = "get_active_session d"
  have "check_risk_limits d now OPEN spend ''LIVE'' request_id trade_id =
      then_check (check_kill_switch d LIVE) (then_check (check_single_order d ?s spend)
        (then_check (check_open_positions d ?s ''LIVE'' trade_id)
        (then_check (check_total_exposure d ?s LIVE spend request_id trade_id)
          (check_daily_loss d ''LIVE'' now))))"
    by (simp add: check_risk_limits_def m Let_def)
  then show ?thesis by (simp only: check_None_simps k)
qed

lemma paper_open_passes [simp]: "check_risk_limits d now i spend ''PAPER'' request_id trade_id = Inr None"
  by (simp add: check_risk_limits_def mode_of_name_def then_check_None check_kill_switch_def)

text \<open>
  Closing a position is never refused by the risk limits, and PAPER orders are never refused by
  them either: in every state of the store, whatever the settings hold, the check passes without an
  exception.
\<close>

theorem close_and_paper_never_blocked:
  "check_risk_limits d now CLOSE spend (mode_name m) request_id trade_id = Inr None \<and>
   check_risk_limits d now i spend ''PAPER'' request_id trade_id = Inr None"
  by (simp add: check_risk_limits_def [of d now CLOSE])

text \<open>
  A malformed \<open>MAX_SINGLE_ORDER_USDC\<close> setting is not reported as the message "Invalid
  MAX_SINGLE_ORDER_USDC configuration" that the handler prepares: with the kill switch on and no
  session limit in force, \<open>InvalidOperation\<close> escapes from the check.
\<close>

theorem malformed_single_limit_escapes:
  assumes "db_settings d ''LIVE_TRADING_ENABLED'' = Some ''true''"
    and "get_active_session d = None"
    and "db_settings d ''MAX_SINGLE_ORDER_USDC'' = Some v" and "parse_decimal v = None"
  shows "check_risk_limits d now OPEN spend ''LIVE'' request_id trade_id = Inl InvalidOperation"
proof -
  have m: "mode_of_name ''LIVE'' = Some LIVE" by (simp add: mode_of_name_def)
  have "lower ''true'' = ''true''" by (simp add: lower_def lower_char_def)
  then have "check_kill_switch d LIVE = Inr None" using assms(1) by (simp add: check_kill_switch_def)
  moreover have "check_single_order d None spend = Inl InvalidOperation"
    using assms(3,4) by (simp add: check_single_order_def limit_from_def decimal_setting_def)
  ultimately show ?thesis using assms(2)
    by (simp add: check_risk_limits_def m then_check_def)
qed

definition empty_db :: db where
  "empty_db = \<lparr>db_requests = [], db_attempts = [], db_fills = [], db_events = [], db_reservations = [],
     db_workers = [], db_sessions = [], db_trades = [], db_markets = [], db_settings = (\<lambda>_. None),
     db_candidates = []\<rparr>"

theorem malformed_single_limit_escapes_witness:
  "check_risk_limits
     (empty_db\<lparr>db_settings := [''LIVE_TRADING_ENABLED'' \<mapsto> ''true'', ''MAX_SINGLE_ORDER_USDC'' \<mapsto> ''ten'']\<rparr>)
     0 OPEN 5 ''LIVE'' None None = Inl InvalidOperation"
proof -
  have "parse_decimal ''ten'' = None" by code_simp
  then show ?thesis
    by (intro malformed_single_limit_escapes)
      (simp_all add: empty_db_def get_active_session_def order_started_desc_def first_row_def)
qed

end
