(* ===== verification/Outbox.thy ===== *)
theory Outbox
  imports Risk
begin

text \<open>
  \<open>execution/outbox.py\<close>: queueing of OPEN and CLOSE requests and the single operation that
  moves a request to a new state together with its reservation, its trade and the event log.
  The identifier \<open>uuid4()\<close> draws and the current time are arguments. \<open>logger\<close> calls are
  not modelled.
\<close>

datatype disposition = CREATED | DUPLICATE | BLOCKED

record enqueue_result =
  er_disposition :: disposition
  er_request_id :: "nat option"
  er_reason :: "string option"

definition created :: "nat \<Rightarrow> enqueue_result" where
  "created i = \<lparr>er_disposition = CREATED, er_request_id = Some i, er_reason = None\<rparr>"

definition duplicate :: "nat \<Rightarrow> enqueue_result" where
  "duplicate i = \<lparr>er_disposition = DUPLICATE, er_request_id = Some i, er_reason = None\<rparr>"

definition blocked :: "string \<Rightarrow> enqueue_result" where
  "blocked why = \<lparr>er_disposition = BLOCKED, er_request_id = None, er_reason = Some why\<rparr>"

lemmas result_defs = created_def duplicate_def blocked_def

section \<open>Queueing an OPEN request\<close>

definition blocking_open :: "exec_mode \<Rightarrow> string \<Rightarrow> exec_request \<Rightarrow> bool" where
  "blocking_open mode market r \<longleftrightarrow>
     rq_mode r = mode \<and> rq_market_id r = market \<and> rq_intent r = OPEN \<and> rq_state r \<in> BLOCKING_REQUEST_STATES"

definition existing_open :: "db \<Rightarrow> exec_mode \<Rightarrow> string \<Rightarrow> nat option outcome" where
  "existing_open d mode market =
     scalar_one_or_none (map rq_id (filter (blocking_open mode market) (db_requests d)))"

text \<open>
  \<open>CONFIRM_THRESHOLD_USDC\<close> applies to LIVE only. The handler for a malformed threshold catches
  \<open>ValueError\<close> and \<open>TypeError\<close>, which \<open>Decimal\<close> does not raise.
\<close>

definition initial_state :: "db \<Rightarrow> exec_mode \<Rightarrow> pyfloat \<Rightarrow> req_state outcome" where
  "initial_state d mode target =
     (if mode \<noteq> LIVE then Inr READY
      else bind_out (decimal_setting d ''CONFIRM_THRESHOLD_USDC'') (\<lambda>th.
        case th of None \<Rightarrow> Inr READY
        | Some t \<Rightarrow> bind_out (gt_value (repr_dec target) t) (\<lambda>above.
            Inr (if above then AWAITING_APPROVAL else READY))))"

definition open_ttl :: "req_state \<Rightarrow> int" where
  "open_ttl s = (if s = AWAITING_APPROVAL then 300 else 60)"

definition new_open_request ::
  "nat \<Rightarrow> time \<Rightarrow> int \<Rightarrow> string \<Rightarrow> string \<Rightarrow> string \<Rightarrow> pyfloat \<Rightarrow> pyfloat \<Rightarrow> exec_mode \<Rightarrow>
   pyfloat option \<Rightarrow> req_state \<Rightarrow> int \<Rightarrow> exec_request" where
  "new_open_request rid now trade_id market asset outcome target limit mode max_acceptable s version =
     \<lparr>rq_id = rid, rq_idempotency_key = Some (''OPEN:'' @ int_str trade_id), rq_mode = mode,
      rq_trade_id = trade_id, rq_intent = OPEN, rq_trigger = Some STRATEGY, rq_market_id = market,
      rq_asset = asset, rq_source_paper_id = None, rq_live_session_id = None, rq_outcome = outcome,
      rq_requested_shares = Some (if 0 < limit then d_div (repr_dec target) (repr_dec limit) else 0),
      rq_target_amount = repr_dec target, rq_max_slippage_pct = 2, rq_ttl_seconds = open_ttl s,
      rq_limit_price = Some (repr_dec limit), rq_max_spend = Some (repr_dec target),
      rq_max_acceptable = map_option repr_dec max_acceptable, rq_order_mode = None,
      rq_post_only = False, rq_submit_quote_price = None, rq_submit_quote_at = None,
      rq_submitted_limit = None, rq_terminal_code = None, rq_state = s, rq_created_at = now,
      rq_updated_at = now, rq_expires_at = Some (now + seconds (open_ttl s)), rq_claimed_at = None,
      rq_lease_expires_at = None, rq_claimed_by = None, rq_position_version = Some version,
      rq_error_reason = None, rq_filled_shares = 0, rq_filled_cost = 0\<rparr>"

definition after_open_conflict :: "db \<Rightarrow> exec_mode \<Rightarrow> string \<Rightarrow> (enqueue_result \<times> db) outcome" where
  "after_open_conflict d mode market =
     bind_out (existing_open d mode market) (\<lambda>ex.
       Inr (case ex of Some i \<Rightarrow> (duplicate i, d)
            | None \<Rightarrow> (blocked ''Failed to insert ExecutionRequest'', d)))"

definition enqueue_open_request ::
  "db \<Rightarrow> time \<Rightarrow> nat \<Rightarrow> int \<Rightarrow> string \<Rightarrow> string \<Rightarrow> string \<Rightarrow> pyfloat \<Rightarrow> pyfloat \<Rightarrow> exec_mode \<Rightarrow>
   pyfloat option \<Rightarrow> (enqueue_result \<times> db) outcome" where
  "enqueue_open_request d now rid trade_id market asset outcome target limit mode max_acceptable =
     bind_out (existing_open d mode market) (\<lambda>ex.
       case ex of Some i \<Rightarrow> Inr (duplicate i, d)
       | None \<Rightarrow>
         let version = (case get_trade d trade_id of None \<Rightarrow> 0 | Some t \<Rightarrow> tr_position_version t)
         in bind_out (check_risk_limits d now OPEN (repr_dec target) (mode_name mode) None (Some trade_id)) (\<lambda>risk.
           case risk of Some why \<Rightarrow> Inr (blocked why, d)
           | None \<Rightarrow> bind_out (initial_state d mode target) (\<lambda>s.
               bind_out (insert_request uq_active_open_request
                 (new_open_request rid now trade_id market asset outcome target limit mode max_acceptable s version) d)
                 (\<lambda>(ins, d').
                   case ins of Some i \<Rightarrow> Inr (created i, d')
                   | None \<Rightarrow> after_open_conflict d' mode market))))"

section \<open>Queueing a CLOSE request\<close>

definition blocking_close :: "int \<Rightarrow> exec_request \<Rightarrow> bool" where
  "blocking_close trade_id r \<longleftrightarrow>
     rq_trade_id r = trade_id \<and> rq_intent r = CLOSE \<and> rq_state r \<in> BLOCKING_REQUEST_STATES"

definition existing_close :: "db \<Rightarrow> int \<Rightarrow> nat option outcome" where
  "existing_close d trade_id =
     scalar_one_or_none (map rq_id (filter (blocking_close trade_id) (db_requests d)))"

definition new_close_request ::
  "nat \<Rightarrow> time \<Rightarrow> trade \<Rightarrow> reason \<Rightarrow> pyfloat \<Rightarrow> time \<Rightarrow> decimal \<Rightarrow> exec_request" where
  "new_close_request rid now t trigger limit expires shares =
     \<lparr>rq_id = rid,
      rq_idempotency_key = Some (''CLOSE:'' @ int_str (tr_id t) @ '':v'' @ int_str (tr_position_version t)),
      rq_mode = tr_mode t, rq_trade_id = tr_id t, rq_intent = CLOSE, rq_trigger = Some trigger,
      rq_market_id = tr_market_id t, rq_asset = tr_asset t, rq_source_paper_id = None,
      rq_live_session_id = tr_live_session_id t, rq_outcome = tr_outcome t,
      rq_requested_shares = Some shares, rq_target_amount = d_mul shares (repr_dec limit),
      rq_max_slippage_pct = 2, rq_ttl_seconds = max 1 ((expires - now) div seconds 1),
      rq_limit_price = Some (repr_dec limit), rq_max_spend = None, rq_max_acceptable = None,
      rq_order_mode = None, rq_post_only = False, rq_submit_quote_price = None,
      rq_submit_quote_at = None, rq_submitted_limit = None, rq_terminal_code = None,
      rq_state = READY, rq_created_at = now, rq_updated_at = now, rq_expires_at = Some expires,
      rq_claimed_at = None, rq_lease_expires_at = None, rq_claimed_by = None,
      rq_position_version = Some (tr_position_version t), rq_error_reason = None,
      rq_filled_shares = 0, rq_filled_cost = 0\<rparr>"

text \<open>Assigning \<open>trade.exit_reason\<close> runs the validator of \<open>TradeHistory\<close>.\<close>

definition mark_exit_requested :: "reason \<Rightarrow> trade \<Rightarrow> trade" where
  "mark_exit_requested trigger t =
     t\<lparr>tr_position := EXIT_REQUESTED_POS, tr_exit_reason := Some trigger,
       tr_position_version := tr_position_version t + 1\<rparr>"

definition request_exit :: "db \<Rightarrow> int \<Rightarrow> reason \<Rightarrow> db outcome" where
  "request_exit d trade_id trigger =
     (if trigger \<in> exit_reason_values then Inr (upd_trade trade_id (mark_exit_requested trigger) d)
      else Inl (ValueError ''Invalid exit_reason''))"

definition after_close_conflict :: "db \<Rightarrow> int \<Rightarrow> (enqueue_result \<times> db) outcome" where
  "after_close_conflict d trade_id =
     bind_out (existing_close d trade_id) (\<lambda>ex.
       Inr (case ex of Some i \<Rightarrow> (duplicate i, d)
            | None \<Rightarrow> (blocked ''Failed to insert ExecutionRequest'', d)))"

definition enqueue_close_request ::
  "db \<Rightarrow> time \<Rightarrow> nat \<Rightarrow> int \<Rightarrow> reason \<Rightarrow> pyfloat \<Rightarrow> time option \<Rightarrow> (enqueue_result \<times> db) outcome" where
  "enqueue_close_request d now rid trade_id trigger limit expires_at =
     (case get_trade d trade_id of None \<Rightarrow> Inl NoResultFound
      | Some t \<Rightarrow>
        if tr_position t = CLOSED_POS then Inr (blocked ''Trade is already CLOSED'', d)
        else case tr_remaining t of None \<Rightarrow> Inr (blocked ''No remaining shares'', d)
        | Some shares \<Rightarrow>
          if shares \<le> 0 then Inr (blocked ''No remaining shares'', d)
          else bind_out (existing_close d trade_id) (\<lambda>ex.
            case ex of Some i \<Rightarrow> Inr (duplicate i, d)
            | None \<Rightarrow>
              let expires = (case expires_at of Some e \<Rightarrow> e | None \<Rightarrow> now + seconds 60)
              in bind_out (insert_request uq_active_close_request
                   (new_close_request rid now t trigger limit expires shares) d) (\<lambda>(ins, d').
                   case ins of None \<Rightarrow> after_close_conflict d' trade_id
                   | Some i \<Rightarrow> bind_out (request_exit d' trade_id trigger) (\<lambda>d''. Inr (created i, d'')))))"

section \<open>Moving a request to a new state\<close>

text \<open>
  \<open>error is None\<close> is \<open>None\<close>; the empty string is falsy, as the callers' guards
  \<open>if error and ...\<close> require (every marker is non-empty, so it is not contained in it).
\<close>

definition terminal_code :: "req_state \<Rightarrow> string option \<Rightarrow> string option" where
  "terminal_code s error =
     (let has = (\<lambda>p f. case error of None \<Rightarrow> False | Some e \<Rightarrow> contains p (f e))
      in if has ''POST_ONLY_REJECTED'' upper then Some ''POST_ONLY_REJECTED''
         else if has ''MAX_ACCEPTABLE_PRICE_EXCEEDED'' id then Some ''PRICE_MOVED''
         else if has ''PRICE_MOVED'' id then Some ''PRICE_MOVED''
         else if has ''MAKER_NOT_POSTABLE'' id then Some ''MAKER_NOT_POSTABLE''
         else if has ''TTL'' upper then Some ''TTL_EXPIRED''
         else if list_ex (\<lambda>m. has m lower) [''cloudflare'', ''502'', ''timeout'', ''network'']
           then Some ''NETWORK_ERROR''
         else (case s of FILLED \<Rightarrow> Some ''FILLED''
               | PARTIALLY_FILLED_FINAL \<Rightarrow> Some ''PARTIAL_FILL''
               | REJECTED \<Rightarrow> Some ''REJECTED''
               | EXPIRED \<Rightarrow> Some ''TTL_EXPIRED''
               | MANUAL_REVIEW_FAILED \<Rightarrow> Some ''MANUAL_REJECTED''
               | _ \<Rightarrow> None))"

definition terminal_error :: "req_state \<Rightarrow> string option \<Rightarrow> string option" where
  "terminal_error s error =
     (let default = (if s \<in> FAILURE_TERMINAL_STATES then Some (''Execution request '' @ state_name s) else error)
      in case error of None \<Rightarrow> default | Some e \<Rightarrow> if strip e \<noteq> [] then Some (strip e) else default)"

definition set_request_state :: "time \<Rightarrow> req_state \<Rightarrow> string option \<Rightarrow> exec_request \<Rightarrow> exec_request" where
  "set_request_state now s error r =
     r\<lparr>rq_state := s, rq_error_reason := terminal_error s error,
       rq_terminal_code := terminal_code s (terminal_error s error), rq_updated_at := now\<rparr>"

definition fail_open_trade :: "req_state \<Rightarrow> string option \<Rightarrow> trade \<Rightarrow> trade" where
  "fail_open_trade s error t =
     t\<lparr>tr_status := ''FAILED'', tr_position := ENTRY_FAILED_POS, tr_error_msg := terminal_error s error\<rparr>"

definition rollback_close_trade :: "string option \<Rightarrow> trade \<Rightarrow> trade" where
  "rollback_close_trade error t =
     t\<lparr>tr_position := (if num_or (tr_remaining t) 0 < num_or (tr_entry_filled t) 0
                       then PARTIALLY_CLOSED_POS else OPEN_POS),
       tr_last_exit_error := error, tr_exit_attempts := tr_exit_attempts t + 1\<rparr>"

definition finalize_event :: "time \<Rightarrow> exec_request \<Rightarrow> req_state \<Rightarrow> string option \<Rightarrow> exec_event" where
  "finalize_event now r s error =
     \<lparr>ev_level = (if error \<noteq> None \<and> error \<noteq> Some [] then ''ERROR'' else ''INFO''),
      ev_type = ''REQUEST_'' @ state_name s,
      ev_message = (case terminal_error s error of None \<Rightarrow> ''Request transitioned to '' @ state_name s
                    | Some e \<Rightarrow> if e = [] then ''Request transitioned to '' @ state_name s else e),
      ev_source = ''execution_worker'', ev_trade_id = Some (rq_trade_id r),
      ev_request_id = Some (rq_id r), ev_created_at = now\<rparr>"

definition finalize_request :: "nat \<Rightarrow> req_state \<Rightarrow> string option \<Rightarrow> time \<Rightarrow> db \<Rightarrow> db" where
  "finalize_request rid s error now d =
     (case get_request d rid of None \<Rightarrow> d
      | Some r \<Rightarrow>
        let d1 = upd_request rid (set_request_state now s error) d;
            d2 = (if rq_intent r = OPEN \<and> s \<in> TERMINAL_REQUEST_STATES
                  then release_reservation rid now d1 else d1)
        in case get_trade d2 (rq_trade_id r) of None \<Rightarrow> d2
           | Some t \<Rightarrow>
             let d3 = (if s \<in> FAILURE_TERMINAL_STATES \<and> rq_filled_shares r = 0
                       then upd_trade (rq_trade_id r)
                              (if rq_intent r = OPEN then fail_open_trade s error else rollback_close_trade error) d2
                       else d2)
             in add_event (finalize_event now r s error) d3)"

section \<open>Lemmas\<close>

lemma row_id_simps [simp]:
  "rq_id (set_request_state now s e r) = rq_id r"
  "tr_id (fail_open_trade s e t) = tr_id t"
  "tr_id (rollback_close_trade e t) = tr_id t"
  "tr_id (mark_exit_requested g t) = tr_id t"
  by (simp_all add: set_request_state_def fail_open_trade_def rollback_close_trade_def mark_exit_requested_def)

lemma set_request_state_frame [simp]:
  "rq_state (set_request_state now s e r) = s"
  "rq_mode (set_request_state now s e r) = rq_mode r"
  "rq_intent (set_request_state now s e r) = rq_intent r"
  "rq_trade_id (set_request_state now s e r) = rq_trade_id r"
  "rq_market_id (set_request_state now s e r) = rq_market_id r"
  "rq_idempotency_key (set_request_state now s e r) = rq_idempotency_key r"
  "rq_filled_shares (set_request_state now s e r) = rq_filled_shares r"
  "rq_filled_cost (set_request_state now s e r) = rq_filled_cost r"
  "rq_expires_at (set_request_state now s e r) = rq_expires_at r"
  "rq_updated_at (set_request_state now s e r) = now"
  by (simp_all add: set_request_state_def)

lemma fin_trade_id [simp]:
  "tr_id ((if b then fail_open_trade s e else rollback_close_trade e) t) = tr_id t"
  by simp

text \<open>The request rows after \<open>finalize_request\<close>: only the named row changes.\<close>

lemma finalize_requests:
  assumes "get_request d rid = Some r"
  shows "db_requests (finalize_request rid s e now d) =
         update_where (\<lambda>q. rq_id q = rid) (set_request_state now s e) (db_requests d)"
  using assms by (simp add: finalize_request_def Let_def split: option.split) (simp add: upd_request_def)

lemma get_request_finalize:
  assumes "get_request d rid = Some r"
  shows "get_request (finalize_request rid s e now d) j =
         (if j = rid then Some (set_request_state now s e r) else get_request d j)"
  using assms get_request_upd_request [of "set_request_state now s e" rid d j]
  by (simp add: get_request_def finalize_requests [OF assms] upd_request_def)

lemma finalize_frame [simp]:
  "db_fills (finalize_request rid s e now d) = db_fills d"
  "db_attempts (finalize_request rid s e now d) = db_attempts d"
  "db_settings (finalize_request rid s e now d) = db_settings d"
  "db_markets (finalize_request rid s e now d) = db_markets d"
  by (simp_all add: finalize_request_def Let_def split: option.split)

lemma finalize_reservations:
  assumes "get_request d rid = Some r"
  shows "db_reservations (finalize_request rid s e now d) =
         (if rq_intent r = OPEN \<and> s \<in> TERMINAL_REQUEST_STATES
          then update_where (\<lambda>x. rs_request_id x = rid \<and> rs_released_at x = None)
                 (\<lambda>x. x\<lparr>rs_released_at := Some now\<rparr>) (db_reservations d)
          else db_reservations d)"
  using assms by (auto simp: finalize_request_def Let_def split: option.split) (auto simp: release_reservation_def)

lemma keeps_set_request_state:
  "(s \<in> REQUEST_HOLD_STATES \<Longrightarrow> rq_state r \<in> REQUEST_HOLD_STATES) \<Longrightarrow> keeps_request r (set_request_state now s e r)"
  by (simp add: keeps_request_def)

lemma finalize_request_ok:
  assumes ok: "db_ok d"
    and k: "\<And>r. get_request d rid = Some r \<Longrightarrow> s \<in> REQUEST_HOLD_STATES \<Longrightarrow> rq_state r \<in> REQUEST_HOLD_STATES"
  shows "db_ok (finalize_request rid s e now d)"
proof (cases "get_request d rid")
  case None
  then show ?thesis using ok by (simp add: finalize_request_def)
next
  case (Some r)
  let ?d1 = "upd_request rid (set_request_state now s e) d"
  have d1: "db_ok ?d1" using ok k Some by (intro upd_request_ok keeps_set_request_state) auto
  then show ?thesis
    by (auto simp: finalize_request_def Some Let_def add_event_ok release_reservation_ok
        intro!: upd_trade_ok split: option.split)
qed

text \<open>Idempotency keys of CLOSE requests never collide for different positions or versions.\<close>

lemma colon_not_digit: "\<not> is_digit (CHR '':'')"
  by (simp add: is_digit_def)

lemma int_str_no_colon: "CHR '':'' \<notin> set (int_str n)"
proof
  assume "CHR '':'' \<in> set (int_str n)"
  then consider "0 \<le> n" "CHR '':'' \<in> set (nat_digits n)" | "0 \<le> - n" "CHR '':'' \<in> set (nat_digits (- n))"
    by (auto simp: int_str_def split: if_splits)
  then show False using nat_digits_digits colon_not_digit by cases blast+
qed

lemma append_sep_inject:
  assumes "x \<notin> set a" "x \<notin> set b" "a @ x # s = b @ x # t"
  shows "a = b \<and> s = t"
proof -
  have tw: "takeWhile (\<lambda>y. y \<noteq> x) (c @ x # u) = c" if "x \<notin> set c" for c u
    using that by (induction c) auto
  have "a = b" using tw [OF assms(1)] tw [OF assms(2)] assms(3) by metis
  with assms(3) show ?thesis by simp
qed

lemma close_keys_distinct:
  "rq_idempotency_key (new_close_request i now t g l x sh) = rq_idempotency_key (new_close_request i' now' t' g' l' x' sh') \<longleftrightarrow>
   tr_id t = tr_id t' \<and> tr_position_version t = tr_position_version t'"
  using append_sep_inject [OF int_str_no_colon int_str_no_colon, of "tr_id t"
      "CHR ''v'' # int_str (tr_position_version t)" "tr_id t'" "CHR ''v'' # int_str (tr_position_version t')"]
  by (auto simp: new_close_request_def)

section \<open>Queueing keeps the store well formed\<close>

lemma blocking_open_active:
  "blocking_open m k r \<Longrightarrow> ACTIVE_OPEN_PREDICATE r \<and> rq_mode r = m \<and> rq_market_id r = k"
  using blocking_subset_hold by (auto simp: blocking_open_def ACTIVE_OPEN_iff)

lemma blocking_close_active:
  "blocking_close k r \<Longrightarrow> ACTIVE_CLOSE_PREDICATE r \<and> rq_trade_id r = k"
  using blocking_subset_hold by (auto simp: blocking_close_def ACTIVE_CLOSE_iff)

text \<open>The two lookups return one row or none: the indexes exclude \<open>MultipleResultsFound\<close>.\<close>

lemma existing_open_total:
  "db_ok d \<Longrightarrow> existing_open d m k = Inr (first_row (map rq_id (filter (blocking_open m k) (db_requests d))))"
  unfolding existing_open_def db_ok_def
  using active_open_query_le_1 [of "db_requests d" "blocking_open m k"] blocking_open_active
  by (intro scalar_one_or_none_total) simp

lemma existing_close_total:
  "db_ok d \<Longrightarrow> existing_close d k = Inr (first_row (map rq_id (filter (blocking_close k) (db_requests d))))"
  unfolding existing_close_def db_ok_def
  using active_close_query_le_1 [of "db_requests d" "blocking_close k"] blocking_close_active
  by (intro scalar_one_or_none_total) simp

lemma existing_open_Some:
  "existing_open d m k = Inr (Some i) \<Longrightarrow> \<exists>r\<in>set (db_requests d). rq_id r = i \<and> blocking_open m k r"
proof -
  assume "existing_open d m k = Inr (Some i)"
  then have "map rq_id (filter (blocking_open m k) (db_requests d)) = [i]"
    by (simp add: existing_open_def scalar_one_or_none_Some)
  then have "i \<in> rq_id ` set (filter (blocking_open m k) (db_requests d))" by (metis list.set_intros(1) set_map)
  then show ?thesis by auto
qed

lemma existing_open_None:
  "existing_open d m k = Inr None \<Longrightarrow> r \<in> set (db_requests d) \<Longrightarrow> \<not> blocking_open m k r"
  by (auto simp: existing_open_def scalar_one_or_none_None filter_empty_conv)

lemma insert_request_SomeD:
  "insert_request arb r d = Inr (Some i, d') \<Longrightarrow>
   i = rq_id r \<and> d' = d\<lparr>db_requests := db_requests d @ [r]\<rparr> \<and> ck_positive_shares r"
  by (auto simp: insert_request_def split: if_splits)

lemma insert_request_NoneD:
  "insert_request arb r d = Inr (None, d') \<Longrightarrow> d' = d \<and> (\<exists>s\<in>set (db_requests d). arb r s)"
  by (auto simp: insert_request_def split: if_splits)

text \<open>The ways \<open>enqueue_open_request\<close> can return.\<close>

lemma enqueue_open_cases:
  assumes "enqueue_open_request d now rid tid k a oc tg li m ma = Inr (res, d')"
  obtains (dup) i where "existing_open d m k = Inr (Some i)" "res = duplicate i" "d' = d"
  | (risk) why where "existing_open d m k = Inr None" "res = blocked why" "d' = d"
  | (new) s v where "existing_open d m k = Inr None" "initial_state d m tg = Inr s" "res = created rid"
      "insert_request uq_active_open_request (new_open_request rid now tid k a oc tg li m ma s v) d = Inr (Some rid, d')"
      "check_risk_limits d now OPEN (repr_dec tg) (mode_name m) None (Some tid) = Inr None"
  | (conflict) r where "existing_open d m k = Inr None" "res = blocked ''Failed to insert ExecutionRequest''" "d' = d"
      "r \<in> set (db_requests d)" "ACTIVE_OPEN_PREDICATE r" "rq_mode r = m" "rq_market_id r = k"
proof (cases "existing_open d m k")
  case (Inl e)
  with assms show ?thesis by (simp add: enqueue_open_request_def)
next
  case (Inr ex)
  show ?thesis
  proof (cases ex)
    case (Some i)
    with Inr assms show ?thesis by (intro dup [of i]) (simp_all add: enqueue_open_request_def)
  next
    case None
    note ex = Inr [unfolded None]
    define v where "v = (case get_trade d tid of None \<Rightarrow> 0 | Some t \<Rightarrow> tr_position_version t)"
    let ?chk = "check_risk_limits d now OPEN (repr_dec tg) (mode_name m) None (Some tid)"
    show ?thesis
    proof (cases ?chk)
      case (Inl e)
      with ex assms show ?thesis by (simp add: enqueue_open_request_def Let_def)
    next
      case chk: (Inr w)
      show ?thesis
      proof (cases w)
        case (Some why)
        with ex chk assms show ?thesis by (intro risk [of why]) (simp_all add: enqueue_open_request_def Let_def)
      next
        case w: None
        from assms obtain s ins d1 where s: "initial_state d m tg = Inr s"
          and ins: "insert_request uq_active_open_request (new_open_request rid now tid k a oc tg li m ma s v) d = Inr (ins, d1)"
          and rest: "(case ins of Some i \<Rightarrow> Inr (created i, d1) | None \<Rightarrow> after_open_conflict d1 m k) = Inr (res, d')"
          by (auto simp: enqueue_open_request_def ex chk w Let_def v_def split: sum.splits)
        show ?thesis
        proof (cases ins)
          case (Some i)
          with ins have "i = rid" using insert_request_SomeD by (fastforce simp: new_open_request_def)
          with Some rest ins s ex chk w show ?thesis by (intro new [of s v]) simp_all
        next
          case None
          with ins obtain r where "d1 = d" "r \<in> set (db_requests d)"
            "uq_active_open_request (new_open_request rid now tid k a oc tg li m ma s v) r"
            using insert_request_NoneD by blast
          with rest None ex show ?thesis
            by (intro conflict [of r])
              (auto simp: after_open_conflict_def uq_active_open_request_def new_open_request_def)
        qed
      qed
    qed
  qed
qed

lemma existing_close_Some:
  "existing_close d k = Inr (Some i) \<Longrightarrow> \<exists>r\<in>set (db_requests d). rq_id r = i \<and> blocking_close k r"
proof -
  assume "existing_close d k = Inr (Some i)"
  then have "map rq_id (filter (blocking_close k) (db_requests d)) = [i]"
    by (simp add: existing_close_def scalar_one_or_none_Some)
  then have "i \<in> rq_id ` set (filter (blocking_close k) (db_requests d))" by (metis list.set_intros(1) set_map)
  then show ?thesis by auto
qed

lemma existing_close_None:
  "existing_close d k = Inr None \<Longrightarrow> r \<in> set (db_requests d) \<Longrightarrow> \<not> blocking_close k r"
  by (auto simp: existing_close_def scalar_one_or_none_None filter_empty_conv)

text \<open>The ways \<open>enqueue_close_request\<close> can return.\<close>

lemma enqueue_close_cases:
  assumes "enqueue_close_request d now rid tid g li ex = Inr (res, d')"
  obtains (refused) why where "res = blocked why" "d' = d"
  | (dup) i where "existing_close d tid = Inr (Some i)" "res = duplicate i" "d' = d"
  | (new) t sh x d1 where "get_trade d tid = Some t" "tr_position t \<noteq> CLOSED_POS" "tr_remaining t = Some sh"
      "0 < sh" "existing_close d tid = Inr None" "res = created rid" "g \<in> exit_reason_values"
      "insert_request uq_active_close_request (new_close_request rid now t g li x sh) d = Inr (Some rid, d1)"
      "d' = upd_trade tid (mark_exit_requested g) d1"
proof -
  from assms obtain t where t: "get_trade d tid = Some t"
    by (auto simp: enqueue_close_request_def split: option.splits)
  note unf = assms [unfolded enqueue_close_request_def t option.case]
  show ?thesis
  proof (cases "tr_position t = CLOSED_POS \<or> tr_remaining t = None \<or> (\<exists>sh. tr_remaining t = Some sh \<and> sh \<le> 0)")
    case True
    with unf show ?thesis by (elim disjE exE conjE) (auto intro: refused split: if_splits)
  next
    case False
    then obtain sh where sh: "tr_position t \<noteq> CLOSED_POS" "tr_remaining t = Some sh" "0 < sh"
      by (cases "tr_remaining t") (auto simp: not_le)
    with unf obtain ex1 where ex1: "existing_close d tid = Inr ex1" by (auto split: sum.splits)
    show ?thesis
    proof (cases ex1)
      case (Some i)
      with unf sh ex1 show ?thesis by (intro dup [of i]) auto
    next
      case None
      define x where "x = (case ex of Some e \<Rightarrow> e | None \<Rightarrow> now + seconds 60)"
      from unf sh ex1 None obtain ins d1 where
        ins: "insert_request uq_active_close_request (new_close_request rid now t g li x sh) d = Inr (ins, d1)"
        and rest: "(case ins of None \<Rightarrow> after_close_conflict d1 tid
                   | Some i \<Rightarrow> bind_out (request_exit d1 tid g) (\<lambda>d2. Inr (created i, d2))) = Inr (res, d')"
        by (auto simp: x_def Let_def split: sum.splits)
      show ?thesis
      proof (cases ins)
        case None
        with ins have "d1 = d" using insert_request_NoneD by blast
        with rest None ex1 \<open>ex1 = None\<close> show ?thesis
          by (auto simp: after_close_conflict_def intro!: refused)
      next
        case (Some i)
        with ins have "i = rid" using insert_request_SomeD by (fastforce simp: new_close_request_def)
        with Some rest ins ex1 None t sh show ?thesis
          by (intro new [of t sh x d1]) (auto simp: request_exit_def split: if_splits)
      qed
    qed
  qed
qed

section \<open>Properties\<close>


text \<open>A store with one request, as \<open>enqueue_open_request\<close> writes it, for the witnesses.\<close>

definition one_open :: "req_state \<Rightarrow> db" where
  "one_open s = empty_db\<lparr>db_requests := [new_open_request 4 0 7 ''m'' ''BTC'' ''YES'' 1 (1/2) PAPER None s 0]\<rparr>"

lemma empty_db_ok: "db_ok empty_db"
  by (simp add: db_ok_def requests_ok_def empty_db_def)

lemma one_open_ok: "db_ok (one_open s)"
  by (simp add: one_open_def empty_db_def db_ok_def requests_ok_def pairwise_rows_def)

lemma enqueue_open_empty:
  "enqueue_open_request empty_db 0 4 7 ''m'' ''BTC'' ''YES'' 1 (1/2) PAPER None = Inr (created 4, one_open READY)"
proof -
  have flt: "flt 1 = 1" "flt (1/2) = 1/2" by code_simp+
  have "0 < d_div (repr_dec 1) (repr_dec (1/2))"
    using repr_dec_pos [OF flt(1)] repr_dec_pos [OF flt(2)] by (intro d_div_pos) auto
  then show ?thesis
    by (simp add: enqueue_open_request_def existing_open_def empty_db_def initial_state_def
        insert_request_def ck_positive_shares_def new_open_request_def get_trade_def one_open_def)
qed


text \<open>
  The comment above \<open>BLOCKING_REQUEST_STATES\<close> (and the one in \<open>enqueue_open_request\<close>)
  says that a request in MANUAL_REVIEW_REQUIRED does not prevent new requests for the same market. It does:
  the partial unique index still contains that state, so while such an OPEN request exists no call creates
  another one; a call that returns normally is BLOCKED.
\<close>

theorem manual_review_blocks_new_open:
  assumes "db_ok d" and "r \<in> set (db_requests d)" and "rq_intent r = OPEN"
    and "rq_state r = MANUAL_REVIEW_REQUIRED" and "rq_mode r = m" and "rq_market_id r = k"
    and "enqueue_open_request d now rid tid k a oc tg li m ma = Inr (res, d')"
  shows "d' = d \<and> er_disposition res = BLOCKED"
  using assms(7)
proof (cases rule: enqueue_open_cases)
  case (dup i)
  then obtain q where q: "q \<in> set (db_requests d)" "blocking_open m k q" using existing_open_Some by blast
  have "uq_active_open_request r q"
    using blocking_open_active [OF q(2)] assms(3-6) by (simp add: uq_active_open_request_def ACTIVE_OPEN_iff state_defs)
  moreover have "pairwise_rows uq_active_open_request (db_requests d)"
    using assms(1) by (simp add: db_ok_def requests_ok_def)
  ultimately have "r = q" using assms(2) q(1) by (metis in_set_conv_nth pairwise_rows_def)
  with q(2) assms(4) show ?thesis by (simp add: blocking_open_def state_defs)
next
  case (new s v)
  let ?r = "new_open_request rid now tid k a oc tg li m ma s v"
  have "s \<in> REQUEST_HOLD_STATES"
    using new(2) by (auto simp: initial_state_def state_defs split: if_splits sum.splits option.splits)
  then have "uq_active_open_request ?r r"
    using assms(3-6) by (simp add: uq_active_open_request_def ACTIVE_OPEN_iff new_open_request_def state_defs)
  with new(4) assms(2) show ?thesis by (auto simp: insert_request_def split: if_splits)
qed (simp_all add: blocked_def)

theorem manual_review_blocks_new_open_witness:
  "enqueue_open_request (one_open MANUAL_REVIEW_REQUIRED) 0 2 8 ''m'' ''BTC'' ''YES'' 1 (1/2) PAPER None =
     Inr (blocked ''Failed to insert ExecutionRequest'', one_open MANUAL_REVIEW_REQUIRED) \<and>
   er_disposition (blocked ''Failed to insert ExecutionRequest'') = BLOCKED"
proof -
  let ?d = "one_open MANUAL_REVIEW_REQUIRED"
  have flt: "flt 1 = 1" "flt (1/2) = 1/2" by code_simp+
  have "0 < d_div (repr_dec 1) (repr_dec (1/2))"
    using repr_dec_pos [OF flt(1)] repr_dec_pos [OF flt(2)] by (intro d_div_pos) auto
  then have e: "enqueue_open_request ?d 0 2 8 ''m'' ''BTC'' ''YES'' 1 (1/2) PAPER None =
      Inr (blocked ''Failed to insert ExecutionRequest'', ?d)"
    by (simp add: enqueue_open_request_def existing_open_def one_open_def empty_db_def
        initial_state_def insert_request_def ck_positive_shares_def
        new_open_request_def get_trade_def blocking_open_def state_defs uq_active_open_request_def
        ACTIVE_OPEN_PREDICATE_def after_open_conflict_def)
  have "?d = ?d \<and> er_disposition (blocked ''Failed to insert ExecutionRequest'') = BLOCKED"
    using manual_review_blocks_new_open [OF one_open_ok _ _ _ _ _ e,
        of "new_open_request 4 0 7 ''m'' ''BTC'' ''YES'' 1 (1/2) PAPER None MANUAL_REVIEW_REQUIRED 0"]
    by (simp add: one_open_def) (simp add: new_open_request_def)
  with e show ?thesis by blast
qed

text \<open>
  C34. \<open>enqueue_close_request\<close> is exactly-once per position. From a well-formed store, a normal return
  leaves a well-formed store; CREATED means the position had shares left, exactly one request for all of
  them was appended in READY, it is the only blocking CLOSE request of the position, the position is in
  EXIT_REQUESTED with its version advanced, and no other position changed; every other return leaves the
  store as it was.
\<close>

theorem enqueue_close_request_correct:
  assumes "db_ok d" and "enqueue_close_request d now rid tid g li ex = Inr (res, d')"
  shows "db_ok d' \<and>
    (if er_disposition res = CREATED
     then (\<exists>t sh r. get_trade d tid = Some t \<and> tr_remaining t = Some sh \<and> 0 < sh \<and>
             db_requests d' = db_requests d @ [r] \<and> rq_id r = rid \<and> rq_state r = READY \<and>
             rq_requested_shares r = Some sh \<and> rq_trade_id r = tid \<and>
             filter (blocking_close tid) (db_requests d') = [r] \<and>
             get_trade d' tid = Some (mark_exit_requested g t) \<and>
             (\<forall>j. j \<noteq> tid \<longrightarrow> get_trade d' j = get_trade d j))
     else d' = d)"
  using assms(2)
proof (cases rule: enqueue_close_cases)
  case (refused why)
  then show ?thesis using assms(1) by (simp add: blocked_def)
next
  case (dup i)
  then show ?thesis using assms(1) by (simp add: duplicate_def)
next
  case (new t sh x d1)
  let ?r = "new_close_request rid now t g li x sh"
  have d1: "d1 = d\<lparr>db_requests := db_requests d @ [?r]\<rparr>" using insert_request_SomeD [OF new(8)] by simp
  have tid: "tr_id t = tid" using get_tradeD [OF new(1)] by simp
  have gt: "get_trade d1 j = get_trade d j" for j by (simp add: d1 get_trade_def)
  have "db_ok d'" unfolding new(9) using insert_request_ok [OF assms(1) new(8)] by (rule upd_trade_ok) simp
  moreover have "get_trade d' tid = Some (mark_exit_requested g t)"
    "\<forall>j. j \<noteq> tid \<longrightarrow> get_trade d' j = get_trade d j"
    using new(1) by (simp_all add: new(9) get_trade_upd_trade gt)
  moreover have "db_requests d' = db_requests d @ [?r]" by (simp add: new(9) d1)
  moreover have "blocking_close tid ?r" by (simp add: blocking_close_def new_close_request_def tid state_defs)
  moreover have "filter (blocking_close tid) (db_requests d) = []"
    using existing_close_None [OF new(5)] by (simp add: filter_empty_conv)
  moreover have "rq_id ?r = rid" "rq_state ?r = READY" "rq_requested_shares ?r = Some sh" "rq_trade_id ?r = tid"
    by (simp_all add: new_close_request_def tid)
  ultimately show ?thesis using new(1,3,4,6) by (auto simp: created_def)
qed

text \<open>An open PAPER position and a CLOSE request for it, for the witnesses.\<close>

definition sample_signal :: trade_signal where
  "sample_signal =
     \<lparr>sg_predicted_flip_prob = 1/2, sg_active_features = ''PHASE'', sg_model_version = None, sg_edge = None, sg_net_edge = None,
      sg_gross_edge = None, sg_p_flip_effective = None, sg_model_key = None, sg_confirm_model_key = None,
      sg_confirm_model_version = None, sg_attribution = None, sg_direction_model_key = None, sg_direction_model_version = None,
      sg_entry_model_key = None, sg_entry_model_version = None, sg_entry_model_source = None, sg_decision_run_id = None,
      sg_config_snapshot = None\<rparr>"

definition sample_trade :: "int \<Rightarrow> pos_status \<Rightarrow> decimal option \<Rightarrow> trade" where
  "sample_trade i pos remaining =
     \<lparr>tr_id = i, tr_asset = ''BTC'', tr_market_id = ''m'', tr_outcome = ''YES'', tr_mode = PAPER,
      tr_live_session_id = None, tr_status = ''SUCCESS'', tr_position = pos, tr_exit_reason = None,
      tr_error_msg = None, tr_amount_usdc = 1, tr_executed_price = 1/2, tr_pnl = None, tr_closed_at = None,
      tr_close_price = None, tr_entry_filled = Some 2, tr_entry_cost = Some 1, tr_remaining = remaining,
      tr_realized_pnl = None, tr_accounting_version = 0, tr_position_version = 1, tr_last_exit_error = None,
      tr_exit_attempts = 0, tr_market_end = None, tr_sl_pct = None, tr_sl_price = None, tr_sl_status = None,
      tr_sl_hit_at = None, tr_sl_sell_price = None,
      tr_tp_enabled = False, tr_tp_multiplier = None, tr_tp_price = None, tr_tp_status = None,
      tr_tp_hit_at = None, tr_tp_sell_price = None, tr_settlement_outcome = None, tr_expected_payout = None, tr_redeemable = None,
      tr_redemption_status = ''NOT_REQUIRED'', tr_strategy_type = None, tr_strategy_name = None, tr_market_role = None, tr_p_candidate_win = None,
      tr_p_win_effective = None, tr_cost_buffer = None, tr_source_paper_id = None, tr_signal = sample_signal\<rparr>"

definition one_trade :: "pos_status \<Rightarrow> decimal option \<Rightarrow> db" where
  "one_trade pos remaining = empty_db\<lparr>db_trades := [sample_trade 7 pos remaining]\<rparr>"

definition one_close :: "pos_status \<Rightarrow> decimal option \<Rightarrow> db" where
  "one_close pos remaining = (one_trade pos remaining)\<lparr>db_requests :=
     [new_close_request 4 0 (sample_trade 7 OPEN_POS (Some 2)) STOP_LOSS (1/2) (seconds 60) 2]\<rparr>"

lemma one_trade_ok: "db_ok (one_trade pos x)"
  by (simp add: one_trade_def empty_db_def db_ok_def requests_ok_def)

theorem enqueue_close_request_correct_witness:
  "\<exists>d'. enqueue_close_request (one_trade OPEN_POS (Some 2)) 0 4 7 STOP_LOSS (1/2) None = Inr (created 4, d') \<and> db_ok d' \<and>
        get_trade d' 7 = Some (mark_exit_requested STOP_LOSS (sample_trade 7 OPEN_POS (Some 2)))"
proof -
  let ?d = "one_trade OPEN_POS (Some 2)"
  have e: "enqueue_close_request ?d 0 4 7 STOP_LOSS (1/2) None =
      Inr (created 4, upd_trade 7 (mark_exit_requested STOP_LOSS) (one_close OPEN_POS (Some 2)))"
    by (simp add: enqueue_close_request_def one_close_def one_trade_def empty_db_def get_trade_def sample_trade_def
        existing_close_def insert_request_def ck_positive_shares_def new_close_request_def request_exit_def state_defs Let_def)
  have "get_trade ?d 7 = Some (sample_trade 7 OPEN_POS (Some 2))"
    by (simp add: one_trade_def empty_db_def get_trade_def sample_trade_def)
  then show ?thesis
    using enqueue_close_request_correct [OF one_trade_ok e] e by (fastforce simp: created_def)
qed

text \<open>
  Reserved exposure follows the request. Moving a request that is still active to a terminal state
  takes exactly its own reservation out of the reserved exposure of every mode and market, and moving it
  to another active state (in particular to MANUAL_REVIEW_REQUIRED after a time-out) leaves the reserved
  exposure unchanged: an unknown outcome never frees budget.
\<close>

theorem finalize_request_reserved_exposure:
  assumes "get_request d rid = Some r" and "rq_intent r = OPEN" and "rq_state r \<in> ACTIVE_REQUEST_STATES"
  shows "(s \<in> TERMINAL_REQUEST_STATES \<longrightarrow>
            get_reserved_exposure (finalize_request rid s e now d) m k None = get_reserved_exposure d m k (Some rid)) \<and>
         (s \<in> ACTIVE_REQUEST_STATES \<longrightarrow>
            get_reserved_exposure (finalize_request rid s e now d) m k x = get_reserved_exposure d m k x)"
proof (intro conjI impI)
  let ?d = "finalize_request rid s e now d"
  note gr = get_request_finalize [OF assms(1)]
  assume s: "s \<in> TERMINAL_REQUEST_STATES"
  let ?f = "\<lambda>x. if rs_request_id x = rid \<and> rs_released_at x = None then x\<lparr>rs_released_at := Some now\<rparr> else x"
  have rows: "db_reservations ?d = map ?f (db_reservations d)"
    using s assms(2) by (simp add: finalize_reservations [OF assms(1)] update_where_def)
  have cnt: "counts_as_reserved ?d m k None (?f x) = counts_as_reserved d m k (Some rid) x" for x
    by (auto simp: counts_as_reserved_def gr split: option.splits)
  have amt: "rs_amount (?f x) = rs_amount x" for x by simp
  show "get_reserved_exposure ?d m k None = get_reserved_exposure d m k (Some rid)"
    unfolding get_reserved_exposure_def rows filter_map map_map o_def cnt amt ..
next
  let ?d = "finalize_request rid s e now d"
  note gr = get_request_finalize [OF assms(1)]
  assume s: "s \<in> ACTIVE_REQUEST_STATES"
  then have nt: "s \<notin> TERMINAL_REQUEST_STATES" by (auto simp: state_defs)
  have rows: "db_reservations ?d = db_reservations d" using nt by (simp add: finalize_reservations [OF assms(1)])
  have "counts_as_reserved ?d m k x = counts_as_reserved d m k x"
    using s assms(1,3) by (intro ext) (auto simp: counts_as_reserved_def gr split: option.splits)
  then show "get_reserved_exposure ?d m k x = get_reserved_exposure d m k x"
    by (simp add: get_reserved_exposure_def rows)
qed

lemma terminal_error_failure:
  "s \<in> FAILURE_TERMINAL_STATES \<Longrightarrow> \<exists>why. terminal_error s e = Some why \<and> why \<noteq> []"
  by (cases e) (auto simp: terminal_error_def)

theorem finalize_request_reserved_exposure_witness:
  "let d = (one_open READY)\<lparr>db_reservations := [\<lparr>rs_request_id = 4, rs_trade_id = 7, rs_market_id = ''m'',
              rs_amount = 3, rs_expires_at = 0, rs_created_at = 0, rs_released_at = None\<rparr>]\<rparr>
   in get_reserved_exposure (finalize_request 4 REJECTED None 5 d) PAPER None None =
        get_reserved_exposure d PAPER None (Some 4) \<and>
      get_reserved_exposure (finalize_request 4 MANUAL_REVIEW_REQUIRED None 5 d) PAPER None None =
        get_reserved_exposure d PAPER None None \<and>
      get_reserved_exposure d PAPER None None = 3"
proof -
  let ?d = "(one_open READY)\<lparr>db_reservations := [\<lparr>rs_request_id = 4, rs_trade_id = 7, rs_market_id = ''m'',
              rs_amount = 3, rs_expires_at = 0, rs_created_at = 0, rs_released_at = None\<rparr>]\<rparr>"
  let ?r = "new_open_request 4 0 7 ''m'' ''BTC'' ''YES'' 1 (1/2) PAPER None READY 0"
  have r: "get_request ?d 4 = Some ?r" by (simp add: one_open_def get_request_def new_open_request_def)
  have i: "rq_intent ?r = OPEN" "rq_state ?r \<in> ACTIVE_REQUEST_STATES" by (simp_all add: new_open_request_def state_defs)
  have "get_reserved_exposure ?d PAPER None None = 3"
    by (simp add: get_reserved_exposure_def counts_as_reserved_def r) (simp add: new_open_request_def state_defs)
  moreover have "REJECTED \<in> TERMINAL_REQUEST_STATES" "MANUAL_REVIEW_REQUIRED \<in> ACTIVE_REQUEST_STATES"
    by (simp_all add: state_defs)
  ultimately show ?thesis
    using finalize_request_reserved_exposure [OF r i] unfolding Let_def by blast
qed

text \<open>
  No terminal failure without a reason: whatever error text the caller passed (none, empty or blank
  included), a request moved to REJECTED, EXPIRED, CANCELED or MANUAL_REVIEW_FAILED carries a non-empty
  \<open>error_reason\<close>, and a failed OPEN request without fills leaves its trade FAILED in ENTRY_FAILED
  with the same text.
\<close>

theorem failed_request_has_reason:
  assumes "get_request d rid = Some r" and "s \<in> FAILURE_TERMINAL_STATES"
  shows "\<exists>why. why \<noteq> [] \<and>
    map_option rq_error_reason (get_request (finalize_request rid s e now d) rid) = Some (Some why) \<and>
    (rq_intent r = OPEN \<and> rq_filled_shares r = 0 \<longrightarrow>
      (\<forall>t. get_trade d (rq_trade_id r) = Some t \<longrightarrow>
         get_trade (finalize_request rid s e now d) (rq_trade_id r) =
           Some (t\<lparr>tr_status := ''FAILED'', tr_position := ENTRY_FAILED_POS, tr_error_msg := Some why\<rparr>)))"
proof -
  obtain why where why: "terminal_error s e = Some why" "why \<noteq> []"
    using terminal_error_failure [OF assms(2)] by blast
  have "map_option rq_error_reason (get_request (finalize_request rid s e now d) rid) = Some (Some why)"
    using why by (simp add: get_request_finalize [OF assms(1)] set_request_state_def)
  moreover have "get_trade (finalize_request rid s e now d) (rq_trade_id r) =
      Some (t\<lparr>tr_status := ''FAILED'', tr_position := ENTRY_FAILED_POS, tr_error_msg := Some why\<rparr>)"
    if "rq_intent r = OPEN" "rq_filled_shares r = 0" "get_trade d (rq_trade_id r) = Some t" for t
    using that assms why
    by (simp add: finalize_request_def Let_def get_trade_upd_trade fail_open_trade_def)
  ultimately show ?thesis using why(2) by blast
qed

theorem failed_request_has_reason_witness:
  "\<exists>why. why \<noteq> [] \<and> map_option rq_error_reason (get_request (finalize_request 4 REJECTED (Some '' '') 5 (one_open READY)) 4) = Some (Some why)"
proof -
  let ?r = "new_open_request 4 0 7 ''m'' ''BTC'' ''YES'' 1 (1/2) PAPER None READY 0"
  have r: "get_request (one_open READY) 4 = Some ?r" by (simp add: one_open_def get_request_def new_open_request_def)
  have "REJECTED \<in> FAILURE_TERMINAL_STATES" by (simp add: state_defs)
  from failed_request_has_reason [OF r this] show ?thesis by blast
qed

text \<open>
  A CLOSE request that fails after its position was already closed reopens the position.
  \<open>finalize_request\<close> does not look at the position's state: for a position that settlement has CLOSED
  (no shares left of a positive entry) the failed request puts it back into PARTIALLY_CLOSED, so that it
  counts as an active position again.
\<close>

theorem failed_close_reopens_closed_position:
  assumes "get_request d rid = Some r" and "rq_intent r = CLOSE" and "rq_filled_shares r = 0"
    and "get_trade d (rq_trade_id r) = Some t" and "tr_position t = CLOSED_POS"
    and "tr_remaining t = Some 0" and "tr_entry_filled t = Some f" and "0 < f"
    and "s \<in> FAILURE_TERMINAL_STATES"
  shows "\<exists>t'. get_trade (finalize_request rid s e now d) (rq_trade_id r) = Some t' \<and>
              tr_position t' = PARTIALLY_CLOSED_POS \<and> tr_position t' \<in> ACTIVE_POSITION_STATES"
  using assms
  by (auto simp: finalize_request_def Let_def get_trade_upd_trade rollback_close_trade_def num_or_def state_defs)

theorem failed_close_reopens_closed_position_witness:
  "\<exists>t'. get_trade (finalize_request 4 EXPIRED (Some ''TTL expired'') 9 (one_close CLOSED_POS (Some 0))) 7 = Some t' \<and>
        tr_position t' = PARTIALLY_CLOSED_POS \<and> tr_position t' \<in> ACTIVE_POSITION_STATES"
proof -
  let ?d = "one_close CLOSED_POS (Some 0)"
  let ?r = "new_close_request 4 0 (sample_trade 7 OPEN_POS (Some 2)) STOP_LOSS (1/2) (seconds 60) 2"
  have r: "get_request ?d 4 = Some ?r" by (simp add: one_close_def get_request_def new_close_request_def)
  have i: "rq_intent ?r = CLOSE" "rq_filled_shares ?r = 0" and tid: "rq_trade_id ?r = 7"
    by (simp_all add: new_close_request_def sample_trade_def)
  have t: "get_trade ?d (rq_trade_id ?r) = Some (sample_trade 7 CLOSED_POS (Some 0))"
    unfolding tid by (simp add: one_close_def one_trade_def get_trade_def sample_trade_def)
  have "\<exists>t'. get_trade (finalize_request 4 EXPIRED (Some ''TTL expired'') 9 ?d) (rq_trade_id ?r) = Some t' \<and>
        tr_position t' = PARTIALLY_CLOSED_POS \<and> tr_position t' \<in> ACTIVE_POSITION_STATES"
    by (rule failed_close_reopens_closed_position [OF r i t, of 2]) (simp_all add: sample_trade_def state_defs)
  then show ?thesis unfolding tid .
qed

text \<open>
  The signature of \<open>enqueue_close_request\<close> admits the triggers RECOVERY and STRATEGY, but the
  validator of \<open>TradeHistory.exit_reason\<close> does not: whenever the call would create a request with one
  of them it raises instead, and no such call ever returns CREATED.
\<close>

theorem recovery_close_never_created:
  assumes "g = RECOVERY \<or> g = STRATEGY"
    and "enqueue_close_request d now rid tid g li ex = Inr (res, d')"
  shows "er_disposition res \<noteq> CREATED"
  using assms(2)
proof (cases rule: enqueue_close_cases)
  case (new t sh x d1)
  with assms(1) show ?thesis by (auto simp: state_defs)
qed (simp_all add: blocked_def duplicate_def)

theorem recovery_close_never_created_witness:
  "enqueue_close_request (one_trade CLOSED_POS (Some 0)) 0 4 7 RECOVERY (1/2) None =
     Inr (blocked ''Trade is already CLOSED'', one_trade CLOSED_POS (Some 0)) \<and>
   er_disposition (blocked ''Trade is already CLOSED'') \<noteq> CREATED \<and>
   enqueue_close_request (one_trade OPEN_POS (Some 2)) 0 4 7 RECOVERY (1/2) None = Inl (ValueError ''Invalid exit_reason'')"
proof -
  have e: "enqueue_close_request (one_trade CLOSED_POS (Some 0)) 0 4 7 RECOVERY (1/2) None =
     Inr (blocked ''Trade is already CLOSED'', one_trade CLOSED_POS (Some 0))"
    by (simp add: enqueue_close_request_def one_trade_def get_trade_def sample_trade_def)
  have "enqueue_close_request (one_trade OPEN_POS (Some 2)) 0 4 7 RECOVERY (1/2) None = Inl (ValueError ''Invalid exit_reason'')"
    by (simp add: enqueue_close_request_def one_trade_def empty_db_def get_trade_def sample_trade_def
        existing_close_def insert_request_def ck_positive_shares_def new_close_request_def request_exit_def state_defs Let_def)
  with e recovery_close_never_created [OF _ e] show ?thesis by blast
qed

end
