(* ===== verification/Gateway.thy ===== *)
theory Gateway
  imports Exec_Store
begin

text \<open>
  \<open>execution/contracts.py\<close> and \<open>execution/gateways/exceptions.py\<close>: the values that cross the
  boundary between the worker and an execution venue, and the boundary itself. A venue is a record of
  operations on an abstract world \<open>'w\<close> (the exchange, the network, the clock): every call takes the
  world and returns its answer or an exception together with the new world. The LIVE gateway is built on
  the Polymarket SDK, which is not part of the repository, so the worker and the order strategies are
  verified for every venue; the PAPER and SHADOW gateways of the repository are modelled as venues in
  \<open>Paper_Gateway\<close>.
\<close>

record gateway_order =
  go_attempt_id :: nat
  go_market_id :: string
  go_asset :: string
  go_outcome :: string
  go_token :: string
  go_side :: string
  go_limit :: decimal
  go_shares :: decimal
  go_max_spend :: "decimal option"
  go_max_acceptable :: "decimal option"
  go_expiration :: "int option"
  go_post_only :: bool

record trade_execution =
  te_trade_id :: string
  te_gateway :: string
  te_gross :: decimal
  te_price :: decimal
  te_shares :: decimal
  te_fee :: decimal
  te_matched_at :: time
  te_tx_hash :: "string option"

record submission =
  sr_accepted :: bool
  sr_order_id :: "string option"
  sr_status :: string
  sr_trade_ids :: "string list"
  sr_rejection :: "string option"
  sr_error :: "string option"
  sr_settlement :: string
  sr_tx_hashes :: "string list"
  sr_fills :: "trade_execution list"
  sr_limit :: "decimal option"
  sr_shares :: "decimal option"
  sr_maker_status :: "string option"
  sr_maker_attempts :: int
  sr_best_bid :: "decimal option"
  sr_best_ask :: "decimal option"
  sr_paper_quote :: "decimal option"
  sr_paper_available :: "decimal option"
  sr_paper_delay :: "pyfloat option"
  sr_paper_slippage :: "decimal option"
  sr_paper_fee :: "decimal option"
  sr_dyn_checked :: bool
  sr_dyn_edge :: "decimal option"
  sr_dyn_min :: "decimal option"
  sr_dyn_prob :: "decimal option"
  sr_dyn_max :: "decimal option"
  sr_retry_attempts :: int

text \<open>\<open>SubmissionResult(accepted=a, provider_status=s)\<close>, the other fields at their defaults.\<close>

definition submission_result :: "bool \<Rightarrow> string \<Rightarrow> submission" where
  "submission_result a s =
     \<lparr>sr_accepted = a, sr_order_id = None, sr_status = s, sr_trade_ids = [], sr_rejection = None,
      sr_error = None, sr_settlement = ''PENDING'', sr_tx_hashes = [], sr_fills = [], sr_limit = None,
      sr_shares = None, sr_maker_status = None, sr_maker_attempts = 1, sr_best_bid = None,
      sr_best_ask = None, sr_paper_quote = None, sr_paper_available = None, sr_paper_delay = None,
      sr_paper_slippage = None, sr_paper_fee = None, sr_dyn_checked = False, sr_dyn_edge = None,
      sr_dyn_min = None, sr_dyn_prob = None, sr_dyn_max = None, sr_retry_attempts = 0\<rparr>"

text \<open>The exceptions of a gateway call with their text; \<open>TypeErr\<close> is Python's TypeError.\<close>

datatype gw_error =
    GatewayUnavailable string
  | GatewayOrderRejected string
  | GatewaySubmissionUnknown string
  | TypeErr string
  | OtherError string

fun err_text :: "gw_error \<Rightarrow> string" where
  "err_text (GatewayUnavailable s) = s"
| "err_text (GatewayOrderRejected s) = s"
| "err_text (GatewaySubmissionUnknown s) = s"
| "err_text (TypeErr s) = s"
| "err_text (OtherError s) = s"

text \<open>
  A non-empty quote dictionary, after the conversion \<open>_decimal\<close> of its two prices: \<open>None\<close> for
  a missing, malformed or non-finite price.
\<close>

record quote =
  q_best_bid :: "decimal option"
  q_best_ask :: "decimal option"

text \<open>
  The operations of a venue. A source of quotes returns \<open>None\<close> when the call raised, timed out or
  answered with an empty result; the field itself is \<open>None\<close> when there is no such source
  (\<open>api_client is None\<close>, no callable \<open>quote_provider\<close>).
\<close>

record 'w venue =
  v_name :: string
  v_profile :: "string option"
  v_submit :: "gateway_order \<Rightarrow> string option \<Rightarrow> 'w \<Rightarrow> (gw_error + submission) \<times> 'w"
  v_get_order :: "string \<Rightarrow> 'w \<Rightarrow> (gw_error + submission) \<times> 'w"
  v_fetch_fills :: "string \<Rightarrow> string \<Rightarrow> 'w \<Rightarrow> (gw_error + trade_execution list) \<times> 'w"
  v_cancel :: "(string \<Rightarrow> 'w \<Rightarrow> (gw_error + submission) \<times> 'w) option"
  v_allowance :: "string \<Rightarrow> 'w \<Rightarrow> (gw_error + decimal) \<times> 'w"
  v_api :: "(string \<Rightarrow> 'w \<Rightarrow> quote option \<times> 'w) option"
  v_provider :: "(string \<Rightarrow> 'w \<Rightarrow> quote option \<times> 'w) option"
  v_clock :: "'w \<Rightarrow> pyfloat \<times> 'w"
  v_sleep :: "pyfloat \<Rightarrow> 'w \<Rightarrow> 'w"

section \<open>The recording venue\<close>

text \<open>
  A venue together with the list of the orders submitted to it, in order. It behaves as the venue it
  wraps; statements about which orders a strategy submits are statements about its log.
\<close>

definition lift_op :: "('w \<Rightarrow> 'a \<times> 'w) \<Rightarrow> 'w \<times> 'l \<Rightarrow> 'a \<times> ('w \<times> 'l)" where
  "lift_op f = (\<lambda>(w, l). case f w of (a, w') \<Rightarrow> (a, (w', l)))"

definition recording :: "'w venue \<Rightarrow> ('w \<times> gateway_order list) venue" where
  "recording v =
     \<lparr>v_name = v_name v, v_profile = v_profile v,
      v_submit = (\<lambda>ord ty (w, l). case v_submit v ord ty w of (a, w') \<Rightarrow> (a, (w', l @ [ord]))),
      v_get_order = (\<lambda>i. lift_op (v_get_order v i)),
      v_fetch_fills = (\<lambda>i t. lift_op (v_fetch_fills v i t)),
      v_cancel = map_option (\<lambda>f i. lift_op (f i)) (v_cancel v),
      v_allowance = (\<lambda>t. lift_op (v_allowance v t)),
      v_api = map_option (\<lambda>f t. lift_op (f t)) (v_api v),
      v_provider = map_option (\<lambda>f t. lift_op (f t)) (v_provider v),
      v_clock = lift_op (v_clock v),
      v_sleep = (\<lambda>s (w, l). (v_sleep v s w, l))\<rparr>"

section \<open>The guard interface\<close>

text \<open>
  What a strategy may rely on to establish a property of the world: submitting an order that satisfies
  \<open>good\<close> keeps \<open>inv\<close>, and so does every call that is not a submission. A strategy that only
  submits good orders keeps \<open>inv\<close>; with the recording venue, \<open>inv\<close> says that every logged
  order is good.
\<close>

locale guarded_venue =
  fixes v :: "'w venue" and good :: "gateway_order \<Rightarrow> bool" and inv :: "'w \<Rightarrow> bool"
  assumes submit_inv: "inv w \<Longrightarrow> good ord \<Longrightarrow> inv (snd (v_submit v ord ty w))"
    and get_order_inv: "inv w \<Longrightarrow> inv (snd (v_get_order v i w))"
    and fetch_inv: "inv w \<Longrightarrow> inv (snd (v_fetch_fills v i t w))"
    and cancel_inv: "v_cancel v = Some f \<Longrightarrow> inv w \<Longrightarrow> inv (snd (f i w))"
    and api_inv: "v_api v = Some g \<Longrightarrow> inv w \<Longrightarrow> inv (snd (g t w))"
    and provider_inv: "v_provider v = Some g \<Longrightarrow> inv w \<Longrightarrow> inv (snd (g t w))"
    and clock_inv: "inv w \<Longrightarrow> inv (snd (v_clock v w))"
    and sleep_inv: "inv w \<Longrightarrow> inv (v_sleep v s w)"

lemma snd_lift_op [simp]: "snd (snd (lift_op f wl)) = snd wl"
  by (auto simp: lift_op_def split: prod.splits)

text \<open>The recording venue meets the guard interface for every \<open>good\<close>.\<close>

lemma recording_guarded:
  "guarded_venue (recording v) good (\<lambda>(w, l). \<forall>ord\<in>set l. good ord)"
  by unfold_locales
    (auto simp: recording_def lift_op_def split: prod.splits)

interpretation recorded: guarded_venue "recording v" good "\<lambda>(w, l). \<forall>ord\<in>set l. good ord"
  for v :: "'w venue" and good :: "gateway_order \<Rightarrow> bool"
  by (rule recording_guarded)

text \<open>
  Counting instead of judging: \<open>cnt\<close> grows by at most one per submission and by no other call.
  The length of the log of the recording venue is such a count.
\<close>

locale metered_venue =
  fixes v :: "'w venue" and cnt :: "'w \<Rightarrow> nat"
  assumes submit_cnt: "cnt (snd (v_submit v ord ty w)) \<le> Suc (cnt w)"
    and get_order_cnt: "cnt (snd (v_get_order v i w)) = cnt w"
    and fetch_cnt: "cnt (snd (v_fetch_fills v i t w)) = cnt w"
    and cancel_cnt: "v_cancel v = Some f \<Longrightarrow> cnt (snd (f i w)) = cnt w"
    and api_cnt: "v_api v = Some g \<Longrightarrow> cnt (snd (g t w)) = cnt w"
    and provider_cnt: "v_provider v = Some g \<Longrightarrow> cnt (snd (g t w)) = cnt w"
    and clock_cnt: "cnt (snd (v_clock v w)) = cnt w"
    and sleep_cnt: "cnt (v_sleep v s w) = cnt w"

interpretation logged: metered_venue "recording v" "\<lambda>(w, l). length l"
  for v :: "'w venue"
  by unfold_locales (auto simp: recording_def lift_op_def split: prod.splits)

text \<open>
  A venue whose clock does not run backwards and whose \<open>sleep\<close> takes at least half of the time asked
  for (\<open>asyncio.sleep\<close> may wake up early by the resolution of the event loop's clock).
\<close>

locale clocked_venue =
  fixes v :: "'w venue" and now :: "'w \<Rightarrow> rat"
  assumes clock_reads: "fst (v_clock v w) = now w" "now w \<le> now (snd (v_clock v w))"
    and sleep_passes: "0 \<le> s \<Longrightarrow> now w + s / 2 \<le> now (v_sleep v s w)"
    and fetch_forward: "now w \<le> now (snd (v_fetch_fills v i t w))"

lemma recording_clocked: "clocked_venue v now \<Longrightarrow> clocked_venue (recording v) (now \<circ> fst)"
  by (unfold_locales; clarsimp simp: recording_def lift_op_def clocked_venue_def split: prod.split)
    (metis fst_conv snd_conv)+

lemma recording_submit_log: "snd (snd (v_submit (recording v) ord ty wl)) = snd wl @ [ord]"
  by (auto simp: recording_def split: prod.splits)

end
