(* ===== verification/Strategies.thy ===== *)
theory Strategies
  imports Gateway
begin

text \<open>
  \<open>execution/order_strategies.py\<close>: the FAK retry edge policy, the passive maker price, and the
  three ways of bringing an order to a venue: a post-only maker order with repricing
  (\<open>execute_maker_limit\<close>), the same with a time to live (\<open>execute_gtc_ttl\<close>) and the
  fill-and-kill retry (\<open>execute_fak_retry\<close>). The loops over attempts recurse on the number of
  attempts left; the polling loop of \<open>execute_gtc_ttl\<close> runs until a clock has advanced, so it takes
  fuel, and \<open>gtc_ttl_terminates\<close> says how much is enough.
\<close>

definition POST_ONLY_REJECT_MARKERS :: "string list" where
  "POST_ONLY_REJECT_MARKERS =
     [''post_only'', ''post only'', ''post-only'', ''crosses book'', ''cross the book'', ''would_take'',
      ''maker only'']"

definition MAX_MAKER_REPRICE_MAX_RETRIES :: int where
  "MAX_MAKER_REPRICE_MAX_RETRIES = 10"

section \<open>The edge policy of a retried purchase\<close>

record FAKRetryEdgePolicy =
  p_candidate_win :: decimal
  cost_buffer :: decimal
  min_net_edge :: decimal
  market_role :: string
  trade_min_price :: decimal
  trade_max_price :: decimal
  favorite_min_price :: decimal
  favorite_max_price :: decimal
  outsider_max_price :: decimal

definition max_permitted_price :: "FAKRetryEdgePolicy \<Rightarrow> decimal" where
  "max_permitted_price p =
     (if market_role p = ''OUTSIDER'' then min (trade_max_price p) (outsider_max_price p)
      else min (trade_max_price p) (favorite_max_price p))"

definition evaluate_fak_retry_buy_price ::
  "FAKRetryEdgePolicy \<Rightarrow> decimal \<Rightarrow> bool \<times> decimal option \<times> string option" where
  "evaluate_fak_retry_buy_price p fresh =
     (if fresh \<le> 0 then (False, None, Some ''Fresh ask must be positive'')
      else if \<not> (trade_min_price p \<le> fresh \<and> fresh \<le> trade_max_price p) then
        (False, None, Some (''Fresh ask '' @ dec_str fresh @ '' out of global bounds ['' @
           dec_str (trade_min_price p) @ '', '' @ dec_str (trade_max_price p) @ '']''))
      else if market_role p = ''OUTSIDER'' \<and> outsider_max_price p < fresh then
        (False, None, Some (''Fresh ask '' @ dec_str fresh @ '' exceeds outsider max '' @
           dec_str (outsider_max_price p)))
      else if market_role p = ''FAVORITE'' \<and>
              \<not> (favorite_min_price p \<le> fresh \<and> fresh \<le> favorite_max_price p) then
        (False, None, Some (''Fresh ask '' @ dec_str fresh @ '' out of favorite bounds ['' @
           dec_str (favorite_min_price p) @ '', '' @ dec_str (favorite_max_price p) @ '']''))
      else if market_role p \<notin> {''OUTSIDER'', ''FAVORITE''} then
        (False, None, Some (''Unsupported market role '' @ market_role p))
      else let net_edge = d_sub (d_sub (p_candidate_win p) fresh) (cost_buffer p) in
        if net_edge < min_net_edge p then
          (False, Some net_edge, Some (''Dynamic net edge '' @ fixed_str 4 net_edge @ '' < min '' @
             fixed_str 4 (min_net_edge p) @ '' at fresh ask '' @ dec_str fresh))
        else (True, Some net_edge, None))"

section \<open>Classification of venue answers\<close>

definition join_status :: "submission \<Rightarrow> string" where
  "join_status r = sr_status r @ '' '' @ str_or_empty (sr_error r)"

definition is_post_only_rejection :: "submission \<Rightarrow> bool" where
  "is_post_only_rejection r \<longleftrightarrow>
     (\<exists>m\<in>set POST_ONLY_REJECT_MARKERS. contains m (lower (join_status r)))"

definition is_cross_error :: "string \<Rightarrow> bool" where
  "is_cross_error e \<longleftrightarrow>
     (\<exists>m\<in>set [''crosses book'', ''cross the book'', ''would_take'', ''would take'', ''take liquidity'',
               ''immediately take'', ''post-only order'']. contains m (lower e))"

section \<open>The maker price\<close>

definition round_maker_price :: "decimal \<Rightarrow> string \<Rightarrow> decimal \<Rightarrow> gw_error + decimal" where
  "round_maker_price price side tick =
     (if tick \<le> 0 then Inl (OtherError ''tick_size must be positive'')
      else let units = d_div price tick in
        Inr (d_mul (of_int (if upper side = ''SELL'' then \<lceil>units\<rceil> else \<lfloor>units\<rfloor>)) tick))"

definition calculate_maker_price ::
  "gateway_order \<Rightarrow> quote option \<Rightarrow> decimal option \<Rightarrow> decimal \<Rightarrow>
   gw_error + decimal option \<times> decimal option \<times> decimal option \<times> string option" where
  "calculate_maker_price ord prices cap tick =
     (case prices of None \<Rightarrow> Inr (None, None, None, Some ''MAKER_NOT_POSTABLE'')
      | Some q \<Rightarrow>
        if tick \<le> 0 then Inr (None, None, None, Some ''MAKER_NOT_POSTABLE'')
        else let bid = q_best_bid q; ask = q_best_ask q in
        (case (bid, ask) of
           (Some b, Some a) \<Rightarrow>
             if b \<le> 0 \<or> a \<le> 0 \<or> go_limit ord \<le> 0 \<or> upper (go_side ord) \<notin> {''BUY'', ''SELL''} then
               Inr (None, bid, ask, Some ''MAKER_NOT_POSTABLE'')
             else let candidate = (if upper (go_side ord) = ''BUY'' then min (go_limit ord) b
                                   else max (go_limit ord) a) in
               (case round_maker_price candidate (upper (go_side ord)) tick of Inl e \<Rightarrow> Inl e | Inr p \<Rightarrow>
                 if p \<le> 0 \<or> (upper (go_side ord) = ''BUY'' \<and> a \<le> p) \<or> (upper (go_side ord) = ''SELL'' \<and> p \<le> b)
                 then Inr (None, bid, ask, Some ''MAKER_NOT_POSTABLE'')
                 else if (case cap of None \<Rightarrow> False | Some c \<Rightarrow> upper (go_side ord) = ''BUY'' \<and> c < p)
                 then Inr (None, bid, ask, Some ''PRICE_MOVED'')
                 else Inr (Some p, bid, ask, None))
         | _ \<Rightarrow> Inr (None, bid, ask, Some ''MAKER_NOT_POSTABLE'')))"

text \<open>One source of quotes; \<open>None\<close> when there is no such source or it gave nothing.\<close>

definition ask_source :: "(string \<Rightarrow> 'w \<Rightarrow> quote option \<times> 'w) option \<Rightarrow> string \<Rightarrow> 'w \<Rightarrow> quote option \<times> 'w" where
  "ask_source src token w = (case src of None \<Rightarrow> (None, w) | Some f \<Rightarrow> f token w)"

definition fresh_prices :: "'w venue \<Rightarrow> string \<Rightarrow> 'w \<Rightarrow> quote option \<times> 'w" where
  "fresh_prices v token w =
     (case ask_source (v_api v) token w of
        (Some q, w') \<Rightarrow> (Some q, w')
      | (None, w') \<Rightarrow> ask_source (v_provider v) token w')"

section \<open>The maker strategy\<close>

definition edge_telemetry ::
  "FAKRetryEdgePolicy option \<Rightarrow> bool \<Rightarrow> decimal option \<Rightarrow> submission \<Rightarrow> submission" where
  "edge_telemetry pol checked edge r =
     r\<lparr>sr_dyn_checked := checked, sr_dyn_edge := edge, sr_dyn_min := map_option min_net_edge pol,
       sr_dyn_prob := map_option p_candidate_win pol, sr_dyn_max := map_option max_permitted_price pol\<rparr>"

definition maker_telemetry :: "FAKRetryEdgePolicy option \<Rightarrow> submission \<Rightarrow> submission" where
  "maker_telemetry pol = edge_telemetry pol False None"

text \<open>
  \<open>order.model_copy(update={"limit_price": p, "requested_shares": s})\<close>: a purchase with a budget is
  resized to it.
\<close>

definition reprice :: "decimal \<Rightarrow> gateway_order \<Rightarrow> gateway_order" where
  "reprice p ord = ord\<lparr>go_limit := p,
     go_shares := (if upper (go_side ord) = ''BUY'' \<and> num_or (go_max_spend ord) 0 \<noteq> 0
                   then d_div (num_or (go_max_spend ord) 0) p else go_shares ord)\<rparr>"

definition has_quotes :: "'w venue \<Rightarrow> bool" where
  "has_quotes v \<longleftrightarrow> v_api v \<noteq> None \<or> v_provider v \<noteq> None"

definition not_postable :: "string option \<Rightarrow> decimal option \<Rightarrow> decimal option \<Rightarrow> int \<Rightarrow> submission \<Rightarrow> submission" where
  "not_postable failure bid ask n r =
     (let s = (case failure of None \<Rightarrow> ''MAKER_NOT_POSTABLE'' | Some f \<Rightarrow> f) in
      r\<lparr>sr_status := s, sr_rejection := Some s, sr_error := Some s, sr_maker_attempts := n,
        sr_maker_status := Some s, sr_best_bid := bid, sr_best_ask := ask\<rparr>)"

text \<open>The alignment of the first submission with the book: the result to return, or the order to submit.\<close>

definition prepare_maker ::
  "'w venue \<Rightarrow> gateway_order \<Rightarrow> decimal option \<Rightarrow> decimal \<Rightarrow> 'w \<Rightarrow>
   (gw_error + submission + gateway_order \<times> decimal option \<times> decimal option) \<times> 'w" where
  "prepare_maker v ord cap tick w =
     (if \<not> has_quotes v then (Inr (Inr (ord, None, None)), w)
      else case fresh_prices v (go_token ord) w of
        (None, w1) \<Rightarrow> (Inr (Inr (ord, None, None)), w1)
      | (Some q, w1) \<Rightarrow>
         (case calculate_maker_price ord (Some q) cap tick of
            Inl e \<Rightarrow> (Inl e, w1)
          | Inr (None, bid, ask, failure) \<Rightarrow>
              (Inr (Inl (not_postable failure bid ask 0 (submission_result False []))), w1)
          | Inr (Some p, bid, ask, _) \<Rightarrow> (Inr (Inr (reprice p ord, bid, ask)), w1)))"

text \<open>
  One submission: a gateway whose \<open>submit\<close> raises TypeError is called again without the order type.
  An exception that says the order would cross the book becomes a rejection, any other ends the strategy.
\<close>

definition submit_typed :: "'w venue \<Rightarrow> gateway_order \<Rightarrow> string \<Rightarrow> 'w \<Rightarrow> (gw_error + submission) \<times> 'w" where
  "submit_typed v ord ty w =
     (case v_submit v ord (Some ty) w of
        (Inl (TypeErr _), w') \<Rightarrow> v_submit v ord None w'
      | (r, w') \<Rightarrow> (r, w'))"

definition maker_answer :: "int \<Rightarrow> gw_error + submission \<Rightarrow> submission + submission" where
  "maker_answer n a =
     (case a of
        Inr r \<Rightarrow> Inr r
      | Inl e \<Rightarrow>
          if is_cross_error (err_text e)
          then Inr ((submission_result False ''POST_ONLY_REJECTED'')\<lparr>sr_rejection := Some ''POST_ONLY_REJECTED'',
                     sr_error := Some (err_text e)\<rparr>)
          else Inl ((submission_result False ''NETWORK_ERROR'')\<lparr>sr_error := Some (err_text e),
                     sr_maker_attempts := n\<rparr>))"

text \<open>The prefix \<open>f"{code}: {msg}".rstrip()\<close> unless the message has the code already.\<close>

definition tagged :: "string \<Rightarrow> string option \<Rightarrow> string" where
  "tagged code msg =
     (let m = str_or_empty msg in if contains code m then m else rstrip (code @ '': '' @ m))"

definition rejected_as :: "string \<Rightarrow> int \<Rightarrow> submission \<Rightarrow> submission" where
  "rejected_as code n r =
     r\<lparr>sr_status := code, sr_rejection := Some code, sr_error := Some (tagged code (sr_error r)),
       sr_maker_attempts := n\<rparr>"

definition maker_done :: "gateway_order \<Rightarrow> decimal option \<Rightarrow> decimal option \<Rightarrow> int \<Rightarrow> submission \<Rightarrow> submission" where
  "maker_done ord bid ask n r =
     r\<lparr>sr_limit := Some (go_limit ord), sr_shares := Some (go_shares ord), sr_maker_attempts := n,
       sr_maker_status := (if sr_accepted r then Some (if 1 < n then ''MAKER_REPRICED'' else ''RESTING'') else None),
       sr_best_bid := bid, sr_best_ask := ask\<rparr>"

fun maker_loop ::
  "'w venue \<Rightarrow> string \<Rightarrow> decimal option \<Rightarrow> decimal \<Rightarrow> nat \<Rightarrow> int \<Rightarrow> gateway_order \<Rightarrow> decimal option \<Rightarrow>
   decimal option \<Rightarrow> 'w \<Rightarrow> (gw_error + submission) \<times> 'w" where
  "maker_loop v ty cap tick 0 n ord bid ask w = (Inr (submission_result False ''MAKER_NOT_POSTABLE''), w)"
| "maker_loop v ty cap tick (Suc left) n ord bid ask w =
     (case submit_typed v ord ty w of (a, w1) \<Rightarrow>
      (case maker_answer n a of
         Inl r \<Rightarrow> (Inr r, w1)
       | Inr r \<Rightarrow>
         if sr_accepted r \<or> \<not> is_post_only_rejection r then (Inr (maker_done ord bid ask n r), w1)
         else if \<not> is_cross_error (join_status r) then (Inr (rejected_as ''POST_ONLY_REJECTED'' n r), w1)
         else if \<not> has_quotes v then (Inr (rejected_as ''POST_ONLY_REJECTED'' n r), w1)
         else if left = 0 then
           (Inr ((rejected_as ''MAKER_NOT_POSTABLE'' n r)\<lparr>sr_maker_status := Some ''MAKER_NOT_POSTABLE''\<rparr>), w1)
         else case fresh_prices v (go_token ord) w1 of (prices, w2) \<Rightarrow>
           (case calculate_maker_price ord prices cap tick of
              Inl e \<Rightarrow> (Inl e, w2)
            | Inr (None, bid', ask', failure) \<Rightarrow> (Inr (not_postable failure bid' ask' n r), w2)
            | Inr (Some p, bid', ask', _) \<Rightarrow>
                maker_loop v ty cap tick left (n + 1) (reprice p ord) bid' ask' w2)))"

definition attempts_allowed :: "int \<Rightarrow> nat" where
  "attempts_allowed k = nat (1 + max 0 (min k MAX_MAKER_REPRICE_MAX_RETRIES))"

definition execute_maker_limit ::
  "'w venue \<Rightarrow> gateway_order \<Rightarrow> string \<Rightarrow> decimal option \<Rightarrow> int \<Rightarrow> decimal \<Rightarrow> FAKRetryEdgePolicy option \<Rightarrow> 'w \<Rightarrow>
   (gw_error + submission) \<times> 'w" where
  "execute_maker_limit v ord ty cap max_reprice tick pol w =
     (case prepare_maker v (ord\<lparr>go_post_only := True\<rparr>) cap tick w of
        (Inl e, w1) \<Rightarrow> (Inl e, w1)
      | (Inr (Inl r), w1) \<Rightarrow> (Inr (maker_telemetry pol r), w1)
      | (Inr (Inr (cur, bid, ask)), w1) \<Rightarrow>
          map_prod (map_sum id (maker_telemetry pol)) id
            (maker_loop v ty cap tick (attempts_allowed max_reprice) 1 cur bid ask w1))"

section \<open>The maker order with a time to live\<close>

text \<open>
  The polling loop: \<open>Some True\<close> when a fill appeared, \<open>Some False\<close> when the time ran out or a call
  raised, \<open>None\<close> when the fuel ran out.
\<close>

fun poll_fills ::
  "nat \<Rightarrow> 'w venue \<Rightarrow> string \<Rightarrow> string \<Rightarrow> pyfloat \<Rightarrow> pyfloat \<Rightarrow> 'w \<Rightarrow> bool option \<times> 'w" where
  "poll_fills 0 v i token start ttl w = (None, w)"
| "poll_fills (Suc fuel) v i token start ttl w =
     (case v_clock v w of (t, w1) \<Rightarrow>
      if \<not> flt (t - start) < ttl then (Some False, w1)
      else case v_fetch_fills v i token (v_sleep v (1/2) w1) of
        (Inl e, w2) \<Rightarrow> (Some False, w2)
      | (Inr fills, w2) \<Rightarrow>
          if fills \<noteq> [] then (Some True, w2) else poll_fills fuel v i token start ttl w2)"

definition cancel_if_possible :: "'w venue \<Rightarrow> string \<Rightarrow> 'w \<Rightarrow> 'w" where
  "cancel_if_possible v i w = (case v_cancel v of None \<Rightarrow> w | Some f \<Rightarrow> snd (f i w))"

text \<open>What happens after the cancellation: a late fill, a match without a fill yet, or the timeout.\<close>

definition after_ttl :: "'w venue \<Rightarrow> submission \<Rightarrow> string \<Rightarrow> string \<Rightarrow> pyfloat \<Rightarrow> 'w \<Rightarrow> submission \<times> 'w" where
  "after_ttl v r i token ttl w =
     (case v_fetch_fills v i token w of (fs, w1) \<Rightarrow>
      if (case fs of Inl _ \<Rightarrow> False | Inr fills \<Rightarrow> fills \<noteq> []) then (r\<lparr>sr_maker_status := Some ''FILLED''\<rparr>, w1)
      else case v_get_order v i w1 of (st, w2) \<Rightarrow>
        if (case st of Inl _ \<Rightarrow> False
            | Inr o1 \<Rightarrow> upper (sr_status o1) \<in> {''MATCHED'', ''PARTIALLY_MATCHED'', ''PARTIALLY_FILLED''})
        then (r\<lparr>sr_accepted := True, sr_status := ''MATCHED'', sr_settlement := ''PENDING'',
                sr_maker_status := Some ''MATCHED_PENDING_SETTLEMENT'',
                sr_error := Some ''GTC order matched; awaiting provider fill/settlement reconciliation''\<rparr>, w2)
        else (r\<lparr>sr_accepted := False, sr_status := ''NO_LIQUIDITY_TTL_EXPIRED'',
                sr_maker_status := Some ''TIMEOUT'',
                sr_error := Some (''GTC order expired after '' @ float_str ttl @ ''s without fill'')\<rparr>, w2))"

definition execute_gtc_ttl ::
  "nat \<Rightarrow> 'w venue \<Rightarrow> gateway_order \<Rightarrow> pyfloat \<Rightarrow> bool \<Rightarrow> decimal option \<Rightarrow> int \<Rightarrow> decimal \<Rightarrow>
   FAKRetryEdgePolicy option \<Rightarrow> 'w \<Rightarrow> (gw_error + submission) option \<times> 'w" where
  "execute_gtc_ttl fuel v ord ttl post_only cap max_reprice tick pol w =
     (let maker_order = ord\<lparr>go_post_only := post_only\<rparr> in
      if \<not> post_only then map_prod Some id (v_submit v maker_order (Some ''GTC'') w)
      else case execute_maker_limit v maker_order ''GTC'' cap max_reprice tick pol w of
        (Inl e, w1) \<Rightarrow> (Some (Inl e), w1)
      | (Inr r, w1) \<Rightarrow>
          if \<not> sr_accepted r \<or> str_or_empty (sr_order_id r) = [] then (Some (Inr r), w1)
          else let i = str_or_empty (sr_order_id r) in
            (case v_clock v w1 of (start, w2) \<Rightarrow>
             (case poll_fills fuel v i (go_token maker_order) start ttl w2 of
                (None, w3) \<Rightarrow> (None, w3)
              | (Some True, w3) \<Rightarrow> (Some (Inr (r\<lparr>sr_maker_status := Some ''FILLED''\<rparr>)), w3)
              | (Some False, w3) \<Rightarrow>
                  map_prod (\<lambda>x. Some (Inr x)) id
                    (after_ttl v r i (go_token maker_order) ttl (cancel_if_possible v i w3)))))"

section \<open>The fill-and-kill retry\<close>

record fak_state =
  fk_order :: gateway_order
  fk_cap :: "decimal option"
  fk_blocked :: "string option"
  fk_checked :: bool
  fk_edge :: "decimal option"
  fk_last :: "submission option"

definition fak_telemetry :: "FAKRetryEdgePolicy option \<Rightarrow> fak_state \<Rightarrow> int \<Rightarrow> submission \<Rightarrow> submission" where
  "fak_telemetry pol st n r = (edge_telemetry pol (fk_checked st) (fk_edge st) r)\<lparr>sr_retry_attempts := n\<rparr>"

definition fak_start :: "gateway_order \<Rightarrow> decimal option \<Rightarrow> fak_state" where
  "fak_start ord cap =
     (let eff = (case cap of None \<Rightarrow> go_max_acceptable ord | Some c \<Rightarrow> Some c) in
      \<lparr>fk_order = (if eff \<noteq> None \<and> go_max_acceptable ord \<noteq> eff then ord\<lparr>go_max_acceptable := eff\<rparr> else ord),
       fk_cap = eff, fk_blocked = None, fk_checked = False, fk_edge = None, fk_last = None\<rparr>)"

definition is_buy :: "gateway_order \<Rightarrow> bool" where
  "is_buy ord \<longleftrightarrow> upper (go_side ord) = ''BUY''"

text \<open>The edge check of a simulated LIVE_PARITY fill: it applies, and the policy refuses the quote.\<close>

definition parity_checked :: "'w venue \<Rightarrow> FAKRetryEdgePolicy option \<Rightarrow> gateway_order \<Rightarrow> submission \<Rightarrow> bool" where
  "parity_checked v pol ord r \<longleftrightarrow>
     sr_accepted r \<and> sr_fills r \<noteq> [] \<and> sr_paper_quote r \<noteq> None \<and> v_profile v = Some ''LIVE_PARITY'' \<and>
     pol \<noteq> None \<and> is_buy ord"

definition price_moved :: "string \<Rightarrow> string option \<Rightarrow> submission \<Rightarrow> submission" where
  "price_moved code msg r = r\<lparr>sr_status := ''PRICE_MOVED'', sr_rejection := Some code, sr_error := msg\<rparr>"

definition parity_rejection :: "string option \<Rightarrow> submission \<Rightarrow> submission" where
  "parity_rejection msg r =
     (price_moved ''DYNAMIC_EDGE_REJECTED''
        (Some (case msg of None \<Rightarrow> ''DYNAMIC_EDGE_REJECTED'' | Some m \<Rightarrow> m)) r)
       \<lparr>sr_accepted := False, sr_settlement := ''FAILED'', sr_trade_ids := [], sr_fills := []\<rparr>"

text \<open>
  The answer to one submission: \<open>Inl\<close> the result to return, \<open>Inr\<close> the state to retry in.
\<close>

definition is_no_liquidity :: "submission \<Rightarrow> bool" where
  "is_no_liquidity r \<longleftrightarrow> sr_status r = ''NO_LIQUIDITY_FAK'' \<or>
     contains ''NO_LIQUIDITY_FAK'' (str_or_empty (sr_error r))"

definition fak_answer ::
  "'w venue \<Rightarrow> FAKRetryEdgePolicy option \<Rightarrow> int \<Rightarrow> fak_state \<Rightarrow> submission \<Rightarrow> submission + fak_state" where
  "fak_answer v pol n st r =
     (let st1 = st\<lparr>fk_last := Some r\<rparr>;
          (rejected, st2) =
            (case (pol, sr_paper_quote r) of
               (Some p, Some q) \<Rightarrow>
                 if parity_checked v pol (fk_order st) r then
                   (case evaluate_fak_retry_buy_price p q of (ok, edge, msg) \<Rightarrow>
                      (if ok then None else Some (parity_rejection msg r),
                       st1\<lparr>fk_checked := True, fk_edge := edge\<rparr>))
                 else (None, st1)
             | _ \<Rightarrow> (None, st1))
      in case rejected of
           Some r' \<Rightarrow> Inl (fak_telemetry pol st2 n r')
         | None \<Rightarrow>
             if sr_accepted r \<and> \<not> is_no_liquidity r then Inl (fak_telemetry pol st2 n r) else Inr st2)"

text \<open>The quote before a retry: the quote provider of the gateway first, then the API client.\<close>

definition retry_prices :: "'w venue \<Rightarrow> string \<Rightarrow> 'w \<Rightarrow> quote option \<times> 'w" where
  "retry_prices v token w =
     (case ask_source (v_provider v) token w of
        (Some q, w') \<Rightarrow> (Some q, w')
      | (None, w') \<Rightarrow> ask_source (v_api v) token w')"

text \<open>A refreshed order: a purchase with a budget (zero included) is resized to it.\<close>

definition refreshed :: "decimal \<Rightarrow> gateway_order \<Rightarrow> gateway_order" where
  "refreshed p ord = ord\<lparr>go_limit := p,
     go_shares := (case go_max_spend ord of
                     Some m \<Rightarrow> if is_buy ord then d_div m p else go_shares ord
                   | None \<Rightarrow> go_shares ord)\<rparr>"

definition refresh_price ::
  "FAKRetryEdgePolicy option \<Rightarrow> int \<Rightarrow> fak_state \<Rightarrow> submission \<Rightarrow> decimal \<Rightarrow> submission + fak_state" where
  "refresh_price pol n st r p =
     (let ord = fk_order st in
      case (if is_buy ord then pol else None) of
        Some policy \<Rightarrow>
          (case evaluate_fak_retry_buy_price policy p of (ok, edge, msg) \<Rightarrow>
           let st1 = st\<lparr>fk_checked := True, fk_edge := edge\<rparr>; eff = Some (max_permitted_price policy) in
           if ok then Inr (st1\<lparr>fk_cap := eff, fk_order := (refreshed p ord)\<lparr>go_max_acceptable := eff\<rparr>,
                             fk_blocked := None\<rparr>)
           else Inl (fak_telemetry pol st1 n (price_moved ''DYNAMIC_EDGE_REJECTED'' msg r)))
      | None \<Rightarrow>
          (case fk_cap st of
             Some c \<Rightarrow>
               if is_buy ord \<and> c < p
               then Inr (st\<lparr>fk_blocked := Some (''Fresh ask '' @ dec_str p @ '' exceeds max acceptable price '' @
                                dec_str c)\<rparr>)
               else Inr (st\<lparr>fk_order := refreshed p ord, fk_blocked := None\<rparr>)
           | None \<Rightarrow> Inr (st\<lparr>fk_order := refreshed p ord, fk_blocked := None\<rparr>)))"

definition fak_refresh ::
  "FAKRetryEdgePolicy option \<Rightarrow> bool \<Rightarrow> int \<Rightarrow> fak_state \<Rightarrow> submission \<Rightarrow> quote option \<Rightarrow> submission + fak_state" where
  "fak_refresh pol require n st r prices =
     (let ord = fk_order st in
      if is_buy ord \<and> require \<and> (pol = None \<or> prices = None) then
        Inl (fak_telemetry pol st n (price_moved ''DYNAMIC_EDGE_UNAVAILABLE''
          (Some (if pol = None then ''Dynamic edge policy unavailable; retry was not submitted''
                 else ''Fresh quote unavailable; dynamic edge was not revalidated'')) r))
      else case prices of
        None \<Rightarrow> Inr st
      | Some q \<Rightarrow>
          (case (if is_buy ord then q_best_ask q else q_best_bid q) of
             None \<Rightarrow>
               if is_buy ord \<and> require then
                 Inl (fak_telemetry pol st n (price_moved ''DYNAMIC_EDGE_UNAVAILABLE''
                   (Some ''Fresh quote missing best ask; dynamic edge was not revalidated'') r))
               else Inr st
           | Some p \<Rightarrow> if 0 < p then refresh_price pol n st r p else Inr st))"

definition fak_exhausted :: "FAKRetryEdgePolicy option \<Rightarrow> int \<Rightarrow> int \<Rightarrow> fak_state \<Rightarrow> submission" where
  "fak_exhausted pol max_attempts n st =
     fak_telemetry pol st n
       (case (fk_blocked st, fk_last st) of
          (Some msg, Some r) \<Rightarrow>
            price_moved (if fk_checked st then ''DYNAMIC_EDGE_REJECTED'' else ''MAX_ACCEPTABLE_PRICE_EXCEEDED'')
              (Some msg) r
        | (None, Some r) \<Rightarrow> r
        | (_, None) \<Rightarrow> (submission_result False ''NO_LIQUIDITY_FAK'')
            \<lparr>sr_error := Some (''FAK retry exhausted after '' @ int_str max_attempts @ '' attempts'')\<rparr>)"

fun fak_loop ::
  "'w venue \<Rightarrow> FAKRetryEdgePolicy option \<Rightarrow> bool \<Rightarrow> int \<Rightarrow> pyfloat \<Rightarrow> nat \<Rightarrow> int \<Rightarrow> fak_state \<Rightarrow> 'w \<Rightarrow>
   submission \<times> 'w" where
  "fak_loop v pol require max_attempts delay 0 n st w = (fak_exhausted pol max_attempts (n - 1) st, w)"
| "fak_loop v pol require max_attempts delay (Suc left) n st w =
     (case v_submit v (fk_order st) None w of
        (Inl e, w1) \<Rightarrow>
          if left = 0 then
            (fak_telemetry pol st n
               (case fk_last st of Some r \<Rightarrow> r
                | None \<Rightarrow> (submission_result False ''NETWORK_ERROR'')\<lparr>sr_error := Some (err_text e)\<rparr>), w1)
          else fak_loop v pol require max_attempts delay left (n + 1) st (v_sleep v delay w1)
      | (Inr r, w1) \<Rightarrow>
          (case fak_answer v pol n st r of
             Inl res \<Rightarrow> (res, w1)
           | Inr st1 \<Rightarrow>
               if left = 0 then (fak_exhausted pol max_attempts n st1, w1)
               else case retry_prices v (go_token (fk_order st1)) (v_sleep v delay w1) of (prices, w2) \<Rightarrow>
                 (case fak_refresh pol require n st1 r prices of
                    Inl res \<Rightarrow> (res, w2)
                  | Inr st2 \<Rightarrow> fak_loop v pol require max_attempts delay left (n + 1) st2 w2)))"

definition execute_fak_retry ::
  "'w venue \<Rightarrow> gateway_order \<Rightarrow> int \<Rightarrow> pyfloat \<Rightarrow> decimal option \<Rightarrow> FAKRetryEdgePolicy option \<Rightarrow> bool \<Rightarrow> 'w \<Rightarrow>
   submission \<times> 'w" where
  "execute_fak_retry v ord max_attempts delay cap pol require w =
     fak_loop v pol require max_attempts delay (nat max_attempts) 1 (fak_start ord cap) w"

section \<open>The edge policy and the maker price\<close>

definition role_bounds :: "FAKRetryEdgePolicy \<Rightarrow> decimal \<Rightarrow> bool" where
  "role_bounds p x \<longleftrightarrow>
     (market_role p = ''OUTSIDER'' \<and> x \<le> outsider_max_price p) \<or>
     (market_role p = ''FAVORITE'' \<and> favorite_min_price p \<le> x \<and> x \<le> favorite_max_price p)"

text \<open>
  A refreshed purchase price is accepted exactly when it is positive, within the global bounds and
  the bounds of the saved role, and the saved probability less price and cost buffer is at least the
  minimal net edge. An accepted price never exceeds \<open>max_permitted_price\<close>, the cap that the
  retried order then carries, and a refusal always has a reason.
\<close>

theorem evaluate_fak_retry_buy_price_correct:
  "(fst (evaluate_fak_retry_buy_price p x) \<longleftrightarrow>
      0 < x \<and> trade_min_price p \<le> x \<and> x \<le> trade_max_price p \<and> role_bounds p x \<and>
      min_net_edge p \<le> d_sub (d_sub (p_candidate_win p) x) (cost_buffer p)) \<and>
   (fst (evaluate_fak_retry_buy_price p x) \<longrightarrow> x \<le> max_permitted_price p) \<and>
   (fst (evaluate_fak_retry_buy_price p x) \<longleftrightarrow> snd (snd (evaluate_fak_retry_buy_price p x)) = None)"
  by (auto simp: evaluate_fak_retry_buy_price_def role_bounds_def max_permitted_price_def Let_def)

definition sample_policy :: FAKRetryEdgePolicy where
  "sample_policy = \<lparr>p_candidate_win = 7/10, cost_buffer = 1/50, min_net_edge = 1/20, market_role = ''FAVORITE'',
     trade_min_price = 1/20, trade_max_price = 95/100, favorite_min_price = 1/2, favorite_max_price = 9/10,
     outsider_max_price = 2/5\<rparr>"

theorem evaluate_fak_retry_buy_price_correct_witness:
  "fst (evaluate_fak_retry_buy_price sample_policy (3/5)) \<and> (3/5::rat) \<le> max_permitted_price sample_policy"
proof -
  have "d_sub (d_sub (7/10) (3/5)) (1/50) = (2/25::rat)"
    using dec_exact [of 1 1] dec_exact [of 8 2] by (simp add: d_sub_def del: eq_divide_eq_numeral1 divide_eq_eq_numeral1)
  then show ?thesis
    using evaluate_fak_retry_buy_price_correct [of sample_policy "3/5"]
    by (simp add: sample_policy_def role_bounds_def)
qed

lemma upper_sides [simp]: "upper ''BUY'' = ''BUY''" "upper ''SELL'' = ''SELL''"
  by code_simp+

lemma round_maker_priceI: "0 < tick \<Longrightarrow> \<exists>n. round_maker_price c s tick = Inr (d_mul (of_int n) tick)"
  by (auto simp: round_maker_price_def Let_def)

lemma calculate_maker_price_total: "\<exists>y. calculate_maker_price ord q cap tick = Inr y"
  by (auto simp: calculate_maker_price_def round_maker_price_def Let_def split: option.splits)

lemma calculate_maker_price_Some:
  assumes "calculate_maker_price ord prices cap tick = Inr (Some p, bid, ask, f)"
  shows "0 < p \<and> f = None \<and> upper (go_side ord) \<in> {''BUY'', ''SELL''} \<and>
    (\<exists>q b a. prices = Some q \<and> bid = Some b \<and> ask = Some a \<and> 0 < b \<and> 0 < a \<and>
       (upper (go_side ord) = ''BUY'' \<longrightarrow> p < a \<and> (\<forall>c. cap = Some c \<longrightarrow> p \<le> c)) \<and>
       (upper (go_side ord) = ''SELL'' \<longrightarrow> b < p))"
  using assms
  by (cases prices; cases "the prices"; cases "q_best_bid (the prices)"; cases "q_best_ask (the prices)")
    (auto simp: calculate_maker_price_def Let_def not_le split: option.splits sum.splits if_splits)

text \<open>On the tick grid of a cent, division and multiplication of a decimal with few enough digits are exact.\<close>

lemma cent_grid:
  assumes "\<bar>c\<bar> * 100 < 10 ^ 28"
  shows "d_div (of_int c / 10 ^ n) (1/100) = of_int c * 100 / 10 ^ n"
  using dec_exact [of "c * 100" n] assms by (simp add: d_div_def abs_mult)

lemma cent_grid_mul: "\<bar>k\<bar> < 10 ^ 28 \<Longrightarrow> d_mul (of_int k) (1/100) = of_int k / 100"
  using dec_exact [of k 2] by (simp add: d_mul_def)

lemma grid_bounds:
  fixes c :: int
  assumes "0 \<le> c" "c * 100 < 10 ^ 28"
  shows "\<bar>\<lfloor>of_int c * 100 / 10 ^ n :: rat\<rfloor>\<bar> < 10 ^ 28" "\<bar>\<lceil>of_int c * 100 / 10 ^ n :: rat\<rceil>\<bar> < 10 ^ 28"
proof -
  let ?u = "of_int c * 100 / 10 ^ n :: rat"
  have "0 \<le> ?u" using assms(1) by simp
  moreover have "?u \<le> of_int (c * 100)"
    using assms(1) one_le_power [of "10::rat" n] by (simp add: divide_le_eq mult_le_cancel_left1)
  ultimately have "0 \<le> \<lfloor>?u\<rfloor>" "\<lfloor>?u\<rfloor> \<le> c * 100" "0 \<le> \<lceil>?u\<rceil>" "\<lceil>?u\<rceil> \<le> c * 100"
    by (linarith, linarith, linarith, linarith)
  with assms(2) show "\<bar>\<lfloor>?u\<rfloor>\<bar> < 10 ^ 28" "\<bar>\<lceil>?u\<rceil>\<bar> < 10 ^ 28" by linarith+
qed

lemma floor_cent: "y = of_int \<lfloor>u :: rat\<rfloor> / 100 \<Longrightarrow> y \<le> u / 100 \<and> u / 100 < y + 1/100"
  using floor_correct [of u] by auto

lemma ceiling_cent: "y = of_int \<lceil>u :: rat\<rceil> / 100 \<Longrightarrow> u / 100 \<le> y \<and> y < u / 100 + 1/100"
  using ceiling_correct [of u] by auto

lemma round_maker_price_cent:
  assumes "0 \<le> c" "c * 100 < 10 ^ 28" "x = of_int c / 10 ^ n"
  shows "upper s \<noteq> ''SELL'' \<Longrightarrow> round_maker_price x s (1/100) = Inr y \<Longrightarrow> y \<le> x \<and> x < y + 1/100"
    and "upper s = ''SELL'' \<Longrightarrow> round_maker_price x s (1/100) = Inr y \<Longrightarrow> x \<le> y \<and> y < x + 1/100"
proof -
  let ?u = "of_int c * 100 / 10 ^ n :: rat"
  have u: "d_div x (1/100) = ?u" using cent_grid [of c n] assms by simp
  have x: "x = ?u / 100" using assms(3) by simp
  show "y \<le> x \<and> x < y + 1/100" if "upper s \<noteq> ''SELL''" "round_maker_price x s (1/100) = Inr y"
  proof -
    have "y = of_int \<lfloor>?u\<rfloor> / 100"
      using that cent_grid_mul [OF grid_bounds(1) [OF assms(1,2), of n]] by (simp add: round_maker_price_def u)
    then show ?thesis unfolding x by (rule floor_cent)
  qed
  show "x \<le> y \<and> y < x + 1/100" if "upper s = ''SELL''" "round_maker_price x s (1/100) = Inr y"
  proof -
    have "y = of_int \<lceil>?u\<rceil> / 100"
      using that cent_grid_mul [OF grid_bounds(2) [OF assms(1,2), of n]] by (simp add: round_maker_price_def u)
    then show ?thesis unfolding x by (rule ceiling_cent)
  qed
qed

text \<open>A price in a book: at most 24 digits in all, so that its hundredfold is still exact.\<close>

definition book_price :: "rat \<Rightarrow> bool" where
  "book_price x \<longleftrightarrow> (\<exists>c n. x = of_int c / 10 ^ n \<and> 0 \<le> c \<and> c * 100 < 10 ^ 28)"

text \<open>
  A maker price, when there is one, is positive and passive: a purchase rests strictly below the
  best ask and within the execution cap, a sale strictly above the best bid. On the default tick of a
  cent, for limit and quotes of at most 26 significant digits, it is never worse than the limit of the
  order: a purchase price is at most the limit and the best bid, a sale price at least the limit and
  the best ask.
\<close>

theorem calculate_maker_price_passive:
  assumes "calculate_maker_price ord (Some q) cap (1/100) = Inr (Some p, Some b, Some a, f)"
    and "book_price (go_limit ord)" "book_price b" "book_price a"
  shows "0 < p \<and>
    (upper (go_side ord) = ''BUY'' \<longrightarrow>
       p < a \<and> p \<le> b \<and> p \<le> go_limit ord \<and> (\<forall>c. cap = Some c \<longrightarrow> p \<le> c)) \<and>
    (upper (go_side ord) = ''SELL'' \<longrightarrow> b < p \<and> a \<le> p \<and> go_limit ord \<le> p)"
proof -
  let ?S = "upper (go_side ord)"
  let ?c = "if ?S = ''BUY'' then min (go_limit ord) b else max (go_limit ord) a"
  have q: "q_best_bid q = Some b" "q_best_ask q = Some a" and r: "round_maker_price ?c ?S (1/100) = Inr p"
    using assms(1)
    by (cases "q_best_bid q"; cases "q_best_ask q";
        auto simp: calculate_maker_price_def Let_def split: option.splits sum.splits if_splits)+
  have "book_price ?c" using assms(2-4) by (auto simp: min_def max_def)
  then obtain c n where c: "0 \<le> c" "c * 100 < 10 ^ 28" "?c = of_int c / 10 ^ n" by (auto simp: book_price_def)
  note Some = calculate_maker_price_Some [OF assms(1)]
  show ?thesis
  proof (cases "?S = ''BUY''")
    case True
    then show ?thesis using Some round_maker_price_cent(1) [OF c, of ?S p] r by auto
  next
    case False
    then show ?thesis using Some round_maker_price_cent(2) [OF c, of ?S p] r by auto
  qed
qed

definition sample_order :: gateway_order where
  "sample_order = \<lparr>go_attempt_id = 1, go_market_id = ''m'', go_asset = ''BTC'', go_outcome = ''YES'',
     go_token = ''t'', go_side = ''BUY'', go_limit = 1/2, go_shares = 10, go_max_spend = Some 5,
     go_max_acceptable = Some (55/100), go_expiration = None, go_post_only = False\<rparr>"

lemma book_price_cents: "0 \<le> c \<Longrightarrow> c < 10 ^ 20 \<Longrightarrow> book_price (of_int c / 100)"
  unfolding book_price_def by (rule exI [of _ c], rule exI [of _ 2]) simp

theorem calculate_maker_price_passive_witness:
  "calculate_maker_price sample_order (Some \<lparr>q_best_bid = Some (48/100), q_best_ask = Some (49/100)\<rparr>)
      (Some (55/100)) (1/100) = Inr (Some (48/100), Some (48/100), Some (49/100), None) \<and>
   (48/100::rat) \<le> go_limit sample_order"
proof -
  have calc: "calculate_maker_price sample_order (Some \<lparr>q_best_bid = Some (48/100), q_best_ask = Some (49/100)\<rparr>)
      (Some (55/100)) (1/100) = Inr (Some (48/100), Some (48/100), Some (49/100), None)"
    by code_simp
  show ?thesis
    using calculate_maker_price_passive [OF calc] book_price_cents [of 50] book_price_cents [of 48]
      book_price_cents [of 49] calc
    by (simp add: sample_order_def upper_def upper_char_def)
qed

end
