(* ===== verification/Strategy_Safety.thy ===== *)
theory Strategy_Safety
  imports Strategies
begin

text \<open>
  What the order strategies do to a venue. The lemmas of the two contexts are proved once for every
  venue that meets the guard or the count interface; the properties are their instances on the
  recording venue, so they speak of the list of orders that reach the venue. The last sections have
  the termination of the polling loop and the two exceptional paths of the retry.
\<close>

section \<open>What the strategies submit\<close>

lemma submit_typed_cases:
  obtains "submit_typed v ord ty w = v_submit v ord (Some ty) w"
  | "submit_typed v ord ty w = v_submit v ord None (snd (v_submit v ord (Some ty) w))"
proof -
  obtain a w1 where s: "v_submit v ord (Some ty) w = (a, w1)" by fastforce
  show thesis
  proof (cases a)
    case (Inl e)
    then show thesis using that s by (cases e) (simp_all add: submit_typed_def)
  next
    case (Inr r)
    then show thesis using that(1) s by (simp add: submit_typed_def)
  qed
qed

text \<open>The three ways a round of the maker loop ends: at once, after a fresh quote, or in the next round.\<close>

lemma maker_loop_cases:
  assumes s: "submit_typed v ord ty w = (a1, w1)" and f: "fresh_prices v (go_token ord) w1 = (q, w2)"
  obtains r where "maker_loop v ty cap tick (Suc left) n ord bid ask w = (r, w1)"
  | r where "maker_loop v ty cap tick (Suc left) n ord bid ask w = (r, w2)"
  | p b a fl where "calculate_maker_price ord q cap tick = Inr (Some p, b, a, fl)"
      "maker_loop v ty cap tick (Suc left) n ord bid ask w = maker_loop v ty cap tick left (n + 1) (reprice p ord) b a w2"
proof (cases "maker_answer n a1")
  case (Inl r)
  then show thesis using that(1) by (simp add: s)
next
  case (Inr r)
  show thesis
  proof (cases "sr_accepted r \<or> \<not> is_post_only_rejection r \<or> \<not> is_cross_error (join_status r) \<or>
      \<not> has_quotes v \<or> left = 0")
    case True
    then have "\<exists>y. maker_loop v ty cap tick (Suc left) n ord bid ask w = (y, w1)" using Inr by (auto simp: s)
    then show thesis using that(1) by blast
  next
    case False
    obtain mp b a fl where c: "calculate_maker_price ord q cap tick = Inr (mp, b, a, fl)"
      using calculate_maker_price_total [of ord q cap tick] by auto
    show thesis using that(2,3) False Inr c by (cases mp) (auto simp: s f)
  qed
qed

lemma execute_maker_limit_cases:
  assumes f: "fresh_prices v (go_token ord) w = (q, w1)"
  obtains r where "execute_maker_limit v ord ty cap k tick pol w = (r, w1)"
  | x b a w' where "w' = w \<or> w' = w1"
      "x = ord\<lparr>go_post_only := True\<rparr> \<or>
       (\<exists>p fl. calculate_maker_price (ord\<lparr>go_post_only := True\<rparr>) q cap tick = Inr (Some p, b, a, fl) \<and>
               x = reprice p (ord\<lparr>go_post_only := True\<rparr>))"
      "snd (execute_maker_limit v ord ty cap k tick pol w) =
       snd (maker_loop v ty cap tick (attempts_allowed k) 1 x b a w')"
proof -
  let ?o = "ord\<lparr>go_post_only := True\<rparr>"
  obtain mp b a fl where c: "calculate_maker_price ?o q cap tick = Inr (mp, b, a, fl)"
    using calculate_maker_price_total [of ?o q cap tick] by auto
  consider "\<not> has_quotes v" | "has_quotes v" "q = None" | "has_quotes v" "q \<noteq> None" "mp = None"
    | p where "has_quotes v" "q \<noteq> None" "mp = Some p" by blast
  then show thesis
  proof cases
    case 1
    then show thesis by (intro that(2) [of w ?o None None]) (simp_all add: execute_maker_limit_def prepare_maker_def)
  next
    case 2
    then show thesis using f
      by (intro that(2) [of w1 ?o None None]) (simp_all add: execute_maker_limit_def prepare_maker_def)
  next
    case 3
    then show thesis using f c
      by (intro that(1)) (auto simp: execute_maker_limit_def prepare_maker_def)
  next
    case (4 p)
    then show thesis using f c
      by (intro that(2) [of w1 "reprice p ?o" b a]) (auto simp: execute_maker_limit_def prepare_maker_def)
  qed
qed

text \<open>The ways a round of the retry loop ends: with a result, or in the next round.\<close>

lemma fak_loop_cases:
  assumes s: "v_submit v (fk_order st) None w = (a, w1)"
  obtains r where "fak_loop v pol require m delay (Suc left) n st w = (r, w1)"
  | r t where "fak_loop v pol require m delay (Suc left) n st w = (r, snd (retry_prices v t (v_sleep v delay w1)))"
  | "fak_loop v pol require m delay (Suc left) n st w =
       fak_loop v pol require m delay left (n + 1) st (v_sleep v delay w1)"
  | r st1 q st2 t where "fak_answer v pol n st r = Inr st1" "fak_refresh pol require n st1 r q = Inr st2"
      "fak_loop v pol require m delay (Suc left) n st w =
       fak_loop v pol require m delay left (n + 1) st2 (snd (retry_prices v t (v_sleep v delay w1)))"
proof (cases a)
  case (Inl e)
  then show thesis using that(1,3) by (cases "left = 0") (auto simp: s)
next
  case (Inr r)
  show thesis
  proof (cases "fak_answer v pol n st r")
    case (Inl res)
    with \<open>a = Inr r\<close> show thesis using that(1) by (simp add: s)
  next
    case (Inr st1)
    obtain q w2 where p: "retry_prices v (go_token (fk_order st1)) (v_sleep v delay w1) = (q, w2)" by fastforce
    then have w2: "w2 = snd (retry_prices v (go_token (fk_order st1)) (v_sleep v delay w1))" by simp
    show thesis
    proof (cases "left = 0")
      case True
      with \<open>a = Inr r\<close> Inr show thesis using that(1) by (simp add: s)
    next
      case False
      show thesis
      proof (cases "fak_refresh pol require n st1 r q")
        case (Inl res)
        with \<open>a = Inr r\<close> Inr False p have "fak_loop v pol require m delay (Suc left) n st w = (res, w2)"
          by (simp add: s)
        then show thesis unfolding w2 by (rule that(2))
      next
        case (Inr st2)
        with \<open>a = Inr r\<close> \<open>fak_answer v pol n st r = Inr st1\<close> False p
        have "fak_loop v pol require m delay (Suc left) n st w = fak_loop v pol require m delay left (n + 1) st2 w2"
          by (simp add: s)
        then show thesis unfolding w2 by (rule that(4) [OF \<open>fak_answer v pol n st r = Inr st1\<close> Inr])
      qed
    qed
  qed
qed

context guarded_venue
begin

lemma ask_source_inv:
  assumes "inv w" "\<And>f. src = Some f \<Longrightarrow> inv (snd (f t w))"
  shows "inv (snd (ask_source src t w))"
  using assms by (auto simp: ask_source_def split: option.splits)

lemma api_source_inv: "inv w \<Longrightarrow> inv (snd (ask_source (v_api v) t w))"
  by (rule ask_source_inv) (auto intro: api_inv)

lemma provider_source_inv: "inv w \<Longrightarrow> inv (snd (ask_source (v_provider v) t w))"
  by (rule ask_source_inv) (auto intro: provider_inv)

lemma fresh_prices_inv: "inv w \<Longrightarrow> inv (snd (fresh_prices v t w))"
  using api_source_inv [of w t] provider_source_inv
  by (auto simp: fresh_prices_def split: prod.splits option.splits)

lemma retry_prices_inv: "inv w \<Longrightarrow> inv (snd (retry_prices v t w))"
  using provider_source_inv [of w t] api_source_inv
  by (auto simp: retry_prices_def split: prod.splits option.splits)

lemma submit_typed_inv: "inv w \<Longrightarrow> good ord \<Longrightarrow> inv (snd (submit_typed v ord ty w))"
  using submit_inv [of w ord "Some ty"] submit_inv [of "snd (v_submit v ord (Some ty) w)" ord None]
  by (cases rule: submit_typed_cases [of v ord ty w]) simp_all

lemma maker_loop_inv:
  assumes close: "\<And>ord prices p b a f. good ord \<Longrightarrow>
      calculate_maker_price ord prices cap tick = Inr (Some p, b, a, f) \<Longrightarrow> good (reprice p ord)"
  shows "inv w \<Longrightarrow> good ord \<Longrightarrow> inv (snd (maker_loop v ty cap tick left n ord bid ask w))"
proof (induction left arbitrary: n ord bid ask w)
  case 0
  then show ?case by simp
next
  case (Suc left)
  obtain a1 w1 where s: "submit_typed v ord ty w = (a1, w1)" by fastforce
  have w1: "inv w1" using submit_typed_inv [OF Suc.prems, of ty] s by simp
  obtain q w2 where f: "fresh_prices v (go_token ord) w1 = (q, w2)" by fastforce
  have w2: "inv w2" using fresh_prices_inv [OF w1, of "go_token ord"] f by simp
  show ?case
  proof (cases rule: maker_loop_cases [OF s f, of cap tick left n bid ask])
    case (1 r)
    with w1 show ?thesis by simp
  next
    case (2 r)
    with w2 show ?thesis by simp
  next
    case (3 p b a fl)
    with Suc.IH [OF w2 close [OF Suc.prems(2)]] show ?thesis by simp
  qed
qed

lemma execute_maker_limit_inv:
  assumes close: "\<And>ord prices p b a f. good ord \<Longrightarrow>
      calculate_maker_price ord prices cap tick = Inr (Some p, b, a, f) \<Longrightarrow> good (reprice p ord)"
    and "inv w" "good (ord\<lparr>go_post_only := True\<rparr>)"
  shows "inv (snd (execute_maker_limit v ord ty cap k tick pol w))"
proof -
  let ?o = "ord\<lparr>go_post_only := True\<rparr>"
  obtain q w1 where f: "fresh_prices v (go_token ?o) w = (q, w1)" by fastforce
  have w1: "inv w1" using fresh_prices_inv [OF assms(2), of "go_token ?o"] f by simp
  have w': "inv w'" if "w' = w \<or> w' = w1" for w' using that w1 assms(2) by blast
  show ?thesis
  proof (cases rule: execute_maker_limit_cases [OF f [simplified], of ty cap k tick pol])
    case (1 r)
    with w1 show ?thesis by simp
  next
    case (2 x b a w')
    have "good x" using 2(2) assms(3) close [OF assms(3)] by auto
    then show ?thesis unfolding 2(3) by (intro maker_loop_inv w' [OF 2(1)]) (auto intro: close)
  qed
qed

text \<open>
  The retry loop keeps a property \<open>G\<close> of its state, from which the order submitted next is good.
\<close>

lemma fak_loop_inv:
  assumes G: "\<And>st. G st \<Longrightarrow> good (fk_order st)"
    and answer: "\<And>st n r st'. G st \<Longrightarrow> fak_answer v pol n st r = Inr st' \<Longrightarrow> G st'"
    and refresh: "\<And>st n r q st'. G st \<Longrightarrow> fak_refresh pol require n st r q = Inr st' \<Longrightarrow> G st'"
  shows "inv w \<Longrightarrow> G st \<Longrightarrow> inv (snd (fak_loop v pol require m delay left n st w))"
proof (induction left arbitrary: n st w)
  case 0
  then show ?case by simp
next
  case (Suc left)
  obtain a w1 where s: "v_submit v (fk_order st) None w = (a, w1)" by fastforce
  have w1: "inv w1" using submit_inv [OF Suc.prems(1) G [OF Suc.prems(2)], of None] s by simp
  show ?case
  proof (cases rule: fak_loop_cases [OF s, of pol require m delay left n])
    case (1 r)
    with w1 show ?thesis by simp
  next
    case (2 r t)
    with retry_prices_inv [OF sleep_inv [OF w1]] show ?thesis by simp
  next
    case 3
    with Suc.IH [OF sleep_inv [OF w1] Suc.prems(2)] show ?thesis by simp
  next
    case (4 r st1 q st2 t)
    then have "G st2" using answer [OF Suc.prems(2)] refresh by blast
    with Suc.IH [OF retry_prices_inv [OF sleep_inv [OF w1]]] 4 show ?thesis by simp
  qed
qed

end

context metered_venue
begin

lemma ask_source_cnt: "(\<And>f. src = Some f \<Longrightarrow> cnt (snd (f t w)) = cnt w) \<Longrightarrow> cnt (snd (ask_source src t w)) = cnt w"
  by (auto simp: ask_source_def split: option.splits)

lemma api_source_cnt: "cnt (snd (ask_source (v_api v) t w)) = cnt w"
  by (rule ask_source_cnt) (rule api_cnt)

lemma provider_source_cnt: "cnt (snd (ask_source (v_provider v) t w)) = cnt w"
  by (rule ask_source_cnt) (rule provider_cnt)

lemma fresh_prices_cnt: "cnt (snd (fresh_prices v t w)) = cnt w"
  using api_source_cnt [of t w] provider_source_cnt [of t]
  by (auto simp: fresh_prices_def split: prod.splits option.splits)

lemma retry_prices_cnt: "cnt (snd (retry_prices v t w)) = cnt w"
  using provider_source_cnt [of t w] api_source_cnt [of t]
  by (auto simp: retry_prices_def split: prod.splits option.splits)

lemma submit_typed_cnt: "cnt (snd (submit_typed v ord ty w)) \<le> cnt w + 2"
  using submit_cnt [of ord "Some ty" w] submit_cnt [of ord None "snd (v_submit v ord (Some ty) w)"]
  by (cases rule: submit_typed_cases [of v ord ty w]) simp_all

lemma maker_loop_cnt: "cnt (snd (maker_loop v ty cap tick left n ord bid ask w)) \<le> cnt w + 2 * left"
proof (induction left arbitrary: n ord bid ask w)
  case 0
  then show ?case by simp
next
  case (Suc left)
  obtain a1 w1 where s: "submit_typed v ord ty w = (a1, w1)" by fastforce
  have w1: "cnt w1 \<le> cnt w + 2" using submit_typed_cnt [of ord ty w] s by simp
  obtain q w2 where f: "fresh_prices v (go_token ord) w1 = (q, w2)" by fastforce
  have w2: "cnt w2 = cnt w1" using fresh_prices_cnt [of "go_token ord" w1] f by simp
  show ?case
  proof (cases rule: maker_loop_cases [OF s f, of cap tick left n bid ask])
    case (1 r)
    with w1 show ?thesis by simp
  next
    case (2 r)
    with w1 w2 show ?thesis by simp
  next
    case (3 p b a fl)
    with Suc.IH [of "n + 1" "reprice p ord" b a w2] w1 w2 show ?thesis by simp
  qed
qed

lemma execute_maker_limit_cnt: "cnt (snd (execute_maker_limit v ord ty cap k tick pol w)) \<le> cnt w + 2 * attempts_allowed k"
proof -
  let ?o = "ord\<lparr>go_post_only := True\<rparr>"
  obtain q w1 where f: "fresh_prices v (go_token ?o) w = (q, w1)" by fastforce
  have w1: "cnt w1 = cnt w" using fresh_prices_cnt [of "go_token ?o" w] f by simp
  show ?thesis
  proof (cases rule: execute_maker_limit_cases [OF f [simplified], of ty cap k tick pol])
    case (1 r)
    with w1 show ?thesis by simp
  next
    case (2 x b a w')
    with maker_loop_cnt [of ty cap tick "attempts_allowed k" 1 x b a w'] w1 show ?thesis by auto
  qed
qed

lemma fak_loop_cnt: "cnt (snd (fak_loop v pol require m delay left n st w)) \<le> cnt w + left"
proof (induction left arbitrary: n st w)
  case 0
  then show ?case by simp
next
  case (Suc left)
  obtain a w1 where s: "v_submit v (fk_order st) None w = (a, w1)" by fastforce
  have w1: "cnt w1 \<le> Suc (cnt w)" using submit_cnt [of "fk_order st" None w] s by simp
  show ?case
  proof (cases rule: fak_loop_cases [OF s, of pol require m delay left n])
    case (1 r)
    with w1 show ?thesis by simp
  next
    case (2 r t)
    with w1 show ?thesis by (simp add: retry_prices_cnt sleep_cnt)
  next
    case 3
    with w1 Suc.IH [of "n + 1" st "v_sleep v delay w1"] show ?thesis by (simp add: sleep_cnt)
  next
    case (4 r st1 q st2 t)
    with w1 Suc.IH [of "n + 1" st2 "snd (retry_prices v t (v_sleep v delay w1))"] show ?thesis
      by (simp add: retry_prices_cnt sleep_cnt)
  qed
qed

end

section \<open>Orders of the maker strategy\<close>

text \<open>An order the maker strategy may submit: the given one, or the given one repriced within the cap.\<close>

definition maker_order_ok :: "gateway_order \<Rightarrow> decimal option \<Rightarrow> gateway_order \<Rightarrow> bool" where
  "maker_order_ok ord cap x \<longleftrightarrow> go_post_only x \<and>
     (x = ord\<lparr>go_post_only := True\<rparr> \<or>
      (\<exists>p. x = (reprice p ord)\<lparr>go_post_only := True\<rparr> \<and> 0 < p \<and>
         (case cap of None \<Rightarrow> True | Some c \<Rightarrow> upper (go_side ord) = ''BUY'' \<longrightarrow> p \<le> c)))"

lemma maker_order_ok_reprice:
  assumes "maker_order_ok ord cap x" "calculate_maker_price x prices cap tick = Inr (Some p, b, a, f)"
  shows "maker_order_ok ord cap (reprice p x)"
proof -
  have side: "go_side x = go_side ord" and eq: "reprice p x = (reprice p ord)\<lparr>go_post_only := True\<rparr>"
    using assms(1) by (auto simp: maker_order_ok_def reprice_def)
  have "0 < p" "case cap of None \<Rightarrow> True | Some c \<Rightarrow> upper (go_side ord) = ''BUY'' \<longrightarrow> p \<le> c"
    using calculate_maker_price_Some [OF assms(2)] side by (auto split: option.splits)
  then show ?thesis by (auto simp: maker_order_ok_def eq)
qed

lemma maker_order_ok_start: "maker_order_ok ord cap (ord\<lparr>go_post_only := True\<rparr>)"
  by (simp add: maker_order_ok_def)

lemma execute_maker_limit_log:
  "\<forall>x\<in>set (snd (snd (execute_maker_limit (recording v) ord ty cap k tick pol (w, [])))). maker_order_ok ord cap x"
proof -
  have "(\<lambda>(w, l). \<forall>x\<in>set l. maker_order_ok ord cap x)
          (snd (execute_maker_limit (recording v) ord ty cap k tick pol (w, [])))"
    using maker_order_ok_reprice maker_order_ok_start
    by (intro recorded.execute_maker_limit_inv [of "maker_order_ok ord cap"]) simp_all
  then show ?thesis by (simp add: case_prod_beta)
qed

text \<open>A venue that answers submissions from a script, quotes one book and advances its clock when asked to sleep.\<close>

definition scripted :: "string option \<Rightarrow> quote option \<Rightarrow> ((gw_error + submission) list \<times> rat) venue" where
  "scripted profile q =
     \<lparr>v_name = ''SCRIPT'', v_profile = profile,
      v_submit = (\<lambda>ord ty (as, t). case as of [] \<Rightarrow> (Inl (GatewayUnavailable ''closed''), ([], t)) | a # rest \<Rightarrow> (a, (rest, t))),
      v_get_order = (\<lambda>i w. (Inr (submission_result True ''LIVE''), w)),
      v_fetch_fills = (\<lambda>i t w. (Inr [], w)), v_cancel = None,
      v_allowance = (\<lambda>t w. (Inr 0, w)),
      v_api = None, v_provider = (case q of None \<Rightarrow> None | Some x \<Rightarrow> Some (\<lambda>t w. (Some x, w))),
      v_clock = (\<lambda>(as, t). (t, (as, t))), v_sleep = (\<lambda>s (as, t). (as, t + s))\<rparr>"

text \<open>
  Every order that \<open>execute_maker_limit\<close> brings to the venue is post-only and is the order it
  was given, or that order at a positive price which for a purchase is within the execution cap and
  with the size that spends its budget there. It submits at most twice per allowed attempt (the second
  time when the gateway raised TypeError), that is at most 22 times whatever the settings are.
\<close>

theorem execute_maker_limit_orders:
  "(\<forall>x\<in>set (snd (snd (execute_maker_limit (recording v) ord ty cap k tick pol (w, [])))). maker_order_ok ord cap x) \<and>
   length (snd (snd (execute_maker_limit (recording v) ord ty cap k tick pol (w, [])))) \<le> 22"
proof -
  have "2 * attempts_allowed k \<le> 22"
    by (simp add: attempts_allowed_def MAX_MAKER_REPRICE_MAX_RETRIES_def)
  then have "length (snd (snd (execute_maker_limit (recording v) ord ty cap k tick pol (w, [])))) \<le> 22"
    using logged.execute_maker_limit_cnt [of v ord ty cap k tick pol "(w, [])"]
    by (simp add: case_prod_beta)
  then show ?thesis using execute_maker_limit_log [of v ord ty cap k tick pol w] by blast
qed

definition crossed :: submission where
  "crossed = (submission_result False ''REJECTED'')\<lparr>sr_error := Some ''post-only order crosses book''\<rparr>"

definition resting :: submission where
  "resting = (submission_result True ''LIVE'')\<lparr>sr_order_id := Some ''o1''\<rparr>"

definition sample_quote :: quote where
  "sample_quote = \<lparr>q_best_bid = Some (48/100), q_best_ask = Some (49/100)\<rparr>"

lemma two_maker_orders:
  "map go_limit (snd (snd (execute_maker_limit (recording (scripted None (Some sample_quote))) sample_order ''GTC''
     (Some (55/100)) 3 (1/100) None (([Inr crossed, Inr resting], 0), [])))) = [48/100, 48/100]"
  by code_simp

theorem execute_maker_limit_orders_witness:
  "\<exists>x y. snd (snd (execute_maker_limit (recording (scripted None (Some sample_quote))) sample_order ''GTC''
     (Some (55/100)) 3 (1/100) None (([Inr crossed, Inr resting], 0), []))) = [x, y] \<and>
     maker_order_ok sample_order (Some (55/100)) x \<and> maker_order_ok sample_order (Some (55/100)) y"
proof -
  obtain x y where xy: "snd (snd (execute_maker_limit (recording (scripted None (Some sample_quote))) sample_order
     ''GTC'' (Some (55/100)) 3 (1/100) None (([Inr crossed, Inr resting], 0), []))) = [x, y]"
    using two_maker_orders by (auto simp: map_eq_Cons_conv)
  with execute_maker_limit_orders [of "scripted None (Some sample_quote)" sample_order "''GTC''" "Some (55/100)" 3
      "1/100" None "([Inr crossed, Inr resting], 0)"] show ?thesis by auto
qed

section \<open>Orders of the fill-and-kill retry\<close>

definition effective_cap :: "gateway_order \<Rightarrow> decimal option \<Rightarrow> decimal option" where
  "effective_cap ord cap = (case cap of None \<Rightarrow> go_max_acceptable ord | Some c \<Rightarrow> Some c)"

text \<open>
  An order the retry may submit: the given one under its effective cap, or the given one at a fresh
  price. A fresh purchase price passed the edge policy when there is one, and is within the cap when
  there is none.
\<close>

definition fak_order_ok ::
  "gateway_order \<Rightarrow> decimal option \<Rightarrow> FAKRetryEdgePolicy option \<Rightarrow> gateway_order \<Rightarrow> bool" where
  "fak_order_ok ord cap pol x \<longleftrightarrow>
     x = ord\<lparr>go_max_acceptable := effective_cap ord cap\<rparr> \<or>
     (\<exists>p>0. case (if is_buy ord then pol else None) of
        Some policy \<Rightarrow> fst (evaluate_fak_retry_buy_price policy p) \<and>
          x = (refreshed p ord)\<lparr>go_max_acceptable := Some (max_permitted_price policy)\<rparr>
      | None \<Rightarrow> x = (refreshed p ord)\<lparr>go_max_acceptable := effective_cap ord cap\<rparr> \<and>
          (is_buy ord \<longrightarrow> (case effective_cap ord cap of None \<Rightarrow> True | Some c \<Rightarrow> p \<le> c)))"

definition fak_state_ok ::
  "gateway_order \<Rightarrow> decimal option \<Rightarrow> FAKRetryEdgePolicy option \<Rightarrow> fak_state \<Rightarrow> bool" where
  "fak_state_ok ord cap pol st \<longleftrightarrow> fak_order_ok ord cap pol (fk_order st) \<and>
     ((if is_buy ord then pol else None) = None \<longrightarrow> fk_cap st = effective_cap ord cap)"

lemma fak_state_okD: "fak_state_ok ord cap pol st \<Longrightarrow> fak_order_ok ord cap pol (fk_order st)"
  by (simp add: fak_state_ok_def)

lemma fak_start_ok: "fak_state_ok ord cap pol (fak_start ord cap)"
  by (auto simp: fak_state_ok_def fak_order_ok_def fak_start_def effective_cap_def Let_def split: option.splits)

lemma fak_answer_state: "fak_answer v pol n st r = Inr st' \<Longrightarrow> fk_order st' = fk_order st \<and> fk_cap st' = fk_cap st"
  by (auto simp: fak_answer_def Let_def split: option.splits prod.splits if_splits)

lemma refreshed_simps:
  "is_buy (x\<lparr>go_max_acceptable := c\<rparr>) = is_buy x" "is_buy (refreshed p x) = is_buy x"
  "refreshed p (x\<lparr>go_max_acceptable := c\<rparr>) = (refreshed p x)\<lparr>go_max_acceptable := c\<rparr>"
  "go_max_acceptable (refreshed p x) = go_max_acceptable x"
  by (cases "go_max_spend x"; simp add: is_buy_def refreshed_def)+

lemma refreshed_twice: "refreshed p (refreshed p' x) = refreshed p x"
  by (cases "go_max_spend x") (simp_all add: refreshed_def is_buy_def)

lemma refreshed_shape:
  assumes "fak_order_ok ord cap pol x"
  shows "is_buy x = is_buy ord" "refreshed p x = (refreshed p ord)\<lparr>go_max_acceptable := go_max_acceptable x\<rparr>"
    "(if is_buy ord then pol else None) = None \<Longrightarrow> go_max_acceptable x = effective_cap ord cap"
proof -
  from assms obtain c p' where
    x: "x = ord\<lparr>go_max_acceptable := c\<rparr> \<or> x = (refreshed p' ord)\<lparr>go_max_acceptable := c\<rparr>"
    and c: "(if is_buy ord then pol else None) = None \<longrightarrow> c = effective_cap ord cap"
    unfolding fak_order_ok_def by (cases "if is_buy ord then pol else None") auto
  show "is_buy x = is_buy ord" "refreshed p x = (refreshed p ord)\<lparr>go_max_acceptable := go_max_acceptable x\<rparr>"
    using x by (auto simp: refreshed_simps refreshed_twice)
  show "(if is_buy ord then pol else None) = None \<Longrightarrow> go_max_acceptable x = effective_cap ord cap"
    using x c by auto
qed

lemma refresh_price_ok:
  assumes ok: "fak_state_ok ord cap pol st" and r: "refresh_price pol n st r p = Inr st'" and "0 < p"
  shows "fak_state_ok ord cap pol st'"
proof -
  let ?x = "fk_order st"
  have x: "fak_order_ok ord cap pol ?x" using ok by (simp add: fak_state_ok_def)
  note shape = refreshed_shape [OF x]
  show ?thesis
  proof (cases "if is_buy ord then pol else None")
    case None
    then have cap: "fk_cap st = effective_cap ord cap" and acc: "go_max_acceptable ?x = effective_cap ord cap"
      using ok shape(3) by (simp_all add: fak_state_ok_def)
    have p: "refresh_price pol n st r p =
        (case fk_cap st of
           Some c \<Rightarrow>
             if is_buy ?x \<and> c < p
             then Inr (st\<lparr>fk_blocked := Some (''Fresh ask '' @ dec_str p @ '' exceeds max acceptable price '' @
                              dec_str c)\<rparr>)
             else Inr (st\<lparr>fk_order := refreshed p ?x, fk_blocked := None\<rparr>)
         | None \<Rightarrow> Inr (st\<lparr>fk_order := refreshed p ?x, fk_blocked := None\<rparr>))"
      using None shape(1) by (simp add: refresh_price_def Let_def)
    have same: "fak_state_ok ord cap pol (st\<lparr>fk_blocked := msg\<rparr>)" for msg
      using ok by (simp add: fak_state_ok_def)
    have new: "fak_state_ok ord cap pol (st\<lparr>fk_order := refreshed p ?x, fk_blocked := None\<rparr>)"
      if "is_buy ord \<longrightarrow> (case effective_cap ord cap of None \<Rightarrow> True | Some c \<Rightarrow> p \<le> c)"
    proof -
      have "fak_order_ok ord cap pol (refreshed p ?x)"
        unfolding fak_order_ok_def None using shape(2) [of p] acc \<open>0 < p\<close> that by auto
      then show ?thesis using cap by (simp add: fak_state_ok_def)
    qed
    show ?thesis using r same new cap shape(1) unfolding p
      by (cases "effective_cap ord cap") (auto simp: not_less split: if_splits)
  next
    case (Some policy)
    then have "fst (evaluate_fak_retry_buy_price policy p)"
      "fk_order st' = (refreshed p ?x)\<lparr>go_max_acceptable := Some (max_permitted_price policy)\<rparr>"
      using r shape(1) by (auto simp: refresh_price_def Let_def split: prod.splits if_splits)
    then have "fak_order_ok ord cap pol (fk_order st')"
      unfolding fak_order_ok_def Some using shape(2) [of p] \<open>0 < p\<close> by auto
    with Some show ?thesis by (simp add: fak_state_ok_def)
  qed
qed

lemma fak_refresh_ok:
  assumes "fak_state_ok ord cap pol st" "fak_refresh pol require n st r q = Inr st'"
  shows "fak_state_ok ord cap pol st'"
  using assms refresh_price_ok [OF assms(1)]
  by (auto simp: fak_refresh_def Let_def split: option.splits if_splits)

lemma execute_fak_retry_log:
  "\<forall>x\<in>set (snd (snd (execute_fak_retry (recording v) ord m delay cap pol require (w, [])))). fak_order_ok ord cap pol x"
proof -
  have "(\<lambda>(w, l). \<forall>x\<in>set l. fak_order_ok ord cap pol x)
          (snd (execute_fak_retry (recording v) ord m delay cap pol require (w, [])))"
    unfolding execute_fak_retry_def
  proof (rule recorded.fak_loop_inv [of "fak_state_ok ord cap pol" "fak_order_ok ord cap pol" v])
    fix st n r st' assume "fak_state_ok ord cap pol st" "fak_answer (recording v) pol n st r = Inr st'"
    then show "fak_state_ok ord cap pol st'" using fak_answer_state by (metis fak_state_ok_def)
  qed (auto intro: fak_refresh_ok fak_start_ok fak_state_okD)
  then show ?thesis by (simp add: case_prod_beta)
qed


definition no_liquidity :: submission where
  "no_liquidity = submission_result False ''NO_LIQUIDITY_FAK''"

definition matched :: submission where
  "matched = (submission_result True ''MATCHED'')\<lparr>sr_order_id := Some ''o1''\<rparr>"

lemma two_fak_orders:
  "map go_limit (snd (snd (execute_fak_retry (recording (scripted None (Some sample_quote))) sample_order 3 (3/4)
     (Some (55/100)) None False (([Inr no_liquidity, Inr matched], 0), [])))) = [1/2, 49/100]"
  by code_simp


section \<open>Simulated fills and the edge policy\<close>

text \<open>What a result may claim: a simulated fill of a purchase at a quote that the policy accepts.\<close>

definition parity_ok :: "FAKRetryEdgePolicy \<Rightarrow> submission \<Rightarrow> bool" where
  "parity_ok p r \<longleftrightarrow>
     (sr_accepted r \<and> sr_fills r \<noteq> [] \<longrightarrow>
      (case sr_paper_quote r of None \<Rightarrow> True | Some q \<Rightarrow> fst (evaluate_fak_retry_buy_price p q)))"

lemma parity_ok_frame [simp]:
  "parity_ok p (fak_telemetry pol st n r) = parity_ok p r"
  "parity_ok p (price_moved code msg r) = parity_ok p r"
  "parity_ok p ((submission_result False s)\<lparr>sr_error := e\<rparr>)"
  "parity_ok p (parity_rejection msg r)"
  by (simp_all add: parity_ok_def fak_telemetry_def edge_telemetry_def price_moved_def submission_result_def
      parity_rejection_def)

definition parity_state :: "FAKRetryEdgePolicy \<Rightarrow> fak_state \<Rightarrow> bool" where
  "parity_state p st \<longleftrightarrow> is_buy (fk_order st) \<and> (case fk_last st of None \<Rightarrow> True | Some r \<Rightarrow> parity_ok p r)"

lemma fak_answer_parity:
  assumes "v_profile v = Some ''LIVE_PARITY''" "is_buy (fk_order st)"
  shows "case fak_answer v (Some p) n st r of Inl res \<Rightarrow> parity_ok p res
         | Inr st' \<Rightarrow> parity_ok p r \<and> parity_state p st'"
proof (cases "parity_checked v (Some p) (fk_order st) r")
  case True
  then obtain q where q: "sr_paper_quote r = Some q" by (auto simp: parity_checked_def)
  obtain ok edge msg where e: "evaluate_fak_retry_buy_price p q = (ok, edge, msg)" by (metis prod_cases3)
  have "ok \<Longrightarrow> parity_ok p r" using q e by (simp add: parity_ok_def)
  then show ?thesis using True q e assms(2) by (cases ok) (auto simp: fak_answer_def parity_state_def Let_def)
next
  case False
  then have "parity_ok p r" using assms by (auto simp: parity_checked_def parity_ok_def split: option.splits)
  then show ?thesis using False assms(2)
    by (auto simp: fak_answer_def parity_state_def Let_def split: option.splits)
qed

lemma fak_refresh_parity:
  assumes "parity_state p st" "parity_ok p r"
  shows "case fak_refresh (Some p) require n st r q of Inl res \<Rightarrow> parity_ok p res | Inr st' \<Rightarrow> parity_state p st'"
proof -
  have "case refresh_price (Some p) n st r x of Inl res \<Rightarrow> parity_ok p res | Inr st' \<Rightarrow> parity_state p st'" for x
  proof -
    obtain ok edge msg where "evaluate_fak_retry_buy_price p x = (ok, edge, msg)" by (metis prod_cases3)
    then show ?thesis using assms
      by (cases ok) (auto simp: refresh_price_def parity_state_def Let_def refreshed_def is_buy_def)
  qed
  then show ?thesis using assms by (auto simp: fak_refresh_def Let_def split: option.splits)
qed

lemma fak_exhausted_parity: "parity_state p st \<Longrightarrow> parity_ok p (fak_exhausted pol m n st)"
  by (auto simp: fak_exhausted_def parity_state_def split: option.splits)

lemma fak_loop_parity:
  assumes "v_profile v = Some ''LIVE_PARITY''"
  shows "parity_state p st \<Longrightarrow> parity_ok p (fst (fak_loop v (Some p) require m delay left n st w))"
proof (induction left arbitrary: n st w)
  case 0
  then show ?case by (simp add: fak_exhausted_parity)
next
  case (Suc left)
  obtain a w1 where s: "v_submit v (fk_order st) None w = (a, w1)" by fastforce
  show ?case
  proof (cases a)
    case (Inl e)
    then show ?thesis using Suc by (auto simp: s parity_state_def split: option.splits)
  next
    case (Inr r)
    have buy: "is_buy (fk_order st)" using Suc.prems by (simp add: parity_state_def)
    show ?thesis
    proof (cases "fak_answer v (Some p) n st r")
      case (Inl res)
      with \<open>a = Inr r\<close> fak_answer_parity [OF assms buy, of p r n] show ?thesis by (simp add: s)
    next
      case (Inr st1)
      then have ok: "parity_ok p r" "parity_state p st1" using fak_answer_parity [OF assms buy, of p r n] by simp_all
      obtain q w2 where q: "retry_prices v (go_token (fk_order st1)) (v_sleep v delay w1) = (q, w2)" by fastforce
      show ?thesis
        using fak_refresh_parity [OF ok(2,1), of require n q] Suc.IH ok(2) \<open>a = Inr r\<close> Inr
        by (cases "fak_refresh (Some p) require n st1 r q") (auto simp: s q fak_exhausted_parity)
    qed
  qed
qed

text \<open>
  Under the LIVE_PARITY profile a purchase with an edge policy never reports a simulated fill at a
  quote that the policy refuses: every accepted result with fills has a quote the policy accepts.
\<close>

theorem parity_fill_has_edge:
  assumes "v_profile v = Some ''LIVE_PARITY''" "is_buy ord"
    and "fst (execute_fak_retry v ord m delay cap (Some p) require w) = r"
    and "sr_accepted r" "sr_fills r \<noteq> []" "sr_paper_quote r = Some q"
  shows "fst (evaluate_fak_retry_buy_price p q)"
proof -
  have "parity_state p (fak_start ord cap)"
    using assms(2) by (auto simp: parity_state_def fak_start_def is_buy_def Let_def)
  from fak_loop_parity [OF assms(1) this] have "parity_ok p r"
    using assms(3) by (auto simp: execute_fak_retry_def)
  then show ?thesis using assms(4-6) by (simp add: parity_ok_def)
qed

definition simulated_fill :: "decimal \<Rightarrow> submission" where
  "simulated_fill q = matched\<lparr>sr_paper_quote := Some q,
     sr_fills := [\<lparr>te_trade_id = ''t1'', te_gateway = ''FAKE'', te_gross = 5, te_price = q, te_shares = 10, te_fee = 0,
                   te_matched_at = 0, te_tx_hash = None\<rparr>]\<rparr>"

theorem parity_fill_has_edge_witness:
  "\<exists>r. fst (execute_fak_retry (scripted (Some ''LIVE_PARITY'') None) sample_order 3 (3/4) None (Some sample_policy) True
       ([Inr (simulated_fill (3/5))], 0)) = r \<and> sr_accepted r \<and> fst (evaluate_fak_retry_buy_price sample_policy (3/5))"
proof -
  let ?r = "fst (execute_fak_retry (scripted (Some ''LIVE_PARITY'') None) sample_order 3 (3/4) None (Some sample_policy)
     True ([Inr (simulated_fill (3/5))], 0))"
  have f: "sr_accepted ?r" "sr_fills ?r \<noteq> []" "sr_paper_quote ?r = Some (3/5)" by code_simp+
  have "v_profile (scripted (Some ''LIVE_PARITY'') None) = Some ''LIVE_PARITY''" "is_buy sample_order" by code_simp+
  from parity_fill_has_edge [OF this refl f] f(1) show ?thesis by blast
qed

section \<open>The polling loop ends\<close>

context clocked_venue
begin

lemma poll_fills_ends:
  assumes "flt ttl = ttl"
  shows "start + ttl \<le> now w + of_nat f / 4 \<Longrightarrow> fst (poll_fills (Suc f) v i token start ttl w) \<noteq> None"
proof (induction f arbitrary: w)
  case 0
  obtain w1 where c: "v_clock v w = (now w, w1)" using clock_reads(1) [of w] by (metis prod.collapse)
  have "flt ttl \<le> flt (now w - start)" using 0 by (intro flt_mono) simp
  then show ?case using assms by (simp add: c)
next
  case (Suc f)
  obtain w1 where c: "v_clock v w = (now w, w1)" using clock_reads(1) [of w] by (metis prod.collapse)
  obtain a w2 where g: "v_fetch_fills v i token (v_sleep v (1/2) w1) = (a, w2)" by fastforce
  have "now w \<le> now w1" using clock_reads(2) [of w] c by simp
  moreover have "now w1 + 1/4 \<le> now (v_sleep v (1/2) w1)" using sleep_passes [of "1/2" w1] by simp
  moreover have "now (v_sleep v (1/2) w1) \<le> now w2"
    using fetch_forward [of "v_sleep v (1/2) w1" i token] g by simp
  ultimately have "start + ttl \<le> now w2 + of_nat f / 4" using Suc.prems by (simp add: field_simps)
  from Suc.IH [OF this] show ?case
    by (cases a) (auto simp: c g poll_fills.simps(2) [of "Suc f"] simp del: poll_fills.simps(2))
qed

lemma execute_gtc_ttl_ends:
  assumes "flt ttl = ttl" "4 * ttl \<le> of_nat f"
  shows "fst (execute_gtc_ttl (Suc f) v ord ttl post cap k tick pol w) \<noteq> None"
proof (cases post)
  case False
  then show ?thesis by (simp add: execute_gtc_ttl_def Let_def)
next
  case True
  let ?o = "ord\<lparr>go_post_only := True\<rparr>"
  obtain a w1 where m: "execute_maker_limit v ?o ''GTC'' cap k tick pol w = (a, w1)" by fastforce
  show ?thesis
  proof (cases a)
    case (Inl e)
    with True m show ?thesis by (simp add: execute_gtc_ttl_def Let_def)
  next
    case (Inr r)
    let ?i = "str_or_empty (sr_order_id r)"
    obtain w2 where c: "v_clock v w1 = (now w1, w2)" using clock_reads(1) [of w1] by (metis prod.collapse)
    have "now w1 + ttl \<le> now w2 + of_nat f / 4" using clock_reads(2) [of w1] c assms(2) by simp
    from poll_fills_ends [OF assms(1) this, of ?i "go_token ord"]
    obtain b w3 where p: "poll_fills (Suc f) v ?i (go_token ord) (now w1) ttl w2 = (Some b, w3)"
      by (metis fst_conv not_None_eq prod.exhaust)
    show ?thesis using True m Inr c p
      by (cases b) (simp_all add: execute_gtc_ttl_def Let_def del: poll_fills.simps)
  qed
qed

end

text \<open>
  C37: the time-to-live strategy ends: when the clock of the venue does not run backwards and a sleep
  takes at least half of the time asked for, \<open>4 * ttl + 1\<close> rounds of polling are enough, whatever the
  venue answers.
\<close>

theorem gtc_ttl_terminates:
  assumes "clocked_venue v now" "flt ttl = ttl" "4 * ttl \<le> of_nat f"
  shows "\<exists>r. fst (execute_gtc_ttl (Suc f) v ord ttl post cap k tick pol w) = Some r"
  using clocked_venue.execute_gtc_ttl_ends [OF assms] by auto

lemma scripted_clocked: "clocked_venue (scripted pr q) snd"
  by unfold_locales (auto simp: scripted_def split: prod.splits)

theorem gtc_ttl_terminates_witness:
  "\<exists>r. fst (execute_gtc_ttl 21 (scripted None None) sample_order 5 True None 3 (1/100) None ([Inr resting], 0)) = Some r"
proof -
  have "flt 5 = 5" by code_simp
  with gtc_ttl_terminates [OF scripted_clocked, of 5 20] show ?thesis by simp
qed

section \<open>An unknown submission is submitted again\<close>

text \<open>
  \<open>GatewaySubmissionUnknown\<close> says that the connection broke and the order may be live at the
  venue. The worker has a path for it that keeps the request for reconciliation, but the retry loop
  catches the exception first and submits the same order a second time: when the second answer is a
  plain success, the venue received the order twice and the result shows one of them.
\<close>

theorem fak_retry_resubmits_unknown:
  assumes "2 \<le> m" "x = fk_order (fak_start ord cap)"
    and "v_submit v x None w = (Inl (GatewaySubmissionUnknown e), w1)"
    and "v_submit v x None (v_sleep v delay w1) = (Inr r, w2)"
    and "sr_accepted r" "\<not> is_no_liquidity r" "sr_paper_quote r = None"
  shows "snd (snd (execute_fak_retry (recording v) ord m delay cap pol require (w, []))) = [x, x] \<and>
         sr_order_id (fst (execute_fak_retry (recording v) ord m delay cap pol require (w, []))) = sr_order_id r"
proof -
  have k: "nat m = Suc (Suc (nat (m - 2)))" using assms(1) by simp
  have rec: "v_submit (recording v) y ty (u, l) = (case v_submit v y ty u of (a, u') \<Rightarrow> (a, (u', l @ [y])))"
    "v_sleep (recording v) s (u, l) = (v_sleep v s u, l)" for y ty u l s
    by (simp_all add: recording_def)
  have a: "fak_answer (recording v) pol n st r = Inl (fak_telemetry pol (st\<lparr>fk_last := Some r\<rparr>) n r)" for n st
    using assms(5-7) by (simp add: fak_answer_def Let_def split: option.splits)
  show ?thesis
    using assms(2-4) by (simp add: execute_fak_retry_def k rec a fak_telemetry_def edge_telemetry_def)
qed

theorem fak_retry_resubmits_unknown_witness:
  "snd (snd (execute_fak_retry (recording (scripted None None)) sample_order 3 (3/4) None None False
     (([Inl (GatewaySubmissionUnknown ''timeout''), Inr matched], 0), []))) =
   [fk_order (fak_start sample_order None), fk_order (fak_start sample_order None)]"
proof -
  have "\<not> is_no_liquidity matched" by code_simp
  then show ?thesis
    using fak_retry_resubmits_unknown [of 3 "fk_order (fak_start sample_order None)" sample_order None
        "scripted None None" "([Inl (GatewaySubmissionUnknown ''timeout''), Inr matched], 0)" "''timeout''"
        "([Inr matched], 0)" "3/4" matched "([], 3/4)" None False]
    by (simp add: scripted_def matched_def submission_result_def)
qed

end
