(* ===== verification/Paper_Gateway.thy ===== *)
theory Paper_Gateway
  imports Strategy_Safety
begin

text \<open>
  \<open>trading/fee_model.py\<close>, \<open>execution/gateways/fake.py\<close> and \<open>execution/gateways/shadow.py\<close>: the
  simulated venues of the PAPER and SHADOW modes, as \<open>venue\<close> records. What they use of the outside
  (the order-book source, sleeping, the two clocks, the read of stored fills) is the environment
  record \<open>paper_env\<close>, a parameter.

  \<open>Decimal ** Decimal\<close> is exact rounding of the power for a whole exponent; for a fractional one the
  real power is irrational and the function that rounds it is the parameter \<open>pw\<close>.
\<close>

section \<open>Fees\<close>

definition d_pow :: "(decimal \<Rightarrow> decimal \<Rightarrow> decimal) \<Rightarrow> decimal \<Rightarrow> decimal \<Rightarrow> decimal outcome" where
  "d_pow pw x e =
     (if x = 0 \<and> e = 0 then Inl InvalidOperation
      else if of_int \<lfloor>e\<rfloor> = e \<and> 0 \<le> e then Inr (dec (x ^ nat \<lfloor>e\<rfloor>))
      else Inr (pw x e))"

definition fee_per_share ::
  "(decimal \<Rightarrow> decimal \<Rightarrow> decimal) \<Rightarrow> decimal \<Rightarrow> decimal \<Rightarrow> decimal \<Rightarrow> string \<Rightarrow> decimal \<Rightarrow> string \<Rightarrow> decimal outcome" where
  "fee_per_share pw p fee_rate fee_exponent role maker_fee_rate fee_model =
     (let rate = (if upper role = ''MAKER'' then maker_fee_rate else fee_rate);
          model = upper (strip (if fee_model = [] then ''POLYMARKET_PRICE_DEPENDENT'' else fee_model)) in
      if p < 0 \<or> 1 < p \<or> rate < 0 \<or> fee_exponent < 0
      then Inl (ValueError ''fee inputs must be finite, price must be in [0, 1]'')
      else if model = ''POLYMARKET_PRICE_DEPENDENT''
      then bind_out (d_pow pw (d_mul p (d_sub 1 p)) fee_exponent) (\<lambda>c. Inr (d_mul rate c))
      else if model = ''FLAT_NOTIONAL'' then Inr (d_mul p rate)
      else Inl (ValueError (''unsupported fee model: '' @ fee_model)))"

definition quantize_out :: "nat \<Rightarrow> decimal \<Rightarrow> decimal outcome" where
  "quantize_out n x = (case quantize n x of None \<Rightarrow> Inl InvalidOperation | Some y \<Rightarrow> Inr y)"

definition fee_for_fill ::
  "(decimal \<Rightarrow> decimal \<Rightarrow> decimal) \<Rightarrow> decimal \<Rightarrow> decimal \<Rightarrow> decimal \<Rightarrow> decimal \<Rightarrow> string \<Rightarrow> decimal \<Rightarrow> string \<Rightarrow> decimal outcome" where
  "fee_for_fill pw p shares fee_rate fee_exponent role maker_fee_rate fee_model =
     bind_out (fee_per_share pw p fee_rate fee_exponent role maker_fee_rate fee_model)
       (\<lambda>f. quantize_out 5 (d_mul shares f))"

section \<open>The gateway object\<close>

record paper_gw =
  pg_profile :: string
  pg_maker_fee_rate :: decimal
  pg_delay_sec :: pyfloat
  pg_slippage_pct :: decimal
  pg_fee_rate :: decimal
  pg_fee_exponent :: decimal
  pg_fee_model :: string
  pg_min_order_shares :: decimal

text \<open>The constructor with its validation; malformed numbers have become their defaults (\<open>_decimal\<close>).\<close>

definition new_paper_gateway :: "paper_gw \<Rightarrow> paper_gw outcome" where
  "new_paper_gateway c =
     (let profile = upper (strip (if pg_profile c = [] then ''INSTANT'' else pg_profile c));
          model = upper (strip (if pg_fee_model c = [] then ''FLAT_NOTIONAL'' else pg_fee_model c)) in
      if profile \<notin> {''INSTANT'', ''LIVE_PARITY''} then Inl (ValueError ''PAPER profile must be INSTANT or LIVE_PARITY'')
      else if model \<notin> {''FLAT_NOTIONAL'', ''POLYMARKET_PRICE_DEPENDENT''}
      then Inl (ValueError ''PAPER fee model must be FLAT_NOTIONAL or POLYMARKET_PRICE_DEPENDENT'')
      else if pg_slippage_pct c < 0 \<or> pg_fee_rate c < 0 \<or> pg_maker_fee_rate c < 0 \<or> pg_fee_exponent c < 0 \<or>
              pg_min_order_shares c \<le> 0
      then Inl (ValueError ''PAPER execution parameters must be non-negative'')
      else Inr (c\<lparr>pg_profile := profile, pg_fee_model := model, pg_delay_sec := max 0 (pg_delay_sec c)\<rparr>))"

text \<open>
  An order book: levels of price and size, \<open>None\<close> for a missing or malformed number; the error is the
  non-empty text of its \<open>error\<close> key (an empty one is \<open>None\<close>).
\<close>

record book =
  bk_error :: "string option"
  bk_best_bid :: "decimal option"
  bk_best_ask :: "decimal option"
  bk_bids :: "(decimal option \<times> decimal option) list"
  bk_asks :: "(decimal option \<times> decimal option) list"

definition dec_or_zero :: "decimal option \<Rightarrow> decimal" where
  "dec_or_zero x = (case x of None \<Rightarrow> 0 | Some d \<Rightarrow> d)"

definition levels :: "(decimal option \<times> decimal option) list \<Rightarrow> bool \<Rightarrow> (decimal \<times> decimal) list" where
  "levels raw reverse =
     sort_key (\<lambda>l. if reverse then - fst l else fst l)
       (filter (\<lambda>(p, s). 0 < p \<and> 0 < s) (map (\<lambda>(p, s). (dec_or_zero p, dec_or_zero s)) raw))"

record 'e paper_env =
  pe_quote :: "(string \<Rightarrow> 'e \<Rightarrow> (string + book) \<times> 'e) option"
  pe_sleep :: "pyfloat \<Rightarrow> 'e \<Rightarrow> 'e"
  pe_clock :: "'e \<Rightarrow> pyfloat \<times> 'e"
  pe_utcnow :: "'e \<Rightarrow> time \<times> 'e"
  pe_recover :: "string \<Rightarrow> 'e \<Rightarrow> trade_execution list \<times> 'e"

record 'e paper_world =
  pw_orders :: "(string \<times> submission) list"
  pw_env :: 'e

definition remember :: "submission \<Rightarrow> (string \<times> submission) list \<Rightarrow> (string \<times> submission) list" where
  "remember r os = (case sr_order_id r of None \<Rightarrow> os | Some i \<Rightarrow> if i = [] then os else (i, r) # os)"

definition paper_id :: "gateway_order \<Rightarrow> string" where
  "paper_id ord = ''PAPER:'' @ int_str (int (go_attempt_id ord))"

definition gw_fee_per_share :: "(decimal \<Rightarrow> decimal \<Rightarrow> decimal) \<Rightarrow> paper_gw \<Rightarrow> decimal \<Rightarrow> string \<Rightarrow> decimal outcome" where
  "gw_fee_per_share pw g p role =
     fee_per_share pw p (pg_fee_rate g) (pg_fee_exponent g) role (pg_maker_fee_rate g) (pg_fee_model g)"

definition gw_fee_for_fill ::
  "(decimal \<Rightarrow> decimal \<Rightarrow> decimal) \<Rightarrow> paper_gw \<Rightarrow> decimal \<Rightarrow> decimal \<Rightarrow> string \<Rightarrow> decimal outcome" where
  "gw_fee_for_fill pw g p shares role =
     bind_out (gw_fee_per_share pw g p role) (\<lambda>f. quantize_out 5 (d_mul f shares))"

definition RESTING_TYPES :: "string set" where
  "RESTING_TYPES = {''GTC'', ''GTD'', ''GTC_TTL''}"

definition instant_result ::
  "(decimal \<Rightarrow> decimal \<Rightarrow> decimal) \<Rightarrow> paper_gw \<Rightarrow> gateway_order \<Rightarrow> string \<Rightarrow> time \<Rightarrow> submission outcome" where
  "instant_result pw g ord ty now =
     (let price = go_limit ord; shares = go_shares ord; trade_id = ''TRADE:'' @ int_str (int (go_attempt_id ord));
          role = (if go_post_only ord \<or> upper (strip ty) \<in> RESTING_TYPES then ''MAKER'' else ''TAKER'') in
      bind_out (gw_fee_for_fill pw g price shares role) (\<lambda>fee.
        Inr ((submission_result True ''MATCHED'')
          \<lparr>sr_order_id := Some (paper_id ord), sr_trade_ids := [trade_id], sr_settlement := ''CONFIRMED'',
           sr_fills := [\<lparr>te_trade_id = trade_id, te_gateway = ''FAKE'', te_gross = d_mul price shares, te_price = price,
                         te_shares = shares, te_fee = fee, te_matched_at = now, te_tx_hash = None\<rparr>],
           sr_limit := Some price, sr_shares := Some shares, sr_paper_quote := Some price,
           sr_paper_available := Some shares, sr_paper_delay := Some 0, sr_paper_slippage := Some 0,
           sr_paper_fee := Some fee\<rparr>)))"

definition rejected ::
  "paper_gw \<Rightarrow> gateway_order \<Rightarrow> string \<Rightarrow> string \<Rightarrow> decimal option \<Rightarrow> decimal option \<Rightarrow> submission" where
  "rejected g ord code msg quote_price available =
     (submission_result False code)
       \<lparr>sr_order_id := Some (paper_id ord), sr_rejection := Some code, sr_error := Some msg,
        sr_settlement := ''FAILED'', sr_limit := Some (go_limit ord), sr_shares := Some (go_shares ord),
        sr_paper_quote := quote_price, sr_paper_available := available, sr_paper_delay := Some (pg_delay_sec g)\<rparr>"

section \<open>Matching against the book\<close>

record fill_state =
  fs_fills :: "trade_execution list"
  fs_remaining :: decimal
  fs_budget :: "decimal option"
  fs_slippage :: decimal
  fs_fee :: decimal
  fs_available :: decimal

definition execution_price :: "bool \<Rightarrow> decimal \<Rightarrow> decimal \<Rightarrow> decimal" where
  "execution_price buy factor raw = d_mul raw (if buy then d_add 1 factor else d_sub 1 factor)"

definition execution_limit :: "bool \<Rightarrow> decimal \<Rightarrow> gateway_order \<Rightarrow> decimal" where
  "execution_limit buy factor ord =
     (if buy then
        let l = d_mul (go_limit ord) (d_add 1 factor) in
        (case go_max_acceptable ord of None \<Rightarrow> l | Some m \<Rightarrow> min l m)
      else go_limit ord)"

definition take_size ::
  "(decimal \<Rightarrow> decimal \<Rightarrow> decimal) \<Rightarrow> paper_gw \<Rightarrow> fill_state \<Rightarrow> decimal \<Rightarrow> decimal \<Rightarrow> decimal outcome" where
  "take_size pw g st price depth =
     (let qty = min (fs_remaining st) depth in
      case fs_budget st of
        None \<Rightarrow> Inr qty
      | Some b \<Rightarrow> bind_out (gw_fee_per_share pw g price ''TAKER'') (\<lambda>f.
          let denominator = d_add price f in
          Inr (if 0 < denominator then min qty (d_div b denominator) else qty)))"

definition add_fill :: "gateway_order \<Rightarrow> decimal \<Rightarrow> decimal \<Rightarrow> decimal \<Rightarrow> decimal \<Rightarrow> time \<Rightarrow> fill_state \<Rightarrow> fill_state" where
  "add_fill ord raw price qty fee now st =
     (let gross = d_mul price qty in
      st\<lparr>fs_fills := fs_fills st @
           [\<lparr>te_trade_id = ''TRADE:'' @ int_str (int (go_attempt_id ord)) @ '':'' @ int_str (int (length (fs_fills st) + 1)),
             te_gateway = ''FAKE'', te_gross = gross, te_price = price, te_shares = qty, te_fee = fee,
             te_matched_at = now, te_tx_hash = None\<rparr>],
         fs_slippage := d_add (fs_slippage st) (d_mul \<bar>d_sub price raw\<bar> qty),
         fs_fee := d_add (fs_fee st) fee,
         fs_remaining := d_sub (fs_remaining st) qty,
         fs_budget := map_option (\<lambda>b. d_sub b (d_add gross fee)) (fs_budget st)\<rparr>)"

fun fill_levels ::
  "(decimal \<Rightarrow> decimal \<Rightarrow> decimal) \<Rightarrow> paper_gw \<Rightarrow> 'e paper_env \<Rightarrow> gateway_order \<Rightarrow> bool \<Rightarrow> decimal \<Rightarrow>
   (decimal \<times> decimal) list \<Rightarrow> fill_state \<Rightarrow> 'e \<Rightarrow> fill_state outcome \<times> 'e" where
  "fill_levels pw g env ord buy factor [] st e = (Inr st, e)"
| "fill_levels pw g env ord buy factor ((raw, depth) # ls) st e =
     (if (buy \<and> go_limit ord < raw) \<or> (\<not> buy \<and> raw < go_limit ord) then (Inr st, e)
      else let st1 = st\<lparr>fs_available := d_add (fs_available st) depth\<rparr>;
               price = execution_price buy factor raw; limit = execution_limit buy factor ord in
        if price \<le> 0 then fill_levels pw g env ord buy factor ls st1 e
        else if (buy \<and> limit < price) \<or> (\<not> buy \<and> price < limit) then (Inr st1, e)
        else case take_size pw g st1 price depth of
          Inl x \<Rightarrow> (Inl x, e)
        | Inr qty \<Rightarrow>
            if qty \<le> 0 then (Inr st1, e)
            else case gw_fee_for_fill pw g price qty ''TAKER'' of
              Inl x \<Rightarrow> (Inl x, e)
            | Inr fee \<Rightarrow>
                (case pe_utcnow env e of (now, e1) \<Rightarrow>
                 let st2 = add_fill ord raw price qty fee now st1 in
                 if fs_remaining st2 \<le> 1/10000000000 then (Inr st2, e1)
                 else fill_levels pw g env ord buy factor ls st2 e1))"

definition start_fill :: "gateway_order \<Rightarrow> bool \<Rightarrow> fill_state" where
  "start_fill ord buy =
     \<lparr>fs_fills = [], fs_remaining = go_shares ord, fs_budget = (if buy then go_max_spend ord else None),
      fs_slippage = 0, fs_fee = 0, fs_available = 0\<rparr>"

definition py_text :: "py_error \<Rightarrow> string" where
  "py_text e = (case e of ValueError s \<Rightarrow> s | IntegrityError s \<Rightarrow> s | LiveSessionError s \<Rightarrow> s | _ \<Rightarrow> ''InvalidOperation'')"

text \<open>The end of \<open>submit\<close> for a marketable order: nothing matched, too little for FOK, or the fills.\<close>

definition match_result :: "paper_gw \<Rightarrow> gateway_order \<Rightarrow> string \<Rightarrow> decimal \<Rightarrow> fill_state \<Rightarrow> submission" where
  "match_result g ord ty quote_price st =
     (let filled = d_sum (map te_shares (fs_fills st)) in
      if fs_fills st = [] then
        rejected g ord ''NO_LIQUIDITY_FAK'' ''No order-book depth matched the limit price after slippage''
          (Some quote_price) (Some (fs_available st))
      else if ty \<in> {''FOK'', ''IOC''} \<and> filled < go_shares ord then
        rejected g ord ''PAPER_PARTIAL_FOK'' ''Available depth was insufficient for a full FOK fill''
          (Some quote_price) (Some (fs_available st))
      else (submission_result True (if go_shares ord \<le> filled then ''FILLED'' else ''PARTIALLY_FILLED''))
        \<lparr>sr_order_id := Some (paper_id ord), sr_trade_ids := map te_trade_id (fs_fills st),
         sr_settlement := ''CONFIRMED'', sr_fills := fs_fills st, sr_limit := Some (go_limit ord),
         sr_shares := Some (go_shares ord), sr_paper_quote := Some quote_price,
         sr_paper_available := Some (fs_available st), sr_paper_delay := Some (pg_delay_sec g),
         sr_paper_slippage := Some (fs_slippage st), sr_paper_fee := Some (fs_fee st)\<rparr>)"

definition paper_resting :: "paper_gw \<Rightarrow> gateway_order \<Rightarrow> book \<Rightarrow> (decimal \<times> decimal) list \<Rightarrow> submission" where
  "paper_resting g ord b ls =
     (submission_result True ''RESTING'')
       \<lparr>sr_order_id := Some (paper_id ord), sr_limit := Some (go_limit ord), sr_shares := Some (go_shares ord),
        sr_maker_status := Some ''RESTING'', sr_best_bid := Some (dec_or_zero (bk_best_bid b)),
        sr_best_ask := Some (dec_or_zero (bk_best_ask b)), sr_paper_quote := Some (fst (hd ls)),
        sr_paper_available := Some (d_sum (map snd ls)), sr_paper_delay := Some (pg_delay_sec g)\<rparr>"

text \<open>\<open>submit\<close> once the book has arrived: \<open>Inl\<close> an exception.\<close>

definition submit_on_book ::
  "(decimal \<Rightarrow> decimal \<Rightarrow> decimal) \<Rightarrow> paper_gw \<Rightarrow> 'e paper_env \<Rightarrow> gateway_order \<Rightarrow> string \<Rightarrow> bool \<Rightarrow> book \<Rightarrow> 'e \<Rightarrow>
   submission outcome \<times> 'e" where
  "submit_on_book pw g env ord ty is_resting b e =
     (let side = upper (go_side ord); buy = (side = ''BUY'');
          ls = (if buy then levels (bk_asks b) False else levels (bk_bids b) True) in
      if side \<notin> {''BUY'', ''SELL''} then
        (Inr (rejected g ord ''PAPER_INVALID_SIDE'' (''Unsupported side: '' @ go_side ord) None None), e)
      else if ls = [] then
        (Inr (rejected g ord ''PAPER_NO_LIQUIDITY'' ''Fresh order book has no executable depth''
           (Some (dec_or_zero (if buy then bk_best_ask b else bk_best_bid b))) (Some 0)), e)
      else let quote_price = fst (hd ls);
               crosses = (if buy then quote_price \<le> go_limit ord else go_limit ord \<le> quote_price) in
        if is_resting \<and> crosses then
          (Inr (rejected g ord ''PAPER_POST_ONLY_CROSSES_BOOK'' ''invalid post-only order: order crosses book''
             (Some quote_price) None), e)
        else if is_resting then (Inr (paper_resting g ord b ls), e)
        else case fill_levels pw g env ord buy (d_div (pg_slippage_pct g) 100) ls (start_fill ord buy) e of
          (Inl x, e1) \<Rightarrow> (Inl x, e1)
        | (Inr st, e1) \<Rightarrow> (Inr (match_result g ord ty quote_price st), e1))"

definition paper_outcome ::
  "(decimal \<Rightarrow> decimal \<Rightarrow> decimal) \<Rightarrow> paper_gw \<Rightarrow> 'e paper_env \<Rightarrow> gateway_order \<Rightarrow> string \<Rightarrow> 'e \<Rightarrow> submission outcome \<times> 'e" where
  "paper_outcome pw g env ord ty e =
     (if pg_profile g = ''INSTANT'' then
        (case pe_utcnow env e of (now, e1) \<Rightarrow> (instant_result pw g ord ty now, e1))
      else let is_resting = (ty \<in> RESTING_TYPES \<or> go_post_only ord) in
        if is_resting \<and> go_shares ord < pg_min_order_shares g then
          (Inr (rejected g ord ''PAPER_MIN_ORDER_SHARES'' (''Order size '' @ dec_str (go_shares ord) @ '' is below minimum '' @
             dec_str (pg_min_order_shares g) @ '' shares'') None None), e)
        else case pe_quote env of
          None \<Rightarrow> (Inr (rejected g ord ''PAPER_QUOTE_UNAVAILABLE''
                     ''LIVE_PARITY PAPER requires a fresh order-book quote'' None None), e)
        | Some ask \<Rightarrow>
            (case ask (go_token ord) (if 0 < pg_delay_sec g then pe_sleep env (pg_delay_sec g) e else e) of
               (Inl x, e1) \<Rightarrow> (Inr (rejected g ord ''PAPER_QUOTE_UNAVAILABLE'' (''Order-book request failed: '' @ x) None None), e1)
             | (Inr b, e1) \<Rightarrow>
                 (case bk_error b of
                    Some x \<Rightarrow> (Inr (rejected g ord ''PAPER_QUOTE_UNAVAILABLE'' x None None), e1)
                  | None \<Rightarrow> submit_on_book pw g env ord ty is_resting b e1)))"

definition paper_submit ::
  "(decimal \<Rightarrow> decimal \<Rightarrow> decimal) \<Rightarrow> paper_gw \<Rightarrow> 'e paper_env \<Rightarrow> gateway_order \<Rightarrow> string option \<Rightarrow> 'e paper_world \<Rightarrow>
   (gw_error + submission) \<times> 'e paper_world" where
  "paper_submit pw g env ord ty w =
     (case paper_outcome pw g env ord (upper (case ty of None \<Rightarrow> ''FAK'' | Some s \<Rightarrow> if s = [] then ''FAK'' else s)) (pw_env w) of
        (Inl x, e1) \<Rightarrow> (Inl (OtherError (py_text x)), w\<lparr>pw_env := e1\<rparr>)
      | (Inr r, e1) \<Rightarrow> (Inr r, w\<lparr>pw_orders := remember r (pw_orders w), pw_env := e1\<rparr>))"

section \<open>Orders and fills of the simulated venue\<close>

definition paper_get_order :: "string \<Rightarrow> 'e paper_world \<Rightarrow> (gw_error + submission) \<times> 'e paper_world" where
  "paper_get_order i w =
     (case map_of (pw_orders w) i of
        Some r \<Rightarrow> (Inr r, w)
      | None \<Rightarrow> (Inr ((submission_result True ''MATCHED'')\<lparr>sr_order_id := Some i, sr_settlement := ''CONFIRMED''\<rparr>), w))"

definition paper_cancel_order :: "string \<Rightarrow> 'e paper_world \<Rightarrow> (gw_error + submission) \<times> 'e paper_world" where
  "paper_cancel_order i w =
     (case map_of (pw_orders w) i of
        None \<Rightarrow> (Inr ((submission_result True ''CANCELLED'')\<lparr>sr_order_id := Some i, sr_settlement := ''CONFIRMED''\<rparr>), w)
      | Some r \<Rightarrow>
          let c = r\<lparr>sr_accepted := False, sr_status := ''CANCELLED'', sr_settlement := ''FAILED'',
                    sr_error := Some ''PAPER resting order cancelled after TTL''\<rparr>
          in (Inr c, w\<lparr>pw_orders := (i, c) # pw_orders w\<rparr>))"

definition paper_fetch_fills :: "'e paper_env \<Rightarrow> string \<Rightarrow> 'e paper_world \<Rightarrow> trade_execution list \<times> 'e paper_world" where
  "paper_fetch_fills env i w =
     (let known = (case map_of (pw_orders w) i of None \<Rightarrow> [] | Some r \<Rightarrow> sr_fills r) in
      if known \<noteq> [] then (known, w)
      else if \<not> starts_with ''PAPER:'' i then ([], w)
      else case pe_recover env i (pw_env w) of (fs, e) \<Rightarrow> (fs, w\<lparr>pw_env := e\<rparr>))"

text \<open>
  The quote provider as the strategies see it: the two best prices of the answer, \<open>None\<close> for an
  exception.
\<close>

definition paper_quote_source ::
  "(string \<Rightarrow> 'e \<Rightarrow> (string + book) \<times> 'e) \<Rightarrow> string \<Rightarrow> 'e paper_world \<Rightarrow> quote option \<times> 'e paper_world" where
  "paper_quote_source ask token w =
     (case ask token (pw_env w) of
        (Inl _, e) \<Rightarrow> (None, w\<lparr>pw_env := e\<rparr>)
      | (Inr b, e) \<Rightarrow> (Some \<lparr>q_best_bid = bk_best_bid b, q_best_ask = bk_best_ask b\<rparr>, w\<lparr>pw_env := e\<rparr>))"

definition paper_venue ::
  "(decimal \<Rightarrow> decimal \<Rightarrow> decimal) \<Rightarrow> paper_gw \<Rightarrow> 'e paper_env \<Rightarrow> 'e paper_world venue" where
  "paper_venue pw g env =
     \<lparr>v_name = ''FAKE'', v_profile = Some (pg_profile g), v_submit = paper_submit pw g env,
      v_get_order = paper_get_order,
      v_fetch_fills = (\<lambda>i t w. case paper_fetch_fills env i w of (fs, w1) \<Rightarrow> (Inr fs, w1)),
      v_cancel = Some paper_cancel_order, v_allowance = (\<lambda>t w. (Inr 1000000000, w)),
      v_api = None, v_provider = map_option paper_quote_source (pe_quote env),
      v_clock = (\<lambda>w. case pe_clock env (pw_env w) of (t, e) \<Rightarrow> (t, w\<lparr>pw_env := e\<rparr>)),
      v_sleep = (\<lambda>s w. w\<lparr>pw_env := pe_sleep env s (pw_env w)\<rparr>)\<rparr>"

text \<open>
  The read of stored fills after a restart. \<open>raw_fill\<close> is an entry of the saved telemetry: the outer
  \<open>None\<close> of a number is a missing key, the inner one a malformed value.
\<close>

record raw_fill =
  rf_price :: "decimal option"
  rf_shares :: "decimal option"
  rf_gross :: "decimal option option"
  rf_fee :: "decimal option option"
  rf_matched_at :: "time option"
  rf_trade_id :: "string option"

record paper_telemetry =
  pt_fills :: "raw_fill list"
  pt_fee :: "decimal option"

definition default_trade_id :: "nat \<Rightarrow> nat \<Rightarrow> string" where
  "default_trade_id i k = ''TRADE:'' @ int_str (int i) @ '':'' @ int_str (int k)"

definition stored_execution :: "nat \<Rightarrow> nat \<Rightarrow> exec_fill \<Rightarrow> trade_execution" where
  "stored_execution i k f =
     \<lparr>te_trade_id = (let t = str_or_empty (fl_trade_id f) in if t = [] then default_trade_id i k else t),
      te_gateway = (let g = str_or_empty (fl_gateway f) in if g = [] then ''FAKE'' else g),
      te_gross = num_or (fl_gross f) (d_mul (fl_price f) (fl_shares f)), te_price = fl_price f,
      te_shares = fl_shares f, te_fee = fl_fee f, te_matched_at = fl_timestamp f, te_tx_hash = None\<rparr>"

definition recovered_execution :: "nat \<Rightarrow> nat \<Rightarrow> raw_fill \<Rightarrow> trade_execution option" where
  "recovered_execution i k f =
     (case (rf_price f, rf_shares f, rf_matched_at f) of
        (Some p, Some s, Some t) \<Rightarrow>
          (case (case rf_gross f of None \<Rightarrow> Some (d_mul p s) | Some x \<Rightarrow> x, case rf_fee f of None \<Rightarrow> Some 0 | Some x \<Rightarrow> x) of
             (Some gross, Some fee) \<Rightarrow>
               Some \<lparr>te_trade_id = (let x = str_or_empty (rf_trade_id f) in if x = [] then default_trade_id i k else x),
                     te_gateway = ''FAKE'', te_gross = gross, te_price = p, te_shares = s, te_fee = fee,
                     te_matched_at = t, te_tx_hash = None\<rparr>
           | _ \<Rightarrow> None)
      | _ \<Rightarrow> None)"

definition fallback_execution :: "exec_attempt \<Rightarrow> exec_request \<Rightarrow> paper_telemetry option \<Rightarrow> time \<Rightarrow> trade_execution list" where
  "fallback_execution a r telem now =
     (if at_status a = ATT_FAILED \<or>
         upper (str_or_empty (at_provider_status a)) \<notin> {''MATCHED'', ''FILLED'', ''PARTIALLY_FILLED''} then []
      else let price = (case rq_submitted_limit r of
                          Some x \<Rightarrow> if x = 0 then rq_limit_price r else Some (repr_dec x) | None \<Rightarrow> rq_limit_price r);
               shares = (if rq_filled_shares r = 0 then rq_requested_shares r else Some (rq_filled_shares r)) in
        (case (price, shares) of
           (Some p, Some s) \<Rightarrow>
             if p \<le> 0 \<or> s \<le> 0 then []
             else [\<lparr>te_trade_id = ''TRADE:'' @ int_str (int (at_id a)), te_gateway = ''FAKE'', te_gross = d_mul p s,
                    te_price = p, te_shares = s,
                    te_fee = (case telem of None \<Rightarrow> 0 | Some t \<Rightarrow> dec_or_zero (pt_fee t)),
                    te_matched_at = (case at_finished_at a of None \<Rightarrow> now | Some t \<Rightarrow> t), te_tx_hash = None\<rparr>]
         | _ \<Rightarrow> []))"

definition recover_fills :: "db \<Rightarrow> (nat \<Rightarrow> paper_telemetry option) \<Rightarrow> time \<Rightarrow> nat \<Rightarrow> trade_execution list" where
  "recover_fills d telem now i =
     (case get_attempt d i of
        None \<Rightarrow> []
      | Some a \<Rightarrow>
          let stored = sort_key fl_timestamp (filter (\<lambda>f. fl_attempt_id f = i) (db_fills d));
              raw = (case telem i of None \<Rightarrow> [] | Some t \<Rightarrow> pt_fills t);
              recovered = List.map_filter (\<lambda>(k, f). recovered_execution i k f) (enumerate 1 raw) in
          if stored \<noteq> [] then map (\<lambda>(k, f). stored_execution i k f) (enumerate 1 stored)
          else if recovered \<noteq> [] then recovered
          else case get_request d (at_request_id a) of
            None \<Rightarrow> []
          | Some r \<Rightarrow> fallback_execution a r (telem i) now)"

section \<open>The SHADOW venue\<close>

definition shadow_submit :: "gateway_order \<Rightarrow> string option \<Rightarrow> time \<Rightarrow> (gw_error + submission) \<times> time" where
  "shadow_submit ord ty now =
     (case ty of
        Some _ \<Rightarrow> (Inl (TypeErr ''submit() got an unexpected keyword argument order_type''), now)
      | None \<Rightarrow>
          let trade_id = ''SHADOW-TRADE:'' @ int_str (int (go_attempt_id ord)) in
          (Inr ((submission_result True ''MATCHED'')
             \<lparr>sr_order_id := Some (''SHADOW:'' @ int_str (int (go_attempt_id ord))), sr_trade_ids := [trade_id],
              sr_settlement := ''CONFIRMED'',
              sr_fills := [\<lparr>te_trade_id = trade_id, te_gateway = ''SHADOW'', te_gross = d_mul (go_limit ord) (go_shares ord),
                            te_price = go_limit ord, te_shares = go_shares ord, te_fee = 0, te_matched_at = now,
                            te_tx_hash = None\<rparr>]\<rparr>), now))"

definition shadow_venue :: "time venue" where
  "shadow_venue =
     \<lparr>v_name = ''SHADOW'', v_profile = None, v_submit = shadow_submit,
      v_get_order = (\<lambda>i w. (Inr ((submission_result True ''MATCHED'')\<lparr>sr_order_id := Some i, sr_settlement := ''CONFIRMED''\<rparr>), w)),
      v_fetch_fills = (\<lambda>i t w. (Inr [], w)), v_cancel = None, v_allowance = (\<lambda>t w. (Inr 1000000000, w)),
      v_api = None, v_provider = None, v_clock = (\<lambda>w. (flt (of_int w / 1000000), w)),
      v_sleep = (\<lambda>s w. w + \<lceil>s * 1000000\<rceil>)\<rparr>"

section \<open>Fees are non-negative and bounded\<close>

text \<open>What is asked of the rounding of fractional powers: powers of non-negative numbers are non-negative.\<close>

definition pow_nonneg :: "(decimal \<Rightarrow> decimal \<Rightarrow> decimal) \<Rightarrow> bool" where
  "pow_nonneg pw \<longleftrightarrow> (\<forall>x e. 0 \<le> x \<longrightarrow> 0 \<le> pw x e)"

lemma fee_per_share_nonneg:
  assumes "pow_nonneg pw" "fee_per_share pw p r x role m model = Inr f"
  shows "0 \<le> f \<and> 0 \<le> p \<and> p \<le> 1"
proof -
  have "0 \<le> d_mul p (d_sub 1 p)" if "0 \<le> p" "p \<le> 1" using that by (intro d_mul_nonneg) simp_all
  then show ?thesis using assms
    by (auto simp: fee_per_share_def Let_def d_pow_def pow_nonneg_def d_mul_def split: if_splits sum.splits)
qed

lemma quantize_bounds: "quantize_out n x = Inr y \<Longrightarrow> y \<le> x + 1 / (2 * 10 ^ n) \<and> (0 \<le> x \<longrightarrow> 0 \<le> y)"
proof -
  assume "quantize_out n x = Inr y"
  then have y: "y = of_int (rhe (x * 10 ^ n)) / 10 ^ n"
    by (auto simp: quantize_out_def quantize_def Let_def split: if_splits)
  have "of_int (rhe (x * 10 ^ n)) \<le> x * 10 ^ n + 1/2" using rhe_error [of "x * 10 ^ n"] by linarith
  then have "y \<le> (x * 10 ^ n + 1/2) / 10 ^ n" by (simp add: y divide_right_mono)
  moreover have "(x * 10 ^ n + 1/2) / 10 ^ n = x + 1 / (2 * 10 ^ n)" by (simp add: field_simps)
  moreover have "0 \<le> x \<Longrightarrow> 0 \<le> rhe (x * 10 ^ n)" using rhe_mono [of 0 "x * 10 ^ n"] rhe_of_int [of 0] by simp
  ultimately show ?thesis by (simp add: y)
qed

lemma dec_le: "0 \<le> x \<Longrightarrow> dec x \<le> x + x / (2 * 10 ^ 27)"
  using dec_error [of x] by linarith

lemma dec_ge: "0 \<le> x \<Longrightarrow> x - x / (2 * 10 ^ 27) \<le> dec x"
  using dec_error [of x] by linarith

section \<open>One step of the matching loop\<close>

text \<open>
  The cost of a fill is within the budget left, up to half a unit of the fifth place (the rounding of
  the fee) and the rounding of the 28-digit arithmetic.
\<close>

lemma fill_cost:
  assumes price: "0 < price" and f: "0 \<le> f" and qty: "0 < qty" "qty \<le> d_div b (d_add price f)"
    and b: "b \<le> 1000000" and fee: "quantize_out 5 (d_mul f qty) = Inr fee"
  shows "0 \<le> d_mul price qty + fee \<and> d_mul price qty + fee \<le> b + 6/1000000"
proof -
  let ?D = "2 * 10 ^ 27 :: rat" and ?den = "d_add price f" and ?y = "(price + f) * qty"
  have den: "0 < ?den" using price f by (simp add: d_add_def)
  have "0 < d_div b ?den" using qty by linarith
  then have b0: "0 < b" using den by (simp add: d_div_def zero_less_divide_iff)
  have "qty \<le> b / ?den + b / ?den / ?D"
    using qty(2) dec_le [of "b / ?den"] b0 den by (simp add: d_div_def)
  then have "qty * ?den \<le> (b / ?den + b / ?den / ?D) * ?den" using den by (intro mult_right_mono) simp_all
  also have "\<dots> = b + b / ?D" using den by (simp add: field_simps)
  finally have q: "qty * ?den \<le> b + b / ?D" .
  have "(price + f) - (price + f) / ?D \<le> ?den" using dec_ge [of "price + f"] price f by (simp add: d_add_def)
  then have "((price + f) - (price + f) / ?D) * qty \<le> ?den * qty" using qty(1) by (simp add: mult_right_mono)
  moreover have "((price + f) - (price + f) / ?D) * qty = ?y - ?y / ?D" by (simp add: left_diff_distrib)
  ultimately have y: "?y - ?y / ?D \<le> b + b / ?D" using q by (simp only: mult.commute [of ?den])
  have "d_mul price qty \<le> price * qty + price * qty / ?D" using dec_le [of "price * qty"] price qty by (simp add: d_mul_def)
  moreover have "d_mul f qty \<le> f * qty + f * qty / ?D" using dec_le [of "f * qty"] f qty by (simp add: d_mul_def)
  moreover have "fee \<le> d_mul f qty + 5/1000000" using quantize_bounds [OF fee] by simp
  moreover have "?y = price * qty + f * qty" "?y / ?D = price * qty / ?D + f * qty / ?D"
    by (simp_all add: distrib_right add_divide_distrib)
  ultimately have c: "d_mul price qty + fee \<le> ?y + ?y / ?D + 5/1000000" by linarith
  have y0: "0 \<le> ?y" using price f qty by simp
  have "0 \<le> d_mul price qty" using price qty by (intro d_mul_nonneg) simp_all
  moreover have "0 \<le> fee" using quantize_bounds [OF fee] f qty by (simp add: d_mul_nonneg)
  moreover have "?y + ?y / ?D \<le> b + 1/1000000" using y y0 b b0 by (simp add: field_simps)
  ultimately show ?thesis using c by linarith
qed

text \<open>
  The invariant of the loop over the levels: \<open>R\<close> the requested shares, \<open>B\<close> the budget,
  \<open>e\<close> the rounding one subtraction may add. Each fill is positive, within the price limit and not
  larger than what was left.
\<close>

definition fill_ok :: "bool \<Rightarrow> decimal \<Rightarrow> gateway_order \<Rightarrow> trade_execution \<Rightarrow> bool" where
  "fill_ok buy factor ord f \<longleftrightarrow>
     0 < te_price f \<and> 0 < te_shares f \<and> te_shares f \<le> go_shares ord \<and> 0 \<le> te_fee f \<and>
     te_gross f = d_mul (te_price f) (te_shares f) \<and>
     (if buy then te_price f \<le> execution_limit True factor ord else go_limit ord \<le> te_price f)"

definition shares_inv :: "gateway_order \<Rightarrow> fill_state \<Rightarrow> bool" where
  "shares_inv ord st \<longleftrightarrow>
     0 \<le> fs_remaining st \<and> fs_remaining st \<le> go_shares ord \<and> dec (fs_remaining st) = fs_remaining st \<and>
     sum_list (map te_shares (fs_fills st)) + fs_remaining st
       \<le> go_shares ord + of_nat (length (fs_fills st)) * (go_shares ord / (2 * 10 ^ 27))"

definition budget_inv :: "decimal \<Rightarrow> fill_state \<Rightarrow> bool" where
  "budget_inv B st \<longleftrightarrow>
     (\<exists>b. fs_budget st = Some b \<and> b \<le> B \<and> dec b = b \<and> - 7/1000000 \<le> b \<and>
        sum_list (map (\<lambda>f. te_gross f + te_fee f) (fs_fills st)) + b \<le> B + of_nat (length (fs_fills st)) / 10 ^ 20)"

lemma take_size_le: "take_size pw g st price depth = Inr qty \<Longrightarrow> qty \<le> fs_remaining st"
  by (auto simp: take_size_def Let_def split: option.splits sum.splits if_splits)

lemma add_fill_simps [simp]:
  "fs_remaining (add_fill ord raw price qty fee now st) = d_sub (fs_remaining st) qty"
  "fs_budget (add_fill ord raw price qty fee now st) = map_option (\<lambda>b. d_sub b (d_add (d_mul price qty) fee)) (fs_budget st)"
  "map te_shares (fs_fills (add_fill ord raw price qty fee now st)) = map te_shares (fs_fills st) @ [qty]"
  "map (\<lambda>f. te_gross f + te_fee f) (fs_fills (add_fill ord raw price qty fee now st)) =
     map (\<lambda>f. te_gross f + te_fee f) (fs_fills st) @ [d_mul price qty + fee]"
  "length (fs_fills (add_fill ord raw price qty fee now st)) = Suc (length (fs_fills st))"
  by (simp_all add: add_fill_def Let_def)

lemma shares_inv_step:
  assumes "shares_inv ord st" "0 < qty" "qty \<le> fs_remaining st"
  shows "shares_inv ord (add_fill ord raw price qty fee now st)"
proof -
  let ?x = "fs_remaining st - qty" and ?E = "go_shares ord / (2 * 10 ^ 27)"
  have x: "0 \<le> ?x" "?x \<le> go_shares ord" using assms by (auto simp: shares_inv_def)
  have "dec ?x \<le> ?x + ?x / (2 * 10 ^ 27)" by (rule dec_le [OF x(1)])
  also have "\<dots> \<le> ?x + ?E" using x(2) by (simp add: divide_right_mono)
  finally have up: "dec ?x \<le> ?x + ?E" .
  have "dec ?x \<le> fs_remaining st" using dec_mono [of ?x "fs_remaining st"] assms by (simp add: shares_inv_def)
  then show ?thesis using assms up x
    by (simp add: shares_inv_def d_sub_def algebra_simps add_divide_distrib)
qed

lemma budget_inv_step:
  assumes inv: "budget_inv B st" and B: "B \<le> 1000000" and pos: "0 < price" "0 \<le> f" "0 < qty"
    and le: "\<And>b. fs_budget st = Some b \<Longrightarrow> qty \<le> d_div b (d_add price f)"
    and fee: "quantize_out 5 (d_mul f qty) = Inr fee"
  shows "budget_inv B (add_fill ord raw price qty fee now st)"
proof -
  obtain b where b: "fs_budget st = Some b" "b \<le> B" "dec b = b" "- 7/1000000 \<le> b"
    and sum: "sum_list (map (\<lambda>f. te_gross f + te_fee f) (fs_fills st)) + b \<le> B + of_nat (length (fs_fills st)) / 10 ^ 20"
    using inv by (auto simp: budget_inv_def)
  let ?c = "d_mul price qty + fee" and ?D = "2 * 10 ^ 27 :: rat"
  have c: "0 \<le> ?c" "?c \<le> b + 6/1000000"
    using fill_cost [OF pos le [OF b(1)] _ fee] b(2) B by simp_all
  have c1: "dec ?c \<le> ?c + ?c / ?D" "?c - ?c / ?D \<le> dec ?c" using dec_le dec_ge c(1) by blast+
  let ?x = "b - dec ?c"
  have x: "\<bar>dec ?x - ?x\<bar> \<le> \<bar>?x\<bar> / ?D" using dec_error by blast
  have small: "?c / ?D \<le> 1 / 10 ^ 21" using c(2) b(2) B by simp
  have "0 \<le> dec ?c" using c(1) by simp
  then have "?x \<le> 2000000" "- ?x \<le> 2000000" using c c1 small b B by (simp_all add: field_simps)
  then have ax: "\<bar>?x\<bar> \<le> 2000000" by (rule abs_leI)
  then have "\<bar>?x\<bar> / ?D \<le> 1 / 10 ^ 21" by simp
  with x have x1: "dec ?x \<le> ?x + 1 / 10 ^ 21" "?x - 1 / 10 ^ 21 \<le> dec ?x" by linarith+
  have "dec ?x \<le> b" using dec_mono [of ?x b] \<open>0 \<le> dec ?c\<close> b(3) by simp
  moreover have "- 7/1000000 \<le> dec ?x" using x1(2) c1(1) small c(2) by (simp add: field_simps)
  moreover have "sum_list (map (\<lambda>f. te_gross f + te_fee f) (fs_fills st)) + ?c + dec ?x
      \<le> B + of_nat (Suc (length (fs_fills st))) / 10 ^ 20"
    using sum x1(1) c1(2) small by (simp add: field_simps)
  ultimately show ?thesis using b(1,2) by (auto simp: budget_inv_def d_sub_def d_add_def intro!: exI [of _ "dec ?x"])
qed

section \<open>The matching loop\<close>

text \<open>What a new fill is made of: one round that adds a fill.\<close>

lemma take_size_budget:
  assumes "take_size pw g st price depth = Inr qty" "fs_budget st = Some b" "0 < price" "pow_nonneg pw"
  shows "\<exists>f. gw_fee_per_share pw g price ''TAKER'' = Inr f \<and> 0 \<le> f \<and> qty \<le> d_div b (d_add price f)"
proof -
  obtain f where f: "gw_fee_per_share pw g price ''TAKER'' = Inr f"
    using assms(1,2) by (auto simp: take_size_def Let_def split: sum.splits)
  have "0 \<le> f" using fee_per_share_nonneg [OF assms(4)] f by (auto simp: gw_fee_per_share_def)
  moreover have "0 < d_add price f" using assms(3) calculation by (simp add: d_add_def)
  ultimately show ?thesis using assms(1,2) f by (auto simp: take_size_def Let_def split: if_splits)
qed

definition loop_inv :: "bool \<Rightarrow> decimal \<Rightarrow> gateway_order \<Rightarrow> fill_state \<Rightarrow> bool" where
  "loop_inv buy factor ord st \<longleftrightarrow>
     (\<forall>f\<in>set (fs_fills st). fill_ok buy factor ord f) \<and> shares_inv ord st \<and>
     (case (if buy then go_max_spend ord else None) of
        None \<Rightarrow> fs_budget st = None
      | Some B \<Rightarrow> budget_inv B st)"

lemma loop_inv_available [simp]: "loop_inv buy factor ord (st\<lparr>fs_available := a\<rparr>) = loop_inv buy factor ord st"
  by (cases "go_max_spend ord") (simp_all add: loop_inv_def shares_inv_def budget_inv_def)

lemma loop_inv_step:
  assumes inv: "loop_inv buy factor ord st" and pow: "pow_nonneg pw" and price: "0 < price"
    and lim: "if buy then price \<le> execution_limit True factor ord else go_limit ord \<le> price"
    and qty: "take_size pw g st price depth = Inr qty" "0 < qty"
    and fee: "gw_fee_for_fill pw g price qty ''TAKER'' = Inr fee"
    and B: "case go_max_spend ord of None \<Rightarrow> True | Some B \<Rightarrow> B \<le> 1000000"
  shows "loop_inv buy factor ord (add_fill ord raw price qty fee now st)"
proof -
  have le: "qty \<le> fs_remaining st" by (rule take_size_le [OF qty(1)])
  have sh: "shares_inv ord (add_fill ord raw price qty fee now st)"
    using shares_inv_step qty(2) le inv by (simp add: loop_inv_def)
  obtain f where f: "gw_fee_per_share pw g price ''TAKER'' = Inr f" and q: "quantize_out 5 (d_mul f qty) = Inr fee"
    using fee by (auto simp: gw_fee_for_fill_def split: sum.splits)
  have f0: "0 \<le> f" using fee_per_share_nonneg [OF pow] f by (auto simp: gw_fee_per_share_def)
  have "0 \<le> fee" using quantize_bounds [OF q] f0 qty(2) by (simp add: d_mul_nonneg)
  then have new: "\<forall>x\<in>set (fs_fills (add_fill ord raw price qty fee now st)). fill_ok buy factor ord x"
    using inv price qty(2) le lim by (auto simp: add_fill_def Let_def fill_ok_def loop_inv_def shares_inv_def)
  show ?thesis
  proof (cases "if buy then go_max_spend ord else None")
    case None
    then show ?thesis using inv sh new by (simp add: loop_inv_def)
  next
    case (Some B0)
    then have "budget_inv B0 st" "B0 \<le> 1000000" using inv B by (auto simp: loop_inv_def split: if_splits)
    moreover have "qty \<le> d_div b (d_add price f)" if "fs_budget st = Some b" for b
      using take_size_budget [OF qty(1) that price pow] f by auto
    ultimately have "budget_inv B0 (add_fill ord raw price qty fee now st)"
      using budget_inv_step [OF _ _ price f0 qty(2) _ q] by blast
    with Some sh new show ?thesis by (simp add: loop_inv_def)
  qed
qed

lemma fill_levels_inv:
  assumes pow: "pow_nonneg pw" and B: "case go_max_spend ord of None \<Rightarrow> True | Some B \<Rightarrow> B \<le> 1000000"
  shows "loop_inv buy factor ord st \<Longrightarrow> fst (fill_levels pw g env ord buy factor ls st e) = Inr st' \<Longrightarrow>
    loop_inv buy factor ord st' \<and> length (fs_fills st') \<le> length (fs_fills st) + length ls"
proof (induction ls arbitrary: st e)
  case Nil
  then show ?case by simp
next
  case (Cons l ls)
  obtain raw depth where l: "l = (raw, depth)" by fastforce
  let ?st1 = "st\<lparr>fs_available := d_add (fs_available st) depth\<rparr>"
  let ?p = "execution_price buy factor raw" and ?lim = "execution_limit buy factor ord"
  have inv1: "loop_inv buy factor ord ?st1" using Cons.prems(1) by simp
  consider "(buy \<and> go_limit ord < raw) \<or> (\<not> buy \<and> raw < go_limit ord)"
    | "\<not> ((buy \<and> go_limit ord < raw) \<or> (\<not> buy \<and> raw < go_limit ord))" "?p \<le> 0"
    | "\<not> ((buy \<and> go_limit ord < raw) \<or> (\<not> buy \<and> raw < go_limit ord))" "0 < ?p"
      "(buy \<and> ?lim < ?p) \<or> (\<not> buy \<and> ?p < ?lim)"
    | "\<not> ((buy \<and> go_limit ord < raw) \<or> (\<not> buy \<and> raw < go_limit ord))" "0 < ?p"
      "\<not> ((buy \<and> ?lim < ?p) \<or> (\<not> buy \<and> ?p < ?lim))" by linarith
  then show ?case
  proof cases
    case 1
    then show ?thesis using Cons.prems by (auto simp: l)
  next
    case 2
    then have "fst (fill_levels pw g env ord buy factor ls ?st1 e) = Inr st'"
      using Cons.prems(2) by (cases buy) (simp_all add: l Let_def)
    from Cons.IH [OF inv1 this] show ?thesis by simp
  next
    case 3
    then show ?thesis using Cons.prems(2) inv1 by (auto simp: l Let_def)
  next
    case 4
    have lim: "if buy then ?p \<le> execution_limit True factor ord else go_limit ord \<le> ?p"
      using 4(3) by (auto simp: execution_limit_def)
    obtain qty where q: "take_size pw g ?st1 ?p depth = Inr qty"
      using Cons.prems(2) 4 by (cases "take_size pw g ?st1 ?p depth") (auto simp: l Let_def)
    show ?thesis
    proof (cases "qty \<le> 0")
      case True
      then show ?thesis using Cons.prems(2) inv1 4 q by (auto simp: l Let_def)
    next
      case False
      obtain fee where f: "gw_fee_for_fill pw g ?p qty ''TAKER'' = Inr fee"
        using Cons.prems(2) 4 q False by (cases "gw_fee_for_fill pw g ?p qty ''TAKER''") (auto simp: l Let_def)
      obtain now e1 where n: "pe_utcnow env e = (now, e1)" by fastforce
      let ?st2 = "add_fill ord raw ?p qty fee now ?st1"
      have inv2: "loop_inv buy factor ord ?st2"
        using loop_inv_step [OF inv1 pow 4(2) lim q _ f B] False by simp
      show ?thesis
        using Cons.prems(2) 4 q False f n inv2 Cons.IH [OF inv2, of e1]
        by (cases "fs_remaining ?st2 \<le> 1/10000000000") (auto simp: l Let_def)
    qed
  qed
qed

lemma start_fill_inv:
  assumes "0 \<le> go_shares ord" "dec (go_shares ord) = go_shares ord"
    and "case go_max_spend ord of None \<Rightarrow> True | Some B \<Rightarrow> dec B = B \<and> 0 \<le> B"
  shows "loop_inv buy factor ord (start_fill ord buy)"
  using assms by (auto simp: loop_inv_def start_fill_def shares_inv_def budget_inv_def split: option.splits)

section \<open>What a simulated submission guarantees\<close>

lemma submit_on_book_fills:
  assumes "fst (submit_on_book pw g env ord ty rest b e) = Inr r" "sr_fills r \<noteq> []"
  shows "\<exists>st ls. fst (fill_levels pw g env ord (upper (go_side ord) = ''BUY'') (d_div (pg_slippage_pct g) 100) ls
            (start_fill ord (upper (go_side ord) = ''BUY'')) e) = Inr st \<and> fs_fills st = sr_fills r \<and>
         ls = (if upper (go_side ord) = ''BUY'' then levels (bk_asks b) False else levels (bk_bids b) True) \<and>
         upper (go_side ord) \<in> {''BUY'', ''SELL''} \<and> \<not> rest"
proof -
  let ?buy = "upper (go_side ord) = ''BUY''"
  let ?ls = "if ?buy then levels (bk_asks b) False else levels (bk_bids b) True"
  let ?run = "fill_levels pw g env ord ?buy (d_div (pg_slippage_pct g) 100) ?ls (start_fill ord ?buy) e"
  obtain o1 e1 where run: "?run = (o1, e1)" by fastforce
  have rej: "sr_fills (rejected g ord c m q a) = []" for c m q a by (simp add: rejected_def submission_result_def)
  have rst: "sr_fills (paper_resting g ord b ?ls) = []" by (simp add: paper_resting_def submission_result_def)
  have c: "upper (go_side ord) \<in> {''BUY'', ''SELL''}" "?ls \<noteq> []" "\<not> rest"
    using assms rej rst by (auto simp: submit_on_book_def Let_def split: if_splits)
  then have f: "fst (submit_on_book pw g env ord ty rest b e) =
      (case o1 of Inl x \<Rightarrow> Inl x | Inr st \<Rightarrow> Inr (match_result g ord ty (fst (hd ?ls)) st))"
    using run by (cases o1) (auto simp: submit_on_book_def Let_def)
  then obtain st where st: "o1 = Inr st" "r = match_result g ord ty (fst (hd ?ls)) st"
    using assms(1) by (cases o1) auto
  have "fs_fills st = sr_fills r"
    using st(2) assms(2) rej by (auto simp: match_result_def Let_def split: if_splits)
  then show ?thesis using c st(1) run by (intro exI [of _ st] exI [of _ ?ls]) simp
qed

text \<open>
  C36: a LIVE_PARITY PAPER order never executes beyond its terms. Every simulated fill is positive, has
  a price within the order's limit (for a purchase the limit plus the modelled slippage, and the
  maximal acceptable price; for a sale at least the limit) and the gross amount price times shares. All
  fills together have at most the requested shares, up to the rounding of the 28-digit arithmetic, and
  the purchase costs, fees included, at most the budget plus 0.00001 USDC.
\<close>

theorem paper_fills_within_order:
  assumes pow: "pow_nonneg pw"
    and shares: "0 \<le> go_shares ord" "dec (go_shares ord) = go_shares ord"
    and budget: "case go_max_spend ord of None \<Rightarrow> True | Some B \<Rightarrow> dec B = B \<and> 0 \<le> B \<and> B \<le> 1000000"
    and depth: "length (bk_asks b) \<le> 10 ^ 12" "length (bk_bids b) \<le> 10 ^ 12"
    and r: "fst (submit_on_book pw g env ord ty rest b e) = Inr r"
  shows "(\<forall>f\<in>set (sr_fills r). fill_ok (upper (go_side ord) = ''BUY'') (d_div (pg_slippage_pct g) 100) ord f) \<and>
    sum_list (map te_shares (sr_fills r)) \<le> go_shares ord + go_shares ord / 10 ^ 15 \<and>
    (upper (go_side ord) = ''BUY'' \<longrightarrow>
      (case go_max_spend ord of None \<Rightarrow> True
       | Some B \<Rightarrow> sum_list (map (\<lambda>f. te_gross f + te_fee f) (sr_fills r)) \<le> B + 1/100000))"
proof (cases "sr_fills r = []")
  case True
  then show ?thesis using shares budget by (auto split: option.splits)
next
  case False
  let ?buy = "upper (go_side ord) = ''BUY''" and ?factor = "d_div (pg_slippage_pct g) 100"
  from submit_on_book_fills [OF r False] obtain st ls where
    run: "fst (fill_levels pw g env ord ?buy ?factor ls (start_fill ord ?buy) e) = Inr st"
    and st: "fs_fills st = sr_fills r"
    and ls: "ls = (if ?buy then levels (bk_asks b) False else levels (bk_bids b) True)" by blast
  have small: "case go_max_spend ord of None \<Rightarrow> True | Some B \<Rightarrow> B \<le> 1000000"
    and B0: "case go_max_spend ord of None \<Rightarrow> True | Some B \<Rightarrow> dec B = B \<and> 0 \<le> B"
    using budget by (auto split: option.splits)
  have inv: "loop_inv ?buy ?factor ord st" and len: "length (fs_fills st) \<le> length ls"
    using fill_levels_inv [OF pow small start_fill_inv [OF shares B0] run] by (simp_all add: start_fill_def)
  have "length ls \<le> 10 ^ 12" using depth le_trans [OF length_filter_le] by (auto simp: ls levels_def)
  then have n: "of_nat (length (fs_fills st)) \<le> (10 ^ 12 :: rat)"
    using of_nat_mono [of "length (fs_fills st)" "10 ^ 12", where ?'a = rat] len by simp
  have "of_nat (length (fs_fills st)) * (go_shares ord / (2 * 10 ^ 27)) \<le> 10 ^ 12 * (go_shares ord / (2 * 10 ^ 27))"
    using n shares(1) by (intro mult_right_mono) simp_all
  also have "\<dots> \<le> go_shares ord / 10 ^ 15" using shares(1) by simp
  finally have k: "of_nat (length (fs_fills st)) * (go_shares ord / (2 * 10 ^ 27)) \<le> go_shares ord / 10 ^ 15" .
  have "shares_inv ord st" using inv by (simp add: loop_inv_def)
  then have sh: "sum_list (map te_shares (sr_fills r)) \<le> go_shares ord + go_shares ord / 10 ^ 15"
    unfolding shares_inv_def st using k [unfolded st] by linarith
  have cost: "sum_list (map (\<lambda>f. te_gross f + te_fee f) (sr_fills r)) \<le> B + 1/100000"
    if "?buy" "go_max_spend ord = Some B" for B
    using inv that n st by (auto simp: loop_inv_def budget_inv_def)
  show ?thesis using inv st sh cost by (auto simp: loop_inv_def split: option.splits)
qed

text \<open>A simulation environment whose state is the time in seconds: one book, no stored fills.\<close>

definition sim_env :: "(string + book) option \<Rightarrow> rat paper_env" where
  "sim_env b =
     \<lparr>pe_quote = (case b of None \<Rightarrow> None | Some x \<Rightarrow> Some (\<lambda>t e. (x, e))), pe_sleep = (\<lambda>s e. e + s),
      pe_clock = (\<lambda>e. (e, e)), pe_utcnow = (\<lambda>e. (\<lfloor>e * 1000000\<rfloor>, e)), pe_recover = (\<lambda>i e. ([], e))\<rparr>"

definition flat_gw :: paper_gw where
  "flat_gw = \<lparr>pg_profile = ''LIVE_PARITY'', pg_maker_fee_rate = 0, pg_delay_sec = 0, pg_slippage_pct = 2,
     pg_fee_rate = 1/10, pg_fee_exponent = 1, pg_fee_model = ''FLAT_NOTIONAL'', pg_min_order_shares = 5\<rparr>"

definition free_gw :: paper_gw where
  "free_gw = flat_gw\<lparr>pg_slippage_pct := 0, pg_fee_rate := 0\<rparr>"

definition two_levels :: book where
  "two_levels = \<lparr>bk_error = None, bk_best_bid = Some (2/5), bk_best_ask = Some (1/2),
     bk_bids = [(Some (2/5), Some 10)], bk_asks = [(Some (3/5), Some 10), (Some (1/2), Some 4)]\<rparr>"

lemma pow_nonneg_fst: "pow_nonneg (\<lambda>x e. x)"
  by (simp add: pow_nonneg_def)

theorem paper_fills_within_order_witness:
  "\<exists>r. fst (submit_on_book (\<lambda>x e. x) free_gw (sim_env (Some (Inr two_levels))) (sample_order) ''FAK''
          False two_levels 0) = Inr r \<and> sr_accepted r \<and>
     sum_list (map te_shares (sr_fills r)) \<le> 10 + 10 / 10 ^ 15 \<and>
     sum_list (map (\<lambda>f. te_gross f + te_fee f) (sr_fills r)) \<le> 5 + 1/100000"
proof -
  let ?o = "sample_order"
  let ?x = "fst (submit_on_book (\<lambda>x e. x) free_gw (sim_env (Some (Inr two_levels))) ?o ''FAK'' False two_levels 0)"
  let ?st = "start_fill ?o True\<lparr>fs_available := d_add 0 4\<rparr>"
  have ls: "levels (bk_asks two_levels) False = [(1/2, 4), (3/5, 10)]" by code_simp
  have p: "d_div (pg_slippage_pct free_gw) 100 = 0" "execution_price True 0 (1/2) = 1/2"
    "execution_limit True 0 ?o = 1/2" by code_simp+
  have t: "take_size (\<lambda>x e. x) free_gw ?st (1/2) 4 = Inr 4" by code_simp
  have f: "gw_fee_for_fill (\<lambda>x e. x) free_gw (1/2) 4 ''TAKER'' = Inr 0" by code_simp
  have m: "fs_remaining (add_fill ?o (1/2) (1/2) 4 0 0 ?st) = 6" "fs_fills (add_fill ?o (1/2) (1/2) 4 0 0 ?st) \<noteq> []"
    by (code_simp, simp add: add_fill_def Let_def)
  have o: "go_limit ?o = 1/2" "upper (go_side ?o) = ''BUY''" "fs_available (start_fill ?o True) = 0"
    "pe_utcnow (sim_env (Some (Inr two_levels))) 0 = (0, 0)"
    by (simp_all add: sample_order_def start_fill_def sim_env_def)
  have acc: "case ?x of Inl _ \<Rightarrow> False | Inr r \<Rightarrow> sr_accepted r"
    using m by (simp add: submit_on_book_def o ls p t f match_result_def Let_def submission_result_def)
  then obtain r where r: "?x = Inr r" "sr_accepted r" by (cases ?x) auto
  have d: "dec 10 = 10" "dec 5 = 5" using dec_exact [of 10 0] dec_exact [of 5 0] by simp_all
  have side: "upper (go_side ?o) = ''BUY''" by (simp add: sample_order_def)
  show ?thesis
    using paper_fills_within_order [OF pow_nonneg_fst _ _ _ _ _ r(1)] r d side
    by (simp add: sample_order_def two_levels_def)
qed

text \<open>
  The fee model accepts prices up to one, but the simulated slippage is applied before the fee: a
  marketable purchase at a level whose price with slippage exceeds one makes \<open>submit\<close> raise a
  ValueError instead of answering with a rejection, as long as the order has a budget and no
  maximal acceptable price.
\<close>

theorem paper_price_above_one_raises:
  assumes "upper (go_side ord) = ''BUY''" "go_max_spend ord = Some m" "go_max_acceptable ord = None"
    and "levels (bk_asks b) False = (raw, depth) # ls" "raw \<le> go_limit ord" "0 \<le> pg_slippage_pct g"
    and "1 < execution_price True (d_div (pg_slippage_pct g) 100) raw"
  shows "fst (submit_on_book pw g env ord ''FAK'' False b e) =
         Inl (ValueError ''fee inputs must be finite, price must be in [0, 1]'')"
proof -
  let ?f = "d_div (pg_slippage_pct g) 100"
  have f: "0 < d_add 1 ?f" using assms(6) by (simp add: d_add_def d_div_def add_pos_nonneg)
  have "execution_price True ?f raw \<le> execution_limit True ?f ord"
    using assms(3,5) f by (auto simp: execution_price_def execution_limit_def d_mul_def intro!: dec_mono mult_right_mono)
  moreover have "take_size pw g st (execution_price True ?f raw) depth =
      Inl (ValueError ''fee inputs must be finite, price must be in [0, 1]'')" if "fs_budget st = Some m" for st
    using that assms(7) by (simp add: take_size_def gw_fee_per_share_def fee_per_share_def)
  ultimately show ?thesis using assms
    by (simp add: submit_on_book_def start_fill_def Let_def)
qed

definition near_one :: book where
  "near_one = \<lparr>bk_error = None, bk_best_bid = Some (97/100), bk_best_ask = Some (99/100),
     bk_bids = [(Some (97/100), Some 10)], bk_asks = [(Some (99/100), Some 10)]\<rparr>"

theorem paper_price_above_one_raises_witness:
  "fst (submit_on_book (\<lambda>x e. x) flat_gw (sim_env (Some (Inr near_one)))
      (sample_order\<lparr>go_limit := 99/100, go_max_acceptable := None\<rparr>) ''FAK'' False near_one 0) =
   Inl (ValueError ''fee inputs must be finite, price must be in [0, 1]'')"
proof -
  have p: "1 < execution_price True (d_div (pg_slippage_pct flat_gw) 100) (99/100)" by code_simp
  have l: "levels (bk_asks near_one) False = [(99/100, 10)]" by code_simp
  show ?thesis
    using paper_price_above_one_raises [OF _ _ _ l _ _ p,
        of "sample_order\<lparr>go_limit := 99/100, go_max_acceptable := None\<rparr>" 5]
    by (simp add: sample_order_def flat_gw_def)
qed

section \<open>Maker orders of the simulated venue\<close>

lemma paper_post_only_no_fills:
  assumes "pg_profile g \<noteq> ''INSTANT''" "go_post_only ord" "fst (paper_outcome pw g env ord ty e) = Inr r"
  shows "sr_fills r = [] \<and> sr_order_id r = Some (paper_id ord)"
proof -
  have rej: "sr_fills (rejected g ord c m q a) = [] \<and> sr_order_id (rejected g ord c m q a) = Some (paper_id ord)" for c m q a
    by (simp add: rejected_def submission_result_def)
  have rst: "sr_fills (paper_resting g ord b ls) = [] \<and> sr_order_id (paper_resting g ord b ls) = Some (paper_id ord)" for b ls
    by (simp add: paper_resting_def submission_result_def)
  have bk: "sr_fills r = [] \<and> sr_order_id r = Some (paper_id ord)"
    if "fst (submit_on_book pw g env ord ty True b e') = Inr r" for b e'
    using that rej rst by (auto simp: submit_on_book_def Let_def split: if_splits)
  show ?thesis using assms rej bk
    by (auto simp: paper_outcome_def Let_def split: if_splits option.splits sum.splits prod.splits)
qed

text \<open>
  A resting order of the LIVE_PARITY gateway is never filled. Nothing in the gateway matches it
  later, so after a post-only submission the polling loop of the time-to-live strategy cannot see a
  fill, however long it runs, as long as the store has none for the attempt.
\<close>

theorem parity_maker_order_never_fills:
  assumes "pg_profile g \<noteq> ''INSTANT''" "go_post_only ord"
    and submit: "paper_submit pw g env ord ty w = (Inr r, w1)"
    and store: "\<And>i e. fst (pe_recover env i e) = []"
  shows "fst (poll_fills fuel (paper_venue pw g env) (paper_id ord) token start ttl w1) \<noteq> Some True"
proof -
  have poll: "fst (poll_fills fuel (paper_venue pw g env) i token start ttl u) \<noteq> Some True"
    if "map_of (pw_orders u) i = Some r0" "sr_fills r0 = []" for i u r0
    using that(1)
  proof (induction fuel arbitrary: u)
    case 0
    then show ?case by simp
  next
    case (Suc fuel)
    let ?v = "paper_venue pw g env"
    obtain t e where c: "v_clock ?v u = (t, u\<lparr>pw_env := e\<rparr>)"
      by (cases "pe_clock env (pw_env u)") (simp add: paper_venue_def)
    let ?x = "v_sleep ?v (1/2) (u\<lparr>pw_env := e\<rparr>)"
    have x: "map_of (pw_orders ?x) i = Some r0" using Suc.prems by (simp add: paper_venue_def)
    obtain fs e2 where "pe_recover env i (pw_env ?x) = (fs, e2)" by fastforce
    with store [of i "pw_env ?x"] have "pe_recover env i (pw_env ?x) = ([], e2)" by simp
    then have "\<exists>u2. v_fetch_fills ?v i token ?x = (Inr [], u2) \<and> pw_orders u2 = pw_orders ?x"
      using x \<open>sr_fills r0 = []\<close> by (auto simp: paper_venue_def paper_fetch_fills_def Let_def)
    then obtain u2 where "v_fetch_fills ?v i token ?x = (Inr [], u2)" "pw_orders u2 = pw_orders ?x" by blast
    with Suc.IH [of u2] x c show ?case by simp
  qed
  have id: "paper_id ord \<noteq> []" by (simp add: paper_id_def)
  let ?ty = "upper (case ty of None \<Rightarrow> ''FAK'' | Some s \<Rightarrow> if s = [] then ''FAK'' else s)"
  obtain o1 e1 where o1: "paper_outcome pw g env ord ?ty (pw_env w) = (o1, e1)" by fastforce
  then have o1r: "o1 = Inr r" and w1: "w1 = w\<lparr>pw_orders := remember r (pw_orders w), pw_env := e1\<rparr>"
    using submit by (auto simp: paper_submit_def split: sum.splits)
  have r: "sr_fills r = [] \<and> sr_order_id r = Some (paper_id ord)"
    by (rule paper_post_only_no_fills [OF assms(1,2), of pw env ?ty "pw_env w"]) (simp add: o1 o1r)
  have "map_of (pw_orders w1) (paper_id ord) = Some r" using id r by (simp add: w1 remember_def)
  from poll [OF this] r show ?thesis by blast
qed

definition wide_book :: book where
  "wide_book = two_levels\<lparr>bk_asks := [(Some (3/5), Some 10)]\<rparr>"

theorem parity_maker_order_never_fills_witness:
  "\<exists>r w1. paper_submit (\<lambda>x e. x) free_gw (sim_env (Some (Inr wide_book))) (sample_order\<lparr>go_post_only := True\<rparr>)
       (Some ''GTC'') \<lparr>pw_orders = [], pw_env = 0\<rparr> = (Inr r, w1) \<and> sr_status r = ''RESTING'' \<and>
     fst (poll_fills 21 (paper_venue (\<lambda>x e. x) free_gw (sim_env (Some (Inr wide_book))))
       (paper_id (sample_order\<lparr>go_post_only := True\<rparr>)) ''t'' 0 5 w1) \<noteq> Some True"
proof -
  let ?o = "sample_order\<lparr>go_post_only := True\<rparr>" and ?env = "sim_env (Some (Inr wide_book))"
  let ?s = "paper_submit (\<lambda>x e. x) free_gw ?env ?o (Some ''GTC'') \<lparr>pw_orders = [], pw_env = 0\<rparr>"
  have "case fst ?s of Inl _ \<Rightarrow> False | Inr r \<Rightarrow> sr_status r = ''RESTING''" by code_simp
  then obtain r where r0: "fst ?s = Inr r" "sr_status r = ''RESTING''" by (cases "fst ?s") simp_all
  obtain w1 where r: "?s = (Inr r, w1)" using r0(1) by (cases ?s) simp
  have "fst (poll_fills 21 (paper_venue (\<lambda>x e. x) free_gw ?env) (paper_id ?o) ''t'' 0 5 w1) \<noteq> Some True"
    by (rule parity_maker_order_never_fills [OF _ _ r])
      (simp_all add: free_gw_def flat_gw_def sim_env_def)
  with r r0(2) show ?thesis by blast
qed

section \<open>The simulated venue meets the clock interface\<close>

text \<open>An environment whose clock does not run backwards and whose sleep takes time.\<close>

locale clocked_env =
  fixes env :: "'e paper_env" and now :: "'e \<Rightarrow> rat"
  assumes env_clock: "fst (pe_clock env e) = now e" "now e \<le> now (snd (pe_clock env e))"
    and env_sleep: "0 \<le> s \<Longrightarrow> now e + s / 2 \<le> now (pe_sleep env s e)"
    and env_recover: "now e \<le> now (snd (pe_recover env i e))"

sublocale clocked_env \<subseteq> paper: clocked_venue "paper_venue pw g env" "\<lambda>w. now (pw_env w)" for pw g
proof
  fix w :: "'e paper_world" and s :: rat and i t
  show "fst (v_clock (paper_venue pw g env) w) = now (pw_env w)"
    "now (pw_env w) \<le> now (pw_env (snd (v_clock (paper_venue pw g env) w)))"
    using env_clock [of "pw_env w"] by (auto simp: paper_venue_def split: prod.splits)
  show "now (pw_env w) \<le> now (pw_env (snd (v_fetch_fills (paper_venue pw g env) i t w)))"
    using env_recover [of "pw_env w" i] by (auto simp: paper_venue_def paper_fetch_fills_def Let_def split: prod.splits)
  assume "0 \<le> s"
  then show "now (pw_env w) + s / 2 \<le> now (pw_env (v_sleep (paper_venue pw g env) s w))"
    using env_sleep [of s "pw_env w"] by (simp add: paper_venue_def)
qed

interpretation sim: clocked_env "sim_env b" "\<lambda>e. e" for b
  by unfold_locales (simp_all add: sim_env_def)

interpretation logged_sim: clocked_venue "recording (paper_venue pw g (sim_env b))" "(\<lambda>w. pw_env w) \<circ> fst" for pw g b
  by (rule recording_clocked) (rule sim.paper.clocked_venue_axioms)

end
