(* ===== verification/Accounting.thy ===== *)
theory Accounting
  imports Outbox
begin

text \<open>
  Position accounting: \<open>rebuild_trade_accounting\<close> of \<open>execution/worker.py\<close>, the settlement of resolved
  PAPER and SHADOW positions (\<open>execution/settlement_service.py\<close>), the resolution of LIVE positions
  (\<open>execution/trade_lifecycle.py\<close>, \<open>execution/live_settlement_service.py\<close>) and the scheduler job
  that drives them (\<open>scheduler/jobs.py\<close>, \<open>resolve_trades_job\<close>).
\<close>

section \<open>Totals of the fills of a position\<close>

record fill_totals =
  ft_open_shares :: decimal
  ft_open_gross :: decimal
  ft_open_fees :: decimal
  ft_close_shares :: decimal
  ft_close_gross :: decimal
  ft_close_fees :: decimal
  ft_latest_close :: "time option"

definition no_fills :: fill_totals where
  "no_fills = \<lparr>ft_open_shares = 0, ft_open_gross = 0, ft_open_fees = 0, ft_close_shares = 0, ft_close_gross = 0,
     ft_close_fees = 0, ft_latest_close = None\<rparr>"

definition fill_gross :: "exec_fill \<Rightarrow> decimal" where
  "fill_gross f = num_or (fl_gross f) (d_mul (fl_shares f) (fl_price f))"

definition tally_fill :: "fill_totals \<Rightarrow> intent \<times> exec_fill \<Rightarrow> fill_totals" where
  "tally_fill t x = (case x of (intent, f) \<Rightarrow>
     (case intent of
        OPEN \<Rightarrow> t\<lparr>ft_open_shares := d_add (ft_open_shares t) (fl_shares f),
                  ft_open_gross := d_add (ft_open_gross t) (fill_gross f),
                  ft_open_fees := d_add (ft_open_fees t) (fl_fee f)\<rparr>
      | CLOSE \<Rightarrow> t\<lparr>ft_close_shares := d_add (ft_close_shares t) (fl_shares f),
                  ft_close_gross := d_add (ft_close_gross t) (fill_gross f),
                  ft_close_fees := d_add (ft_close_fees t) (fl_fee f),
                  ft_latest_close := (case ft_latest_close t of
                     None \<Rightarrow> Some (fl_timestamp f)
                   | Some u \<Rightarrow> Some (if u < fl_timestamp f then fl_timestamp f else u))\<rparr>))"

definition trade_requests :: "db \<Rightarrow> int \<Rightarrow> exec_request list" where
  "trade_requests d i = filter (\<lambda>r. rq_trade_id r = i) (db_requests d)"

definition trade_fills :: "db \<Rightarrow> int \<Rightarrow> (intent \<times> exec_fill) list" where
  "trade_fills d i =
     concat (map (\<lambda>r. concat (map (\<lambda>a. map (\<lambda>f. (rq_intent r, f))
         (filter (\<lambda>f. fl_attempt_id f = at_id a) (db_fills d)))
       (filter (\<lambda>a. at_request_id a = rq_id r) (db_attempts d)))) (trade_requests d i))"

definition fill_sums :: "db \<Rightarrow> int \<Rightarrow> fill_totals" where
  "fill_sums d i = foldl tally_fill no_fills (trade_fills d i)"

text \<open>Without entry fills the entry recorded on the trade itself counts (\<open>x or y or "0"\<close> on the amounts).\<close>

definition with_fallback :: "trade \<Rightarrow> fill_totals \<Rightarrow> fill_totals" where
  "with_fallback t ft =
     (if ft_open_shares ft = 0 \<and> 0 < num_or (tr_entry_filled t) 0
      then ft\<lparr>ft_open_shares := num_or (tr_entry_filled t) 0,
              ft_open_gross := num_or (tr_entry_cost t)
                (if tr_amount_usdc t = 0 then 0 else repr_dec (tr_amount_usdc t))\<rparr>
      else ft)"

section \<open>rebuild_trade_accounting\<close>

definition over_closed :: "fill_totals \<Rightarrow> bool" where
  "over_closed ft \<longleftrightarrow> d_add (ft_open_shares ft) (1/1000000) < ft_close_shares ft \<and> 0 < ft_open_shares ft"

definition mark_over_closed :: "fill_totals \<Rightarrow> trade \<Rightarrow> trade" where
  "mark_over_closed ft t = t\<lparr>tr_position := MANUAL_REVIEW_REQUIRED_POS,
     tr_last_exit_error := Some (''over-close: close_shares='' @ dec_str (ft_close_shares ft) @ '' > open_shares='' @
       dec_str (ft_open_shares ft))\<rparr>"

definition failed_opens :: "exec_request list \<Rightarrow> exec_request list" where
  "failed_opens reqs = filter (\<lambda>r. rq_intent r = OPEN \<and> rq_state r \<in> FAILURE_TERMINAL_STATES \<and> rq_filled_shares r \<le> 0) reqs"

definition active_opens :: "exec_request list \<Rightarrow> exec_request list" where
  "active_opens reqs = filter (\<lambda>r. rq_intent r = OPEN \<and> rq_state r \<in> ACTIVE_REQUEST_STATES) reqs"

text \<open>\<open>max(rows, key=updated_at)\<close>: the first of the latest.\<close>

fun latest_request :: "exec_request \<Rightarrow> exec_request list \<Rightarrow> exec_request" where
  "latest_request r [] = r"
| "latest_request r (s # rs) = latest_request (if rq_updated_at r < rq_updated_at s then s else r) rs"

definition failure_reason :: "exec_request \<Rightarrow> string" where
  "failure_reason r =
     (let e = str_or_empty (rq_error_reason r); c = str_or_empty (rq_terminal_code r) in
      if e \<noteq> [] then e else if c \<noteq> [] then c else ''Execution request '' @ state_name (rq_state r))"

definition bump_version :: "trade \<Rightarrow> trade" where
  "bump_version t = t\<lparr>tr_accounting_version := tr_accounting_version t + 1\<rparr>"

definition fail_entry :: "exec_request \<Rightarrow> trade \<Rightarrow> trade" where
  "fail_entry r t = bump_version (t\<lparr>tr_status := ''FAILED'', tr_position := ENTRY_FAILED_POS,
     tr_error_msg := (if str_or_empty (tr_error_msg t) = [] then Some (failure_reason r) else tr_error_msg t),
     tr_entry_filled := Some 0, tr_entry_cost := Some 0, tr_remaining := Some 0, tr_executed_price := 0,
     tr_realized_pnl := Some 0, tr_pnl := Some 0\<rparr>)"

definition avg_entry :: "fill_totals \<Rightarrow> decimal" where
  "avg_entry ft =
     (if 0 < ft_open_shares ft then d_div (d_add (ft_open_gross ft) (ft_open_fees ft)) (ft_open_shares ft) else 0)"

definition realized_pnl :: "fill_totals \<Rightarrow> decimal" where
  "realized_pnl ft =
     d_sub (d_sub (ft_close_gross ft) (ft_close_fees ft)) (d_mul (avg_entry ft) (ft_close_shares ft))"

definition remaining_shares :: "fill_totals \<Rightarrow> decimal" where
  "remaining_shares ft = d_sub (ft_open_shares ft) (ft_close_shares ft)"

definition book_amounts :: "fill_totals \<Rightarrow> trade \<Rightarrow> trade" where
  "book_amounts ft t =
     t\<lparr>tr_entry_filled := Some (ft_open_shares ft),
       tr_entry_cost := Some (d_add (ft_open_gross ft) (ft_open_fees ft)),
       tr_amount_usdc := flt (ft_open_gross ft),
       tr_executed_price := (if 0 < ft_open_shares ft then flt (d_div (ft_open_gross ft) (ft_open_shares ft)) else 0),
       tr_remaining := Some (max 0 (remaining_shares ft)),
       tr_realized_pnl := Some (realized_pnl ft),
       tr_pnl := Some (flt (realized_pnl ft)),
       tr_close_price := (if 0 < ft_close_shares ft then Some (flt (d_div (ft_close_gross ft) (ft_close_shares ft)))
                          else tr_close_price t)\<rparr>"

text \<open>The status the amounts imply, field by field: closed, partly closed, open, or as before.\<close>

definition fully_closed :: "fill_totals \<Rightarrow> bool" where
  "fully_closed ft \<longleftrightarrow> 0 < ft_open_shares ft \<and> remaining_shares ft \<le> 0"

definition untouched :: "fill_totals \<Rightarrow> bool" where
  "untouched ft \<longleftrightarrow> \<not> fully_closed ft \<and> 0 < remaining_shares ft \<and> \<not> remaining_shares ft < ft_open_shares ft"

definition booked_position :: "fill_totals \<Rightarrow> pos_status \<Rightarrow> pos_status" where
  "booked_position ft p =
     (if fully_closed ft then CLOSED_POS
      else if 0 < remaining_shares ft \<and> remaining_shares ft < ft_open_shares ft then PARTIALLY_CLOSED_POS
      else if untouched ft then OPEN_POS else p)"

definition book_status :: "fill_totals \<Rightarrow> trade \<Rightarrow> trade" where
  "book_status ft t =
     t\<lparr>tr_position := booked_position ft (tr_position t),
       tr_closed_at := (if fully_closed ft \<and> ft_latest_close ft \<noteq> None then ft_latest_close ft else tr_closed_at t),
       tr_tp_status := (if fully_closed ft \<and> tr_exit_reason t = Some TAKE_PROFIT then Some ''TRIGGERED'' else tr_tp_status t),
       tr_sl_status := (if fully_closed ft \<and> tr_exit_reason t = Some STOP_LOSS then Some ''TRIGGERED'' else tr_sl_status t),
       tr_exit_reason := (if untouched ft \<and> ft_close_shares ft \<le> 0 \<and> tr_exit_reason t \<noteq> Some SETTLEMENT then None else tr_exit_reason t)\<rparr>"

definition all_close_failed :: "exec_request list \<Rightarrow> bool" where
  "all_close_failed reqs \<longleftrightarrow>
     (\<exists>r\<in>set reqs. rq_intent r = CLOSE) \<and>
     (\<forall>r\<in>set reqs. rq_intent r = CLOSE \<longrightarrow> rq_state r \<in> {REJECTED, FAILED})"

definition rearm :: "bool \<Rightarrow> string option \<Rightarrow> string option" where
  "rearm failed s =
     (if s \<notin> {Some ''TRIGGERED'', Some ''ACTIVE''} \<or> (s = Some ''TRIGGERED'' \<and> failed) then Some ''ACTIVE'' else s)"

definition tp_target :: "fill_totals \<Rightarrow> trade \<Rightarrow> decimal" where
  "tp_target ft t = d_mul (avg_entry ft) (repr_dec (num_or (tr_tp_multiplier t) (3/2)))"

definition sl_target :: "fill_totals \<Rightarrow> pyfloat \<Rightarrow> pyfloat" where
  "sl_target ft pct = flt (d_mul (avg_entry ft) (d_sub 1 (d_div (repr_dec pct) 100)))"

text \<open>The exit levels of a position that is still open; an unreachable take profit target is skipped.\<close>

definition levels_apply :: "fill_totals \<Rightarrow> trade \<Rightarrow> bool" where
  "levels_apply ft t \<longleftrightarrow> tr_position t \<in> {OPEN_POS, PARTIALLY_CLOSED_POS} \<and> 0 < ft_open_shares ft"

definition set_stop_loss :: "exec_request list \<Rightarrow> fill_totals \<Rightarrow> trade \<Rightarrow> trade" where
  "set_stop_loss reqs ft t =
     t\<lparr>tr_sl_status := (if levels_apply ft t \<and> tr_sl_pct t \<noteq> None
                        then rearm (all_close_failed reqs) (tr_sl_status t) else tr_sl_status t),
       tr_sl_price := (case tr_sl_pct t of
                         Some pct \<Rightarrow> if levels_apply ft t \<and> 0 < avg_entry ft \<and> tr_sl_price t = None
                                     then Some (sl_target ft pct) else tr_sl_price t
                       | None \<Rightarrow> tr_sl_price t)\<rparr>"

definition new_tp_level :: "fill_totals \<Rightarrow> trade \<Rightarrow> bool" where
  "new_tp_level ft t \<longleftrightarrow> levels_apply ft t \<and> tr_tp_enabled t \<and> 0 < avg_entry ft \<and> tr_tp_price t = None"

definition set_take_profit :: "exec_request list \<Rightarrow> fill_totals \<Rightarrow> trade \<Rightarrow> trade" where
  "set_take_profit reqs ft t =
     t\<lparr>tr_tp_status := (if new_tp_level ft t \<and> 99/100 < tp_target ft t then Some ''SKIPPED''
                        else if levels_apply ft t \<and> tr_tp_enabled t then rearm (all_close_failed reqs) (tr_tp_status t)
                        else tr_tp_status t),
       tr_tp_price := (if new_tp_level ft t \<and> \<not> 99/100 < tp_target ft t then Some (flt (tp_target ft t))
                       else tr_tp_price t)\<rparr>"

definition set_exit_levels :: "exec_request list \<Rightarrow> fill_totals \<Rightarrow> trade \<Rightarrow> trade" where
  "set_exit_levels reqs ft t = set_take_profit reqs ft (set_stop_loss reqs ft t)"

definition overall_status :: "fill_totals \<Rightarrow> trade \<Rightarrow> trade" where
  "overall_status ft t =
     t\<lparr>tr_status := (if 0 < ft_open_shares ft then ''SUCCESS''
                     else if tr_status t \<noteq> ''FAILED'' \<and> tr_position t \<noteq> ENTRY_FAILED_POS then ''PENDING'' else tr_status t),
       tr_position := (if 0 < ft_open_shares ft then
                         (if 0 < remaining_shares ft \<and> tr_position t \<notin> {PARTIALLY_CLOSED_POS, CLOSED_POS}
                          then OPEN_POS else tr_position t)
                       else if tr_status t \<noteq> ''FAILED'' \<and> tr_position t \<noteq> ENTRY_FAILED_POS then OPENING_POS
                       else tr_position t)\<rparr>"

text \<open>The update of the trade row, from the requests and the totals of its fills.\<close>

definition rebuild_row :: "exec_request list \<Rightarrow> fill_totals \<Rightarrow> trade \<Rightarrow> trade" where
  "rebuild_row reqs tot t =
     (let ft = with_fallback t tot in
      if tr_position t \<in> FINAL_POSITION_STATES then t
      else if reqs = [] \<and> tr_position t \<in> {OPEN_POS, CLOSED_POS, PARTIALLY_CLOSED_POS} then t
      else if over_closed ft then mark_over_closed ft t
      else case failed_opens reqs of
        r # rs \<Rightarrow>
          if ft_open_shares ft \<le> 0 \<and> num_or (tr_entry_filled t) 0 = 0 \<and> active_opens reqs = []
          then fail_entry (latest_request r rs) t
          else bump_version (overall_status ft (set_exit_levels reqs ft (book_status ft (book_amounts ft t))))
      | [] \<Rightarrow> bump_version (overall_status ft (set_exit_levels reqs ft (book_status ft (book_amounts ft t)))))"

definition rebuild_trade_accounting :: "int \<Rightarrow> db \<Rightarrow> db" where
  "rebuild_trade_accounting i d = upd_trade i (rebuild_row (trade_requests d i) (fill_sums d i)) d"

text \<open>The value the function returns: \<open>None\<close> for no row, for nothing to rebuild and for an over-close.\<close>

definition rebuilt_trade :: "int \<Rightarrow> db \<Rightarrow> trade option" where
  "rebuilt_trade i d =
     (case get_trade d i of
        None \<Rightarrow> None
      | Some t \<Rightarrow>
          if tr_position t \<in> FINAL_POSITION_STATES then Some t
          else if trade_requests d i = [] \<and> tr_position t \<in> {OPEN_POS, CLOSED_POS, PARTIALLY_CLOSED_POS} then None
          else if over_closed (with_fallback t (fill_sums d i)) then None
          else Some (rebuild_row (trade_requests d i) (fill_sums d i) t))"

section \<open>Settlement of PAPER and SHADOW positions\<close>

definition normalize_outcome :: "string \<Rightarrow> string" where
  "normalize_outcome s =
     (let raw = strip (upper s) in
      if raw \<in> {''UP'', ''1''} then ''YES'' else if raw \<in> {''DOWN'', ''0''} then ''NO'' else raw)"

text \<open>\<open>None\<close> when the entry cannot be reconstructed (AccountingInvariantError).\<close>

definition reconstruct_missing_fields :: "trade \<Rightarrow> trade option" where
  "reconstruct_missing_fields t =
     (case (case tr_entry_filled t of
              Some s \<Rightarrow> Some s
            | None \<Rightarrow> if tr_executed_price t \<noteq> 0 \<and> 0 < repr_dec (tr_executed_price t)
                then Some (d_div (if tr_amount_usdc t = 0 then 0 else repr_dec (tr_amount_usdc t)) (repr_dec (tr_executed_price t)))
                else None) of
        None \<Rightarrow> None
      | Some filled \<Rightarrow>
          Some (t\<lparr>tr_entry_filled := Some filled,
                  tr_remaining := (case tr_remaining t of None \<Rightarrow> Some filled | Some r \<Rightarrow> Some r),
                  tr_entry_cost := (case tr_entry_cost t of
                     None \<Rightarrow> Some (if tr_amount_usdc t = 0 then 0 else repr_dec (tr_amount_usdc t)) | Some c \<Rightarrow> Some c)\<rparr>))"

definition remaining_basis :: "trade \<Rightarrow> decimal" where
  "remaining_basis t =
     (let filled = num_or (tr_entry_filled t) 0 in
      if filled \<le> 0 then 0
      else d_mul (d_div (num_or (tr_entry_cost t) 0) filled) (num_or (tr_remaining t) 0))"

definition settlement_payout :: "trade \<Rightarrow> string \<Rightarrow> decimal \<Rightarrow> decimal" where
  "settlement_payout t winning per_share =
     (if normalize_outcome winning = ''INVALID'' \<or> normalize_outcome (tr_outcome t) = normalize_outcome winning
      then d_mul (num_or (tr_remaining t) 0) per_share else 0)"

definition settle_row :: "string \<Rightarrow> decimal \<Rightarrow> decimal \<Rightarrow> time \<Rightarrow> trade \<Rightarrow> trade" where
  "settle_row winning per_share fee now t =
     (if tr_position t = CLOSED_POS then t
      else case reconstruct_missing_fields t of
        None \<Rightarrow> t\<lparr>tr_position := MANUAL_REVIEW_REQUIRED_POS\<rparr>
      | Some u \<Rightarrow>
          let delta = d_sub (d_sub (settlement_payout u winning per_share) fee) (remaining_basis u);
              new = d_add (num_or (tr_realized_pnl u) 0) delta in
          u\<lparr>tr_realized_pnl := Some new, tr_pnl := Some (flt new), tr_remaining := Some 0,
            tr_position := CLOSED_POS, tr_exit_reason := Some SETTLEMENT, tr_closed_at := Some now\<rparr>)"

definition settle_resolved_position :: "int \<Rightarrow> string \<Rightarrow> decimal \<Rightarrow> decimal \<Rightarrow> time \<Rightarrow> db \<Rightarrow> db" where
  "settle_resolved_position i winning per_share fee now d = upd_trade i (settle_row winning per_share fee now) d"

section \<open>Resolution of LIVE positions\<close>

definition mark_trade_resolved :: "bool \<Rightarrow> trade \<Rightarrow> trade" where
  "mark_trade_resolved is_win t =
     (let u = t\<lparr>tr_exit_reason := Some SETTLEMENT,
                tr_position := (if is_win then RESOLVED_REDEEMABLE_POS else RESOLVED_LOST_POS),
                tr_redemption_status := (if is_win then ''PENDING'' else ''NOT_REQUIRED'')\<rparr> in
      if is_win then u
      else u\<lparr>tr_expected_payout := Some 0,
             tr_remaining := (case tr_remaining t of None \<Rightarrow> Some 0 | Some r \<Rightarrow> Some (if 0 < r then 0 else r))\<rparr>)"

text \<open>
  A market of the Gamma API, its two lists decoded; a price is \<open>None\<close> when \<open>float()\<close> raises on it.
\<close>

record gamma_market =
  gm_closed :: bool
  gm_accepting :: bool
  gm_outcomes :: "string list"
  gm_prices :: "pyfloat option list"
  gm_winning :: "string option"

fun side_outcome :: "string \<Rightarrow> string option" where
  "side_outcome s =
     (let wo = upper s in
      if wo \<in> {''UP'', ''YES'', ''1''} then Some ''YES''
      else if wo \<in> {''DOWN'', ''NO'', ''0''} then Some ''NO'' else None)"

text \<open>The loop over the prices: it stops at the first price of at least 0.99 and at a malformed one.\<close>

fun winner_by_price :: "string list \<Rightarrow> pyfloat option list \<Rightarrow> string option" where
  "winner_by_price (w # ws) (Some p # ps) =
     (if flt (99/100) \<le> p then Some (case side_outcome w of Some s \<Rightarrow> s | None \<Rightarrow> ''INVALID'') else winner_by_price ws ps)"
| "winner_by_price _ _ = None"

definition parse_confirmed_resolution :: "gamma_market \<Rightarrow> string option" where
  "parse_confirmed_resolution m =
     (if \<not> gm_closed m then None
      else case (if gm_outcomes m \<noteq> [] \<and> length (gm_outcomes m) = length (gm_prices m)
                 then winner_by_price (gm_outcomes m) (gm_prices m) else None) of
        Some w \<Rightarrow> Some w
      | None \<Rightarrow>
          (case gm_winning m of
             None \<Rightarrow> None
           | Some s \<Rightarrow> if s = [] then None
               else case side_outcome s of
                 Some w \<Rightarrow> Some w
               | None \<Rightarrow> if upper s = ''INVALID'' then Some ''INVALID'' else None))"

definition refresh_market_trading_state :: "gamma_market \<Rightarrow> live_market \<Rightarrow> live_market" where
  "refresh_market_trading_state g m =
     (if gm_closed g then m\<lparr>mk_trading_status := ''RESOLVED'', mk_accepting := False\<rparr>
      else m\<lparr>mk_accepting := gm_accepting g, mk_trading_status := (if gm_accepting g then ''TRADABLE'' else ''CLOSED'')\<rparr>)"

definition save_market_resolution :: "string \<Rightarrow> live_market \<Rightarrow> live_market" where
  "save_market_resolution final m =
     m\<lparr>mk_trading_status := ''RESOLVED'',
       mk_resolution_status := (if final \<noteq> ''INVALID'' then ''RESOLVED'' else ''INVALID''),
       mk_final_outcome := Some final, mk_accepting := False\<rparr>"

definition upd_market :: "string \<Rightarrow> (live_market \<Rightarrow> live_market) \<Rightarrow> db \<Rightarrow> db" where
  "upd_market i f d = d\<lparr>db_markets := update_where (\<lambda>m. mk_id m = i) f (db_markets d)\<rparr>"

text \<open>The amounts of a resolved LIVE position.\<close>

definition book_resolution :: "bool \<Rightarrow> trade \<Rightarrow> trade" where
  "book_resolution is_win t =
     (if is_win then
        let payout = num_or (tr_remaining t) 0; pnl = d_sub payout (num_or (tr_entry_cost t) 0) in
        t\<lparr>tr_expected_payout := Some payout, tr_redeemable := tr_remaining t,
          tr_realized_pnl := Some pnl, tr_pnl := Some (flt pnl)\<rparr>
      else let pnl = d_neg (num_or (tr_entry_cost t) 0) in
        t\<lparr>tr_realized_pnl := Some pnl, tr_pnl := Some (flt pnl)\<rparr>)"

definition resolve_live_row :: "string \<Rightarrow> trade \<Rightarrow> trade" where
  "resolve_live_row final t =
     (let is_win = (tr_outcome t = final) in
      book_resolution is_win (mark_trade_resolved is_win (t\<lparr>tr_settlement_outcome := Some final\<rparr>)))"

text \<open>
  \<open>reconcile_live_resolution\<close>: the outcome and the database as the session leaves it; \<open>fetch\<close> is the
  HTTP call. A winning position without \<open>remaining_shares\<close> makes \<open>Decimal("None")\<close> raise.
\<close>

definition reconcile_live_resolution ::
  "(string \<Rightarrow> gamma_market outcome) \<Rightarrow> int \<Rightarrow> db \<Rightarrow> trade outcome \<times> db" where
  "reconcile_live_resolution fetch i d =
     (case get_trade d i of
        None \<Rightarrow> (Inl LivePositionNotFound, d)
      | Some t \<Rightarrow>
          if tr_mode t \<noteq> LIVE then (Inl LivePositionNotFound, d)
          else if tr_position t \<in> {RESOLVED_REDEEMABLE_POS, RESOLVED_LOST_POS, REDEEMED_POS, CLOSED_POS} then (Inr t, d)
          else case fetch (tr_market_id t) of
            Inl e \<Rightarrow> (Inl e, d)
          | Inr g \<Rightarrow>
              let d1 = upd_market (tr_market_id t) (refresh_market_trading_state g) d in
              (case parse_confirmed_resolution g of
                 None \<Rightarrow> (Inl MarketNotResolved, d1)
               | Some final \<Rightarrow>
                   let d2 = upd_market (tr_market_id t) (save_market_resolution final) d1 in
                   if tr_outcome t = final \<and> tr_remaining t = None then (Inl InvalidOperation, d2)
                   else (Inr (resolve_live_row final t), upd_trade i (resolve_live_row final) d2)))"

section \<open>The resolution job\<close>

definition settles :: "trade \<Rightarrow> bool" where
  "settles t \<longleftrightarrow> tr_position t \<in> ACTIVE_POSITION_STATES \<and> tr_status t \<in> {''SUCCESS'', ''PAPER''} \<and> tr_mode t \<in> {PAPER, SHADOW}"

definition resolves_live :: "trade \<Rightarrow> bool" where
  "resolves_live t \<longleftrightarrow> tr_mode t = LIVE \<and> tr_position t \<in> {OPEN_POS, PARTIALLY_CLOSED_POS} \<and> tr_status t = ''SUCCESS'' \<and>
     0 < num_or (tr_entry_filled t) 0 \<and> 0 < num_or (tr_remaining t) 0"

text \<open>One trade of the job; \<open>outcomes\<close> is the dictionary of decided markets.\<close>

definition resolve_trade :: "(string \<Rightarrow> string option) \<Rightarrow> time \<Rightarrow> trade \<Rightarrow> trade" where
  "resolve_trade outcomes now t =
     (case outcomes (tr_market_id t) of
        None \<Rightarrow> t
      | Some raw \<Rightarrow>
          if raw = [] then t
          else if settles t then
            (if raw = ''INVALID'' then (settle_row ''INVALID'' (1/2) 0 now t)\<lparr>tr_status := ''INVALID''\<rparr>
             else settle_row raw 1 0 now t)
          else if resolves_live t then
            (let is_win = (upper (strip (tr_outcome t)) = upper (strip raw)) in
             (book_resolution is_win (mark_trade_resolved is_win t))\<lparr>tr_settlement_outcome := Some raw\<rparr>)
          else t)"

definition resolve_trades_job :: "(string \<Rightarrow> string option) \<Rightarrow> time \<Rightarrow> db \<Rightarrow> db" where
  "resolve_trades_job outcomes now d = d\<lparr>db_trades := map (resolve_trade outcomes now) (db_trades d)\<rparr>"

section \<open>Rebuilding is a function of the fills\<close>

lemma trade_requests_frame [simp]:
  "trade_requests (upd_trade i f d) k = trade_requests d k" "fill_sums (upd_trade i f d) k = fill_sums d k"
  by (simp_all add: trade_requests_def fill_sums_def trade_fills_def)

lemma trade_id_frame [simp]:
  "tr_id (bump_version t) = tr_id t" "tr_id (fail_entry r t) = tr_id t" "tr_id (mark_over_closed ft t) = tr_id t"
  "tr_id (book_amounts ft t) = tr_id t" "tr_id (book_status ft t) = tr_id t"
  "tr_id (set_exit_levels reqs ft t) = tr_id t" "tr_id (overall_status ft t) = tr_id t"
  by (simp_all add: bump_version_def fail_entry_def mark_over_closed_def book_amounts_def book_status_def
      set_stop_loss_def set_take_profit_def set_exit_levels_def overall_status_def)

lemma rebuild_row_id [simp]: "tr_id (rebuild_row reqs tot t) = tr_id t"
  by (simp add: rebuild_row_def Let_def split: list.splits)

lemma get_trade_rebuild:
  "get_trade (rebuild_trade_accounting i d) i =
   map_option (rebuild_row (trade_requests d i) (fill_sums d i)) (get_trade d i)"
  by (simp add: rebuild_trade_accounting_def get_trade_upd_trade)

definition unversioned :: "trade \<Rightarrow> trade" where
  "unversioned t = t\<lparr>tr_accounting_version := 0\<rparr>"

text \<open>The last part of the function: the booking of a position that is neither failed nor over-closed.\<close>

definition book_position :: "exec_request list \<Rightarrow> fill_totals \<Rightarrow> trade \<Rightarrow> trade" where
  "book_position reqs ft t = overall_status ft (set_exit_levels reqs ft (book_status ft (book_amounts ft t)))"

lemma rearm_idem: "rearm b (rearm b s) = rearm b s"
  by (auto simp: rearm_def)

lemmas book_defs = book_amounts_def book_status_def set_exit_levels_def set_stop_loss_def
  set_take_profit_def overall_status_def

text \<open>The fields of the booked row, one by one.\<close>

lemma book_position_amounts:
  "tr_entry_filled (book_position reqs ft t) = Some (ft_open_shares ft)"
  "tr_entry_cost (book_position reqs ft t) = Some (d_add (ft_open_gross ft) (ft_open_fees ft))"
  "tr_remaining (book_position reqs ft t) = Some (max 0 (remaining_shares ft))"
  "tr_realized_pnl (book_position reqs ft t) = Some (realized_pnl ft)"
  "tr_outcome (book_position reqs ft t) = tr_outcome t"
  by (simp_all add: book_position_def book_defs)

lemma book_position_status:
  "0 < ft_open_shares ft \<Longrightarrow> tr_status (book_position reqs ft t) = ''SUCCESS''"
  "0 < ft_open_shares ft \<Longrightarrow> tr_position (book_position reqs ft t) =
     (if remaining_shares ft \<le> 0 then CLOSED_POS
      else if remaining_shares ft < ft_open_shares ft then PARTIALLY_CLOSED_POS else OPEN_POS)"
  by (simp_all add: book_position_def book_defs booked_position_def fully_closed_def untouched_def not_le)

text \<open>The booking of an open position in closed form.\<close>

definition open_position :: "fill_totals \<Rightarrow> pos_status" where
  "open_position ft = (if remaining_shares ft < ft_open_shares ft then PARTIALLY_CLOSED_POS else OPEN_POS)"

definition wants_tp :: "fill_totals \<Rightarrow> trade \<Rightarrow> bool" where
  "wants_tp ft t \<longleftrightarrow> tr_tp_enabled t \<and> 0 < avg_entry ft \<and> tr_tp_price t = None"

lemma levels_apply_booked:
  assumes "0 < ft_open_shares ft" "0 < remaining_shares ft"
  shows "levels_apply ft (book_status ft t)" "tr_position (book_status ft t) = open_position ft"
  using assms by (simp_all add: levels_apply_def book_status_def booked_position_def fully_closed_def untouched_def
      open_position_def)

definition open_row :: "exec_request list \<Rightarrow> fill_totals \<Rightarrow> trade \<Rightarrow> trade" where
  "open_row reqs ft t =
     (book_amounts ft t)\<lparr>tr_position := open_position ft, tr_status := ''SUCCESS'',
       tr_exit_reason := (if untouched ft \<and> ft_close_shares ft \<le> 0 \<and> tr_exit_reason t \<noteq> Some SETTLEMENT then None
                          else tr_exit_reason t),
       tr_sl_status := (if tr_sl_pct t \<noteq> None then rearm (all_close_failed reqs) (tr_sl_status t) else tr_sl_status t),
       tr_sl_price := (case tr_sl_pct t of
                         Some pct \<Rightarrow> if 0 < avg_entry ft \<and> tr_sl_price t = None then Some (sl_target ft pct) else tr_sl_price t
                       | None \<Rightarrow> tr_sl_price t),
       tr_tp_status := (if wants_tp ft t \<and> 99/100 < tp_target ft t then Some ''SKIPPED''
                        else if tr_tp_enabled t then rearm (all_close_failed reqs) (tr_tp_status t) else tr_tp_status t),
       tr_tp_price := (if wants_tp ft t \<and> \<not> 99/100 < tp_target ft t then Some (flt (tp_target ft t)) else tr_tp_price t)\<rparr>"

lemma same_fields:
  "tr_position u = p \<Longrightarrow> tr_status u = s \<Longrightarrow>
   u\<lparr>tr_position := p, tr_status := s, tr_exit_reason := tr_exit_reason u, tr_sl_status := tr_sl_status u,
     tr_sl_price := tr_sl_price u, tr_tp_status := tr_tp_status u, tr_tp_price := tr_tp_price u\<rparr> = u"
  by (cases u) simp

lemma open_row_idem: "open_row reqs ft (open_row reqs ft t) = open_row reqs ft t"
proof -
  let ?u = "open_row reqs ft t"
  have tgt: "tp_target ft ?u = tp_target ft t" by (simp add: tp_target_def open_row_def book_amounts_def)
  have tp: "tr_tp_enabled ?u = tr_tp_enabled t" "tr_sl_pct ?u = tr_sl_pct t" "tr_close_price ?u = tr_close_price (book_amounts ft t)"
    by (simp_all add: open_row_def book_amounts_def)
  have w: "wants_tp ft ?u \<longleftrightarrow> wants_tp ft t \<and> 99/100 < tp_target ft t"
    by (auto simp: wants_tp_def open_row_def book_amounts_def)
  have a: "book_amounts ft ?u = ?u" by (simp add: open_row_def book_amounts_def)
  have f: "tr_sl_status ?u = (if tr_sl_pct t \<noteq> None then rearm (all_close_failed reqs) (tr_sl_status t) else tr_sl_status t)"
    "tr_tp_status ?u = (if wants_tp ft t \<and> 99/100 < tp_target ft t then Some ''SKIPPED''
                        else if tr_tp_enabled t then rearm (all_close_failed reqs) (tr_tp_status t) else tr_tp_status t)"
    "tr_sl_price ?u = (case tr_sl_pct t of
                         Some pct \<Rightarrow> if 0 < avg_entry ft \<and> tr_sl_price t = None then Some (sl_target ft pct) else tr_sl_price t
                       | None \<Rightarrow> tr_sl_price t)"
    "tr_position ?u = open_position ft" "tr_status ?u = ''SUCCESS''"
    "tr_exit_reason ?u = (if untouched ft \<and> ft_close_shares ft \<le> 0 \<and> tr_exit_reason t \<noteq> Some SETTLEMENT then None
                          else tr_exit_reason t)"
    by (simp_all add: open_row_def)
  have sl: "(if tr_sl_pct ?u \<noteq> None then rearm (all_close_failed reqs) (tr_sl_status ?u) else tr_sl_status ?u) = tr_sl_status ?u"
    by (simp add: f(1) tp(2) rearm_idem)
  have slp: "(case tr_sl_pct ?u of
       Some pct \<Rightarrow> if 0 < avg_entry ft \<and> tr_sl_price ?u = None then Some (sl_target ft pct) else tr_sl_price ?u
     | None \<Rightarrow> tr_sl_price ?u) = tr_sl_price ?u"
    unfolding tp(2) f(3) by (auto split: option.splits)
  have tps: "(if wants_tp ft ?u \<and> 99/100 < tp_target ft ?u then Some ''SKIPPED''
      else if tr_tp_enabled ?u then rearm (all_close_failed reqs) (tr_tp_status ?u) else tr_tp_status ?u) = tr_tp_status ?u"
    unfolding w tgt tp(1) f(2) by (auto simp: rearm_idem)
  have tpp: "(if wants_tp ft ?u \<and> \<not> 99/100 < tp_target ft ?u then Some (flt (tp_target ft ?u)) else tr_tp_price ?u) = tr_tp_price ?u"
    by (simp add: w tgt)
  have er: "(if untouched ft \<and> ft_close_shares ft \<le> 0 \<and> tr_exit_reason ?u \<noteq> Some SETTLEMENT then None else tr_exit_reason ?u)
      = tr_exit_reason ?u"
    unfolding f(6) by auto
  show ?thesis
    unfolding open_row_def [of reqs ft ?u] a sl slp tps tpp er by (rule same_fields [OF f(4,5)])
qed

lemma exit_levels_open:
  assumes "levels_apply ft x" "0 < ft_open_shares ft" "tr_position x = open_position ft"
  shows "overall_status ft (set_exit_levels reqs ft x) =
     x\<lparr>tr_status := ''SUCCESS'',
       tr_sl_status := (if tr_sl_pct x \<noteq> None then rearm (all_close_failed reqs) (tr_sl_status x) else tr_sl_status x),
       tr_sl_price := (case tr_sl_pct x of
                         Some pct \<Rightarrow> if 0 < avg_entry ft \<and> tr_sl_price x = None then Some (sl_target ft pct) else tr_sl_price x
                       | None \<Rightarrow> tr_sl_price x),
       tr_tp_status := (if wants_tp ft x \<and> 99/100 < tp_target ft x then Some ''SKIPPED''
                        else if tr_tp_enabled x then rearm (all_close_failed reqs) (tr_tp_status x) else tr_tp_status x),
       tr_tp_price := (if wants_tp ft x \<and> \<not> 99/100 < tp_target ft x then Some (flt (tp_target ft x)) else tr_tp_price x)\<rparr>"
proof -
  let ?y = "set_stop_loss reqs ft x"
  have y: "levels_apply ft ?y" "new_tp_level ft ?y = wants_tp ft x" "tp_target ft ?y = tp_target ft x"
    "tr_tp_enabled ?y = tr_tp_enabled x" "tr_tp_status ?y = tr_tp_status x" "tr_tp_price ?y = tr_tp_price x"
    using assms(1) by (simp_all add: levels_apply_def set_stop_loss_def new_tp_level_def wants_tp_def tp_target_def)
  let ?z = "set_take_profit reqs ft ?y"
  have z: "?z = ?y\<lparr>tr_tp_status := (if wants_tp ft x \<and> 99/100 < tp_target ft x then Some ''SKIPPED''
                        else if tr_tp_enabled x then rearm (all_close_failed reqs) (tr_tp_status x) else tr_tp_status x),
       tr_tp_price := (if wants_tp ft x \<and> \<not> 99/100 < tp_target ft x then Some (flt (tp_target ft x)) else tr_tp_price x)\<rparr>"
    unfolding set_take_profit_def y using y(1) by (simp only: y simp_thms if_True)
  have pos: "tr_position ?z = open_position ft" using assms(3) unfolding z by (simp add: set_stop_loss_def)
  have o: "overall_status ft ?z = ?z\<lparr>tr_status := ''SUCCESS''\<rparr>"
  proof -
    have "(if 0 < remaining_shares ft \<and> tr_position ?z \<notin> {PARTIALLY_CLOSED_POS, CLOSED_POS} then OPEN_POS else tr_position ?z)
        = tr_position ?z" unfolding pos by (auto simp: open_position_def)
    then show ?thesis unfolding overall_status_def using assms(2) by (simp only: if_True) simp
  qed
  have ys: "?y = x\<lparr>tr_sl_status := (if tr_sl_pct x \<noteq> None then rearm (all_close_failed reqs) (tr_sl_status x) else tr_sl_status x),
       tr_sl_price := (case tr_sl_pct x of
                         Some pct \<Rightarrow> if 0 < avg_entry ft \<and> tr_sl_price x = None then Some (sl_target ft pct) else tr_sl_price x
                       | None \<Rightarrow> tr_sl_price x)\<rparr>"
    unfolding set_stop_loss_def using assms(1) by (simp only: simp_thms)
  show ?thesis unfolding set_exit_levels_def o unfolding z unfolding ys by (simp split del: if_split)
qed

lemma book_position_open:
  assumes "0 < ft_open_shares ft" "0 < remaining_shares ft"
  shows "book_position reqs ft t = open_row reqs ft t"
proof -
  let ?b = "book_status ft (book_amounts ft t)"
  have b: "?b = (book_amounts ft t)\<lparr>tr_position := open_position ft,
      tr_exit_reason := (if untouched ft \<and> ft_close_shares ft \<le> 0 \<and> tr_exit_reason t \<noteq> Some SETTLEMENT then None
                          else tr_exit_reason t)\<rparr>"
    using assms by (simp add: book_status_def booked_position_def fully_closed_def untouched_def open_position_def book_amounts_def)
  have f: "tr_sl_pct ?b = tr_sl_pct t" "tr_sl_status ?b = tr_sl_status t" "tr_sl_price ?b = tr_sl_price t"
    "tr_tp_enabled ?b = tr_tp_enabled t" "tr_tp_status ?b = tr_tp_status t" "tr_tp_price ?b = tr_tp_price t"
    "wants_tp ft ?b = wants_tp ft t" "tp_target ft ?b = tp_target ft t"
    unfolding b by (simp_all add: book_amounts_def wants_tp_def tp_target_def)
  note e = exit_levels_open [OF levels_apply_booked(1) [OF assms] assms(1) levels_apply_booked(2) [OF assms],
      of reqs "book_amounts ft t"]
  show ?thesis
    unfolding book_position_def e f open_row_def unfolding b by (simp split del: if_split)
qed

text \<open>A position without entry fills keeps its fields apart from the amounts and the pending status.\<close>

definition idle_row :: "fill_totals \<Rightarrow> trade \<Rightarrow> trade" where
  "idle_row ft t =
     (let waiting = (tr_status t \<noteq> ''FAILED'' \<and> tr_position t \<noteq> ENTRY_FAILED_POS) in
      (book_amounts ft t)\<lparr>tr_status := (if waiting then ''PENDING'' else tr_status t),
                          tr_position := (if waiting then OPENING_POS else tr_position t)\<rparr>)"

lemma book_position_idle:
  assumes "ft_open_shares ft = 0" "0 \<le> ft_close_shares ft"
  shows "book_position reqs ft t = idle_row ft t"
proof -
  have r: "\<not> 0 < remaining_shares ft" "\<not> fully_closed ft" "\<not> untouched ft" "\<And>p. booked_position ft p = p"
    using assms by (simp_all add: remaining_shares_def fully_closed_def untouched_def booked_position_def not_less)
  have b: "book_status ft x = x" for x by (cases x) (simp add: book_status_def r)
  have la: "\<not> levels_apply ft x" "\<not> new_tp_level ft x" for x
    using assms(1) by (simp_all add: levels_apply_def new_tp_level_def)
  have s: "set_stop_loss reqs ft x = x" for x
    by (cases x) (simp add: set_stop_loss_def la split: option.splits)
  have tp: "set_take_profit reqs ft x = x" for x by (cases x) (simp add: set_take_profit_def la)
  show ?thesis
    unfolding book_position_def set_exit_levels_def b s tp overall_status_def idle_row_def Let_def
    by (simp add: assms(1) book_amounts_def split del: if_split cong: if_cong)
qed

lemma idle_row_idem: "idle_row ft (idle_row ft t) = idle_row ft t"
proof -
  have a: "book_amounts ft (idle_row ft t) = idle_row ft t" by (simp add: idle_row_def book_amounts_def Let_def)
  have f: "tr_status (idle_row ft t) = (if tr_status t \<noteq> ''FAILED'' \<and> tr_position t \<noteq> ENTRY_FAILED_POS then ''PENDING'' else tr_status t)"
    "tr_position (idle_row ft t) = (if tr_status t \<noteq> ''FAILED'' \<and> tr_position t \<noteq> ENTRY_FAILED_POS then OPENING_POS else tr_position t)"
    by (simp_all add: idle_row_def Let_def)
  have noop: "x\<lparr>tr_status := tr_status x, tr_position := tr_position x\<rparr> = x" for x :: trade by simp
  have "(if tr_status (idle_row ft t) \<noteq> ''FAILED'' \<and> tr_position (idle_row ft t) \<noteq> ENTRY_FAILED_POS then ''PENDING''
         else tr_status (idle_row ft t)) = tr_status (idle_row ft t)"
    "(if tr_status (idle_row ft t) \<noteq> ''FAILED'' \<and> tr_position (idle_row ft t) \<noteq> ENTRY_FAILED_POS then OPENING_POS
         else tr_position (idle_row ft t)) = tr_position (idle_row ft t)"
    unfolding f by auto
  then show ?thesis unfolding idle_row_def [of ft "idle_row ft t"] Let_def a by (simp only: noop)
qed

section \<open>Rebuilding twice\<close>

definition with_version :: "int \<Rightarrow> trade \<Rightarrow> trade" where
  "with_version v t = t\<lparr>tr_accounting_version := v\<rparr>"

lemma version_commutes:
  "book_amounts ft (with_version v t) = with_version v (book_amounts ft t)"
  "open_row reqs ft (with_version v t) = with_version v (open_row reqs ft t)"
  "idle_row ft (with_version v t) = with_version v (idle_row ft t)"
  by (simp_all add: with_version_def book_amounts_def open_row_def idle_row_def wants_tp_def tp_target_def Let_def
      split del: if_split cong: if_cong option.case_cong)

lemma version_fields [simp]:
  "unversioned (with_version v t) = unversioned t" "bump_version t = with_version (tr_accounting_version t + 1) t"
  "tr_position (with_version v t) = tr_position t" "tr_entry_filled (with_version v t) = tr_entry_filled t"
  "tr_error_msg (with_version v t) = tr_error_msg t" "unversioned (unversioned t) = unversioned t"
  by (simp_all add: with_version_def unversioned_def bump_version_def)

lemma book_position_twice:
  assumes "0 < ft_open_shares ft \<and> 0 < remaining_shares ft \<or> ft_open_shares ft = 0 \<and> 0 \<le> ft_close_shares ft"
  shows "unversioned (book_position reqs ft (with_version v (book_position reqs ft t))) = unversioned (book_position reqs ft t)"
  using assms
proof
  assume "0 < ft_open_shares ft \<and> 0 < remaining_shares ft"
  then show ?thesis using book_position_open version_commutes(2) open_row_idem by (metis version_fields(1))
next
  assume "ft_open_shares ft = 0 \<and> 0 \<le> ft_close_shares ft"
  then show ?thesis using book_position_idle version_commutes(3) idle_row_idem by (metis version_fields(1))
qed

lemma fill_sums_nonneg:
  assumes "\<forall>f\<in>set (db_fills d). 0 \<le> fl_shares f"
  shows "0 \<le> ft_open_shares (fill_sums d i) \<and> 0 \<le> ft_close_shares (fill_sums d i)"
proof -
  have "0 \<le> ft_open_shares (foldl tally_fill s xs) \<and> 0 \<le> ft_close_shares (foldl tally_fill s xs)"
    if "0 \<le> ft_open_shares s \<and> 0 \<le> ft_close_shares s" "\<forall>x\<in>set xs. 0 \<le> fl_shares (snd x)" for s xs
    using that
    by (induction xs arbitrary: s) (auto simp: tally_fill_def d_add_nonneg split: prod.splits intent.splits)
  moreover have "\<forall>x\<in>set (trade_fills d i). 0 \<le> fl_shares (snd x)" using assms by (auto simp: trade_fills_def)
  ultimately show ?thesis by (simp add: fill_sums_def no_fills_def)
qed

lemma failure_reason_nonempty: "failure_reason r \<noteq> []"
  by (simp add: failure_reason_def Let_def)

lemma fail_entry_twice: "unversioned (fail_entry r (fail_entry r t)) = unversioned (fail_entry r t)"
  by (simp add: fail_entry_def with_version_def unversioned_def str_or_empty_def failure_reason_nonempty split: option.splits)

lemma mark_over_closed_twice: "mark_over_closed ft (mark_over_closed ft t) = mark_over_closed ft t"
  by (simp add: mark_over_closed_def)

lemma with_fallback_same:
  "ft_open_shares tot \<noteq> 0 \<or> num_or (tr_entry_filled t) 0 = 0 \<Longrightarrow> with_fallback t tot = tot"
  by (auto simp: with_fallback_def)

lemma rebuild_row_main:
  assumes "tr_position t \<notin> FINAL_POSITION_STATES"
    and "reqs \<noteq> [] \<or> tr_position t \<notin> {OPEN_POS, CLOSED_POS, PARTIALLY_CLOSED_POS}" "\<not> over_closed tot"
    and "with_fallback t tot = tot"
    and "0 < ft_open_shares tot \<or> num_or (tr_entry_filled t) 0 \<noteq> 0 \<or> active_opens reqs \<noteq> [] \<or> failed_opens reqs = []"
  shows "rebuild_row reqs tot t = bump_version (book_position reqs tot t)"
  using assms by (auto simp: rebuild_row_def Let_def book_position_def not_le split: list.splits)

lemma rebuild_row_early:
  "tr_position t \<in> FINAL_POSITION_STATES \<or> reqs = [] \<and> tr_position t \<in> {OPEN_POS, CLOSED_POS, PARTIALLY_CLOSED_POS} \<Longrightarrow>
   rebuild_row reqs tot t = t"
  by (auto simp: rebuild_row_def Let_def)

lemma rebuild_row_over:
  assumes "tr_position t \<notin> FINAL_POSITION_STATES"
    and "reqs \<noteq> [] \<or> tr_position t \<notin> {OPEN_POS, CLOSED_POS, PARTIALLY_CLOSED_POS}"
    and "over_closed tot" "with_fallback t tot = tot"
  shows "rebuild_row reqs tot t = mark_over_closed tot t"
  using assms by (auto simp: rebuild_row_def Let_def)

lemma rebuild_row_failed:
  assumes "tr_position t \<notin> FINAL_POSITION_STATES"
    and "reqs \<noteq> [] \<or> tr_position t \<notin> {OPEN_POS, CLOSED_POS, PARTIALLY_CLOSED_POS}" "\<not> over_closed tot"
    and "with_fallback t tot = tot" "\<not> 0 < ft_open_shares tot" "num_or (tr_entry_filled t) 0 = 0" "active_opens reqs = []"
    and "failed_opens reqs = r # rs"
  shows "rebuild_row reqs tot t = fail_entry (latest_request r rs) t"
  using assms by (auto simp: rebuild_row_def Let_def not_less)

lemma rebuild_row_idem:
  assumes "0 < ft_open_shares tot \<or> ft_open_shares tot = 0 \<and> num_or (tr_entry_filled t) 0 = 0" "0 \<le> ft_close_shares tot"
  shows "unversioned (rebuild_row reqs tot (rebuild_row reqs tot t)) = unversioned (rebuild_row reqs tot t)"
proof -
  let ?R = "rebuild_row reqs tot"
  let ?early = "\<lambda>x. tr_position x \<in> FINAL_POSITION_STATES \<or> reqs = [] \<and> tr_position x \<in> {OPEN_POS, CLOSED_POS, PARTIALLY_CLOSED_POS}"
  have fb: "with_fallback t tot = tot" using assms by (intro with_fallback_same) auto
  consider "?early t" | "\<not> ?early t" "over_closed tot"
    | r rs where "\<not> ?early t" "\<not> over_closed tot" "\<not> 0 < ft_open_shares tot" "active_opens reqs = []" "failed_opens reqs = r # rs"
    | "\<not> ?early t" "\<not> over_closed tot" "0 < ft_open_shares tot \<or> active_opens reqs \<noteq> [] \<or> failed_opens reqs = []"
    by (cases "failed_opens reqs") auto
  then show ?thesis
  proof cases
    case 1
    then have "?R t = t" by (rule rebuild_row_early)
    then show ?thesis by simp
  next
    case 2
    then have u: "?R t = mark_over_closed tot t" using fb by (intro rebuild_row_over) auto
    have "?R (mark_over_closed tot t) = mark_over_closed tot (mark_over_closed tot t)"
      using 2 fb by (intro rebuild_row_over) (auto simp: mark_over_closed_def state_defs with_fallback_def)
    then show ?thesis by (simp add: u mark_over_closed_twice)
  next
    case (3 r rs)
    let ?f = "fail_entry (latest_request r rs)"
    have z: "num_or (tr_entry_filled t) 0 = 0" using 3 assms(1) by auto
    have u: "?R t = ?f t" using 3 fb z by (intro rebuild_row_failed) auto
    have fu: "tr_position (?f t) = ENTRY_FAILED_POS" "tr_entry_filled (?f t) = Some 0"
      by (simp_all add: fail_entry_def with_version_def)
    have "?R (?f t) = ?f (?f t)"
      using 3 fu by (intro rebuild_row_failed with_fallback_same) (auto simp: state_defs)
    then show ?thesis by (simp add: u fail_entry_twice)
  next
    case 4
    let ?b = "book_position reqs tot t"
    have u: "?R t = bump_version ?b" using 4 fb by (intro rebuild_row_main) auto
    show ?thesis
    proof (cases "?early (bump_version ?b)")
      case True
      then have "?R (bump_version ?b) = bump_version ?b" by (rule rebuild_row_early)
      then show ?thesis by (simp add: u)
    next
      case False
      have "0 < ft_open_shares tot \<Longrightarrow> 0 < remaining_shares tot"
        using False book_position_status(2) [of tot reqs t] by (auto simp: state_defs split: if_splits)
      then have two: "unversioned (book_position reqs tot (bump_version ?b)) = unversioned ?b"
        using assms book_position_twice [of tot reqs _ t] by auto
      have fb2: "with_fallback (bump_version ?b) tot = tot"
        using assms(1) book_position_amounts(1) [of reqs tot t] by (intro with_fallback_same) auto
      have "?R (bump_version ?b) = bump_version (book_position reqs tot (bump_version ?b))"
        using False 4 fb2 by (intro rebuild_row_main) auto
      then show ?thesis using two by (simp add: u)
    qed
  qed
qed

text \<open>
  Rebuilding the accounting of a position is idempotent. When every stored fill has non-negative
  shares and the entry of the position comes from its fills (a row without entry fills has no entry
  recorded either), a second rebuild of the unchanged store leaves the row as the first one left it,
  apart from the version counter: amounts, result, status, exit levels and reasons are a function of
  the fills.
\<close>

theorem rebuild_trade_accounting_idempotent:
  assumes "get_trade d i = Some t" "\<forall>f\<in>set (db_fills d). 0 \<le> fl_shares f"
    and "ft_open_shares (fill_sums d i) = 0 \<longrightarrow> num_or (tr_entry_filled t) 0 = 0"
  shows "map_option unversioned (get_trade (rebuild_trade_accounting i (rebuild_trade_accounting i d)) i) =
         map_option unversioned (get_trade (rebuild_trade_accounting i d) i)"
proof -
  let ?d1 = "rebuild_trade_accounting i d"
  have f: "trade_requests ?d1 i = trade_requests d i" "fill_sums ?d1 i = fill_sums d i"
    by (simp_all add: rebuild_trade_accounting_def)
  note nn = fill_sums_nonneg [OF assms(2), of i]
  have h: "0 < ft_open_shares (fill_sums d i) \<or> ft_open_shares (fill_sums d i) = 0 \<and> num_or (tr_entry_filled t) 0 = 0"
    using assms(3) nn by (cases "ft_open_shares (fill_sums d i) = 0") auto
  show ?thesis
    using rebuild_row_idem [OF h, of "trade_requests d i"] nn
    by (simp add: get_trade_rebuild f assms(1))
qed

section \<open>Money is conserved\<close>

lemma dec_near: "\<bar>x\<bar> \<le> 10 ^ 10 \<Longrightarrow> \<bar>dec x - x\<bar> \<le> 1 / 10 ^ 17"
proof -
  assume "\<bar>x\<bar> \<le> 10 ^ 10"
  then have "\<bar>x\<bar> / (2 * 10 ^ 27) \<le> 10 ^ 10 / (2 * 10 ^ 27)" by (intro divide_right_mono) simp_all
  then show ?thesis using dec_error [of x] by simp
qed

text \<open>
  The average entry price splits the entry cost between the shares already closed and the ones that
  remain, up to the rounding of the decimal arithmetic.
\<close>

lemma basis_splits:
  assumes S: "0 < S" "S \<le> 10 ^ 9" and K: "0 \<le> K" "K \<le> S" and B: "0 \<le> B" "B \<le> 10 ^ 9"
  shows "\<bar>d_mul (d_div B S) K + d_mul (d_div B S) (d_sub S K) - B\<bar> \<le> 5 / 10 ^ 17"
    "\<bar>d_mul (d_div B S) K\<bar> \<le> 2 * 10 ^ 9" "\<bar>d_mul (d_div B S) (d_sub S K)\<bar> \<le> 3 * 10 ^ 9"
proof -
  let ?A = "d_div B S" and ?R = "d_sub S K" and ?D = "2 * 10 ^ 27 :: rat"
  have A0: "0 \<le> ?A" using S B by (simp add: d_div_def)
  have A: "\<bar>?A - B / S\<bar> \<le> B / S / ?D" using dec_error [of "B / S"] S B by (simp add: d_div_def)
  then have "\<bar>?A - B / S\<bar> * S \<le> B / S / ?D * S" using S by (intro mult_right_mono) simp_all
  then have AO: "\<bar>?A * S - B\<bar> \<le> B / ?D" using S by (simp add: abs_mult_pos field_simps)
  have AO1: "\<bar>?A * S - B\<bar> \<le> 1 / 10 ^ 17" using AO B by simp
  have "?A * S - B \<le> 1 / 10 ^ 17" using AO1 by linarith
  then have top: "?A * S \<le> 10 ^ 9 + 1" using B by (simp add: field_simps)
  have R: "\<bar>?R - (S - K)\<bar> \<le> (S - K) / ?D" using dec_error [of "S - K"] K by (simp add: d_sub_def)
  have R0: "0 \<le> ?R" using K by simp
  have "(S - K) / ?D \<le> S - K" using K by (simp add: divide_le_eq)
  then have Rle: "?R \<le> 2 * S" using R K by linarith
  have "?A * \<bar>?R - (S - K)\<bar> \<le> ?A * ((S - K) / ?D)" using R A0 by (intro mult_left_mono)
  also have "\<dots> \<le> ?A * (S / ?D)" using A0 K by (intro mult_left_mono divide_right_mono) simp_all
  also have "\<dots> \<le> 1 / 10 ^ 17" using top by (simp add: field_simps)
  finally have AR: "\<bar>?A * ?R - ?A * (S - K)\<bar> \<le> 1 / 10 ^ 17"
    using A0 by (simp add: right_diff_distrib [symmetric] abs_mult)
  have AC: "?A * K \<le> ?A * S" "0 \<le> ?A * K" using A0 K by (simp_all add: mult_left_mono)
  have ARb: "?A * ?R \<le> 2 * (?A * S)" "0 \<le> ?A * ?R"
    using mult_left_mono [OF Rle A0] A0 R0 by simp_all
  have e1: "\<bar>d_mul ?A K - ?A * K\<bar> \<le> 1 / 10 ^ 17" unfolding d_mul_def
    using AC top by (intro dec_near) simp
  have e2: "\<bar>d_mul ?A ?R - ?A * ?R\<bar> \<le> 1 / 10 ^ 17" unfolding d_mul_def
    using ARb top by (intro dec_near) simp
  have "?A * K + ?A * (S - K) = ?A * S" by (simp add: algebra_simps)
  then show "\<bar>d_mul ?A K + d_mul ?A ?R - B\<bar> \<le> 5 / 10 ^ 17"
    using e1 e2 AR AO1 unfolding abs_le_iff by linarith
  show "\<bar>d_mul ?A K\<bar> \<le> 2 * 10 ^ 9" using e1 AC top unfolding abs_le_iff by (simp add: field_simps)
  show "\<bar>d_mul ?A ?R\<bar> \<le> 3 * 10 ^ 9" using e2 ARb top unfolding abs_le_iff by (simp add: field_simps)
qed

definition result_of :: "fill_totals \<Rightarrow> decimal \<Rightarrow> rat" where
  "result_of ft payout = ft_close_gross ft - ft_close_fees ft + payout - (ft_open_gross ft + ft_open_fees ft)"

definition amounts_in_range :: "fill_totals \<Rightarrow> bool" where
  "amounts_in_range ft \<longleftrightarrow>
     0 < ft_open_shares ft \<and> ft_open_shares ft \<le> 10 ^ 9 \<and> 0 \<le> ft_close_shares ft \<and> ft_close_shares ft < ft_open_shares ft \<and>
     0 \<le> ft_open_gross ft + ft_open_fees ft \<and> ft_open_gross ft + ft_open_fees ft \<le> 10 ^ 8 \<and>
     \<bar>ft_close_gross ft - ft_close_fees ft\<bar> \<le> 10 ^ 9"

text \<open>The arithmetic of closing a part, then settling the rest: nothing but rounding is lost.\<close>

lemma booked_and_settled:
  assumes r: "amounts_in_range ft" and per: "0 \<le> per" "per \<le> 1"
    and pay: "pay = d_mul (remaining_shares ft) per \<and> p = (ft_open_shares ft - ft_close_shares ft) * per \<or> pay = 0 \<and> p = 0"
  shows "\<bar>d_add (realized_pnl ft)
       (d_sub (d_sub pay 0) (d_mul (d_div (d_add (ft_open_gross ft) (ft_open_fees ft)) (ft_open_shares ft)) (remaining_shares ft)))
     - result_of ft p\<bar> \<le> 1 / 10 ^ 15"
proof -
  let ?S = "ft_open_shares ft" and ?K = "ft_close_shares ft" and ?B = "d_add (ft_open_gross ft) (ft_open_fees ft)"
  let ?R = "remaining_shares ft" and ?c = "ft_close_gross ft - ft_close_fees ft"
  have S: "0 < ?S" "?S \<le> 10 ^ 9" and K: "0 \<le> ?K" "?K \<le> ?S" using r by (auto simp: amounts_in_range_def)
  have B1: "\<bar>?B - (ft_open_gross ft + ft_open_fees ft)\<bar> \<le> 1 / 10 ^ 17" unfolding d_add_def
    using r by (intro dec_near) (auto simp: amounts_in_range_def)
  have B0: "0 \<le> ?B" using r by (simp add: d_add_def amounts_in_range_def)
  have "?B - (ft_open_gross ft + ft_open_fees ft) \<le> 1 / 10 ^ 17" using B1 by linarith
  then have B: "?B \<le> 10 ^ 9" using r by (simp add: amounts_in_range_def field_simps)
  note split = basis_splits [OF S K B0 B, folded remaining_shares_def]
  let ?a = "d_mul (d_div ?B ?S) ?K" and ?b = "d_mul (d_div ?B ?S) ?R"
  have avg: "avg_entry ft = d_div ?B ?S" using S by (simp add: avg_entry_def)
  have c1: "\<bar>dec ?c - ?c\<bar> \<le> 1 / 10 ^ 17" using r by (intro dec_near) (simp add: amounts_in_range_def)
  have cb: "\<bar>?c\<bar> \<le> 10 ^ 9" using r by (simp add: amounts_in_range_def)
  have "\<bar>dec ?c - ?a\<bar> \<le> 10 ^ 10" using c1 cb split(2) unfolding abs_le_iff by (simp add: field_simps)
  from dec_near [OF this] have P: "\<bar>realized_pnl ft - (dec ?c - ?a)\<bar> \<le> 1 / 10 ^ 17"
    by (simp add: realized_pnl_def avg d_sub_def)
  have R1: "\<bar>?R - (?S - ?K)\<bar> \<le> 1 / 10 ^ 17" unfolding remaining_shares_def d_sub_def
    using S K by (intro dec_near) simp
  have pay1: "\<bar>pay - p\<bar> \<le> 2 / 10 ^ 17 \<and> \<bar>pay\<bar> \<le> 2 * 10 ^ 9 \<and> dec pay = pay"
    using pay
  proof
    assume *: "pay = d_mul ?R per \<and> p = (?S - ?K) * per"
    have R0: "0 \<le> ?R" using K by (simp add: remaining_shares_def)
    have Rb: "?R \<le> 10 ^ 9 + 1" using R1 S K unfolding abs_le_iff by (simp add: field_simps)
    have "?R * per \<le> ?R * 1" using R0 per by (intro mult_left_mono) simp_all
    then have rp: "\<bar>?R * per\<bar> \<le> 10 ^ 9 + 1" using R0 Rb per by simp
    have "\<bar>?R * per\<bar> \<le> 10 ^ 10" using rp by simp
    from dec_near [OF this] have e1: "\<bar>pay - ?R * per\<bar> \<le> 1 / 10 ^ 17" using * by (simp only: d_mul_def)
    have "\<bar>?R - (?S - ?K)\<bar> * per \<le> 1 / 10 ^ 17 * 1" using R1 per by (intro mult_mono) simp_all
    moreover have "\<bar>?R * per - p\<bar> = \<bar>?R - (?S - ?K)\<bar> * per"
      using * per(1) by (simp add: left_diff_distrib [symmetric] abs_mult)
    ultimately have e2: "\<bar>?R * per - p\<bar> \<le> 1 / 10 ^ 17" by simp
    have "\<bar>pay - p\<bar> \<le> 2 / 10 ^ 17" using e1 e2 unfolding abs_le_iff by (simp add: field_simps)
    moreover have "\<bar>pay\<bar> \<le> 2 * 10 ^ 9" using e1 rp unfolding abs_le_iff by (simp add: field_simps)
    ultimately show ?thesis using * by (simp add: d_mul_def)
  qed simp
  have "\<bar>pay - ?b\<bar> \<le> 10 ^ 10" using pay1 split(3) unfolding abs_le_iff by (simp add: field_simps)
  from dec_near [OF this] have D: "\<bar>d_sub (d_sub pay 0) ?b - (pay - ?b)\<bar> \<le> 1 / 10 ^ 17"
    using pay1 by (simp add: d_sub_def)
  let ?D = "d_sub (d_sub pay 0) ?b"
  have "\<bar>realized_pnl ft + ?D\<bar> \<le> 10 ^ 10"
    using P D pay1 split(2,3) c1 cb unfolding abs_le_iff by (simp add: field_simps)
  from dec_near [OF this] have N: "\<bar>d_add (realized_pnl ft) ?D - (realized_pnl ft + ?D)\<bar> \<le> 1 / 10 ^ 17"
    by (simp add: d_add_def)
  have "\<bar>d_add (realized_pnl ft) ?D - result_of ft p\<bar> \<le> 12 / 10 ^ 17"
    using N D P c1 pay1 split(1) B1 unfolding result_of_def abs_le_iff by linarith
  then show ?thesis by simp
qed

lemma reconstruct_present:
  "tr_entry_filled t = Some a \<Longrightarrow> tr_remaining t = Some b \<Longrightarrow> tr_entry_cost t = Some c \<Longrightarrow>
   reconstruct_missing_fields t = Some t"
  by (cases t) (simp add: reconstruct_missing_fields_def)

lemma settle_row_id [simp]: "tr_id (settle_row w per fee now t) = tr_id t"
  by (auto simp: settle_row_def reconstruct_missing_fields_def Let_def split: option.splits)

lemma not_over_closed:
  assumes "amounts_in_range ft" shows "\<not> over_closed ft"
proof -
  let ?x = "ft_open_shares ft + 1/1000000"
  have "\<bar>dec ?x - ?x\<bar> \<le> 1 / 10 ^ 17" using assms by (intro dec_near) (simp add: amounts_in_range_def)
  then have "ft_open_shares ft \<le> dec ?x" unfolding abs_le_iff by (simp add: field_simps)
  then show ?thesis using assms by (simp add: over_closed_def d_add_def amounts_in_range_def)
qed

text \<open>
  C38: money is conserved over the life of a position. Rebuild the accounting of a position that is
  partly closed, then settle the rest when its market is decided: the realized result is the proceeds
  of the closing fills less their fees, plus the payout of the remaining shares, less the whole cost of
  entry, up to \<open>10^-15\<close> for amounts below the stated bounds. The position is closed and has no shares left.
\<close>

theorem settled_position_conserves_money:
  assumes t: "get_trade d i = Some t" "tr_position t \<notin> FINAL_POSITION_STATES" "trade_requests d i \<noteq> []"
    and r: "amounts_in_range (fill_sums d i)" and per: "0 \<le> per" "per \<le> 1"
  shows "\<exists>u. get_trade (settle_resolved_position i w per 0 now (rebuild_trade_accounting i d)) i = Some u \<and>
    tr_position u = CLOSED_POS \<and> tr_remaining u = Some 0 \<and>
    \<bar>num_or (tr_realized_pnl u) 0 - result_of (fill_sums d i)
       (if normalize_outcome w = ''INVALID'' \<or> normalize_outcome (tr_outcome t) = normalize_outcome w
        then (ft_open_shares (fill_sums d i) - ft_close_shares (fill_sums d i)) * per else 0)\<bar> \<le> 1 / 10 ^ 15"
proof -
  let ?ft = "fill_sums d i" and ?reqs = "trade_requests d i"
  have S: "0 < ft_open_shares ?ft" and R: "0 < remaining_shares ?ft"
    using r by (simp_all add: amounts_in_range_def remaining_shares_def)
  define b where "b = bump_version (book_position ?reqs ?ft t)"
  have u1: "rebuild_row ?reqs ?ft t = b"
    unfolding b_def using t S not_over_closed [OF r] by (intro rebuild_row_main with_fallback_same) auto
  have f: "tr_entry_filled b = Some (ft_open_shares ?ft)" "tr_remaining b = Some (remaining_shares ?ft)"
    "tr_entry_cost b = Some (d_add (ft_open_gross ?ft) (ft_open_fees ?ft))"
    "tr_realized_pnl b = Some (realized_pnl ?ft)" "tr_outcome b = tr_outcome t" "tr_position b \<noteq> CLOSED_POS"
    using book_position_amounts [of ?reqs ?ft t] book_position_status(2) [OF S, of ?reqs t] R
    by (simp_all add: b_def with_version_def)
  have rec: "reconstruct_missing_fields b = Some b" by (rule reconstruct_present [OF f(1-3)])
  have settled: "get_trade (settle_resolved_position i w per 0 now (rebuild_trade_accounting i d)) i = Some (settle_row w per 0 now b)"
    by (simp add: settle_resolved_position_def get_trade_upd_trade get_trade_rebuild t(1) u1)
  let ?win = "normalize_outcome w = ''INVALID'' \<or> normalize_outcome (tr_outcome t) = normalize_outcome w"
  let ?p = "if ?win then (ft_open_shares ?ft - ft_close_shares ?ft) * per else 0"
  have pay: "settlement_payout b w per = (if ?win then d_mul (remaining_shares ?ft) per else 0)"
    by (simp add: settlement_payout_def f)
  have basis: "remaining_basis b =
      d_mul (d_div (d_add (ft_open_gross ?ft) (ft_open_fees ?ft)) (ft_open_shares ?ft)) (remaining_shares ?ft)"
    using S by (simp add: remaining_basis_def f)
  let ?new = "d_add (realized_pnl ?ft) (d_sub (d_sub (settlement_payout b w per) 0) (remaining_basis b))"
  have row: "tr_position (settle_row w per 0 now b) = CLOSED_POS" "tr_remaining (settle_row w per 0 now b) = Some 0"
    "tr_realized_pnl (settle_row w per 0 now b) = Some ?new"
    using f(6) by (simp_all add: settle_row_def rec Let_def f(4))
  have "\<bar>?new - result_of ?ft ?p\<bar> \<le> 1 / 10 ^ 15"
    unfolding basis using booked_and_settled [OF r per, of "settlement_payout b w per" ?p] by (simp add: pay)
  then show ?thesis using settled row by simp
qed

text \<open>A position of four shares bought for two dollars, one of them sold for one.\<close>

definition played_fill :: "nat \<Rightarrow> decimal \<Rightarrow> decimal \<Rightarrow> exec_fill" where
  "played_fill a p s = \<lparr>fl_attempt_id = a, fl_trade_id = None, fl_gateway = None, fl_price = p, fl_shares = s, fl_fee = 0,
     fl_gross = None, fl_timestamp = 5\<rparr>"

definition played_attempt :: "nat \<Rightarrow> nat \<Rightarrow> exec_attempt" where
  "played_attempt i r = \<lparr>at_id = i, at_request_id = r, at_gateway = ''FAKE'', at_no = 1, at_started_at = 0,
     at_finished_at = Some 1, at_status = ATT_SUCCESS, at_provider_status = None, at_provider_order_id = None,
     at_submission_key = None, at_tx_hash = None, at_error = None, at_trade_ids = [], at_tx_hashes = [],
     at_settlement = ''CONFIRMED''\<rparr>"

definition played_db :: "exec_mode \<Rightarrow> db" where
  "played_db mode =
     (let r = new_close_request 4 0 (sample_trade 7 OPEN_POS (Some 2)) STOP_LOSS (1/2) (seconds 60) 2 in
      (one_trade OPEN_POS (Some 2))\<lparr>
        db_trades := [(sample_trade 7 OPEN_POS (Some 2))\<lparr>tr_mode := mode\<rparr>],
        db_requests := [r\<lparr>rq_id := 3, rq_intent := OPEN, rq_state := FILLED\<rparr>, r\<lparr>rq_state := FILLED\<rparr>],
        db_attempts := [played_attempt 30 3, played_attempt 40 4],
        db_fills := [played_fill 30 (1/2) 4, played_fill 40 1 1]\<rparr>)"

lemma played_sums:
  "fill_sums (played_db mode) 7 = \<lparr>ft_open_shares = 4, ft_open_gross = 2, ft_open_fees = 0, ft_close_shares = 1,
     ft_close_gross = 1, ft_close_fees = 0, ft_latest_close = Some 5\<rparr>"
proof -
  have "trade_fills (played_db mode) 7 = [(OPEN, played_fill 30 (1/2) 4), (CLOSE, played_fill 40 1 1)]"
    by (simp add: trade_fills_def trade_requests_def played_db_def Let_def new_close_request_def sample_trade_def
        played_attempt_def played_fill_def)
  moreover have "d_mul 4 (1/2) = (2::rat)" "d_mul 1 1 = (1::rat)" "d_add 0 4 = (4::rat)" "d_add 0 2 = (2::rat)"
    "d_add 0 1 = (1::rat)" "d_add 0 0 = (0::rat)" by code_simp+
  ultimately show ?thesis
    by (simp add: fill_sums_def no_fills_def tally_fill_def fill_gross_def played_fill_def)
qed

lemma played_trade: "get_trade (played_db mode) 7 = Some ((sample_trade 7 OPEN_POS (Some 2))\<lparr>tr_mode := mode\<rparr>)"
  "trade_requests (played_db mode) 7 \<noteq> []" "\<forall>f\<in>set (db_fills (played_db mode)). 0 \<le> fl_shares f"
  by (simp_all add: get_trade_def trade_requests_def played_db_def Let_def sample_trade_def new_close_request_def played_fill_def)

lemma played_range: "amounts_in_range (fill_sums (played_db mode) 7)"
  by (simp add: played_sums amounts_in_range_def)

theorem rebuild_trade_accounting_idempotent_witness:
  "map_option unversioned (get_trade (rebuild_trade_accounting 7 (rebuild_trade_accounting 7 (played_db PAPER))) 7) =
   map_option unversioned (get_trade (rebuild_trade_accounting 7 (played_db PAPER)) 7)"
  by (rule rebuild_trade_accounting_idempotent [OF played_trade(1,3)]) (simp add: played_sums)

theorem settled_position_conserves_money_witness:
  "\<exists>u. get_trade (settle_resolved_position 7 ''UP'' 1 0 9 (rebuild_trade_accounting 7 (played_db PAPER))) 7 = Some u \<and>
     tr_position u = CLOSED_POS \<and> \<bar>num_or (tr_realized_pnl u) 0 - 2\<bar> \<le> 1 / 10 ^ 15"
proof -
  have out: "normalize_outcome ''UP'' = ''YES''" "normalize_outcome ''YES'' = ''YES''" by code_simp+
  show ?thesis
    using settled_position_conserves_money [OF played_trade(1) _ played_trade(2) played_range, of PAPER 1 "''UP''" 9]
    by (auto simp: played_sums result_of_def out sample_trade_def state_defs)
qed

section \<open>LIVE resolution\<close>

lemma book_position_frame:
  "tr_mode (book_position reqs ft t) = tr_mode t" "tr_market_id (book_position reqs ft t) = tr_market_id t"
  by (simp_all add: book_position_def book_defs)

lemma resolve_live_row_id [simp]: "tr_id (resolve_live_row final t) = tr_id t"
  by (simp add: resolve_live_row_def book_resolution_def mark_trade_resolved_def Let_def)

lemma get_trade_upd_market [simp]: "get_trade (upd_market k f d) i = get_trade d i"
  by (simp add: upd_market_def get_trade_def)

text \<open>
  The resolution of a winning LIVE position overwrites the realized result with the payout of the
  remaining shares less the cost of the whole entry. For a partly closed position the proceeds of the
  closing fills are lost: the booked result is below the true one by exactly those proceeds, up to
  rounding.
\<close>

theorem live_resolution_drops_closing_proceeds:
  assumes t: "get_trade d i = Some t" "tr_position t \<notin> FINAL_POSITION_STATES" "trade_requests d i \<noteq> []" "tr_mode t = LIVE"
    and r: "amounts_in_range (fill_sums d i)"
    and g: "fetch (tr_market_id t) = Inr g" "parse_confirmed_resolution g = Some (tr_outcome t)"
  shows "\<exists>u. fst (reconcile_live_resolution fetch i (rebuild_trade_accounting i d)) = Inr u \<and>
    tr_position u = RESOLVED_REDEEMABLE_POS \<and>
    \<bar>num_or (tr_realized_pnl u) 0 -
      (result_of (fill_sums d i) (ft_open_shares (fill_sums d i) - ft_close_shares (fill_sums d i)) -
       (ft_close_gross (fill_sums d i) - ft_close_fees (fill_sums d i)))\<bar> \<le> 1 / 10 ^ 15"
proof -
  let ?ft = "fill_sums d i" and ?reqs = "trade_requests d i"
  let ?S = "ft_open_shares ?ft" and ?K = "ft_close_shares ?ft" and ?o = "ft_open_gross ?ft + ft_open_fees ?ft"
  have S: "0 < ?S" and R: "0 < remaining_shares ?ft"
    using r by (simp_all add: amounts_in_range_def remaining_shares_def)
  define b where "b = bump_version (book_position ?reqs ?ft t)"
  have u1: "rebuild_row ?reqs ?ft t = b"
    unfolding b_def using t S not_over_closed [OF r] by (intro rebuild_row_main with_fallback_same) auto
  have f: "tr_remaining b = Some (remaining_shares ?ft)" "tr_entry_cost b = Some (d_add (ft_open_gross ?ft) (ft_open_fees ?ft))"
    "tr_outcome b = tr_outcome t" "tr_position b \<in> {OPEN_POS, PARTIALLY_CLOSED_POS}" "tr_mode b = LIVE" "tr_market_id b = tr_market_id t"
    using book_position_amounts [of ?reqs ?ft t] book_position_status(2) [OF S, of ?reqs t] book_position_frame [of ?reqs ?ft t] R t(4)
    by (auto simp: b_def with_version_def)
  let ?u = "resolve_live_row (tr_outcome t) b"
  have pos: "tr_position b \<notin> {RESOLVED_REDEEMABLE_POS, RESOLVED_LOST_POS, REDEEMED_POS, CLOSED_POS}" using f(4) by auto
  have "fst (reconcile_live_resolution fetch i (rebuild_trade_accounting i d)) = Inr ?u"
    using f(1,5,6) g pos by (simp add: reconcile_live_resolution_def get_trade_rebuild t(1) u1 Let_def)
  moreover have u: "tr_position ?u = RESOLVED_REDEEMABLE_POS"
    "tr_realized_pnl ?u = Some (d_sub (remaining_shares ?ft) (d_add (ft_open_gross ?ft) (ft_open_fees ?ft)))"
    by (simp_all add: resolve_live_row_def book_resolution_def mark_trade_resolved_def Let_def f)
  moreover have "\<bar>d_sub (remaining_shares ?ft) (d_add (ft_open_gross ?ft) (ft_open_fees ?ft)) - ((?S - ?K) - ?o)\<bar> \<le> 3 / 10 ^ 17"
  proof -
    have a: "\<bar>remaining_shares ?ft - (?S - ?K)\<bar> \<le> 1 / 10 ^ 17" unfolding remaining_shares_def d_sub_def
      using r by (intro dec_near) (simp add: amounts_in_range_def)
    have c: "\<bar>d_add (ft_open_gross ?ft) (ft_open_fees ?ft) - ?o\<bar> \<le> 1 / 10 ^ 17" unfolding d_add_def
      using r by (intro dec_near) (simp add: amounts_in_range_def)
    have "\<bar>remaining_shares ?ft - d_add (ft_open_gross ?ft) (ft_open_fees ?ft)\<bar> \<le> 10 ^ 10"
      using a c r unfolding abs_le_iff amounts_in_range_def by (simp add: field_simps)
    from dec_near [OF this] show ?thesis using a c unfolding d_sub_def abs_le_iff by linarith
  qed
  moreover have "result_of ?ft (?S - ?K) - (ft_close_gross ?ft - ft_close_fees ?ft) = (?S - ?K) - ?o"
    by (simp add: result_of_def)
  ultimately show ?thesis by (intro exI [of _ ?u]) simp
qed

definition won_market :: gamma_market where
  "won_market = \<lparr>gm_closed = True, gm_accepting = False, gm_outcomes = [''Up'', ''Down''],
     gm_prices = [Some 1, Some 0], gm_winning = None\<rparr>"

theorem live_resolution_drops_closing_proceeds_witness:
  "\<exists>u. fst (reconcile_live_resolution (\<lambda>_. Inr won_market) 7 (rebuild_trade_accounting 7 (played_db LIVE))) = Inr u \<and>
     \<bar>num_or (tr_realized_pnl u) 0 - 1\<bar> \<le> 1 / 10 ^ 15"
proof -
  have p: "parse_confirmed_resolution won_market = Some ''YES''" by code_simp
  show ?thesis
    using live_resolution_drops_closing_proceeds [OF played_trade(1) _ played_trade(2) _ played_range, of LIVE
        "\<lambda>_. Inr won_market" won_market] p
    by (auto simp: played_sums result_of_def sample_trade_def state_defs)
qed

text \<open>
  An INVALID market pays half a dollar per share; the settlement service books that for PAPER and
  SHADOW positions. The LIVE resolution treats the same outcome as a loss: the position becomes
  RESOLVED_LOST with no shares left, no expected payout and the whole entry cost as its loss.
\<close>

theorem invalid_market_is_live_loss:
  assumes "tr_outcome t \<noteq> ''INVALID''" "tr_remaining t = Some s" "0 < s" "tr_entry_cost t = Some c"
  shows "tr_position (resolve_live_row ''INVALID'' t) = RESOLVED_LOST_POS \<and>
    tr_remaining (resolve_live_row ''INVALID'' t) = Some 0 \<and>
    tr_expected_payout (resolve_live_row ''INVALID'' t) = Some 0 \<and>
    tr_realized_pnl (resolve_live_row ''INVALID'' t) = Some (d_neg c) \<and>
    settlement_payout t ''INVALID'' (1/2) = d_mul s (1/2) \<and> 0 < settlement_payout t ''INVALID'' (1/2)"
proof -
  have "normalize_outcome ''INVALID'' = ''INVALID''" by code_simp
  then show ?thesis using assms
    by (simp add: resolve_live_row_def book_resolution_def mark_trade_resolved_def settlement_payout_def Let_def d_mul_def)
qed

theorem invalid_market_is_live_loss_witness:
  "tr_realized_pnl (resolve_live_row ''INVALID'' (sample_trade 7 OPEN_POS (Some 2))) = Some (d_neg 1) \<and>
   settlement_payout (sample_trade 7 OPEN_POS (Some 2)) ''INVALID'' (1/2) = d_mul 2 (1/2)"
  using invalid_market_is_live_loss [of "sample_trade 7 OPEN_POS (Some 2)" 2 1] by (simp add: sample_trade_def)

section \<open>The resolution job runs again without effect\<close>

lemma settle_row_final:
  "tr_position (settle_row w per fee now t) \<in> {CLOSED_POS, MANUAL_REVIEW_REQUIRED_POS}"
  by (auto simp: settle_row_def Let_def split: option.splits)

lemma settle_row_mode:
  "tr_mode (settle_row w per fee now t) = tr_mode t \<and> tr_market_id (settle_row w per fee now t) = tr_market_id t"
  by (auto simp: settle_row_def reconstruct_missing_fields_def Let_def split: option.splits)

lemma resolved_live_fields:
  "tr_position ((book_resolution b (mark_trade_resolved b t))\<lparr>tr_settlement_outcome := z\<rparr>) \<in> {RESOLVED_REDEEMABLE_POS, RESOLVED_LOST_POS} \<and>
   tr_mode ((book_resolution b (mark_trade_resolved b t))\<lparr>tr_settlement_outcome := z\<rparr>) = tr_mode t"
  by (simp add: book_resolution_def mark_trade_resolved_def Let_def)

lemma resolve_trade_idem: "resolve_trade outcomes later (resolve_trade outcomes now t) = resolve_trade outcomes now t"
proof -
  have done1: "resolve_trade outcomes later x = x"
    if "tr_position x \<in> {CLOSED_POS, MANUAL_REVIEW_REQUIRED_POS}" for x
    using that by (auto simp: resolve_trade_def settles_def resolves_live_def state_defs split: option.splits)
  have done2: "resolve_trade outcomes later x = x"
    if "tr_position x \<in> {RESOLVED_REDEEMABLE_POS, RESOLVED_LOST_POS}" "tr_mode x = LIVE" for x
    using that by (auto simp: resolve_trade_def settles_def resolves_live_def split: option.splits)
  show ?thesis
  proof (cases "outcomes (tr_market_id t)")
    case None
    then show ?thesis by (simp add: resolve_trade_def)
  next
    case (Some raw)
    consider "raw = []" | "raw \<noteq> []" "settles t" "raw = ''INVALID''" | "raw \<noteq> []" "settles t" "raw \<noteq> ''INVALID''"
      | "raw \<noteq> []" "\<not> settles t" "resolves_live t" | "raw \<noteq> []" "\<not> settles t" "\<not> resolves_live t" by blast
    then show ?thesis
    proof cases
      case 1
      then show ?thesis using Some by (simp add: resolve_trade_def)
    next
      case 2
      have "resolve_trade outcomes now t = (settle_row ''INVALID'' (1/2) 0 now t)\<lparr>tr_status := ''INVALID''\<rparr>"
        using 2 Some by (simp add: resolve_trade_def)
      then show ?thesis using done1 settle_row_final [of "''INVALID''" "1/2" 0 now t] by simp
    next
      case 3
      then show ?thesis using Some done1 settle_row_final [of raw 1 0 now t] by (simp add: resolve_trade_def [of _ now])
    next
      case 4
      let ?b = "upper (strip (tr_outcome t)) = upper (strip raw)"
      have "resolve_trade outcomes now t = (book_resolution ?b (mark_trade_resolved ?b t))\<lparr>tr_settlement_outcome := Some raw\<rparr>"
        using 4 Some by (simp add: resolve_trade_def Let_def)
      then show ?thesis using done2 resolved_live_fields [where b = ?b and t = t and z = "Some raw"] 4(3) by (simp add: resolves_live_def)
    next
      case 5
      then show ?thesis using Some by (simp add: resolve_trade_def)
    qed
  qed
qed

text \<open>
  C39: the resolution job settles every decided position once. A second run with the same outcomes, at
  any later time, changes nothing: no position is paid out twice.
\<close>

theorem resolve_trades_job_idempotent:
  "resolve_trades_job outcomes later (resolve_trades_job outcomes now d) = resolve_trades_job outcomes now d"
  by (simp add: resolve_trades_job_def resolve_trade_idem)

end
