(* ===== verification/Py_Float.thy ===== *)
theory Py_Float
  imports Py_Text
begin

text \<open>
  Arithmetic and comparison of Python floats, infinities and NaN included, for the code that computes with
  numbers it does not control: model outputs, prices of a feed, settings typed by hand. A finite float is the
  rational it denotes and every operation rounds to 53 bits (\<open>flt\<close>). As in Python, an ordering comparison with
  NaN is false, so \<open>min\<close> and \<open>max\<close>, which keep their first argument unless the second compares better, depend
  on the order of their arguments. Division is defined for a divisor other than zero, where Python raises; the
  modelled callers exclude zero. Overflow, subnormal numbers and the sign of zero are not represented.
\<close>

section \<open>Text\<close>

fun format_value :: "nat \<Rightarrow> dec_value \<Rightarrow> string" where
  "format_value n (Finite x) = fixed_str n x"
| "format_value n (Infinite neg) = (if neg then ''-inf'' else ''inf'')"
| "format_value n NotANumber = ''nan''"

text \<open>
  \<open>float(text)\<close>: as for \<open>Decimal\<close>, but underscores only between digits and no payload after \<open>nan\<close>;
  \<open>None\<close> is ValueError.
\<close>

fun underscores_placed :: "bool \<Rightarrow> string \<Rightarrow> bool" where
  "underscores_placed prev [] \<longleftrightarrow> True"
| "underscores_placed prev (c # cs) \<longleftrightarrow>
     (if c = CHR ''_'' then prev \<and> cs \<noteq> [] \<and> is_digit (hd cs) \<and> underscores_placed False cs
      else underscores_placed (is_digit c) cs)"

definition parse_float :: "string \<Rightarrow> dec_value option" where
  "parse_float s =
     (let (neg, u) = split_sign (strip s); l = lower u
      in if l = ''inf'' \<or> l = ''infinity'' then Some (Infinite neg)
         else if l = ''nan'' then Some NotANumber
         else if \<not> underscores_placed False u then None
         else case parse_number (filter (\<lambda>c. c \<noteq> CHR ''_'') u) of None \<Rightarrow> None
              | Some v \<Rightarrow> Some (Finite (flt (if neg then - v else v))))"

text \<open>
  An argument annotated \<open>Any\<close>. \<open>float(value)\<close> is \<open>None\<close> where Python raises TypeError or ValueError;
  \<open>VOther\<close> stands for the objects that have no conversion.
\<close>

datatype py_any = VNone | VNumber dec_value | VText string | VOther

fun to_float :: "py_any \<Rightarrow> dec_value option" where
  "to_float VNone = None"
| "to_float (VNumber x) = Some x"
| "to_float (VText s) = parse_float s"
| "to_float VOther = None"

fun float_error :: "py_any \<Rightarrow> py_error" where
  "float_error (VText s) = ValueError (''could not convert string to float: '' @ quoted s)"
| "float_error _ = TypeError ''float() argument must be a string or a real number''"

section \<open>Comparison\<close>

fun isfinite :: "dec_value \<Rightarrow> bool" where
  "isfinite (Finite x) = True"
| "isfinite _ = False"

fun float_less :: "dec_value \<Rightarrow> dec_value \<Rightarrow> bool" where
  "float_less (Finite x) (Finite y) = (x < y)"
| "float_less (Finite x) (Infinite neg) = (\<not> neg)"
| "float_less (Infinite neg) (Finite y) = neg"
| "float_less (Infinite neg) (Infinite neg') = (neg \<and> \<not> neg')"
| "float_less _ _ = False"

fun float_le :: "dec_value \<Rightarrow> dec_value \<Rightarrow> bool" where
  "float_le (Finite x) (Finite y) = (x \<le> y)"
| "float_le (Finite x) (Infinite neg) = (\<not> neg)"
| "float_le (Infinite neg) (Finite y) = neg"
| "float_le (Infinite neg) (Infinite neg') = (neg \<or> \<not> neg')"
| "float_le _ _ = False"

definition py_min :: "dec_value \<Rightarrow> dec_value \<Rightarrow> dec_value" where
  "py_min x y = (if float_less y x then y else x)"

definition py_max :: "dec_value \<Rightarrow> dec_value \<Rightarrow> dec_value" where
  "py_max x y = (if float_less x y then y else x)"

section \<open>Arithmetic\<close>

fun f_add :: "dec_value \<Rightarrow> dec_value \<Rightarrow> dec_value" where
  "f_add (Finite x) (Finite y) = Finite (flt (x + y))"
| "f_add (Finite x) (Infinite neg) = Infinite neg"
| "f_add (Infinite neg) (Finite y) = Infinite neg"
| "f_add (Infinite neg) (Infinite neg') = (if neg = neg' then Infinite neg else NotANumber)"
| "f_add _ _ = NotANumber"

fun f_neg :: "dec_value \<Rightarrow> dec_value" where
  "f_neg (Finite x) = Finite (- x)"
| "f_neg (Infinite neg) = Infinite (\<not> neg)"
| "f_neg NotANumber = NotANumber"

fun f_abs :: "dec_value \<Rightarrow> dec_value" where
  "f_abs (Finite x) = Finite \<bar>x\<bar>"
| "f_abs (Infinite neg) = Infinite False"
| "f_abs NotANumber = NotANumber"

definition f_sub :: "dec_value \<Rightarrow> dec_value \<Rightarrow> dec_value" where
  "f_sub x y = f_add x (f_neg y)"

fun f_mul :: "dec_value \<Rightarrow> dec_value \<Rightarrow> dec_value" where
  "f_mul (Finite x) (Finite y) = Finite (flt (x * y))"
| "f_mul (Finite x) (Infinite neg) = (if x = 0 then NotANumber else Infinite (neg \<noteq> (x < 0)))"
| "f_mul (Infinite neg) (Finite y) = (if y = 0 then NotANumber else Infinite (neg \<noteq> (y < 0)))"
| "f_mul (Infinite neg) (Infinite neg') = Infinite (neg \<noteq> neg')"
| "f_mul _ _ = NotANumber"

fun f_div :: "dec_value \<Rightarrow> dec_value \<Rightarrow> dec_value" where
  "f_div (Finite x) (Finite y) = Finite (flt (x / y))"
| "f_div (Finite x) (Infinite neg) = Finite 0"
| "f_div (Infinite neg) (Finite y) = Infinite (neg \<noteq> (y < 0))"
| "f_div (Infinite neg) (Infinite neg') = NotANumber"
| "f_div _ _ = NotANumber"

text \<open>\<open>round(x, n)\<close>: half even in decimal on the exact value, then the nearest float.\<close>

definition round_float :: "nat \<Rightarrow> pyfloat \<Rightarrow> pyfloat" where
  "round_float n x = flt (of_int (rhe (x * 10 ^ n)) / 10 ^ n)"

fun py_round :: "nat \<Rightarrow> dec_value \<Rightarrow> dec_value" where
  "py_round n (Finite x) = Finite (round_float n x)"
| "py_round n x = x"

text \<open>
  \<open>sum(xs)\<close> of finite floats. Since Python 3.12 the sum is compensated: the rounding error of every addition
  is collected and added at the end.
\<close>

fun compensated_sum :: "pyfloat \<Rightarrow> pyfloat \<Rightarrow> pyfloat list \<Rightarrow> pyfloat" where
  "compensated_sum f c [] = (if c = 0 then f else flt (f + c))"
| "compensated_sum f c (x # xs) =
     (let t = flt (f + x); e = (if \<bar>x\<bar> \<le> \<bar>f\<bar> then flt (flt (f - t) + x) else flt (flt (x - t) + f))
      in compensated_sum t (flt (c + e)) xs)"

fun py_sum :: "pyfloat list \<Rightarrow> pyfloat" where
  "py_sum [] = 0"
| "py_sum (x # xs) = compensated_sum x 0 xs"

section \<open>Rounding to floats\<close>

lemma flt_nonneg_iff [simp]: "0 \<le> flt x \<longleftrightarrow> 0 \<le> x"
  by (metis bin53.rnd_minus bin53.rnd_nonneg flt_def flt_pos leD leI neg_0_less_iff_less neg_less_0_iff_less)

lemma flt_minus: "flt (- x) = - flt x"
  by (simp add: flt_def bin53.rnd_minus)

lemma flt_nonpos_iff [simp]: "flt x \<le> 0 \<longleftrightarrow> x \<le> 0"
  by (metis flt_pos not_le)

lemma flt_neg_iff [simp]: "flt x < 0 \<longleftrightarrow> x < 0"
  by (metis flt_nonneg_iff not_le)

lemma flt_eq_0_iff [simp]: "flt x = 0 \<longleftrightarrow> x = 0"
  by (metis flt_0 flt_neg_iff flt_pos linorder_neqE_linordered_idom order_less_irrefl)

lemma flt_of_int: "\<bar>c\<bar> < 2 ^ 53 \<Longrightarrow> flt (of_int c) = of_int c"
  using bin53.rnd_exact [of c 0] by (simp add: flt_def)

lemma flt_1 [simp]: "flt 1 = 1"
  using flt_of_int [of 1] by simp

lemma flt_half [simp]: "flt (1/2) = 1/2"
  using bin53.rnd_exact [of 1 "- 1"] by (simp add: flt_def power_int_minus)

lemma flt_le_1: "x \<le> 1 \<Longrightarrow> flt x \<le> 1"
  using flt_mono [of x 1] by simp

lemma flt_error: "\<bar>flt x - x\<bar> \<le> \<bar>x\<bar> / 2 ^ 53"
  using bin53.rnd_rel_error [of x] by (simp add: flt_def)

lemma flt_between: "flt lo = lo \<Longrightarrow> flt hi = hi \<Longrightarrow> lo \<le> x \<Longrightarrow> x \<le> hi \<Longrightarrow> lo \<le> flt x \<and> flt x \<le> hi"
  by (metis flt_mono)

lemma rhe_near: "\<bar>x - of_int k\<bar> < 1/2 \<Longrightarrow> rhe x = k"
proof -
  assume k: "\<bar>x - of_int k\<bar> < 1/2"
  have "\<bar>of_int (rhe x) - (of_int k :: rat)\<bar> < 1" using rhe_error [of x] k by linarith
  then have "\<bar>rhe x - k\<bar> < 1" by (metis of_int_1 of_int_abs of_int_diff of_int_less_iff)
  then show ?thesis by simp
qed

lemma round_float_mono: "x \<le> y \<Longrightarrow> round_float n x \<le> round_float n y"
  unfolding round_float_def by (intro flt_mono divide_right_mono) (simp_all add: rhe_mono mult_right_mono)

lemma round_float_0 [simp]: "round_float n 0 = 0"
  using rhe_of_int [of 0] by (simp add: round_float_def)

lemma round_float_nonneg: "0 \<le> x \<Longrightarrow> 0 \<le> round_float n x"
  using round_float_mono [of 0 x n] by simp

text \<open>A value within half a unit of the last place is rounded to the nearest multiple.\<close>

lemma round_float_near:
  assumes "\<bar>x - of_int k / 10 ^ n\<bar> < 1 / (2 * 10 ^ n)" shows "round_float n x = flt (of_int k / 10 ^ n)"
proof -
  have "\<bar>x - of_int k / 10 ^ n\<bar> * 10 ^ n < 1/2" using assms by (simp add: pos_less_divide_eq mult.assoc mult.commute)
  moreover have "\<bar>x - of_int k / 10 ^ n\<bar> * 10 ^ n = \<bar>x * 10 ^ n - of_int k\<bar>"
  proof -
    have "x * 10 ^ n - of_int k = (x - of_int k / 10 ^ n) * 10 ^ n" by (simp add: left_diff_distrib)
    then show ?thesis by (simp add: abs_mult)
  qed
  ultimately show ?thesis by (simp add: round_float_def rhe_near)
qed

section \<open>Order\<close>

lemma float_le_less: "float_le x y \<longleftrightarrow> float_less x y \<or> (x = y \<and> x \<noteq> NotANumber)"
  by (cases x; cases y) auto

lemma float_less_le: "float_less x y \<longleftrightarrow> float_le x y \<and> \<not> float_le y x"
  by (cases x; cases y) auto

lemma float_le_trans: "float_le x y \<Longrightarrow> float_le y z \<Longrightarrow> float_le x z"
  by (cases x; cases y; cases z) auto

lemma float_le_total: "x \<noteq> NotANumber \<Longrightarrow> y \<noteq> NotANumber \<Longrightarrow> float_le x y \<or> float_le y x"
  by (cases x; cases y) auto

lemma float_NaN [simp]: "\<not> float_less x NotANumber" "\<not> float_le x NotANumber"
  by (cases x; simp)+

text \<open>Clamping a number into an interval; the order of the arguments decides what NaN becomes.\<close>

lemma clamp_finite [simp]:
  "py_max (Finite x) (Finite y) = Finite (max x y)" "py_min (Finite x) (Finite y) = Finite (min x y)"
  by (simp_all add: py_max_def py_min_def max_def min_def)

lemma clamp_NaN [simp]:
  "py_max NotANumber x = NotANumber" "py_min NotANumber x = NotANumber" "py_max x NotANumber = x" "py_min x NotANumber = x"
  by (simp_all add: py_max_def py_min_def)

lemma clamp_bounds: "lo \<le> hi \<Longrightarrow> \<exists>c. py_max (Finite lo) (py_min (Finite hi) x) = Finite c \<and> lo \<le> c \<and> c \<le> hi"
  by (cases x) (auto simp: py_max_def py_min_def)

end
