(* ===== verification/Worker_Config.thy ===== *)
theory Worker_Config
  imports Paper_Gateway Py_Float
begin

text \<open>
  What the execution worker reads from the settings table before it submits an order
  (\<open>execution/worker.py\<close>, the settings part of \<open>trading/trading_config.py\<close>, \<open>utils.py\<close> and
  \<open>gateways/factory.py\<close>): the order mode and its parameters, the edge policy of a revalidated purchase
  and the configuration of the PAPER gateway. The process environment (\<open>ExecutionSettings\<close>, the
  defaults of \<open>polyflip.config\<close>) is an argument. A setting whose text reads as an infinite number or
  NaN where the code would go on with it (time to live, retry delay, tick size) is not represented.
\<close>

section \<open>Numbers in settings\<close>

definition parse_float_setting :: "(string \<Rightarrow> string option) \<Rightarrow> string \<Rightarrow> pyfloat \<Rightarrow> dec_value" where
  "parse_float_setting raw key dflt =
     (case raw key of None \<Rightarrow> Finite dflt
      | Some v \<Rightarrow> if strip v = [] then Finite dflt
                  else case parse_float v of None \<Rightarrow> Finite dflt | Some x \<Rightarrow> x)"

text \<open>A fraction; an absolute value above one is an old percentage.\<close>

definition parse_fraction_setting ::
  "(string \<Rightarrow> string option) \<Rightarrow> string \<Rightarrow> pyfloat \<Rightarrow> pyfloat \<Rightarrow> pyfloat \<Rightarrow> pyfloat" where
  "parse_fraction_setting raw key dflt lo hi =
     (case parse_float_setting raw key dflt of
        Finite v \<Rightarrow> let x = (if 1 < \<bar>v\<bar> then flt (v / 100) else v) in if lo \<le> x \<and> x \<le> hi then x else dflt
      | _ \<Rightarrow> dflt)"

text \<open>\<open>_finite_decimal\<close>: rounded to eight places, \<open>None\<close> for a missing, non-finite or too large number.\<close>

definition finite_decimal :: "decimal option \<Rightarrow> decimal option" where
  "finite_decimal x = (case x of None \<Rightarrow> None | Some v \<Rightarrow> quantize 8 v)"

fun finite_value :: "dec_value \<Rightarrow> decimal option" where
  "finite_value (Finite x) = finite_decimal (Some (repr_dec x))"
| "finite_value _ = None"

section \<open>The size and the mode of an order\<close>

definition POLYMARKET_MIN_ORDER_SHARES :: decimal where
  "POLYMARKET_MIN_ORDER_SHARES = 5"

definition resolve_requested_shares :: "decimal option \<Rightarrow> decimal \<Rightarrow> decimal \<Rightarrow> string \<Rightarrow> decimal" where
  "resolve_requested_shares requested spend price side =
     (if 0 < num_or requested 0 then num_or requested 0
      else if upper side = ''BUY'' \<and> 0 < spend \<and> 0 < price then d_div spend price
      else 0)"

definition smart_maker_order_mode :: "decimal \<Rightarrow> string" where
  "smart_maker_order_mode shares = (if POLYMARKET_MIN_ORDER_SHARES \<le> shares then ''GTC_TTL'' else ''FAK_RETRY'')"

definition EXECUTION_RUNTIME_SETTING_KEYS :: "string set" where
  "EXECUTION_RUNTIME_SETTING_KEYS =
     {''LIVE_ORDER_MODE'', ''LIVE_GTC_TTL_SECONDS'', ''LIVE_FAK_RETRY_MAX_ATTEMPTS'', ''LIVE_FAK_RETRY_DELAY_SEC'',
      ''LIVE_MAKER_REPRICE_ON_CROSS'', ''LIVE_MAKER_REPRICE_MAX_RETRIES'', ''LIVE_MAKER_TICK_SIZE'',
      ''TAKE_PROFIT_ORDER_MODE'', ''OUTS_MIN_EDGE'', ''FAVORITE_MIN_EDGE'', ''COMBINED_COST_BUFFER'',
      ''TRADE_MIN_PRICE'', ''TRADE_MAX_PRICE'', ''FAVORITE_MIN_PRICE'', ''FAVORITE_MAX_PRICE'',
      ''OUTSIDER_MAX_PRICE''}"

text \<open>SHADOW requests run with no settings at all.\<close>

definition load_execution_runtime_settings :: "db \<Rightarrow> exec_mode \<Rightarrow> string \<Rightarrow> string option" where
  "load_execution_runtime_settings d mode key =
     (if mode \<in> {LIVE, PAPER} \<and> key \<in> EXECUTION_RUNTIME_SETTING_KEYS then db_settings d key else None)"

text \<open>\<open>x or d\<close> for an optional text, and \<open>str(values.get(key) or d)\<close>.\<close>

definition text_or :: "string option \<Rightarrow> string \<Rightarrow> string" where
  "text_or x d = (let s = str_or_empty x in if s = [] then d else s)"

definition setting_or :: "(string \<Rightarrow> string option) \<Rightarrow> string \<Rightarrow> string \<Rightarrow> string" where
  "setting_or vals key d = text_or (vals key) d"

definition configured_order_mode :: "(string \<Rightarrow> string option) \<Rightarrow> string" where
  "configured_order_mode vals = upper (strip (setting_or vals ''LIVE_ORDER_MODE'' ''FAK''))"

definition is_dynamic_route :: "(string \<Rightarrow> string option) \<Rightarrow> bool" where
  "is_dynamic_route vals \<longleftrightarrow> configured_order_mode vals \<in> {''FAK_RETRY'', ''SMART_MAKER''}"

section \<open>The edge policy\<close>

text \<open>The defaults of \<open>polyflip.config.settings\<close> that \<open>parse_trading_settings\<close> falls back to.\<close>

record trading_defaults =
  td_trade_min :: pyfloat
  td_trade_max :: pyfloat
  td_favorite_min :: pyfloat
  td_favorite_max :: pyfloat
  td_outsider_max :: pyfloat
  td_outs_min_edge :: pyfloat
  td_favorite_min_edge :: pyfloat

text \<open>The fields of \<open>TradingConfig\<close> the worker reads.\<close>

record trading_bounds =
  tb_cost_buffer :: dec_value
  tb_trade_min :: dec_value
  tb_trade_max :: dec_value
  tb_favorite_min :: dec_value
  tb_favorite_max :: dec_value
  tb_outsider_max :: dec_value
  tb_outs_min_edge :: pyfloat
  tb_favorite_min_edge :: pyfloat

definition parse_trading_settings :: "trading_defaults \<Rightarrow> (string \<Rightarrow> string option) \<Rightarrow> trading_bounds" where
  "parse_trading_settings td raw =
     \<lparr>tb_cost_buffer = parse_float_setting raw ''COMBINED_COST_BUFFER'' (flt (2/100)),
      tb_trade_min = parse_float_setting raw ''TRADE_MIN_PRICE'' (td_trade_min td),
      tb_trade_max = parse_float_setting raw ''TRADE_MAX_PRICE'' (td_trade_max td),
      tb_favorite_min = parse_float_setting raw ''FAVORITE_MIN_PRICE'' (td_favorite_min td),
      tb_favorite_max = parse_float_setting raw ''FAVORITE_MAX_PRICE'' (td_favorite_max td),
      tb_outsider_max = parse_float_setting raw ''OUTSIDER_MAX_PRICE'' (td_outsider_max td),
      tb_outs_min_edge = parse_fraction_setting raw ''OUTS_MIN_EDGE'' (td_outs_min_edge td) (- 1) 1,
      tb_favorite_min_edge = parse_fraction_setting raw ''FAVORITE_MIN_EDGE'' (td_favorite_min_edge td) (- 1) 1\<rparr>"

definition saved_probability :: "trade \<Rightarrow> decimal option" where
  "saved_probability t =
     finite_decimal (map_option repr_dec
       (case tr_p_candidate_win t of Some p \<Rightarrow> Some p | None \<Rightarrow> tr_p_win_effective t))"

definition build_fak_retry_edge_policy ::
  "trading_defaults \<Rightarrow> trade option \<Rightarrow> (string \<Rightarrow> string option) \<Rightarrow> FAKRetryEdgePolicy option" where
  "build_fak_retry_edge_policy td trade raw =
     (case trade of None \<Rightarrow> None
      | Some t \<Rightarrow>
        (case saved_probability t of None \<Rightarrow> None
         | Some p \<Rightarrow>
           let cfg = parse_trading_settings td raw; role = upper (strip (str_or_empty (tr_market_role t)));
               buffer = (case tr_cost_buffer t of Some b \<Rightarrow> finite_decimal (Some (repr_dec b))
                         | None \<Rightarrow> finite_value (tb_cost_buffer cfg));
               edge = finite_decimal (Some (repr_dec
                        (if role = ''OUTSIDER'' then tb_outs_min_edge cfg else tb_favorite_min_edge cfg)))
           in if \<not> (0 \<le> p \<and> p \<le> 1) \<or> role \<notin> {''FAVORITE'', ''OUTSIDER''} then None
              else case (buffer, finite_value (tb_trade_min cfg), finite_value (tb_trade_max cfg),
                         finite_value (tb_favorite_min cfg), finite_value (tb_favorite_max cfg),
                         finite_value (tb_outsider_max cfg), edge) of
                (Some b, Some tmin, Some tmax, Some fmin, Some fmax, Some omax, Some e) \<Rightarrow>
                  Some \<lparr>p_candidate_win = p, cost_buffer = b, min_net_edge = e, market_role = role,
                        trade_min_price = tmin, trade_max_price = tmax, favorite_min_price = fmin,
                        favorite_max_price = fmax, outsider_max_price = omax\<rparr>
              | _ \<Rightarrow> None))"

section \<open>The parameters of an order mode\<close>

definition float_or_raise :: "(string \<Rightarrow> string option) \<Rightarrow> string \<Rightarrow> pyfloat \<Rightarrow> gw_error + pyfloat" where
  "float_or_raise vals key dflt =
     (let s = str_or_empty (vals key) in
      if s = [] then Inr dflt
      else case parse_float s of Some (Finite x) \<Rightarrow> Inr x
           | _ \<Rightarrow> Inl (OtherError (''could not convert string to float: '' @ quoted s)))"

definition int_or_raise :: "(string \<Rightarrow> string option) \<Rightarrow> string \<Rightarrow> int \<Rightarrow> gw_error + int" where
  "int_or_raise vals key dflt =
     (let s = str_or_empty (vals key) in
      if s = [] then Inr dflt
      else case parse_int s of Some n \<Rightarrow> Inr n
           | None \<Rightarrow> Inl (OtherError (''invalid literal for int() with base 10: '' @ quoted s)))"

definition maker_reprice_enabled :: "(string \<Rightarrow> string option) \<Rightarrow> bool" where
  "maker_reprice_enabled vals \<longleftrightarrow>
     lower (strip (case vals ''LIVE_MAKER_REPRICE_ON_CROSS'' of None \<Rightarrow> ''true'' | Some s \<Rightarrow> s))
       \<in> {''1'', ''true'', ''yes'', ''on''}"

definition maker_reprice_attempts :: "(string \<Rightarrow> string option) \<Rightarrow> int" where
  "maker_reprice_attempts vals =
     (case parse_int (case vals ''LIVE_MAKER_REPRICE_MAX_RETRIES'' of None \<Rightarrow> ''3'' | Some s \<Rightarrow> s) of
        None \<Rightarrow> 3 | Some n \<Rightarrow> min MAX_MAKER_REPRICE_MAX_RETRIES (max 0 n))"

definition maker_tick_size :: "(string \<Rightarrow> string option) \<Rightarrow> decimal" where
  "maker_tick_size vals =
     (case vals ''LIVE_MAKER_TICK_SIZE'' of None \<Rightarrow> 1/100
      | Some s \<Rightarrow> (case parse_decimal s of Some (Finite x) \<Rightarrow> if 0 < x then x else 1/100 | _ \<Rightarrow> 1/100))"

section \<open>The PAPER gateway\<close>

text \<open>
  The owner of a setting decides whether INSTANT is a deliberate choice: a profile stored by the system
  is read as LIVE_PARITY unless the environment names one.
\<close>

record paper_config =
  pc_profile :: string
  pc_delay_sec :: string
  pc_slippage_pct :: string
  pc_fee_model :: string
  pc_fee_rate :: string
  pc_maker_fee_rate :: string
  pc_fee_exponent :: string
  pc_min_order_shares :: string

definition load_paper_execution_config ::
  "db \<Rightarrow> (string \<Rightarrow> string option) \<Rightarrow> string option \<Rightarrow> paper_config \<Rightarrow> paper_config" where
  "load_paper_execution_config d owner env_var env =
     (let get = (\<lambda>key dflt. case db_settings d key of None \<Rightarrow> dflt | Some v \<Rightarrow> v);
          env_profile = (case env_var of None \<Rightarrow> None | Some p \<Rightarrow> if strip p = [] then None else Some p);
          profile = upper (strip (case env_profile of Some p \<Rightarrow> p | None \<Rightarrow> get ''PAPER_EXECUTION_PROFILE'' (pc_profile env)));
          by_system = lower (strip (str_or_empty (owner ''PAPER_EXECUTION_PROFILE''))) \<in> {[], ''system''} in
      \<lparr>pc_profile = (if env_profile = None \<and> profile = ''INSTANT'' \<and> by_system then ''LIVE_PARITY'' else profile),
       pc_delay_sec = get ''PAPER_LIVE_DELAY_SEC'' (pc_delay_sec env),
       pc_slippage_pct = get ''PAPER_SLIPPAGE_PCT'' (pc_slippage_pct env),
       pc_fee_model = get ''PAPER_FEE_MODEL'' (pc_fee_model env),
       pc_fee_rate = get ''PAPER_FEE_RATE'' (pc_fee_rate env),
       pc_maker_fee_rate = get ''PAPER_MAKER_FEE_RATE'' (pc_maker_fee_rate env),
       pc_fee_exponent = get ''PAPER_FEE_EXPONENT'' (pc_fee_exponent env),
       pc_min_order_shares = get ''PAPER_MIN_ORDER_SHARES'' (pc_min_order_shares env)\<rparr>)"

text \<open>\<open>FakeExecutionGateway._decimal(text, dflt)\<close>.\<close>

definition decimal_or :: "string \<Rightarrow> decimal \<Rightarrow> decimal" where
  "decimal_or s dflt = (case parse_decimal s of Some (Finite x) \<Rightarrow> x | _ \<Rightarrow> dflt)"

text \<open>\<open>build_execution_gateway\<close> for PAPER: INSTANT is free of delay, slippage and fees.\<close>

definition build_paper_gateway :: "decimal \<Rightarrow> paper_config \<Rightarrow> paper_gw outcome" where
  "build_paper_gateway env_min c =
     (let p = upper (strip (pc_profile c)); profile = (if p \<in> {''INSTANT'', ''LIVE_PARITY''} then p else ''LIVE_PARITY'') in
      if profile = ''INSTANT'' then
        new_paper_gateway \<lparr>pg_profile = profile, pg_maker_fee_rate = 0, pg_delay_sec = 0, pg_slippage_pct = 0,
          pg_fee_rate = 0, pg_fee_exponent = 1, pg_fee_model = ''FLAT_NOTIONAL'',
          pg_min_order_shares = env_min\<rparr>
      else case (if pc_delay_sec c = [] then Some (Finite 0) else parse_float (pc_delay_sec c)) of
        Some (Finite delay) \<Rightarrow>
          new_paper_gateway \<lparr>pg_profile = profile, pg_maker_fee_rate = decimal_or (pc_maker_fee_rate c) 0,
            pg_delay_sec = delay, pg_slippage_pct = decimal_or (pc_slippage_pct c) 0,
            pg_fee_rate = decimal_or (pc_fee_rate c) 0, pg_fee_exponent = decimal_or (pc_fee_exponent c) 1,
            pg_fee_model = pc_fee_model c,
            pg_min_order_shares = decimal_or (pc_min_order_shares c) POLYMARKET_MIN_ORDER_SHARES\<rparr>
      | _ \<Rightarrow> Inl (ValueError (''could not convert string to float: '' @ quoted (pc_delay_sec c))))"

end
