(* ===== verification/Worker.thy ===== *)
theory Worker
  imports Worker_Config Accounting
begin

text \<open>
  The submitting half of \<open>execution/worker.py\<close>: \<open>claim_one\<close>, \<open>_persist_fills\<close>,
  \<open>_finish_submit_exception\<close>, \<open>_enqueue_gtd_take_profit_after_fill\<close> and \<open>process_ready_requests\<close>.
  A call of \<open>process_ready_requests\<close> is a function of the committed store and the world of its venue.
  What the source draws from outside (the row \<open>LIMIT 1\<close> picks, identifiers, the process id, the
  moments at which the clock is read, the environment) is the record \<open>worker_run\<close>. Work in a
  transaction that is rolled back is dropped; an exception that leaves the function is the exit
  \<open>Escaped\<close>. The telemetry written to \<open>raw_response\<close> is not modelled.
\<close>

record worker_run =
  wr_mode :: exec_mode
  wr_pid :: int
  wr_pick :: nat
  wr_attempt_id :: nat
  wr_close_id :: nat
  wr_fuel :: nat
  wr_defaults :: trading_defaults
  wr_claim_at :: time
  wr_check_at :: time
  wr_start_at :: time
  wr_done_at :: time

datatype worker_exit = Nothing_claimed | Handled nat | Escaped nat | Unfinished nat

section \<open>Claiming a request\<close>

definition claimable :: "exec_mode \<Rightarrow> time \<Rightarrow> exec_request \<Rightarrow> bool" where
  "claimable mode now r \<longleftrightarrow>
     rq_mode r = mode \<and>
     (rq_state r = READY \<or>
      rq_state r = CLAIMED \<and> (case rq_lease_expires_at r of None \<Rightarrow> False | Some t \<Rightarrow> t < now))"

definition set_claim :: "int \<Rightarrow> time \<Rightarrow> exec_request \<Rightarrow> exec_request" where
  "set_claim pid now r =
     r\<lparr>rq_state := CLAIMED, rq_claimed_by := Some (''worker-'' @ int_str pid), rq_claimed_at := Some now,
       rq_lease_expires_at := Some (now + seconds 30), rq_updated_at := now\<rparr>"

text \<open>The query has no ORDER BY: \<open>k\<close> chooses among the rows that match.\<close>

definition claim_one :: "nat \<Rightarrow> int \<Rightarrow> exec_mode \<Rightarrow> time \<Rightarrow> db \<Rightarrow> nat option \<times> db" where
  "claim_one k pid mode now d =
     (let rows = filter (claimable mode now) (db_requests d) in
      if rows = [] then (None, d)
      else let r = rows ! (k mod length rows) in
        if (case rq_expires_at r of None \<Rightarrow> False | Some e \<Rightarrow> e < now)
        then (None, finalize_request (rq_id r) EXPIRED (Some ''TTL expired'') now d)
        else (Some (rq_id r), upd_request (rq_id r) (set_claim pid now) d))"

section \<open>Storing fills\<close>

definition fill_row :: "nat \<Rightarrow> trade_execution \<Rightarrow> exec_fill" where
  "fill_row aid f =
     \<lparr>fl_attempt_id = aid, fl_trade_id = Some (te_trade_id f), fl_gateway = Some (te_gateway f), fl_price = te_price f,
      fl_shares = te_shares f, fl_fee = te_fee f, fl_gross = Some (te_gross f), fl_timestamp = te_matched_at f\<rparr>"

text \<open>\<open>uq_execution_provider_trade\<close>: a NULL in either column never collides.\<close>

definition uq_provider_trade :: "exec_fill \<Rightarrow> exec_fill \<Rightarrow> bool" where
  "uq_provider_trade f g \<longleftrightarrow>
     fl_trade_id f \<noteq> None \<and> fl_gateway f \<noteq> None \<and> fl_trade_id f = fl_trade_id g \<and> fl_gateway f = fl_gateway g"

definition insert_fill :: "exec_fill \<Rightarrow> exec_fill list \<Rightarrow> exec_fill list" where
  "insert_fill f fs = (if \<exists>g\<in>set fs. uq_provider_trade f g then fs else fs @ [f])"

definition persist_fills :: "nat \<Rightarrow> trade_execution list \<Rightarrow> db \<Rightarrow> db" where
  "persist_fills aid fills d =
     d\<lparr>db_fills := foldl (\<lambda>fs f. insert_fill (fill_row aid f) fs) (db_fills d) fills\<rparr>"

section \<open>After a failed submission\<close>

definition fail_attempt :: "string \<Rightarrow> time \<Rightarrow> exec_attempt \<Rightarrow> exec_attempt" where
  "fail_attempt error now a = a\<lparr>at_status := ATT_FAILED, at_error := Some error, at_finished_at := Some now\<rparr>"

definition requeue :: "string \<Rightarrow> time \<Rightarrow> exec_request \<Rightarrow> exec_request" where
  "requeue why now r =
     r\<lparr>rq_state := READY, rq_claimed_by := None, rq_claimed_at := None, rq_lease_expires_at := None,
       rq_expires_at := Some (now + seconds (max (if rq_ttl_seconds r = 0 then 60 else rq_ttl_seconds r) 60)),
       rq_error_reason := Some why, rq_updated_at := now\<rparr>"

definition deterministic_error :: "string \<Rightarrow> bool" where
  "deterministic_error e \<longleftrightarrow>
     contains ''invalid token'' (lower e) \<or> contains ''not enough balance'' (lower e) \<or> contains ''allowance'' (lower e)"

definition finish_submit_exception ::
  "nat \<Rightarrow> nat \<Rightarrow> int \<Rightarrow> exec_mode \<Rightarrow> string \<Rightarrow> bool \<Rightarrow> time \<Rightarrow> db \<Rightarrow> db" where
  "finish_submit_exception rid aid attempt_no mode error deterministic now d =
     (case get_request d rid of None \<Rightarrow> d
      | Some r \<Rightarrow>
        let d1 = upd_attempt aid (fail_attempt (take 2000 error) now) d in
        if mode = PAPER \<and> attempt_no < 3 \<and> \<not> deterministic
        then upd_request rid (requeue (take 2000 (''PAPER retry after submit error: '' @ error)) now) d1
        else finalize_request rid
               (if deterministic \<or> deterministic_error error \<or> mode = PAPER then REJECTED else MANUAL_REVIEW_REQUIRED)
               (Some (take 2000 (''Submit error: '' @ error))) now d1)"

section \<open>The native take-profit order\<close>

definition market_end_of :: "db \<Rightarrow> trade \<Rightarrow> time option" where
  "market_end_of d t =
     (case tr_market_end t of Some e \<Rightarrow> Some e
      | None \<Rightarrow> (case get_market d (tr_market_id t) of None \<Rightarrow> None | Some m \<Rightarrow> mk_end_time m))"

definition queue_take_profit :: "trade \<Rightarrow> trade" where
  "queue_take_profit t = t\<lparr>tr_tp_status := Some ''QUEUED'', tr_tp_sell_price := tr_tp_price t\<rparr>"

definition gtd_take_profit_wanted :: "db \<Rightarrow> exec_request \<Rightarrow> trade \<Rightarrow> bool" where
  "gtd_take_profit_wanted d r t \<longleftrightarrow>
     rq_intent r = OPEN \<and> rq_state r = FILLED \<and> rq_mode r = LIVE \<and>
     upper (strip (setting_or (db_settings d) ''TAKE_PROFIT_ORDER_MODE'' ''GTD'')) = ''GTD'' \<and>
     tr_tp_enabled t \<and> tr_tp_status t \<notin> Some ` {''QUEUED'', ''FILLED'', ''EXPIRED''} \<and>
     tr_position t \<noteq> CLOSED_POS \<and> num_or (tr_tp_price t) 0 \<noteq> 0 \<and> 0 < num_or (tr_remaining t) 0"

definition enqueue_gtd_take_profit_after_fill :: "nat \<Rightarrow> time \<Rightarrow> nat \<Rightarrow> db \<Rightarrow> db outcome" where
  "enqueue_gtd_take_profit_after_fill cid now rid d =
     (case get_request d rid of None \<Rightarrow> Inr d
      | Some r \<Rightarrow>
        (case get_trade d (rq_trade_id r) of None \<Rightarrow> Inr d
         | Some t \<Rightarrow>
           if \<not> gtd_take_profit_wanted d r t then Inr d
           else (case market_end_of d t of None \<Rightarrow> Inr d
             | Some e \<Rightarrow>
               if e \<le> now + seconds 180 then Inr d
               else bind_out (enqueue_close_request d now cid (tr_id t) TAKE_PROFIT (num_or (tr_tp_price t) 0) (Some e))
                 (\<lambda>(res, d'). Inr (if er_disposition res = CREATED then upd_trade (tr_id t) queue_take_profit d' else d')))))"

section \<open>Checks before the submission\<close>

text \<open>
  What the checks decide: \<open>Stop\<close> with the store to commit, \<open>Escape\<close> for an exception outside the
  handlers, or the limit, cap and policy to submit with. \<open>pl_dynamic\<close> says that a fresh quote above
  the stored cap passed the edge policy.
\<close>

record order_plan =
  pl_token :: string
  pl_limit :: decimal
  pl_cap :: "decimal option"
  pl_dynamic :: bool
  pl_policy :: "FAKRetryEdgePolicy option"

datatype check_result = Stop db | Escape | Proceed order_plan db

definition reject_with :: "exec_request \<Rightarrow> req_state \<Rightarrow> string \<Rightarrow> time \<Rightarrow> db \<Rightarrow> check_result" where
  "reject_with r s why now d = Stop (finalize_request (rq_id r) s (Some why) now d)"

definition side_of :: "exec_request \<Rightarrow> string" where
  "side_of r = (if rq_intent r = OPEN then ''BUY'' else ''SELL'')"

definition token_of :: "exec_request \<Rightarrow> live_market \<Rightarrow> string" where
  "token_of r m = (if rq_outcome r = ''YES'' then mk_yes_token m else mk_no_token m)"

text \<open>The checks of a CLOSE: the market must not have ended and the tokens must be approved.\<close>

definition check_close ::
  "'w venue \<Rightarrow> time \<Rightarrow> exec_request \<Rightarrow> live_market \<Rightarrow> order_plan \<Rightarrow> db \<Rightarrow> 'w \<Rightarrow> check_result \<times> 'w" where
  "check_close v now r m plan d w =
     (if (case mk_end_time m of None \<Rightarrow> False | Some e \<Rightarrow> e \<le> now) then
        (reject_with r REJECTED (''MARKET_EXPIRED_AWAITING_RESOLUTION: Market ended at '' @
           datetime_str (case mk_end_time m of None \<Rightarrow> 0 | Some e \<Rightarrow> e)) now d, w)
      else case v_allowance v (pl_token plan) w of
        (Inl (GatewayUnavailable e), w1) \<Rightarrow>
          (reject_with r MANUAL_REVIEW_REQUIRED (''Cannot verify allowance: '' @ e) now d, w1)
      | (Inl _, w1) \<Rightarrow> (Escape, w1)
      | (Inr a, w1) \<Rightarrow>
          if a < num_or (rq_requested_shares r) 0
          then (reject_with r MANUAL_REVIEW_REQUIRED ''CONDITIONAL_ALLOWANCE_NOT_READY: run setup_approvals.py'' now d, w1)
          else (Proceed plan d, w1))"

definition set_submit_quote :: "pyfloat \<Rightarrow> time \<Rightarrow> exec_request \<Rightarrow> exec_request" where
  "set_submit_quote q now r = r\<lparr>rq_submit_quote_price := Some q, rq_submit_quote_at := Some now\<rparr>"

text \<open>The price guard of an OPEN, given the executable price.\<close>

definition guard_price ::
  "time \<Rightarrow> bool \<Rightarrow> exec_request \<Rightarrow> pyfloat \<Rightarrow> order_plan \<Rightarrow> db \<Rightarrow> check_result" where
  "guard_price now dynamic r price plan d =
     (let d1 = upd_request (rq_id r) (set_submit_quote price now) d in
      case (finite_decimal (rq_max_acceptable r), finite_decimal (Some (repr_dec price))) of
        (Some cap, Some fresh) \<Rightarrow>
          if \<not> cap < fresh then Proceed plan d1
          else (case (if dynamic then pl_policy plan else None) of
            Some pol \<Rightarrow>
              (case evaluate_fak_retry_buy_price pol fresh of (ok, edge, why) \<Rightarrow>
               if ok then Proceed (plan\<lparr>pl_limit := fresh, pl_cap := Some (max_permitted_price pol), pl_dynamic := True\<rparr>) d1
               else reject_with r REJECTED (''DYNAMIC_EDGE_REJECTED: '' @ text_or why ''DYNAMIC_EDGE_REJECTED'') now d1)
          | None \<Rightarrow> reject_with r REJECTED ''MAX_ACCEPTABLE_PRICE_EXCEEDED'' now d1)
      | _ \<Rightarrow> Proceed plan d1)"

text \<open>A LIVE purchase needs a fresh ask; without one the request goes back to READY.\<close>

definition check_open ::
  "'w venue \<Rightarrow> time \<Rightarrow> bool \<Rightarrow> exec_request \<Rightarrow> order_plan \<Rightarrow> db \<Rightarrow> 'w \<Rightarrow> check_result \<times> 'w" where
  "check_open v now dynamic r plan d w =
     (if rq_mode r \<noteq> LIVE then (guard_price now dynamic r (flt (num_or (rq_limit_price r) 0)) plan d, w)
      else case ask_source (v_api v) (pl_token plan) w of (q, w1) \<Rightarrow>
        (case (case q of None \<Rightarrow> None | Some x \<Rightarrow> q_best_ask x) of
           None \<Rightarrow> (reject_with r READY ''EXECUTION_QUOTE_UNAVAILABLE'' now d, w1)
         | Some a \<Rightarrow> (guard_price now dynamic r (flt a) plan d, w1)))"

definition check_request ::
  "'w venue \<Rightarrow> worker_run \<Rightarrow> exec_request \<Rightarrow> db \<Rightarrow> 'w \<Rightarrow> check_result \<times> 'w" where
  "check_request v run r d w =
     (let now = wr_check_at run; vals = load_execution_runtime_settings d (rq_mode r);
          dynamic = is_dynamic_route vals in
      if rq_mode r = LIVE \<and> v_name v = ''FAKE'' then
        (reject_with r REJECTED ''LIVE mode cannot be executed via fake gateway'' now d, w)
      else case get_market d (rq_market_id r) of
        None \<Rightarrow> (reject_with r REJECTED ''Market not found'' now d, w)
      | Some m \<Rightarrow>
          (case check_risk_limits d now (rq_intent r) (num_or (rq_max_spend r) 0) (mode_name (rq_mode r))
                 (Some (rq_id r)) (Some (rq_trade_id r)) of
             Inl _ \<Rightarrow> (Escape, w)
           | Inr (Some why) \<Rightarrow> (reject_with r REJECTED (''Risk check failed: '' @ why) now d, w)
           | Inr None \<Rightarrow>
               let plan = \<lparr>pl_token = token_of r m, pl_limit = num_or (rq_limit_price r) 0, pl_cap = rq_max_acceptable r,
                     pl_dynamic = False,
                     pl_policy = (if rq_intent r = OPEN \<and> dynamic
                        then build_fak_retry_edge_policy (wr_defaults run) (get_trade d (rq_trade_id r)) vals else None)\<rparr>
               in if rq_intent r = CLOSE then check_close v now r m plan d w
                  else check_open v now dynamic r plan d w))"

section \<open>The attempt\<close>

definition new_attempt :: "nat \<Rightarrow> exec_request \<Rightarrow> string \<Rightarrow> int \<Rightarrow> time \<Rightarrow> exec_attempt" where
  "new_attempt aid r gateway n now =
     \<lparr>at_id = aid, at_request_id = rq_id r, at_gateway = gateway, at_no = n, at_started_at = now, at_finished_at = None,
      at_status = IN_PROGRESS, at_provider_status = None, at_provider_order_id = None,
      at_submission_key = Some ((case rq_idempotency_key r of None \<Rightarrow> ''None'' | Some k \<Rightarrow> k) @ '':'' @ int_str n),
      at_tx_hash = None, at_error = None, at_trade_ids = [], at_tx_hashes = [], at_settlement = ''PENDING''\<rparr>"

definition attempts_of :: "db \<Rightarrow> nat \<Rightarrow> exec_attempt list" where
  "attempts_of d rid = filter (\<lambda>a. at_request_id a = rid) (db_attempts d)"

definition set_submitting :: "time \<Rightarrow> exec_request \<Rightarrow> exec_request" where
  "set_submitting now r = r\<lparr>rq_state := SUBMITTING, rq_updated_at := now\<rparr>"

text \<open>The commit that starts the attempt; \<open>Inl\<close> when the primary key or the attempt number is taken.\<close>

definition start_attempt :: "nat \<Rightarrow> exec_request \<Rightarrow> string \<Rightarrow> time \<Rightarrow> db \<Rightarrow> (int \<times> db) outcome" where
  "start_attempt aid r gateway now d =
     (let n = int (length (attempts_of d (rq_id r))) + 1 in
      if \<exists>a\<in>set (db_attempts d). at_id a = aid then Inl (IntegrityError ''execution_attempts_pkey'')
      else if \<exists>a\<in>set (attempts_of d (rq_id r)). at_no a = n then Inl (IntegrityError ''uq_execution_attempt_number'')
      else Inr (n, upd_request (rq_id r) (set_submitting now)
                     (d\<lparr>db_attempts := db_attempts d @ [new_attempt aid r gateway n now]\<rparr>)))"

section \<open>The order\<close>

text \<open>The size to submit, and whether it replaces the size of the request.\<close>

definition resolved_shares :: "order_plan \<Rightarrow> exec_request \<Rightarrow> decimal" where
  "resolved_shares plan r =
     (let spend = num_or (rq_max_spend r) 0 in
      if pl_dynamic plan \<and> side_of r = ''BUY'' \<and> 0 < spend then d_div spend (pl_limit plan)
      else resolve_requested_shares (rq_requested_shares r) spend (pl_limit plan) (side_of r))"

definition replaces_shares :: "order_plan \<Rightarrow> exec_request \<Rightarrow> bool" where
  "replaces_shares plan r \<longleftrightarrow>
     (pl_dynamic plan \<and> side_of r = ''BUY'' \<and> 0 < num_or (rq_max_spend r) 0 \<or> num_or (rq_requested_shares r) 0 \<le> 0) \<and>
     0 < resolved_shares plan r"

definition set_shares :: "order_plan \<Rightarrow> time \<Rightarrow> exec_request \<Rightarrow> exec_request" where
  "set_shares plan now r =
     (if replaces_shares plan r then r\<lparr>rq_requested_shares := Some (resolved_shares plan r), rq_updated_at := now\<rparr> else r)"

definition order_of :: "nat \<Rightarrow> order_plan \<Rightarrow> exec_request \<Rightarrow> gateway_order" where
  "order_of aid plan r =
     \<lparr>go_attempt_id = aid, go_market_id = rq_market_id r, go_asset = rq_asset r, go_outcome = rq_outcome r,
      go_token = pl_token plan, go_side = side_of r,
      go_limit = num_or (finite_decimal (Some (pl_limit plan))) (pl_limit plan),
      go_shares = resolved_shares plan r, go_max_spend = Some (num_or (rq_max_spend r) 0),
      go_max_acceptable = finite_decimal (pl_cap plan),
      go_expiration = (if rq_trigger r = Some TAKE_PROFIT then map_option (\<lambda>e. e div seconds 1) (rq_expires_at r) else None),
      go_post_only = False\<rparr>"

definition is_gtd_close :: "(string \<Rightarrow> string option) \<Rightarrow> exec_request \<Rightarrow> bool" where
  "is_gtd_close vals r \<longleftrightarrow>
     rq_intent r = CLOSE \<and> rq_trigger r = Some TAKE_PROFIT \<and> rq_mode r = LIVE \<and>
     upper (strip (case vals ''TAKE_PROFIT_ORDER_MODE'' of None \<Rightarrow> ''GTD'' | Some s \<Rightarrow> s)) = ''GTD''"

definition effective_mode :: "(string \<Rightarrow> string option) \<Rightarrow> order_plan \<Rightarrow> exec_request \<Rightarrow> string" where
  "effective_mode vals plan r =
     (let m0 = configured_order_mode vals;
          m1 = (if m0 = ''SMART_MAKER''
                then smart_maker_order_mode (resolve_requested_shares
                       (if replaces_shares plan r then Some (resolved_shares plan r) else rq_requested_shares r)
                       (num_or (rq_max_spend r) 0) (pl_limit plan) (side_of r))
                else m0);
          m2 = (if m1 \<in> {''MAKER_TTL'', ''LIMIT_TTL''} then ''GTC_TTL'' else m1)
      in if is_gtd_close vals r then ''GTD'' else m2)"

definition is_post_only :: "string \<Rightarrow> bool" where
  "is_post_only mode \<longleftrightarrow> mode \<in> {''GTC_TTL'', ''GTD''}"

definition set_order_mode :: "string \<Rightarrow> exec_request \<Rightarrow> exec_request" where
  "set_order_mode mode r = r\<lparr>rq_order_mode := Some mode, rq_post_only := is_post_only mode\<rparr>"

text \<open>
  The call of the strategy; \<open>None\<close> when the polling loop ran out of fuel. The quote client exists
  for LIVE purchases only.
\<close>

definition order_venue :: "exec_request \<Rightarrow> 'w venue \<Rightarrow> 'w venue" where
  "order_venue r v = (if rq_intent r = OPEN \<and> rq_mode r = LIVE then v else v\<lparr>v_api := None\<rparr>)"

definition run_order_mode ::
  "'w venue \<Rightarrow> nat \<Rightarrow> (string \<Rightarrow> string option) \<Rightarrow> order_plan \<Rightarrow> exec_request \<Rightarrow> gateway_order \<Rightarrow> string \<Rightarrow> 'w \<Rightarrow>
   (gw_error + submission) option \<times> 'w" where
  "run_order_mode v fuel vals plan r ord mode w =
     (case float_or_raise vals ''LIVE_GTC_TTL_SECONDS'' 5 of Inl e \<Rightarrow> (Some (Inl e), w)
      | Inr ttl \<Rightarrow> (case int_or_raise vals ''LIVE_FAK_RETRY_MAX_ATTEMPTS'' 3 of Inl e \<Rightarrow> (Some (Inl e), w)
      | Inr attempts \<Rightarrow> (case float_or_raise vals ''LIVE_FAK_RETRY_DELAY_SEC'' (3/4) of Inl e \<Rightarrow> (Some (Inl e), w)
      | Inr delay \<Rightarrow>
          let reprices = (if maker_reprice_enabled vals then maker_reprice_attempts vals else 0);
              tick = maker_tick_size vals in
          if mode = ''GTC_TTL'' then execute_gtc_ttl fuel v ord ttl True (pl_cap plan) reprices tick None w
          else if mode = ''GTD'' then map_prod Some id (execute_maker_limit v ord ''GTD'' (pl_cap plan) reprices tick None w)
          else if mode = ''FAK_RETRY'' then
            map_prod (\<lambda>x. Some (Inr x)) id (execute_fak_retry v ord attempts delay (pl_cap plan) (pl_policy plan)
              (rq_intent r = OPEN \<and> rq_mode r \<in> {LIVE, PAPER} \<and> is_dynamic_route vals) w)
          else map_prod Some id (v_submit v ord None w))))"

section \<open>The answer\<close>

definition record_attempt :: "submission \<Rightarrow> time \<Rightarrow> exec_attempt \<Rightarrow> exec_attempt" where
  "record_attempt s now a =
     a\<lparr>at_finished_at := Some now, at_provider_order_id := sr_order_id s, at_provider_status := Some (sr_status s),
       at_trade_ids := sr_trade_ids s, at_tx_hashes := sr_tx_hashes s, at_settlement := sr_settlement s\<rparr>"

definition record_request :: "submission \<Rightarrow> gateway_order \<Rightarrow> time \<Rightarrow> exec_request \<Rightarrow> exec_request" where
  "record_request s ord now r =
     (let r1 = r\<lparr>rq_submitted_limit := Some (flt (num_or (sr_limit s) (go_limit ord))),
                 rq_requested_shares := (if num_or (sr_shares s) 0 \<noteq> 0 then sr_shares s else rq_requested_shares r)\<rparr>
      in case sr_paper_quote s of None \<Rightarrow> r1 | Some q \<Rightarrow> set_submit_quote (flt q) now r1)"

text \<open>The constraints the flush of these columns can violate.\<close>

definition answer_conflict :: "nat \<Rightarrow> string \<Rightarrow> submission \<Rightarrow> db \<Rightarrow> bool" where
  "answer_conflict aid gateway s d \<longleftrightarrow>
     (case sr_order_id s of None \<Rightarrow> False
      | Some i \<Rightarrow> \<exists>a\<in>set (db_attempts d). at_id a \<noteq> aid \<and> at_gateway a = gateway \<and> at_provider_order_id a = Some i) \<or>
     num_or (sr_shares s) 0 < 0"

definition set_fill_sums :: "trade_execution list \<Rightarrow> exec_request \<Rightarrow> exec_request" where
  "set_fill_sums fills r =
     r\<lparr>rq_filled_shares := d_sum (map te_shares fills), rq_filled_cost := d_sum (map te_gross fills)\<rparr>"

definition attempt_result :: "attempt_status \<Rightarrow> string option \<Rightarrow> exec_attempt \<Rightarrow> exec_attempt" where
  "attempt_result st err a = a\<lparr>at_status := st, at_error := (case err of None \<Rightarrow> at_error a | Some e \<Rightarrow> Some e)\<rparr>"

definition book_fills :: "nat \<Rightarrow> nat \<Rightarrow> trade_execution list \<Rightarrow> time \<Rightarrow> db \<Rightarrow> db" where
  "book_fills rid aid fills now d =
     (let d1 = upd_request rid (set_fill_sums fills) (persist_fills aid fills (upd_attempt aid (attempt_result ATT_SUCCESS None) d));
          wanted = (case get_request d rid of None \<Rightarrow> 0 | Some r \<Rightarrow> num_or (rq_requested_shares r) 0)
      in finalize_request rid (if d_sum (map te_shares fills) < wanted then PARTIALLY_FILLED_FINAL else FILLED) None now d1)"

definition fail_submission :: "nat \<Rightarrow> nat \<Rightarrow> string \<Rightarrow> string \<Rightarrow> time \<Rightarrow> db \<Rightarrow> db" where
  "fail_submission rid aid attempt_error why now d =
     finalize_request rid REJECTED (Some why) now (upd_attempt aid (attempt_result ATT_FAILED (Some attempt_error)) d)"

definition set_reconciling :: "exec_request \<Rightarrow> exec_request" where
  "set_reconciling r = r\<lparr>rq_state := RECONCILING\<rparr>"

text \<open>What the worker does with an answer; only a confirmed answer without fills asks the venue again.\<close>

definition apply_answer ::
  "'w venue \<Rightarrow> nat \<Rightarrow> nat \<Rightarrow> string \<Rightarrow> submission \<Rightarrow> time \<Rightarrow> db \<Rightarrow> 'w \<Rightarrow> (gw_error option \<times> db) \<times> 'w" where
  "apply_answer v rid aid token s now d w =
     (if \<not> sr_accepted s \<or> sr_status s \<in> {''REJECTED'', ''ERROR''} then
        ((None, fail_submission rid aid (sr_status s) (text_or (sr_error s) (sr_status s)) now d), w)
      else if sr_settlement s = ''CONFIRMED'' then
        (case (if sr_fills s \<noteq> [] then (Inr (sr_fills s), w) else v_fetch_fills v (str_or_empty (sr_order_id s)) token w) of
           (Inl e, w1) \<Rightarrow> ((Some e, d), w1)
         | (Inr [], w1) \<Rightarrow>
             ((None, fail_submission rid aid ''Order cancelled or expired on exchange without fills''
                ''NO_FILLS_UNFILLED: 0 shares matched on exchange'' now d), w1)
         | (Inr fills, w1) \<Rightarrow> ((None, book_fills rid aid fills now d), w1))
      else if sr_settlement s = ''FAILED'' then
        ((None, fail_submission rid aid ''Settlement failed on chain'' ''Settlement failed on chain'' now d), w)
      else ((None, upd_request rid set_reconciling (upd_attempt aid (attempt_result ATT_UNKNOWN None) d)), w))"

definition touch_request :: "time \<Rightarrow> exec_request \<Rightarrow> exec_request" where
  "touch_request now r = r\<lparr>rq_updated_at := now\<rparr>"

text \<open>
  The end of the transaction: \<open>Inl\<close> the text of an exception. (\<open>rebuild_trade_accounting\<close>
  commits when it finds an over-close; the only exception that can follow is a collision of identifiers
  in the take-profit insert, and the model rolls that case back as a whole.)
\<close>

definition settle_books :: "nat \<Rightarrow> nat \<Rightarrow> int \<Rightarrow> time \<Rightarrow> db \<Rightarrow> string + db" where
  "settle_books cid rid tid now d =
     (let d1 = upd_request rid (touch_request now) d in
      if tid = 0 then Inr d1
      else case enqueue_gtd_take_profit_after_fill cid now rid (rebuild_trade_accounting tid d1) of
             Inl e \<Rightarrow> Inl (py_text e) | Inr d2 \<Rightarrow> Inr d2)"

text \<open>The handler of \<open>GatewayOrderRejected\<close>, which keeps the work of the open transaction.\<close>

definition order_rejected :: "nat \<Rightarrow> nat \<Rightarrow> int \<Rightarrow> string \<Rightarrow> time \<Rightarrow> db \<Rightarrow> db" where
  "order_rejected rid aid tid why now d =
     (let d1 = upd_request rid (touch_request now)
                 (finalize_request rid REJECTED (Some why) now (upd_attempt aid (fail_attempt why now) d))
      in if tid = 0 then d1 else rebuild_trade_accounting tid d1)"

definition handle_error ::
  "worker_run \<Rightarrow> exec_request \<Rightarrow> int \<Rightarrow> gw_error \<Rightarrow> db \<Rightarrow> db \<Rightarrow> db" where
  "handle_error run r n e committed d =
     (let now = wr_done_at run; rid = rq_id r; aid = wr_attempt_id run in
      case e of
        GatewayOrderRejected why \<Rightarrow> order_rejected rid aid (rq_trade_id r) why now d
      | GatewaySubmissionUnknown why \<Rightarrow>
          finish_submit_exception rid aid n (rq_mode r) (''Submission unknown: '' @ why) False now committed
      | GatewayUnavailable why \<Rightarrow>
          finish_submit_exception rid aid n (rq_mode r) (''Submission unknown: '' @ why) False now committed
      | _ \<Rightarrow> finish_submit_exception rid aid n (rq_mode r) (err_text e) False now committed)"

text \<open>Everything after the answer of the venue.\<close>

definition finish_submission ::
  "'w venue \<Rightarrow> worker_run \<Rightarrow> exec_request \<Rightarrow> order_plan \<Rightarrow> int \<Rightarrow> gateway_order \<Rightarrow> submission \<Rightarrow> db \<Rightarrow> db \<Rightarrow> 'w \<Rightarrow> db \<times> 'w" where
  "finish_submission v run r plan n ord s committed d w =
     (let now = wr_done_at run; rid = rq_id r; aid = wr_attempt_id run;
          d1 = upd_request rid (record_request s ord now) (upd_attempt aid (record_attempt s now) d) in
      if answer_conflict aid (v_name v) s d
      then (handle_error run r n (OtherError ''IntegrityError'') committed d, w)
      else case apply_answer v rid aid (pl_token plan) s now d1 w of
        ((Some e, d2), w1) \<Rightarrow> (handle_error run r n e committed d2, w1)
      | ((None, d2), w1) \<Rightarrow>
          (case settle_books (wr_close_id run) rid (rq_trade_id r) now d2 of
             Inl why \<Rightarrow> (handle_error run r n (OtherError why) committed d2, w1)
           | Inr d3 \<Rightarrow> (d3, w1)))"

section \<open>The whole call\<close>

definition submit_request ::
  "'w venue \<Rightarrow> worker_run \<Rightarrow> exec_request \<Rightarrow> order_plan \<Rightarrow> db \<Rightarrow> db \<Rightarrow> 'w \<Rightarrow> worker_exit \<times> db \<times> 'w" where
  "submit_request v run r plan claimed d w =
     (case start_attempt (wr_attempt_id run) r (v_name v) (wr_start_at run) d of
        Inl _ \<Rightarrow> (Escaped (rq_id r), claimed, w)
      | Inr (n, committed) \<Rightarrow>
          let vals = load_execution_runtime_settings d (rq_mode r); mode = effective_mode vals plan r;
              ord = (order_of (wr_attempt_id run) plan r)\<lparr>go_post_only := is_post_only mode\<rparr>;
              d1 = upd_request (rq_id r) (set_order_mode mode \<circ> set_shares plan (wr_start_at run)) committed in
          (case run_order_mode (order_venue r v) (wr_fuel run) vals plan r ord mode w of
             (None, w1) \<Rightarrow> (Unfinished (rq_id r), committed, w1)
           | (Some (Inl e), w1) \<Rightarrow> (Handled (rq_id r), handle_error run r n e committed d1, w1)
           | (Some (Inr s), w1) \<Rightarrow>
               (case finish_submission (order_venue r v) run r plan n ord s committed d1 w1 of (d2, w2) \<Rightarrow>
                  (Handled (rq_id r), d2, w2))))"

definition process_ready_requests ::
  "'w venue outcome \<Rightarrow> worker_run \<Rightarrow> db \<Rightarrow> 'w \<Rightarrow> worker_exit \<times> db \<times> 'w" where
  "process_ready_requests gateway run d w =
     (case claim_one (wr_pick run) (wr_pid run) (wr_mode run) (wr_claim_at run) d of
        (None, d1) \<Rightarrow> (Nothing_claimed, d1, w)
      | (Some rid, d1) \<Rightarrow>
          (case (get_request d1 rid, gateway) of
             (Some r, Inr v) \<Rightarrow>
               (case check_request v run r d1 w of
                  (Stop d2, w1) \<Rightarrow> (Handled rid, d2, w1)
                | (Escape, w1) \<Rightarrow> (Escaped rid, d1, w1)
                | (Proceed plan d2, w1) \<Rightarrow> submit_request v run (case get_request d2 rid of None \<Rightarrow> r | Some r2 \<Rightarrow> r2) plan d1 d2 w1)
           | _ \<Rightarrow> (Escaped rid, d1, w)))"

end
