(* ===== verification/Lifecycle.thy ===== *)
theory Lifecycle
  imports Worker
begin

text \<open>
  The life of a request as an abstract machine, and the proof that \<open>process_ready_requests\<close>
  implements it. \<open>lifecycle m s t\<close> lists the transitions of a request of mode \<open>m\<close>; it has no
  transition out of a terminal state, and only a PAPER request may become READY again after it was
  submitted. \<open>advances d d'\<close> says that a change of the store is a run of this machine for every
  request at once, keeps the constraints of the tables and creates no attempt; every operation but the
  start of an attempt is shown to be such a change, by lemmas that compose.
\<close>

section \<open>The machine\<close>

inductive lifecycle :: "exec_mode \<Rightarrow> req_state \<Rightarrow> req_state \<Rightarrow> bool" where
  claim: "s \<in> {READY, CLAIMED} \<Longrightarrow> lifecycle m s CLAIMED"
| expire: "s \<in> {READY, CLAIMED} \<Longrightarrow> lifecycle m s EXPIRED"
| refuse: "t \<in> {REJECTED, MANUAL_REVIEW_REQUIRED} \<Longrightarrow> lifecycle m CLAIMED t"
| requote: "lifecycle LIVE CLAIMED READY"
| submit: "lifecycle m CLAIMED SUBMITTING"
| fill: "s \<in> RECONCILABLE_REQUEST_STATES \<Longrightarrow> t \<in> SUCCESS_TERMINAL_STATES \<Longrightarrow> lifecycle m s t"
| reject: "s \<in> RECONCILABLE_REQUEST_STATES \<Longrightarrow> t \<in> {REJECTED, EXPIRED} \<Longrightarrow> lifecycle m s t"
| pending: "s \<in> RECONCILABLE_REQUEST_STATES \<Longrightarrow> t \<in> {RECONCILING, MANUAL_REVIEW_REQUIRED} \<Longrightarrow> lifecycle m s t"
| paper_retry: "s \<in> RECONCILABLE_REQUEST_STATES \<Longrightarrow> lifecycle PAPER s READY"
| resolve_review: "t \<in> {FILLED, REJECTED, MANUAL_REVIEW_FAILED} \<Longrightarrow> lifecycle m MANUAL_REVIEW_REQUIRED t"
| recheck: "lifecycle LIVE MANUAL_REVIEW_REQUIRED RECONCILING"

inductive_cases lifecycle_from: "lifecycle m s t"

abbreviation reaches :: "exec_mode \<Rightarrow> req_state \<Rightarrow> req_state \<Rightarrow> bool" where
  "reaches m \<equiv> (lifecycle m)\<^sup>*\<^sup>*"

definition FRESH_STATES :: "req_state set" where
  [state_defs]: "FRESH_STATES = {AWAITING_APPROVAL, READY, CLAIMED}"

lemma terminal_stuck: "lifecycle m s t \<Longrightarrow> s \<notin> TERMINAL_REQUEST_STATES"
  by (auto elim!: lifecycle_from simp: state_defs)

lemma terminal_final: "reaches m s t \<Longrightarrow> s \<in> TERMINAL_REQUEST_STATES \<Longrightarrow> t = s"
  by (induction rule: converse_rtranclp_induct) (auto dest: terminal_stuck)

lemma lifecycle_hold: "lifecycle m s t \<Longrightarrow> s \<in> REQUEST_HOLD_STATES"
  by (auto elim!: lifecycle_from simp: state_defs)

lemma reaches_hold: "reaches m s t \<Longrightarrow> t \<in> REQUEST_HOLD_STATES \<Longrightarrow> s \<in> REQUEST_HOLD_STATES"
  by (induction rule: converse_rtranclp_induct) (auto dest: lifecycle_hold)

lemma lifecycle_live: "lifecycle m s t \<Longrightarrow> m \<noteq> PAPER \<Longrightarrow> s \<notin> FRESH_STATES \<Longrightarrow> t \<notin> FRESH_STATES"
  by (auto elim!: lifecycle_from simp: state_defs)

lemma reaches_live: "reaches m s t \<Longrightarrow> m \<noteq> PAPER \<Longrightarrow> s \<notin> FRESH_STATES \<Longrightarrow> t \<notin> FRESH_STATES"
  by (induction rule: converse_rtranclp_induct) (auto dest: lifecycle_live)

section \<open>Changes of the store that follow the machine\<close>

text \<open>One request before and after: it keeps its mode and follows the machine; a new one starts in a fresh state.\<close>

fun follows :: "exec_request option \<Rightarrow> exec_request option \<Rightarrow> bool" where
  "follows None None \<longleftrightarrow> True"
| "follows None (Some r) \<longleftrightarrow>
     reaches (rq_mode r) READY (rq_state r) \<or> reaches (rq_mode r) AWAITING_APPROVAL (rq_state r)"
| "follows (Some r) None \<longleftrightarrow> False"
| "follows (Some r) (Some r') \<longleftrightarrow> rq_mode r' = rq_mode r \<and> reaches (rq_mode r) (rq_state r) (rq_state r')"

definition evolves :: "db \<Rightarrow> db \<Rightarrow> bool" where
  "evolves d d' \<longleftrightarrow> (\<forall>i. follows (get_request d i) (get_request d' i))"

definition attempt_keys :: "db \<Rightarrow> (nat \<times> nat) list" where
  "attempt_keys d = map (\<lambda>a. (at_id a, at_request_id a)) (db_attempts d)"

definition advances :: "db \<Rightarrow> db \<Rightarrow> bool" where
  "advances d d' \<longleftrightarrow> (db_ok d \<longrightarrow> db_ok d') \<and> evolves d d' \<and> attempt_keys d' = attempt_keys d"

lemma attempt_keys_zip: "attempt_keys d = zip (map at_id (db_attempts d)) (map at_request_id (db_attempts d))"
  by (simp add: attempt_keys_def zip_map_map zip_same_conv_map comp_def)

lemma attempt_keys_requests: "map at_request_id (db_attempts d) = map snd (attempt_keys d)"
  by (simp add: attempt_keys_def comp_def)

lemma attempt_keys_frame [simp]:
  "attempt_keys (upd_request i f d) = attempt_keys d" "attempt_keys (finalize_request i t e now d) = attempt_keys d"
  "attempt_keys (d\<lparr>db_requests := rs\<rparr>) = attempt_keys d"
  by (simp_all add: attempt_keys_def)

definition req_at :: "db \<Rightarrow> nat \<Rightarrow> exec_mode \<Rightarrow> req_state \<Rightarrow> bool" where
  "req_at d i m s \<longleftrightarrow> (\<exists>r. get_request d i = Some r \<and> rq_mode r = m \<and> rq_state r = s)"

lemma req_atI: "get_request d i = Some r \<Longrightarrow> req_at d i (rq_mode r) (rq_state r)"
  by (simp add: req_at_def)

lemma req_at_fun: "req_at d i m s \<Longrightarrow> req_at d i m' s' \<Longrightarrow> m' = m \<and> s' = s"
  by (auto simp: req_at_def)

lemma follows_refl [simp]: "follows x x"
  by (cases x) simp_all

lemma follows_trans: "follows x y \<Longrightarrow> follows y z \<Longrightarrow> follows x z"
  by (cases x; cases y; cases z; simp) (meson rtranclp_trans)+

lemma evolves_refl [simp]: "evolves d d"
  by (simp add: evolves_def)

lemma evolves_trans: "evolves d1 d2 \<Longrightarrow> evolves d2 d3 \<Longrightarrow> evolves d1 d3"
  unfolding evolves_def by (meson follows_trans)

lemma advances_refl [simp]: "advances d d"
  by (simp add: advances_def)

lemma advances_trans [trans]: "advances d1 d2 \<Longrightarrow> advances d2 d3 \<Longrightarrow> advances d1 d3"
  unfolding advances_def by (auto intro: evolves_trans)

lemma advances_ok: "advances d d' \<Longrightarrow> db_ok d \<Longrightarrow> db_ok d'"
  by (simp add: advances_def)

section \<open>The basic changes\<close>

text \<open>Changes of other tables.\<close>

lemma advances_other:
  assumes "db_requests d' = db_requests d" "map tr_id (db_trades d') = map tr_id (db_trades d)"
    and "map at_id (db_attempts d') = map at_id (db_attempts d)"
    and "map at_request_id (db_attempts d') = map at_request_id (db_attempts d)"
    and "map rs_request_id (db_reservations d') = map rs_request_id (db_reservations d)"
  shows "advances d d'"
  using assms by (simp add: advances_def db_ok_def evolves_def get_request_def attempt_keys_zip)

lemma advances_upd_trade: "(\<And>t. tr_id (f t) = tr_id t) \<Longrightarrow> advances d (upd_trade i f d)"
  by (rule advances_other) (simp_all add: upd_trade_def map_update_where_key)

lemma advances_upd_attempt:
  "(\<And>a. at_id (f a) = at_id a) \<Longrightarrow> (\<And>a. at_request_id (f a) = at_request_id a) \<Longrightarrow> advances d (upd_attempt i f d)"
  by (rule advances_other) (simp_all add: upd_attempt_def map_update_where_key)

lemma advances_persist [simp]: "advances d (persist_fills aid fs d)"
  by (rule advances_other) (simp_all add: persist_fills_def)

lemma advances_rebuild [simp]: "advances d (rebuild_trade_accounting i d)"
  unfolding rebuild_trade_accounting_def by (rule advances_upd_trade) simp

lemma get_request_other [simp]:
  "get_request (persist_fills aid fs d) j = get_request d j"
  "get_request (rebuild_trade_accounting i d) j = get_request d j"
  by (simp_all add: persist_fills_def get_request_def rebuild_trade_accounting_def)

lemma req_at_other [simp]:
  "req_at (upd_trade i f d) j m s = req_at d j m s"
  "req_at (upd_attempt a g d) j m s = req_at d j m s"
  "req_at (persist_fills aid fs d) j m s = req_at d j m s"
  "req_at (rebuild_trade_accounting i d) j m s = req_at d j m s"
  by (simp_all add: req_at_def)

text \<open>An update of one request that keeps its identity and follows the machine.\<close>

definition same_identity :: "exec_request \<Rightarrow> exec_request \<Rightarrow> bool" where
  "same_identity r r' \<longleftrightarrow>
     rq_id r' = rq_id r \<and> rq_idempotency_key r' = rq_idempotency_key r \<and> rq_mode r' = rq_mode r \<and>
     rq_trade_id r' = rq_trade_id r \<and> rq_intent r' = rq_intent r \<and> rq_market_id r' = rq_market_id r"

lemma upd_request_at:
  assumes "\<And>r. same_identity r (f r)" "\<And>r. rq_state (f r) = g (rq_state r)" "req_at d i m s"
  shows "req_at (upd_request i f d) i m (g s)"
  using assms get_request_upd_request [of f i d i] by (auto simp: req_at_def same_identity_def)

lemma advances_upd_request:
  assumes id: "\<And>r. same_identity r (f r)" and st: "\<And>r. rq_state (f r) = g (rq_state r)"
    and at: "req_at d i m s" and r: "reaches m s (g s)"
  shows "advances d (upd_request i f d)"
proof -
  have get: "get_request (upd_request i f d) j = (if j = i then map_option f (get_request d i) else get_request d j)" for j
    using id by (intro get_request_upd_request) (simp add: same_identity_def)
  have "evolves d (upd_request i f d)"
    using at id st r by (auto simp: evolves_def get req_at_def same_identity_def)
  moreover have "db_ok d \<longrightarrow> db_ok (upd_request i f d)"
    using at id st reaches_hold [OF r] by (auto simp: req_at_def keeps_request_def same_identity_def intro!: upd_request_ok)
  ultimately show ?thesis by (simp add: advances_def)
qed

lemma advances_finalize:
  assumes at: "req_at d i m s" and r: "reaches m s t"
  shows "advances d (finalize_request i t e now d)" "req_at (finalize_request i t e now d) i m t"
proof -
  obtain q where q: "get_request d i = Some q" "rq_mode q = m" "rq_state q = s" using at by (auto simp: req_at_def)
  have "evolves d (finalize_request i t e now d)"
    using q r by (auto simp: evolves_def get_request_finalize)
  moreover have "db_ok d \<longrightarrow> db_ok (finalize_request i t e now d)"
    using q reaches_hold [OF r] by (auto intro!: finalize_request_ok)
  ultimately show "advances d (finalize_request i t e now d)" by (simp add: advances_def)
  show "req_at (finalize_request i t e now d) i m t"
    using q by (simp add: req_at_def get_request_finalize)
qed

text \<open>Updates of a request that touch neither its identity nor its state.\<close>

definition neutral :: "(exec_request \<Rightarrow> exec_request) \<Rightarrow> bool" where
  "neutral f \<longleftrightarrow> (\<forall>r. same_identity r (f r) \<and> rq_state (f r) = rq_state r)"

lemma neutralD: "neutral f \<Longrightarrow> same_identity r (f r)" "neutral f \<Longrightarrow> rq_state (f r) = rq_state r"
  by (simp_all add: neutral_def)

lemma get_request_neutral:
  "neutral f \<Longrightarrow> get_request (upd_request i f d) j = (if j = i then map_option f (get_request d i) else get_request d j)"
  by (rule get_request_upd_request) (simp add: neutral_def same_identity_def)

lemma req_at_neutral [simp]: "neutral f \<Longrightarrow> req_at (upd_request i f d) j m s = req_at d j m s"
  by (cases "get_request d i") (auto simp: req_at_def get_request_neutral neutral_def same_identity_def)

lemma advances_neutral [simp]:
  assumes "neutral f" shows "advances d (upd_request i f d)"
proof -
  have "evolves d (upd_request i f d)"
  proof (cases "get_request d i")
    case (Some r)
    then show ?thesis using neutralD [OF assms, of r] by (simp add: evolves_def get_request_neutral [OF assms] same_identity_def)
  qed (simp add: evolves_def get_request_neutral [OF assms])
  moreover have "db_ok d \<longrightarrow> db_ok (upd_request i f d)"
    using neutralD [OF assms] by (auto simp: keeps_request_def same_identity_def intro!: upd_request_ok)
  ultimately show ?thesis by (simp add: advances_def)
qed

lemma neutral_worker_updates [simp]:
  "neutral (set_submit_quote q now)" "neutral (record_request s ord now)" "neutral (set_fill_sums fs)"
  "neutral (touch_request now)" "neutral (set_order_mode mode \<circ> set_shares plan now)"
  by (simp_all add: neutral_def same_identity_def set_submit_quote_def record_request_def set_fill_sums_def
      touch_request_def set_order_mode_def set_shares_def Let_def split: option.split)

lemma advances_attempt_updates [simp]:
  "advances d (upd_attempt a (fail_attempt e now) d)" "advances d (upd_attempt a (attempt_result st err) d)"
  "advances d (upd_attempt a (record_attempt s now) d)"
  by (rule advances_upd_attempt; simp add: fail_attempt_def attempt_result_def record_attempt_def)+

section \<open>Queueing a close\<close>

lemma get_request_append:
  "get_request (d\<lparr>db_requests := db_requests d @ [r]\<rparr>) j =
   (case get_request d j of Some q \<Rightarrow> Some q | None \<Rightarrow> if j = rq_id r then Some r else None)"
  by (auto simp: get_request_def find_snoc split: option.split)

lemma insert_request_evolves:
  assumes "insert_request arb r d = Inr (Some i, d')" "rq_state r \<in> {READY, AWAITING_APPROVAL}"
  shows "evolves d d'"
proof -
  have d': "d' = d\<lparr>db_requests := db_requests d @ [r]\<rparr>" using insert_request_SomeD [OF assms(1)] by simp
  show ?thesis using assms(2) by (auto simp: evolves_def d' get_request_append split: option.split)
qed

lemma advances_enqueue_close:
  assumes "enqueue_close_request d now cid tid g li ex = Inr (res, d')"
  shows "advances d d' \<and> (\<forall>j m s. req_at d j m s \<longrightarrow> req_at d' j m s)"
  using assms
proof (cases rule: enqueue_close_cases)
  case (new t sh x d1)
  let ?r = "new_close_request cid now t g li x sh"
  have d1: "d1 = d\<lparr>db_requests := db_requests d @ [?r]\<rparr>" using insert_request_SomeD [OF new(8)] by simp
  have "advances d d1" using insert_request_ok [OF _ new(8)] insert_request_evolves [OF new(8)]
    by (simp add: advances_def new_close_request_def) (simp add: d1)
  moreover have "advances d1 d'" unfolding new(9) by (rule advances_upd_trade) simp
  moreover have "req_at d j m s \<Longrightarrow> req_at d' j m s" for j m s
    by (auto simp: new(9) d1 req_at_def get_request_append)
  ultimately show ?thesis by (blast intro: advances_trans)
qed simp_all

lemma enqueue_gtd_advances:
  assumes "enqueue_gtd_take_profit_after_fill cid now rid d = Inr d'"
  shows "advances d d' \<and> (\<forall>j m s. req_at d j m s \<longrightarrow> req_at d' j m s)"
proof (cases "d' = d")
  case False
  with assms obtain t :: trade and e where
    b: "bind_out (enqueue_close_request d now cid (tr_id t) TAKE_PROFIT (num_or (tr_tp_price t) 0) (Some e))
         (\<lambda>(res, d'). Inr (if er_disposition res = CREATED then upd_trade (tr_id t) queue_take_profit d' else d')) = Inr d'"
    unfolding enqueue_gtd_take_profit_after_fill_def by (auto split: option.splits if_split_asm)
  then obtain res d1 where
    c: "enqueue_close_request d now cid (tr_id t) TAKE_PROFIT (num_or (tr_tp_price t) 0) (Some e) = Inr (res, d1)"
    by (auto split: sum.splits)
  from b have d': "d' = d1 \<or> d' = upd_trade (tr_id t) queue_take_profit d1" unfolding c by (auto split: if_splits)
  have "advances d1 d'" using d' by (auto intro!: advances_upd_trade simp: queue_take_profit_def)
  moreover have "req_at d1 j m s \<Longrightarrow> req_at d' j m s" for j m s using d' by auto
  ultimately show ?thesis using advances_enqueue_close [OF c] by (blast intro: advances_trans)
qed simp

section \<open>Claiming\<close>

lemma get_request_in: "db_ok d \<Longrightarrow> r \<in> set (db_requests d) \<Longrightarrow> get_request d (rq_id r) = Some r"
  using find_map_distinct [of rq_id "db_requests d" r] by (simp add: get_request_def db_ok_def requests_ok_def)

text \<open>The row a claim works on.\<close>

lemma claim_one_row:
  assumes "claim_one k pid mode now d = (res, d')" "d' \<noteq> d \<or> res \<noteq> None"
  obtains r where "r \<in> set (db_requests d)" "claimable mode now r"
    "res = None \<and> d' = finalize_request (rq_id r) EXPIRED (Some ''TTL expired'') now d \<or>
     res = Some (rq_id r) \<and> d' = upd_request (rq_id r) (set_claim pid now) d"
proof -
  let ?rows = "filter (claimable mode now) (db_requests d)"
  let ?r = "?rows ! (k mod length ?rows)"
  have ne: "?rows \<noteq> []" using assms by (auto simp: claim_one_def)
  then have "?r \<in> set ?rows" by (intro nth_mem) simp
  then show thesis using assms(1) ne by (intro that [of ?r]) (auto simp: claim_one_def Let_def split: if_splits)
qed

lemma same_identity_claim: "same_identity r (set_claim pid now r)"
  by (simp add: same_identity_def set_claim_def)

lemma claim_one_advances:
  assumes "db_ok d" "claim_one k pid mode now d = (res, d')"
  shows "advances d d' \<and> (\<forall>rid. res = Some rid \<longrightarrow> req_at d' rid mode CLAIMED)"
proof (cases "d' \<noteq> d \<or> res \<noteq> None")
  case True
  from claim_one_row [OF assms(2) this] obtain r where r: "r \<in> set (db_requests d)" "claimable mode now r"
    and c: "res = None \<and> d' = finalize_request (rq_id r) EXPIRED (Some ''TTL expired'') now d \<or>
      res = Some (rq_id r) \<and> d' = upd_request (rq_id r) (set_claim pid now) d" by blast
  have s: "rq_mode r = mode" "rq_state r \<in> {READY, CLAIMED}" using r(2) by (auto simp: claimable_def)
  have at: "req_at d (rq_id r) mode (rq_state r)" using req_atI [OF get_request_in [OF assms(1) r(1)]] s by simp
  have e: "reaches mode (rq_state r) EXPIRED" and cl: "reaches mode (rq_state r) CLAIMED"
    using s(2) by (auto intro: lifecycle.intros)
  note up = same_identity_claim [of _ pid now]
  have st: "rq_state (set_claim pid now q) = (\<lambda>_. CLAIMED) (rq_state q)" for q by (simp add: set_claim_def)
  from c show ?thesis
  proof
    assume "res = None \<and> d' = finalize_request (rq_id r) EXPIRED (Some ''TTL expired'') now d"
    then show ?thesis using advances_finalize(1) [OF at e] by simp
  next
    assume "res = Some (rq_id r) \<and> d' = upd_request (rq_id r) (set_claim pid now) d"
    then show ?thesis using advances_upd_request [OF up st at] upd_request_at [OF up st at] cl by simp
  qed
qed simp

section \<open>The checks\<close>

definition HANDLED_STATES :: "req_state set" where
  [state_defs]: "HANDLED_STATES =
     {REJECTED, MANUAL_REVIEW_REQUIRED, READY, FILLED, PARTIALLY_FILLED_FINAL, RECONCILING}"

definition ends :: "db \<Rightarrow> db \<Rightarrow> nat \<Rightarrow> exec_mode \<Rightarrow> bool" where
  "ends d d' rid m \<longleftrightarrow> advances d d' \<and> (\<exists>t\<in>HANDLED_STATES. req_at d' rid m t)"

fun checked :: "db \<Rightarrow> nat \<Rightarrow> exec_mode \<Rightarrow> check_result \<Rightarrow> bool" where
  "checked d rid m (Stop d') \<longleftrightarrow> ends d d' rid m"
| "checked d rid m Escape \<longleftrightarrow> True"
| "checked d rid m (Proceed plan d') \<longleftrightarrow> advances d d' \<and> req_at d' rid m CLAIMED"

lemma ends_trans: "advances d d1 \<Longrightarrow> ends d1 d2 rid m \<Longrightarrow> ends d d2 rid m"
  by (auto simp: ends_def intro: advances_trans)

lemma checked_trans: "advances d d1 \<Longrightarrow> checked d1 rid m c \<Longrightarrow> checked d rid m c"
  by (cases c) (auto intro: ends_trans advances_trans)

lemma ends_finalize: "req_at d rid m s \<Longrightarrow> reaches m s t \<Longrightarrow> t \<in> HANDLED_STATES \<Longrightarrow> ends d (finalize_request rid t e now d) rid m"
  by (simp add: ends_def) (blast intro: advances_finalize)

lemma checked_reject:
  "req_at d (rq_id r) m CLAIMED \<Longrightarrow> lifecycle m CLAIMED s \<Longrightarrow> s \<in> HANDLED_STATES \<Longrightarrow> checked d (rq_id r) m (reject_with r s why now d)"
  by (auto simp: reject_with_def intro!: ends_finalize)

lemma claimed_edges [simp]:
  "lifecycle m CLAIMED REJECTED" "lifecycle m CLAIMED MANUAL_REVIEW_REQUIRED" "lifecycle LIVE CLAIMED READY"
  "REJECTED \<in> HANDLED_STATES" "MANUAL_REVIEW_REQUIRED \<in> HANDLED_STATES" "READY \<in> HANDLED_STATES"
  by (auto intro: lifecycle.intros simp: HANDLED_STATES_def)

lemma checked_guard_price:
  assumes "req_at d (rq_id r) m CLAIMED" shows "checked d (rq_id r) m (guard_price now dyn r price plan d)"
proof -
  let ?d1 = "upd_request (rq_id r) (set_submit_quote price now) d"
  have "checked ?d1 (rq_id r) m (guard_price now dyn r price plan d)"
    using assms by (simp add: guard_price_def Let_def checked_reject split: option.split prod.split)
  then show ?thesis by (rule checked_trans [rotated]) simp
qed

lemma checked_close:
  "req_at d (rq_id r) m CLAIMED \<Longrightarrow> checked d (rq_id r) m (fst (check_close v now r mk plan d w))"
  by (simp add: check_close_def checked_reject split: prod.split sum.split gw_error.split)

lemma checked_open:
  "req_at d (rq_id r) (rq_mode r) CLAIMED \<Longrightarrow> checked d (rq_id r) (rq_mode r) (fst (check_open v now dyn r plan d w))"
  by (cases "rq_mode r = LIVE") (simp_all add: check_open_def checked_guard_price checked_reject split: prod.split option.split)

lemma checked_request:
  assumes at: "req_at d (rq_id r) (rq_mode r) CLAIMED"
  shows "checked d (rq_id r) (rq_mode r) (fst (check_request v run r d w))"
proof (cases "rq_mode r = LIVE \<and> v_name v = ''FAKE''")
  case True
  then show ?thesis using at by (simp add: check_request_def checked_reject)
next
  case False
  show ?thesis unfolding check_request_def Let_def if_not_P [OF False]
    using at by (simp add: checked_reject checked_close checked_open split: option.split sum.split)
qed

section \<open>The submission\<close>

lemma start_attempt_evolves:
  assumes "start_attempt aid r g now d = Inr (n, d')" "req_at d (rq_id r) m CLAIMED"
  shows "(db_ok d \<longrightarrow> db_ok d') \<and> evolves d d' \<and> req_at d' (rq_id r) m SUBMITTING \<and>
    attempt_keys d' = attempt_keys d @ [(aid, rq_id r)]"
proof -
  let ?d0 = "d\<lparr>db_attempts := db_attempts d @ [new_attempt aid r g n now]\<rparr>"
  have d': "d' = upd_request (rq_id r) (set_submitting now) ?d0" and fresh: "aid \<notin> at_id ` set (db_attempts d)"
    using assms(1) by (auto simp: start_attempt_def Let_def split: if_splits)
  have at0: "req_at ?d0 (rq_id r) m CLAIMED" using assms(2) by (simp add: req_at_def get_request_def)
  have ev0: "evolves d ?d0" by (simp add: evolves_def get_request_def)
  have id: "same_identity q (set_submitting now q)" for q by (simp add: same_identity_def set_submitting_def)
  have st: "rq_state (set_submitting now q) = (\<lambda>_. SUBMITTING) (rq_state q)" for q by (simp add: set_submitting_def)
  have "reaches m CLAIMED SUBMITTING" by (auto intro: lifecycle.intros)
  then have adv: "advances ?d0 d'" "req_at d' (rq_id r) m SUBMITTING"
    using advances_upd_request [OF id st at0] upd_request_at [OF id st at0] by (simp_all add: d')
  have "db_ok d \<longrightarrow> db_ok ?d0" using fresh by (auto simp: db_ok_def new_attempt_def)
  moreover have "attempt_keys ?d0 = attempt_keys d @ [(aid, rq_id r)]" by (simp add: attempt_keys_def new_attempt_def)
  ultimately show ?thesis using adv evolves_trans [OF ev0] by (auto simp: advances_def)
qed

lemma submitting_edges [simp]:
  "lifecycle m SUBMITTING REJECTED" "lifecycle m SUBMITTING MANUAL_REVIEW_REQUIRED" "lifecycle PAPER SUBMITTING READY"
  "lifecycle m SUBMITTING RECONCILING" "lifecycle m SUBMITTING FILLED" "lifecycle m SUBMITTING PARTIALLY_FILLED_FINAL"
  by (auto intro: lifecycle.intros simp: state_defs)

lemma finish_exception_ends:
  assumes "req_at d rid m SUBMITTING"
  shows "ends d (finish_submit_exception rid aid n m e det now d) rid m"
proof -
  let ?d1 = "upd_attempt aid (fail_attempt (take 2000 e) now) d"
  obtain r where r: "get_request d rid = Some r" using assms by (auto simp: req_at_def)
  have at: "req_at ?d1 rid m SUBMITTING" using assms by simp
  have id: "same_identity q (requeue why now q)" "rq_state (requeue why now q) = (\<lambda>_. READY) (rq_state q)" for q why
    by (simp_all add: same_identity_def requeue_def)
  have "ends ?d1 (upd_request rid (requeue why now) ?d1) rid m" if "m = PAPER" for why
    using advances_upd_request [OF id(1) [of _ why] id(2) [of why] at r_into_rtranclp]
      upd_request_at [OF id(1) [of _ why] id(2) [of why] at] that
    by (simp add: ends_def) (blast intro: claimed_edges(6))
  moreover have "ends ?d1 (finalize_request rid t x now ?d1) rid m" if "t \<in> {REJECTED, MANUAL_REVIEW_REQUIRED}" for t x
    using that at by (intro ends_finalize [OF at]) auto
  ultimately have "ends ?d1 (finish_submit_exception rid aid n m e det now d) rid m"
    by (simp add: finish_submit_exception_def r Let_def)
  then show ?thesis by (rule ends_trans [rotated]) simp
qed

lemma fail_submission_ends: "req_at d rid m SUBMITTING \<Longrightarrow> ends d (fail_submission rid aid x why now d) rid m"
  unfolding fail_submission_def
  by (rule ends_trans [OF advances_attempt_updates(2)]) (rule ends_finalize, auto)

lemma book_fills_ends:
  assumes "req_at d rid m SUBMITTING" shows "ends d (book_fills rid aid fs now d) rid m"
proof -
  let ?d1 = "upd_request rid (set_fill_sums fs) (persist_fills aid fs (upd_attempt aid (attempt_result ATT_SUCCESS None) d))"
  have adv: "advances d ?d1"
    by (rule advances_trans [OF advances_trans [OF advances_attempt_updates(2) advances_persist]
          advances_neutral [OF neutral_worker_updates(3)]])
  have "ends ?d1 (finalize_request rid t None now ?d1) rid m" if "t \<in> {FILLED, PARTIALLY_FILLED_FINAL}" for t
    using that assms by (intro ends_finalize [of _ _ _ SUBMITTING]) (auto simp: HANDLED_STATES_def)
  then show ?thesis using ends_trans [OF adv] by (simp add: book_fills_def Let_def)
qed

lemma apply_answer_ends:
  assumes "req_at d rid m SUBMITTING" "apply_answer v rid aid token s now d w = ((err, d'), w')"
  shows "(err = None \<longrightarrow> ends d d' rid m) \<and> (err \<noteq> None \<longrightarrow> d' = d)"
proof -
  let ?d1 = "upd_attempt aid (attempt_result ATT_UNKNOWN None) d"
  have id: "same_identity q (set_reconciling q)" "rq_state (set_reconciling q) = (\<lambda>_. RECONCILING) (rq_state q)" for q
    by (simp_all add: same_identity_def set_reconciling_def)
  have at: "req_at ?d1 rid m SUBMITTING" using assms(1) by simp
  have "ends ?d1 (upd_request rid set_reconciling ?d1) rid m"
    using advances_upd_request [OF id at r_into_rtranclp] upd_request_at [OF id at]
    by (auto simp: ends_def HANDLED_STATES_def)
  then have "ends d (upd_request rid set_reconciling ?d1) rid m" by (rule ends_trans [rotated]) simp
  then show ?thesis
    using assms(2) fail_submission_ends [OF assms(1)] book_fills_ends [OF assms(1)] unfolding apply_answer_def
    by (auto split: if_split_asm prod.splits sum.splits list.splits)
qed

lemma ends_rebuild: "ends d d1 rid m \<Longrightarrow> ends d (rebuild_trade_accounting i d1) rid m"
  by (auto simp: ends_def intro: advances_trans)

lemma ends_touch: "ends d d1 rid m \<Longrightarrow> ends d (upd_request i (touch_request now) d1) rid m"
  by (auto simp: ends_def intro: advances_trans)

lemma handle_error_ends:
  assumes "req_at d0 (rq_id r) (rq_mode r) SUBMITTING" "req_at d (rq_id r) (rq_mode r) SUBMITTING" "advances d0 d"
  shows "ends d0 (handle_error run r n e d0 d) (rq_id r) (rq_mode r)"
proof (cases e)
  case (GatewayOrderRejected why)
  have "ends d (finalize_request (rq_id r) REJECTED (Some why) now (upd_attempt aid (fail_attempt why now) d)) (rq_id r) (rq_mode r)" for now aid
    by (rule ends_trans [OF advances_attempt_updates(1)]) (rule ends_finalize, use assms in auto)
  then show ?thesis using ends_trans [OF assms(3)]
    by (simp add: GatewayOrderRejected handle_error_def order_rejected_def Let_def ends_rebuild ends_touch)
qed (simp_all add: handle_error_def Let_def finish_exception_ends [OF assms(1)])

lemma settle_books_ends:
  assumes "ends d d1 rid m" "settle_books cid rid tid now d1 = Inr d2" shows "ends d d2 rid m"
proof -
  let ?d = "upd_request rid (touch_request now) d1"
  note e = ends_touch [OF assms(1), of rid now]
  have "ends d d2 rid m" if "enqueue_gtd_take_profit_after_fill cid now rid (rebuild_trade_accounting tid ?d) = Inr d2"
    using enqueue_gtd_advances [OF that] ends_rebuild [OF e, of tid] by (auto simp: ends_def intro: advances_trans)
  then show ?thesis using e assms(2) by (auto simp: settle_books_def Let_def split: if_splits sum.splits)
qed

lemma finish_submission_ends:
  assumes "req_at d0 (rq_id r) (rq_mode r) SUBMITTING" "req_at d (rq_id r) (rq_mode r) SUBMITTING" "advances d0 d"
  shows "ends d0 (fst (finish_submission v run r plan n ord s d0 d w)) (rq_id r) (rq_mode r)"
proof (cases "answer_conflict (wr_attempt_id run) (v_name v) s d")
  case True
  then show ?thesis by (simp add: finish_submission_def handle_error_ends [OF assms])
next
  case False
  let ?now = "wr_done_at run" and ?aid = "wr_attempt_id run"
  let ?d1 = "upd_request (rq_id r) (record_request s ord ?now) (upd_attempt ?aid (record_attempt s ?now) d)"
  have at: "req_at ?d1 (rq_id r) (rq_mode r) SUBMITTING" using assms(2) by simp
  have adv: "advances d0 ?d1"
    by (rule advances_trans [OF advances_trans [OF assms(3) advances_attempt_updates(3)]
          advances_neutral [OF neutral_worker_updates(2)]])
  obtain err d2 w1 where a: "apply_answer v (rq_id r) ?aid (pl_token plan) s ?now ?d1 w = ((err, d2), w1)"
    by (metis surj_pair)
  note res = apply_answer_ends [OF at a]
  show ?thesis
  proof (cases err)
    case (Some e)
    then show ?thesis using res handle_error_ends [OF assms(1) at adv, of run n e]
      by (simp add: finish_submission_def Let_def False a)
  next
    case None
    then have e: "ends d0 d2 (rq_id r) (rq_mode r)" using res ends_trans [OF adv] by simp
    have "ends d0 (handle_error run r n (OtherError why) d0 d2) (rq_id r) (rq_mode r)" for why
      by (simp add: handle_error_def Let_def finish_exception_ends [OF assms(1)])
    then show ?thesis using settle_books_ends [OF e]
      by (simp add: finish_submission_def Let_def False a None split: sum.split)
  qed
qed

section \<open>One attempt for a LIVE request\<close>

text \<open>
  Every attempt belongs to a stored request, and a request of a mode other than PAPER has at most one,
  none while it is still fresh.
\<close>

definition attempt_count :: "db \<Rightarrow> nat \<Rightarrow> nat" where
  "attempt_count d i = count_list (map snd (attempt_keys d)) i"

definition live_once :: "db \<Rightarrow> bool" where
  "live_once d \<longleftrightarrow> (\<forall>i. case get_request d i of
      None \<Rightarrow> attempt_count d i = 0
    | Some r \<Rightarrow> rq_mode r \<noteq> PAPER \<longrightarrow> attempt_count d i \<le> (if rq_state r \<in> FRESH_STATES then 0 else 1))"

definition progress :: "db \<Rightarrow> db \<Rightarrow> bool" where
  "progress d d' \<longleftrightarrow> (db_ok d \<longrightarrow> db_ok d') \<and> evolves d d' \<and> (live_once d \<longrightarrow> live_once d')"

lemma attempt_count_attempts_of: "attempt_count d i = length (attempts_of d i)"
  by (simp add: attempt_count_def attempts_of_def flip: attempt_keys_requests)
    (simp add: count_list_eq_length_filter filter_map comp_def eq_commute)

lemma live_onceD:
  "live_once d \<Longrightarrow> get_request d i = None \<Longrightarrow> attempt_count d i = 0"
  "live_once d \<Longrightarrow> get_request d i = Some r \<Longrightarrow> rq_mode r \<noteq> PAPER \<Longrightarrow> attempt_count d i \<le> (if rq_state r \<in> FRESH_STATES then 0 else 1)"
  unfolding live_once_def by (auto dest!: spec [of _ i] split: option.splits)

text \<open>The count of a request may grow only when it leaves the fresh states.\<close>

lemma live_once_evolves:
  assumes ev: "evolves d d'" and l: "live_once d"
    and grow: "\<And>j. attempt_count d' j = attempt_count d j \<or>
      attempt_count d' j = Suc (attempt_count d j) \<and> (\<exists>m. req_at d j m CLAIMED \<and> req_at d' j m SUBMITTING)"
  shows "live_once d'"
  unfolding live_once_def
proof
  fix i
  have f: "follows (get_request d i) (get_request d' i)" using ev by (simp add: evolves_def)
  show "case get_request d' i of None \<Rightarrow> attempt_count d' i = 0
    | Some r \<Rightarrow> rq_mode r \<noteq> PAPER \<longrightarrow> attempt_count d' i \<le> (if rq_state r \<in> FRESH_STATES then 0 else 1)"
  proof (cases "get_request d i")
    case None
    then show ?thesis using live_onceD(1) [OF l None] grow [of i] by (auto simp: req_at_def split: option.split)
  next
    case (Some r)
    with f obtain r' where r': "get_request d' i = Some r'" "rq_mode r' = rq_mode r" "reaches (rq_mode r) (rq_state r) (rq_state r')"
      by (cases "get_request d' i") auto
    show ?thesis using live_onceD(2) [OF l Some] reaches_live [OF r'(3)] r' grow [of i] Some
      by (auto simp: req_at_def FRESH_STATES_def split: if_splits)
  qed
qed

lemma advances_progress: "advances d d' \<Longrightarrow> progress d d'"
  using live_once_evolves [of d d'] by (auto simp: advances_def progress_def attempt_count_def)

lemma progress_trans [trans]: "progress d1 d2 \<Longrightarrow> progress d2 d3 \<Longrightarrow> progress d1 d3"
  unfolding progress_def by (auto intro: evolves_trans)

lemma progress_refl [simp]: "progress d d" by (simp add: progress_def)

lemma start_attempt_progress:
  assumes "start_attempt aid r g now d = Inr (n, d')" "req_at d (rq_id r) m CLAIMED"
  shows "progress d d'"
proof -
  note s = start_attempt_evolves [OF assms]
  have "attempt_count d' j = attempt_count d j \<or>
      attempt_count d' j = Suc (attempt_count d j) \<and> (\<exists>m. req_at d j m CLAIMED \<and> req_at d' j m SUBMITTING)" for j
    using s assms(2) by (auto simp: attempt_count_def)
  then show ?thesis using s live_once_evolves [of d d'] by (auto simp: progress_def)
qed

section \<open>The whole call\<close>

text \<open>Where a call of \<open>process_ready_requests\<close> may leave the request it claimed.\<close>

fun exit_state :: "db \<Rightarrow> exec_mode \<Rightarrow> worker_exit \<Rightarrow> bool" where
  "exit_state d m Nothing_claimed \<longleftrightarrow> True"
| "exit_state d m (Handled rid) \<longleftrightarrow> (\<exists>s\<in>HANDLED_STATES. req_at d rid m s)"
| "exit_state d m (Escaped rid) \<longleftrightarrow> req_at d rid m CLAIMED"
| "exit_state d m (Unfinished rid) \<longleftrightarrow> req_at d rid m SUBMITTING"

lemma submit_request_progress:
  assumes at: "req_at d (rq_id r) (rq_mode r) CLAIMED" "req_at claimed (rq_id r) (rq_mode r) CLAIMED"
    and adv: "advances claimed d"
    and s: "submit_request v run r plan claimed d w = (ex, d', w')"
  shows "progress claimed d' \<and> exit_state d' (rq_mode r) ex \<and>
    (\<forall>n c. start_attempt (wr_attempt_id run) r (v_name v) (wr_start_at run) d = Inr (n, c) \<longrightarrow>
      (wr_attempt_id run, rq_id r) \<in> set (attempt_keys d'))"
proof (cases "start_attempt (wr_attempt_id run) r (v_name v) (wr_start_at run) d")
  case (Inl e)
  then show ?thesis using s at by (auto simp: submit_request_def)
next
  case (Inr nc)
  obtain n c where nc: "nc = (n, c)" by fastforce
  note start = start_attempt_evolves [OF Inr [unfolded nc] at(1)] start_attempt_progress [OF Inr [unfolded nc] at(1)]
  let ?f = "\<lambda>mode. upd_request (rq_id r) (set_order_mode mode \<circ> set_shares plan (wr_start_at run)) c"
  have sub: "req_at c (rq_id r) (rq_mode r) SUBMITTING" "req_at (?f mode) (rq_id r) (rq_mode r) SUBMITTING" "advances c (?f mode)" for mode
    using start(1) neutral_worker_updates(5) by simp_all
  have c: "progress claimed c" using progress_trans [OF advances_progress [OF adv] start(2)] .
  have fin: "progress claimed x \<and> exit_state x (rq_mode r) (Handled (rq_id r)) \<and> attempt_keys x = attempt_keys c"
    if "ends c x (rq_id r) (rq_mode r)" for x
    using that c by (auto simp: ends_def advances_def intro: progress_trans advances_progress [unfolded advances_def])
  have sent: "progress claimed x \<and> exit_state x (rq_mode r) (Handled (rq_id r)) \<and> attempt_keys x = attempt_keys c"
    if "finish_submission v1 run r plan n ord ans c (?f mode) w1 = (x, w2)" for v1 ord ans mode w1 x w2
    using fin [OF finish_submission_ends [OF sub]] that by (metis fst_conv)
  have "progress claimed d' \<and> exit_state d' (rq_mode r) ex \<and> attempt_keys d' = attempt_keys c"
    using s c sub(1) fin [OF handle_error_ends [OF sub]]
    unfolding submit_request_def Inr nc Let_def by (auto split: prod.splits option.splits sum.splits dest!: sent)
  then show ?thesis using start(1) by (simp add: Inr nc)
qed

lemma process_ready_progress:
  assumes "db_ok d" and p: "process_ready_requests gw run d w = (ex, d', w')"
  shows "progress d d' \<and> exit_state d' (wr_mode run) ex"
proof -
  obtain res d1 where c: "claim_one (wr_pick run) (wr_pid run) (wr_mode run) (wr_claim_at run) d = (res, d1)" by fastforce
  note claim = claim_one_advances [OF assms(1) c]
  have p1: "progress d d1" using claim by (simp add: advances_progress)
  show ?thesis
  proof (cases res)
    case None
    then show ?thesis using p p1 by (auto simp: process_ready_requests_def c)
  next
    case (Some rid)
    then have at: "req_at d1 rid (wr_mode run) CLAIMED" using claim by simp
    then obtain r where r: "get_request d1 rid = Some r" "rq_mode r = wr_mode run" "rq_state r = CLAIMED" by (auto simp: req_at_def)
    have id: "rq_id r = rid" using get_requestD [OF r(1)] by simp
    show ?thesis
    proof (cases gw)
      case (Inl e)
      then show ?thesis using p p1 at by (auto simp: process_ready_requests_def c Some r(1))
    next
      case (Inr v)
      obtain res2 w1 where k: "check_request v run r d1 w = (res2, w1)" by fastforce
      have ck: "checked d1 rid (wr_mode run) res2" using checked_request [of d1 r v run w] at k by (simp add: id r(2))
      show ?thesis
      proof (cases res2)
        case (Stop d2)
        then show ?thesis using p p1 ck
          by (auto simp: process_ready_requests_def c Some r(1) Inr k ends_def intro: progress_trans advances_progress)
      next
        case Escape
        then show ?thesis using p p1 at by (auto simp: process_ready_requests_def c Some r(1) Inr k)
      next
        case (Proceed plan d2)
        then have p2: "advances d1 d2" "req_at d2 rid (wr_mode run) CLAIMED" using ck by simp_all
        then obtain r2 where r2: "get_request d2 rid = Some r2" "rq_mode r2 = wr_mode run" by (auto simp: req_at_def)
        have id2: "rq_id r2 = rid" using get_requestD [OF r2(1)] by simp
        have "submit_request v run r2 plan d1 d2 w1 = (ex, d', w')"
          using p by (simp add: process_ready_requests_def c Some r(1) Inr k Proceed r2(1))
        from submit_request_progress [OF _ _ p2(1) this] p2(2) at show ?thesis
          using p1 by (auto simp: id2 r2(2) intro: progress_trans)
      qed
    qed
  qed
qed

end
