(* ===== verification/Worker_Orders.thy ===== *)
theory Worker_Orders
  imports Lifecycle
begin

text \<open>
  What a call of \<open>process_ready_requests\<close> does to the world outside: which orders reach the venue and
  what must have happened before. The lemmas of the context hold for every venue of the interface; the
  properties are their instances on the recording venue.
\<close>

section \<open>Calls that submit nothing\<close>

locale checked_venue = guarded_venue +
  assumes allowance_inv: "inv w \<Longrightarrow> inv (snd (v_allowance v t w))"

interpretation seen: checked_venue "recording v" good "\<lambda>(w, l). \<forall>ord\<in>set l. good ord"
  for v :: "'w venue" and good :: "gateway_order \<Rightarrow> bool"
  by unfold_locales (auto simp: recording_def lift_op_def split: prod.splits)

context checked_venue
begin

lemma check_close_inv: "inv w \<Longrightarrow> inv (snd (check_close v now r m plan d w))"
  using allowance_inv [of w "pl_token plan"] by (auto simp: check_close_def split: prod.splits sum.splits gw_error.splits)

lemma check_open_inv: "inv w \<Longrightarrow> inv (snd (check_open v now dyn r plan d w))"
  using api_source_inv [of w "pl_token plan"] by (auto simp: check_open_def split: prod.splits option.splits)

lemma check_request_inv: "inv w \<Longrightarrow> inv (snd (check_request v run r d w))"
  by (simp add: check_request_def Let_def check_close_inv check_open_inv split: option.split sum.split)

lemma apply_answer_inv: "inv w \<Longrightarrow> inv (snd (apply_answer v rid aid t s now d w))"
  using fetch_inv [of w "str_or_empty (sr_order_id s)" t]
  by (auto simp: apply_answer_def split: prod.splits sum.splits list.splits)

lemma finish_submission_inv: "inv w \<Longrightarrow> inv (snd (finish_submission v run r plan n ord s c d w))"
  using apply_answer_inv [of w "rq_id r" "wr_attempt_id run" "pl_token plan" s "wr_done_at run"]
  by (auto simp: finish_submission_def Let_def split: prod.splits sum.splits option.splits) (metis snd_conv)+

lemma poll_fills_inv: "inv w \<Longrightarrow> inv (snd (poll_fills fuel v i t start ttl w))"
proof (induction fuel arbitrary: w)
  case (Suc fuel)
  obtain a w1 where c: "v_clock v w = (a, w1)" by fastforce
  obtain b w2 where f: "v_fetch_fills v i t (v_sleep v (1/2) w1) = (b, w2)" by fastforce
  have "inv w1" using clock_inv [OF Suc.prems] c by simp
  moreover from this have "inv w2" using fetch_inv [OF sleep_inv, of w1 i t "1/2"] f by simp
  ultimately show ?case using Suc.IH by (simp add: c f split: sum.split)
qed simp

lemma after_ttl_inv: "inv w \<Longrightarrow> inv (snd (after_ttl v r i t ttl w))"
  using fetch_inv [of w i t] get_order_inv [of "snd (v_fetch_fills v i t w)" i]
  by (auto simp: after_ttl_def split: prod.splits)

lemma cancel_if_possible_inv: "inv w \<Longrightarrow> inv (cancel_if_possible v i w)"
  by (auto simp: cancel_if_possible_def intro: cancel_inv split: option.split)

lemma execute_gtc_ttl_inv:
  assumes close: "\<And>ord prices p b a f. good ord \<Longrightarrow>
      calculate_maker_price ord prices cap tick = Inr (Some p, b, a, f) \<Longrightarrow> good (reprice p ord)"
    and "inv w" "good (ord\<lparr>go_post_only := True\<rparr>)"
  shows "inv (snd (execute_gtc_ttl fuel v ord ttl True cap k tick pol w))"
proof -
  obtain a w1 where m: "execute_maker_limit v (ord\<lparr>go_post_only := True\<rparr>) ''GTC'' cap k tick pol w = (a, w1)" by fastforce
  have "inv (snd (execute_maker_limit v (ord\<lparr>go_post_only := True\<rparr>) ''GTC'' cap k tick pol w))"
    by (rule execute_maker_limit_inv) (simp_all add: assms close)
  then have w1: "inv w1" using m by simp
  obtain s w2 where c: "v_clock v w1 = (s, w2)" by fastforce
  have w2: "inv w2" using clock_inv [OF w1] c by simp
  have "inv (snd (case poll_fills fuel v i t s ttl w2 of
      (None, w3) \<Rightarrow> (None, w3) | (Some True, w3) \<Rightarrow> (Some (Inr x :: gw_error + submission), w3)
    | (Some False, w3) \<Rightarrow> map_prod (\<lambda>x. Some (Inr x)) id (after_ttl v r i t' ttl (cancel_if_possible v i w3))))" for i t t' x r
    using poll_fills_inv [OF w2, of fuel i t s ttl] by (auto intro!: after_ttl_inv cancel_if_possible_inv split: prod.splits option.splits bool.splits)
  then show ?thesis using w1 by (simp add: execute_gtc_ttl_def Let_def m c split: sum.split)
qed

end

section \<open>The orders of one request\<close>

text \<open>What no strategy changes in the order it is given.\<close>

definition same_frame :: "gateway_order \<Rightarrow> gateway_order \<Rightarrow> bool" where
  "same_frame ord x \<longleftrightarrow>
     go_attempt_id x = go_attempt_id ord \<and> go_market_id x = go_market_id ord \<and> go_outcome x = go_outcome ord \<and>
     go_token x = go_token ord \<and> go_side x = go_side ord \<and> go_max_spend x = go_max_spend ord \<and>
     go_expiration x = go_expiration ord"

lemma same_frame_simps [simp]:
  "same_frame ord ord" "same_frame ord (x\<lparr>go_post_only := b\<rparr>) = same_frame ord x"
  "same_frame ord (x\<lparr>go_max_acceptable := c\<rparr>) = same_frame ord x"
  "same_frame ord (reprice p x) = same_frame ord x" "same_frame ord (refreshed p x) = same_frame ord x"
  by (simp_all add: same_frame_def reprice_def refreshed_def)

lemma fak_refresh_frame:
  "fak_refresh pol require n st r q = Inr st' \<Longrightarrow> same_frame ord (fk_order st) \<Longrightarrow> same_frame ord (fk_order st')"
  by (auto simp: fak_refresh_def refresh_price_def Let_def split: option.splits if_splits prod.splits)

lemma run_order_mode_frame:
  "case snd (run_order_mode (recording v) fuel vals plan r ord mode (w, [])) of (w', l) \<Rightarrow> \<forall>x\<in>set l. same_frame ord x"
proof -
  let ?I = "\<lambda>(w, l). \<forall>x\<in>set l. same_frame ord x"
  have "?I (snd (fak_loop (recording v) pol req m delay (nat m) 1 (fak_start ord c) (w, [])))" for pol req m delay c
    by (rule recorded.fak_loop_inv [of "\<lambda>st. same_frame ord (fk_order st)"])
      (auto simp: fak_start_def Let_def dest: fak_answer_state intro: fak_refresh_frame split: option.split)
  moreover have "?I (snd (execute_gtc_ttl fuel (recording v) ord ttl True cap k tick pol (w, [])))" for ttl cap k tick pol
    by (rule seen.execute_gtc_ttl_inv) simp_all
  moreover have "?I (snd (execute_maker_limit (recording v) ord ty cap k tick pol (w, [])))" for ty cap k tick pol
    by (rule recorded.execute_maker_limit_inv) simp_all
  moreover have "?I (snd (v_submit (recording v) ord None (w, [])))"
    by (rule recorded.submit_inv) simp_all
  ultimately show ?thesis
    by (simp add: run_order_mode_def execute_fak_retry_def Let_def split: sum.split)
qed

lemma order_venue_recording: "order_venue r (recording v) = recording (order_venue r v)"
  by (simp add: order_venue_def recording_def)

lemma submit_request_log:
  assumes "submit_request (recording v) run r plan c d (w, []) = (ex, d', (w', l))" "x \<in> set l"
  shows "\<exists>n d1. start_attempt (wr_attempt_id run) r (v_name v) (wr_start_at run) d = Inr (n, d1) \<and>
    same_frame (order_of (wr_attempt_id run) plan r) x"
proof (cases "start_attempt (wr_attempt_id run) r (v_name v) (wr_start_at run) d")
  case (Inl e)
  then show ?thesis using assms by (simp add: submit_request_def recording_def)
next
  case (Inr nc)
  obtain n d1 where nc: "nc = (n, d1)" by fastforce
  let ?vals = "load_execution_runtime_settings d (rq_mode r)" and ?v = "order_venue r v"
  let ?mode = "effective_mode ?vals plan r"
  let ?ord = "(order_of (wr_attempt_id run) plan r)\<lparr>go_post_only := is_post_only ?mode\<rparr>"
  obtain a w1 l1 where ro: "run_order_mode (recording ?v) (wr_fuel run) ?vals plan r ?ord ?mode (w, []) = (a, w1, l1)"
    by (metis surj_pair)
  have l1: "\<forall>y\<in>set l1. same_frame ?ord y" 
    using run_order_mode_frame [where v = ?v and ord = ?ord and w = w] ro by (metis (no_types, lifting) old.prod.case snd_conv)
  have name: "v_name (recording v) = v_name v" by (simp add: recording_def)
  have "\<forall>y\<in>set l. same_frame ?ord y"
  proof (cases a)
    case None
    then show ?thesis using assms(1) l1 by (simp add: submit_request_def Let_def name Inr nc order_venue_recording ro)
  next
    case (Some res)
    show ?thesis
    proof (cases res)
      case (Inl e)
      then show ?thesis using assms(1) l1 Some Inr by (simp add: submit_request_def Let_def name nc order_venue_recording ro)
    next
      case (Inr s)
      define dd where "dd = upd_request (rq_id r) (set_order_mode ?mode \<circ> set_shares plan (wr_start_at run)) d1"
      have "snd (finish_submission (recording ?v) run r plan n ?ord s d1 dd (w1, l1)) = (w', l)"
        using assms(1) Some Inr \<open>start_attempt _ _ _ _ _ = Inr nc\<close>
        by (simp add: submit_request_def Let_def name nc order_venue_recording ro dd_def split: prod.splits)
      then show ?thesis
        using seen.finish_submission_inv [where w = "(w1, l1)" and good = "same_frame ?ord" and v = ?v and
            run = run and r = r and plan = plan and n = n and ord = ?ord and s = s and c = d1 and d = dd] l1 by simp
    qed
  qed
  then show ?thesis using assms(2) Inr nc by (auto simp: same_frame_def)
qed

text \<open>What the checks have established when they let a request pass.\<close>

lemma check_request_Proceed:
  assumes "check_request v run r d w = (Proceed plan d', w')"
  shows "\<not> (rq_mode r = LIVE \<and> v_name v = ''FAKE'') \<and>
    (\<exists>m. get_market d (rq_market_id r) = Some m \<and> pl_token plan = token_of r m) \<and>
    check_risk_limits d (wr_check_at run) (rq_intent r) (num_or (rq_max_spend r) 0) (mode_name (rq_mode r))
      (Some (rq_id r)) (Some (rq_trade_id r)) = Inr None \<and>
    (d' = d \<or> (\<exists>price now. d' = upd_request (rq_id r) (set_submit_quote price now) d))"
proof -
  have c: "check_close v now r m p d w = (Proceed plan d', w') \<Longrightarrow> plan = p \<and> d' = d" for now m p
    by (auto simp: check_close_def reject_with_def split: if_splits prod.splits sum.splits gw_error.splits)
  have g: "guard_price now dyn r price p d = Proceed plan d' \<Longrightarrow>
      pl_token plan = pl_token p \<and> d' = upd_request (rq_id r) (set_submit_quote price now) d" for now dyn price p
    by (auto simp: guard_price_def reject_with_def Let_def split: if_splits prod.splits option.splits)
  have o: "check_open v now dyn r p d w = (Proceed plan d', w') \<Longrightarrow>
      pl_token plan = pl_token p \<and> (\<exists>price. d' = upd_request (rq_id r) (set_submit_quote price now) d)" for now dyn p
    by (auto simp: check_open_def reject_with_def split: if_splits prod.splits option.splits dest: g)
  show ?thesis
  proof (cases "rq_mode r = LIVE \<and> v_name v = ''FAKE''")
    case True
    then show ?thesis using assms by (simp add: check_request_def reject_with_def)
  next
    case False
    show ?thesis using assms False unfolding check_request_def Let_def if_not_P [OF False]
      by (auto simp: reject_with_def split: option.splits sum.splits if_split_asm dest!: c o)
  qed
qed

lemma order_checks:
  assumes "db_ok d" "process_ready_requests (Inr (recording v)) run d (w, []) = (ex, d', (w', l))" "x \<in> set l"
  shows "\<exists>rid d1 r m.
    claim_one (wr_pick run) (wr_pid run) (wr_mode run) (wr_claim_at run) d = (Some rid, d1) \<and>
    get_request d1 rid = Some r \<and> get_market d1 (rq_market_id r) = Some m \<and>
    \<not> (rq_mode r = LIVE \<and> v_name v = ''FAKE'') \<and>
    check_risk_limits d1 (wr_check_at run) (rq_intent r) (num_or (rq_max_spend r) 0) (mode_name (rq_mode r))
      (Some rid) (Some (rq_trade_id r)) = Inr None \<and>
    (wr_attempt_id run, rid) \<in> set (attempt_keys d') \<and>
    go_attempt_id x = wr_attempt_id run \<and> go_market_id x = rq_market_id r \<and> go_token x = token_of r m \<and>
    go_side x = side_of r \<and> go_max_spend x = Some (num_or (rq_max_spend r) 0)"
proof -
  obtain res d1 where c: "claim_one (wr_pick run) (wr_pid run) (wr_mode run) (wr_claim_at run) d = (res, d1)" by fastforce
  have "res \<noteq> None" using assms(2,3) by (cases res) (auto simp: process_ready_requests_def c)
  then obtain rid where rid: "res = Some rid" by blast
  have at: "req_at d1 rid (wr_mode run) CLAIMED" using claim_one_advances [OF assms(1) c] rid by simp
  then obtain r where r: "get_request d1 rid = Some r" "rq_mode r = wr_mode run" by (auto simp: req_at_def)
  have id: "rq_id r = rid" using get_requestD [OF r(1)] by simp
  obtain res2 w1 l1 where k: "check_request (recording v) run r d1 (w, []) = (res2, w1, l1)" by (metis surj_pair)
  have l1: "l1 = []" using seen.check_request_inv [where w = "(w, [])" and good = "\<lambda>_. False" and v = v and run = run and r = r and d = d1] k
    by simp
  have "\<exists>plan d2. res2 = Proceed plan d2"
    using assms(2,3) l1 by (cases res2) (auto simp: process_ready_requests_def c rid r(1) k)
  then obtain plan d2 where pr: "res2 = Proceed plan d2" by blast
  note ck = check_request_Proceed [OF k [unfolded pr]]
  then obtain m where m: "get_market d1 (rq_market_id r) = Some m" "pl_token plan = token_of r m" by blast
  have chk: "advances d1 d2 \<and> req_at d2 rid (wr_mode run) CLAIMED"
    using checked_request [of d1 r "recording v" run "(w, [])"] at k pr by (simp add: id r(2))
  then obtain r2 where r2: "get_request d2 rid = Some r2" by (auto simp: req_at_def)
  have same: "rq_market_id r2 = rq_market_id r \<and> side_of r2 = side_of r \<and> rq_max_spend r2 = rq_max_spend r \<and> rq_id r2 = rid \<and> rq_mode r2 = rq_mode r"
    using ck r(1) r2 id by (auto simp: get_request_neutral side_of_def set_submit_quote_def)
  have sub: "submit_request (recording v) run r2 plan d1 d2 (w1, []) = (ex, d', (w', l))"
    using assms(2) by (simp add: process_ready_requests_def c rid r(1) k pr r2 l1)
  obtain n d3 where st: "start_attempt (wr_attempt_id run) r2 (v_name v) (wr_start_at run) d2 = Inr (n, d3)"
    and fr: "same_frame (order_of (wr_attempt_id run) plan r2) x"
    using submit_request_log [OF sub assms(3)] by blast
  have "(wr_attempt_id run, rid) \<in> set (attempt_keys d')"
    using submit_request_progress [OF _ _ _ sub] chk at st same r(2) by (simp add: recording_def)
  then show ?thesis using c rid r m ck fr same id
    by (intro exI [of _ rid] exI [of _ d1] exI [of _ r] exI [of _ m]) (auto simp: same_frame_def order_of_def recording_def)
qed

text \<open>
  C3: an order reaches the venue only after the request was claimed, its market was found, a LIVE request
  was kept away from the fake gateway, the risk limits were checked in the store of the claim and let it
  pass, and the attempt the order names was committed. Every order, also one a strategy repriced or
  retried, is for the market, token, side and budget of that request.
\<close>

theorem orders_only_after_checks:
  assumes "db_ok d" "process_ready_requests (Inr (recording v)) run d (w, []) = (ex, d', (w', l))" "x \<in> set l"
  shows "\<exists>rid d1 r m.
    claim_one (wr_pick run) (wr_pid run) (wr_mode run) (wr_claim_at run) d = (Some rid, d1) \<and>
    get_request d1 rid = Some r \<and> get_market d1 (rq_market_id r) = Some m \<and>
    \<not> (rq_mode r = LIVE \<and> v_name v = ''FAKE'') \<and>
    check_risk_limits d1 (wr_check_at run) (rq_intent r) (num_or (rq_max_spend r) 0) (mode_name (rq_mode r))
      (Some rid) (Some (rq_trade_id r)) = Inr None \<and>
    (wr_attempt_id run, rid) \<in> set (attempt_keys d') \<and>
    go_attempt_id x = wr_attempt_id run \<and> go_market_id x = rq_market_id r \<and> go_token x = token_of r m \<and>
    go_side x = side_of r \<and> go_max_spend x = Some (num_or (rq_max_spend r) 0)"
  by (rule order_checks [OF assms])

section \<open>Refinement of the machine\<close>

text \<open>
  C2: one call of \<open>process_ready_requests\<close> refines the life cycle. Whatever the venue answers or
  raises, the store stays well formed; every stored request, the one worked on or any other, keeps its
  mode and moves along the transitions of the machine, and a request created on the way starts as one
  of them. The claimed request ends in a state of \<open>HANDLED_STATES\<close>, is still CLAIMED under its
  lease after an exception that left the function, and is SUBMITTING only when the polling loop ran out
  of the time the model gives it.
\<close>

theorem worker_refines_lifecycle:
  assumes "db_ok d" "process_ready_requests gateway run d w = (ex, d', w')"
  shows "db_ok d' \<and> evolves d d' \<and> exit_state d' (wr_mode run) ex"
  using process_ready_progress [OF assms] assms(1) by (simp add: progress_def)

definition sample_market :: live_market where
  "sample_market = 
     \<lparr>mk_id = ''m'', mk_yes_token = ''y'', mk_no_token = ''n'', mk_end_time = None, mk_trading_status = ''OPEN'',
      mk_resolution_status = ''PENDING'', mk_final_outcome = None, mk_accepting = True, mk_last_updated = 0\<rparr>"

definition waiting_db :: db where
  "waiting_db = (one_open READY)\<lparr>db_markets := [sample_market]\<rparr>"

definition sample_defaults :: trading_defaults where
  "sample_defaults = \<lparr>td_trade_min = 0, td_trade_max = 1/2, td_favorite_min = 0, td_favorite_max = 1/2,
     td_outsider_max = 1/2, td_outs_min_edge = 0, td_favorite_min_edge = 0\<rparr>"

definition sample_run :: worker_run where
  "sample_run = \<lparr>wr_mode = PAPER, wr_pid = 1, wr_pick = 0, wr_attempt_id = 9, wr_close_id = 10, wr_fuel = 5,
     wr_defaults = sample_defaults, wr_claim_at = 1, wr_check_at = 2, wr_start_at = 3, wr_done_at = 4\<rparr>"

lemma waiting_run:
  "case process_ready_requests (Inr (recording (scripted None None))) sample_run waiting_db (([Inr resting], 0), []) of
     (ex, d', w', l) \<Rightarrow> ex = Handled 4 \<and> map go_limit l = [1/2]"
  by code_simp

lemma waiting_db_ok: "db_ok waiting_db"
  using one_open_ok by (simp add: waiting_db_def db_ok_def)

theorem worker_refines_lifecycle_witness:
  "\<exists>d' w'. process_ready_requests (Inr (recording (scripted None None))) sample_run waiting_db (([Inr resting], 0), []) =
     (Handled 4, d', w') \<and> evolves waiting_db d' \<and> (\<exists>s\<in>HANDLED_STATES. req_at d' 4 PAPER s)"
proof -
  obtain d' w' where r: "process_ready_requests (Inr (recording (scripted None None))) sample_run waiting_db (([Inr resting], 0), []) =
     (Handled 4, d', w')" using waiting_run by (auto split: prod.splits)
  with worker_refines_lifecycle [OF waiting_db_ok r] show ?thesis by (simp add: sample_run_def)
qed

theorem orders_only_after_checks_witness:
  "\<exists>x d' w'. process_ready_requests (Inr (recording (scripted None None))) sample_run waiting_db (([Inr resting], 0), []) =
     (Handled 4, d', w', [x]) \<and> (\<exists>rid. (9, rid) \<in> set (attempt_keys d')) \<and> go_attempt_id x = 9"
proof -
  obtain x d' w' where r: "process_ready_requests (Inr (recording (scripted None None))) sample_run waiting_db (([Inr resting], 0), []) =
     (Handled 4, d', w', [x])" using waiting_run by (auto simp: map_eq_Cons_conv split: prod.splits)
  have aid: "wr_attempt_id sample_run = 9" by (simp add: sample_run_def)
  from orders_only_after_checks [OF waiting_db_ok r, of x] r show ?thesis unfolding aid by auto
qed

section \<open>Claims\<close>



section \<open>Stored fills\<close>

definition provider_key :: "trade_execution \<Rightarrow> string \<times> string" where
  "provider_key f = (te_trade_id f, te_gateway f)"

definition stored_keys :: "exec_fill list \<Rightarrow> (string \<times> string) set" where
  "stored_keys fs = {(t, g). \<exists>f\<in>set fs. fl_trade_id f = Some t \<and> fl_gateway f = Some g}"

lemma insert_fill_row:
  "insert_fill (fill_row aid f) fs = (if provider_key f \<in> stored_keys fs then fs else fs @ [fill_row aid f])"
  by (auto simp: insert_fill_def uq_provider_trade_def fill_row_def provider_key_def stored_keys_def)

lemma stored_keys_snoc: "stored_keys (fs @ [fill_row aid f]) = insert (provider_key f) (stored_keys fs)"
  by (auto simp: stored_keys_def fill_row_def provider_key_def)

lemma persist_new:
  "distinct (map provider_key fills) \<Longrightarrow> provider_key ` set fills \<inter> stored_keys fs = {} \<Longrightarrow>
   foldl (\<lambda>fs f. insert_fill (fill_row aid f) fs) fs fills = fs @ map (fill_row aid) fills"
  by (induction fills arbitrary: fs) (auto simp: insert_fill_row stored_keys_snoc)

lemma persist_known:
  "provider_key ` set fills \<subseteq> stored_keys fs \<Longrightarrow> foldl (\<lambda>fs f. insert_fill (fill_row aid f) fs) fs fills = fs"
  by (induction fills arbitrary: fs) (auto simp: insert_fill_row)

lemma persist_keys:
  "stored_keys (foldl (\<lambda>fs f. insert_fill (fill_row aid f) fs) fs fills) = stored_keys fs \<union> provider_key ` set fills"
  by (induction fills arbitrary: fs) (auto simp: insert_fill_row stored_keys_snoc)

text \<open>
  Storing the fills of an answer is idempotent. Whether the same answer is stored again by the same
  attempt or by another one (a retry, the reconciliation), no fill is stored twice.
\<close>

theorem persist_fills_idempotent: "persist_fills aid' fills (persist_fills aid fills d) = persist_fills aid fills d"
  by (simp add: persist_fills_def persist_known persist_keys)

text \<open>What an execution needs for the store to keep all of it: names, a cost and no transaction hash.\<close>

definition storable :: "trade_execution \<Rightarrow> bool" where
  "storable f \<longleftrightarrow> te_trade_id f \<noteq> [] \<and> te_gateway f \<noteq> [] \<and> te_gross f \<noteq> 0 \<and> te_tx_hash f = None"

lemma stored_execution_row: "storable f \<Longrightarrow> stored_execution i k (fill_row i f) = f"
  by (simp add: storable_def stored_execution_def fill_row_def str_or_empty_def num_or_def)

lemma stored_executions:
  "\<forall>f\<in>set fills. storable f \<Longrightarrow> map (\<lambda>(k, f). stored_execution i k f) (enumerate n (map (fill_row i) fills)) = fills"
  by (induction fills arbitrary: n) (simp_all add: stored_execution_row)


definition two_fills :: "trade_execution list" where
  "two_fills =
     [\<lparr>te_trade_id = ''t1'', te_gateway = ''FAKE'', te_gross = 1, te_price = 1/2, te_shares = 2, te_fee = 0, te_matched_at = 5, te_tx_hash = None\<rparr>,
      \<lparr>te_trade_id = ''t2'', te_gateway = ''FAKE'', te_gross = 2, te_price = 1/2, te_shares = 4, te_fee = 0, te_matched_at = 6, te_tx_hash = None\<rparr>]"

definition attempted_db :: db where
  "attempted_db = waiting_db\<lparr>db_attempts := [new_attempt 9 (hd (db_requests waiting_db)) ''FAKE'' 1 3]\<rparr>"


section \<open>The edge policy of a purchase\<close>

definition policy_numbers :: "FAKRetryEdgePolicy \<Rightarrow> decimal list" where
  "policy_numbers pol =
     [p_candidate_win pol, cost_buffer pol, min_net_edge pol, trade_min_price pol, trade_max_price pol,
      favorite_min_price pol, favorite_max_price pol, outsider_max_price pol]"

definition eight_places :: "decimal \<Rightarrow> bool" where
  "eight_places x \<longleftrightarrow> x = of_int \<lfloor>x * 10 ^ 8\<rfloor> / 10 ^ 8"

lemma finite_decimal_places: "finite_decimal v = Some x \<Longrightarrow> eight_places x"
  by (auto simp: finite_decimal_def quantize_def eight_places_def Let_def split: option.splits if_splits)
    (metis floor_of_int)

lemma finite_value_places: "finite_value v = Some x \<Longrightarrow> eight_places x"
  by (cases v) (auto dest: finite_decimal_places)

text \<open>
  C15: the policy the worker builds for a purchase is well typed. Its probability is the saved one, to
  eight places, and lies in the unit interval; its role is one of the two the evaluation knows, so a
  price is never refused for an unsupported role; and every number of it has at most eight decimal
  places, whatever text the settings hold (a malformed text gives the default, NaN or infinity no policy).
\<close>

theorem edge_policy_well_typed:
  assumes "build_fak_retry_edge_policy td (Some t) raw = Some pol"
  shows "saved_probability t = Some (p_candidate_win pol) \<and> 0 \<le> p_candidate_win pol \<and> p_candidate_win pol \<le> 1 \<and>
    market_role pol \<in> {''FAVORITE'', ''OUTSIDER''} \<and> (\<forall>x\<in>set (policy_numbers pol). eight_places x)"
proof -
  from assms have "saved_probability t = Some (p_candidate_win pol)" "market_role pol \<in> {''FAVORITE'', ''OUTSIDER''}"
    "0 \<le> p_candidate_win pol" "p_candidate_win pol \<le> 1"
    by (auto simp: build_fak_retry_edge_policy_def Let_def split: option.splits if_split_asm)
  moreover from this(1) have "eight_places (p_candidate_win pol)"
    unfolding saved_probability_def by (rule finite_decimal_places)
  moreover from assms have "\<forall>x\<in>set (tl (policy_numbers pol)). eight_places x"
    by (auto simp: build_fak_retry_edge_policy_def policy_numbers_def Let_def
        dest!: finite_decimal_places finite_value_places split: option.splits if_split_asm)
  ultimately show ?thesis by (simp add: policy_numbers_def)
qed

definition likely_trade :: trade where
  "likely_trade = (sample_trade 7 OPEN_POS (Some 2))\<lparr>tr_p_candidate_win := Some (1/2), tr_cost_buffer := Some 0, tr_market_role := Some ''favorite''\<rparr>"

lemma repr_half: "repr_dec (1/2) = 1/2" by code_simp

theorem edge_policy_well_typed_witness:
  "\<exists>pol. build_fak_retry_edge_policy sample_defaults (Some likely_trade) (\<lambda>_. None) = Some pol \<and> market_role pol \<in> {''FAVORITE'', ''OUTSIDER''} \<and>
     eight_places (min_net_edge pol)"
proof -
  have q: "quantize 8 0 = Some 0" "quantize 8 (1/2) = Some (1/2)" by code_simp+
  have r: "upper (strip ''favorite'') = ''FAVORITE''" by code_simp
  have z: "repr_dec 0 = 0" by (simp add: repr_dec_def)
  have "build_fak_retry_edge_policy sample_defaults (Some likely_trade) (\<lambda>_. None) \<noteq> None"
    by (simp add: build_fak_retry_edge_policy_def saved_probability_def likely_trade_def sample_trade_def sample_defaults_def
        parse_trading_settings_def parse_float_setting_def parse_fraction_setting_def finite_decimal_def Let_def
        repr_half q r z str_or_empty_def)
  then obtain pol where p: "build_fak_retry_edge_policy sample_defaults (Some likely_trade) (\<lambda>_. None) = Some pol" by blast
  from p edge_policy_well_typed [OF p] show ?thesis by (auto simp: policy_numbers_def)
qed

end
