(* ===== verification/Reconcile.thy ===== *)
theory Reconcile
  imports Worker_Orders
begin

text \<open>
  The other half of \<open>execution/worker.py\<close>: \<open>reconcile_active_requests\<close>,
  \<open>_auto_resolve_stuck_manual_reviews\<close>, the worker status (\<open>publish_liveness_once\<close>,
  \<open>refresh_gateway_readiness_once\<close>) and one round of \<open>execution_worker_loop\<close>. A loop over rows is a
  recursion over their identifiers; each row is handled in its own transaction. \<open>None\<close> as the store of a
  row is an exception that ends the loop: the store is then the one of the last commit. \<open>newid\<close> gives
  the identifier of a request created while a row is handled.
\<close>

section \<open>One reconcilable request\<close>

definition MAX_RECONCILIATION_AGE_SEC :: int where
  "MAX_RECONCILIATION_AGE_SEC = 900"

definition latest_attempt :: "db \<Rightarrow> nat \<Rightarrow> exec_attempt option" where
  "latest_attempt d rid = (case sort_key (\<lambda>a. - at_no a) (attempts_of d rid) of [] \<Rightarrow> None | a # _ \<Rightarrow> Some a)"

definition expired_gtd :: "time \<Rightarrow> exec_request \<Rightarrow> bool" where
  "expired_gtd now r \<longleftrightarrow>
     rq_intent r = CLOSE \<and> rq_trigger r = Some TAKE_PROFIT \<and> rq_mode r = LIVE \<and>
     (case rq_expires_at r of None \<Rightarrow> False | Some e \<Rightarrow> e \<le> now)"

definition upd_latest :: "exec_attempt option \<Rightarrow> (exec_attempt \<Rightarrow> exec_attempt) \<Rightarrow> db \<Rightarrow> db" where
  "upd_latest att f d = (case att of None \<Rightarrow> d | Some a \<Rightarrow> upd_attempt (at_id a) f d)"

text \<open>The timeout keeps the reservation: the request waits for a manual review.\<close>

definition time_out_request :: "nat \<Rightarrow> exec_attempt option \<Rightarrow> time \<Rightarrow> db \<Rightarrow> db" where
  "time_out_request rid att now d =
     finalize_request rid MANUAL_REVIEW_REQUIRED
       (Some (''Settlement status still unknown after '' @ int_str MAX_RECONCILIATION_AGE_SEC @ ''s, manual review required'')) now
       (upd_latest att (attempt_result ATT_UNKNOWN
          (Some ''Automatic reconciliation timed out; provider evidence remains unresolved'')) d)"

definition expire_take_profit :: "trade \<Rightarrow> trade" where
  "expire_take_profit t = (if tr_position t = CLOSED_POS then t else t\<lparr>tr_tp_status := Some ''EXPIRED''\<rparr>)"

definition expire_gtd :: "exec_request \<Rightarrow> exec_attempt option \<Rightarrow> string \<Rightarrow> string \<Rightarrow> time \<Rightarrow> db \<Rightarrow> db" where
  "expire_gtd r att attempt_error why now d =
     (let d1 = finalize_request (rq_id r) EXPIRED (Some why) now (upd_latest att (fail_attempt attempt_error now) d) in
      if rq_trade_id r = 0 then d1
      else upd_trade (rq_trade_id r) expire_take_profit (rebuild_trade_accounting (rq_trade_id r) d1))"

definition requeue_stale :: "nat \<Rightarrow> exec_attempt option \<Rightarrow> time \<Rightarrow> db \<Rightarrow> db" where
  "requeue_stale rid att now d =
     upd_request rid (requeue ''Recovered stale PAPER request without provider_order_id'' now)
       (upd_latest att (fail_attempt ''Recovered stale PAPER attempt without provider_order_id'' now) d)"

definition order_token :: "db \<Rightarrow> exec_request \<Rightarrow> string" where
  "order_token d r = (case get_market d (rq_market_id r) of None \<Rightarrow> [] | Some m \<Rightarrow> token_of r m)"

text \<open>The hashes are a Python set turned into a list: its order is not specified, the model keeps the order of the fills.\<close>

definition confirm_attempt :: "trade_execution list \<Rightarrow> time \<Rightarrow> exec_attempt \<Rightarrow> exec_attempt" where
  "confirm_attempt fills now a =
     a\<lparr>at_status := ATT_SUCCESS, at_provider_status := Some ''MATCHED'', at_trade_ids := map te_trade_id fills,
       at_tx_hashes := remdups (filter (\<lambda>h. h \<noteq> []) (List.map_filter te_tx_hash fills)),
       at_settlement := ''CONFIRMED'', at_finished_at := Some now\<rparr>"

definition book_late_fills ::
  "nat \<Rightarrow> exec_request \<Rightarrow> exec_attempt \<Rightarrow> trade_execution list \<Rightarrow> time \<Rightarrow> db \<Rightarrow> db option" where
  "book_late_fills cid r a fills now d =
     (let rid = rq_id r;
          d1 = upd_attempt (at_id a) (confirm_attempt fills now) (upd_request rid (set_fill_sums fills) (persist_fills (at_id a) fills d));
          d2 = finalize_request rid
                 (if d_sum (map te_shares fills) < num_or (rq_requested_shares r) 0 then PARTIALLY_FILLED_FINAL else FILLED) None now d1
      in if rq_trade_id r = 0 then Some d2
         else case enqueue_gtd_take_profit_after_fill cid now rid (rebuild_trade_accounting (rq_trade_id r) d2) of
                Inl _ \<Rightarrow> None | Inr d3 \<Rightarrow> Some d3)"

definition set_provider_status :: "submission \<Rightarrow> exec_attempt \<Rightarrow> exec_attempt" where
  "set_provider_status s a =
     a\<lparr>at_provider_status := Some (sr_status s),
       at_settlement := (if sr_settlement s = [] then at_settlement a else sr_settlement s)\<rparr>"

definition matched_attempt :: "exec_attempt \<Rightarrow> exec_attempt" where
  "matched_attempt a = a\<lparr>at_status := ATT_UNKNOWN, at_provider_status := Some ''MATCHED''\<rparr>"

definition PENDING_ORDER_STATUSES :: "string set" where
  "PENDING_ORDER_STATUSES = {''ACCEPTED'', ''UNKNOWN'', ''PENDING'', ''LIVE'', ''DELAYED''}"

definition TERMINAL_SETTLEMENTS :: "string set" where
  "TERMINAL_SETTLEMENTS = {''FAILED'', ''REJECTED'', ''EXPIRED'', ''CANCELED''}"

definition TERMINAL_ORDER_STATUSES :: "string set" where
  "TERMINAL_ORDER_STATUSES = {''REJECTED'', ''FAILED'', ''EXPIRED'', ''CANCELED'', ''UNMATCHED''}"

definition restart_reconciling :: "time \<Rightarrow> exec_request \<Rightarrow> exec_request" where
  "restart_reconciling now r = r\<lparr>rq_state := RECONCILING, rq_updated_at := now\<rparr>"

definition apply_status :: "nat \<Rightarrow> nat \<Rightarrow> submission \<Rightarrow> time \<Rightarrow> db \<Rightarrow> db" where
  "apply_status rid aid s now d =
     (let d1 = upd_attempt aid (set_provider_status s) d; st = upper (sr_status s); se = sr_settlement s in
      if st = ''MATCHED'' then upd_request rid set_reconciling (upd_attempt aid matched_attempt d1)
      else if st \<in> PENDING_ORDER_STATUSES \<or> se \<in> {''PENDING'', ''UNKNOWN'', []} then upd_request rid set_reconciling d1
      else if se = ''CONFIRMED'' then upd_request rid (restart_reconciling now) d1
      else if se \<in> TERMINAL_SETTLEMENTS \<or> st \<in> TERMINAL_ORDER_STATUSES then
        finalize_request rid REJECTED (Some (''Gateway returned terminal status: '' @ se)) now
          (upd_attempt aid (attempt_result ATT_FAILED None) d1)
      else upd_request rid (restart_reconciling now) d1)"

text \<open>The questions to the venue about a request whose order is known; an exception of the venue changes nothing.\<close>

definition poll_order ::
  "'w venue \<Rightarrow> nat \<Rightarrow> time \<Rightarrow> exec_request \<Rightarrow> exec_attempt \<Rightarrow> string \<Rightarrow> db \<Rightarrow> 'w \<Rightarrow> db option \<times> 'w" where
  "poll_order v cid now r a oid d w =
     (case v_fetch_fills v oid (order_token d r) w of
        (Inl _, w1) \<Rightarrow> (Some d, w1)
      | (Inr fills, w1) \<Rightarrow>
          if fills \<noteq> [] then (book_late_fills cid r a fills now d, w1)
          else if expired_gtd now r then
            (Some (expire_gtd r (Some a) ''GTD order expired at market end'' ''GTD take-profit order expired at market end'' now d),
             cancel_if_possible v oid w1)
          else case v_get_order v oid w1 of
            (Inl _, w2) \<Rightarrow> (Some d, w2)
          | (Inr s, w2) \<Rightarrow> (Some (apply_status (rq_id r) (at_id a) s now d), w2))"

definition known_order :: "exec_attempt option \<Rightarrow> (exec_attempt \<times> string) option" where
  "known_order att =
     (case att of None \<Rightarrow> None
      | Some a \<Rightarrow> (case str_or_empty (at_provider_order_id a) of [] \<Rightarrow> None | oid \<Rightarrow> Some (a, oid)))"

definition reconcile_row ::
  "'w venue outcome \<Rightarrow> (nat \<Rightarrow> nat) \<Rightarrow> exec_mode \<Rightarrow> time \<Rightarrow> nat \<Rightarrow> db \<Rightarrow> 'w \<Rightarrow> db option \<times> 'w" where
  "reconcile_row gateway newid mode now rid d w =
     (case get_request d rid of None \<Rightarrow> (Some d, w)
      | Some r \<Rightarrow>
        let age = now - rq_updated_at r; att = latest_attempt d rid; gtd = expired_gtd now r in
        if age < seconds 60 then (Some d, w)
        else if seconds MAX_RECONCILIATION_AGE_SEC < age \<and> \<not> gtd then (Some (time_out_request rid att now d), w)
        else case known_order att of
          None \<Rightarrow>
            if gtd then (Some (expire_gtd r att ''GTD order expired without provider order id''
                           ''GTD take-profit expired without provider order id'' now d), w)
            else if mode = PAPER then (Some (requeue_stale rid att now d), w)
            else (Some d, w)
        | Some (a, oid) \<Rightarrow>
            (case gateway of Inl _ \<Rightarrow> (None, w) | Inr v \<Rightarrow> poll_order v (newid rid) now r a oid d w))"

section \<open>The loop\<close>

text \<open>The result says whether the loop reached its end.\<close>

fun reconcile_rows ::
  "'w venue outcome \<Rightarrow> (nat \<Rightarrow> nat) \<Rightarrow> exec_mode \<Rightarrow> time \<Rightarrow> nat list \<Rightarrow> db \<Rightarrow> 'w \<Rightarrow> (bool \<times> db) \<times> 'w" where
  "reconcile_rows gateway newid mode now [] d w = ((True, d), w)"
| "reconcile_rows gateway newid mode now (rid # rids) d w =
     (case reconcile_row gateway newid mode now rid d w of
        (None, w') \<Rightarrow> ((False, d), w')
      | (Some d', w') \<Rightarrow> reconcile_rows gateway newid mode now rids d' w')"

definition reconcilable :: "exec_mode \<Rightarrow> exec_request \<Rightarrow> bool" where
  "reconcilable mode r \<longleftrightarrow> rq_state r \<in> RECONCILABLE_REQUEST_STATES \<and> rq_mode r = mode"

definition reconcile_active_requests ::
  "'w venue outcome \<Rightarrow> (nat \<Rightarrow> nat) \<Rightarrow> exec_mode \<Rightarrow> time \<Rightarrow> db \<Rightarrow> 'w \<Rightarrow> (bool \<times> db) \<times> 'w" where
  "reconcile_active_requests gateway newid mode now d w =
     reconcile_rows gateway newid mode now (map rq_id (filter (reconcilable mode) (db_requests d))) d w"

section \<open>Stuck manual reviews\<close>

text \<open>The fills of a stuck request; a failed call counts as no fills.\<close>

definition review_fills :: "'w venue \<Rightarrow> exec_request \<Rightarrow> exec_attempt option \<Rightarrow> db \<Rightarrow> 'w \<Rightarrow> trade_execution list \<times> 'w" where
  "review_fills v r att d w =
     (case known_order att of None \<Rightarrow> ([], w)
      | Some (a, oid) \<Rightarrow>
          if order_token d r = [] then ([], w)
          else case v_fetch_fills v oid (order_token d r) w of
            (Inl _, w1) \<Rightarrow> ([], w1) | (Inr fills, w1) \<Rightarrow> (fills, w1))"

definition resolve_review :: "'w venue \<Rightarrow> time \<Rightarrow> nat \<Rightarrow> db \<Rightarrow> 'w \<Rightarrow> db \<times> 'w" where
  "resolve_review v now rid d w =
     (case get_request d rid of None \<Rightarrow> (d, w)
      | Some r \<Rightarrow>
        (case review_fills v r (latest_attempt d rid) d w of (fills, w1) \<Rightarrow>
         let d1 = (case (fills, latest_attempt d rid) of
                     (_ # _, Some a) \<Rightarrow> finalize_request rid FILLED None now (persist_fills (at_id a) fills d)
                   | _ \<Rightarrow> finalize_request rid REJECTED
                            (Some ''Auto-resolved: no fills confirmed after MANUAL_REVIEW timeout'') now d)
         in (if rq_trade_id r = 0 then d1 else rebuild_trade_accounting (rq_trade_id r) d1, w1)))"

fun resolve_reviews :: "'w venue \<Rightarrow> time \<Rightarrow> nat list \<Rightarrow> db \<Rightarrow> 'w \<Rightarrow> db \<times> 'w" where
  "resolve_reviews v now [] d w = (d, w)"
| "resolve_reviews v now (rid # rids) d w =
     (case resolve_review v now rid d w of (d', w') \<Rightarrow> resolve_reviews v now rids d' w')"

definition stuck_review :: "exec_mode \<Rightarrow> time \<Rightarrow> exec_request \<Rightarrow> bool" where
  "stuck_review mode now r \<longleftrightarrow>
     rq_state r = MANUAL_REVIEW_REQUIRED \<and> rq_mode r = mode \<and> rq_intent r = CLOSE \<and>
     rq_updated_at r \<le> now - seconds (15 * 60)"

definition AUTO_RESOLVE_CHECK_INTERVAL_SEC :: int where
  "AUTO_RESOLVE_CHECK_INTERVAL_SEC = 60"

text \<open>\<open>last_check\<close> is the entry of \<open>_last_auto_resolve_check_by_mode\<close>; a failure to build the gateway ends the call.\<close>

definition auto_resolve_stuck_manual_reviews ::
  "'w venue outcome \<Rightarrow> exec_mode \<Rightarrow> time \<Rightarrow> time option \<Rightarrow> db \<Rightarrow> 'w \<Rightarrow> (time option \<times> db) \<times> 'w" where
  "auto_resolve_stuck_manual_reviews gateway mode now last_check d w =
     (if (case last_check of None \<Rightarrow> False | Some t \<Rightarrow> now - t < seconds AUTO_RESOLVE_CHECK_INTERVAL_SEC) then ((last_check, d), w)
      else case map rq_id (filter (stuck_review mode now) (db_requests d)) of
        [] \<Rightarrow> ((Some now, d), w)
      | rids \<Rightarrow> (case gateway of Inl _ \<Rightarrow> ((Some now, d), w)
                 | Inr v \<Rightarrow> (case resolve_reviews v now rids d w of (d', w') \<Rightarrow> ((Some now, d'), w'))))"

section \<open>The status of the worker\<close>

text \<open>
  An exception of the readiness probe: a timeout, a TLS error, or any other with its text. \<open>str\<close> of a
  timeout is empty.
\<close>

datatype probe_error = ProbeTimeout | ProbeSSL string | ProbeOther string

fun probe_text :: "probe_error \<Rightarrow> string" where
  "probe_text ProbeTimeout = []"
| "probe_text (ProbeSSL s) = s"
| "probe_text (ProbeOther s) = s"

definition classify_readiness_error :: "probe_error \<Rightarrow> string" where
  "classify_readiness_error e =
     (let message = lower (probe_text e) in
      if e = ProbeTimeout then ''READINESS_TIMEOUT''
      else if (case e of ProbeSSL _ \<Rightarrow> True | _ \<Rightarrow> False) then ''TLS_TRANSPORT_ERROR''
      else if contains ''ssl'' message \<or> contains ''bad record mac'' message then ''TLS_TRANSPORT_ERROR''
      else if contains ''connection'' message \<or> contains ''transport'' message then ''NETWORK_TRANSPORT_ERROR''
      else ''READINESS_UNKNOWN_ERROR'')"

definition new_status :: "string \<Rightarrow> exec_mode \<Rightarrow> time \<Rightarrow> worker_status" where
  "new_status wid mode now =
     \<lparr>ws_id = wid, ws_mode = mode, ws_heartbeat_at = now, ws_gateway_ready = False, ws_credentials = False,
      ws_wallet = None, ws_balance = None, ws_collateral_ready = None, ws_conditional_ready = None, ws_chain_id = None,
      ws_error_code = None, ws_error_message = None, ws_checked_at = None, ws_success_at = None\<rparr>"

definition publish_liveness_once :: "string \<Rightarrow> exec_mode \<Rightarrow> time \<Rightarrow> db \<Rightarrow> db" where
  "publish_liveness_once wid mode now d =
     (if \<exists>ws\<in>set (db_workers d). ws_id ws = wid
      then d\<lparr>db_workers := map (\<lambda>ws. if ws_id ws = wid then ws\<lparr>ws_heartbeat_at := now, ws_mode := mode\<rparr> else ws) (db_workers d)\<rparr>
      else d\<lparr>db_workers := db_workers d @ [new_status wid mode now]\<rparr>)"

text \<open>The fields of \<open>GatewayReadiness\<close> the worker reads.\<close>

record readiness =
  rd_ready :: bool
  rd_error_message :: "string option"
  rd_error_code :: "string option"
  rd_balance :: "decimal option"
  rd_collateral :: bool
  rd_conditional :: "bool option"
  rd_credentials :: bool
  rd_wallet :: "string option"
  rd_chain_id :: "int option"

definition TRANSPORT_ERRORS :: "string set" where
  "TRANSPORT_ERRORS = {''TLS_TRANSPORT_ERROR'', ''NETWORK_TRANSPORT_ERROR'', ''READINESS_TIMEOUT''}"

definition not_ready :: "string \<Rightarrow> string \<Rightarrow> time \<Rightarrow> worker_status \<Rightarrow> worker_status" where
  "not_ready code message now ws =
     ws\<lparr>ws_gateway_ready := False, ws_checked_at := Some now, ws_error_code := Some code, ws_error_message := Some message\<rparr>"

definition set_readiness :: "readiness \<Rightarrow> time \<Rightarrow> worker_status \<Rightarrow> worker_status" where
  "set_readiness rd now ws =
     ws\<lparr>ws_gateway_ready := rd_ready rd, ws_checked_at := Some now, ws_success_at := Some now, ws_error_code := None,
        ws_error_message := None,
        ws_balance := (case rd_balance rd of None \<Rightarrow> ws_balance ws | Some b \<Rightarrow> Some b),
        ws_collateral_ready := Some (rd_collateral rd),
        ws_conditional_ready := (case rd_conditional rd of None \<Rightarrow> ws_conditional_ready ws | Some b \<Rightarrow> Some b),
        ws_credentials := rd_credentials rd, ws_wallet := rd_wallet rd, ws_chain_id := rd_chain_id rd\<rparr>"

text \<open>The token the approvals are probed with; the text stored when there is none is \<open>no_market\<close> (Russian in the source).\<close>

definition probe_token :: "time \<Rightarrow> db \<Rightarrow> string" where
  "probe_token now d =
     (case sort_key (\<lambda>m. - mk_last_updated m)
             (filter (\<lambda>m. case mk_end_time m of None \<Rightarrow> False | Some e \<Rightarrow> now < e) (db_markets d)) of
        [] \<Rightarrow> [] | m # _ \<Rightarrow> mk_yes_token m)"

definition upd_worker :: "string \<Rightarrow> (worker_status \<Rightarrow> worker_status) \<Rightarrow> db \<Rightarrow> db" where
  "upd_worker wid f d = d\<lparr>db_workers := map (\<lambda>ws. if ws_id ws = wid then f ws else ws) (db_workers d)\<rparr>"

text \<open>
  \<open>invalidate_client\<close> says whether it returned (\<open>True\<close>) or raised. In the handler of a failed
  probe the inner \<open>except ... as exc\<close> unbinds \<open>exc\<close>, so after a failed invalidation \<open>str(exc)\<close>
  raises and nothing is committed.
\<close>

definition refresh_gateway_readiness_once ::
  "string \<Rightarrow> string \<Rightarrow> (string \<Rightarrow> 'w \<Rightarrow> (probe_error + readiness) \<times> 'w) \<Rightarrow> ('w \<Rightarrow> bool \<times> 'w) \<Rightarrow> time \<Rightarrow> db \<Rightarrow> 'w \<Rightarrow> db \<times> 'w" where
  "refresh_gateway_readiness_once no_market wid get_readiness invalidate_client now d w =
     (if \<not> (\<exists>ws\<in>set (db_workers d). ws_id ws = wid) then (d, w)
      else if probe_token now d = [] then
        (upd_worker wid (\<lambda>ws. (not_ready ''NO_APPROVAL_PROBE_TOKEN'' no_market now ws)\<lparr>ws_conditional_ready := None\<rparr>) d, w)
      else case get_readiness (probe_token now d) w of
        (Inl e, w1) \<Rightarrow>
          let code = classify_readiness_error e; failed = upd_worker wid (not_ready code (probe_text e) now) d in
          if code \<notin> TRANSPORT_ERRORS then (failed, w1)
          else (case invalidate_client w1 of (ok, w2) \<Rightarrow> (if ok then failed else d, w2))
      | (Inr rd, w1) \<Rightarrow>
          (case str_or_empty (rd_error_message rd) of
             [] \<Rightarrow> (upd_worker wid (set_readiness rd now) d, w1)
           | message \<Rightarrow>
               let code = (case str_or_empty (rd_error_code rd) of [] \<Rightarrow> classify_readiness_error (ProbeOther message) | c \<Rightarrow> c) in
               (upd_worker wid (not_ready code message now) d,
                if code \<in> TRANSPORT_ERRORS then snd (invalidate_client w1) else w1)))"

section \<open>One round of the worker\<close>

text \<open>
  An exception that leaves one of the three calls ends the round. \<open>gateway\<close> is what
  \<open>build_execution_gateway\<close> gives in this round.
\<close>

definition worker_round ::
  "'w venue outcome \<Rightarrow> worker_run \<Rightarrow> (nat \<Rightarrow> nat) \<Rightarrow> time option \<Rightarrow> db \<Rightarrow> 'w \<Rightarrow> (time option \<times> db) \<times> 'w" where
  "worker_round gateway run newid last_check d w =
     (case process_ready_requests gateway run d w of
        (Escaped _, d1, w1) \<Rightarrow> ((last_check, d1), w1)
      | (Unfinished _, d1, w1) \<Rightarrow> ((last_check, d1), w1)
      | (_, d1, w1) \<Rightarrow>
          (case reconcile_active_requests gateway newid (wr_mode run) (wr_done_at run) d1 w1 of
             ((False, d2), w2) \<Rightarrow> ((last_check, d2), w2)
           | ((True, d2), w2) \<Rightarrow>
               auto_resolve_stuck_manual_reviews gateway (wr_mode run) (wr_done_at run) last_check d2 w2))"

section \<open>Both loops follow the life cycle\<close>

text \<open>A change of the store that follows the machine and moves no stored request but \<open>rid\<close>.\<close>

definition touches :: "nat \<Rightarrow> db \<Rightarrow> db \<Rightarrow> bool" where
  "touches rid d d' \<longleftrightarrow> advances d d' \<and> (\<forall>j m s. j \<noteq> rid \<longrightarrow> req_at d j m s \<longrightarrow> req_at d' j m s)"

lemma touches_refl [simp]: "touches rid d d"
  by (simp add: touches_def)

lemma touches_trans [trans]: "touches rid d1 d2 \<Longrightarrow> touches rid d2 d3 \<Longrightarrow> touches rid d1 d3"
  unfolding touches_def by (blast intro: advances_trans)

lemma touches_advances: "touches rid d d' \<Longrightarrow> advances d d'"
  by (simp add: touches_def)

lemma touches_upd_request:
  assumes "\<And>r. same_identity r (f r)" "\<And>r. rq_state (f r) = t" "req_at d rid m s" "reaches m s t"
  shows "touches rid d (upd_request rid f d)" "req_at (upd_request rid f d) rid m t"
proof -
  have "get_request (upd_request rid f d) j = (if j = rid then map_option f (get_request d rid) else get_request d j)" for j
    using assms(1) by (intro get_request_upd_request) (simp add: same_identity_def)
  moreover have "advances d (upd_request rid f d)" "req_at (upd_request rid f d) rid m t"
    using advances_upd_request [of f "\<lambda>_. t", OF assms(1) _ assms(3)] upd_request_at [of f "\<lambda>_. t", OF assms(1) _ assms(3)] assms(2,4)
    by simp_all
  ultimately show "touches rid d (upd_request rid f d)" "req_at (upd_request rid f d) rid m t"
    by (simp_all add: touches_def req_at_def)
qed

lemma touches_finalize:
  assumes "req_at d rid m s" "reaches m s t"
  shows "touches rid d (finalize_request rid t e now d)" "req_at (finalize_request rid t e now d) rid m t"
proof -
  obtain q where "get_request d rid = Some q" using assms(1) by (auto simp: req_at_def)
  then show "touches rid d (finalize_request rid t e now d)" "req_at (finalize_request rid t e now d) rid m t"
    using advances_finalize [OF assms] by (simp_all add: touches_def) (simp add: req_at_def get_request_finalize)
qed

lemma touches_frame:
  "touches rid d (upd_attempt i (fail_attempt e now) d)" "touches rid d (upd_attempt i (attempt_result st err) d)"
  "touches rid d (persist_fills i fs d)" "touches rid d (rebuild_trade_accounting k d)"
  "touches rid d (upd_trade k expire_take_profit d)" "touches rid d (upd_attempt i (confirm_attempt fs now) d)"
  "touches rid d (upd_attempt i (set_provider_status s) d)" "touches rid d (upd_attempt i matched_attempt d)"
  "neutral f \<Longrightarrow> touches rid d (upd_request i f d)"
  by (auto simp: touches_def expire_take_profit_def confirm_attempt_def set_provider_status_def matched_attempt_def
      intro: advances_upd_attempt advances_upd_trade)

lemma touches_latest:
  "touches rid d (upd_latest att (fail_attempt e now) d)" "touches rid d (upd_latest att (attempt_result st err) d)"
  by (auto simp: upd_latest_def touches_frame split: option.split)

lemma req_at_latest [simp]: "req_at (upd_latest att f d) j m s = req_at d j m s"
  by (auto simp: upd_latest_def split: option.split)

lemma touches_gtd:
  "enqueue_gtd_take_profit_after_fill cid now i d = Inr d' \<Longrightarrow> touches rid d d'"
  using enqueue_gtd_advances by (auto simp: touches_def)

lemma touches_settle:
  "touches rid d x \<Longrightarrow> enqueue_gtd_take_profit_after_fill cid now i (rebuild_trade_accounting k x) = Inr d' \<Longrightarrow> touches rid d d'"
  using touches_trans [OF touches_trans [OF _ touches_frame(4)] touches_gtd] .

lemma reconcilable_edges:
  assumes "s \<in> RECONCILABLE_REQUEST_STATES"
  shows "t \<in> {FILLED, PARTIALLY_FILLED_FINAL, REJECTED, EXPIRED, RECONCILING, MANUAL_REVIEW_REQUIRED} \<Longrightarrow> reaches m s t"
    "reaches PAPER s READY"
  using assms by (auto intro!: r_into_rtranclp intro: lifecycle.intros simp: state_defs)

lemma time_out_touches:
  assumes "req_at d rid m s" "s \<in> RECONCILABLE_REQUEST_STATES"
  shows "touches rid d (time_out_request rid att now d)" "req_at (time_out_request rid att now d) rid m MANUAL_REVIEW_REQUIRED"
proof -
  have "reaches m s MANUAL_REVIEW_REQUIRED" using reconcilable_edges(1) [OF assms(2)] by simp
  note fin = touches_finalize [OF _ this]
  show "touches rid d (time_out_request rid att now d)"
    unfolding time_out_request_def by (rule touches_trans [OF touches_latest(2) fin(1)]) (simp add: assms(1))
  show "req_at (time_out_request rid att now d) rid m MANUAL_REVIEW_REQUIRED"
    unfolding time_out_request_def by (rule fin(2)) (simp add: assms(1))
qed

lemma expire_gtd_touches:
  assumes "req_at d (rq_id r) m s" "s \<in> RECONCILABLE_REQUEST_STATES"
  shows "touches (rq_id r) d (expire_gtd r att e why now d)"
proof -
  let ?d1 = "finalize_request (rq_id r) EXPIRED (Some why) now (upd_latest att (fail_attempt e now) d)"
  have "touches (rq_id r) (upd_latest att (fail_attempt e now) d) ?d1"
    using assms reconcilable_edges(1) [OF assms(2), of EXPIRED m] by (intro touches_finalize) auto
  then have "touches (rq_id r) d ?d1" by (rule touches_trans [OF touches_latest(1)])
  then show ?thesis using touches_trans [OF touches_frame(4) touches_frame(5)]
    by (auto simp: expire_gtd_def Let_def intro: touches_trans)
qed

lemma requeue_stale_touches:
  assumes "req_at d rid PAPER s" "s \<in> RECONCILABLE_REQUEST_STATES"
  shows "touches rid d (requeue_stale rid att now d)"
  unfolding requeue_stale_def
  by (rule touches_trans [OF touches_latest(1) touches_upd_request(1) [where t = READY and m = PAPER and s = s]])
    (use assms reconcilable_edges(2) in \<open>simp_all add: same_identity_def requeue_def\<close>)

lemma book_late_fills_touches:
  assumes "req_at d (rq_id r) m s" "s \<in> RECONCILABLE_REQUEST_STATES" "book_late_fills cid r a fills now d = Some d'"
  shows "touches (rq_id r) d d'"
proof -
  let ?d1 = "upd_attempt (at_id a) (confirm_attempt fills now) (upd_request (rq_id r) (set_fill_sums fills) (persist_fills (at_id a) fills d))"
  have d1: "touches (rq_id r) d ?d1"
    by (rule touches_trans [OF touches_trans [OF touches_frame(3) touches_frame(9) [OF neutral_worker_updates(3)]] touches_frame(6)])
  have "touches (rq_id r) ?d1 (finalize_request (rq_id r) t None now ?d1)" if "t \<in> {FILLED, PARTIALLY_FILLED_FINAL}" for t
    using that assms(1) reconcilable_edges(1) [OF assms(2), of t m] by (intro touches_finalize) auto
  note d2 = touches_trans [OF d1 this]
  from d2 [of FILLED] d2 [of PARTIALLY_FILLED_FINAL] show ?thesis using assms(3) unfolding book_late_fills_def Let_def
    by (auto split: if_split_asm sum.splits dest: touches_settle)
qed

lemma apply_status_touches:
  assumes "req_at d rid m s" "s \<in> RECONCILABLE_REQUEST_STATES"
  shows "touches rid d (apply_status rid aid sub now d)"
proof -
  let ?d1 = "upd_attempt aid (set_provider_status sub) d"
  have e: "reaches m s RECONCILING" "reaches m s REJECTED" using reconcilable_edges(1) [OF assms(2), of _ m] by auto
  have upd: "touches rid x (upd_request rid set_reconciling x)" "touches rid x (upd_request rid (restart_reconciling now) x)"
    "touches rid x (finalize_request rid REJECTED why now x)" if "req_at x rid m s" for x why
    using that e by (auto intro!: touches_upd_request(1) [where t = RECONCILING] touches_finalize
        simp: same_identity_def set_reconciling_def restart_reconciling_def)
  have at: "req_at ?d1 rid m s" using assms(1) by simp
  have "touches rid ?d1 (apply_status rid aid sub now d)"
    unfolding apply_status_def Let_def
    using upd(1,2) [OF at] touches_trans [OF touches_frame(8) upd(1)] touches_trans [OF touches_frame(2) upd(3)] at by auto
  then show ?thesis by (rule touches_trans [OF touches_frame(7)])
qed

lemma reconcile_row_touches:
  assumes "req_at d rid mode s" "s \<in> RECONCILABLE_REQUEST_STATES" "reconcile_row gw newid mode now rid d w = (Some d', w')"
  shows "touches rid d d'"
proof -
  obtain r where r: "get_request d rid = Some r" "rq_id r = rid" using assms(1) get_requestD by (fastforce simp: req_at_def)
  note at = assms(1) [folded r(2)]
  note small = time_out_touches(1) [OF assms(1,2)] expire_gtd_touches [OF at assms(2), unfolded r(2)]
  have poll: "touches rid d d'" if "poll_order v cid now r a oid d w = (Some d', w')" for v cid a oid
    using that book_late_fills_touches [OF at assms(2)] small apply_status_touches [OF assms(1,2)] unfolding poll_order_def r(2)
    by (auto split: prod.splits sum.splits if_split_asm)
  show ?thesis using assms(3) poll small requeue_stale_touches [of d rid s] assms(1,2)
    unfolding reconcile_row_def r(1) option.case Let_def
    by (auto split: if_split_asm option.splits prod.splits sum.splits)
qed

lemma reconcile_rows_advances:
  assumes "\<forall>rid\<in>set rids. \<exists>s\<in>RECONCILABLE_REQUEST_STATES. req_at d rid mode s" "distinct rids"
  shows "advances d (snd (fst (reconcile_rows gw newid mode now rids d w)))"
  using assms
proof (induction rids arbitrary: d w)
  case (Cons rid rids)
  obtain res w1 where row: "reconcile_row gw newid mode now rid d w = (res, w1)" by fastforce
  show ?case
  proof (cases res)
    case (Some d1)
    from Cons.prems obtain s where s: "req_at d rid mode s" "s \<in> RECONCILABLE_REQUEST_STATES" by auto
    have t: "touches rid d d1" using reconcile_row_touches [OF s] row Some by simp
    have "\<forall>i\<in>set rids. \<exists>s\<in>RECONCILABLE_REQUEST_STATES. req_at d1 i mode s"
      using Cons.prems t unfolding touches_def by (metis distinct.simps(2) list.set_intros(2))
    then have "advances d1 (snd (fst (reconcile_rows gw newid mode now rids d1 w1)))" using Cons.IH Cons.prems(2) by simp
    with touches_advances [OF t] show ?thesis by (simp add: row Some) (rule advances_trans)
  qed (simp add: row)
qed simp

lemma rows_at:
  assumes "db_ok d" "rid \<in> set (map rq_id (filter P (db_requests d)))"
  obtains r where "get_request d rid = Some r" "P r" "req_at d rid (rq_mode r) (rq_state r)"
  using assms get_request_in [OF assms(1)] by (fastforce simp: req_at_def)

lemma rows_distinct: "db_ok d \<Longrightarrow> distinct (map rq_id (filter P (db_requests d)))"
  by (auto simp: db_ok_def requests_ok_def intro: distinct_map_filter)

lemma reconcile_active_advances:
  assumes "db_ok d" shows "advances d (snd (fst (reconcile_active_requests gw newid mode now d w)))"
  unfolding reconcile_active_requests_def
proof (rule reconcile_rows_advances [OF _ rows_distinct [OF assms]], rule ballI)
  fix rid assume "rid \<in> set (map rq_id (filter (reconcilable mode) (db_requests d)))"
  from rows_at [OF assms this] show "\<exists>s\<in>RECONCILABLE_REQUEST_STATES. req_at d rid mode s"
    by (metis reconcilable_def)
qed

lemma resolve_review_touches:
  assumes "req_at d rid m MANUAL_REVIEW_REQUIRED"
  shows "touches rid d (fst (resolve_review v now rid d w))"
proof -
  have e: "reaches m MANUAL_REVIEW_REQUIRED FILLED" "reaches m MANUAL_REVIEW_REQUIRED REJECTED"
    by (auto intro!: r_into_rtranclp intro: lifecycle.intros)
  have f: "touches rid d (finalize_request rid FILLED None now (persist_fills i fs d))"
    "touches rid d (finalize_request rid REJECTED why now d)" for i fs why
    using touches_trans [OF touches_frame(3) touches_finalize(1) [OF _ e(1)]] touches_finalize(1) [OF assms e(2)] assms by simp_all
  show ?thesis using f touches_trans [OF f(1) touches_frame(4)] touches_trans [OF f(2) touches_frame(4)]
    unfolding resolve_review_def Let_def by (auto split: option.split prod.split list.split)
qed

lemma resolve_reviews_advances:
  assumes "\<forall>rid\<in>set rids. \<exists>m. req_at d rid m MANUAL_REVIEW_REQUIRED" "distinct rids"
  shows "advances d (fst (resolve_reviews v now rids d w))"
  using assms
proof (induction rids arbitrary: d w)
  case (Cons rid rids)
  obtain d1 w1 where row: "resolve_review v now rid d w = (d1, w1)" by fastforce
  from Cons.prems obtain m where "req_at d rid m MANUAL_REVIEW_REQUIRED" by auto
  then have t: "touches rid d d1" using resolve_review_touches row by (metis fst_conv)
  have "\<forall>i\<in>set rids. \<exists>m. req_at d1 i m MANUAL_REVIEW_REQUIRED"
    using Cons.prems t unfolding touches_def by (metis distinct.simps(2) list.set_intros(2))
  then have "advances d1 (fst (resolve_reviews v now rids d1 w1))" using Cons.IH Cons.prems(2) by simp
  with touches_advances [OF t] show ?case by (simp add: row) (rule advances_trans)
qed simp

lemma auto_resolve_advances:
  assumes "db_ok d" shows "advances d (snd (fst (auto_resolve_stuck_manual_reviews gw mode now last_check d w)))"
proof -
  define rids where "rids = map rq_id (filter (stuck_review mode now) (db_requests d))"
  have "\<forall>rid\<in>set rids. \<exists>m. req_at d rid m MANUAL_REVIEW_REQUIRED"
    unfolding rids_def using rows_at [OF assms, of _ "stuck_review mode now"] by (metis stuck_review_def)
  from resolve_reviews_advances [OF this] rows_distinct [OF assms, of "stuck_review mode now"]
  have "advances d (fst (resolve_reviews v now rids d w))" for v by (simp add: rids_def)
  then show ?thesis unfolding auto_resolve_stuck_manual_reviews_def rids_def [symmetric]
    by (cases rids; cases gw) (simp_all add: case_prod_beta)
qed

lemma worker_round_progress:
  assumes "db_ok d" shows "progress d (snd (fst (worker_round gw run newid last_check d w)))"
proof -
  obtain ex d1 w1 where p: "process_ready_requests gw run d w = (ex, d1, w1)" by (metis surj_pair)
  have p1: "progress d d1" using process_ready_progress [OF assms p] by simp
  then have ok1: "db_ok d1" using assms by (simp add: progress_def)
  obtain b d2 w2 where r: "reconcile_active_requests gw newid (wr_mode run) (wr_done_at run) d1 w1 = ((b, d2), w2)" by (metis surj_pair)
  have a2: "advances d1 d2" using reconcile_active_advances [OF ok1, of gw newid "wr_mode run" "wr_done_at run" w1] r by simp
  have "progress d d2" using progress_trans [OF p1 advances_progress [OF a2]] .
  moreover have "progress d (snd (fst (auto_resolve_stuck_manual_reviews gw (wr_mode run) (wr_done_at run) last_check d2 w2)))"
    by (rule progress_trans [OF calculation advances_progress [OF auto_resolve_advances]]) (rule advances_ok [OF a2 ok1])
  ultimately show ?thesis using p1 by (cases ex) (auto simp: worker_round_def p r split: bool.split)
qed

section \<open>Timeouts\<close>


definition submitted_db :: db where
  "submitted_db = upd_request 4 (set_submitting 3) attempted_db"

lemma submitted_request: "get_request submitted_db 4 = Some (set_submitting 3 (hd (db_requests waiting_db)))"
  by (simp add: submitted_db_def attempted_db_def waiting_db_def one_open_def get_request_def upd_request_def
      new_open_request_def update_where_def set_submitting_def)


text \<open>The attempt survives the questions asked about it.\<close>

lemma insort_key_map: "insort_key f (g x) (map g xs) = map g (insort_key (f \<circ> g) x xs)"
  by (induction xs) simp_all

lemma sort_key_map: "sort_key f (map g xs) = map g (sort_key (f \<circ> g) xs)"
  by (induction xs) (simp_all add: insort_key_map comp_def)

lemma latest_attempt_upd:
  assumes "\<And>a. at_id (f a) = at_id a" "\<And>a. at_request_id (f a) = at_request_id a" "\<And>a. at_no (f a) = at_no a"
  shows "latest_attempt (upd_attempt i f d) rid = map_option (\<lambda>a. if at_id a = i then f a else a) (latest_attempt d rid)"
proof -
  let ?g = "\<lambda>a. if at_id a = i then f a else a"
  have "attempts_of (upd_attempt i f d) rid = map ?g (attempts_of d rid)"
    using assms(2) by (simp add: attempts_of_def upd_attempt_def update_where_def filter_map comp_def if_distrib cong: if_cong)
  moreover have "(\<lambda>a. - at_no a) \<circ> ?g = (\<lambda>a. - at_no a)" using assms(3) by auto
  ultimately show ?thesis by (simp add: latest_attempt_def sort_key_map split: list.split)
qed

text \<open>A venue that answers every question about an order with the same confirmed order and no fills.\<close>

definition confirms_without_fills :: "'w venue \<Rightarrow> string \<Rightarrow> bool" where
  "confirms_without_fills v oid \<longleftrightarrow>
     (\<forall>t w. fst (v_fetch_fills v oid t w) = Inr []) \<and>
     (\<forall>w. \<exists>s. fst (v_get_order v oid w) = Inr s \<and> sr_settlement s = ''CONFIRMED'' \<and>
        upper (sr_status s) \<noteq> ''MATCHED'' \<and> upper (sr_status s) \<notin> PENDING_ORDER_STATUSES)"

definition awaits :: "db \<Rightarrow> nat \<Rightarrow> exec_mode \<Rightarrow> string \<Rightarrow> time \<Rightarrow> bool" where
  "awaits d rid mode oid since \<longleftrightarrow>
     (\<exists>r a. get_request d rid = Some r \<and> reconcilable mode r \<and> rq_intent r = OPEN \<and> rq_updated_at r = since \<and>
        known_order (latest_attempt d rid) = Some (a, oid))"

lemma poll_confirmed:
  assumes "confirms_without_fills v oid" "awaits d rid mode oid since" "seconds 60 \<le> now - since" "now - since \<le> seconds 900"
  shows "\<exists>d' w'. reconcile_row (Inr v) newid mode now rid d w = (Some d', w') \<and> awaits d' rid mode oid now \<and> req_at d' rid mode RECONCILING"
proof -
  from assms(2) obtain r a where r: "get_request d rid = Some r" "reconcilable mode r" "rq_intent r = OPEN" "rq_updated_at r = since"
    and a: "known_order (latest_attempt d rid) = Some (a, oid)" by (auto simp: awaits_def)
  have la: "latest_attempt d rid = Some a" "at_provider_order_id a = Some oid" "oid \<noteq> []"
    using a by (auto simp: known_order_def str_or_empty_def split: option.splits list.splits)
  have id: "rq_id r = rid" using get_requestD [OF r(1)] by simp
  obtain w1 where f: "v_fetch_fills v oid (order_token d r) w = (Inr [], w1)"
    using assms(1) by (metis confirms_without_fills_def prod.collapse)
  obtain s w2 where g: "v_get_order v oid w1 = (Inr s, w2)" and s: "sr_settlement s = ''CONFIRMED''"
    "upper (sr_status s) \<noteq> ''MATCHED''" "upper (sr_status s) \<notin> PENDING_ORDER_STATUSES"
    using assms(1) by (metis confirms_without_fills_def prod.collapse)
  let ?d1 = "upd_attempt (at_id a) (set_provider_status s) d"
  let ?d2 = "upd_request rid (restart_reconciling now) ?d1"
  have "\<not> expired_gtd now r" using r(3) by (simp add: expired_gtd_def)
  then have "reconcile_row (Inr v) newid mode now rid d w = (Some ?d2, w2)"
    using assms(3,4) r a f g s id
    by (simp add: reconcile_row_def poll_order_def apply_status_def Let_def MAX_RECONCILIATION_AGE_SEC_def)
  moreover have get: "get_request ?d2 rid = Some (restart_reconciling now r)"
    using r(1) by (simp add: get_request_upd_request restart_reconciling_def)
  moreover have "latest_attempt ?d2 rid = Some (set_provider_status s a)"
    using latest_attempt_upd [of "set_provider_status s" "at_id a" d rid] la(1)
    by (simp add: set_provider_status_def latest_attempt_def attempts_of_def upd_request_def)
  ultimately show ?thesis using r la unfolding awaits_def
    by (auto simp: req_at_def restart_reconciling_def reconcilable_def state_defs known_order_def set_provider_status_def str_or_empty_def
        split: list.splits)
qed

fun polls :: "'w venue \<Rightarrow> (nat \<Rightarrow> nat) \<Rightarrow> exec_mode \<Rightarrow> nat \<Rightarrow> time list \<Rightarrow> db \<Rightarrow> 'w \<Rightarrow> db \<times> 'w" where
  "polls v newid mode rid [] d w = (d, w)"
| "polls v newid mode rid (now # ts) d w =
     (case reconcile_row (Inr v) newid mode now rid d w of
        (Some d', w') \<Rightarrow> polls v newid mode rid ts d' w' | (None, w') \<Rightarrow> (d, w'))"

fun spaced :: "time \<Rightarrow> time list \<Rightarrow> bool" where
  "spaced since [] \<longleftrightarrow> True"
| "spaced since (now # ts) \<longleftrightarrow> seconds 60 \<le> now - since \<and> now - since \<le> seconds 900 \<and> spaced now ts"

text \<open>
  The timeout never comes for a purchase whose order the venue reports as confirmed while it reports no
  fills: every question restarts the clock the timeout is measured by, so after any number of rounds, at
  least a minute and at most fifteen minutes apart, the request is still RECONCILING.
\<close>

theorem confirmed_without_fills_never_times_out:
  assumes "confirms_without_fills v oid" "awaits d rid mode oid since" "spaced since ts" "ts \<noteq> []"
  shows "req_at (fst (polls v newid mode rid ts d w)) rid mode RECONCILING"
  using assms(2-4)
proof (induction ts arbitrary: d w since)
  case (Cons now ts)
  from Cons.prems have gap: "seconds 60 \<le> now - since" "now - since \<le> seconds 900" "spaced now ts" by simp_all
  obtain d' w' where row: "reconcile_row (Inr v) newid mode now rid d w = (Some d', w')" "awaits d' rid mode oid now"
    "req_at d' rid mode RECONCILING" using poll_confirmed [OF assms(1) Cons.prems(1) gap(1,2)] by blast
  show ?case using Cons.IH [OF row(2) gap(3)] row(1,3) by (cases "ts = []") simp_all
qed simp

definition confirmed_venue :: "unit venue" where
  "confirmed_venue =
     \<lparr>v_name = ''POLYMARKET'', v_profile = None, v_submit = (\<lambda>ord ty w. (Inl (GatewayUnavailable ''closed''), w)),
      v_get_order = (\<lambda>i w. (Inr ((submission_result True ''CONFIRMED'')\<lparr>sr_settlement := ''CONFIRMED''\<rparr>), w)),
      v_fetch_fills = (\<lambda>i t w. (Inr [], w)), v_cancel = None, v_allowance = (\<lambda>t w. (Inr 0, w)), v_api = None, v_provider = None,
      v_clock = (\<lambda>w. (0, w)), v_sleep = (\<lambda>s w. w)\<rparr>"

definition answered_db :: db where
  "answered_db = upd_attempt 9 (\<lambda>a. a\<lparr>at_provider_order_id := Some ''o1''\<rparr>) submitted_db"

lemma upper_confirmed: "upper ''CONFIRMED'' = ''CONFIRMED''" by code_simp

theorem confirmed_without_fills_never_times_out_witness:
  "req_at (fst (polls confirmed_venue id PAPER 4 [seconds 100, seconds 900, seconds 1700] answered_db ())) 4 PAPER RECONCILING"
proof (rule confirmed_without_fills_never_times_out)
  show "confirms_without_fills confirmed_venue ''o1''"
    by (simp add: confirms_without_fills_def confirmed_venue_def submission_result_def PENDING_ORDER_STATUSES_def upper_confirmed)
  have "get_request answered_db 4 = get_request submitted_db 4" by (simp add: answered_db_def)
  moreover have "latest_attempt answered_db 4 =
      Some ((new_attempt 9 (hd (db_requests waiting_db)) ''FAKE'' 1 3)\<lparr>at_provider_order_id := Some ''o1''\<rparr>)"
    by (simp add: latest_attempt_def attempts_of_def answered_db_def upd_attempt_def update_where_def submitted_db_def attempted_db_def
        new_attempt_def upd_request_def waiting_db_def one_open_def new_open_request_def)
  ultimately show "awaits answered_db 4 PAPER ''o1'' 3"
    by (simp add: awaits_def submitted_request reconcilable_def state_defs set_submitting_def waiting_db_def one_open_def
        new_open_request_def known_order_def str_or_empty_def)
qed (simp_all add: seconds_def)

section \<open>Stuck reviews and the gateway\<close>

text \<open>
  An exit that waits for a manual review is not kept when the venue cannot be asked. If the call for
  its fills raises, the request is REJECTED as if the venue had confirmed that there are none, although the
  order may have been filled; the comment above the function says that fills are checked before REJECTED.
\<close>

theorem unreachable_venue_rejects_review:
  assumes "get_request d rid = Some r" "rq_state r = MANUAL_REVIEW_REQUIRED" "known_order (latest_attempt d rid) = Some (a, oid)"
    and "v_fetch_fills v oid (order_token d r) w = (Inl e, w')"
  shows "req_at (fst (resolve_review v now rid d w)) rid (rq_mode r) REJECTED"
proof -
  have "reaches (rq_mode r) MANUAL_REVIEW_REQUIRED REJECTED" by (auto intro!: r_into_rtranclp intro: lifecycle.intros)
  with assms(1,2) have fin: "req_at (finalize_request rid REJECTED why now d) rid (rq_mode r) REJECTED" for why
    by (intro touches_finalize(2)) (auto simp: req_at_def)
  obtain w1 where "review_fills v r (latest_attempt d rid) d w = ([], w1)"
    using assms(3,4) by (cases "order_token d r = []") (auto simp: review_fills_def)
  then show ?thesis using fin by (simp add: resolve_review_def assms(1) Let_def)
qed

definition dead_venue :: "unit venue" where
  "dead_venue = confirmed_venue\<lparr>v_fetch_fills := (\<lambda>i t w. (Inl (GatewayUnavailable ''connection reset''), w))\<rparr>"

definition review_db :: db where
  "review_db = upd_request 4 (\<lambda>r. r\<lparr>rq_state := MANUAL_REVIEW_REQUIRED, rq_intent := CLOSE\<rparr>) answered_db"

theorem unreachable_venue_rejects_review_witness:
  "req_at (fst (resolve_review dead_venue (seconds 2000) 4 review_db ())) 4 PAPER REJECTED"
proof -
  let ?r = "(set_submitting 3 (hd (db_requests waiting_db)))\<lparr>rq_state := MANUAL_REVIEW_REQUIRED, rq_intent := CLOSE\<rparr>"
  have r: "get_request review_db 4 = Some ?r"
    using submitted_request by (simp add: review_db_def answered_db_def get_request_upd_request)
  have "latest_attempt review_db 4 =
      Some ((new_attempt 9 (hd (db_requests waiting_db)) ''FAKE'' 1 3)\<lparr>at_provider_order_id := Some ''o1''\<rparr>)"
    by (simp add: review_db_def latest_attempt_def attempts_of_def answered_db_def upd_attempt_def update_where_def submitted_db_def
        attempted_db_def new_attempt_def upd_request_def waiting_db_def one_open_def new_open_request_def)
  then have k: "known_order (latest_attempt review_db 4) =
      Some ((new_attempt 9 (hd (db_requests waiting_db)) ''FAKE'' 1 3)\<lparr>at_provider_order_id := Some ''o1''\<rparr>, ''o1'')"
    by (simp add: known_order_def str_or_empty_def)
  have "req_at (fst (resolve_review dead_venue (seconds 2000) 4 review_db ())) 4 (rq_mode ?r) REJECTED"
    by (rule unreachable_venue_rejects_review [OF r _ k]) (simp_all add: dead_venue_def)
  then show ?thesis by (simp add: set_submitting_def waiting_db_def one_open_def new_open_request_def)
qed

section \<open>Readiness\<close>

text \<open>
  A probe that raises takes the gateway down, with one exception. A worker that was ready is not ready
  afterwards, unless the error is a transport error and throwing the client away raised too: then nothing
  is stored and the worker stays ready, with the old time of its last check.
\<close>

theorem failed_probe_readiness:
  assumes "\<forall>ws\<in>set (db_workers d). ws_id ws = wid \<longrightarrow> ws_gateway_ready ws" "\<exists>ws\<in>set (db_workers d). ws_id ws = wid"
    and "probe_token now d \<noteq> []" "get_readiness (probe_token now d) w = (Inl e, w1)" "invalidate_client w1 = (ok, w2)"
    and "d' = fst (refresh_gateway_readiness_once no_market wid get_readiness invalidate_client now d w)"
  shows "\<forall>ws\<in>set (db_workers d'). ws_id ws = wid \<longrightarrow>
    (ws_gateway_ready ws \<longleftrightarrow> classify_readiness_error e \<in> TRANSPORT_ERRORS \<and> \<not> ok)"
  using assms by (auto simp: refresh_gateway_readiness_once_def upd_worker_def not_ready_def Let_def)

definition ready_db :: db where
  "ready_db = empty_db\<lparr>db_workers := [(new_status ''w'' LIVE 0)\<lparr>ws_gateway_ready := True\<rparr>],
     db_markets := [sample_market\<lparr>mk_end_time := Some (seconds 100)\<rparr>]\<rparr>"

theorem failed_probe_readiness_witness:
  "\<exists>d'. d' = fst (refresh_gateway_readiness_once [] ''w'' (\<lambda>t w. (Inl ProbeTimeout, w)) (\<lambda>w. (False, w)) 1 ready_db ()) \<and>
     (\<forall>ws\<in>set (db_workers d'). ws_id ws = ''w'' \<longrightarrow> (ws_gateway_ready ws \<longleftrightarrow> True))"
proof -
  have t: "probe_token 1 ready_db = ''y''"
    by (simp add: ready_db_def probe_token_def sample_market_def seconds_def)
  have c: "classify_readiness_error ProbeTimeout \<in> TRANSPORT_ERRORS"
    by (simp add: classify_readiness_error_def TRANSPORT_ERRORS_def Let_def)
  show ?thesis
    using failed_probe_readiness [of ready_db "''w''" 1 "\<lambda>t w. (Inl ProbeTimeout, w)" "()" ProbeTimeout "()" "\<lambda>w. (False, w)" False "()" _ "[]"] t c
    by (simp add: ready_db_def new_status_def)
qed

end
