(* ===== verification/Manual_Review.thy ===== *)
theory Manual_Review
  imports Worker
begin

text \<open>
  \<open>execution/manual_review_service.py\<close>: whether a LIVE request that waits for a manual review may be
  closed as unfilled, for one request and for a list of them. The texts of the blockers are Russian in the
  source; the model has a constructor for each. The batch version asks the database three grouped queries
  for all requests; its dictionaries are built as the source builds them.
\<close>

datatype blocker =
    Not_live | Wrong_state req_state | Filled_shares | Filled_cost | Provider_evidence | Stored_fills
  | Provider_trade_ids | Transaction_hashes

record NoFillEligibility =
  allowed :: bool
  blockers :: "blocker list"

definition block_if :: "bool \<Rightarrow> 'a \<Rightarrow> 'a list" where
  "block_if b x = (if b then [x] else [])"

definition has_evidence :: "exec_attempt \<Rightarrow> bool" where
  "has_evidence a \<longleftrightarrow> at_provider_order_id a \<noteq> None \<or> at_tx_hash a \<noteq> None"

definition fill_join :: "db \<Rightarrow> (exec_fill \<times> exec_attempt) list" where
  "fill_join d = filter (\<lambda>(f, a). at_id a = fl_attempt_id f) (List.product (db_fills d) (db_attempts d))"

section \<open>One request\<close>

definition evaluate_no_fill_eligibility :: "db \<Rightarrow> exec_request \<Rightarrow> NoFillEligibility" where
  "evaluate_no_fill_eligibility d r =
     (let provider_evidence = length (filter (\<lambda>a. at_request_id a = rq_id r \<and> has_evidence a) (db_attempts d));
          fill_count = length (filter (\<lambda>(f, a). at_request_id a = rq_id r) (fill_join d));
          attempts = attempts_of d (rq_id r);
          bs = block_if (rq_mode r \<noteq> LIVE) Not_live @
               block_if (rq_state r \<noteq> MANUAL_REVIEW_REQUIRED) (Wrong_state (rq_state r)) @
               block_if (rq_filled_shares r \<noteq> 0) Filled_shares @
               block_if (rq_filled_cost r \<noteq> 0) Filled_cost @
               block_if (provider_evidence \<noteq> 0) Provider_evidence @
               block_if (fill_count \<noteq> 0) Stored_fills @
               block_if (\<exists>a\<in>set attempts. at_trade_ids a \<noteq> []) Provider_trade_ids @
               block_if (\<exists>a\<in>set attempts. at_tx_hashes a \<noteq> []) Transaction_hashes
      in \<lparr>allowed = (bs = []), blockers = bs\<rparr>)"

section \<open>Many requests\<close>

text \<open>\<open>dict(SELECT key, count(*) ... GROUP BY key)\<close>.\<close>

definition group_counts :: "('a \<Rightarrow> nat) \<Rightarrow> 'a list \<Rightarrow> nat \<rightharpoonup> nat" where
  "group_counts key rows = map_of (map (\<lambda>k. (k, length (filter (\<lambda>x. key x = k) rows))) (remdups (map key rows)))"

definition get_count :: "(nat \<rightharpoonup> nat) \<Rightarrow> nat \<Rightarrow> nat" where
  "get_count m k = (case m k of None \<Rightarrow> 0 | Some n \<Rightarrow> n)"

text \<open>The \<open>defaultdict(list)\<close>.\<close>

definition attempts_by_request :: "exec_attempt list \<Rightarrow> nat \<Rightarrow> exec_attempt list" where
  "attempts_by_request attempts = foldl (\<lambda>m a. m(at_request_id a := m (at_request_id a) @ [a])) (\<lambda>_. []) attempts"

definition evaluate_no_fill_eligibility_batch :: "db \<Rightarrow> exec_request list \<Rightarrow> nat \<rightharpoonup> NoFillEligibility" where
  "evaluate_no_fill_eligibility_batch d requests =
     (if requests = [] then Map.empty
      else let ids = rq_id ` set requests;
               evidence = group_counts at_request_id (filter (\<lambda>a. at_request_id a \<in> ids \<and> has_evidence a) (db_attempts d));
               fills = group_counts (at_request_id \<circ> snd) (filter (\<lambda>(f, a). at_request_id a \<in> ids) (fill_join d));
               by_req = attempts_by_request (filter (\<lambda>a. at_request_id a \<in> ids) (db_attempts d))
           in foldl (\<lambda>results r.
                let bs = block_if (rq_mode r \<noteq> LIVE) Not_live @
                         block_if (rq_state r \<noteq> MANUAL_REVIEW_REQUIRED) (Wrong_state (rq_state r)) @
                         block_if (rq_filled_shares r \<noteq> 0) Filled_shares @
                         block_if (rq_filled_cost r \<noteq> 0) Filled_cost @
                         block_if (0 < get_count evidence (rq_id r)) Provider_evidence @
                         block_if (0 < get_count fills (rq_id r)) Stored_fills @
                         block_if (\<exists>a\<in>set (by_req (rq_id r)). at_trade_ids a \<noteq> []) Provider_trade_ids @
                         block_if (\<exists>a\<in>set (by_req (rq_id r)). at_tx_hashes a \<noteq> []) Transaction_hashes
                in results(rq_id r \<mapsto> \<lparr>allowed = (bs = []), blockers = bs\<rparr>)) Map.empty requests)"

section \<open>Lemmas\<close>

lemma group_counts_length: "get_count (group_counts key rows) k = length (filter (\<lambda>x. key x = k) rows)"
proof (cases "k \<in> key ` set rows")
  case True
  then have "group_counts key rows k = Some (length (filter (\<lambda>x. key x = k) rows))"
    by (simp add: group_counts_def map_of_map_restrict)
  then show ?thesis by (simp add: get_count_def)
next
  case False
  then have "group_counts key rows k = None" by (auto simp: group_counts_def map_of_eq_None_iff image_iff)
  moreover have "filter (\<lambda>x. key x = k) rows = []" using False by (auto simp: filter_empty_conv)
  ultimately show ?thesis by (simp add: get_count_def)
qed

lemma attempts_by_request_fold:
  "foldl (\<lambda>m a. m(at_request_id a := m (at_request_id a) @ [a])) m0 attempts i = m0 i @ filter (\<lambda>a. at_request_id a = i) attempts"
  by (induction attempts arbitrary: m0) auto

lemma attempts_by_request_filter: "attempts_by_request attempts i = filter (\<lambda>a. at_request_id a = i) attempts"
  by (simp add: attempts_by_request_def attempts_by_request_fold)

lemma filter_within:
  "k \<in> ids \<Longrightarrow> filter (\<lambda>x. key x = k) (filter (\<lambda>x. key x \<in> ids \<and> P x) xs) = filter (\<lambda>x. key x = k \<and> P x) xs"
  by (induction xs) auto

lemma foldl_results:
  "foldl (\<lambda>m r. m(key r \<mapsto> f r)) m0 rs = m0 ++ map_of (rev (map (\<lambda>r. (key r, f r)) rs))"
  by (induction rs arbitrary: m0) (simp_all add: map_add_assoc [symmetric] fun_upd_def map_add_def fun_eq_iff split: option.split)

lemma foldl_cong_set: "(\<And>r m. r \<in> set rs \<Longrightarrow> f m r = g m r) \<Longrightarrow> foldl f m0 rs = foldl g m0 rs"
  by (rule foldl_cong) auto

lemma batch_single:
  "evaluate_no_fill_eligibility_batch d requests =
   map_of (rev (map (\<lambda>r. (rq_id r, evaluate_no_fill_eligibility d r)) requests))"
proof (cases "requests = []")
  case False
  let ?ids = "rq_id ` set requests"
  have ev: "get_count (group_counts at_request_id (filter (\<lambda>a. at_request_id a \<in> ?ids \<and> has_evidence a) (db_attempts d))) i =
      length (filter (\<lambda>a. at_request_id a = i \<and> has_evidence a) (db_attempts d))" if "i \<in> ?ids" for i
    unfolding group_counts_length filter_within [OF that] ..
  have fl: "get_count (group_counts (at_request_id \<circ> snd) (filter (\<lambda>(f, a). at_request_id a \<in> ?ids) (fill_join d))) i =
      length (filter (\<lambda>(f, a). at_request_id a = i) (fill_join d))" if "i \<in> ?ids" for i
    using filter_within [OF that, of "at_request_id \<circ> snd" "\<lambda>_. True" "fill_join d"]
    by (simp add: group_counts_length comp_def case_prod_unfold)
  have by_req: "attempts_by_request (filter (\<lambda>a. at_request_id a \<in> ?ids) (db_attempts d)) i = attempts_of d i" if "i \<in> ?ids" for i
    using filter_within [OF that, of at_request_id "\<lambda>_. True" "db_attempts d"] by (simp add: attempts_by_request_filter attempts_of_def)
  have "evaluate_no_fill_eligibility_batch d requests =
      foldl (\<lambda>m r. m(rq_id r \<mapsto> evaluate_no_fill_eligibility d r)) Map.empty requests"
    unfolding evaluate_no_fill_eligibility_batch_def Let_def if_not_P [OF False]
    by (rule foldl_cong_set) (simp add: ev fl by_req evaluate_no_fill_eligibility_def Let_def)
  then show ?thesis by (simp add: foldl_results)
qed (simp add: evaluate_no_fill_eligibility_batch_def)

text \<open>
  C12: the batch evaluation gives for every request of the list what the evaluation of that request alone
  gives, whatever the store holds; for an identifier that occurs twice the later entry counts, and it has
  no entry for any other request. Three grouped queries replace three queries per request.
\<close>

theorem batch_equals_single:
  "evaluate_no_fill_eligibility_batch d requests =
   map_of (rev (map (\<lambda>r. (rq_id r, evaluate_no_fill_eligibility d r)) requests))"
  by (rule batch_single)

end
