(* ===== verification/Exit_Triggers.thy ===== *)
theory Exit_Triggers
  imports Reconcile
begin

text \<open>
  The triggers that close a position by price: \<open>trading/stoploss.py\<close>, \<open>trading/takeprofit.py\<close> and
  the two scheduler jobs \<open>trading/stoploss_worker.py\<close> and \<open>trading/takeprofit_worker.py\<close>. A cycle
  is a recursion over the trades its query selected; each trade is handled in its own transaction and an
  exception rolls it back. \<open>goes_on\<close> says whether the loop can read the next row after a rollback
  (SQLAlchemy expires the loaded rows then). The position state EXIT_FAILED of the queries is written by no
  code of the program and has no constructor in the model.
\<close>

section \<open>The decisions\<close>

definition compute_stop_price :: "pyfloat \<Rightarrow> pyfloat \<Rightarrow> pyfloat outcome" where
  "compute_stop_price entry pct =
     (if \<not> (0 < pct \<and> pct < 100)
      then Inl (ValueError (''stop_loss_pct must be in (0, 100), got '' @ float_str pct))
      else Inr (max (flt (1/100)) (min (flt (99/100)) (flt (entry * flt (1 - flt (pct / 100)))))))"

record exit_decision =
  xd_should_sell :: bool
  xd_current :: pyfloat
  xd_target :: "pyfloat option"

definition evaluate_stop_loss :: "pyfloat \<Rightarrow> pyfloat \<Rightarrow> pyfloat \<Rightarrow> exit_decision outcome" where
  "evaluate_stop_loss entry pct bid =
     bind_out (compute_stop_price entry pct)
       (\<lambda>stop. Inr \<lparr>xd_should_sell = (bid \<le> stop), xd_current = bid, xd_target = Some stop\<rparr>)"

text \<open>\<open>round(x, 4)\<close> rounds the exact value of the float, half to even.\<close>

definition round4 :: "pyfloat \<Rightarrow> pyfloat" where
  "round4 x = flt (of_int (rhe (x * 10 ^ 4)) / 10 ^ 4)"

definition compute_take_profit_price :: "pyfloat \<Rightarrow> pyfloat \<Rightarrow> pyfloat option outcome" where
  "compute_take_profit_price entry multiplier =
     (if multiplier \<le> 1
      then Inl (ValueError (''take_profit_multiplier must be > 1.0, got '' @ float_str multiplier))
      else let raw = flt (entry * multiplier) in
        Inr (if flt (99/100) < raw then None else Some (max (flt (1/100)) (round4 raw))))"

definition evaluate_take_profit :: "pyfloat \<Rightarrow> pyfloat \<Rightarrow> pyfloat \<Rightarrow> exit_decision outcome" where
  "evaluate_take_profit entry multiplier bid =
     bind_out (compute_take_profit_price entry multiplier)
       (\<lambda>tp. Inr (case tp of None \<Rightarrow> \<lparr>xd_should_sell = False, xd_current = bid, xd_target = None\<rparr>
                  | Some p \<Rightarrow> \<lparr>xd_should_sell = (p \<le> bid), xd_current = bid, xd_target = Some p\<rparr>))"

definition sell_floor :: "pyfloat \<Rightarrow> pyfloat" where
  "sell_floor bid = max (flt (1/100)) (flt (bid - flt (1/100)))"

section \<open>Which trades are watched\<close>

definition watched :: "trade \<Rightarrow> bool" where
  "watched t \<longleftrightarrow>
     tr_position t \<in> {OPEN_POS, PARTIALLY_CLOSED_POS} \<and> tr_exit_attempts t < 10 \<and>
     tr_strategy_type t \<noteq> Some ''CT_OUTSIDER'' \<and> tr_strategy_name t \<noteq> Some ''BTC_CT_T5_V1''"

definition sl_watched :: "trade \<Rightarrow> bool" where
  "sl_watched t \<longleftrightarrow> watched t \<and> tr_sl_status t = Some ''ACTIVE'' \<and> tr_sl_price t \<noteq> None"

definition tp_watched :: "trade \<Rightarrow> bool" where
  "tp_watched t \<longleftrightarrow> watched t \<and> tr_tp_status t = Some ''ACTIVE'' \<and> tr_tp_price t \<noteq> None"

definition trade_token :: "trade \<Rightarrow> live_market \<Rightarrow> string" where
  "trade_token t m = (if tr_outcome t = ''YES'' then mk_yes_token m else mk_no_token m)"

text \<open>
  The settings a cycle starts with: its switch, and a fee rate that is read although nothing uses it (a
  malformed one ends the cycle).
\<close>

definition cycle_enabled :: "db \<Rightarrow> string \<Rightarrow> bool" where
  "cycle_enabled d key \<longleftrightarrow>
     lower (str_or_empty (db_settings d key)) = ''true'' \<and>
     parse_float (case db_settings d ''POLYMARKET_FEE_RATE'' of None \<Rightarrow> ''0.002'' | Some s \<Rightarrow> s) \<noteq> None"

section \<open>The stop-loss job\<close>

definition set_sl_status :: "string \<Rightarrow> trade \<Rightarrow> trade" where
  "set_sl_status s t = t\<lparr>tr_sl_status := Some s\<rparr>"

definition queue_stop_loss :: "time \<Rightarrow> pyfloat option \<Rightarrow> trade \<Rightarrow> trade" where
  "queue_stop_loss now stop t = t\<lparr>tr_sl_status := Some ''QUEUED'', tr_sl_hit_at := Some now, tr_sl_sell_price := stop\<rparr>"

text \<open>
  \<open>prices\<close> is the best bid of a token: \<open>Inl\<close> when the call raised or the bid is not a number,
  \<open>Inr None\<close> when there is none.
\<close>

definition process_single_stoploss ::
  "(string \<Rightarrow> 'w \<Rightarrow> (py_error + pyfloat option) \<times> 'w) \<Rightarrow> nat \<Rightarrow> time \<Rightarrow> trade \<Rightarrow> db \<Rightarrow> 'w \<Rightarrow> db outcome \<times> 'w" where
  "process_single_stoploss prices cid now t d w =
     (if (case tr_market_end t of None \<Rightarrow> False | Some e \<Rightarrow> e \<le> now)
      then (Inr (upd_trade (tr_id t) (set_sl_status ''EXPIRED'') d), w)
      else case get_market d (tr_market_id t) of
        None \<Rightarrow> (Inr (upd_trade (tr_id t) (set_sl_status ''EXPIRED'') d), w)
      | Some m \<Rightarrow>
          (case prices (trade_token t m) w of
             (Inl e, w1) \<Rightarrow> (Inl e, w1)
           | (Inr None, w1) \<Rightarrow> (Inr d, w1)
           | (Inr (Some bid), w1) \<Rightarrow>
               (case tr_sl_pct t of
                  None \<Rightarrow> Inr (upd_trade (tr_id t) (set_sl_status ''EXPIRED'') d)
                | Some pct \<Rightarrow>
                    bind_out (evaluate_stop_loss (tr_executed_price t) pct bid) (\<lambda>dec.
                      if \<not> xd_should_sell dec then Inr d
                      else bind_out (enqueue_close_request d now cid (tr_id t) STOP_LOSS (sell_floor bid) None) (\<lambda>(res, d').
                        Inr (if er_disposition res = CREATED
                             then upd_trade (tr_id t) (queue_stop_loss now (xd_target dec)) d' else d'))), w1)))"

fun stoploss_trades ::
  "(string \<Rightarrow> 'w \<Rightarrow> (py_error + pyfloat option) \<times> 'w) \<Rightarrow> (int \<Rightarrow> nat) \<Rightarrow> bool \<Rightarrow> time \<Rightarrow> trade list \<Rightarrow> db \<Rightarrow> 'w \<Rightarrow> db \<times> 'w" where
  "stoploss_trades prices newid goes_on now [] d w = (d, w)"
| "stoploss_trades prices newid goes_on now (t # ts) d w =
     (case process_single_stoploss prices (newid (tr_id t)) now t d w of
        (Inr d', w') \<Rightarrow> stoploss_trades prices newid goes_on now ts d' w'
      | (Inl _, w') \<Rightarrow> if goes_on then stoploss_trades prices newid goes_on now ts d w' else (d, w'))"

text \<open>
  The recovery of trades that hang in TRIGGERING: \<open>open_size\<close> is the open size the client reports for a
  market (it always answers with an empty dictionary, which is size zero).
\<close>

definition recover_triggering :: "(string \<Rightarrow> decimal) \<Rightarrow> time \<Rightarrow> db \<Rightarrow> db" where
  "recover_triggering open_size now d =
     d\<lparr>db_trades := map (\<lambda>t.
         if tr_sl_status t = Some ''TRIGGERING'' \<and> tr_sl_hit_at t = None
         then (let token = (case get_market d (tr_market_id t) of None \<Rightarrow> [] | Some m \<Rightarrow> trade_token t m) in
               if token = [] \<or> open_size (tr_market_id t) = 0
               then t\<lparr>tr_sl_status := Some ''TRIGGERED'', tr_sl_hit_at := Some now\<rparr>
               else t\<lparr>tr_sl_status := Some ''ACTIVE''\<rparr>)
         else t) (db_trades d)\<rparr>"

definition stoploss_worker_cycle ::
  "(string \<Rightarrow> 'w \<Rightarrow> (py_error + pyfloat option) \<times> 'w) \<Rightarrow> (string \<Rightarrow> decimal) \<Rightarrow> (int \<Rightarrow> nat) \<Rightarrow> bool \<Rightarrow> time \<Rightarrow> db \<Rightarrow> 'w \<Rightarrow> db \<times> 'w" where
  "stoploss_worker_cycle prices open_size newid goes_on now d w =
     (if \<not> cycle_enabled d ''STOP_LOSS_ENABLED'' then (d, w)
      else let d1 = recover_triggering open_size now d in
        stoploss_trades prices newid goes_on now (filter sl_watched (db_trades d1)) d1 w)"

section \<open>The take-profit job\<close>

definition set_tp_status :: "string \<Rightarrow> trade \<Rightarrow> trade" where
  "set_tp_status s t = t\<lparr>tr_tp_status := Some s\<rparr>"

definition queue_tp_hit :: "time \<Rightarrow> pyfloat option \<Rightarrow> trade \<Rightarrow> trade" where
  "queue_tp_hit now tp t = t\<lparr>tr_tp_status := Some ''QUEUED'', tr_tp_hit_at := Some now, tr_tp_sell_price := tp\<rparr>"

text \<open>The polling branch of one trade.\<close>

definition poll_take_profit ::
  "(string \<Rightarrow> 'w \<Rightarrow> (py_error + pyfloat option) \<times> 'w) \<Rightarrow> nat \<Rightarrow> time \<Rightarrow> trade \<Rightarrow> live_market \<Rightarrow> db \<Rightarrow> 'w \<Rightarrow> db outcome \<times> 'w" where
  "poll_take_profit prices cid now t m d w =
     (case prices (trade_token t m) w of
        (Inl e, w1) \<Rightarrow> (Inl e, w1)
      | (Inr None, w1) \<Rightarrow> (Inr d, w1)
      | (Inr (Some bid), w1) \<Rightarrow>
          (case tr_tp_multiplier t of
             None \<Rightarrow> Inr (upd_trade (tr_id t) (set_tp_status ''EXPIRED'') d)
           | Some k \<Rightarrow>
               bind_out (evaluate_take_profit (tr_executed_price t) k bid) (\<lambda>dec.
                 if \<not> xd_should_sell dec then Inr d
                 else bind_out (enqueue_close_request d now cid (tr_id t) TAKE_PROFIT (sell_floor bid) None) (\<lambda>(res, d').
                   Inr (if er_disposition res = CREATED
                        then upd_trade (tr_id t) (queue_tp_hit now (xd_target dec)) d' else d'))), w1))"

text \<open>
  One trade. \<open>seen\<close> is the loop variable \<open>market_end\<close>: it is assigned only for a trade that has an end
  time of its own and keeps the value of an earlier trade otherwise; \<open>None\<close> while it is unbound. The
  result has its new value.
\<close>

definition process_single_takeprofit ::
  "(string \<Rightarrow> 'w \<Rightarrow> (py_error + pyfloat option) \<times> 'w) \<Rightarrow> nat \<Rightarrow> string \<Rightarrow> time \<Rightarrow> time option \<Rightarrow> trade \<Rightarrow> db \<Rightarrow> 'w \<Rightarrow>
   time option \<times> db outcome \<times> 'w" where
  "process_single_takeprofit prices cid order_mode now seen t d w =
     (let market_end = (case tr_market_end t of None \<Rightarrow> seen | Some e \<Rightarrow> Some e) in
      (market_end,
       if (case tr_market_end t of None \<Rightarrow> False | Some e \<Rightarrow> e \<le> now)
       then (Inr (upd_trade (tr_id t) (set_tp_status ''EXPIRED'') d), w)
       else case get_market d (tr_market_id t) of
         None \<Rightarrow> (Inr (upd_trade (tr_id t) (set_tp_status ''EXPIRED'') d), w)
       | Some m \<Rightarrow>
           if order_mode = ''GTD'' \<and> tr_mode t = LIVE then
             (case market_end of
                None \<Rightarrow> (Inl (UnboundLocalError ''market_end''), w)
              | Some e \<Rightarrow>
                  if now + seconds 180 < e then
                    (bind_out (enqueue_close_request d now cid (tr_id t) TAKE_PROFIT (num_or (tr_tp_price t) 0) (Some e)) (\<lambda>(res, d').
                       Inr (if er_disposition res = CREATED then upd_trade (tr_id t) queue_take_profit d' else d')), w)
                  else poll_take_profit prices cid now t m d w)
           else poll_take_profit prices cid now t m d w))"

fun takeprofit_trades ::
  "(string \<Rightarrow> 'w \<Rightarrow> (py_error + pyfloat option) \<times> 'w) \<Rightarrow> (int \<Rightarrow> nat) \<Rightarrow> bool \<Rightarrow> string \<Rightarrow> time \<Rightarrow> time option \<Rightarrow> trade list \<Rightarrow>
   db \<Rightarrow> 'w \<Rightarrow> db \<times> 'w" where
  "takeprofit_trades prices newid goes_on order_mode now seen [] d w = (d, w)"
| "takeprofit_trades prices newid goes_on order_mode now seen (t # ts) d w =
     (case process_single_takeprofit prices (newid (tr_id t)) order_mode now seen t d w of
        (seen', Inr d', w') \<Rightarrow> takeprofit_trades prices newid goes_on order_mode now seen' ts d' w'
      | (seen', Inl _, w') \<Rightarrow>
          if goes_on then takeprofit_trades prices newid goes_on order_mode now seen' ts d w' else (d, w'))"

definition takeprofit_worker_cycle ::
  "(string \<Rightarrow> 'w \<Rightarrow> (py_error + pyfloat option) \<times> 'w) \<Rightarrow> (int \<Rightarrow> nat) \<Rightarrow> bool \<Rightarrow> time \<Rightarrow> db \<Rightarrow> 'w \<Rightarrow> db \<times> 'w" where
  "takeprofit_worker_cycle prices newid goes_on now d w =
     (if \<not> cycle_enabled d ''TAKE_PROFIT_ENABLED'' then (d, w)
      else takeprofit_trades prices newid goes_on
             (upper (strip (setting_or (db_settings d) ''TAKE_PROFIT_ORDER_MODE'' ''GTD''))) now None
             (filter tp_watched (db_trades d)) d w)"

section \<open>The jobs follow the life cycle\<close>

lemma advances_sl_trade [simp]:
  "advances d (upd_trade i (set_sl_status s) d)" "advances d (upd_trade i (set_tp_status s) d)"
  "advances d (upd_trade i (queue_stop_loss now p) d)" "advances d (upd_trade i (queue_tp_hit now p) d)"
  "advances d (upd_trade i queue_take_profit d)"
  by (rule advances_upd_trade; simp add: set_sl_status_def set_tp_status_def queue_stop_loss_def queue_tp_hit_def queue_take_profit_def)+

lemmas close_steps = conjunct1 [OF advances_enqueue_close] advances_trans [OF conjunct1 [OF advances_enqueue_close] advances_sl_trade(3)]
  advances_trans [OF conjunct1 [OF advances_enqueue_close] advances_sl_trade(4)]
  advances_trans [OF conjunct1 [OF advances_enqueue_close] advances_sl_trade(5)]

lemma process_single_stoploss_advances:
  "process_single_stoploss prices cid now t d w = (Inr d', w') \<Longrightarrow> advances d d'"
  unfolding process_single_stoploss_def
  by (auto split: if_split_asm option.splits prod.splits sum.splits intro: close_steps)

lemma stoploss_trades_advances: "advances d (fst (stoploss_trades prices newid goes_on now ts d w))"
proof (induction ts arbitrary: d w)
  case (Cons t ts)
  obtain r w1 where p: "process_single_stoploss prices (newid (tr_id t)) now t d w = (r, w1)" by fastforce
  show ?case using Cons.IH p by (cases r) (auto intro: advances_trans [OF process_single_stoploss_advances])
qed simp

lemma recover_triggering_advances: "advances d (recover_triggering open_size now d)"
  by (rule advances_other) (auto simp: recover_triggering_def Let_def)

lemma stoploss_cycle_advances: "advances d (fst (stoploss_worker_cycle prices open_size newid goes_on now d w))"
  unfolding stoploss_worker_cycle_def Let_def
  using advances_trans [OF recover_triggering_advances stoploss_trades_advances] by auto

lemma poll_take_profit_advances: "poll_take_profit prices cid now t m d w = (Inr d', w') \<Longrightarrow> advances d d'"
  unfolding poll_take_profit_def
  by (auto split: if_split_asm option.splits prod.splits sum.splits intro: close_steps)

lemma process_single_takeprofit_advances:
  "process_single_takeprofit prices cid order_mode now seen t d w = (seen', Inr d', w') \<Longrightarrow> advances d d'"
  unfolding process_single_takeprofit_def Let_def
  by (auto split: if_split_asm option.splits sum.splits prod.splits intro: close_steps dest: poll_take_profit_advances)

lemma takeprofit_trades_advances: "advances d (fst (takeprofit_trades prices newid goes_on order_mode now seen ts d w))"
proof (induction ts arbitrary: d w seen)
  case (Cons t ts)
  obtain s r w1 where p: "process_single_takeprofit prices (newid (tr_id t)) order_mode now seen t d w = (s, r, w1)" by (metis surj_pair)
  show ?case using Cons.IH p by (cases r) (auto intro: advances_trans [OF process_single_takeprofit_advances])
qed simp

lemma takeprofit_cycle_advances: "advances d (fst (takeprofit_worker_cycle prices newid goes_on now d w))"
  unfolding takeprofit_worker_cycle_def using takeprofit_trades_advances by auto

section \<open>Properties\<close>

lemma enqueue_close_created:
  assumes "enqueue_close_request d now rid tid g li ex = Inr (res, d')" "er_disposition res = CREATED"
  obtains t sh where "get_trade d tid = Some t" "tr_remaining t = Some sh" "0 < sh"
    "db_requests d' = db_requests d @ [new_close_request rid now t g li (case ex of Some e \<Rightarrow> e | None \<Rightarrow> now + seconds 60) sh]"
    "db_trades d' = db_trades (upd_trade tid (mark_exit_requested g) d)"
proof -
  have no: "er_disposition (blocked why) \<noteq> CREATED" "er_disposition (duplicate i) \<noteq> CREATED" for why i
    by (simp_all add: blocked_def duplicate_def)
  from assms no obtain t sh ins d1 where t: "get_trade d tid = Some t" "tr_remaining t = Some sh" "0 < sh"
    and i: "insert_request uq_active_close_request
       (new_close_request rid now t g li (case ex of Some e \<Rightarrow> e | None \<Rightarrow> now + seconds 60) sh) d = Inr (ins, d1)"
    and r: "(case ins of None \<Rightarrow> after_close_conflict d1 tid
       | Some i \<Rightarrow> bind_out (request_exit d1 tid g) (\<lambda>d''. Inr (created i, d''))) = Inr (res, d')"
    unfolding enqueue_close_request_def Let_def by (auto split: option.splits if_split_asm sum.splits prod.splits)
  have "ins \<noteq> None" using r assms(2) no by (auto simp: after_close_conflict_def split: sum.splits option.splits)
  then obtain k where k: "ins = Some k" by blast
  from insert_request_SomeD [OF i [unfolded k]] r show thesis
    by (intro that [OF t]) (auto simp: k request_exit_def upd_trade_def split: if_splits)
qed

lemma enqueue_close_unchanged:
  "enqueue_close_request d now rid tid g li ex = Inr (res, d') \<Longrightarrow> er_disposition res \<noteq> CREATED \<Longrightarrow> d' = d"
  by (erule enqueue_close_cases) (simp_all add: created_def)

lemma stop_price_bounds: "compute_stop_price entry pct = Inr p \<Longrightarrow> flt (1/100) \<le> p \<and> p \<le> max (flt (1/100)) (flt (99/100))"
  by (auto simp: compute_stop_price_def split: if_splits)

text \<open>
  C40: the stop-loss job sells only at or below the stop price. When it handles a trade without an
  exception and changes more than the status of its stop-loss, the bid it saw is at most the stop price of
  the trade (which lies between the two price limits), and it queued exactly one request: a CLOSE of all
  remaining shares, marked STOP_LOSS, with a limit one cent below the bid but not below one cent.
\<close>

theorem stop_loss_sells_below_stop:
  assumes "process_single_stoploss prices cid now t d w = (Inr d', w')" "db_requests d' \<noteq> db_requests d"
    and "get_trade d (tr_id t) = Some t"
  shows "\<exists>m bid pct stop r. get_market d (tr_market_id t) = Some m \<and> fst (prices (trade_token t m) w) = Inr (Some bid) \<and>
    tr_sl_pct t = Some pct \<and> compute_stop_price (tr_executed_price t) pct = Inr stop \<and> bid \<le> stop \<and>
    db_requests d' = db_requests d @ [r] \<and> rq_intent r = CLOSE \<and> rq_trigger r = Some STOP_LOSS \<and>
    rq_requested_shares r = tr_remaining t \<and> rq_limit_price r = Some (repr_dec (sell_floor bid)) \<and>
    map_option tr_sl_status (get_trade d' (tr_id t)) = Some (Some ''QUEUED'')"
proof -
  let ?queue = "\<lambda>dec d1. upd_trade (tr_id t) (queue_stop_loss now (xd_target dec)) d1"
  from assms(1,2) obtain m bid pct dec res d1 where m: "get_market d (tr_market_id t) = Some m"
    and b: "prices (trade_token t m) w = (Inr (Some bid), w')" and pct: "tr_sl_pct t = Some pct"
    and dec: "evaluate_stop_loss (tr_executed_price t) pct bid = Inr dec" "xd_should_sell dec"
    and e: "enqueue_close_request d now cid (tr_id t) STOP_LOSS (sell_floor bid) None = Inr (res, d1)"
    and d': "d' = (if er_disposition res = CREATED then ?queue dec d1 else d1)"
    unfolding process_single_stoploss_def
    by (auto simp: upd_trade_def split: if_split_asm option.splits prod.splits sum.splits)
  have c: "er_disposition res = CREATED"
    using enqueue_close_unchanged [OF e] assms(2) d' by (auto split: if_splits)
  from enqueue_close_created [OF e c] assms(3) obtain sh where
    new: "tr_remaining t = Some sh" "db_requests d1 = db_requests d @ [new_close_request cid now t STOP_LOSS (sell_floor bid) (now + seconds 60) sh]"
      "db_trades d1 = db_trades (upd_trade (tr_id t) (mark_exit_requested STOP_LOSS) d)" by auto
  obtain stop where stop: "compute_stop_price (tr_executed_price t) pct = Inr stop" "bid \<le> stop"
    using dec by (auto simp: evaluate_stop_loss_def split: sum.splits)
  have "get_trade d1 (tr_id t) = Some (mark_exit_requested STOP_LOSS t)"
    using new(3) assms(3) get_trade_upd_trade [of "mark_exit_requested STOP_LOSS" "tr_id t" d "tr_id t"] by (simp add: get_trade_def)
  then have "map_option tr_sl_status (get_trade d' (tr_id t)) = Some (Some ''QUEUED'')"
    using d' c get_trade_upd_trade [of "queue_stop_loss now (xd_target dec)" "tr_id t" d1 "tr_id t"]
    by (simp add: queue_stop_loss_def)
  then show ?thesis using m b pct stop new d' c by (auto simp: new_close_request_def upd_trade_def)
qed

definition bid_at :: "pyfloat \<Rightarrow> string \<Rightarrow> unit \<Rightarrow> (py_error + pyfloat option) \<times> unit" where
  "bid_at p t w = (Inr (Some p), w)"

definition guarded_trade :: trade where
  "guarded_trade = (sample_trade 7 OPEN_POS (Some 2))\<lparr>tr_sl_pct := Some 50, tr_sl_price := Some (1/4), tr_sl_status := Some ''ACTIVE''\<rparr>"

definition guarded_db :: db where
  "guarded_db = empty_db\<lparr>db_trades := [guarded_trade], db_markets := [sample_market]\<rparr>"

lemma half_stop: "compute_stop_price (1/2) 50 = Inr (1/4)" by code_simp

lemma guarded_stop:
  "\<exists>d'. process_single_stoploss (bid_at (1/8)) 4 0 guarded_trade guarded_db () = (Inr d', ()) \<and> db_requests d' \<noteq> db_requests guarded_db"
  by (simp add: process_single_stoploss_def guarded_trade_def guarded_db_def sample_trade_def empty_db_def sample_market_def get_market_def
      bid_at_def evaluate_stop_loss_def half_stop enqueue_close_request_def get_trade_def existing_close_def insert_request_def
      ck_positive_shares_def new_close_request_def request_exit_def created_def state_defs Let_def upd_trade_def)

theorem stop_loss_sells_below_stop_witness:
  "\<exists>d' r. process_single_stoploss (bid_at (1/8)) 4 0 guarded_trade guarded_db () = (Inr d', ()) \<and> db_requests d' = [r] \<and>
     rq_trigger r = Some STOP_LOSS \<and> rq_requested_shares r = Some 2"
proof -
  obtain d' where d': "process_single_stoploss (bid_at (1/8)) 4 0 guarded_trade guarded_db () = (Inr d', ())"
    "db_requests d' \<noteq> db_requests guarded_db" using guarded_stop by blast
  have g: "get_trade guarded_db (tr_id guarded_trade) = Some guarded_trade"
    by (simp add: get_trade_def guarded_db_def)
  from stop_loss_sells_below_stop [OF d' g] d'(1) show ?thesis
    by (auto simp: guarded_db_def empty_db_def guarded_trade_def sample_trade_def)
qed

text \<open>
  The native take-profit order of a trade without an end time of its own is never placed for the end of
  its market. The loop reads \<open>market_end\<close>, which such a trade does not assign: for the first trades of a
  round the read raises and the trade is skipped, and after a trade that has an end time the order is
  queued to expire at the end of that other trade's market, whatever end the market of this trade has.
\<close>

theorem take_profit_expiry_of_another_market:
  assumes "tr_market_end t = None" "tr_mode t = LIVE" "get_market d (tr_market_id t) = Some m"
  shows "process_single_takeprofit prices cid ''GTD'' now None t d w = (None, Inl (UnboundLocalError ''market_end''), w) \<and>
    (\<forall>e d' w'. now + seconds 180 < e \<longrightarrow> process_single_takeprofit prices cid ''GTD'' now (Some e) t d w = (Some e, Inr d', w') \<longrightarrow>
       d' = d \<or> (\<exists>r. db_requests d' = db_requests d @ [r] \<and> rq_expires_at r = Some e))"
proof -
  have "d' = d \<or> (\<exists>r. db_requests d' = db_requests d @ [r] \<and> rq_expires_at r = Some e)"
    if late: "now + seconds 180 < e" and p: "process_single_takeprofit prices cid ''GTD'' now (Some e) t d w = (Some e, Inr d', w')" for e d' w'
  proof -
    from p assms late obtain res d1 where
      c: "enqueue_close_request d now cid (tr_id t) TAKE_PROFIT (num_or (tr_tp_price t) 0) (Some e) = Inr (res, d1)"
      and d': "d' = (if er_disposition res = CREATED then upd_trade (tr_id t) queue_take_profit d1 else d1)"
      by (auto simp: process_single_takeprofit_def Let_def split: sum.splits)
    show ?thesis
    proof (cases "er_disposition res = CREATED")
      case True
      obtain u sh where "db_requests d1 = db_requests d @ [new_close_request cid now u TAKE_PROFIT (num_or (tr_tp_price t) 0) e sh]"
        by (rule enqueue_close_created [OF c True]) simp
      then show ?thesis using d' True by (simp add: upd_trade_def new_close_request_def)
    next
      case False
      then show ?thesis using enqueue_close_unchanged [OF c False] d' by simp
    qed
  qed
  then show ?thesis using assms by (simp add: process_single_takeprofit_def Let_def)
qed

definition target_trade :: trade where
  "target_trade = (sample_trade 7 OPEN_POS (Some 2))\<lparr>tr_mode := LIVE, tr_tp_price := Some (3/4), tr_tp_status := Some ''ACTIVE''\<rparr>"

definition target_db :: db where
  "target_db = empty_db\<lparr>db_trades := [target_trade], db_markets := [sample_market\<lparr>mk_end_time := Some (seconds 9000)\<rparr>]\<rparr>"

theorem take_profit_expiry_of_another_market_witness:
  "\<exists>d' r. process_single_takeprofit (bid_at (1/8)) 4 ''GTD'' 0 (Some (seconds 500)) target_trade target_db () =
     (Some (seconds 500), Inr d', ()) \<and> db_requests d' = [r] \<and> rq_expires_at r = Some (seconds 500)"
proof -
  have run: "\<exists>d'. process_single_takeprofit (bid_at (1/8)) 4 ''GTD'' 0 (Some (seconds 500)) target_trade target_db () =
      (Some (seconds 500), Inr d', ()) \<and> db_requests d' \<noteq> []"
    by (simp add: process_single_takeprofit_def target_trade_def target_db_def sample_trade_def empty_db_def sample_market_def
        get_market_def enqueue_close_request_def get_trade_def existing_close_def insert_request_def ck_positive_shares_def
        new_close_request_def request_exit_def created_def state_defs Let_def upd_trade_def seconds_def)
  then obtain d' where d': "process_single_takeprofit (bid_at (1/8)) 4 ''GTD'' 0 (Some (seconds 500)) target_trade target_db () =
      (Some (seconds 500), Inr d', ())" "db_requests d' \<noteq> []" by blast
  have "get_market target_db (tr_market_id target_trade) = Some (sample_market\<lparr>mk_end_time := Some (seconds 9000)\<rparr>)"
    by (simp add: get_market_def target_db_def target_trade_def sample_trade_def sample_market_def)
  from take_profit_expiry_of_another_market [OF _ _ this, of "bid_at (1/8)" 4 0 "()"] d'
  have "d' = target_db \<or> (\<exists>r. db_requests d' = db_requests target_db @ [r] \<and> rq_expires_at r = Some (seconds 500))"
    by (simp add: target_trade_def sample_trade_def seconds_def)
  then show ?thesis using d' by (auto simp: target_db_def empty_db_def)
qed

end
