(* ===== verification/Live_Session.thy ===== *)
theory Live_Session
  imports Outbox
begin

text \<open>
  \<open>execution/live_session_service.py\<close> and \<open>execution/assets.py\<close>: the assets of a LIVE session, its
  exposure and budget, and the readiness check that guards its activation. The queries are read-only. The
  texts of errors and warnings are Russian in the source; the model has a constructor for each.
\<close>

section \<open>Assets\<close>

definition LIVE_TRADING_ASSETS :: "string list" where
  "LIVE_TRADING_ASSETS = [''BTC'', ''ETH'', ''SOL'', ''XRP'', ''DOGE'']"

text \<open>The value is a text (\<open>None\<close> reads as the empty one); the error is the refused value.\<close>

definition normalize_live_asset :: "string \<Rightarrow> string outcome" where
  "normalize_live_asset value =
     (let a = upper (strip value); asset = (if ends_with ''USDT'' a then take (length a - 4) a else a) in
      if asset \<in> set LIVE_TRADING_ASSETS then Inr asset else Inl (ValueError value))"

fun split_comma :: "string \<Rightarrow> string list" where
  "split_comma [] = [[]]"
| "split_comma (c # cs) =
     (if c = CHR '','' then [] # split_comma cs
      else case split_comma cs of [] \<Rightarrow> [[c]] | w # ws \<Rightarrow> (c # w) # ws)"

datatype asset_input = No_assets | Asset_text string | Asset_list "string list" | Not_iterable

fun raw_assets :: "bool \<Rightarrow> asset_input \<Rightarrow> string list outcome" where
  "raw_assets default_all No_assets = Inr (if default_all then LIVE_TRADING_ASSETS else [])"
| "raw_assets default_all (Asset_text s) = Inr (split_comma s)"
| "raw_assets default_all (Asset_list xs) = Inr xs"
| "raw_assets default_all Not_iterable = Inl (ValueError ''Not_iterable'')"

fun selected_assets :: "string list \<Rightarrow> string set outcome" where
  "selected_assets [] = Inr {}"
| "selected_assets (v # vs) =
     (if strip v = [] then selected_assets vs
      else bind_out (normalize_live_asset v) (\<lambda>a. bind_out (selected_assets vs) (\<lambda>s. Inr (insert a s))))"

definition normalize_live_assets :: "bool \<Rightarrow> asset_input \<Rightarrow> string list outcome" where
  "normalize_live_assets default_all values =
     bind_out (raw_assets default_all values) (\<lambda>raw. bind_out (selected_assets raw) (\<lambda>s.
       if s = {} then Inl (ValueError ''No assets selected'')
       else Inr (filter (\<lambda>a. a \<in> s) LIVE_TRADING_ASSETS)))"

section \<open>Exposure and budget\<close>

definition get_max_order_cost :: "exec_request \<Rightarrow> decimal outcome" where
  "get_max_order_cost r =
     (let amount = max (rq_target_amount r) (num_or (rq_max_spend r) 0) in
      if amount \<le> 0 then Inl (LiveSessionError ''LIVE order amount must be positive'') else Inr amount)"

definition get_active_session_for_update :: "db \<Rightarrow> live_session option" where
  "get_active_session_for_update d =
     first_row (order_started_desc (filter (\<lambda>s. ls_status s \<in> {DRAFT_S, READY_S, ACTIVE_S}) (db_sessions d)))"

definition SESSION_POSITION_STATUSES :: "pos_status set" where
  "SESSION_POSITION_STATUSES = {OPEN_POS, PARTIALLY_CLOSED_POS, EXIT_REQUESTED_POS, CLOSING_POS}"

definition ACTIVE_TRADABLE_STATUSES :: "pos_status set" where
  "ACTIVE_TRADABLE_STATUSES = {OPENING_POS, OPEN_POS, CLOSING_POS, RECONCILING_POS}"

definition session_trade :: "pos_status set \<Rightarrow> nat \<Rightarrow> trade \<Rightarrow> bool" where
  "session_trade statuses sid t \<longleftrightarrow> tr_live_session_id t = Some sid \<and> tr_mode t = LIVE \<and> tr_position t \<in> statuses"

definition count_session_positions :: "db \<Rightarrow> nat \<Rightarrow> nat" where
  "count_session_positions d sid = length (filter (session_trade SESSION_POSITION_STATUSES sid) (db_trades d))"

definition session_entry_cost :: "pos_status set \<Rightarrow> db \<Rightarrow> nat \<Rightarrow> decimal" where
  "session_entry_cost statuses d sid = sql_sum (map tr_entry_cost (filter (session_trade statuses sid) (db_trades d)))"

text \<open>The unfilled rest of the reservations of the session that are not released.\<close>

definition session_reserved :: "db \<Rightarrow> nat \<Rightarrow> decimal" where
  "session_reserved d sid =
     sum_list (map (\<lambda>x. case get_request d (rs_request_id x) of None \<Rightarrow> 0 | Some r \<Rightarrow> max 0 (rs_amount x - rq_filled_cost r))
       (filter (\<lambda>x. rs_released_at x = None \<and>
          (case get_request d (rs_request_id x) of None \<Rightarrow> False | Some r \<Rightarrow> rq_live_session_id r = Some sid)) (db_reservations d)))"

text \<open>Filled purchases whose trade has no cost yet.\<close>

definition session_request_filled :: "db \<Rightarrow> nat \<Rightarrow> decimal" where
  "session_request_filled d sid =
     sum_list (map rq_filled_cost (filter (\<lambda>r. rq_live_session_id r = Some sid \<and> rq_intent r = OPEN \<and> 0 < rq_filled_cost r \<and>
       (case get_trade d (rq_trade_id r) of None \<Rightarrow> True | Some t \<Rightarrow> num_or (tr_entry_cost t) 0 \<le> 0)) (db_requests d)))"

definition get_session_exposure :: "db \<Rightarrow> nat \<Rightarrow> decimal" where
  "get_session_exposure d sid =
     d_add (d_add (session_entry_cost SESSION_POSITION_STATUSES d sid) (session_reserved d sid)) (session_request_filled d sid)"

record SessionBudgetSnapshot =
  bs_filled :: decimal
  bs_reserved :: decimal
  bs_committed :: decimal
  bs_remaining :: decimal

definition get_session_budget_snapshot :: "db \<Rightarrow> live_session \<Rightarrow> SessionBudgetSnapshot" where
  "get_session_budget_snapshot d s =
     (let filled = d_add (session_entry_cost ACTIVE_TRADABLE_STATUSES d (ls_id s)) (session_request_filled d (ls_id s));
          reserved = session_reserved d (ls_id s); committed = d_add filled reserved
      in \<lparr>bs_filled = filled, bs_reserved = reserved, bs_committed = committed,
          bs_remaining = max 0 (d_sub (ls_budget s) committed)\<rparr>)"

section \<open>Readiness\<close>

datatype readiness_check =
    C_live_worker | C_heartbeat | C_credentials | C_wallet | C_network | C_gateway | C_balance
  | C_collateral_allowance | C_conditional_allowance | C_active_requests | C_old_positions

datatype readiness_error =
    E_no_worker | E_heartbeat | E_credentials | E_wallet | E_network "int option" | E_gateway "string option"
  | E_unavailable "string option" | E_no_balance | E_balance decimal decimal | E_collateral | E_conditional
  | E_active_requests nat | E_old_positions nat

record LiveReadinessResult =
  rr_ready :: bool
  rr_checks :: "readiness_check list"
  rr_errors :: "readiness_error list"
  rr_warned :: bool

definition get_latest_live_worker_status :: "db \<Rightarrow> worker_status option" where
  "get_latest_live_worker_status d =
     first_row (sort_key (\<lambda>ws. - ws_heartbeat_at ws) (filter (\<lambda>ws. ws_mode ws = LIVE) (db_workers d)))"

text \<open>A check that passes, or its error.\<close>

definition expect :: "bool \<Rightarrow> readiness_check \<Rightarrow> readiness_error \<Rightarrow> readiness_check list \<times> readiness_error list" where
  "expect b c e = (if b then ([c], []) else ([], [e]))"

definition both :: "'a list \<times> 'b list \<Rightarrow> 'a list \<times> 'b list \<Rightarrow> 'a list \<times> 'b list" where
  "both x y = (fst x @ fst y, snd x @ snd y)"

definition TRANSPORT_FAILURES :: "string set" where
  "TRANSPORT_FAILURES = {''READINESS_TIMEOUT'', ''TLS_TRANSPORT_ERROR'', ''NETWORK_TRANSPORT_ERROR''}"

definition transport_failure :: "worker_status \<Rightarrow> bool" where
  "transport_failure ws \<longleftrightarrow> (case ws_error_code ws of None \<Rightarrow> False | Some c \<Rightarrow> c \<in> TRANSPORT_FAILURES)"

definition required_balance :: "live_session \<Rightarrow> decimal" where
  "required_balance s = min (ls_budget s) (ls_max_exposure s)"

definition enough_balance :: "live_session \<Rightarrow> worker_status \<Rightarrow> bool" where
  "enough_balance s ws \<longleftrightarrow> (case ws_balance ws of None \<Rightarrow> False | Some b \<Rightarrow> required_balance s \<le> b)"

definition balance_error :: "live_session \<Rightarrow> worker_status \<Rightarrow> readiness_error" where
  "balance_error s ws = (case ws_balance ws of None \<Rightarrow> E_no_balance | Some b \<Rightarrow> E_balance b (required_balance s))"

definition quiet :: "bool \<Rightarrow> readiness_check \<Rightarrow> readiness_check list \<times> readiness_error list" where
  "quiet b c = (if b then [c] else [], [])"

text \<open>The checks of the worker row. After a transport failure the last known values are shown without errors of their own.\<close>

definition worker_checks :: "time \<Rightarrow> live_session \<Rightarrow> worker_status \<Rightarrow> readiness_check list \<times> readiness_error list" where
  "worker_checks now s ws =
     both ([C_live_worker], [])
      (both (expect (now - ws_heartbeat_at ws \<le> seconds 30) C_heartbeat E_heartbeat)
      (both (expect (ws_credentials ws) C_credentials E_credentials)
      (both (expect (str_or_empty (ws_wallet ws) \<noteq> []) C_wallet E_wallet)
      (both (expect (ws_chain_id ws = Some 137) C_network (E_network (ws_chain_id ws)))
      (both (expect (ws_gateway_ready ws) C_gateway (E_gateway (ws_error_message ws)))
       (if transport_failure ws then
          both ([], [E_unavailable (ws_error_message ws)])
           (both (quiet (enough_balance s ws) C_balance)
           (both (quiet (ws_collateral_ready ws = Some True) C_collateral_allowance)
                 (quiet (ws_conditional_ready ws = Some True) C_conditional_allowance)))
        else
          both (expect (enough_balance s ws) C_balance (balance_error s ws))
           (both (expect (ws_collateral_ready ws = Some True) C_collateral_allowance E_collateral)
                 (expect (ws_conditional_ready ws = Some True) C_conditional_allowance E_conditional))))))))"

definition active_live_requests :: "db \<Rightarrow> nat" where
  "active_live_requests d =
     length (filter (\<lambda>r. rq_mode r = LIVE \<and> rq_state r \<in>
       {AWAITING_APPROVAL, READY, CLAIMED, SUBMITTING, ACCEPTED, UNKNOWN, PARTIALLY_FILLED, RECONCILING, MANUAL_REVIEW_REQUIRED})
       (db_requests d))"

definition foreign_live_positions :: "db \<Rightarrow> nat \<Rightarrow> nat" where
  "foreign_live_positions d sid =
     length (filter (\<lambda>t. tr_mode t = LIVE \<and> tr_position t \<in> SESSION_POSITION_STATUSES \<and> tr_live_session_id t \<noteq> Some sid) (db_trades d))"

definition CRITICAL_CHECKS :: "readiness_check set" where
  "CRITICAL_CHECKS = {C_live_worker, C_heartbeat, C_credentials, C_wallet, C_network, C_gateway, C_balance,
     C_collateral_allowance, C_conditional_allowance, C_active_requests, C_old_positions}"

definition evaluate_live_readiness :: "db \<Rightarrow> time \<Rightarrow> live_session \<Rightarrow> worker_status option \<Rightarrow> LiveReadinessResult" where
  "evaluate_live_readiness d now s worker =
     (let ws = (case worker of None \<Rightarrow> get_latest_live_worker_status d | Some x \<Rightarrow> Some x);
          failure = (case ws of None \<Rightarrow> False | Some x \<Rightarrow> transport_failure x);
          n = active_live_requests d; k = foreign_live_positions d (ls_id s);
          (checks, errors) =
            both (case ws of None \<Rightarrow> ([], [E_no_worker]) | Some x \<Rightarrow> worker_checks now s x)
             (both (expect (n = 0) C_active_requests (E_active_requests n))
                   (expect (k = 0) C_old_positions (E_old_positions k)))
      in \<lparr>rr_ready = (\<not> failure \<and> CRITICAL_CHECKS \<subseteq> set checks), rr_checks = checks, rr_errors = errors, rr_warned = failure\<rparr>)"

section \<open>Properties\<close>

lemma fst_snd_expect [simp]: "fst (expect b c e) = (if b then [c] else [])" "snd (expect b c e) = (if b then [] else [e])"
  "fst (quiet b c) = (if b then [c] else [])" "snd (quiet b c) = []" "fst (both x y) = fst x @ fst y" "snd (both x y) = snd x @ snd y"
  by (simp_all add: expect_def quiet_def both_def)

text \<open>What readiness means: every condition, on the row of the worker and on the store.\<close>

definition live_ready :: "db \<Rightarrow> time \<Rightarrow> live_session \<Rightarrow> worker_status \<Rightarrow> bool" where
  "live_ready d now s ws \<longleftrightarrow>
     now - ws_heartbeat_at ws \<le> seconds 30 \<and> ws_credentials ws \<and> str_or_empty (ws_wallet ws) \<noteq> [] \<and> ws_chain_id ws = Some 137 \<and>
     ws_gateway_ready ws \<and> \<not> transport_failure ws \<and> enough_balance s ws \<and> ws_collateral_ready ws = Some True \<and>
     ws_conditional_ready ws = Some True \<and>
     (\<forall>r\<in>set (db_requests d). rq_mode r = LIVE \<longrightarrow> rq_state r \<notin> ACTIVE_REQUEST_STATES) \<and>
     (\<forall>t\<in>set (db_trades d). tr_mode t = LIVE \<and> tr_position t \<in> SESSION_POSITION_STATUSES \<longrightarrow> tr_live_session_id t = Some (ls_id s))"

lemma no_active_live: "active_live_requests d = 0 \<longleftrightarrow> (\<forall>r\<in>set (db_requests d). rq_mode r = LIVE \<longrightarrow> rq_state r \<notin> ACTIVE_REQUEST_STATES)"
  by (auto simp: active_live_requests_def filter_empty_conv state_defs)

lemma no_foreign: "foreign_live_positions d sid = 0 \<longleftrightarrow>
   (\<forall>t\<in>set (db_trades d). tr_mode t = LIVE \<and> tr_position t \<in> SESSION_POSITION_STATUSES \<longrightarrow> tr_live_session_id t = Some sid)"
  by (auto simp: foreign_live_positions_def filter_empty_conv)

lemma readiness_iff:
  "(rr_ready (evaluate_live_readiness d now s worker) \<longleftrightarrow>
      (case (case worker of None \<Rightarrow> get_latest_live_worker_status d | Some x \<Rightarrow> Some x) of
         None \<Rightarrow> False | Some ws \<Rightarrow> live_ready d now s ws)) \<and>
   (rr_ready (evaluate_live_readiness d now s worker) \<longleftrightarrow> rr_errors (evaluate_live_readiness d now s worker) = [])"
proof (cases "case worker of None \<Rightarrow> get_latest_live_worker_status d | Some x \<Rightarrow> Some x")
  case None
  then show ?thesis by (simp add: evaluate_live_readiness_def CRITICAL_CHECKS_def Let_def case_prod_beta)
next
  case (Some ws)
  show ?thesis unfolding evaluate_live_readiness_def Some Let_def case_prod_beta live_ready_def no_active_live [symmetric] no_foreign [symmetric]
    by (simp add: worker_checks_def CRITICAL_CHECKS_def)
qed

text \<open>
  A session is ready for LIVE trading exactly when a worker status exists, its heartbeat is at most
  thirty seconds old, credentials, wallet, Polygon network, gateway and both allowances are confirmed, there
  was no transport failure, the balance covers the smaller of budget and exposure limit, no LIVE request is
  active and no LIVE position belongs to another session; and exactly then the list of errors is empty.
\<close>

theorem live_readiness_iff:
  "(rr_ready (evaluate_live_readiness d now s worker) \<longleftrightarrow>
      (case (case worker of None \<Rightarrow> get_latest_live_worker_status d | Some x \<Rightarrow> Some x) of
         None \<Rightarrow> False | Some ws \<Rightarrow> live_ready d now s ws)) \<and>
   (rr_ready (evaluate_live_readiness d now s worker) \<longleftrightarrow> rr_errors (evaluate_live_readiness d now s worker) = [])"
  by (rule readiness_iff)

text \<open>The filters of the two sums, on a trade that gets an exit request.\<close>

lemma sql_sum_update:
  assumes "distinct (map tr_id ts)" "t \<in> set ts" "P t" "tr_entry_cost (f t) = tr_entry_cost t" "\<And>x. tr_id (f x) = tr_id x"
  shows "sql_sum (map tr_entry_cost (filter P (update_where (\<lambda>x. tr_id x = tr_id t) f ts))) =
    sql_sum (map tr_entry_cost (filter P ts)) - (if P (f t) then 0 else num_or (tr_entry_cost t) 0)"
  using assms(1,2)
proof (induction ts)
  case (Cons x xs)
  have same: "update_where (\<lambda>y. tr_id y = tr_id t) f xs = xs" if "tr_id t \<notin> tr_id ` set xs"
    using that by (induction xs) (auto simp: update_where_def)
  show ?case
  proof (cases "x = t")
    case True
    then show ?thesis using same Cons.prems(1) assms(3,4)
      by (auto simp: update_where_def sql_sum_def num_or_def split: option.split)
  next
    case False
    then have t: "t \<in> set xs" "tr_id x \<noteq> tr_id t" using Cons.prems by force+
    show ?thesis using Cons.IH Cons.prems(1) t by (simp add: update_where_def sql_sum_def)
  qed
qed simp

lemma requested_exit_frame [simp]:
  "tr_id (mark_exit_requested g t) = tr_id t" "tr_entry_cost (mark_exit_requested g t) = tr_entry_cost t"
  "session_trade st sid (mark_exit_requested g t) \<longleftrightarrow> tr_live_session_id t = Some sid \<and> tr_mode t = LIVE \<and> EXIT_REQUESTED_POS \<in> st"
  by (simp_all add: mark_exit_requested_def session_trade_def)

text \<open>
  Asking for the exit of a position takes its cost out of the budget of its session although the money is
  still in the market. The exposure of the session counts the position in EXIT_REQUESTED, the budget snapshot
  does not: the moment the exit is requested, the cost booked as filled falls by the entry cost.
\<close>

theorem exit_request_frees_budget:
  assumes "db_ok d" "get_trade d i = Some t" "tr_live_session_id t = Some sid" "tr_mode t = LIVE" "tr_position t = OPEN_POS"
  shows "session_entry_cost ACTIVE_TRADABLE_STATUSES (upd_trade i (mark_exit_requested g) d) sid =
      session_entry_cost ACTIVE_TRADABLE_STATUSES d sid - num_or (tr_entry_cost t) 0 \<and>
    session_entry_cost SESSION_POSITION_STATUSES (upd_trade i (mark_exit_requested g) d) sid =
      session_entry_cost SESSION_POSITION_STATUSES d sid"
proof -
  have t: "t \<in> set (db_trades d)" "i = tr_id t" using get_tradeD [OF assms(2)] by simp_all
  have dist: "distinct (map tr_id (db_trades d))" using assms(1) by (simp add: db_ok_def)
  note upd = sql_sum_update [where f = "mark_exit_requested g", OF dist t(1)]
  show ?thesis using upd [of "session_trade ACTIVE_TRADABLE_STATUSES sid"] upd [of "session_trade SESSION_POSITION_STATUSES sid"] assms(3-5)
    by (simp add: session_entry_cost_def upd_trade_def t(2)) (simp add: session_trade_def ACTIVE_TRADABLE_STATUSES_def SESSION_POSITION_STATUSES_def)
qed

definition session_db :: db where
  "session_db = empty_db\<lparr>db_trades := [(sample_trade 7 OPEN_POS (Some 2))\<lparr>tr_mode := LIVE, tr_live_session_id := Some 1\<rparr>]\<rparr>"

theorem exit_request_frees_budget_witness:
  "session_entry_cost ACTIVE_TRADABLE_STATUSES session_db 1 = 1 \<and>
   session_entry_cost ACTIVE_TRADABLE_STATUSES (upd_trade 7 (mark_exit_requested STOP_LOSS) session_db) 1 = 0 \<and>
   session_entry_cost SESSION_POSITION_STATUSES (upd_trade 7 (mark_exit_requested STOP_LOSS) session_db) 1 = 1"
proof -
  have ok: "db_ok session_db" by (simp add: session_db_def empty_db_def db_ok_def requests_ok_def)
  have g: "get_trade session_db 7 = Some ((sample_trade 7 OPEN_POS (Some 2))\<lparr>tr_mode := LIVE, tr_live_session_id := Some 1\<rparr>)"
    by (simp add: get_trade_def session_db_def sample_trade_def)
  have "session_entry_cost ACTIVE_TRADABLE_STATUSES session_db 1 = 1" "session_entry_cost SESSION_POSITION_STATUSES session_db 1 = 1"
    by (simp_all add: session_entry_cost_def session_db_def session_trade_def sample_trade_def ACTIVE_TRADABLE_STATUSES_def
        SESSION_POSITION_STATUSES_def sql_sum_def)
  then show ?thesis using exit_request_frees_budget [OF ok g, of 1 STOP_LOSS] by (simp add: sample_trade_def)
qed

text \<open>
  The normalised asset list is a non-empty selection of the tradable assets in their fixed order, each at
  most once, and normalising it again changes nothing.
\<close>

theorem normalize_live_assets_stable:
  assumes "normalize_live_assets default_all values = Inr xs"
  shows "xs \<noteq> [] \<and> distinct xs \<and> set xs \<subseteq> set LIVE_TRADING_ASSETS \<and> normalize_live_assets b (Asset_list xs) = Inr xs"
proof -
  have step: "normalize_live_asset a = Inr x \<Longrightarrow> x \<in> set LIVE_TRADING_ASSETS" for a x
    by (auto simp: normalize_live_asset_def Let_def split: if_splits)
  have sub: "selected_assets raw = Inr s \<Longrightarrow> s \<subseteq> set LIVE_TRADING_ASSETS" for raw s
    by (induction raw arbitrary: s) (auto split: if_splits sum.splits dest: step)
  obtain s where s: "s \<noteq> {}" "s \<subseteq> set LIVE_TRADING_ASSETS" "xs = filter (\<lambda>a. a \<in> s) LIVE_TRADING_ASSETS"
    using assms sub by (auto simp: normalize_live_assets_def split: sum.splits if_splits)
  have id: "strip a \<noteq> [] \<and> normalize_live_asset a = Inr a" if "a \<in> set LIVE_TRADING_ASSETS" for a
  proof -
    have "list_all (\<lambda>a. strip a \<noteq> [] \<and> normalize_live_asset a = Inr a) LIVE_TRADING_ASSETS" by code_simp
    then show ?thesis using that by (simp add: list_all_iff)
  qed
  have sel: "selected_assets ys = Inr (set ys)" if "set ys \<subseteq> set LIVE_TRADING_ASSETS" for ys
    using that by (induction ys) (auto simp: id)
  have set: "set xs = s" using s by auto
  have "distinct LIVE_TRADING_ASSETS" by (simp add: LIVE_TRADING_ASSETS_def)
  then have "distinct xs" using s(3) by simp
  moreover have "normalize_live_assets b (Asset_list xs) = Inr xs"
    using sel [of xs] s set by (simp add: normalize_live_assets_def)
  moreover have "xs \<noteq> []" using s(1) set by auto
  ultimately show ?thesis using s(2) set by simp
qed

theorem normalize_live_assets_stable_witness:
  "normalize_live_assets False (Asset_text ''ethusdt, btc'') = Inr [''BTC'', ''ETH''] \<and>
   normalize_live_assets True (Asset_list [''BTC'', ''ETH'']) = Inr [''BTC'', ''ETH'']"
proof -
  have r: "normalize_live_assets False (Asset_text ''ethusdt, btc'') = Inr [''BTC'', ''ETH'']" by code_simp
  from normalize_live_assets_stable [OF r, of True] r show ?thesis by blast
qed

end
