(* ===== verification/Mirror.thy ===== *)
theory Mirror
  imports Live_Session
begin

text \<open>
  \<open>execution/live_mirror_worker.py\<close>: the worker that copies filled PAPER purchases into the buffer of
  mirror candidates, and the switch that controls it. The hash of a snapshot (SHA-256 of its JSON text) and
  the parser of ISO timestamps are arguments, as are the identifiers of new rows. A call of
  \<open>mirror_batch\<close> is one transaction: an exception leaves the store as it was.
\<close>

section \<open>Runtime settings\<close>

definition set_setting :: "string \<Rightarrow> string \<Rightarrow> db \<Rightarrow> db" where
  "set_setting key val d = d\<lparr>db_settings := (db_settings d)(key \<mapsto> val)\<rparr>"

definition runtime_bool :: "db \<Rightarrow> string \<Rightarrow> bool \<Rightarrow> bool" where
  "runtime_bool d key dflt = (case db_settings d key of None \<Rightarrow> dflt | Some v \<Rightarrow> lower (strip v) = ''true'')"

text \<open>\<open>isoformat()\<close>: the text of \<open>str\<close> with a T between date and time.\<close>

definition isoformat :: "time \<Rightarrow> string" where
  "isoformat t = (let s = datetime_str t in take 10 s @ ''T'' @ drop 11 s)"

definition set_mirror_enabled :: "bool \<Rightarrow> time \<Rightarrow> db \<Rightarrow> db" where
  "set_mirror_enabled enabled now d =
     (let d1 = set_setting ''LIVE_MIRROR_ENABLED'' (if enabled then ''true'' else ''false'') d in
      if enabled then set_setting ''LIVE_MIRROR_STARTED_AT'' (isoformat now) d1 else d1)"

section \<open>The candidate of a request\<close>

definition PAPER_MIRRORABLE_STATES :: "req_state set" where
  "PAPER_MIRRORABLE_STATES = {FILLED, PARTIALLY_FILLED_FINAL}"

definition build_signal_snapshot :: "exec_request \<Rightarrow> trade \<Rightarrow> signal_snapshot" where
  "build_signal_snapshot r t =
     \<lparr>sn_market_id = rq_market_id r, sn_asset = rq_asset r, sn_outcome = rq_outcome r, sn_target_amount = rq_target_amount r,
      sn_requested_shares = rq_requested_shares r, sn_limit_price = rq_limit_price r, sn_max_acceptable = rq_max_acceptable r,
      sn_model_key = sg_model_key (tr_signal t), sn_model_version = sg_model_version (tr_signal t),
      sn_confirm_model_key = sg_confirm_model_key (tr_signal t), sn_confirm_model_version = sg_confirm_model_version (tr_signal t),
      sn_edge = sg_edge (tr_signal t), sn_market_role = tr_market_role t,
      sn_predicted_flip_prob = sg_predicted_flip_prob (tr_signal t), sn_config_snapshot = sg_config_snapshot (tr_signal t),
      sn_source_created_at = rq_created_at r\<rparr>"

definition new_candidate :: "(signal_snapshot \<Rightarrow> string) \<Rightarrow> nat \<Rightarrow> exec_mode \<Rightarrow> time \<Rightarrow> exec_request \<Rightarrow> trade \<Rightarrow> candidate" where
  "new_candidate hash cid target now r t =
     (let snapshot = build_signal_snapshot r t; sg = tr_signal t in
      \<lparr>mc_id = cid, mc_request_id = rq_id r, mc_trade_id = tr_id t, mc_target = target, mc_state = NEW_C,
       mc_snapshot = snapshot, mc_hash = hash snapshot, mc_released_trade = None, mc_released_request = None,
       mc_p_candidate_win = (case tr_p_candidate_win t of Some p \<Rightarrow> Some p | None \<Rightarrow> tr_p_win_effective t),
       mc_decision_ask = map_option flt (rq_limit_price r),
       mc_decision_net_edge = (case sg_net_edge sg of Some e \<Rightarrow> Some e | None \<Rightarrow> map_option Finite (sg_edge sg)),
       mc_cost_buffer = tr_cost_buffer t, mc_entry_model_source = sg_entry_model_source sg,
       mc_direction_model_key = (case str_or_empty (sg_direction_model_key sg) of [] \<Rightarrow> sg_confirm_model_key sg | k \<Rightarrow> Some k),
       mc_max_acceptable = map_option flt (rq_max_acceptable r), mc_rejection = None, mc_created_at = now,
       mc_released_at = None\<rparr>)"

text \<open>\<open>uq_live_mirror_source_mode\<close>.\<close>

definition same_source :: "candidate \<Rightarrow> candidate \<Rightarrow> bool" where
  "same_source c e \<longleftrightarrow> mc_request_id c = mc_request_id e \<and> mc_target c = mc_target e"

text \<open>\<open>INSERT ... ON CONFLICT (source_paper_request_id, target_mode) DO NOTHING\<close>; the number is the row count.\<close>

definition insert_candidate :: "candidate \<Rightarrow> db \<Rightarrow> (nat \<times> db) outcome" where
  "insert_candidate c d =
     (if mc_target c = PAPER then Inl (IntegrityError ''ck_live_mirror_target_mode'')
      else if \<exists>e\<in>set (db_candidates d). same_source c e then Inr (0, d)
      else if \<exists>e\<in>set (db_candidates d). mc_id e = mc_id c then Inl (IntegrityError ''live_mirror_candidates_pkey'')
      else Inr (1, d\<lparr>db_candidates := db_candidates d @ [c]\<rparr>))"

section \<open>One batch\<close>

text \<open>The row a request gives in the joined query: its trade, when the conditions hold.\<close>

definition mirrorable :: "exec_mode \<Rightarrow> time \<Rightarrow> db \<Rightarrow> exec_request \<Rightarrow> (exec_request \<times> trade) option" where
  "mirrorable target started d r =
     (case get_trade d (rq_trade_id r) of None \<Rightarrow> None
      | Some t \<Rightarrow>
          if rq_mode r = PAPER \<and> rq_intent r = OPEN \<and> rq_state r \<in> PAPER_MIRRORABLE_STATES \<and> tr_mode t = PAPER \<and>
             started \<le> rq_updated_at r \<and>
             \<not> (\<exists>c\<in>set (db_candidates d). mc_request_id c = rq_id r \<and> mc_target c = target)
          then Some (r, t) else None)"

definition pending_rows :: "exec_mode \<Rightarrow> time \<Rightarrow> db \<Rightarrow> (exec_request \<times> trade) list" where
  "pending_rows target started d =
     sort_key (\<lambda>(r, t). rq_updated_at r) (List.map_filter (mirrorable target started d) (db_requests d))"

fun mirror_rows ::
  "(signal_snapshot \<Rightarrow> string) \<Rightarrow> (nat \<Rightarrow> nat) \<Rightarrow> exec_mode \<Rightarrow> time \<Rightarrow> (exec_request \<times> trade) list \<Rightarrow> db \<Rightarrow> (nat \<times> db) outcome" where
  "mirror_rows hash newid target now [] d = Inr (0, d)"
| "mirror_rows hash newid target now ((r, t) # rows) d =
     bind_out (insert_candidate (new_candidate hash (newid (rq_id r)) target now r t) d) (\<lambda>(k, d1).
       bind_out (mirror_rows hash newid target now rows d1) (\<lambda>(n, d2). Inr (k + n, d2)))"

text \<open>Without a start time, or with a malformed one, nothing is mirrored.\<close>

definition mirror_batch ::
  "(string \<Rightarrow> time option) \<Rightarrow> (signal_snapshot \<Rightarrow> string) \<Rightarrow> (nat \<Rightarrow> nat) \<Rightarrow> exec_mode \<Rightarrow> nat \<Rightarrow> time \<Rightarrow> db \<Rightarrow> (nat \<times> db) outcome" where
  "mirror_batch fromiso hash newid target batch_size now d =
     (case str_or_empty (db_settings d ''LIVE_MIRROR_STARTED_AT'') of [] \<Rightarrow> Inr (0, d)
      | raw \<Rightarrow>
        (case fromiso raw of None \<Rightarrow> Inr (0, d)
         | Some started \<Rightarrow> mirror_rows hash newid target now (take batch_size (pending_rows target started d)) d))"

section \<open>The loop\<close>

text \<open>
  One iteration of \<open>run_worker\<close>: the new count of consecutive errors, the time to sleep and the store.
\<close>

definition backoff :: "pyfloat \<Rightarrow> pyfloat \<Rightarrow> nat \<Rightarrow> pyfloat" where
  "backoff poll_interval max_backoff errors = min (flt (poll_interval * 2 ^ min errors 8)) max_backoff"

definition mirror_iteration ::
  "(string \<Rightarrow> time option) \<Rightarrow> (signal_snapshot \<Rightarrow> string) \<Rightarrow> (nat \<Rightarrow> nat) \<Rightarrow> exec_mode \<Rightarrow> nat \<Rightarrow> pyfloat \<Rightarrow> pyfloat \<Rightarrow> time \<Rightarrow>
   nat \<Rightarrow> db \<Rightarrow> nat \<times> pyfloat \<times> db" where
  "mirror_iteration fromiso hash newid target batch_size poll_interval max_backoff now errors d =
     (if \<not> runtime_bool d ''LIVE_MIRROR_ENABLED'' False then (0, poll_interval, d)
      else case mirror_batch fromiso hash newid target batch_size now d of
        Inr (_, d') \<Rightarrow> (0, poll_interval, d')
      | Inl _ \<Rightarrow> (errors + 1, backoff poll_interval max_backoff (errors + 1), d))"

section \<open>Every filled purchase is mirrored exactly once\<close>

lemma mirror_rows_new:
  assumes "target \<noteq> PAPER" "inj newid" "distinct (map (rq_id \<circ> fst) rows)"
    and "\<forall>(r, t)\<in>set rows. \<forall>c\<in>set (db_candidates d). \<not> (mc_request_id c = rq_id r \<and> mc_target c = target) \<and> mc_id c \<noteq> newid (rq_id r)"
  shows "mirror_rows hash newid target now rows d =
    Inr (length rows, d\<lparr>db_candidates := db_candidates d @ map (\<lambda>(r, t). new_candidate hash (newid (rq_id r)) target now r t) rows\<rparr>)"
  using assms(3,4)
proof (induction rows arbitrary: d)
  case (Cons row rows)
  obtain r t where row: "row = (r, t)" by fastforce
  let ?c = "new_candidate hash (newid (rq_id r)) target now r t"
  let ?d = "d\<lparr>db_candidates := db_candidates d @ [?c]\<rparr>"
  have c: "mc_target ?c = target" "mc_id ?c = newid (rq_id r)" "mc_request_id ?c = rq_id r" by (simp_all add: new_candidate_def Let_def)
  have ins: "insert_candidate ?c d = Inr (1, ?d)"
    using assms(1) Cons.prems(2) by (auto simp: insert_candidate_def same_source_def c row)
  have "\<forall>(r', t')\<in>set rows. \<forall>e\<in>set (db_candidates ?d).
      \<not> (mc_request_id e = rq_id r' \<and> mc_target e = target) \<and> mc_id e \<noteq> newid (rq_id r')"
  proof (clarify, intro conjI notI)
    fix r' t' e
    assume m: "(r', t') \<in> set rows" "e \<in> set (db_candidates ?d)"
    then have ne: "rq_id r' \<noteq> rq_id r" using Cons.prems(1) by (force simp: row)
    have old: "e \<in> set (db_candidates d) \<Longrightarrow> \<not> (mc_request_id e = rq_id r' \<and> mc_target e = target) \<and> mc_id e \<noteq> newid (rq_id r')"
      using Cons.prems(2) m(1) by fastforce
    have "mc_request_id e \<noteq> rq_id r' \<and> mc_id e \<noteq> newid (rq_id r')" if "e \<notin> set (db_candidates d)"
    proof -
      have "mc_request_id e = rq_id r" "mc_id e = newid (rq_id r)" using m(2) that c by simp_all
      then show ?thesis using ne injD [OF assms(2), of "rq_id r" "rq_id r'"] by metis
    qed
    note both = old this
    { assume "mc_request_id e = rq_id r' \<and> mc_target e = target"
      then show False using both by blast }
    { assume "mc_id e = newid (rq_id r')"
      then show False using both by blast }
  qed
  from Cons.IH [OF _ this] Cons.prems(1) show ?case by (simp add: row ins)
qed simp

lemma map_filter_restrict:
  "List.map_filter (\<lambda>x. if P x then None else f x) xs = List.map_filter f (filter (\<lambda>x. \<not> P x) xs)"
  by (induction xs) (simp_all add: List.map_filter_simps split: option.split)

lemma map_filter_fst:
  assumes "\<And>x y. f x = Some y \<Longrightarrow> fst y = x"
  shows "List.map_filter f (filter (\<lambda>x. x \<notin> A) xs) = filter (\<lambda>y. fst y \<notin> A) (List.map_filter f xs)"
  by (induction xs) (auto simp: List.map_filter_simps dest!: assms split: option.split)

lemma mirrorable_fst: "mirrorable target started d r = Some row \<Longrightarrow> fst row = r"
  by (auto simp: mirrorable_def split: option.splits if_splits)

lemma pending_row: "(r, t) \<in> set (pending_rows target started d) \<Longrightarrow> r \<in> set (db_requests d) \<and> mirrorable target started d r = Some (r, t)"
  using mirrorable_fst by (force simp: pending_rows_def List.map_filter_def)

lemma map_fst_map_filter:
  assumes "\<And>x y. f x = Some y \<Longrightarrow> fst y = x"
  shows "map fst (List.map_filter f xs) = filter (\<lambda>x. f x \<noteq> None) xs"
  by (induction xs) (auto simp: List.map_filter_simps dest!: assms split: option.split)

lemma pending_distinct:
  assumes "distinct (map rq_id (db_requests d))" shows "distinct (map (rq_id \<circ> fst) (pending_rows target started d))"
proof -
  have "distinct (map rq_id (filter P (db_requests d)))" for P using assms by (rule distinct_map_filter)
  then have "distinct (map rq_id (map fst (List.map_filter (mirrorable target started d) (db_requests d))))"
    by (simp only: map_fst_map_filter [OF mirrorable_fst])
  then have "distinct (map (rq_id \<circ> fst) (List.map_filter (mirrorable target started d) (db_requests d)))" by simp
  then show ?thesis unfolding pending_rows_def distinct_map by (simp add: distinct_sort)
qed

lemma filter_out_take:
  assumes "distinct (map fst xs)" shows "filter (\<lambda>y. fst y \<notin> fst ` set (take n xs)) xs = drop n xs"
proof -
  have dis: "distinct (map fst (take n xs) @ map fst (drop n xs))" using assms by (metis append_take_drop_id map_append)
  have "filter (\<lambda>y. fst y \<notin> fst ` set (take n xs)) (take n xs) = []" by (simp add: filter_empty_conv)
  moreover have "filter (\<lambda>y. fst y \<notin> fst ` set (take n xs)) (drop n xs) = drop n xs"
    using dis by (auto simp: filter_id_conv)
  ultimately show ?thesis by (metis append_Nil append_take_drop_id filter_append)
qed

lemma pending_after:
  fixes n target started d
  defines "rows \<equiv> take n (pending_rows target started d)"
  assumes "distinct (map rq_id (db_requests d))"
    and d': "d' = d\<lparr>db_candidates := db_candidates d @ map (\<lambda>(r, t). new_candidate hash (newid (rq_id r)) target now r t) rows\<rparr>"
  shows "pending_rows target started d' = drop n (pending_rows target started d)"
proof -
  have inj: "inj_on rq_id (set (db_requests d))" using assms(2) by (simp add: distinct_map)
  have in_rows: "(r, t) \<in> set rows \<Longrightarrow> r \<in> set (db_requests d)" for r t
    using pending_row in_set_takeD unfolding rows_def by fastforce
  have new: "(\<exists>c\<in>set (db_candidates d'). mc_request_id c = rq_id r \<and> mc_target c = target) \<longleftrightarrow>
      (\<exists>c\<in>set (db_candidates d). mc_request_id c = rq_id r \<and> mc_target c = target) \<or> r \<in> fst ` set rows"
    if "r \<in> set (db_requests d)" for r
  proof -
    have key: "mc_request_id (new_candidate hash i target now q t) = rq_id q" "mc_target (new_candidate hash i target now q t) = target"
      for i q t by (simp_all add: new_candidate_def Let_def)
    have "(\<exists>(q, t)\<in>set rows. rq_id q = rq_id r) \<longleftrightarrow> r \<in> fst ` set rows"
    proof
      assume "\<exists>(q, t)\<in>set rows. rq_id q = rq_id r"
      then obtain q t where q: "(q, t) \<in> set rows" "rq_id q = rq_id r" by blast
      then have "q = r" using inj_onD [OF inj q(2) in_rows [OF q(1)] that] by simp
      then show "r \<in> fst ` set rows" using q(1) by force
    qed force
    moreover have "db_candidates d' = db_candidates d @ map (\<lambda>(r, t). new_candidate hash (newid (rq_id r)) target now r t) rows"
      by (simp add: d')
    ultimately show ?thesis by (simp add: bex_Un image_iff key case_prod_unfold)
  qed
  have step: "mirrorable target started d' r = (if r \<in> fst ` set rows then None else mirrorable target started d r)"
    if "r \<in> set (db_requests d)" for r
    using new [OF that] by (auto simp: mirrorable_def get_trade_def d' split: option.split)
  have "List.map_filter (mirrorable target started d') (db_requests d) =
      List.map_filter (\<lambda>r. if r \<in> fst ` set rows then None else mirrorable target started d r) (db_requests d)"
    using step by (simp add: List.map_filter_def cong: filter_cong map_cong)
  also have "\<dots> = filter (\<lambda>y. fst y \<notin> fst ` set rows) (List.map_filter (mirrorable target started d) (db_requests d))"
    unfolding map_filter_restrict by (rule map_filter_fst [OF mirrorable_fst])
  finally have "pending_rows target started d' = filter (\<lambda>y. fst y \<notin> fst ` set rows) (pending_rows target started d)"
    by (simp add: pending_rows_def d' filter_sort)
  also have "\<dots> = drop n (pending_rows target started d)" unfolding rows_def
  proof (rule filter_out_take)
    show "distinct (map fst (pending_rows target started d))"
      using pending_distinct [OF assms(2), of target started] distinct_map [of rq_id "map fst (pending_rows target started d)"]
      by (simp add: comp_def)
  qed
  finally show ?thesis .
qed

text \<open>
  C16: the mirror copies every filled PAPER purchase exactly once and touches nothing else. A batch adds one
  NEW candidate for each of the oldest pending purchases, up to the size of the batch, and changes no other
  row of the store; afterwards exactly the remaining purchases are pending, so repeated batches reach every
  purchase and none twice.
\<close>

theorem mirror_exactly_once:
  assumes "db_ok d" "target \<noteq> PAPER" "db_settings d ''LIVE_MIRROR_STARTED_AT'' = Some raw" "raw \<noteq> []" "fromiso raw = Some started"
    and "inj newid" "\<forall>c\<in>set (db_candidates d). mc_id c \<notin> range newid"
  shows "\<exists>d'. mirror_batch fromiso hash newid target n now d = Inr (min n (length (pending_rows target started d)), d') \<and>
    d' = d\<lparr>db_candidates := db_candidates d @
       map (\<lambda>(r, t). new_candidate hash (newid (rq_id r)) target now r t) (take n (pending_rows target started d))\<rparr> \<and>
    pending_rows target started d' = drop n (pending_rows target started d)"
proof -
  let ?rows = "take n (pending_rows target started d)"
  have dist: "distinct (map rq_id (db_requests d))" using assms(1) by (simp add: db_ok_def requests_ok_def)
  have "distinct (map (rq_id \<circ> fst) ?rows)" using pending_distinct [OF dist] by (simp add: distinct_take take_map [symmetric])
  moreover have "\<forall>(r, t)\<in>set ?rows. \<forall>c\<in>set (db_candidates d). \<not> (mc_request_id c = rq_id r \<and> mc_target c = target) \<and> mc_id c \<noteq> newid (rq_id r)"
    using assms(7) by (fastforce dest!: in_set_takeD pending_row simp: mirrorable_def split: option.splits if_splits)
  ultimately have "mirror_batch fromiso hash newid target n now d = Inr (length ?rows, d\<lparr>db_candidates := db_candidates d @
       map (\<lambda>(r, t). new_candidate hash (newid (rq_id r)) target now r t) ?rows\<rparr>)"
    using assms(3-5) mirror_rows_new [OF assms(2,6)] by (cases raw) (auto simp: mirror_batch_def str_or_empty_def)
  then show ?thesis using pending_after [OF dist refl] by (simp add: min.commute)
qed

definition filled_db :: db where
  "filled_db = (one_open FILLED)\<lparr>db_trades := [sample_trade 7 OPEN_POS (Some 2)],
     db_settings := [''LIVE_MIRROR_STARTED_AT'' \<mapsto> ''2026-01-01T00:00:00+00:00'']\<rparr>"

lemma filled_pending: "length (pending_rows LIVE 0 filled_db) = 1"
  by (simp add: pending_rows_def filled_db_def one_open_def empty_db_def new_open_request_def mirrorable_def get_trade_def
      sample_trade_def PAPER_MIRRORABLE_STATES_def List.map_filter_simps)

theorem mirror_exactly_once_witness:
  "\<exists>d'. mirror_batch (\<lambda>_. Some 0) (\<lambda>_. ''h'') id LIVE 50 3 filled_db = Inr (1, d') \<and> pending_rows LIVE 0 d' = []"
proof -
  have ok: "db_ok filled_db" using one_open_ok [of FILLED] by (simp add: filled_db_def db_ok_def one_open_def empty_db_def)
  have "db_settings filled_db ''LIVE_MIRROR_STARTED_AT'' = Some ''2026-01-01T00:00:00+00:00''" "db_candidates filled_db = []"
    by (simp_all add: filled_db_def one_open_def empty_db_def)
  then show ?thesis
    using mirror_exactly_once [OF ok _ _ _ _ inj_on_id, of LIVE _ "\<lambda>_. Some 0" 0 "\<lambda>_. ''h''" 50 3] filled_pending by simp
qed

lemma backoff_bounded: "backoff poll_interval max_backoff errors \<le> max_backoff"
  by (simp add: backoff_def)

end
