(* ===== verification/Release_Gate.thy ===== *)
theory Release_Gate
  imports Mirror Reconcile
begin

text \<open>
  \<open>execution/release_gate.py\<close>: the gate that turns a mirror candidate into a LIVE (or SHADOW) trade, request
  and reservation. The checks of \<open>validate_live_release\<close> are lists of stops in the order of the source; the
  first one counts. A stop either rejects the candidate for good, defers it, or is an exception that leaves the
  function. The text of a deferral is only logged and is not represented; the one rejection text that is Russian
  in the source is the argument \<open>below_min\<close>.

  The session of the gate keeps the rows it has loaded: the PAPER request that is validated is the row read
  before the quote was fetched (\<open>d0\<close>), although the candidate is locked and read again afterwards (\<open>d\<close>). The
  candidate itself is refreshed in place, so the comparison of its hash with the \<open>candidate_snap\<close> read before,
  which is the same object, never fails and has no counterpart here.
\<close>

section \<open>Stops\<close>

datatype release_stop = Release_rejected string | Release_deferred | Release_raised py_error

definition stop_if :: "bool \<Rightarrow> release_stop \<Rightarrow> release_stop option" where
  "stop_if b s = (if b then Some s else None)"

fun first_stop :: "release_stop option list \<Rightarrow> release_stop option" where
  "first_stop [] = None"
| "first_stop (x # xs) = (case x of Some s \<Rightarrow> Some s | None \<Rightarrow> first_stop xs)"

definition unless_stopped :: "release_stop option \<Rightarrow> release_stop + 'a \<Rightarrow> release_stop + 'a" where
  "unless_stopped s k = (case s of Some x \<Rightarrow> Inl x | None \<Rightarrow> k)"

fun bind_stop :: "release_stop + 'a \<Rightarrow> ('a \<Rightarrow> release_stop + 'b) \<Rightarrow> release_stop + 'b" where
  "bind_stop (Inl s) f = Inl s"
| "bind_stop (Inr x) f = f x"

section \<open>The checks\<close>

definition LIVE_MIN_GROSS_BUY_USDC :: decimal where
  "LIVE_MIN_GROSS_BUY_USDC = 11/10"

definition source_stop :: "(signal_snapshot \<Rightarrow> string) \<Rightarrow> exec_mode \<Rightarrow> candidate \<Rightarrow> exec_request \<Rightarrow> trade \<Rightarrow> release_stop option" where
  "source_stop hash target c r t =
     first_stop
       [stop_if (mc_target c \<noteq> target) (Release_rejected ''candidate target_mode mismatch''),
        stop_if (rq_mode r \<noteq> PAPER) (Release_rejected ''source request is not PAPER''),
        stop_if (rq_intent r \<noteq> OPEN) (Release_rejected ''source request is not OPEN''),
        stop_if (rq_state r \<notin> PAPER_MIRRORABLE_STATES)
          (Release_rejected (''source request state is '' @ quoted (state_name (rq_state r)) @ '', not finally filled'')),
        stop_if (tr_mode t \<noteq> PAPER) (Release_rejected ''source trade is not PAPER''),
        stop_if (rq_trade_id r \<noteq> tr_id t) (Release_rejected ''source linkage mismatch''),
        stop_if (hash (build_signal_snapshot r t) \<noteq> mc_hash c) (Release_rejected ''signal snapshot hash mismatch'')]"

definition max_signal_age :: "db \<Rightarrow> dec_value" where
  "max_signal_age d =
     (case db_settings d ''LIVE_MAX_SIGNAL_AGE_SEC'' of None \<Rightarrow> Finite 60
      | Some v \<Rightarrow> (case parse_float v of None \<Rightarrow> Finite 60 | Some x \<Rightarrow> x))"

definition age_stop :: "db \<Rightarrow> time \<Rightarrow> exec_request \<Rightarrow> release_stop option" where
  "age_stop d now r =
     (let age = flt (of_int (now - rq_updated_at r) / 10 ^ 6); max_age = max_signal_age d in
      stop_if (float_less max_age (Finite age))
        (Release_rejected (''Signal is too old ('' @ fixed_str 1 age @ ''s > '' @ format_value 1 max_age @ ''s)'')))"

definition market_stop :: "time \<Rightarrow> trade \<Rightarrow> release_stop option" where
  "market_stop now t =
     stop_if (case tr_market_end t of None \<Rightarrow> False | Some e \<Rightarrow> e \<le> now) (Release_rejected ''Market is already closed'')"

definition is_combined :: "trade \<Rightarrow> bool" where
  "is_combined t \<longleftrightarrow> contains ''COMBINED'' (upper (sg_active_features (tr_signal t)))"

definition model_stop :: "trade \<Rightarrow> release_stop option" where
  "model_stop t =
     (let src = sg_entry_model_source (tr_signal t) in
      stop_if (is_combined t \<and> src \<noteq> Some ''PHASE'')
        (Release_rejected (''Invalid entry_model_source for COMBINED: '' @ (case src of None \<Rightarrow> ''None'' | Some s \<Rightarrow> s) @ '' != PHASE'')))"

text \<open>\<open>float(value) if value is not None else default\<close>: malformed text raises.\<close>

definition float_setting :: "db \<Rightarrow> string \<Rightarrow> pyfloat \<Rightarrow> release_stop + dec_value" where
  "float_setting d key dflt =
     (case db_settings d key of None \<Rightarrow> Inr (Finite dflt)
      | Some v \<Rightarrow> (case parse_float v of
          None \<Rightarrow> Inl (Release_raised (ValueError (''could not convert string to float: '' @ quoted v)))
        | Some x \<Rightarrow> Inr x))"

text \<open>
  The edge that is left at the fresh price, for COMBINED trades. \<open>price\<close> is \<open>release_entry_price\<close>, which
  is assigned for LIVE only.
\<close>

definition release_edge :: "db \<Rightarrow> pyfloat option \<Rightarrow> trade \<Rightarrow> release_stop + dec_value option" where
  "release_edge d price t =
     (if \<not> is_combined t then Inr None
      else bind_stop (float_setting d ''COMBINED_COST_BUFFER'' (flt (2/100))) (\<lambda>cost.
        bind_stop (float_setting d ''FAVORITE_MIN_EDGE'' (flt (5/100))) (\<lambda>favorite.
        bind_stop (float_setting d ''OUTS_MIN_EDGE'' (flt (3/100))) (\<lambda>outsider.
        case price of None \<Rightarrow> Inl (Release_raised (UnboundLocalError ''release_entry_price''))
        | Some p \<Rightarrow>
            let min_edge = (if p < 1/2 then outsider else favorite) in
            (case (case tr_p_candidate_win t of Some x \<Rightarrow> Some x | None \<Rightarrow> tr_p_win_effective t) of
               None \<Rightarrow> Inl (Release_raised (TypeError ''float() argument must be a string or a real number''))
             | Some win \<Rightarrow>
                 let net = f_sub (Finite (flt (win - p))) cost in
                 if float_less net min_edge \<and> \<not> runtime_bool d ''LIVE_IGNORE_EDGE_DECAY'' False
                 then Inl (Release_rejected (''EDGE_DECAYED_BEFORE_RELEASE: '' @ format_value 4 net @ '' < '' @ format_value 4 min_edge))
                 else Inr (Some net))))))"

definition calculate_live_order_amount :: "exec_request \<Rightarrow> live_session \<Rightarrow> release_stop + decimal" where
  "calculate_live_order_amount r s =
     bind_stop (case ls_order_amount s of Some a \<Rightarrow> Inr a
                | None \<Rightarrow> (case get_max_order_cost r of Inl e \<Rightarrow> Inl (Release_raised e)
                           | Inr cost \<Rightarrow> Inr (max cost LIVE_MIN_GROSS_BUY_USDC)))
       (\<lambda>amount. if ls_max_single s < amount then Inl Release_deferred else Inr amount)"

definition asset_stop :: "exec_request \<Rightarrow> live_session \<Rightarrow> release_stop option" where
  "asset_stop r s =
     (case (normalize_live_asset (rq_asset r), normalize_live_assets True (Asset_list (ls_assets s))) of
        (Inr a, Inr selected) \<Rightarrow> stop_if (a \<notin> set selected) Release_deferred
      | _ \<Rightarrow> Some Release_deferred)"

definition session_stop :: "(decimal \<Rightarrow> string) \<Rightarrow> db \<Rightarrow> live_session \<Rightarrow> decimal \<Rightarrow> release_stop option" where
  "session_stop below_min d s amount =
     first_stop
       [stop_if (amount < LIVE_MIN_GROSS_BUY_USDC) (Release_rejected (below_min amount)),
        stop_if (bs_remaining (get_session_budget_snapshot d s) < amount) Release_deferred,
        stop_if (ls_max_open s \<le> int (count_session_positions d (ls_id s))) Release_deferred,
        stop_if (ls_max_exposure s < d_add (get_session_exposure d (ls_id s)) amount) Release_deferred]"

definition worker_stop :: "db \<Rightarrow> time \<Rightarrow> live_session \<Rightarrow> release_stop option" where
  "worker_stop d now s =
     (case get_latest_live_worker_status d of None \<Rightarrow> Some Release_deferred
      | Some ws \<Rightarrow>
          first_stop
            [stop_if (seconds 60 < now - ws_heartbeat_at ws) Release_deferred,
             stop_if (\<not> ws_gateway_ready ws) Release_deferred,
             stop_if (ws_collateral_ready ws \<noteq> Some True) Release_deferred,
             stop_if (ws_conditional_ready ws \<noteq> Some True) Release_deferred,
             stop_if (num_or (ws_balance ws) 0 < required_balance s) Release_deferred])"

text \<open>The LIVE part: the session to release into and the amount.\<close>

definition live_checks :: "(decimal \<Rightarrow> string) \<Rightarrow> db \<Rightarrow> time \<Rightarrow> exec_request \<Rightarrow> release_stop + live_session \<times> decimal" where
  "live_checks below_min d now r =
     unless_stopped (stop_if (\<not> runtime_bool d ''LIVE_TRADING_ENABLED'' False) Release_deferred)
      (case get_active_session d of None \<Rightarrow> Inl Release_deferred
       | Some s \<Rightarrow>
           unless_stopped (asset_stop r s)
            (bind_stop (calculate_live_order_amount r s) (\<lambda>amount.
               unless_stopped (session_stop below_min d s amount)
                (unless_stopped (worker_stop d now s) (Inr (s, amount))))))"

definition risk_stop :: "db \<Rightarrow> time \<Rightarrow> exec_mode \<Rightarrow> decimal \<Rightarrow> release_stop option" where
  "risk_stop d now target amount =
     (case check_risk_limits d now OPEN amount (mode_name target) None None of
        Inl e \<Rightarrow> Some (Release_raised e)
      | Inr (Some why) \<Rightarrow> Some (Release_rejected (''Risk check failed: '' @ why))
      | Inr None \<Rightarrow> None)"

record release_plan =
  rp_amount :: decimal
  rp_session :: "live_session option"
  rp_net_edge :: "dec_value option"

text \<open>The budget a SHADOW mirror keeps from its source.\<close>

definition source_amount :: "exec_request \<Rightarrow> decimal" where
  "source_amount r = (if rq_target_amount r \<noteq> 0 then rq_target_amount r else num_or (rq_max_spend r) 0)"

definition validate_live_release ::
  "(decimal \<Rightarrow> string) \<Rightarrow> (signal_snapshot \<Rightarrow> string) \<Rightarrow> exec_mode \<Rightarrow> quote option \<Rightarrow> time \<Rightarrow> db \<Rightarrow> candidate \<Rightarrow> exec_request \<Rightarrow> trade \<Rightarrow>
   release_stop + release_plan" where
  "validate_live_release below_min hash target fresh now d c r t =
     (let ask = (case fresh of None \<Rightarrow> None | Some q \<Rightarrow> q_best_ask q) in
      unless_stopped
        (first_stop [source_stop hash target c r t, age_stop d now r, market_stop now t, model_stop t,
           stop_if (target = LIVE \<and> ask = None) Release_deferred])
       (bind_stop (release_edge d (if target = LIVE then map_option flt ask else None) t) (\<lambda>net.
          bind_stop (if target = LIVE then bind_stop (live_checks below_min d now r) (\<lambda>(s, amount). Inr (Some s, amount))
                     else Inr (None, source_amount r)) (\<lambda>(s, amount).
            unless_stopped (risk_stop d now target amount)
             (Inr \<lparr>rp_amount = amount, rp_session = s, rp_net_edge = (if target = LIVE then net else None)\<rparr>)))))"

section \<open>The rows of a release\<close>

definition build_live_trade :: "int \<Rightarrow> exec_mode \<Rightarrow> release_plan \<Rightarrow> trade \<Rightarrow> trade" where
  "build_live_trade tid target plan t =
     \<lparr>tr_id = tid, tr_asset = tr_asset t, tr_market_id = tr_market_id t, tr_outcome = tr_outcome t, tr_mode = target,
      tr_live_session_id = map_option ls_id (rp_session plan), tr_status = ''PENDING'', tr_position = OPENING_POS,
      tr_exit_reason = None, tr_error_msg = None, tr_amount_usdc = flt (rp_amount plan), tr_executed_price = 0, tr_pnl = None,
      tr_closed_at = None, tr_close_price = None, tr_entry_filled = Some 0, tr_entry_cost = Some 0, tr_remaining = Some 0,
      tr_realized_pnl = None, tr_accounting_version = 0, tr_position_version = 1, tr_last_exit_error = None,
      tr_exit_attempts = 0, tr_market_end = tr_market_end t, tr_sl_pct = tr_sl_pct t, tr_sl_price = tr_sl_price t,
      tr_sl_status = Some ''ACTIVE'', tr_sl_hit_at = None, tr_sl_sell_price = None, tr_tp_enabled = tr_tp_enabled t,
      tr_tp_multiplier = tr_tp_multiplier t, tr_tp_price = tr_tp_price t, tr_tp_status = Some ''ACTIVE'', tr_tp_hit_at = None,
      tr_tp_sell_price = None, tr_settlement_outcome = None, tr_expected_payout = None, tr_redeemable = None,
      tr_redemption_status = ''NOT_REQUIRED'', tr_strategy_type = tr_strategy_type t, tr_strategy_name = None,
      tr_market_role = tr_market_role t, tr_p_candidate_win = tr_p_candidate_win t, tr_p_win_effective = tr_p_win_effective t,
      tr_cost_buffer = tr_cost_buffer t, tr_source_paper_id = Some (tr_id t),
      tr_signal = (tr_signal t)\<lparr>sg_net_edge := (case rp_net_edge plan of Some e \<Rightarrow> Some e | None \<Rightarrow> sg_net_edge (tr_signal t))\<rparr>\<rparr>"

definition build_live_request :: "nat \<Rightarrow> time \<Rightarrow> exec_mode \<Rightarrow> release_plan \<Rightarrow> candidate \<Rightarrow> exec_request \<Rightarrow> int \<Rightarrow> exec_request" where
  "build_live_request rid now target plan c r tid =
     (let ttl = min (if rq_ttl_seconds r = 0 then 30 else rq_ttl_seconds r) 30 in
      \<lparr>rq_id = rid, rq_idempotency_key = Some (mode_name target @ ''-OPEN-mirror-'' @ int_str (int (mc_id c))), rq_mode = target,
       rq_trade_id = tid, rq_intent = OPEN, rq_trigger = Some MIRROR, rq_market_id = rq_market_id r, rq_asset = rq_asset r,
       rq_source_paper_id = Some (rq_id r), rq_live_session_id = map_option ls_id (rp_session plan), rq_outcome = rq_outcome r,
       rq_requested_shares = None, rq_target_amount = rp_amount plan, rq_max_slippage_pct = rq_max_slippage_pct r,
       rq_ttl_seconds = ttl, rq_limit_price = rq_limit_price r, rq_max_spend = Some (rp_amount plan),
       rq_max_acceptable = rq_max_acceptable r, rq_order_mode = None, rq_post_only = False, rq_submit_quote_price = None,
       rq_submit_quote_at = None, rq_submitted_limit = None, rq_terminal_code = None, rq_state = READY, rq_created_at = now,
       rq_updated_at = now, rq_expires_at = Some (now + seconds ttl), rq_claimed_at = None, rq_lease_expires_at = None,
       rq_claimed_by = None, rq_position_version = None, rq_error_reason = None, rq_filled_shares = 0, rq_filled_cost = 0\<rparr>)"

definition build_reservation :: "time \<Rightarrow> release_plan \<Rightarrow> exec_request \<Rightarrow> exposure_reservation" where
  "build_reservation now plan lr =
     \<lparr>rs_request_id = rq_id lr, rs_trade_id = rq_trade_id lr, rs_market_id = rq_market_id lr, rs_amount = rp_amount plan,
      rs_expires_at = (case rq_expires_at lr of Some e \<Rightarrow> e | None \<Rightarrow> now + seconds 30), rs_created_at = now, rs_released_at = None\<rparr>"

text \<open>The flush of the new trade; the unique index is created by the migration of the candidates table.\<close>

definition uq_live_trade_source_paper :: "trade \<Rightarrow> trade \<Rightarrow> bool" where
  "uq_live_trade_source_paper t u \<longleftrightarrow>
     tr_mode t = LIVE \<and> tr_mode u = LIVE \<and> tr_source_paper_id t \<noteq> None \<and> tr_source_paper_id u = tr_source_paper_id t"

definition insert_trade :: "trade \<Rightarrow> db \<Rightarrow> db outcome" where
  "insert_trade t d =
     (if \<exists>u\<in>set (db_trades d). tr_id u = tr_id t then Inl (IntegrityError ''trade_history_pkey'')
      else if \<exists>u\<in>set (db_trades d). uq_live_trade_source_paper t u then Inl (IntegrityError ''uq_live_trade_source_paper'')
      else Inr (d\<lparr>db_trades := db_trades d @ [t]\<rparr>))"

definition insert_reservation :: "exposure_reservation \<Rightarrow> db \<Rightarrow> db outcome" where
  "insert_reservation x d =
     (if \<exists>y\<in>set (db_reservations d). rs_request_id y = rs_request_id x
      then Inl (IntegrityError ''exposure_reservations_request_id_key'')
      else Inr (d\<lparr>db_reservations := db_reservations d @ [x]\<rparr>))"

definition get_candidate :: "db \<Rightarrow> nat \<Rightarrow> candidate option" where
  "get_candidate d i = List.find (\<lambda>c. mc_id c = i) (db_candidates d)"

definition upd_candidate :: "nat \<Rightarrow> (candidate \<Rightarrow> candidate) \<Rightarrow> db \<Rightarrow> db" where
  "upd_candidate i f d = d\<lparr>db_candidates := update_where (\<lambda>c. mc_id c = i) f (db_candidates d)\<rparr>"

definition reject_candidate :: "string \<Rightarrow> candidate \<Rightarrow> candidate" where
  "reject_candidate why c = c\<lparr>mc_state := REJECTED_C, mc_rejection := Some why\<rparr>"

definition mark_released :: "time \<Rightarrow> int \<Rightarrow> nat \<Rightarrow> candidate \<Rightarrow> candidate" where
  "mark_released now tid rid c =
     c\<lparr>mc_state := RELEASED_C, mc_released_at := Some now, mc_released_trade := Some tid, mc_released_request := Some rid\<rparr>"

section \<open>The release\<close>

text \<open>What the gate draws from outside: the identifiers of the new rows, the clock, the hash and the text.\<close>

record gate_run =
  gr_target :: exec_mode
  gr_trade_id :: "nat \<Rightarrow> int"
  gr_request_id :: "nat \<Rightarrow> nat"
  gr_now :: time
  gr_hash :: "signal_snapshot \<Rightarrow> string"
  gr_below_min :: "decimal \<Rightarrow> string"

definition write_release :: "gate_run \<Rightarrow> release_plan \<Rightarrow> candidate \<Rightarrow> exec_request \<Rightarrow> trade \<Rightarrow> db \<Rightarrow> db outcome" where
  "write_release g plan c r t d =
     (let tid = gr_trade_id g (mc_id c); rid = gr_request_id g (mc_id c);
          lr = build_live_request rid (gr_now g) (gr_target g) plan c r tid in
      bind_out (insert_trade (build_live_trade tid (gr_target g) plan t) d) (\<lambda>d1.
      bind_out (insert_request (\<lambda>_ _. False) lr d1) (\<lambda>(_, d2).
      bind_out (insert_reservation (build_reservation (gr_now g) plan lr) d2) (\<lambda>d3.
        Inr (upd_candidate (mc_id c) (mark_released (gr_now g) tid rid) d3)))))"

text \<open>\<open>_release_one_locked\<close>: whether the candidate was released, and the store after the commit or rollback.\<close>

definition release_one_locked :: "gate_run \<Rightarrow> quote option \<Rightarrow> candidate \<Rightarrow> exec_request option \<Rightarrow> db \<Rightarrow> (bool \<times> db) outcome" where
  "release_one_locked g fresh c loaded d =
     (case (case loaded of Some r \<Rightarrow> Some r | None \<Rightarrow> get_request d (mc_request_id c)) of
        None \<Rightarrow> Inr (False, upd_candidate (mc_id c) (reject_candidate ''source_paper_request not found'') d)
      | Some r \<Rightarrow>
          (case get_trade d (mc_trade_id c) of
             None \<Rightarrow> Inr (False, upd_candidate (mc_id c) (reject_candidate ''source_paper_trade not found'') d)
           | Some t \<Rightarrow>
               (case validate_live_release (gr_below_min g) (gr_hash g) (gr_target g) fresh (gr_now g) d c r t of
                  Inl Release_deferred \<Rightarrow> Inr (False, d)
                | Inl (Release_rejected why) \<Rightarrow> Inr (False, upd_candidate (mc_id c) (reject_candidate why) d)
                | Inl (Release_raised e) \<Rightarrow> Inl e
                | Inr plan \<Rightarrow> bind_out (write_release g plan c r t d) (\<lambda>d'. Inr (True, d')))))"

text \<open>The quote, asked for at most twice with a second between; \<open>None\<close> as the client when it could not be built.\<close>

definition release_quote ::
  "(string \<Rightarrow> 'w \<Rightarrow> quote option \<times> 'w) option \<Rightarrow> ('w \<Rightarrow> 'w) \<Rightarrow> string \<Rightarrow> 'w \<Rightarrow> quote option \<times> 'w" where
  "release_quote api sleep token w =
     (let usable = (\<lambda>q. case q of None \<Rightarrow> False | Some x \<Rightarrow> q_best_ask x \<noteq> None) in
      case ask_source api token w of (q, w1) \<Rightarrow>
        if usable q then (q, w1)
        else if api = None then (None, w)
        else case ask_source api token (sleep w1) of (q', w2) \<Rightarrow> (if usable q' then q' else None, w2))"

definition fetch_release_quote ::
  "(string \<Rightarrow> 'w \<Rightarrow> quote option \<times> 'w) option \<Rightarrow> ('w \<Rightarrow> 'w) \<Rightarrow> exec_mode \<Rightarrow> exec_request option \<Rightarrow> db \<Rightarrow> 'w \<Rightarrow> quote option \<times> 'w" where
  "fetch_release_quote api sleep target loaded d0 w =
     (case loaded of
        Some r \<Rightarrow>
          (case get_market d0 (rq_market_id r) of
             Some m \<Rightarrow> if target = LIVE then release_quote api sleep (token_of r m) w else (None, w)
           | None \<Rightarrow> (None, w))
      | None \<Rightarrow> (None, w))"

definition releasable :: "candidate \<Rightarrow> bool" where
  "releasable c \<longleftrightarrow> mc_state c \<in> {NEW_C, ELIGIBLE_C}"

definition release_candidate_by_id ::
  "gate_run \<Rightarrow> (string \<Rightarrow> 'w \<Rightarrow> quote option \<times> 'w) option \<Rightarrow> ('w \<Rightarrow> 'w) \<Rightarrow> nat \<Rightarrow> db \<Rightarrow> db \<Rightarrow> 'w \<Rightarrow> (bool \<times> db) outcome \<times> 'w" where
  "release_candidate_by_id g api sleep cid d0 d w =
     (case get_candidate d0 cid of None \<Rightarrow> (Inr (False, d), w)
      | Some c0 \<Rightarrow>
        if \<not> releasable c0 then (Inr (False, d), w)
        else let loaded = get_request d0 (mc_request_id c0) in
          (case fetch_release_quote api sleep (gr_target g) loaded d0 w of (fresh, w1) \<Rightarrow>
            ((case get_candidate d cid of None \<Rightarrow> Inr (False, d)
              | Some c \<Rightarrow> if \<not> releasable c then Inr (False, d) else release_one_locked g fresh c loaded d), w1)))"

section \<open>A batch\<close>

definition release_mode_of :: "db \<Rightarrow> string" where
  "release_mode_of d = upper (case db_settings d ''LIVE_RELEASE_MODE'' of None \<Rightarrow> ''DISABLED'' | Some v \<Rightarrow> v)"

definition get_candidate_ids :: "db \<Rightarrow> string \<Rightarrow> exec_mode \<Rightarrow> nat \<Rightarrow> nat list" where
  "get_candidate_ids d release_mode target batch_size =
     (if release_mode = ''DISABLED'' then []
      else let states = (if release_mode = ''MANUAL'' then {ELIGIBLE_C} else {NEW_C, ELIGIBLE_C}) in
        take batch_size (map mc_id (sort_key mc_created_at
          (filter (\<lambda>c. mc_state c \<in> states \<and> mc_target c = target) (db_candidates d)))))"

fun release_candidates ::
  "gate_run \<Rightarrow> (string \<Rightarrow> 'w \<Rightarrow> quote option \<times> 'w) option \<Rightarrow> ('w \<Rightarrow> 'w) \<Rightarrow> nat list \<Rightarrow> db \<Rightarrow> 'w \<Rightarrow> (nat \<times> db) \<times> 'w" where
  "release_candidates g api sleep [] d w = ((0, d), w)"
| "release_candidates g api sleep (cid # cids) d w =
     (case release_candidate_by_id g api sleep cid d d w of
        (Inr (True, d'), w') \<Rightarrow> (case release_candidates g api sleep cids d' w' of ((n, d''), w'') \<Rightarrow> ((n + 1, d''), w''))
      | (Inr (False, d'), w') \<Rightarrow> release_candidates g api sleep cids d' w'
      | (Inl _, w') \<Rightarrow> release_candidates g api sleep cids d w')"

definition release_batch ::
  "gate_run \<Rightarrow> (string \<Rightarrow> 'w \<Rightarrow> quote option \<times> 'w) option \<Rightarrow> ('w \<Rightarrow> 'w) \<Rightarrow> db \<Rightarrow> 'w \<Rightarrow> (nat \<times> db) \<times> 'w" where
  "release_batch g api sleep d w =
     (if release_mode_of d = ''DISABLED'' then ((0, d), w)
      else release_candidates g api sleep (get_candidate_ids d (release_mode_of d) (gr_target g) 10) d w)"

section \<open>What a release writes\<close>

lemma bind_stop_Inr: "bind_stop m f = Inr z \<longleftrightarrow> (\<exists>a. m = Inr a \<and> f a = Inr z)"
  by (cases m) simp_all

lemma stop_simps [simp]:
  "stop_if b s = None \<longleftrightarrow> \<not> b" "first_stop (x # xs) = None \<longleftrightarrow> x = None \<and> first_stop xs = None"
  "unless_stopped x k = Inr y \<longleftrightarrow> x = None \<and> k = Inr y"
  by (simp_all add: stop_if_def unless_stopped_def split: option.split)

declare first_stop.simps(2) [simp del]

definition released_rows :: "gate_run \<Rightarrow> release_plan \<Rightarrow> candidate \<Rightarrow> exec_request \<Rightarrow> trade \<Rightarrow> db \<Rightarrow> db" where
  "released_rows g plan c r t d =
     (let tid = gr_trade_id g (mc_id c); rid = gr_request_id g (mc_id c);
          lr = build_live_request rid (gr_now g) (gr_target g) plan c r tid in
      d\<lparr>db_trades := db_trades d @ [build_live_trade tid (gr_target g) plan t], db_requests := db_requests d @ [lr],
        db_reservations := db_reservations d @ [build_reservation (gr_now g) plan lr],
        db_candidates := update_where (\<lambda>c'. mc_id c' = mc_id c) (mark_released (gr_now g) tid rid) (db_candidates d)\<rparr>)"

lemma insert_trade_Inr:
  "insert_trade t d = Inr d' \<longleftrightarrow> d' = d\<lparr>db_trades := db_trades d @ [t]\<rparr> \<and> tr_id t \<notin> tr_id ` set (db_trades d) \<and>
     (\<forall>u\<in>set (db_trades d). \<not> uq_live_trade_source_paper t u)"
  by (auto simp: insert_trade_def image_iff eq_commute)

lemma insert_reservation_Inr:
  "insert_reservation x d = Inr d' \<longleftrightarrow> d' = d\<lparr>db_reservations := db_reservations d @ [x]\<rparr> \<and>
     rs_request_id x \<notin> rs_request_id ` set (db_reservations d)"
  by (auto simp: insert_reservation_def image_iff eq_commute)

lemma write_release_Inr:
  assumes "write_release g plan c r t d = Inr d'"
  shows "d' = released_rows g plan c r t d"
    and "gr_trade_id g (mc_id c) \<notin> tr_id ` set (db_trades d)" "gr_request_id g (mc_id c) \<notin> rq_id ` set (db_requests d)"
    and "gr_request_id g (mc_id c) \<notin> rs_request_id ` set (db_reservations d)"
proof -
  let ?lr = "build_live_request (gr_request_id g (mc_id c)) (gr_now g) (gr_target g) plan c r (gr_trade_id g (mc_id c))"
  let ?lt = "build_live_trade (gr_trade_id g (mc_id c)) (gr_target g) plan t"
  have ids: "rq_id ?lr = gr_request_id g (mc_id c)" "tr_id ?lt = gr_trade_id g (mc_id c)"
    by (simp_all add: build_live_request_def build_live_trade_def Let_def)
  from assms obtain d1 k d2 d3 where w: "insert_trade ?lt d = Inr d1" "insert_request (\<lambda>_ _. False) ?lr d1 = Inr (k, d2)"
    "insert_reservation (build_reservation (gr_now g) plan ?lr) d2 = Inr d3"
    "d' = upd_candidate (mc_id c) (mark_released (gr_now g) (gr_trade_id g (mc_id c)) (gr_request_id g (mc_id c))) d3"
    by (auto simp: write_release_def Let_def split: sum.splits)
  have req: "d2 = d1\<lparr>db_requests := db_requests d1 @ [?lr]\<rparr>" "rq_id ?lr \<notin> rq_id ` set (db_requests d1)"
    using w(2) by (auto simp: insert_request_def image_iff split: if_splits)
  show "d' = released_rows g plan c r t d" using w(1,3,4) req
    by (simp add: insert_trade_Inr insert_reservation_Inr released_rows_def upd_candidate_def Let_def)
  show "gr_trade_id g (mc_id c) \<notin> tr_id ` set (db_trades d)" using w(1) ids by (simp add: insert_trade_Inr)
  show "gr_request_id g (mc_id c) \<notin> rq_id ` set (db_requests d)" using w(1) req ids by (simp add: insert_trade_Inr)
  show "gr_request_id g (mc_id c) \<notin> rs_request_id ` set (db_reservations d)"
    using w(1,3) req ids by (simp add: insert_trade_Inr insert_reservation_Inr build_reservation_def)
qed

text \<open>The three ways a call ends with a store: untouched, with a rejected candidate, or with the rows of a release.\<close>

lemma release_one_cases:
  assumes "release_one_locked g fresh c loaded d = Inr (b, d')"
  obtains (untouched) "\<not> b" "d' = d"
  | (rejected) why where "\<not> b" "d' = upd_candidate (mc_id c) (reject_candidate why) d"
  | (released) r t plan where b "(case loaded of Some r \<Rightarrow> Some r | None \<Rightarrow> get_request d (mc_request_id c)) = Some r"
      "get_trade d (mc_trade_id c) = Some t"
      "validate_live_release (gr_below_min g) (gr_hash g) (gr_target g) fresh (gr_now g) d c r t = Inr plan"
      "write_release g plan c r t d = Inr d'"
proof (cases "case loaded of Some r \<Rightarrow> Some r | None \<Rightarrow> get_request d (mc_request_id c)")
  case None
  then show thesis using assms rejected [of "''source_paper_request not found''"]
    by (auto simp: release_one_locked_def split: option.splits)
next
  case (Some r)
  note r = this
  show thesis
  proof (cases "get_trade d (mc_trade_id c)")
    case None
    then show thesis using assms rejected [of "''source_paper_trade not found''"] r by (simp add: release_one_locked_def)
  next
    case (Some t)
    let ?v = "validate_live_release (gr_below_min g) (gr_hash g) (gr_target g) fresh (gr_now g) d c r t"
    have eq: "Inr (b, d') = (case ?v of Inl Release_deferred \<Rightarrow> Inr (False, d)
        | Inl (Release_rejected why) \<Rightarrow> Inr (False, upd_candidate (mc_id c) (reject_candidate why) d)
        | Inl (Release_raised e) \<Rightarrow> Inl e | Inr plan \<Rightarrow> bind_out (write_release g plan c r t d) (\<lambda>d'. Inr (True, d')))"
      using assms unfolding release_one_locked_def r option.case Some by simp
    show thesis
    proof (cases ?v)
      case (Inl s)
      then show thesis using eq untouched rejected by (cases s) simp_all
    next
      case (Inr plan)
      then show thesis using eq released [OF _ r Some Inr] by (cases "write_release g plan c r t d") simp_all
    qed
  qed
qed

lemma release_cases:
  assumes "release_candidate_by_id g api sleep cid d0 d w = (Inr (b, d'), w')"
  obtains (untouched) "\<not> b" "d' = d"
  | (rejected) c :: candidate and why where "\<not> b" "d' = upd_candidate (mc_id c) (reject_candidate why) d"
  | (released) c r t fresh plan where b "get_candidate d cid = Some c" "releasable c"
      "get_request d0 (rq_id r) = Some r \<or> get_request d (rq_id r) = Some r" "get_trade d (mc_trade_id c) = Some t"
      "validate_live_release (gr_below_min g) (gr_hash g) (gr_target g) fresh (gr_now g) d c r t = Inr plan"
      "write_release g plan c r t d = Inr d'"
proof -
  from assms obtain fresh loaded where
    loaded: "loaded = None \<or> (\<exists>i. loaded = get_request d0 i)"
    and run: "\<not> b \<and> d' = d \<or> (\<exists>c. get_candidate d cid = Some c \<and> releasable c \<and> release_one_locked g fresh c loaded d = Inr (b, d'))"
    by (auto simp: release_candidate_by_id_def Let_def split: option.splits if_splits prod.splits)
  have self: "get_request x i = Some r \<Longrightarrow> get_request x (rq_id r) = Some r" for x i r by (auto dest: get_requestD)
  then have src: "(case loaded of Some r \<Rightarrow> Some r | None \<Rightarrow> get_request d i) = Some r \<Longrightarrow>
      get_request d0 (rq_id r) = Some r \<or> get_request d (rq_id r) = Some r" for i r
    using loaded by (metis option.case_eq_if option.collapse option.distinct(1))
  from run show thesis
  proof
    assume "\<exists>c. get_candidate d cid = Some c \<and> releasable c \<and> release_one_locked g fresh c loaded d = Inr (b, d')"
    then obtain c where c: "get_candidate d cid = Some c" "releasable c" "release_one_locked g fresh c loaded d = Inr (b, d')" by blast
    from c(3) show thesis
    proof (cases rule: release_one_cases)
      case untouched
      then show ?thesis by (rule that(1))
    next
      case (rejected why)
      then show ?thesis by (rule that(2))
    next
      case (released r t plan)
      then show ?thesis using that(3) c(1,2) src by blast
    qed
  qed (auto intro: untouched)
qed

lemma upd_candidate_frame [simp]:
  "db_requests (upd_candidate i f d) = db_requests d" "db_trades (upd_candidate i f d) = db_trades d"
  "db_attempts (upd_candidate i f d) = db_attempts d" "db_reservations (upd_candidate i f d) = db_reservations d"
  "db_fills (upd_candidate i f d) = db_fills d" "db_settings (upd_candidate i f d) = db_settings d"
  "db_sessions (upd_candidate i f d) = db_sessions d"
  by (simp_all add: upd_candidate_def)

lemma released_rows_frame [simp]:
  "db_attempts (released_rows g plan c r t d) = db_attempts d" "db_fills (released_rows g plan c r t d) = db_fills d"
  "db_settings (released_rows g plan c r t d) = db_settings d" "db_sessions (released_rows g plan c r t d) = db_sessions d"
  by (simp_all add: released_rows_def Let_def)

text \<open>What every single release does to the store, a batch does.\<close>

lemma release_candidates_chain:
  assumes "\<And>x. R x x" "\<And>x y z. R x y \<Longrightarrow> R y z \<Longrightarrow> R x z"
    and "\<And>cid x b x' w w'. release_candidate_by_id g api sleep cid x x w = (Inr (b, x'), w') \<Longrightarrow> R x x'"
  shows "R d (snd (fst (release_candidates g api sleep cids d w)))"
proof (induction cids arbitrary: d w)
  case (Cons cid cids)
  obtain res w1 where r: "release_candidate_by_id g api sleep cid d d w = (res, w1)" by fastforce
  show ?case
  proof (cases res)
    case (Inr p)
    then obtain b d1 where p: "res = Inr (b, d1)" by (cases p) simp
    have "R d (snd (fst (release_candidates g api sleep cids d1 w1)))"
      using assms(2) [OF assms(3) [OF r [unfolded p]] Cons.IH] .
    then show ?thesis by (cases b; cases "release_candidates g api sleep cids d1 w1") (auto simp: r p)
  qed (simp add: r Cons.IH)
qed (simp add: assms(1))

section \<open>The gate only adds rows\<close>

text \<open>Everything the code promises not to touch is as before, and what is new has the mode of the gate.\<close>

definition only_adds :: "exec_mode \<Rightarrow> db \<Rightarrow> db \<Rightarrow> bool" where
  "only_adds mode d d' \<longleftrightarrow>
     (\<exists>ts rs xs. db_trades d' = db_trades d @ ts \<and> db_requests d' = db_requests d @ rs \<and> db_reservations d' = db_reservations d @ xs \<and>
        (\<forall>t\<in>set ts. tr_mode t = mode \<and> tr_position t = OPENING_POS) \<and>
        (\<forall>r\<in>set rs. rq_mode r = mode \<and> rq_state r = READY \<and> rq_intent r = OPEN)) \<and>
     db_attempts d' = db_attempts d \<and> db_fills d' = db_fills d \<and> db_settings d' = db_settings d \<and> db_sessions d' = db_sessions d"

lemma only_adds_refl [simp]: "only_adds mode d d"
  by (simp add: only_adds_def)

lemma only_adds_trans: "only_adds mode d1 d2 \<Longrightarrow> only_adds mode d2 d3 \<Longrightarrow> only_adds mode d1 d3"
  unfolding only_adds_def by clarsimp (metis UnE set_append)

lemma release_only_adds:
  assumes "release_candidate_by_id g api sleep cid d0 d w = (Inr (b, d'), w')"
  shows "only_adds (gr_target g) d d'"
proof (rule release_cases [OF assms])
  fix c r t fresh plan
  assume "write_release g plan c r t d = Inr d'"
  from write_release_Inr(1) [OF this] show ?thesis
    by (simp add: only_adds_def) (simp add: released_rows_def build_live_trade_def build_live_request_def Let_def)
qed (clarsimp simp: only_adds_def)+

text \<open>
  C7: the release gate never changes a PAPER row. A batch of it, whatever the candidates, quotes and settings
  are and whether releases succeed, are refused or raise, leaves every stored trade, request, reservation,
  attempt, fill, session and setting as it was and appends only OPENING trades and READY OPEN requests of the
  mode the gate runs in.
\<close>

theorem gate_only_adds: "only_adds (gr_target g) d (snd (fst (release_batch g api sleep d w)))"
  unfolding release_batch_def
  by (auto intro!: release_candidates_chain [where R = "only_adds (gr_target g)"] intro: only_adds_trans release_only_adds)

section \<open>What a LIVE release guarantees\<close>

text \<open>The conditions on the source rows, on the store and on the amount, each in the terms of its own component.\<close>

definition mirrors_source :: "(signal_snapshot \<Rightarrow> string) \<Rightarrow> candidate \<Rightarrow> exec_request \<Rightarrow> trade \<Rightarrow> bool" where
  "mirrors_source hash c r t \<longleftrightarrow> rq_mode r = PAPER \<and> rq_intent r = OPEN \<and> rq_state r \<in> {FILLED, PARTIALLY_FILLED_FINAL} \<and>
     tr_mode t = PAPER \<and> rq_trade_id r = tr_id t \<and> hash (build_signal_snapshot r t) = mc_hash c"

definition session_allows :: "db \<Rightarrow> live_session \<Rightarrow> decimal \<Rightarrow> bool" where
  "session_allows d s a \<longleftrightarrow> get_active_session d = Some s \<and> 11/10 \<le> a \<and> a \<le> ls_max_single s \<and>
     a \<le> bs_remaining (get_session_budget_snapshot d s) \<and> int (count_session_positions d (ls_id s)) < ls_max_open s \<and>
     d_add (get_session_exposure d (ls_id s)) a \<le> ls_max_exposure s"

definition worker_allows :: "db \<Rightarrow> time \<Rightarrow> live_session \<Rightarrow> bool" where
  "worker_allows d now s \<longleftrightarrow> (\<exists>ws. get_latest_live_worker_status d = Some ws \<and> now - ws_heartbeat_at ws \<le> seconds 60 \<and>
     ws_gateway_ready ws \<and> ws_collateral_ready ws = Some True \<and> ws_conditional_ready ws = Some True \<and>
     min (ls_budget s) (ls_max_exposure s) \<le> num_or (ws_balance ws) 0)"

lemma live_checks_Inr:
  assumes "live_checks below_min d now r = Inr (s, a)"
  shows "runtime_bool d ''LIVE_TRADING_ENABLED'' False \<and> session_allows d s a \<and> worker_allows d now s"
proof -
  from assms have on: "runtime_bool d ''LIVE_TRADING_ENABLED'' False" by (simp add: live_checks_def)
  from assms have act: "get_active_session d = Some s" and calc: "calculate_live_order_amount r s = Inr a"
    and ses: "session_stop below_min d s a = None" and wrk: "worker_stop d now s = None"
    by (auto simp: live_checks_def bind_stop_Inr split: option.splits)
  have "a \<le> ls_max_single s" using calc by (auto simp: calculate_live_order_amount_def bind_stop_Inr split: if_splits)
  moreover have "worker_allows d now s" using wrk
    by (auto simp: worker_stop_def worker_allows_def required_balance_def not_less split: option.splits)
  ultimately show ?thesis using on act ses
    by (simp add: session_stop_def session_allows_def LIVE_MIN_GROSS_BUY_USDC_def not_less not_le)
qed

lemma validate_Inr:
  assumes "validate_live_release below_min hash target fresh now d c r t = Inr plan"
  shows "mc_target c = target \<and> mirrors_source hash c r t \<and> check_risk_limits d now OPEN (rp_amount plan) (mode_name target) None None = Inr None \<and>
    (target \<noteq> LIVE \<longrightarrow> \<not> is_combined t) \<and>
    (target = LIVE \<longrightarrow> (\<exists>s. rp_session plan = Some s \<and> live_checks below_min d now r = Inr (s, rp_amount plan)))"
proof -
  from assms have src: "source_stop hash target c r t = None" by (simp add: validate_live_release_def Let_def)
  from assms obtain net s a where edge: "release_edge d (if target = LIVE then map_option flt (case fresh of None \<Rightarrow> None | Some q \<Rightarrow> q_best_ask q) else None) t = Inr net"
    and sa: "(if target = LIVE then bind_stop (live_checks below_min d now r) (\<lambda>(s, amount). Inr (Some s, amount)) else Inr (None, source_amount r)) = Inr (s, a)"
    and risk: "risk_stop d now target a = None" and plan: "rp_amount plan = a" "rp_session plan = s"
    unfolding validate_live_release_def Let_def stop_simps bind_stop_Inr
    by (elim conjE exE) (simp only: split_paired_all prod.case stop_simps, auto)
  have "check_risk_limits d now OPEN a (mode_name target) None None = Inr None"
    using risk by (auto simp: risk_stop_def split: sum.splits option.splits)
  moreover have "\<not> is_combined t" if "target \<noteq> LIVE"
    using edge that by (auto simp: release_edge_def bind_stop_Inr split: if_splits)
  moreover have "\<exists>s. rp_session plan = Some s \<and> live_checks below_min d now r = Inr (s, a)" if "target = LIVE"
    using sa that plan by (auto simp: bind_stop_Inr)
  ultimately show ?thesis using src plan by (auto simp: source_stop_def mirrors_source_def PAPER_MIRRORABLE_STATES_def)
qed

text \<open>
  C5: what must hold before money is committed. When the gate releases a candidate to LIVE, the candidate was
  not used or rejected before, its source is a filled PAPER purchase with the recorded signal, LIVE trading
  is switched on, the amount is at least the minimum order, within the session's order limit, its remaining
  budget, its number of positions and its exposure limit, the LIVE worker answered within a minute with a
  sufficient balance and both allowances, and the risk limits agree; then exactly one OPENING trade, one READY
  request spending at most that amount, its reservation and the mark on the candidate are written.
\<close>

theorem live_release_correct:
  assumes "gr_target g = LIVE" "release_candidate_by_id g api sleep cid d0 d w = (Inr (True, d'), w')"
  shows "\<exists>c r t s plan. get_candidate d cid = Some c \<and> mc_state c \<in> {NEW_C, ELIGIBLE_C} \<and> mc_target c = LIVE \<and>
    (get_request d0 (rq_id r) = Some r \<or> get_request d (rq_id r) = Some r) \<and> get_trade d (mc_trade_id c) = Some t \<and>
    mirrors_source (gr_hash g) c r t \<and> runtime_bool d ''LIVE_TRADING_ENABLED'' False \<and> rp_session plan = Some s \<and>
    session_allows d s (rp_amount plan) \<and> worker_allows d (gr_now g) s \<and>
    check_risk_limits d (gr_now g) OPEN (rp_amount plan) ''LIVE'' None None = Inr None \<and>
    d' = released_rows g plan c r t d"
proof (rule release_cases [OF assms(2)], goal_cases)
  case (3 c r t fresh plan)
  from 3(6) have "validate_live_release (gr_below_min g) (gr_hash g) LIVE fresh (gr_now g) d c r t = Inr plan" by (simp add: assms(1))
  from validate_Inr [OF this] obtain s where v: "mc_target c = LIVE" "mirrors_source (gr_hash g) c r t"
    "check_risk_limits d (gr_now g) OPEN (rp_amount plan) ''LIVE'' None None = Inr None"
    "rp_session plan = Some s" "live_checks (gr_below_min g) d (gr_now g) r = Inr (s, rp_amount plan)" by auto
  show ?case using 3(2-5) v live_checks_Inr [OF v(5)] write_release_Inr(1) [OF 3(7)] by (auto simp: releasable_def)
qed simp_all

text \<open>
  A candidate with a COMBINED trade is never released to SHADOW. The price the edge is measured at is
  assigned for LIVE only, so the gate raises before it reserves anything, on every attempt.
\<close>

theorem shadow_combined_never_released:
  assumes "gr_target g \<noteq> LIVE" "get_candidate d cid = Some c" "get_trade d (mc_trade_id c) = Some t" "is_combined t"
  shows "fst (release_candidate_by_id g api sleep cid d0 d w) \<noteq> Inr (True, d')"
proof
  assume "fst (release_candidate_by_id g api sleep cid d0 d w) = Inr (True, d')"
  then have "release_candidate_by_id g api sleep cid d0 d w = (Inr (True, d'), snd (release_candidate_by_id g api sleep cid d0 d w))"
    by (simp add: prod_eq_iff)
  then show False
  proof (cases rule: release_cases)
    case (released c' r t' fresh plan)
    then have "t' = t" using assms(2,3) by simp
    then show ?thesis using validate_Inr [OF released(6)] assms(1,4) by blast
  qed simp_all
qed

section \<open>Samples\<close>

definition sample_live_session :: live_session where
  "sample_live_session =
     \<lparr>ls_id = 1, ls_status = ACTIVE_S, ls_budget = 20, ls_order_amount = Some 2, ls_reserved = 0, ls_filled = 0, ls_max_single = 5,
      ls_max_exposure = 10, ls_assets = [''BTC''], ls_max_open = 3, ls_started_at = Some 0, ls_stopped_at = None, ls_stop_reason = None\<rparr>"

definition sample_live_worker :: worker_status where
  "sample_live_worker =
     \<lparr>ws_id = ''live'', ws_mode = LIVE, ws_heartbeat_at = 0, ws_gateway_ready = True, ws_credentials = True, ws_wallet = Some ''0x'',
      ws_balance = Some 50, ws_collateral_ready = Some True, ws_conditional_ready = Some True, ws_chain_id = Some 137,
      ws_error_code = None, ws_error_message = None, ws_checked_at = Some 0, ws_success_at = Some 0\<rparr>"

definition sample_source :: exec_request where
  "sample_source =
     \<lparr>rq_id = 4, rq_idempotency_key = Some ''OPEN:7'', rq_mode = PAPER, rq_trade_id = 7, rq_intent = OPEN, rq_trigger = Some STRATEGY,
      rq_market_id = ''m'', rq_asset = ''BTC'', rq_source_paper_id = None, rq_live_session_id = None, rq_outcome = ''YES'',
      rq_requested_shares = Some 2, rq_target_amount = 1, rq_max_slippage_pct = 2, rq_ttl_seconds = 30, rq_limit_price = Some (1/2),
      rq_max_spend = Some 1, rq_max_acceptable = None, rq_order_mode = None, rq_post_only = False, rq_submit_quote_price = None,
      rq_submit_quote_at = None, rq_submitted_limit = None, rq_terminal_code = None, rq_state = FILLED, rq_created_at = 0,
      rq_updated_at = 0, rq_expires_at = Some (seconds 30), rq_claimed_at = None, rq_lease_expires_at = None, rq_claimed_by = None,
      rq_position_version = Some 0, rq_error_reason = None, rq_filled_shares = 2, rq_filled_cost = 1\<rparr>"

definition sample_source_trade :: "string \<Rightarrow> trade" where
  "sample_source_trade features = (sample_trade 7 OPEN_POS (Some 2))\<lparr>tr_signal := sample_signal\<lparr>sg_active_features := features,
     sg_entry_model_source := Some ''PHASE''\<rparr>\<rparr>"

definition gate_db :: "exec_mode \<Rightarrow> string \<Rightarrow> db" where
  "gate_db target features = empty_db\<lparr>db_requests := [sample_source], db_trades := [sample_source_trade features], db_markets := [sample_market],
     db_sessions := [sample_live_session], db_workers := [sample_live_worker],
     db_candidates := [new_candidate (\<lambda>_. ''h'') 3 target 0 sample_source (sample_source_trade features)],
     db_settings := [''LIVE_TRADING_ENABLED'' \<mapsto> ''true'', ''LIVE_RELEASE_MODE'' \<mapsto> ''AUTO'']\<rparr>"

definition sample_gate :: "exec_mode \<Rightarrow> gate_run" where
  "sample_gate target = \<lparr>gr_target = target, gr_trade_id = (\<lambda>c. 100 + int c), gr_request_id = (\<lambda>c. 100 + c), gr_now = seconds 5,
     gr_hash = (\<lambda>_. ''h''), gr_below_min = (\<lambda>_. ''below minimum'')\<rparr>"

lemmas gate_samples = gate_db_def sample_gate_def sample_source_def sample_source_trade_def empty_db_def new_candidate_def sample_trade_def sample_live_session_def sample_live_worker_def

lemma sample_source_ok: "source_stop (\<lambda>_. ''h'') LIVE (new_candidate (\<lambda>_. ''h'') 3 LIVE 0 sample_source (sample_source_trade ''PHASE''))
    sample_source (sample_source_trade ''PHASE'') = None"
  by (simp add: source_stop_def gate_samples PAPER_MIRRORABLE_STATES_def Let_def)

lemma sample_signal_fresh: "age_stop (gate_db LIVE ''PHASE'') (seconds 5) sample_source = None"
proof -
  have "\<not> float_less (Finite 60) (Finite (flt (of_int (seconds 5) / 10 ^ 6)))" by code_simp
  then show ?thesis by (simp add: age_stop_def max_signal_age_def Let_def gate_samples)
qed

lemma sample_market_open: "market_stop (seconds 5) (sample_source_trade ''PHASE'') = None" "model_stop (sample_source_trade ''PHASE'') = None"
  "\<not> is_combined (sample_source_trade ''PHASE'')"
proof -
  show c: "\<not> is_combined (sample_source_trade ''PHASE'')" by code_simp
  show "model_stop (sample_source_trade ''PHASE'') = None" using c by (simp add: model_stop_def Let_def)
  show "market_stop (seconds 5) (sample_source_trade ''PHASE'') = None" by (simp add: market_stop_def gate_samples)
qed

lemma sample_live_checks: "live_checks below (gate_db LIVE ''PHASE'') (seconds 5) sample_source = Inr (sample_live_session, 2)"
proof -
  have "runtime_bool (gate_db LIVE ''PHASE'') ''LIVE_TRADING_ENABLED'' False" by code_simp
  moreover have "get_active_session (gate_db LIVE ''PHASE'') = Some sample_live_session" by code_simp
  moreover have "asset_stop sample_source sample_live_session = None" by code_simp
  moreover have "calculate_live_order_amount sample_source sample_live_session = Inr 2" by code_simp
  moreover have "bs_remaining (get_session_budget_snapshot (gate_db LIVE ''PHASE'') sample_live_session) = 20"
    "count_session_positions (gate_db LIVE ''PHASE'') 1 = 0"
    "get_session_exposure (gate_db LIVE ''PHASE'') 1 = 0"
    by code_simp+
  moreover have "d_add 0 2 = 2" by code_simp
  moreover have "worker_stop (gate_db LIVE ''PHASE'') (seconds 5) sample_live_session = None" by code_simp
  moreover have "ls_id sample_live_session = 1" "ls_max_open sample_live_session = 3" "ls_max_exposure sample_live_session = 10"
    by (simp_all add: sample_live_session_def)
  ultimately show ?thesis by (simp add: live_checks_def unless_stopped_def session_stop_def LIVE_MIN_GROSS_BUY_USDC_def stop_if_def first_stop.simps)
qed

lemma sample_risk_ok: "check_risk_limits (gate_db LIVE ''PHASE'') (seconds 5) OPEN 2 ''LIVE'' None None = Inr None"
  by code_simp

lemma sample_plan:
  "validate_live_release below (\<lambda>_. ''h'') LIVE (Some sample_quote) (seconds 5) (gate_db LIVE ''PHASE'')
     (new_candidate (\<lambda>_. ''h'') 3 LIVE 0 sample_source (sample_source_trade ''PHASE'')) sample_source (sample_source_trade ''PHASE'') =
   Inr \<lparr>rp_amount = 2, rp_session = Some sample_live_session, rp_net_edge = None\<rparr>"
  unfolding validate_live_release_def Let_def stop_simps bind_stop_Inr
  by (simp add: sample_source_ok sample_signal_fresh sample_market_open sample_live_checks sample_risk_ok risk_stop_def release_edge_def
      sample_quote_def first_stop.simps)

lemma sample_released:
  "\<exists>d'. release_candidate_by_id (sample_gate LIVE) (Some (\<lambda>_ w. (Some sample_quote, w))) id 3 (gate_db LIVE ''PHASE'') (gate_db LIVE ''PHASE'') () =
     (Inr (True, d'), ())"
proof -
  let ?c = "new_candidate (\<lambda>_. ''h'') 3 LIVE 0 sample_source (sample_source_trade ''PHASE'')"
  let ?d = "gate_db LIVE ''PHASE''"
  let ?g = "sample_gate LIVE"
  let ?p = "\<lparr>rp_amount = 2, rp_session = Some sample_live_session, rp_net_edge = None\<rparr>"
  have c: "get_candidate ?d 3 = Some ?c" "releasable ?c" "mc_request_id ?c = 4" "mc_trade_id ?c = 7" "mc_id ?c = 3"
    by (simp_all add: get_candidate_def gate_samples releasable_def Let_def)
  have rows: "get_request ?d 4 = Some sample_source" "get_trade ?d 7 = Some (sample_source_trade ''PHASE'')"
    by (simp_all add: get_request_def get_trade_def gate_samples)
  have g: "gr_target ?g = LIVE" "gr_now ?g = seconds 5" "gr_hash ?g = (\<lambda>_. ''h'')" "gr_trade_id ?g 3 = 103" "gr_request_id ?g 3 = 103"
    by (simp_all add: sample_gate_def)
  have m: "get_market ?d (rq_market_id sample_source) = Some sample_market"
    by (simp add: get_market_def gate_samples sample_market_def)
  have q: "fetch_release_quote (Some (\<lambda>_ w. (Some sample_quote, w))) id LIVE (Some sample_source) ?d () = (Some sample_quote, ())"
    by (simp add: fetch_release_quote_def m release_quote_def ask_source_def sample_quote_def)
  have "\<exists>d'. write_release ?g ?p ?c sample_source (sample_source_trade ''PHASE'') ?d = Inr d'"
    by (simp add: write_release_def c g insert_trade_def insert_request_def insert_reservation_def build_live_trade_def build_live_request_def
        build_reservation_def gate_samples uq_live_trade_source_paper_def same_key_def uq_active_open_request_def
        uq_active_close_request_def ck_positive_shares_def Let_def)
  then obtain d' where w: "write_release ?g ?p ?c sample_source (sample_source_trade ''PHASE'') ?d = Inr d'" ..
  have "release_one_locked ?g (Some sample_quote) ?c (Some sample_source) ?d = Inr (True, d')"
    by (simp add: release_one_locked_def c rows g sample_plan w)
  then show ?thesis by (simp add: release_candidate_by_id_def c rows g q Let_def)
qed

theorem live_release_correct_witness:
  "\<exists>d'. release_candidate_by_id (sample_gate LIVE) (Some (\<lambda>_ w. (Some sample_quote, w))) id 3 (gate_db LIVE ''PHASE'') (gate_db LIVE ''PHASE'') () =
     (Inr (True, d'), ()) \<and> (\<exists>s a. session_allows (gate_db LIVE ''PHASE'') s a)"
proof -
  obtain d' where r: "release_candidate_by_id (sample_gate LIVE) (Some (\<lambda>_ w. (Some sample_quote, w))) id 3 (gate_db LIVE ''PHASE'')
     (gate_db LIVE ''PHASE'') () = (Inr (True, d'), ())" using sample_released by blast
  have "gr_target (sample_gate LIVE) = LIVE" by (simp add: sample_gate_def)
  from live_release_correct [OF this r] r show ?thesis by blast
qed

theorem shadow_combined_never_released_witness:
  "\<forall>d'. fst (release_candidate_by_id (sample_gate SHADOW) None id 3 (gate_db SHADOW ''COMBINED'') (gate_db SHADOW ''COMBINED'') ()) \<noteq> Inr (True, d')"
proof -
  have "get_candidate (gate_db SHADOW ''COMBINED'') 3 = Some (new_candidate (\<lambda>_. ''h'') 3 SHADOW 0 sample_source (sample_source_trade ''COMBINED''))"
    "get_trade (gate_db SHADOW ''COMBINED'') 7 = Some (sample_source_trade ''COMBINED'')"
    by (simp_all add: get_candidate_def get_trade_def gate_samples Let_def)
  moreover have "mc_trade_id (new_candidate (\<lambda>_. ''h'') 3 SHADOW 0 sample_source (sample_source_trade ''COMBINED'')) = 7"
    by (simp add: gate_samples Let_def)
  moreover have "is_combined (sample_source_trade ''COMBINED'')" by code_simp
  moreover have "gr_target (sample_gate SHADOW) \<noteq> LIVE" by (simp add: sample_gate_def)
  ultimately show ?thesis using shadow_combined_never_released by metis
qed

section \<open>The budget of the session\<close>

text \<open>What a session has spent or may still spend on the orders it holds.\<close>

definition session_committed :: "db \<Rightarrow> nat \<Rightarrow> decimal" where
  "session_committed d sid =
     session_entry_cost ACTIVE_TRADABLE_STATUSES d sid + session_request_filled d sid + session_reserved d sid"

lemma get_request_snoc: "rq_id r \<notin> rq_id ` set rs \<Longrightarrow>
   List.find (\<lambda>q. rq_id q = j) (rs @ [r]) = (if j = rq_id r then Some r else List.find (\<lambda>q. rq_id q = j) rs)"
  by (induction rs) auto

lemma released_reserved:
  assumes "gr_request_id g (mc_id c) \<notin> rq_id ` set (db_requests d)" "gr_request_id g (mc_id c) \<notin> rs_request_id ` set (db_reservations d)"
    and "rp_session plan = Some s" "0 \<le> rp_amount plan"
  shows "session_reserved (released_rows g plan c r t d) (ls_id s) = session_reserved d (ls_id s) + rp_amount plan"
proof -
  let ?i = "gr_request_id g (mc_id c)"
  let ?lr = "build_live_request ?i (gr_now g) (gr_target g) plan c r (gr_trade_id g (mc_id c))"
  let ?d = "released_rows g plan c r t d"
  have lr: "rq_id ?lr = ?i" "rq_live_session_id ?lr = Some (ls_id s)" "rq_filled_cost ?lr = 0"
    using assms(3) by (simp_all add: build_live_request_def Let_def)
  have look: "get_request ?d j = (if j = ?i then Some ?lr else get_request d j)" for j
    using get_request_snoc [of ?lr "db_requests d" j] assms(1) lr(1) by (simp add: get_request_def released_rows_def Let_def)
  have old: "get_request ?d (rs_request_id x) = get_request d (rs_request_id x)" if "x \<in> set (db_reservations d)" for x
    using assms(2) that look by (metis image_eqI)
  have rows: "db_reservations ?d = db_reservations d @ [build_reservation (gr_now g) plan ?lr]" by (simp add: released_rows_def Let_def)
  have new: "rs_request_id (build_reservation (gr_now g) plan ?lr) = ?i" "rs_amount (build_reservation (gr_now g) plan ?lr) = rp_amount plan"
    "rs_released_at (build_reservation (gr_now g) plan ?lr) = None" by (simp_all add: build_reservation_def lr(1))
  have keep: "filter (\<lambda>x. rs_released_at x = None \<and> (case get_request ?d (rs_request_id x) of None \<Rightarrow> False | Some r \<Rightarrow> rq_live_session_id r = Some (ls_id s))) (db_reservations d) =
      filter (\<lambda>x. rs_released_at x = None \<and> (case get_request d (rs_request_id x) of None \<Rightarrow> False | Some r \<Rightarrow> rq_live_session_id r = Some (ls_id s))) (db_reservations d)"
    using old by (intro filter_cong) simp_all
  have vals: "map (\<lambda>x. case get_request ?d (rs_request_id x) of None \<Rightarrow> 0 | Some r \<Rightarrow> max 0 (rs_amount x - rq_filled_cost r)) (filter P (db_reservations d)) =
      map (\<lambda>x. case get_request d (rs_request_id x) of None \<Rightarrow> 0 | Some r \<Rightarrow> max 0 (rs_amount x - rq_filled_cost r)) (filter P (db_reservations d))" for P
    using old by (intro map_cong) simp_all
  show ?thesis using assms(4) lr unfolding session_reserved_def rows
    by (simp add: keep vals new look [of ?i])
qed

lemma released_filled:
  assumes "gr_trade_id g (mc_id c) \<notin> tr_id ` set (db_trades d)"
  shows "session_request_filled (released_rows g plan c r t d) sid = session_request_filled d sid"
proof -
  let ?lt = "build_live_trade (gr_trade_id g (mc_id c)) (gr_target g) plan t"
  let ?d = "released_rows g plan c r t d"
  have trades: "db_trades ?d = db_trades d @ [?lt]" by (simp add: released_rows_def Let_def)
  have cost: "tr_entry_cost ?lt = Some 0" by (simp add: build_live_trade_def)
  have same: "(case get_trade ?d i of None \<Rightarrow> True | Some t \<Rightarrow> num_or (tr_entry_cost t) 0 \<le> 0) =
      (case get_trade d i of None \<Rightarrow> True | Some t \<Rightarrow> num_or (tr_entry_cost t) 0 \<le> 0)" for i
    by (auto simp: get_trade_def trades find_snoc cost num_or_def split: option.split)
  show ?thesis unfolding session_request_filled_def same by (simp add: released_rows_def build_live_request_def Let_def)
qed

lemma released_entry_cost: "session_entry_cost st (released_rows g plan c r t d) sid = session_entry_cost st d sid"
  by (simp add: session_entry_cost_def released_rows_def build_live_trade_def sql_sum_def Let_def)



section \<open>Steps of the system\<close>

lemma released_advances:
  assumes "write_release g plan c r t d = Inr d'"
  shows "advances d d'"
proof -
  let ?lr = "build_live_request (gr_request_id g (mc_id c)) (gr_now g) (gr_target g) plan c r (gr_trade_id g (mc_id c))"
  from assms obtain d1 k d2 d3 where w: "insert_trade (build_live_trade (gr_trade_id g (mc_id c)) (gr_target g) plan t) d = Inr d1"
    "insert_request (\<lambda>_ _. False) ?lr d1 = Inr (k, d2)" "insert_reservation (build_reservation (gr_now g) plan ?lr) d2 = Inr d3"
    "d' = upd_candidate (mc_id c) (mark_released (gr_now g) (gr_trade_id g (mc_id c)) (gr_request_id g (mc_id c))) d3"
    by (auto simp: write_release_def Let_def split: sum.splits)
  have "advances d d1" using w(1)
    by (auto simp: insert_trade_Inr advances_def db_ok_def evolves_def get_request_def attempt_keys_def)
  moreover have "advances d1 d2"
  proof -
    obtain i where k: "k = Some i" using w(2) by (auto simp: insert_request_def split: if_splits)
    have "rq_state ?lr \<in> {READY, AWAITING_APPROVAL}" by (simp add: build_live_request_def Let_def)
    moreover have "attempt_keys d2 = attempt_keys d1" using insert_request_SomeD [OF w(2) [unfolded k]] by simp
    ultimately show ?thesis using insert_request_ok [OF _ w(2)] insert_request_evolves [OF w(2) [unfolded k]] by (simp add: advances_def)
  qed
  moreover have "advances d2 d3" using w(3)
    by (auto simp: insert_reservation_Inr advances_def db_ok_def evolves_def get_request_def attempt_keys_def)
  moreover have "advances d3 d'" unfolding w(4) by (rule advances_other) simp_all
  ultimately show ?thesis by (blast intro: advances_trans)
qed

lemma release_advances:
  assumes "release_candidate_by_id g api sleep cid d0 d w = (Inr (b, d'), w')"
  shows "advances d d'"
proof (rule release_cases [OF assms])
  show "d' = upd_candidate (mc_id c) (reject_candidate why) d \<Longrightarrow> advances d d'" for c :: candidate and why
    by (auto intro: advances_other)
qed (auto intro: released_advances)

lemma release_batch_advances: "advances d (snd (fst (release_batch g api sleep d w)))"
  unfolding release_batch_def
  by (auto intro!: release_candidates_chain [where R = advances] intro: advances_trans release_advances)

lemma mirror_rows_advances: "mirror_rows hash newid target now rows d = Inr (n, d') \<Longrightarrow> advances d d'"
proof (induction rows arbitrary: d n)
  case (Cons row rows)
  obtain r t where row: "row = (r, t)" by fastforce
  from Cons.prems obtain k d1 m where s: "insert_candidate (new_candidate hash (newid (rq_id r)) target now r t) d = Inr (k, d1)"
    "mirror_rows hash newid target now rows d1 = Inr (m, d')" by (auto simp: row split: sum.splits)
  have "advances d d1" using s(1) by (auto simp: insert_candidate_def intro: advances_other split: if_splits)
  then show ?case using Cons.IH [OF s(2)] by (rule advances_trans)
qed simp

lemma mirror_iteration_advances:
  "mirror_iteration fromiso hash newid target batch_size poll_interval max_backoff now errors d = (e, z, d') \<Longrightarrow> advances d d'"
  by (auto simp: mirror_iteration_def mirror_batch_def intro: mirror_rows_advances split: if_splits sum.splits list.splits option.splits)

end
