(* ===== verification/Session_Api.thy ===== *)
theory Session_Api
  imports Release_Gate Manual_Review Exit_Triggers
begin

text \<open>
  The operations of \<open>api/execution_api.py\<close> that change state: the switches, the operator's decision on mirror
  candidates and on requests under review, and the life of a LIVE session from its creation to its end. An
  endpoint answers with the status code of its \<open>HTTPException\<close> (500 for an exception nobody caught) or with
  a result, and gives the store after the commit or the rollback. Identifiers in a path are \<open>None\<close> when
  \<open>uuid.UUID\<close> refuses the text. The texts of the answers are not represented; the message of an event, which
  has characters outside ASCII in the source, is an argument. The read-only endpoints and the dashboard are
  left out.
\<close>

type_synonym 'a reply = "nat + 'a"

section \<open>Switches\<close>

text \<open>The branch for switching LIVE trading on comes after the answer 409 and is never reached.\<close>

definition toggle_kill_switch :: "bool \<Rightarrow> db \<Rightarrow> bool reply \<times> db" where
  "toggle_kill_switch enabled d =
     (if enabled then (Inl 409, d) else (Inr False, set_setting ''LIVE_TRADING_ENABLED'' ''false'' d))"

definition get_runtime_flag :: "db \<Rightarrow> string \<Rightarrow> string \<Rightarrow> string" where
  "get_runtime_flag d key dflt = (case db_settings d key of None \<Rightarrow> dflt | Some v \<Rightarrow> v)"

definition toggle_mirror_switch :: "bool \<Rightarrow> time \<Rightarrow> db \<Rightarrow> bool reply \<times> db" where
  "toggle_mirror_switch enabled now d = (Inr enabled, set_mirror_enabled enabled now d)"

datatype release_mode = Release_DISABLED | Release_MANUAL | Release_AUTO

fun release_mode_name :: "release_mode \<Rightarrow> string" where
  "release_mode_name Release_DISABLED = ''DISABLED''"
| "release_mode_name Release_MANUAL = ''MANUAL''"
| "release_mode_name Release_AUTO = ''AUTO''"

definition set_release_mode :: "release_mode \<Rightarrow> db \<Rightarrow> release_mode reply \<times> db" where
  "set_release_mode mode d = (Inr mode, set_setting ''LIVE_RELEASE_MODE'' (release_mode_name mode) d)"

definition bool_flag :: "bool \<Rightarrow> string" where
  "bool_flag b = (if b then ''true'' else ''false'')"

definition toggle_ignore_edge_decay :: "bool \<Rightarrow> db \<Rightarrow> bool reply \<times> db" where
  "toggle_ignore_edge_decay enabled d = (Inr enabled, set_setting ''LIVE_IGNORE_EDGE_DECAY'' (bool_flag enabled) d)"

datatype api_order_mode = Api_FAK | Api_GTC_TTL | Api_GTD | Api_FAK_RETRY | Api_SMART_MAKER

fun api_order_mode_name :: "api_order_mode \<Rightarrow> string" where
  "api_order_mode_name Api_FAK = ''FAK''"
| "api_order_mode_name Api_GTC_TTL = ''GTC_TTL''"
| "api_order_mode_name Api_GTD = ''GTD''"
| "api_order_mode_name Api_FAK_RETRY = ''FAK_RETRY''"
| "api_order_mode_name Api_SMART_MAKER = ''SMART_MAKER''"

record SwitchOrderModeRequest =
  om_mode :: api_order_mode
  om_gtc_ttl :: "pyfloat option"
  om_retry_attempts :: "int option"
  om_retry_delay :: "pyfloat option"
  om_reprice :: "bool option"
  om_reprice_retries :: "int option"
  om_tick :: "pyfloat option"

text \<open>The bounds of the fields; a violation is answered with 422 before the endpoint runs.\<close>

definition in_bounds :: "('a \<Rightarrow> bool) \<Rightarrow> 'a option \<Rightarrow> bool" where
  "in_bounds P x \<longleftrightarrow> (case x of None \<Rightarrow> True | Some v \<Rightarrow> P v)"

definition order_mode_valid :: "SwitchOrderModeRequest \<Rightarrow> bool" where
  "order_mode_valid p \<longleftrightarrow> in_bounds (\<lambda>x. 1 \<le> x \<and> x \<le> 60) (om_gtc_ttl p) \<and> in_bounds (\<lambda>x. 1 \<le> x \<and> x \<le> 10) (om_retry_attempts p) \<and>
     in_bounds (\<lambda>x. flt (1/10) \<le> x \<and> x \<le> 5) (om_retry_delay p) \<and> in_bounds (\<lambda>x. 0 \<le> x \<and> x \<le> 10) (om_reprice_retries p) \<and>
     in_bounds (\<lambda>x. 0 < x \<and> x \<le> flt (1/10)) (om_tick p)"

definition set_if_given :: "string \<Rightarrow> ('a \<Rightarrow> string) \<Rightarrow> 'a option \<Rightarrow> db \<Rightarrow> db" where
  "set_if_given key f x d = (case x of None \<Rightarrow> d | Some v \<Rightarrow> set_setting key (f v) d)"

text \<open>
  The values of the answer that were not in the payload (or are falsy there) are read back and converted;
  malformed text raises after the settings were committed.
\<close>

definition order_mode_answer :: "SwitchOrderModeRequest \<Rightarrow> db \<Rightarrow> bool" where
  "order_mode_answer p d \<longleftrightarrow>
     (om_gtc_ttl p \<noteq> None \<or> parse_float (get_runtime_flag d ''LIVE_GTC_TTL_SECONDS'' ''5.0'') \<noteq> None) \<and>
     (om_retry_attempts p \<noteq> None \<or> parse_int (get_runtime_flag d ''LIVE_FAK_RETRY_MAX_ATTEMPTS'' ''3'') \<noteq> None) \<and>
     (om_retry_delay p \<noteq> None \<or> parse_float (get_runtime_flag d ''LIVE_FAK_RETRY_DELAY_SEC'' ''0.75'') \<noteq> None) \<and>
     (om_reprice_retries p \<noteq> None \<or> parse_int (get_runtime_flag d ''LIVE_MAKER_REPRICE_MAX_RETRIES'' ''3'') \<noteq> None) \<and>
     (om_tick p \<noteq> None \<or> parse_float (get_runtime_flag d ''LIVE_MAKER_TICK_SIZE'' ''0.01'') \<noteq> None)"

definition set_order_mode_api :: "SwitchOrderModeRequest \<Rightarrow> db \<Rightarrow> api_order_mode reply \<times> db" where
  "set_order_mode_api p d =
     (if \<not> order_mode_valid p then (Inl 422, d)
      else let d' =
          set_if_given ''LIVE_MAKER_TICK_SIZE'' float_str (om_tick p)
          (set_if_given ''LIVE_MAKER_REPRICE_MAX_RETRIES'' int_str (om_reprice_retries p)
          (set_if_given ''LIVE_MAKER_REPRICE_ON_CROSS'' bool_flag (om_reprice p)
          (set_if_given ''LIVE_FAK_RETRY_DELAY_SEC'' float_str (om_retry_delay p)
          (set_if_given ''LIVE_FAK_RETRY_MAX_ATTEMPTS'' int_str (om_retry_attempts p)
          (set_if_given ''LIVE_GTC_TTL_SECONDS'' float_str (om_gtc_ttl p)
          (set_setting ''LIVE_ORDER_MODE'' (api_order_mode_name (om_mode p)) d))))))
        in (if order_mode_answer p d' then Inr (om_mode p) else Inl 500, d'))"

section \<open>Candidates and reviews\<close>

definition manual_release_candidate :: "nat option \<Rightarrow> db \<Rightarrow> nat reply \<times> db" where
  "manual_release_candidate candidate_id d =
     (case candidate_id of None \<Rightarrow> (Inl 422, d)
      | Some i \<Rightarrow>
        (case get_candidate d i of None \<Rightarrow> (Inl 404, d)
         | Some c \<Rightarrow>
             if \<not> releasable c then (Inl 409, d)
             else (Inr i, upd_candidate i (\<lambda>c. c\<lparr>mc_state := ELIGIBLE_C\<rparr>) d)))"

datatype review_action = REQUEUE_AFTER_ALLOWANCE | MARK_FAILED_NO_FILL

fun review_action_name :: "review_action \<Rightarrow> string" where
  "review_action_name REQUEUE_AFTER_ALLOWANCE = ''REQUEUE_AFTER_ALLOWANCE''"
| "review_action_name MARK_FAILED_NO_FILL = ''MARK_FAILED_NO_FILL''"

record ResolveReviewRequest =
  rv_action :: review_action
  rv_operator :: string
  rv_note :: string

definition last_attempt_of :: "db \<Rightarrow> nat \<Rightarrow> exec_attempt option" where
  "last_attempt_of d i = first_row (sort_key (\<lambda>a. - at_started_at a) (filter (\<lambda>a. at_request_id a = i) (db_attempts d)))"

definition api_event :: "string \<Rightarrow> string \<Rightarrow> exec_request \<Rightarrow> time \<Rightarrow> exec_event" where
  "api_event kind text r now =
     \<lparr>ev_level = ''INFO'', ev_type = kind, ev_message = text, ev_source = ''execution_api'', ev_trade_id = Some (rq_trade_id r),
      ev_request_id = Some (rq_id r), ev_created_at = now\<rparr>"

definition requeue_request :: "time \<Rightarrow> exec_request \<Rightarrow> exec_request" where
  "requeue_request now r = r\<lparr>rq_state := READY, rq_error_reason := None, rq_updated_at := now\<rparr>"

definition confirmed_no_fill :: "ResolveReviewRequest \<Rightarrow> string" where
  "confirmed_no_fill body =
     ''Confirmed no fill by '' @ rv_operator body @ '': '' @ (if rv_note body = [] then ''provider evidence absent'' else rv_note body)"

text \<open>The answer is the state of the request.\<close>

definition resolve_manual_review ::
  "(ResolveReviewRequest \<Rightarrow> req_state \<Rightarrow> string) \<Rightarrow> nat option \<Rightarrow> ResolveReviewRequest \<Rightarrow> time \<Rightarrow> db \<Rightarrow> req_state reply \<times> db" where
  "resolve_manual_review text request_id body now d =
     (case request_id of None \<Rightarrow> (Inl 400, d)
      | Some i \<Rightarrow>
        (case get_request d i of None \<Rightarrow> (Inl 404, d)
         | Some r \<Rightarrow>
             let event = (\<lambda>s. api_event (''MANUAL_REVIEW_'' @ review_action_name (rv_action body)) (text body s) r now) in
             if rq_state r = MANUAL_REVIEW_FAILED then (Inr MANUAL_REVIEW_FAILED, d)
             else if rq_state r \<noteq> MANUAL_REVIEW_REQUIRED then (Inl 409, d)
             else (case rv_action body of
                REQUEUE_AFTER_ALLOWANCE \<Rightarrow>
                  if (case last_attempt_of d i of None \<Rightarrow> False | Some a \<Rightarrow> str_or_empty (at_provider_order_id a) \<noteq> [])
                  then (Inl 422, d)
                  else (Inr READY, add_event (event READY) (upd_request i (requeue_request now) d))
              | MARK_FAILED_NO_FILL \<Rightarrow>
                  if \<not> allowed (evaluate_no_fill_eligibility d r) then (Inl 409, d)
                  else (Inr MANUAL_REVIEW_FAILED, add_event (event MANUAL_REVIEW_FAILED)
                     (finalize_request i MANUAL_REVIEW_FAILED (Some (confirmed_no_fill body)) now d)))))"

text \<open>
  The requests are locked and their eligibility is computed before the first of them is closed; the order in
  which the database returns them is the order of the table.
\<close>

fun close_unfilled :: "(exec_request \<Rightarrow> string) \<Rightarrow> string \<Rightarrow> time \<Rightarrow> (nat \<rightharpoonup> NoFillEligibility) \<Rightarrow> exec_request list \<Rightarrow> db \<Rightarrow> (nat list \<times> nat list) \<times> db" where
  "close_unfilled text operator now eligible [] d = (([], []), d)"
| "close_unfilled text operator now eligible (r # rs) d =
     (if (case eligible (rq_id r) of None \<Rightarrow> False | Some e \<Rightarrow> allowed e)
      then (case close_unfilled text operator now eligible rs
               (add_event (api_event ''MANUAL_REVIEW_BATCH_NO_FILL'' (text r) r now)
                 (finalize_request (rq_id r) MANUAL_REVIEW_FAILED (Some (''Batch no-fill confirmation by '' @ operator)) now d)) of
              ((done, skipped), d') \<Rightarrow> ((rq_id r # done, skipped), d'))
      else (case close_unfilled text operator now eligible rs d of ((done, skipped), d') \<Rightarrow> ((done, rq_id r # skipped), d')))"

definition resolve_no_fill_batch ::
  "(exec_request \<Rightarrow> string) \<Rightarrow> nat list \<Rightarrow> string \<Rightarrow> time \<Rightarrow> db \<Rightarrow> (nat list \<times> nat list) reply \<times> db" where
  "resolve_no_fill_batch text ids operator now d =
     (if ids = [] \<or> 100 < length ids then (Inl 422, d)
      else let requests = filter (\<lambda>r. rq_id r \<in> set ids) (db_requests d) in
        (case close_unfilled text operator now (evaluate_no_fill_eligibility_batch d requests) requests d of
           (answer, d') \<Rightarrow> (Inr answer, d')))"

text \<open>The update time is moved back so that the next round of the worker asks the venue.\<close>

definition mark_reconciling :: "time \<Rightarrow> exec_request \<Rightarrow> exec_request" where
  "mark_reconciling now r = r\<lparr>rq_state := RECONCILING, rq_updated_at := now - seconds 61\<rparr>"

definition reconcile_request :: "nat \<Rightarrow> time \<Rightarrow> db \<Rightarrow> req_state reply \<times> db" where
  "reconcile_request i now d =
     (case get_request d i of None \<Rightarrow> (Inl 404, d)
      | Some r \<Rightarrow>
          if rq_mode r \<noteq> LIVE then (Inl 409, d)
          else if rq_state r \<notin> {SUBMITTING, ACCEPTED, UNKNOWN, PARTIALLY_FILLED, RECONCILING, MANUAL_REVIEW_REQUIRED} then (Inl 409, d)
          else if \<not> (\<exists>a\<in>set (db_attempts d). at_request_id a = i \<and> at_provider_order_id a \<noteq> None) then (Inl 422, d)
          else (Inr (rq_state r), upd_request i (mark_reconciling now) d))"

section \<open>The limits of a session\<close>

record session_limits =
  lm_budget :: decimal
  lm_order_amount :: "decimal option"
  lm_max_single :: decimal
  lm_max_open :: int
  lm_assets :: "string list"
  lm_max_exposure :: decimal

datatype limit_error =
    Bad_assets | Budget_not_positive | Exposure_not_positive | Single_not_positive | Single_below_minimum | Single_over_budget
  | Exposure_over_budget | Bad_max_open | Amount_below_minimum | Amount_over_single | Amount_over_exposure | Amount_over_budget

fun first_refusal :: "(bool \<times> limit_error) list \<Rightarrow> limit_error option" where
  "first_refusal [] = None"
| "first_refusal ((b, e) # xs) = (if b then Some e else first_refusal xs)"

definition amount_checks :: "session_limits \<Rightarrow> (bool \<times> limit_error) list" where
  "amount_checks l =
     (case lm_order_amount l of None \<Rightarrow> []
      | Some a \<Rightarrow> [(a < LIVE_MIN_GROSS_BUY_USDC, Amount_below_minimum), (lm_max_single l < a, Amount_over_single),
                   (lm_max_exposure l < a, Amount_over_exposure), (lm_budget l < a, Amount_over_budget)])"

definition common_checks :: "session_limits \<Rightarrow> (bool \<times> limit_error) list" where
  "common_checks l =
     [(lm_max_single l < LIVE_MIN_GROSS_BUY_USDC, Single_below_minimum), (lm_budget l < lm_max_single l, Single_over_budget),
      (lm_budget l < lm_max_exposure l, Exposure_over_budget), (\<not> (1 \<le> lm_max_open l \<and> lm_max_open l \<le> 100), Bad_max_open)]
     @ amount_checks l"

definition validate_limits :: "session_limits \<Rightarrow> limit_error + session_limits" where
  "validate_limits l =
     (case normalize_live_assets False (Asset_list (lm_assets l)) of Inl _ \<Rightarrow> Inl Bad_assets
      | Inr assets \<Rightarrow>
        (case first_refusal ((lm_budget l \<le> 0, Budget_not_positive) # common_checks l) of Some e \<Rightarrow> Inl e
         | None \<Rightarrow> Inr (l\<lparr>lm_assets := assets\<rparr>)))"

text \<open>
  A \<open>Numeric(18, 6)\<close> column: six digits after the point, half away from zero, at most twelve before it.
\<close>

definition pg_numeric :: "decimal \<Rightarrow> decimal option" where
  "pg_numeric x =
     (let y = of_int \<lfloor>\<bar>x\<bar> * 10 ^ 6 + 1/2\<rfloor> / 10 ^ 6 in if 10 ^ 12 \<le> y then None else Some (if x < 0 then - y else y))"

definition stored_limits :: "session_limits \<Rightarrow> session_limits option" where
  "stored_limits l =
     (case (pg_numeric (lm_budget l), pg_numeric (lm_max_single l), pg_numeric (lm_max_exposure l)) of
        (Some b, Some s, Some e) \<Rightarrow>
          (case lm_order_amount l of None \<Rightarrow> Some (l\<lparr>lm_budget := b, lm_max_single := s, lm_max_exposure := e\<rparr>)
           | Some a \<Rightarrow>
             (case pg_numeric a of None \<Rightarrow> None
              | Some a' \<Rightarrow> Some (l\<lparr>lm_budget := b, lm_max_single := s, lm_max_exposure := e, lm_order_amount := Some a'\<rparr>)))
      | _ \<Rightarrow> None)"

section \<open>The life of a session\<close>

definition get_session :: "db \<Rightarrow> nat \<Rightarrow> live_session option" where
  "get_session d i = List.find (\<lambda>s. ls_id s = i) (db_sessions d)"

definition upd_session :: "nat \<Rightarrow> (live_session \<Rightarrow> live_session) \<Rightarrow> db \<Rightarrow> db" where
  "upd_session i f d = d\<lparr>db_sessions := update_where (\<lambda>s. ls_id s = i) f (db_sessions d)\<rparr>"

definition with_session :: "nat option \<Rightarrow> db \<Rightarrow> (live_session \<Rightarrow> 'a reply \<times> db) \<Rightarrow> 'a reply \<times> db" where
  "with_session session_id d k =
     (case session_id of None \<Rightarrow> (Inl 400, d)
      | Some i \<Rightarrow> (case get_session d i of None \<Rightarrow> (Inl 404, d) | Some s \<Rightarrow> k s))"

definition new_session :: "nat \<Rightarrow> session_limits \<Rightarrow> live_session" where
  "new_session sid l =
     \<lparr>ls_id = sid, ls_status = DRAFT_S, ls_budget = lm_budget l, ls_order_amount = lm_order_amount l, ls_reserved = 0, ls_filled = 0,
      ls_max_single = lm_max_single l, ls_max_exposure = lm_max_exposure l, ls_assets = lm_assets l, ls_max_open = lm_max_open l,
      ls_started_at = None, ls_stopped_at = None, ls_stop_reason = None\<rparr>"

definition create_live_session :: "session_limits \<Rightarrow> nat \<Rightarrow> db \<Rightarrow> nat reply \<times> db" where
  "create_live_session payload sid d =
     (case validate_limits payload of Inl _ \<Rightarrow> (Inl 422, d)
      | Inr l \<Rightarrow>
        (case get_active_session_for_update d of Some _ \<Rightarrow> (Inl 409, d)
         | None \<Rightarrow>
           (case stored_limits l of None \<Rightarrow> (Inl 500, d)
            | Some l' \<Rightarrow>
                if \<exists>s\<in>set (db_sessions d). ls_id s = sid then (Inl 500, d)
                else (Inr sid, d\<lparr>db_sessions := db_sessions d @ [new_session sid l']\<rparr>))))"

text \<open>
  A change of limits. The fields read from \<open>model_fields_set\<close> distinguish an absent field (\<open>None\<close>) from an
  explicit null (\<open>Some None\<close>).
\<close>

record UpdateLiveSessionLimitsRequest =
  up_order_amount :: "decimal option option"
  up_max_single :: "decimal option"
  up_assets :: "string list option option"
  up_max_exposure :: "decimal option"
  up_max_open :: "int option"
  up_budget :: "decimal option"

definition given :: "'a option \<Rightarrow> 'a \<Rightarrow> 'a" where
  "given x old = (case x of None \<Rightarrow> old | Some v \<Rightarrow> v)"

definition new_assets :: "UpdateLiveSessionLimitsRequest \<Rightarrow> live_session \<Rightarrow> string list outcome" where
  "new_assets p s =
     (case up_assets p of
        Some None \<Rightarrow> normalize_live_assets False No_assets
      | Some (Some xs) \<Rightarrow> normalize_live_assets False (Asset_list xs)
      | None \<Rightarrow> normalize_live_assets True (Asset_list (ls_assets s)))"

definition patched_limits :: "UpdateLiveSessionLimitsRequest \<Rightarrow> live_session \<Rightarrow> string list \<Rightarrow> session_limits" where
  "patched_limits p s assets =
     \<lparr>lm_budget = given (up_budget p) (ls_budget s), lm_order_amount = given (up_order_amount p) (ls_order_amount s),
      lm_max_single = given (up_max_single p) (ls_max_single s), lm_max_open = given (up_max_open p) (ls_max_open s),
      lm_assets = assets, lm_max_exposure = given (up_max_exposure p) (ls_max_exposure s)\<rparr>"

definition set_limits :: "session_limits \<Rightarrow> live_session \<Rightarrow> live_session" where
  "set_limits l s =
     s\<lparr>ls_budget := lm_budget l, ls_order_amount := lm_order_amount l, ls_max_single := lm_max_single l,
       ls_max_exposure := lm_max_exposure l, ls_max_open := lm_max_open l, ls_assets := lm_assets l,
       ls_status := (if ls_status s \<in> {READY_S, STOPPED_S} then DRAFT_S else ls_status s)\<rparr>"

definition update_live_session_limits :: "nat option \<Rightarrow> UpdateLiveSessionLimitsRequest \<Rightarrow> db \<Rightarrow> nat reply \<times> db" where
  "update_live_session_limits session_id p d =
     with_session session_id d (\<lambda>s.
       if ls_status s \<notin> {DRAFT_S, READY_S, STOPPED_S} then (Inl 409, d)
       else (case new_assets p s of Inl _ \<Rightarrow> (Inl 422, d)
        | Inr assets \<Rightarrow>
          let l = patched_limits p s assets in
          (case first_refusal ([(lm_budget l \<le> 0, Budget_not_positive), (lm_max_exposure l \<le> 0, Exposure_not_positive),
                                (lm_max_single l \<le> 0, Single_not_positive)] @ common_checks l) of
             Some _ \<Rightarrow> (Inl 422, d)
           | None \<Rightarrow>
               if lm_budget l < bs_committed (get_session_budget_snapshot d s) then (Inl 422, d)
               else (case stored_limits l of None \<Rightarrow> (Inl 500, d)
                 | Some l' \<Rightarrow> (Inr (ls_id s), upd_session (ls_id s) (set_limits l') d)))))"

definition check_live_session_readiness :: "nat option \<Rightarrow> time \<Rightarrow> db \<Rightarrow> LiveReadinessResult reply \<times> db" where
  "check_live_session_readiness session_id now d =
     with_session session_id d (\<lambda>s.
       let readiness = evaluate_live_readiness d now s None in
       (Inr readiness,
        if ls_status s \<in> {DRAFT_S, STOPPED_S}
        then upd_session (ls_id s) (\<lambda>s. s\<lparr>ls_status := (if rr_ready readiness then READY_S else DRAFT_S)\<rparr>) d else d))"

definition set_settings :: "(string \<times> string) list \<Rightarrow> db \<Rightarrow> db" where
  "set_settings kvs d = foldl (\<lambda>d (k, v). set_setting k v d) d kvs"

definition stop_session :: "time \<Rightarrow> string \<Rightarrow> live_session \<Rightarrow> live_session" where
  "stop_session now why s = s\<lparr>ls_status := STOPPED_S, ls_stopped_at := Some now, ls_stop_reason := Some why\<rparr>"

definition start_session :: "time \<Rightarrow> live_session \<Rightarrow> live_session" where
  "start_session now s =
     s\<lparr>ls_status := ACTIVE_S, ls_started_at := (case ls_started_at s of None \<Rightarrow> Some now | Some t \<Rightarrow> Some t)\<rparr>"

text \<open>
  The flush writes the changed sessions in the order of their identifiers (the order of the numbers here),
  and the partial unique index on ACTIVE is checked row by row: another active session with a larger
  identifier is still active when the new one becomes so.
\<close>

definition activate_live_session :: "nat option \<Rightarrow> time \<Rightarrow> db \<Rightarrow> nat reply \<times> db" where
  "activate_live_session session_id now d =
     with_session session_id d (\<lambda>s.
       if ls_status s \<notin> {DRAFT_S, READY_S, STOPPED_S} then (Inl 409, d)
       else if \<not> rr_ready (evaluate_live_readiness d now s None) then (Inl 409, d)
       else if \<exists>x\<in>set (db_sessions d). ls_status x = ACTIVE_S \<and> ls_id s < ls_id x then (Inl 500, d)
       else
         let d1 = set_settings [(''LIVE_MIRROR_ENABLED'', ''true''), (''LIVE_RELEASE_MODE'', ''AUTO''),
               (''LIVE_TRADING_ENABLED'', ''true''), (''LIVE_MIRROR_STARTED_AT'', isoformat now)] d;
             d2 = d1\<lparr>db_sessions := update_where (\<lambda>x. ls_status x = ACTIVE_S \<and> ls_id x \<noteq> ls_id s)
               (stop_session now ''superseded_by_new_activation'') (db_sessions d1)\<rparr>
         in (Inr (ls_id s), upd_session (ls_id s) (start_session now) d2))"

definition stop_live_session :: "nat option \<Rightarrow> time \<Rightarrow> db \<Rightarrow> nat reply \<times> db" where
  "stop_live_session session_id now d =
     with_session session_id d (\<lambda>s.
       (Inr (ls_id s), upd_session (ls_id s) (stop_session now ''USER_STOP'')
          (set_settings [(''LIVE_MIRROR_ENABLED'', ''false''), (''LIVE_RELEASE_MODE'', ''DISABLED''),
             (''LIVE_TRADING_ENABLED'', ''false''), (''LIVE_MIRROR_STARTED_AT'', '''')] d)))"

definition active_session_requests :: "db \<Rightarrow> nat \<Rightarrow> nat" where
  "active_session_requests d sid =
     length (filter (\<lambda>r. rq_live_session_id r = Some sid \<and> rq_mode r = LIVE \<and> rq_state r \<in>
       {AWAITING_APPROVAL, READY, CLAIMED, SUBMITTING, ACCEPTED, UNKNOWN, PARTIALLY_FILLED, RECONCILING, MANUAL_REVIEW_REQUIRED})
       (db_requests d))"

definition finish_live_session :: "nat option \<Rightarrow> time \<Rightarrow> db \<Rightarrow> nat reply \<times> db" where
  "finish_live_session session_id now d =
     with_session session_id d (\<lambda>s.
       if 0 < count_session_positions d (ls_id s) then (Inl 409, d)
       else if 0 < active_session_requests d (ls_id s) then (Inl 409, d)
       else (Inr (ls_id s), upd_session (ls_id s) (stop_session now ''COMPLETED'') d))"

section \<open>Closing positions by hand\<close>

definition market_tradable :: "live_market \<Rightarrow> bool" where
  "market_tradable m \<longleftrightarrow> mk_resolution_status m = ''PENDING'' \<and> mk_trading_status m = ''TRADABLE'' \<and> mk_accepting m"

text \<open>\<open>float(trade.executed_price or 0.5)\<close>.\<close>

definition manual_limit :: "trade \<Rightarrow> pyfloat" where
  "manual_limit t = (if tr_executed_price t = 0 then 1/2 else tr_executed_price t)"

definition close_live_position :: "int \<Rightarrow> nat \<Rightarrow> time \<Rightarrow> db \<Rightarrow> enqueue_result reply \<times> db" where
  "close_live_position trade_id rid now d =
     (case get_trade d trade_id of None \<Rightarrow> (Inl 404, d)
      | Some t \<Rightarrow>
          if tr_mode t \<noteq> LIVE then (Inl 404, d)
          else if tr_position t \<notin> {OPEN_POS, PARTIALLY_CLOSED_POS} then (Inl 409, d)
          else (case get_market d (tr_market_id t) of None \<Rightarrow> (Inl 404, d)
           | Some m \<Rightarrow>
               if \<not> market_tradable m then (Inl 409, d)
               else if num_or (tr_remaining t) 0 \<le> 0 then (Inl 409, d)
               else (case enqueue_close_request d now rid (tr_id t) MANUAL (manual_limit t) None of
                  Inl _ \<Rightarrow> (Inl 500, d)
                | Inr (res, d') \<Rightarrow>
                    if er_disposition res = CREATED then (Inr res, d')
                    else if er_disposition res = DUPLICATE then (Inr res, d)
                    else (Inl 409, d))))"

text \<open>The rows are read once; one exception takes every close of the call back.\<close>

fun close_trades :: "(int \<Rightarrow> nat) \<Rightarrow> time \<Rightarrow> (trade \<times> live_market option) list \<Rightarrow> db \<Rightarrow> ((int \<times> enqueue_result option) list \<times> db) outcome" where
  "close_trades newid now [] d = Inr ([], d)"
| "close_trades newid now ((t, m) # rows) d =
     (if (case m of None \<Rightarrow> True | Some m \<Rightarrow> \<not> market_tradable m)
      then bind_out (close_trades newid now rows d) (\<lambda>(rs, d'). Inr ((tr_id t, None) # rs, d'))
      else bind_out (enqueue_close_request d now (newid (tr_id t)) (tr_id t) MANUAL (manual_limit t) None) (\<lambda>(res, d1).
             bind_out (close_trades newid now rows d1) (\<lambda>(rs, d'). Inr ((tr_id t, Some res) # rs, d'))))"

definition close_all_session_positions :: "nat option \<Rightarrow> (int \<Rightarrow> nat) \<Rightarrow> time \<Rightarrow> db \<Rightarrow> (int \<times> enqueue_result option) list reply \<times> db" where
  "close_all_session_positions session_id newid now d =
     (case session_id of None \<Rightarrow> (Inl 400, d)
      | Some sid \<Rightarrow>
        let rows = map (\<lambda>t. (t, get_market d (tr_market_id t)))
              (filter (\<lambda>t. tr_mode t = LIVE \<and> tr_position t \<in> {OPEN_POS, PARTIALLY_CLOSED_POS} \<and> tr_live_session_id t = Some sid) (db_trades d))
        in (case close_trades newid now rows d of Inl _ \<Rightarrow> (Inl 500, d) | Inr (rs, d') \<Rightarrow> (Inr rs, d')))"

text \<open>A market that is not resolved yet is committed with its refreshed state; other errors are rolled back.\<close>

definition reconcile_resolution_endpoint :: "(string \<Rightarrow> gamma_market outcome) \<Rightarrow> int \<Rightarrow> db \<Rightarrow> pos_status reply \<times> db" where
  "reconcile_resolution_endpoint fetch trade_id d =
     (case reconcile_live_resolution fetch trade_id d of
        (Inr t, d') \<Rightarrow> (Inr (tr_position t), d')
      | (Inl LivePositionNotFound, d') \<Rightarrow> (Inl 404, d)
      | (Inl MarketNotResolved, d') \<Rightarrow> (Inl 409, d')
      | (Inl GammaApiError, d') \<Rightarrow> (Inl 503, d)
      | (Inl _, d') \<Rightarrow> (Inl 500, d))"

section \<open>The limits of every session are consistent\<close>

lemma pg_numeric_mono:
  assumes "pg_numeric x = Some x'" "pg_numeric y = Some y'" "x \<le> y"
  shows "x' \<le> y'"
proof -
  have m: "of_int \<lfloor>a * 10 ^ 6 + 1/2\<rfloor> / 10 ^ 6 \<le> (of_int \<lfloor>b * 10 ^ 6 + 1/2\<rfloor> / 10 ^ 6 :: decimal)" if "a \<le> b" for a b :: decimal
    using that by (intro divide_right_mono of_int_le_iff [THEN iffD2] floor_mono add_right_mono mult_right_mono) simp_all
  have p: "0 \<le> (of_int \<lfloor>\<bar>a\<bar> * 10 ^ 6 + 1/2\<rfloor> / 10 ^ 6 :: decimal)" for a :: decimal
    by (intro divide_nonneg_pos) simp_all
  have x: "x' = (if x < 0 then - (of_int \<lfloor>\<bar>x\<bar> * 10 ^ 6 + 1/2\<rfloor> / 10 ^ 6) else of_int \<lfloor>\<bar>x\<bar> * 10 ^ 6 + 1/2\<rfloor> / 10 ^ 6)"
    using assms(1) by (simp add: pg_numeric_def Let_def split: if_splits)
  have y: "y' = (if y < 0 then - (of_int \<lfloor>\<bar>y\<bar> * 10 ^ 6 + 1/2\<rfloor> / 10 ^ 6) else of_int \<lfloor>\<bar>y\<bar> * 10 ^ 6 + 1/2\<rfloor> / 10 ^ 6)"
    using assms(2) by (simp add: pg_numeric_def Let_def split: if_splits)
  consider "x < 0" "y < 0" | "x < 0" "0 \<le> y" | "0 \<le> x" "0 \<le> y" using assms(3) by linarith
  then show ?thesis
  proof cases
    case 1
    then show ?thesis using m [of "\<bar>y\<bar>" "\<bar>x\<bar>"] assms(3) unfolding x y by simp
  next
    case 2
    then show ?thesis using order_trans [OF _ p [of y], of "- (of_int \<lfloor>\<bar>x\<bar> * 10 ^ 6 + 1/2\<rfloor> / 10 ^ 6)"] p [of x] unfolding x y by simp
  next
    case 3
    then show ?thesis using m [of "\<bar>x\<bar>" "\<bar>y\<bar>"] assms(3) unfolding x y by simp
  qed
qed

lemma pg_numeric_minimum: "pg_numeric LIVE_MIN_GROSS_BUY_USDC = Some (11/10)"
  by code_simp

text \<open>Limits that the endpoints accept, for a record of limits and for a stored session.\<close>

definition limits_ok :: "session_limits \<Rightarrow> bool" where
  "limits_ok l \<longleftrightarrow> 11/10 \<le> lm_max_single l \<and> lm_max_single l \<le> lm_budget l \<and> lm_max_exposure l \<le> lm_budget l \<and>
     1 \<le> lm_max_open l \<and> lm_max_open l \<le> 100 \<and>
     (\<forall>a. lm_order_amount l = Some a \<longrightarrow> 11/10 \<le> a \<and> a \<le> lm_max_single l \<and> a \<le> lm_max_exposure l) \<and>
     lm_assets l \<noteq> [] \<and> distinct (lm_assets l) \<and> set (lm_assets l) \<subseteq> set LIVE_TRADING_ASSETS"

definition limits_of :: "live_session \<Rightarrow> session_limits" where
  "limits_of s = \<lparr>lm_budget = ls_budget s, lm_order_amount = ls_order_amount s, lm_max_single = ls_max_single s,
     lm_max_open = ls_max_open s, lm_assets = ls_assets s, lm_max_exposure = ls_max_exposure s\<rparr>"

lemma refusal_append: "first_refusal (xs @ ys) = None \<longleftrightarrow> first_refusal xs = None \<and> first_refusal ys = None"
  by (induction xs rule: first_refusal.induct) auto

lemma common_checks_ok:
  assumes "first_refusal (common_checks l) = None" "lm_assets l \<noteq> []" "distinct (lm_assets l)" "set (lm_assets l) \<subseteq> set LIVE_TRADING_ASSETS"
  shows "limits_ok l"
  using assms by (auto simp: common_checks_def amount_checks_def limits_ok_def LIVE_MIN_GROSS_BUY_USDC_def split: if_splits option.splits)

lemma stored_limits_ok:
  assumes "stored_limits l = Some l'" "limits_ok l"
  shows "limits_ok l'"
proof -
  from assms(1) obtain b s e where n: "pg_numeric (lm_budget l) = Some b" "pg_numeric (lm_max_single l) = Some s" "pg_numeric (lm_max_exposure l) = Some e"
    and l': "lm_budget l' = b" "lm_max_single l' = s" "lm_max_exposure l' = e" "lm_max_open l' = lm_max_open l" "lm_assets l' = lm_assets l"
    and amt: "\<And>a'. lm_order_amount l' = Some a' \<Longrightarrow> \<exists>a. lm_order_amount l = Some a \<and> pg_numeric a = Some a'"
    by (auto simp: stored_limits_def split: option.splits)
  note low = pg_numeric_mono [OF pg_numeric_minimum, unfolded LIVE_MIN_GROSS_BUY_USDC_def]
  have "11/10 \<le> a' \<and> a' \<le> s \<and> a' \<le> e" if "lm_order_amount l' = Some a'" for a'
  proof -
    from amt [OF that] obtain a where a: "lm_order_amount l = Some a" "pg_numeric a = Some a'" by blast
    then show ?thesis using assms(2) low [OF a(2)] pg_numeric_mono [OF a(2) n(2)] pg_numeric_mono [OF a(2) n(3)] by (simp add: limits_ok_def)
  qed
  then show ?thesis using assms(2) low [OF n(2)] pg_numeric_mono [OF n(2,1)] pg_numeric_mono [OF n(3,1)] by (simp add: limits_ok_def l')
qed

definition sessions_ok :: "db \<Rightarrow> bool" where
  "sessions_ok d \<longleftrightarrow> distinct (map ls_id (db_sessions d)) \<and> (\<forall>s\<in>set (db_sessions d). limits_ok (limits_of s)) \<and>
     (\<forall>s\<in>set (db_sessions d). \<forall>t\<in>set (db_sessions d). ls_status s = ACTIVE_S \<and> ls_status t = ACTIVE_S \<longrightarrow> ls_id s = ls_id t)"

lemma upd_session_ok:
  assumes "sessions_ok d" "\<And>s. ls_id (f s) = ls_id s" "\<And>s. limits_ok (limits_of s) \<Longrightarrow> limits_ok (limits_of (f s))"
    and "\<And>s. ls_status (f s) = ACTIVE_S \<Longrightarrow> ls_status s = ACTIVE_S"
  shows "sessions_ok (upd_session i f d)"
proof -
  have "distinct (map ls_id (update_where (\<lambda>s. ls_id s = i) f (db_sessions d)))"
    using assms(1,2) by (simp add: map_update_where_key sessions_ok_def)
  moreover have "limits_ok (limits_of s)" if "s \<in> set (update_where (\<lambda>s. ls_id s = i) f (db_sessions d))" for s
    using that assms(1,3) by (auto simp: set_update_where sessions_ok_def split: if_splits)
  moreover have "\<exists>u\<in>set (db_sessions d). ls_id u = ls_id s \<and> ls_status u = ACTIVE_S"
    if "s \<in> set (update_where (\<lambda>s. ls_id s = i) f (db_sessions d))" "ls_status s = ACTIVE_S" for s
    using that assms(2,4) by (force simp: set_update_where split: if_splits)
  ultimately show ?thesis using assms(1) unfolding sessions_ok_def upd_session_def by simp metis
qed

lemma sessions_okI:
  assumes "distinct (map ls_id (db_sessions d))" "\<And>s. s \<in> set (db_sessions d) \<Longrightarrow> limits_ok (limits_of s)"
    and "\<And>s t. s \<in> set (db_sessions d) \<Longrightarrow> t \<in> set (db_sessions d) \<Longrightarrow> ls_status s = ACTIVE_S \<Longrightarrow> ls_status t = ACTIVE_S \<Longrightarrow> ls_id s = ls_id t"
  shows "sessions_ok d"
  using assms unfolding sessions_ok_def by blast

lemma sessions_okD:
  assumes "sessions_ok d"
  shows "distinct (map ls_id (db_sessions d))" "s \<in> set (db_sessions d) \<Longrightarrow> limits_ok (limits_of s)"
    "s \<in> set (db_sessions d) \<Longrightarrow> t \<in> set (db_sessions d) \<Longrightarrow> ls_status s = ACTIVE_S \<Longrightarrow> ls_status t = ACTIVE_S \<Longrightarrow> ls_id s = ls_id t"
  using assms unfolding sessions_ok_def by blast+

lemma stop_session_ok: "sessions_ok d \<Longrightarrow> sessions_ok (upd_session i (stop_session now why) d)"
  by (rule upd_session_ok) (simp_all add: stop_session_def limits_of_def)

lemma with_session_cases:
  assumes "with_session session_id d k = (x, d')"
  obtains (refused) "d' = d" "x = Inl 400 \<or> x = Inl 404" | (found) s where "s \<in> set (db_sessions d)" "k s = (x, d')"
  using assms by (auto simp: with_session_def get_session_def split: option.splits dest: find_SomeD)

lemma set_settings_sessions [simp]: "db_sessions (set_settings kvs d) = db_sessions d"
  unfolding set_settings_def by (induction kvs arbitrary: d) (auto simp: set_setting_def)

lemma limits_of_written [simp]: "limits_of (set_limits l s) = l" "limits_of (new_session sid l) = l"
  by (cases l; simp add: limits_of_def set_limits_def new_session_def)+

lemma sessions_ok_cong: "db_sessions d' = db_sessions d \<Longrightarrow> sessions_ok d' = sessions_ok d"
  by (simp add: sessions_ok_def)

text \<open>What the endpoints and every other component do to the table of sessions.\<close>

inductive session_step :: "db \<Rightarrow> db \<Rightarrow> bool" where
  create: "create_live_session l sid d = (x, d') \<Longrightarrow> session_step d d'"
| limits: "update_live_session_limits i p d = (x, d') \<Longrightarrow> session_step d d'"
| readiness: "check_live_session_readiness i now d = (y, d') \<Longrightarrow> session_step d d'"
| activate: "activate_live_session i now d = (x, d') \<Longrightarrow> session_step d d'"
| stop: "stop_live_session i now d = (x, d') \<Longrightarrow> session_step d d'"
| finish: "finish_live_session i now d = (x, d') \<Longrightarrow> session_step d d'"
| elsewhere: "db_sessions d' = db_sessions d \<Longrightarrow> session_step d d'"

lemma create_sessions_ok:
  assumes "create_live_session p sid d = (x, d')" "sessions_ok d"
  shows "sessions_ok d'"
proof (cases "d' = d")
  case False
  then obtain l l' where v: "validate_limits p = Inr l" "stored_limits l = Some l'" "sid \<notin> ls_id ` set (db_sessions d)"
    and d': "d' = d\<lparr>db_sessions := db_sessions d @ [new_session sid l']\<rparr>"
    using assms(1) by (auto simp: create_live_session_def split: sum.splits option.splits if_splits)
  obtain assets where a: "normalize_live_assets False (Asset_list (lm_assets p)) = Inr assets" "first_refusal (common_checks p) = None"
    "l = p\<lparr>lm_assets := assets\<rparr>" using v(1) by (auto simp: validate_limits_def split: sum.splits option.splits if_splits)
  have "common_checks l = common_checks p" by (simp add: a(3) common_checks_def amount_checks_def split: option.split)
  then have "first_refusal (common_checks l) = None" using a(2) by simp
  then have "limits_ok l" using normalize_live_assets_stable [OF a(1)] by (intro common_checks_ok) (simp_all add: a(3))
  then have "limits_ok (limits_of (new_session sid l'))" using stored_limits_ok [OF v(2)] by simp
  moreover have "ls_id (new_session sid l') = sid" "ls_status (new_session sid l') = DRAFT_S" by (simp_all add: new_session_def)
  ultimately show ?thesis using assms(2) v(3) by (intro sessions_okI) (auto simp: d' dest: sessions_okD)
qed (use assms(2) in simp)

lemma limits_sessions_ok:
  assumes "update_live_session_limits i p d = (x, d')" "sessions_ok d"
  shows "sessions_ok d'"
  using assms(1) unfolding update_live_session_limits_def
proof (cases rule: with_session_cases)
  case (found s)
  show ?thesis
  proof (cases "d' = d")
    case False
    then obtain assets l l' where n: "new_assets p s = Inr assets" "l = patched_limits p s assets" "first_refusal (common_checks l) = None"
      "stored_limits l = Some l'" "d' = upd_session (ls_id s) (set_limits l') d"
      using found(2) by (auto simp: refusal_append Let_def split: if_splits sum.splits option.splits)
    have "\<exists>b v. normalize_live_assets b v = Inr assets" using n(1) by (auto simp: new_assets_def split: option.splits)
    then have "limits_ok l" using n(3) normalize_live_assets_stable by (intro common_checks_ok) (force simp: n(2) patched_limits_def)+
    then have "limits_ok (limits_of (set_limits l' u))" for u
      using stored_limits_ok [OF n(4)] by simp
    then show ?thesis unfolding n(5) using assms(2) by (intro upd_session_ok) (auto simp: set_limits_def split: if_splits)
  qed (use assms(2) in simp)
qed (use assms(2) in simp)

lemma activate_sessions_ok:
  assumes "activate_live_session i now d = (x, d')" "sessions_ok d"
  shows "sessions_ok d'"
  using assms(1) unfolding activate_live_session_def
proof (cases rule: with_session_cases)
  case (found s)
  show ?thesis
  proof (cases "d' = d")
    case False
    let ?f = "\<lambda>u. if ls_id u = ls_id s then start_session now u else
      if ls_status u = ACTIVE_S then stop_session now ''superseded_by_new_activation'' u else u"
    have rows: "db_sessions d' = map ?f (db_sessions d)"
      using False found(2) by (auto simp: upd_session_def update_where_def stop_session_def Let_def split: if_splits)
    have f: "ls_id (?f u) = ls_id u" "limits_of (?f u) = limits_of u" "ls_status (?f u) = ACTIVE_S \<longleftrightarrow> ls_id u = ls_id s" for u
      by (auto simp: start_session_def stop_session_def limits_of_def)
    have "distinct (map ls_id (db_sessions d'))" using assms(2) f(1) unfolding sessions_ok_def rows by (simp add: comp_def)
    moreover have "limits_ok (limits_of u)" if "u \<in> set (db_sessions d')" for u
      using that sessions_okD(2) [OF assms(2)] f(2) unfolding rows set_map by (metis (no_types, lifting) imageE)
    moreover have "ls_id u = ls_id s" if "u \<in> set (db_sessions d')" "ls_status u = ACTIVE_S" for u
      using that f(1,3) unfolding rows set_map by (metis (no_types, lifting) imageE)
    ultimately show ?thesis by (intro sessions_okI) simp_all
  qed (use assms(2) in simp)
qed (use assms(2) in simp)

lemma session_step_ok: "session_step d d' \<Longrightarrow> sessions_ok d \<Longrightarrow> sessions_ok d'"
proof (induction rule: session_step.induct)
  case (readiness i now d y d')
  from readiness(1) show ?case unfolding check_live_session_readiness_def
  proof (cases rule: with_session_cases)
    case (found s)
    then show ?thesis using readiness(2)
      by (auto simp: Let_def limits_of_def split: if_splits intro!: upd_session_ok)
  qed (use readiness in simp)
next
  case (stop i now d x d')
  from stop(1) show ?case unfolding stop_live_session_def
  proof (cases rule: with_session_cases)
    case (found s)
    have "sessions_ok (set_settings kvs d)" for kvs using stop(2) sessions_ok_cong [of "set_settings kvs d" d] by simp
    then show ?thesis using found(2) stop_session_ok by (simp only: prod.inject) blast
  qed (use stop in simp)
next
  case (finish i now d x d')
  from finish(1) show ?case unfolding finish_live_session_def
  proof (cases rule: with_session_cases)
    case (found s)
    then show ?thesis using finish(2) stop_session_ok by (auto split: if_splits)
  qed (use finish in simp)
qed (blast intro: create_sessions_ok limits_sessions_ok activate_sessions_ok sessions_ok_cong [THEN iffD2])+

text \<open>
  C8: LIVE sessions stay consistent. However the endpoints are called, in any order and with any payloads,
  starting without sessions: identifiers are unique, at most one session is ACTIVE, and every session has a
  maximal order of at least the venue's minimum and at most its budget, an exposure limit within the budget,
  between one and a hundred positions, a fixed order amount (if any) within all of these, and a non-empty
  selection of distinct tradable assets. The rounding of the database columns keeps this.
\<close>

theorem sessions_invariant:
  assumes "session_step\<^sup>*\<^sup>* d0 d" "db_sessions d0 = []"
  shows "distinct (map ls_id (db_sessions d)) \<and> (\<forall>s\<in>set (db_sessions d). limits_ok (limits_of s)) \<and>
    length (filter (\<lambda>s. ls_status s = ACTIVE_S) (db_sessions d)) \<le> 1"
proof -
  have ok: "sessions_ok d" using assms
  proof (induction rule: rtranclp_induct)
    case base
    then show ?case by (simp add: sessions_ok_def)
  qed (blast intro: session_step_ok)
  let ?a = "filter (\<lambda>s. ls_status s = ACTIVE_S) (db_sessions d)"
  have inj: "distinct (db_sessions d)" "inj_on ls_id (set (db_sessions d))" using sessions_okD(1) [OF ok] by (simp_all add: distinct_map)
  then have "distinct ?a" by simp
  moreover have "s = t" if "s \<in> set ?a" "t \<in> set ?a" for s t
    using that inj_onD [OF inj(2)] sessions_okD(3) [OF ok, of s t] by simp
  ultimately have "length ?a \<le> 1" by (metis One_nat_def card_le_Suc0_iff_eq distinct_card finite_set)
  then show ?thesis using ok by (simp add: sessions_ok_def)
qed

definition sample_limits :: session_limits where
  "sample_limits = \<lparr>lm_budget = 20, lm_order_amount = Some 2, lm_max_single = 5, lm_max_open = 3, lm_assets = [''btc''], lm_max_exposure = 10\<rparr>"

lemma sample_created:
  "fst (create_live_session sample_limits 1 empty_db) = Inr 1"
  "length (db_sessions (snd (create_live_session sample_limits 1 empty_db))) = 1"
  by code_simp+

theorem sessions_invariant_witness:
  "length (db_sessions (snd (create_live_session sample_limits 1 empty_db))) = 1 \<and>
   list_all (\<lambda>s. limits_ok (limits_of s)) (db_sessions (snd (create_live_session sample_limits 1 empty_db)))"
proof -
  have "session_step\<^sup>*\<^sup>* empty_db (snd (create_live_session sample_limits 1 empty_db))"
    by (intro r_into_rtranclp session_step.create [of sample_limits 1 _ "fst (create_live_session sample_limits 1 empty_db)"]) simp
  moreover have "db_sessions empty_db = []" by (simp add: empty_db_def)
  ultimately show ?thesis using sessions_invariant sample_created(2) unfolding list_all_iff by blast
qed

section \<open>Activation and stop\<close>

lemma set_setting_settings: "db_settings (set_setting k v d) j = (if j = k then Some v else db_settings d j)"
  by (simp add: set_setting_def)

lemma upd_session_settings [simp]: "db_settings (upd_session i f d) = db_settings d"
  by (simp add: upd_session_def)

text \<open>
  C9: LIVE trading is switched on by the activation of a ready session and by nothing else. The endpoint
  succeeds only for a known session that is not active or exhausted and passes every readiness check with
  the latest worker row; afterwards this session is ACTIVE, every other one is not, and the mirror, the gate
  and the worker's switch are on. The kill switch endpoint cannot switch on.
\<close>

theorem activation_requires_readiness:
  assumes "activate_live_session i now d = (Inr sid, d')"
  shows "(\<exists>s ws. s \<in> set (db_sessions d) \<and> ls_id s = sid \<and> ls_status s \<in> {DRAFT_S, READY_S, STOPPED_S} \<and>
      get_latest_live_worker_status d = Some ws \<and> live_ready d now s ws) \<and>
    (\<forall>u\<in>set (db_sessions d'). ls_status u = ACTIVE_S \<longleftrightarrow> ls_id u = sid) \<and>
    runtime_bool d' ''LIVE_TRADING_ENABLED'' False \<and> runtime_bool d' ''LIVE_MIRROR_ENABLED'' False \<and> release_mode_of d' = ''AUTO'' \<and>
    db_requests d' = db_requests d \<and> db_trades d' = db_trades d \<and> fst (toggle_kill_switch True d) = Inl 409"
  using assms unfolding activate_live_session_def
proof (cases rule: with_session_cases)
  case (found s)
  let ?f = "\<lambda>u. if ls_id u = ls_id s then start_session now u else
      if ls_status u = ACTIVE_S then stop_session now ''superseded_by_new_activation'' u else u"
  let ?kvs = "[(''LIVE_MIRROR_ENABLED'', ''true''), (''LIVE_RELEASE_MODE'', ''AUTO''), (''LIVE_TRADING_ENABLED'', ''true''),
    (''LIVE_MIRROR_STARTED_AT'', isoformat now)]"
  have st: "ls_status s \<in> {DRAFT_S, READY_S, STOPPED_S}" "rr_ready (evaluate_live_readiness d now s None)" "ls_id s = sid"
    and d': "d' = upd_session (ls_id s) (start_session now) (set_settings ?kvs d\<lparr>db_sessions :=
       update_where (\<lambda>x. ls_status x = ACTIVE_S \<and> ls_id x \<noteq> ls_id s) (stop_session now ''superseded_by_new_activation'') (db_sessions d)\<rparr>)"
    using found(2) by (auto simp: Let_def split: if_splits)
  have rows: "db_sessions d' = map ?f (db_sessions d)" by (auto simp: d' upd_session_def update_where_def stop_session_def)
  have "ls_status (?f u) = ACTIVE_S \<longleftrightarrow> ls_id (?f u) = sid" for u using st(3) by (auto simp: start_session_def stop_session_def)
  then have act: "\<forall>u\<in>set (db_sessions d'). ls_status u = ACTIVE_S \<longleftrightarrow> ls_id u = sid" unfolding rows set_map by blast
  have "\<exists>ws. get_latest_live_worker_status d = Some ws \<and> live_ready d now s ws"
    using conjunct1 [OF readiness_iff [of d now s None]] st(2) by (simp split: option.splits)
  moreover have "db_settings d' = db_settings (set_settings ?kvs d)" by (simp add: d')
  then have "db_settings d' ''LIVE_TRADING_ENABLED'' = Some ''true''" "db_settings d' ''LIVE_MIRROR_ENABLED'' = Some ''true''"
    "db_settings d' ''LIVE_RELEASE_MODE'' = Some ''AUTO''" by (simp_all add: set_settings_def set_setting_settings)
  moreover have "lower ''true'' = ''true''" "upper ''AUTO'' = ''AUTO''" "strip ''true'' = ''true''" by code_simp+
  moreover have "db_requests d' = db_requests d" "db_trades d' = db_trades d" by (simp_all add: d' upd_session_def set_settings_def set_setting_def)
  ultimately show ?thesis using found(1) st act
    by (auto simp: runtime_bool_def release_mode_of_def toggle_kill_switch_def)
qed simp

definition draft_db :: db where
  "draft_db = (gate_db LIVE ''PHASE'')\<lparr>db_sessions := [sample_live_session\<lparr>ls_status := DRAFT_S\<rparr>]\<rparr>"

lemma sample_ready: "live_ready draft_db (seconds 5) (sample_live_session\<lparr>ls_status := DRAFT_S\<rparr>) sample_live_worker"
  by (simp add: live_ready_def draft_db_def gate_samples transport_failure_def enough_balance_def required_balance_def
      str_or_empty_def seconds_def)

lemma sample_activated: "\<exists>d'. activate_live_session (Some 1) (seconds 5) draft_db = (Inr 1, d')"
proof -
  let ?s = "sample_live_session\<lparr>ls_status := DRAFT_S\<rparr>"
  have s: "get_session draft_db 1 = Some ?s" "db_sessions draft_db = [?s]" "ls_id ?s = 1" "ls_status ?s = DRAFT_S"
    by (simp_all add: get_session_def draft_db_def sample_live_session_def)
  have "get_latest_live_worker_status draft_db = Some sample_live_worker"
    by (simp add: get_latest_live_worker_status_def draft_db_def gate_samples first_row_def)
  then have "rr_ready (evaluate_live_readiness draft_db (seconds 5) ?s None)"
    using conjunct1 [OF readiness_iff [of draft_db "seconds 5" ?s None]] sample_ready by simp
  then show ?thesis by (simp add: activate_live_session_def with_session_def s Let_def del: One_nat_def)
qed

theorem activation_requires_readiness_witness:
  "\<exists>d'. activate_live_session (Some 1) (seconds 5) draft_db = (Inr 1, d') \<and> runtime_bool d' ''LIVE_TRADING_ENABLED'' False"
proof -
  obtain d' where a: "activate_live_session (Some 1) (seconds 5) draft_db = (Inr 1, d')" using sample_activated by blast
  from activation_requires_readiness [OF a] a show ?thesis by blast
qed

lemma live_open_needs_switch:
  assumes "check_risk_limits d now OPEN spend (mode_name LIVE) i t = Inr None"
  shows "\<exists>v. db_settings d ''LIVE_TRADING_ENABLED'' = Some v \<and> lower v = ''true''"
  using assms by (auto simp: check_risk_limits_def mode_of_name_def then_check_None check_kill_switch_def split: option.splits if_split_asm)

lemma claim_one_settings: "claim_one k pid mode now d = (res, d') \<Longrightarrow> db_settings d' = db_settings d"
  by (auto simp: claim_one_def Let_def split: if_splits)

lemma lower_false: "lower ''false'' \<noteq> ''true''" "lower (strip ''false'') \<noteq> ''true''"
  by code_simp+

text \<open>
  C10: a stop stops. Once a session was stopped or the kill switch was used, and as long as nobody sets the
  switch again, the gate releases no candidate to LIVE and a LIVE worker sends no order to buy; whatever it
  still sends is a sale of a position it holds.
\<close>

theorem stop_halts_live_purchases:
  assumes "stop_live_session i now d = (Inr sid, d1) \<or> toggle_kill_switch False d = (Inr False, d1)"
    and "db_ok d2" "db_settings d2 ''LIVE_TRADING_ENABLED'' = db_settings d1 ''LIVE_TRADING_ENABLED''"
    and "gr_target g = LIVE" "wr_mode run = LIVE" "process_ready_requests (Inr (recording v)) run d2 (w, []) = (ex, d3, (w', l))"
  shows "fst (release_candidate_by_id g api sleep cid d0 d2 w0) \<noteq> Inr (True, d') \<and> (\<forall>x\<in>set l. go_side x = ''SELL'')"
proof
  have off: "db_settings d2 ''LIVE_TRADING_ENABLED'' = Some ''false''"
    using assms(1) unfolding assms(3)
  proof
    assume "stop_live_session i now d = (Inr sid, d1)"
    then show "db_settings d1 ''LIVE_TRADING_ENABLED'' = Some ''false''" unfolding stop_live_session_def
      by (cases rule: with_session_cases) (auto simp: set_settings_def set_setting_settings)
  qed (auto simp: toggle_kill_switch_def set_setting_settings)
  show "fst (release_candidate_by_id g api sleep cid d0 d2 w0) \<noteq> Inr (True, d')"
  proof
    assume "fst (release_candidate_by_id g api sleep cid d0 d2 w0) = Inr (True, d')"
    then have "release_candidate_by_id g api sleep cid d0 d2 w0 = (Inr (True, d'), snd (release_candidate_by_id g api sleep cid d0 d2 w0))"
      by (simp add: prod_eq_iff)
    then show False
    proof (cases rule: release_cases)
      case (released c r t fresh plan)
      then obtain s where "live_checks (gr_below_min g) d2 (gr_now g) r = Inr (s, rp_amount plan)"
        using validate_Inr [OF released(6)] assms(4) by auto
      then show ?thesis using live_checks_Inr off lower_false by (fastforce simp: runtime_bool_def)
    qed simp_all
  qed
  show "\<forall>x\<in>set l. go_side x = ''SELL''"
  proof
    fix x assume "x \<in> set l"
    from order_checks [OF assms(2,6) this] obtain rid d4 r where o: "claim_one (wr_pick run) (wr_pid run) (wr_mode run) (wr_claim_at run) d2 = (Some rid, d4)"
      "get_request d4 rid = Some r" "go_side x = side_of r"
      "check_risk_limits d4 (wr_check_at run) (rq_intent r) (num_or (rq_max_spend r) 0) (mode_name (rq_mode r)) (Some rid) (Some (rq_trade_id r)) = Inr None"
      by blast
    have "rq_mode r = LIVE" using claim_one_advances [OF assms(2) o(1)] o(2) assms(5) by (auto simp: req_at_def)
    then have "rq_intent r \<noteq> OPEN" using live_open_needs_switch o(4) off lower_false claim_one_settings [OF o(1)] by fastforce
    then show "go_side x = ''SELL''" using o(3) by (simp add: side_of_def)
  qed
qed

definition stopped_db :: db where
  "stopped_db = (gate_db LIVE ''PHASE'')\<lparr>db_requests := [sample_source\<lparr>rq_mode := LIVE, rq_state := READY\<rparr>]\<rparr>"

theorem stop_halts_live_purchases_witness:
  "list_all (\<lambda>x. go_side x = ''SELL'') (snd (snd (snd (process_ready_requests (Inr (recording (scripted None None))) (sample_run\<lparr>wr_mode := LIVE\<rparr>)
     (snd (toggle_kill_switch False stopped_db)) (([], 0), [])))))"
proof -
  let ?d = "snd (toggle_kill_switch False stopped_db)"
  let ?run = "sample_run\<lparr>wr_mode := LIVE\<rparr>"
  have t: "toggle_kill_switch False stopped_db = (Inr False, ?d)" by (simp add: toggle_kill_switch_def)
  have ok: "db_ok ?d"
    by (simp add: toggle_kill_switch_def set_setting_def stopped_db_def gate_samples db_ok_def requests_ok_def pairwise_rows_def)
  obtain ex d3 w' l where p: "process_ready_requests (Inr (recording (scripted None None))) ?run ?d (([], 0), []) = (ex, d3, (w', l))"
    by (metis surj_pair)
  have "gr_target (sample_gate LIVE) = LIVE" "wr_mode ?run = LIVE" by (simp_all add: sample_gate_def)
  from stop_halts_live_purchases [OF disjI2 [OF t] ok refl this p] p show ?thesis by (force simp: list_all_iff)
qed

section \<open>Reviews\<close>

lemma requeue_row:
  assumes "resolve_manual_review text (Some i) body now d = (Inr READY, d1)" "get_request d i = Some r"
  shows "rq_state r = MANUAL_REVIEW_REQUIRED" "get_request d1 i = Some (requeue_request now r)"
    "db_requests d1 = update_where (\<lambda>q. rq_id q = i) (requeue_request now) (db_requests d)"
proof -
  have u: "rq_state r = MANUAL_REVIEW_REQUIRED \<and> (\<exists>e. d1 = add_event e (upd_request i (requeue_request now) d))"
    using assms by (auto simp: resolve_manual_review_def Let_def split: if_splits review_action.splits)
  then show "rq_state r = MANUAL_REVIEW_REQUIRED" by simp
  from u show "db_requests d1 = update_where (\<lambda>q. rq_id q = i) (requeue_request now) (db_requests d)"
    by (auto simp: add_event_def upd_request_def)
  from u have "get_request d1 i = get_request (upd_request i (requeue_request now) d) i" by (auto simp: get_request_def add_event_def)
  then show "get_request d1 i = Some (requeue_request now r)"
    using get_request_upd_request [of "requeue_request now" i d i] assms(2) by (simp add: requeue_request_def)
qed

text \<open>
  Requeueing does not renew a request. The operator's REQUEUE_AFTER_ALLOWANCE makes a request under review
  READY again but keeps the time it expires at; once that time has passed (a mirrored request lives thirty
  seconds at most) no worker ever works on it again: a claim passes over it or moves it to EXPIRED.
\<close>

theorem requeue_does_not_renew:
  assumes "db_ok d" "get_request d i = Some r" "rq_expires_at r = Some e" "resolve_manual_review text (Some i) body now d = (Inr READY, d1)"
    and "e < later" "claim_one k pid mode later d1 = (res, d2)"
  shows "res \<noteq> Some i \<and> (\<exists>r2. get_request d2 i = Some r2 \<and> rq_state r2 \<in> {READY, EXPIRED})"
proof -
  let ?r = "requeue_request now r"
  note q = requeue_row [OF assms(4,2)]
  have ids: "distinct (map rq_id (db_requests d1))"
    using assms(1) unfolding q(3) by (simp add: db_ok_def requests_ok_def map_update_where_key requeue_request_def)
  have only: "q = ?r" if "q \<in> set (db_requests d1)" "rq_id q = i" for q
    using that get_requestD [OF q(2)] ids inj_onD [of rq_id "set (db_requests d1)" q ?r] by (simp add: distinct_map)
  have ex: "rq_expires_at ?r = Some e" "rq_state ?r = READY" using assms(3) by (simp_all add: requeue_request_def)
  show ?thesis
  proof (cases "d2 = d1 \<and> res = None")
    case True
    then show ?thesis using q(2) ex by simp
  next
    case False
    let ?rows = "filter (claimable mode later) (db_requests d1)"
    let ?q = "?rows ! (k mod length ?rows)"
    have ne: "?rows \<noteq> []" using False assms(6) by (auto simp: claim_one_def)
    then have mem: "?q \<in> set (db_requests d1)" using nth_mem [of "k mod length ?rows" ?rows] by simp
    show ?thesis
    proof (cases "rq_id ?q = i")
      case True
      then have "?q = ?r" using only mem by blast
      then have "res = None \<and> d2 = finalize_request i EXPIRED (Some ''TTL expired'') later d1"
        using assms(5,6) ne True ex(1) by (simp add: claim_one_def Let_def)
      then show ?thesis using q(2) by (auto simp: get_request_finalize)
    next
      case other: False
      have "get_request d1 (rq_id ?q) = Some ?q"
        using find_map_distinct [OF ids mem] by (simp add: get_request_def)
      note fin = get_request_finalize [OF this, where j = i]
      have "get_request (upd_request (rq_id ?q) (set_claim pid later) d1) i = get_request d1 i"
        using get_request_upd_request [of "set_claim pid later" "rq_id ?q" d1 i] other by (simp add: set_claim_def)
      then have "get_request d2 i = get_request d1 i" "res \<noteq> Some i"
        using assms(6) ne other fin by (auto simp: claim_one_def Let_def split: if_splits)
      then show ?thesis using q(2) ex by simp
    qed
  qed
qed

text \<open>
  C17: the operator's check reaches the venue. After \<open>reconcile_request\<close> accepted a LIVE request whose latest
  attempt has an order identifier, the next reconciliation, at any time in the thirteen minutes that
  follow, selects the request and asks the venue about exactly this order instead of waiting or giving up.
\<close>

theorem reconcile_request_reaches_venue:
  assumes "reconcile_request i now d = (Inr s, d1)" "get_request d i = Some r"
    and "latest_attempt d i = Some a" "at_provider_order_id a = Some oid" "oid \<noteq> []"
    and "now \<le> later" "later \<le> now + seconds (13 * 60)"
  shows "reconcile_row (Inr v) newid LIVE later i d1 w = poll_order v (newid i) later (mark_reconciling now r) a oid d1 w \<and>
    i \<in> set (map rq_id (filter (reconcilable LIVE) (db_requests d1)))"
proof -
  have d1: "d1 = upd_request i (mark_reconciling now) d" and m: "rq_mode r = LIVE"
    using assms(1,2) by (auto simp: reconcile_request_def split: if_splits)
  have g: "get_request d1 i = Some (mark_reconciling now r)"
    unfolding d1 using get_request_upd_request [of "mark_reconciling now" i d i] assms(2) by (simp add: mark_reconciling_def)
  have "latest_attempt d1 i = Some a" using assms(3) by (simp add: d1 latest_attempt_def attempts_of_def)
  then have "known_order (latest_attempt d1 i) = Some (a, oid)" using assms(4,5) by (cases oid) (simp_all add: known_order_def str_or_empty_def)
  moreover have "rq_updated_at (mark_reconciling now r) = now - seconds 61" by (simp add: mark_reconciling_def)
  ultimately have "reconcile_row (Inr v) newid LIVE later i d1 w = poll_order v (newid i) later (mark_reconciling now r) a oid d1 w"
    using assms(6,7) by (simp add: reconcile_row_def g Let_def seconds_def MAX_RECONCILIATION_AGE_SEC_def)
  moreover have "mark_reconciling now r \<in> set (db_requests d1)" "reconcilable LIVE (mark_reconciling now r)" "rq_id (mark_reconciling now r) = i"
    using get_requestD [OF g] m by (simp_all add: reconcilable_def mark_reconciling_def state_defs)
  ultimately show ?thesis by force
qed

section \<open>Steps of the system\<close>

text \<open>Every endpoint but the requeueing of a request moves requests along the life cycle and creates no attempt.\<close>

lemma advances_settings [simp]: "advances d (set_setting k v d)"
  by (rule advances_other) (simp_all add: set_setting_def)

lemma advances_if_given [simp]: "advances d (set_if_given k f x e)" if "advances d e"
  using that advances_trans [OF that advances_settings] by (simp add: set_if_given_def split: option.split)

lemma advances_event [simp]: "advances d (add_event e d)"
  by (rule advances_other) (simp_all add: add_event_def)

lemma switches_advance:
  "advances d (snd (toggle_kill_switch b d))" "advances d (snd (toggle_mirror_switch b now d))" "advances d (snd (set_release_mode m d))"
  "advances d (snd (toggle_ignore_edge_decay b d))" "advances d (snd (set_order_mode_api p d))" "advances d (snd (manual_release_candidate i d))"
proof -
  show "advances d (snd (toggle_kill_switch b d))" "advances d (snd (set_release_mode m d))" "advances d (snd (toggle_ignore_edge_decay b d))"
    "advances d (snd (set_order_mode_api p d))"
    by (simp_all add: toggle_kill_switch_def set_release_mode_def toggle_ignore_edge_decay_def set_order_mode_api_def Let_def)
  show "advances d (snd (toggle_mirror_switch b now d))"
    using advances_trans [OF advances_settings advances_settings] by (simp add: toggle_mirror_switch_def set_mirror_enabled_def Let_def)
  show "advances d (snd (manual_release_candidate i d))"
    by (auto simp: manual_release_candidate_def split: option.split intro: advances_other)
qed

lemma session_tables:
  assumes "create_live_session l sid d = (x, d') \<or> update_live_session_limits i p d = (x, d') \<or> check_live_session_readiness i now d = (y, d') \<or>
    activate_live_session i now d = (x, d') \<or> stop_live_session i now d = (x, d') \<or> finish_live_session i now d = (x, d')"
  shows "db_requests d' = db_requests d \<and> db_trades d' = db_trades d \<and> db_attempts d' = db_attempts d \<and> db_reservations d' = db_reservations d"
proof -
  have k: "db_requests (set_settings kvs e) = db_requests e \<and> db_trades (set_settings kvs e) = db_trades e \<and>
      db_attempts (set_settings kvs e) = db_attempts e \<and> db_reservations (set_settings kvs e) = db_reservations e" for kvs e
    unfolding set_settings_def by (induction kvs arbitrary: e) (auto simp: set_setting_def)
  note defs = create_live_session_def update_live_session_limits_def check_live_session_readiness_def activate_live_session_def
    stop_live_session_def finish_live_session_def with_session_def upd_session_def Let_def
  from assms show ?thesis
  proof (elim disjE)
    assume "create_live_session l sid d = (x, d')"
    then show ?thesis by (auto simp: create_live_session_def split: sum.splits option.splits if_splits)
  next
    assume "update_live_session_limits i p d = (x, d')"
    then show ?thesis unfolding defs by (auto split: sum.splits option.splits if_split_asm)
  next
    assume "check_live_session_readiness i now d = (y, d')"
    then show ?thesis unfolding defs by (auto split: option.splits if_split_asm)
  next
    assume "activate_live_session i now d = (x, d')"
    then show ?thesis unfolding defs using k by (auto split: option.splits if_split_asm)
  next
    assume "stop_live_session i now d = (x, d')"
    then show ?thesis unfolding defs using k by (auto split: option.splits if_split_asm)
  next
    assume "finish_live_session i now d = (x, d')"
    then show ?thesis unfolding defs by (auto split: option.splits if_split_asm)
  qed
qed

lemma no_fill_advances:
  assumes "get_request d i = Some r" "rq_state r = MANUAL_REVIEW_REQUIRED"
  shows "advances d (finalize_request i MANUAL_REVIEW_FAILED e now d)"
  using advances_finalize(1) [OF req_atI [OF assms(1)], of MANUAL_REVIEW_FAILED e now] assms(2) by (auto intro: lifecycle.intros)

lemma resolve_review_advances:
  assumes "resolve_manual_review text i body now d = (x, d')" "rv_action body = MARK_FAILED_NO_FILL"
  shows "advances d d'"
  using assms by (auto simp: resolve_manual_review_def Let_def split: option.splits if_splits
      intro: advances_trans [OF no_fill_advances advances_event])

lemma reconcile_request_advances:
  assumes "reconcile_request i now d = (x, d')"
  shows "advances d d'"
proof (cases "d' = d")
  case False
  then obtain r where r: "get_request d i = Some r" "rq_mode r = LIVE" "rq_state r \<in> RECONCILABLE_REQUEST_STATES \<union> {MANUAL_REVIEW_REQUIRED}"
    "d' = upd_request i (mark_reconciling now) d"
    using assms by (auto simp: reconcile_request_def state_defs split: option.splits if_splits)
  have "reaches LIVE (rq_state r) RECONCILING"
    using r(3) lifecycle.recheck lifecycle.pending [of "rq_state r" RECONCILING LIVE] by (intro r_into_rtranclp) auto
  then show ?thesis using advances_upd_request [of "mark_reconciling now" "\<lambda>_. RECONCILING" d i LIVE "rq_state r"] req_atI [OF r(1)] r(2,4)
    by (simp add: mark_reconciling_def same_identity_def)
qed simp

lemma close_position_advances:
  "close_live_position t rid now d = (x, d') \<Longrightarrow> advances d d'"
  by (auto simp: close_live_position_def split: option.splits if_splits sum.splits dest: advances_enqueue_close)

lemma close_trades_advances: "close_trades newid now rows d = Inr (rs, d') \<Longrightarrow> advances d d'"
proof (induction rows arbitrary: d rs)
  case (Cons row rows)
  obtain t m where row: "row = (t, m)" by fastforce
  show ?case
  proof (cases "case m of None \<Rightarrow> True | Some m \<Rightarrow> \<not> market_tradable m")
    case True
    then show ?thesis using Cons by (auto simp: row split: sum.splits)
  next
    case False
    then obtain res d1 rs' where s: "enqueue_close_request d now (newid (tr_id t)) (tr_id t) MANUAL (manual_limit t) None = Inr (res, d1)"
      "close_trades newid now rows d1 = Inr (rs', d')" using Cons.prems by (auto simp: row split: sum.splits)
    show ?thesis using advances_trans [OF conjunct1 [OF advances_enqueue_close [OF s(1)]] Cons.IH [OF s(2)]] .
  qed
qed simp

lemma close_all_advances: "close_all_session_positions sid newid now d = (x, d') \<Longrightarrow> advances d d'"
  by (auto simp: close_all_session_positions_def Let_def split: option.splits sum.splits intro: close_trades_advances)

text \<open>The requests closed by a batch are the selected rows; closing one leaves the others under review.\<close>

lemma close_unfilled_advances:
  assumes "close_unfilled text operator now eligible rs d = (ans, d')" "distinct (map rq_id rs)"
    and "\<And>r e. r \<in> set rs \<Longrightarrow> eligible (rq_id r) = Some e \<Longrightarrow> allowed e \<Longrightarrow> \<exists>q. get_request d (rq_id r) = Some q \<and> rq_state q = MANUAL_REVIEW_REQUIRED"
  shows "advances d d'"
  using assms
proof (induction rs arbitrary: d ans)
  case (Cons r rs)
  let ?ok = "case eligible (rq_id r) of None \<Rightarrow> False | Some e \<Rightarrow> allowed e"
  let ?f = "finalize_request (rq_id r) MANUAL_REVIEW_FAILED (Some (''Batch no-fill confirmation by '' @ operator)) now d"
  let ?d = "if ?ok then add_event (api_event ''MANUAL_REVIEW_BATCH_NO_FILL'' (text r) r now) ?f else d"
  obtain ans' where rest: "close_unfilled text operator now eligible rs ?d = (ans', d')"
    using Cons.prems(1) by (auto split: if_splits prod.splits)
  have get: "get_request (add_event e x) j = get_request x j" for e x j by (simp add: get_request_def add_event_def)
  have row: "\<exists>q. get_request d (rq_id r) = Some q \<and> rq_state q = MANUAL_REVIEW_REQUIRED" if ?ok
    using that Cons.prems(3) [of r] by (auto split: option.splits)
  have "advances d ?d" using row no_fill_advances advances_trans [OF no_fill_advances advances_event] by auto
  moreover have "advances ?d d'"
  proof (rule Cons.IH [OF rest])
    show "distinct (map rq_id rs)" using Cons.prems(2) by simp
    fix q e
    assume q: "q \<in> set rs" "eligible (rq_id q) = Some e" "allowed e"
    then have ne: "rq_id q \<noteq> rq_id r" using Cons.prems(2) by (auto simp: image_iff)
    have "get_request ?d (rq_id q) = get_request d (rq_id q)"
    proof (cases ?ok)
      case True
      then obtain p where "get_request d (rq_id r) = Some p" using row by blast
      then show ?thesis using True ne get_request_finalize [of d "rq_id r" p] by (simp add: get)
    qed simp
    then show "\<exists>p. get_request ?d (rq_id q) = Some p \<and> rq_state p = MANUAL_REVIEW_REQUIRED" using Cons.prems(3) [of q e] q by simp
  qed
  ultimately show ?case by (rule advances_trans)
qed simp

lemma allowed_state: "allowed (evaluate_no_fill_eligibility d r) \<Longrightarrow> rq_state r = MANUAL_REVIEW_REQUIRED"
  by (auto simp: evaluate_no_fill_eligibility_def block_if_def Let_def split: if_splits)

lemma no_fill_batch_advances:
  assumes "resolve_no_fill_batch text ids operator now d = (x, d')" "db_ok d"
  shows "advances d d'"
proof (cases "ids = [] \<or> 100 < length ids")
  case False
  let ?rs = "filter (\<lambda>r. rq_id r \<in> set ids) (db_requests d)"
  obtain ans where c: "close_unfilled text operator now (evaluate_no_fill_eligibility_batch d ?rs) ?rs d = (ans, d')"
    using assms(1) False by (auto simp: resolve_no_fill_batch_def Let_def split: prod.splits)
  have dist: "distinct (map rq_id ?rs)" using assms(2) by (simp add: db_ok_def requests_ok_def distinct_map_filter)
  show ?thesis
  proof (rule close_unfilled_advances [OF c dist])
    fix r e
    assume r: "r \<in> set ?rs" "evaluate_no_fill_eligibility_batch d ?rs (rq_id r) = Some e" "allowed e"
    have "map_of (rev (map (\<lambda>r. (rq_id r, evaluate_no_fill_eligibility d r)) ?rs)) (rq_id r) = Some (evaluate_no_fill_eligibility d r)"
      using r(1) dist by (intro map_of_is_SomeI) (auto simp: rev_map [symmetric] comp_def)
    then have "e = evaluate_no_fill_eligibility d r" using r(2) by (simp only: batch_single option.inject)
    then show "\<exists>q. get_request d (rq_id r) = Some q \<and> rq_state q = MANUAL_REVIEW_REQUIRED"
      using get_request_in [OF assms(2), of r] r(1,3) allowed_state by auto
  qed
qed (use assms(1) in \<open>simp add: resolve_no_fill_batch_def\<close>)

section \<open>Examples\<close>

definition review_request :: exec_request where
  "review_request = sample_source\<lparr>rq_mode := LIVE, rq_state := MANUAL_REVIEW_REQUIRED\<rparr>"

definition known_attempt :: exec_attempt where
  "known_attempt =
     \<lparr>at_id = 9, at_request_id = 4, at_gateway = ''POLYMARKET'', at_no = 1, at_started_at = 0, at_finished_at = None, at_status = ATT_UNKNOWN,
      at_provider_status = None, at_provider_order_id = Some ''0xabc'', at_submission_key = None, at_tx_hash = None, at_error = None,
      at_trade_ids = [], at_tx_hashes = [], at_settlement = ''PENDING''\<rparr>"

definition operator_db :: "exec_attempt list \<Rightarrow> db" where
  "operator_db as = empty_db\<lparr>db_requests := [review_request], db_attempts := as\<rparr>"

definition requeue_body :: ResolveReviewRequest where
  "requeue_body = \<lparr>rv_action = REQUEUE_AFTER_ALLOWANCE, rv_operator = ''op'', rv_note = []\<rparr>"

lemma review_row: "get_request (operator_db as) 4 = Some review_request" "rq_state review_request = MANUAL_REVIEW_REQUIRED"
  "rq_expires_at review_request = Some (seconds 30)" "rq_mode review_request = LIVE"
  by (simp_all add: get_request_def operator_db_def review_request_def sample_source_def)

theorem requeue_does_not_renew_witness:
  "\<exists>d1. resolve_manual_review (\<lambda>_ _. []) (Some 4) requeue_body (seconds 90) (operator_db []) = (Inr READY, d1) \<and>
     fst (claim_one 0 1 LIVE (seconds 91) d1) \<noteq> Some 4"
proof -
  have ok: "db_ok (operator_db [])" by (simp add: operator_db_def empty_db_def db_ok_def requests_ok_def pairwise_rows_def)
  obtain d1 where q: "resolve_manual_review (\<lambda>_ _. []) (Some 4) requeue_body (seconds 90) (operator_db []) = (Inr READY, d1)"
    by (simp add: resolve_manual_review_def review_row requeue_body_def last_attempt_of_def first_row_def Let_def)
       (simp add: operator_db_def empty_db_def)
  obtain res d2 where c: "claim_one 0 1 LIVE (seconds 91) d1 = (res, d2)" by fastforce
  have "seconds 30 < seconds 91" by (simp add: seconds_def)
  from requeue_does_not_renew [OF ok review_row(1,3) q this c] q c show ?thesis by simp
qed

theorem reconcile_request_reaches_venue_witness:
  "\<exists>d1. reconcile_request 4 (seconds 90) (operator_db [known_attempt]) = (Inr MANUAL_REVIEW_REQUIRED, d1) \<and>
     4 \<in> set (map rq_id (filter (reconcilable LIVE) (db_requests d1)))"
proof -
  obtain d1 where q: "reconcile_request 4 (seconds 90) (operator_db [known_attempt]) = (Inr MANUAL_REVIEW_REQUIRED, d1)"
    by (simp add: reconcile_request_def review_row) (simp add: operator_db_def known_attempt_def review_row)
  have a: "latest_attempt (operator_db [known_attempt]) 4 = Some known_attempt" "at_provider_order_id known_attempt = Some ''0xabc''"
    by (simp_all add: latest_attempt_def attempts_of_def operator_db_def known_attempt_def)
  from reconcile_request_reaches_venue [OF q review_row(1) a _ order_refl, of "scripted None None" id "([], 0)"] q
  show ?thesis by (simp add: seconds_def)
qed

text \<open>
  A request that was sent and whose order identifier was never learned can be requeued: before it expires the
  worker claims it again, and the venue may receive the order a second time.
\<close>

theorem requeue_can_resubmit:
  "\<exists>d1 d2. resolve_manual_review (\<lambda>_ _. []) (Some 4) requeue_body (seconds 5) (operator_db [known_attempt\<lparr>at_provider_order_id := None\<rparr>]) = (Inr READY, d1) \<and>
     claim_one 0 1 LIVE (seconds 6) d1 = (Some 4, d2) \<and> map at_request_id (db_attempts d2) = [4]"
proof -
  let ?d = "operator_db [known_attempt\<lparr>at_provider_order_id := None\<rparr>]"
  have l: "last_attempt_of ?d 4 = Some (known_attempt\<lparr>at_provider_order_id := None\<rparr>)"
    by (simp add: last_attempt_of_def operator_db_def known_attempt_def first_row_def)
  obtain e where q: "resolve_manual_review (\<lambda>_ _. []) (Some 4) requeue_body (seconds 5) ?d =
      (Inr READY, add_event e (upd_request 4 (requeue_request (seconds 5)) ?d))"
    by (simp add: resolve_manual_review_def review_row requeue_body_def l str_or_empty_def Let_def)
  define d1 where "d1 = add_event e (upd_request 4 (requeue_request (seconds 5)) ?d)"
  have rows: "db_requests d1 = [requeue_request (seconds 5) review_request]" "map at_request_id (db_attempts d1) = [4]"
    by (simp_all add: d1_def add_event_def upd_request_def operator_db_def review_request_def sample_source_def known_attempt_def)
  have "claim_one 0 1 LIVE (seconds 6) d1 = (Some 4, upd_request 4 (set_claim 1 (seconds 6)) d1)"
    by (simp add: claim_one_def rows claimable_def requeue_request_def review_request_def sample_source_def seconds_def Let_def)
  moreover have "map at_request_id (db_attempts (upd_request 4 (set_claim 1 (seconds 6)) d1)) = [4]"
    using rows(2) by (simp add: upd_request_def)
  ultimately show ?thesis using q unfolding d1_def [symmetric] by auto
qed

lemma resolution_endpoint_advances: "reconcile_resolution_endpoint fetch i d = (x, d') \<Longrightarrow> d' = d \<or> (\<exists>y. reconcile_live_resolution fetch i d = (y, d'))"
  by (auto simp: reconcile_resolution_endpoint_def split: prod.splits sum.splits py_error.splits)

end
