(* ===== verification/Sizing.thy ===== *)
theory Sizing
  imports Py_Float
begin

text \<open>
  The size of a bet: \<open>trading/position_sizing.py\<close> (linear scaling by the edge, the cap by liquidity, the edge,
  the dead zone, the calibration discount) and \<open>trading/weighted_sizing.py\<close> (lower bound of a probability,
  fractional Kelly, stepped sizes), with the two helpers of \<open>trading/weighted_policy.py\<close> that turn any value
  into a probability or a nonnegative number. All are pure functions on floats.
\<close>

section \<open>Linear sizing\<close>

definition FLIP_MIDPOINT :: dec_value where
  "FLIP_MIDPOINT = Finite (1/2)"

definition INVALID_EDGE_SENTINEL :: dec_value where
  "INVALID_EDGE_SENTINEL = Finite (- 1)"

definition compute_bet_size_edge_scaled :: "dec_value \<Rightarrow> dec_value \<Rightarrow> dec_value \<Rightarrow> dec_value \<Rightarrow> dec_value \<Rightarrow> dec_value" where
  "compute_bet_size_edge_scaled edge min_bet max_bet min_edge max_edge =
     (if float_le edge (Finite 0) then Finite 0
      else if float_le max_edge min_edge then (if float_le max_edge edge then max_bet else min_bet)
      else let t = py_min (py_max (f_div (f_sub edge min_edge) (f_sub max_edge min_edge)) (Finite 0)) (Finite 1)
           in py_round 2 (f_add min_bet (f_mul t (f_sub max_bet min_bet))))"

definition compute_bet_size_with_liquidity ::
  "dec_value \<Rightarrow> dec_value \<Rightarrow> dec_value \<Rightarrow> dec_value \<Rightarrow> dec_value \<Rightarrow> dec_value \<Rightarrow> dec_value \<Rightarrow> dec_value" where
  "compute_bet_size_with_liquidity edge volume_5min min_bet max_bet min_edge max_edge liquidity_fraction =
     (let raw_bet = compute_bet_size_edge_scaled edge min_bet max_bet min_edge max_edge in
      if float_le volume_5min (Finite 0) then raw_bet
      else let liquidity_cap = py_max (f_mul volume_5min liquidity_fraction) min_bet
           in py_round 2 (py_min raw_bet liquidity_cap))"

definition compute_edge :: "dec_value \<Rightarrow> dec_value \<Rightarrow> dec_value" where
  "compute_edge win_prob buy_price =
     (if float_le buy_price (Finite 0) then INVALID_EDGE_SENTINEL else py_round 4 (f_sub win_prob buy_price))"

definition is_in_dead_zone :: "dec_value \<Rightarrow> dec_value \<Rightarrow> bool" where
  "is_in_dead_zone mid_price width \<longleftrightarrow> float_less (f_abs (f_sub mid_price FLIP_MIDPOINT)) (f_div width (Finite 2))"

definition apply_polymarket_fee :: "dec_value \<Rightarrow> dec_value \<Rightarrow> dec_value" where
  "apply_polymarket_fee gross_pnl fee_rate = f_mul gross_pnl (f_sub (Finite 1) fee_rate)"

definition apply_ece_correction :: "dec_value \<Rightarrow> dec_value option \<Rightarrow> dec_value" where
  "apply_ece_correction p ece =
     (case ece of None \<Rightarrow> p
      | Some e \<Rightarrow>
          if float_le e (Finite 0) then p
          else let shrink = py_max (Finite 0) (f_sub (Finite 1) (f_div e (Finite (flt (1/10)))))
               in f_add (Finite (1/2)) (f_mul (f_sub p (Finite (1/2))) shrink))"

section \<open>Numbers that may be anything\<close>

definition clamp_probability :: "py_any \<Rightarrow> pyfloat option \<Rightarrow> pyfloat option" where
  "clamp_probability v dflt =
     (case to_float v of Some (Finite x) \<Rightarrow> Some (max 0 (min 1 x)) | _ \<Rightarrow> dflt)"

definition finite_nonnegative :: "py_any \<Rightarrow> pyfloat \<Rightarrow> pyfloat" where
  "finite_nonnegative v dflt = (case to_float v of Some (Finite x) \<Rightarrow> if 0 \<le> x then x else dflt | _ \<Rightarrow> dflt)"

text \<open>\<open>clamp_probability(value, 0.5)\<close> always returns a number.\<close>

definition clamp_half :: "py_any \<Rightarrow> pyfloat" where
  "clamp_half v = (case clamp_probability v (Some (1/2)) of Some p \<Rightarrow> p | None \<Rightarrow> 1/2)"

section \<open>Sizing under uncertainty\<close>

definition probability_lower_bound :: "py_any \<Rightarrow> py_any \<Rightarrow> py_any \<Rightarrow> pyfloat" where
  "probability_lower_bound p_estimate standard_error z_score =
     (let p = clamp_half p_estimate in
      case to_float standard_error of
        Some (Finite u) \<Rightarrow>
          if u < 0 then 0
          else let z = (case to_float z_score of None \<Rightarrow> Finite (flt (196/100)) | Some x \<Rightarrow> x);
                   z = (case z of Finite x \<Rightarrow> if x < 0 then 0 else x | _ \<Rightarrow> 0)
               in max 0 (min 1 (flt (p - flt (z * u))))
      | _ \<Rightarrow> 0)"

definition fractional_kelly_fraction :: "py_any \<Rightarrow> py_any \<Rightarrow> py_any \<Rightarrow> py_any \<Rightarrow> pyfloat" where
  "fractional_kelly_fraction p_win price cost_per_share fraction =
     (let p = clamp_half p_win; q = flt (1 - p);
          normalized_price = clamp_half price;
          cost = finite_nonnegative cost_per_share 0;
          fraction_value = finite_nonnegative fraction 0;
          price_plus_cost = max (flt (1 / 10 ^ 9)) (flt (normalized_price + cost));
          win_profit = max (flt (1 / 10 ^ 9)) (flt (1 - price_plus_cost));
          odds = flt (win_profit / price_plus_cost);
          raw = flt (flt (flt (odds * p) - q) / odds)
      in max 0 (min 1 (flt (raw * fraction_value))))"

definition DEFAULT_STEPPED_EDGE_THRESHOLDS :: "pyfloat list" where
  "DEFAULT_STEPPED_EDGE_THRESHOLDS = [flt (3/100), flt (6/100), flt (10/100)]"

definition edge_thresholds_of :: "py_any list \<Rightarrow> pyfloat list" where
  "edge_thresholds_of vs =
     (let xs = map to_float vs in
      if length vs = 3 \<and> list_all (\<lambda>x. case x of Some (Finite _) \<Rightarrow> True | _ \<Rightarrow> False) xs
      then let ts = map (\<lambda>x. case x of Some (Finite t) \<Rightarrow> t | _ \<Rightarrow> 0) xs
           in if sorted ts then ts else DEFAULT_STEPPED_EDGE_THRESHOLDS
      else DEFAULT_STEPPED_EDGE_THRESHOLDS)"

definition stepped_bet_size :: "py_any \<Rightarrow> py_any \<Rightarrow> py_any \<Rightarrow> py_any list \<Rightarrow> pyfloat" where
  "stepped_bet_size edge_lower base_bet cap_usdc edge_thresholds =
     (let base = finite_nonnegative base_bet 1; cap = finite_nonnegative cap_usdc 3 in
      if cap \<le> 0 then 0
      else let base = (if base \<le> 0 then min 1 cap else base);
               ts = edge_thresholds_of edge_thresholds;
               selected = (case to_float edge_lower of
                   Some (Finite edge) \<Rightarrow>
                     if ts ! 2 \<le> edge then flt (base * 3)
                     else if ts ! 1 \<le> edge then flt (base * 2)
                     else if ts ! 0 \<le> edge then flt (base * (3/2))
                     else base
                 | _ \<Rightarrow> base)
           in round_float 8 (max 0 (min cap selected)))"

record sizing_decision =
  sz_p_estimate :: pyfloat
  sz_p_lower :: pyfloat
  sz_edge_lower :: pyfloat
  sz_kelly_fraction :: pyfloat
  sz_size_multiplier :: pyfloat
  sz_reason :: string

definition conservative_size :: "py_any \<Rightarrow> py_any \<Rightarrow> py_any \<Rightarrow> py_any \<Rightarrow> py_any \<Rightarrow> py_any \<Rightarrow> sizing_decision outcome" where
  "conservative_size p_estimate price cost_per_share standard_error fraction min_edge_lower =
     (let p = clamp_half p_estimate; normalized_price = clamp_half price;
          normalized_cost = finite_nonnegative cost_per_share 0;
          p_lower = probability_lower_bound (VNumber (Finite p)) standard_error (VNumber (Finite (flt (196/100))));
          edge_lower = flt (flt (p_lower - normalized_price) - normalized_cost)
      in case to_float min_edge_lower of None \<Rightarrow> Inl (float_error min_edge_lower)
         | Some m \<Rightarrow>
             if float_less (Finite edge_lower) m
             then Inr \<lparr>sz_p_estimate = p, sz_p_lower = p_lower, sz_edge_lower = edge_lower, sz_kelly_fraction = 0,
                       sz_size_multiplier = 0, sz_reason = ''LOWER_BOUND_EDGE_BELOW_MINIMUM''\<rparr>
             else let kelly = fractional_kelly_fraction (VNumber (Finite p_lower)) (VNumber (Finite normalized_price))
                                (VNumber (Finite normalized_cost)) fraction
                  in Inr \<lparr>sz_p_estimate = p, sz_p_lower = p_lower, sz_edge_lower = edge_lower, sz_kelly_fraction = kelly,
                          sz_size_multiplier = kelly, sz_reason = ''KELLY_FROM_LOWER_BOUND''\<rparr>)"

section \<open>Bounds of the linear size\<close>

text \<open>The factor between zero and one and the bet it gives, for finite limits.\<close>

definition edge_factor :: "rat \<Rightarrow> rat \<Rightarrow> rat \<Rightarrow> rat" where
  "edge_factor a b e = min (max (flt (flt (e - a) / flt (b - a))) 0) 1"

definition scaled_bet :: "rat \<Rightarrow> rat \<Rightarrow> rat \<Rightarrow> rat" where
  "scaled_bet lo hi t = round_float 2 (flt (lo + flt (t * flt (hi - lo))))"

lemma edge_scaled_finite:
  "0 < e \<Longrightarrow> a < b \<Longrightarrow> compute_bet_size_edge_scaled (Finite e) (Finite lo) (Finite hi) (Finite a) (Finite b) =
     Finite (scaled_bet lo hi (edge_factor a b e))"
  by (simp add: compute_bet_size_edge_scaled_def scaled_bet_def edge_factor_def f_sub_def)

text \<open>The divisor is never zero.\<close>

lemma edge_range_nonzero: "\<not> float_le max_edge min_edge \<Longrightarrow> f_sub max_edge min_edge \<noteq> Finite 0"
  by (cases max_edge; cases min_edge) (auto simp: f_sub_def)

lemma edge_factor_bounds: "0 \<le> edge_factor a b e" "edge_factor a b e \<le> 1"
  by (simp_all add: edge_factor_def)

lemma edge_factor_mono:
  assumes "a < b" "e \<le> e'" shows "edge_factor a b e \<le> edge_factor a b e'"
proof -
  have "flt (e - a) / flt (b - a) \<le> flt (e' - a) / flt (b - a)"
    using assms by (intro divide_right_mono flt_mono) simp_all
  from flt_mono [OF this] show ?thesis unfolding edge_factor_def by (intro min.mono max.mono) simp_all
qed

lemma edge_factor_ends:
  assumes "a < b" shows "e \<le> a \<Longrightarrow> edge_factor a b e = 0" "b \<le> e \<Longrightarrow> edge_factor a b e = 1"
proof -
  have d: "0 < flt (b - a)" using assms by simp
  show "edge_factor a b e = 0" if "e \<le> a"
  proof -
    have "flt (e - a) \<le> 0" using that by simp
    then have "flt (e - a) / flt (b - a) \<le> 0" using d by (simp add: divide_nonpos_pos del: flt_nonpos_iff flt_pos)
    then show ?thesis by (simp add: edge_factor_def)
  qed
  show "edge_factor a b e = 1" if "b \<le> e"
  proof -
    have "flt (b - a) \<le> flt (e - a)" using that by (intro flt_mono) simp
    then have "1 \<le> flt (e - a) / flt (b - a)" using d by simp
    from flt_mono [OF this] show ?thesis by (simp add: edge_factor_def)
  qed
qed

lemma scaled_bet_mono: "lo \<le> hi \<Longrightarrow> t \<le> t' \<Longrightarrow> scaled_bet lo hi t \<le> scaled_bet lo hi t'"
  unfolding scaled_bet_def by (intro round_float_mono flt_mono add_left_mono mult_right_mono) simp_all

text \<open>Amounts in whole cents come out exactly at both ends, although the sum in between is rounded twice.\<close>

lemma scaled_bet_ends:
  assumes ij: "0 \<le> i" "i \<le> j" "j \<le> 10 ^ 12"
  defines "lo \<equiv> flt (of_int i / 100)" and "hi \<equiv> flt (of_int j / 100)"
  shows "scaled_bet lo hi 0 = lo" "scaled_bet lo hi 1 = hi"
proof -
  have "rat_of_int j \<le> rat_of_int (10 ^ 12)" using ij(3) by (rule of_int_le_iff [THEN iffD2])
  then have lim: "rat_of_int j / 100 \<le> 10000000000" by simp
  have i: "0 \<le> rat_of_int i / 100" "rat_of_int i / 100 \<le> rat_of_int j / 100" using ij by simp_all
  have err: "\<bar>flt x - x\<bar> \<le> 1 / 100000" if "\<bar>x\<bar> \<le> 30000000000" for x
  proof -
    have "\<bar>x\<bar> / 2 ^ 53 \<le> 30000000000 / 2 ^ 53" using that by (intro divide_right_mono) simp_all
    then show ?thesis using flt_error [of x] by simp
  qed
  have lo: "\<bar>lo - of_int i / 100\<bar> \<le> 1 / 100000" and hi: "\<bar>hi - of_int j / 100\<bar> \<le> 1 / 100000"
    unfolding lo_def hi_def using i lim by (intro err, linarith)+
  have le: "0 \<le> lo" "lo \<le> hi" using i by (auto simp: lo_def hi_def intro!: flt_mono)
  have top: "hi \<le> 20000000000" using hi lim by linarith
  have d: "\<bar>flt (hi - lo) - (hi - lo)\<bar> \<le> 1 / 100000" using le top by (intro err) linarith
  have "\<bar>flt (lo + flt (hi - lo)) - (lo + flt (hi - lo))\<bar> \<le> 1 / 100000" using d le top by (intro err) linarith
  then have "\<bar>flt (lo + flt (hi - lo)) - of_int j / 100\<bar> < 1 / 200" using d hi by linarith
  then show "scaled_bet lo hi 1 = hi" using round_float_near [of _ j 2] by (simp add: scaled_bet_def hi_def)
  have "\<bar>flt lo - of_int i / 100\<bar> < 1 / 200" using lo by (simp add: lo_def)
  then show "scaled_bet lo hi 0 = lo" using round_float_near [of _ i 2] by (simp add: scaled_bet_def lo_def)
qed

text \<open>
  The linear bet size. For limits in whole cents (up to ten thousand million dollars) and a positive edge,
  the bet lies between the smallest and the largest bet, is exactly the smallest one up to \<open>min_edge\<close> and
  exactly the largest one from \<open>max_edge\<close> on, and a larger edge never gives a smaller bet, all in the rounded
  arithmetic of floats.
\<close>

theorem edge_scaled_bet:
  assumes "0 \<le> i" "i \<le> j" "j \<le> 10 ^ 12" "a < b" "0 < e" "e \<le> e'"
  shows "\<exists>x x'. compute_bet_size_edge_scaled (Finite e) (Finite (flt (of_int i / 100))) (Finite (flt (of_int j / 100))) (Finite a) (Finite b) = Finite x \<and>
    compute_bet_size_edge_scaled (Finite e') (Finite (flt (of_int i / 100))) (Finite (flt (of_int j / 100))) (Finite a) (Finite b) = Finite x' \<and>
    flt (of_int i / 100) \<le> x \<and> x \<le> x' \<and> x' \<le> flt (of_int j / 100) \<and>
    (e \<le> a \<longrightarrow> x = flt (of_int i / 100)) \<and> (b \<le> e \<longrightarrow> x = flt (of_int j / 100))"
proof -
  let ?lo = "flt (of_int i / 100)" let ?hi = "flt (of_int j / 100)"
  have le: "?lo \<le> ?hi" using assms(2) by (intro flt_mono divide_right_mono) simp_all
  note ends = scaled_bet_ends [OF assms(1-3)]
  have "?lo \<le> scaled_bet ?lo ?hi (edge_factor a b e)" "scaled_bet ?lo ?hi (edge_factor a b e') \<le> ?hi"
    using scaled_bet_mono [OF le edge_factor_bounds(1)] scaled_bet_mono [OF le edge_factor_bounds(2)] ends by metis+
  moreover have "scaled_bet ?lo ?hi (edge_factor a b e) \<le> scaled_bet ?lo ?hi (edge_factor a b e')"
    using assms by (intro scaled_bet_mono le edge_factor_mono)
  moreover have "e \<le> a \<Longrightarrow> scaled_bet ?lo ?hi (edge_factor a b e) = ?lo" "b \<le> e \<Longrightarrow> scaled_bet ?lo ?hi (edge_factor a b e) = ?hi"
    using edge_factor_ends [OF assms(4)] ends by simp_all
  ultimately show ?thesis using assms by (auto simp: edge_scaled_finite)
qed

theorem edge_scaled_bet_witness:
  "compute_bet_size_edge_scaled (Finite (1/2)) (Finite (flt (of_int 100 / 100))) (Finite (flt (of_int 5000 / 100))) (Finite (1/20)) (Finite (2/5)) =
     Finite (flt (of_int 5000 / 100))"
  using edge_scaled_bet [of 100 5000 "1/20" "2/5" "1/2" "1/2"] by auto

text \<open>An edge that is not a number gives a bet that is not a number.\<close>

lemma edge_scaled_NaN:
  "\<not> float_le hi_edge lo_edge \<Longrightarrow> compute_bet_size_edge_scaled NotANumber lo hi lo_edge hi_edge = NotANumber"
  by (cases lo; cases "f_sub hi lo") (simp_all add: compute_bet_size_edge_scaled_def f_sub_def)

text \<open>
  The comment of \<open>compute_bet_size_with_liquidity\<close> promises at least the smallest bet; without an edge it
  returns nothing.
\<close>

lemma no_edge_no_bet:
  "float_le edge (Finite 0) \<Longrightarrow> float_le volume (Finite 0) \<Longrightarrow>
     compute_bet_size_with_liquidity edge volume lo hi lo_edge hi_edge fraction = Finite 0"
  by (simp add: compute_bet_size_with_liquidity_def compute_bet_size_edge_scaled_def)

section \<open>The calibration discount\<close>

lemma ece_correction_ends:
  "float_le e (Finite 0) \<Longrightarrow> apply_ece_correction v (Some e) = v"
  "flt (1/10) \<le> x \<Longrightarrow> apply_ece_correction (Finite p) (Some (Finite x)) = Finite (1/2)"
proof -
  show "apply_ece_correction (Finite p) (Some (Finite x)) = Finite (1/2)" if x: "flt (1/10) \<le> x"
  proof -
    have ten: "0 < flt (1/10)" by simp
    have "1 \<le> x / flt (1/10)" using x ten by simp
    from flt_mono [OF this] have "1 - flt (x / flt (1/10)) \<le> 0" by simp
    moreover have "\<not> x \<le> 0" using x ten by linarith
    ultimately show ?thesis by (simp add: apply_ece_correction_def f_sub_def)
  qed
qed (simp add: apply_ece_correction_def)

section \<open>Bounds of the weighted sizes\<close>

lemma clamp_half_eq: "clamp_half v = (case to_float v of Some (Finite x) \<Rightarrow> max 0 (min 1 x) | _ \<Rightarrow> 1/2)"
  by (simp add: clamp_half_def clamp_probability_def split: option.split dec_value.split)

lemma clamp_half_bounds: "0 \<le> clamp_half v" "clamp_half v \<le> 1"
  by (auto simp: clamp_half_eq split: option.split dec_value.split)

lemma clamp_half_id [simp]: "0 \<le> p \<Longrightarrow> p \<le> 1 \<Longrightarrow> clamp_half (VNumber (Finite p)) = p"
  by (simp add: clamp_half_eq)

lemma clamp_half_float:
  assumes "\<And>x. to_float v = Some (Finite x) \<Longrightarrow> flt x = x" shows "flt (clamp_half v) = clamp_half v"
  using assms flt_half unfolding clamp_half_eq by (cases "to_float v") (auto simp: max_def min_def split: dec_value.split)

lemma finite_nonnegative_nonneg: "0 \<le> d \<Longrightarrow> 0 \<le> finite_nonnegative v d"
  by (auto simp: finite_nonnegative_def split: option.split dec_value.split)

lemma fractional_kelly_bounds: "0 \<le> fractional_kelly_fraction p q c f" "fractional_kelly_fraction p q c f \<le> 1"
  by (simp_all add: fractional_kelly_fraction_def Let_def)

text \<open>The divisions of \<open>fractional_kelly_fraction\<close> have positive divisors.\<close>

lemma kelly_divisors: "0 < max (flt (1 / 10 ^ 9)) x" "0 < flt (max (flt (1 / 10 ^ 9)) x / max (flt (1 / 10 ^ 9)) y)"
  by (simp_all add: less_max_iff_disj)

lemma lower_bound_le:
  assumes "flt p = p" "0 \<le> p" "p \<le> 1"
  shows "0 \<le> probability_lower_bound (VNumber (Finite p)) u z" "probability_lower_bound (VNumber (Finite p)) u z \<le> p"
proof -
  have "flt (p - flt (s * x)) \<le> p" if "0 \<le> s" "0 \<le> x" for s x
    using flt_mono [of "p - flt (s * x)" p] that assms(1) by simp
  then show "probability_lower_bound (VNumber (Finite p)) u z \<le> p" using assms
    by (auto simp: probability_lower_bound_def Let_def min_le_iff_disj split: option.split dec_value.split)
qed (simp add: probability_lower_bound_def Let_def split: option.split dec_value.split)

text \<open>
  Sizing under uncertainty fails closed. Whatever the arguments are (missing, texts, infinite or not a
  number), \<open>conservative_size\<close> with a numeric minimum returns a size between zero and one; the probability it
  rests on is never above the estimate; the size is zero when the edge of the lower bound is below the minimum,
  and without a usable standard error the lower bound is zero.
\<close>

theorem conservative_size_fails_closed:
  assumes "\<And>x. to_float p = Some (Finite x) \<Longrightarrow> flt x = x"
  shows "\<exists>s. conservative_size p price cost se fraction (VNumber m) = Inr s \<and>
    0 \<le> sz_p_lower s \<and> sz_p_lower s \<le> sz_p_estimate s \<and> sz_p_estimate s \<le> 1 \<and>
    0 \<le> sz_size_multiplier s \<and> sz_size_multiplier s \<le> 1 \<and>
    (float_less (Finite (sz_edge_lower s)) m \<longrightarrow> sz_size_multiplier s = 0) \<and>
    ((\<forall>u. to_float se = Some (Finite u) \<longrightarrow> u < 0) \<longrightarrow> sz_p_lower s = 0)"
proof -
  note p = clamp_half_float [OF assms] clamp_half_bounds [of p]
  have unknown: "probability_lower_bound (VNumber (Finite (clamp_half p))) se z = 0"
    if "\<forall>u. to_float se = Some (Finite u) \<longrightarrow> u < 0" for z
    using that by (simp add: probability_lower_bound_def split: option.split dec_value.split)
  show ?thesis using lower_bound_le [OF p(1,2,3)] p unknown fractional_kelly_bounds
    by (simp add: conservative_size_def Let_def)
qed

theorem conservative_size_fails_closed_witness:
  "\<exists>s. conservative_size (VNumber (Finite 1)) (VNumber (Finite (1/2))) VNone VNone (VNumber (Finite (1/4)))
      (VNumber (Finite 0)) = Inr s \<and> sz_p_lower s = 0"
proof -
  have "\<And>x. to_float (VNumber (Finite 1)) = Some (Finite x) \<Longrightarrow> flt x = x" by auto
  from conservative_size_fails_closed [OF this, where price = "VNumber (Finite (1/2))" and cost = VNone and se = VNone and
      fraction = "VNumber (Finite (1/4))" and m = "Finite 0"]
  show ?thesis by fastforce
qed

text \<open>The stepped size as a function of numbers that passed the conversions.\<close>

definition stepped_level :: "rat list \<Rightarrow> rat \<Rightarrow> rat \<Rightarrow> rat" where
  "stepped_level ts base e =
     (if ts ! 2 \<le> e then flt (base * 3) else if ts ! 1 \<le> e then flt (base * 2)
      else if ts ! 0 \<le> e then flt (base * (3/2)) else base)"

lemma thresholds_sorted: "length (edge_thresholds_of vs) = 3" "sorted (edge_thresholds_of vs)"
proof -
  have "flt (3/100) \<le> flt (6/100)" "flt (6/100) \<le> flt (10/100)" by (rule flt_mono, simp)+
  then have "flt (3/100) \<le> flt (10/100)" by (rule order_trans)
  then show "length (edge_thresholds_of vs) = 3" "sorted (edge_thresholds_of vs)"
    using \<open>flt (3/100) \<le> flt (6/100)\<close> \<open>flt (6/100) \<le> flt (10/100)\<close>
    by (auto simp: edge_thresholds_of_def DEFAULT_STEPPED_EDGE_THRESHOLDS_def Let_def)
qed

lemma stepped_level_mono:
  assumes "flt base = base" "0 \<le> base" "e \<le> e'" "sorted ts" "length ts = 3"
  shows "base \<le> stepped_level ts base e" "stepped_level ts base e \<le> stepped_level ts base e'"
proof -
  have up: "base \<le> flt (base * k)" if "1 \<le> k" for k
    using flt_mono [of base "base * k"] mult_left_mono [OF that assms(2)] assms(1) by simp
  have m: "flt (base * k) \<le> flt (base * l)" if "k \<le> l" for k l using mult_left_mono [OF that assms(2)] by (rule flt_mono)
  have "ts ! 0 \<le> ts ! 1" "ts ! 1 \<le> ts ! 2" using sorted_nth_mono [OF assms(4)] assms(5) by simp_all
  then show "base \<le> stepped_level ts base e" "stepped_level ts base e \<le> stepped_level ts base e'"
    using assms(3) up [of "3/2"] up [of 2] up [of 3] m [of "3/2" 2] m [of 2 3] m [of "3/2" 3] by (auto simp: stepped_level_def)
qed

text \<open>
  The stepped stake. With a positive cap it never exceeds the cap (rounded to eight places), grows with the edge, and an edge
  that is missing, malformed, infinite or not a number gives the smallest stake.
\<close>

theorem stepped_bet_monotone:
  assumes "flt b = b" "0 < b" "0 < c" "e \<le> e'"
  shows "0 \<le> stepped_bet_size v (VNumber (Finite b)) (VNumber (Finite c)) ts \<and>
    stepped_bet_size v (VNumber (Finite b)) (VNumber (Finite c)) ts \<le> round_float 8 c \<and>
    stepped_bet_size (VNumber (Finite e)) (VNumber (Finite b)) (VNumber (Finite c)) ts
      \<le> stepped_bet_size (VNumber (Finite e')) (VNumber (Finite b)) (VNumber (Finite c)) ts \<and>
    ((\<forall>x. to_float v \<noteq> Some (Finite x)) \<longrightarrow>
      stepped_bet_size v (VNumber (Finite b)) (VNumber (Finite c)) ts
        \<le> stepped_bet_size (VNumber (Finite e)) (VNumber (Finite b)) (VNumber (Finite c)) ts)"
proof -
  let ?lvl = "stepped_level (edge_thresholds_of ts) b"
  have eq: "stepped_bet_size w (VNumber (Finite b)) (VNumber (Finite c)) ts =
      round_float 8 (min c (case to_float w of Some (Finite x) \<Rightarrow> ?lvl x | _ \<Rightarrow> b))" for w
    using assms stepped_level_mono(1) [of b _ _ "edge_thresholds_of ts"]
    by (auto simp: stepped_bet_size_def finite_nonnegative_def stepped_level_def Let_def max_def min_def
        split: option.split dec_value.split)
  note mono = stepped_level_mono [OF assms(1) less_imp_le [OF assms(2)] _ thresholds_sorted(2,1)]
  have pos: "0 \<le> (case to_float w of Some (Finite x) \<Rightarrow> ?lvl x | _ \<Rightarrow> b)" for w
    using mono(1) [OF order_refl] assms(2) by (auto split: option.split dec_value.split intro: order_trans [OF less_imp_le])
  have "round_float 8 (min c (?lvl e)) \<le> round_float 8 (min c (?lvl e'))"
    using mono(2) [OF assms(4)] by (intro round_float_mono min.mono) simp_all
  moreover have "round_float 8 (min c b) \<le> round_float 8 (min c (?lvl e))"
    using mono(1) [OF order_refl] by (intro round_float_mono min.mono) simp_all
  moreover have "(\<forall>x. to_float v \<noteq> Some (Finite x)) \<Longrightarrow> (case to_float v of Some (Finite x) \<Rightarrow> ?lvl x | _ \<Rightarrow> b) = b"
    by (auto split: option.split dec_value.split)
  ultimately show ?thesis using pos [of v] assms(3) by (auto simp: eq intro!: round_float_nonneg round_float_mono)
qed

theorem stepped_bet_monotone_witness:
  "stepped_bet_size VNone (VNumber (Finite 1)) (VNumber (Finite 3)) []
     \<le> stepped_bet_size (VNumber (Finite (1/2))) (VNumber (Finite 1)) (VNumber (Finite 3)) []"
  using stepped_bet_monotone [of 1 3 "1/2" "1/2" VNone "[]"] by simp

end
