(* ===== verification/Trading_Config.thy ===== *)
theory Trading_Config
  imports Worker_Config Live_Session
begin

text \<open>
  The settings of the trading engine: \<open>TradingConfig\<close> and \<open>parse_trading_settings\<close> of
  \<open>trading/trading_config.py\<close>. The settings table is the argument \<open>raw\<close>; the process environment
  (\<open>polyflip.config.settings\<close>) is the record \<open>env_settings\<close>, in which an attribute that the class does not
  have is \<open>None\<close>. Its numbers are finite. \<open>Worker_Config.parse_trading_settings\<close> holds the few fields the
  execution worker reads; they are shown to be the same.
\<close>

section \<open>The environment and the parsers\<close>

record env_settings =
  ev_float :: "string \<Rightarrow> pyfloat option"
  ev_int :: "string \<Rightarrow> int option"
  ev_bool :: "string \<Rightarrow> bool option"
  ev_text :: "string \<Rightarrow> string option"

text \<open>\<open>getattr(settings, name, default)\<close> and \<open>raw.get(key, default)\<close>.\<close>

definition env_or :: "(string \<Rightarrow> 'a option) \<Rightarrow> string \<Rightarrow> 'a \<Rightarrow> 'a" where
  "env_or attrs name dflt = (case attrs name of None \<Rightarrow> dflt | Some v \<Rightarrow> v)"

definition get_or :: "(string \<Rightarrow> string option) \<Rightarrow> string \<Rightarrow> string \<Rightarrow> string" where
  "get_or raw key dflt = (case raw key of None \<Rightarrow> dflt | Some v \<Rightarrow> v)"

definition parse_bool :: "string option \<Rightarrow> bool \<Rightarrow> bool" where
  "parse_bool val dflt = (case val of None \<Rightarrow> dflt | Some v \<Rightarrow> if strip v = [] then dflt else lower v = ''true'')"

text \<open>\<open>int(float(val))\<close> cuts the fraction off.\<close>

definition trunc :: "rat \<Rightarrow> int" where
  "trunc x = (if 0 \<le> x then \<lfloor>x\<rfloor> else \<lceil>x\<rceil>)"

definition parse_int_setting :: "string option \<Rightarrow> int \<Rightarrow> int" where
  "parse_int_setting val dflt =
     (case val of None \<Rightarrow> dflt
      | Some v \<Rightarrow> if strip v = [] then dflt
                  else case parse_float v of Some (Finite x) \<Rightarrow> trunc x | _ \<Rightarrow> dflt)"

text \<open>A number outside its bounds is replaced, by the default or by a fixed value.\<close>

definition parse_with_fallback ::
  "(string \<Rightarrow> string option) \<Rightarrow> string \<Rightarrow> pyfloat \<Rightarrow> pyfloat \<Rightarrow> pyfloat \<Rightarrow> pyfloat \<Rightarrow> pyfloat" where
  "parse_with_fallback raw key dflt lo hi fallback =
     (case parse_float_setting raw key dflt of Finite v \<Rightarrow> if lo \<le> v \<and> v \<le> hi then v else fallback | _ \<Rightarrow> fallback)"

definition parse_bounded_float :: "(string \<Rightarrow> string option) \<Rightarrow> string \<Rightarrow> pyfloat \<Rightarrow> pyfloat \<Rightarrow> pyfloat \<Rightarrow> pyfloat" where
  "parse_bounded_float raw key dflt lo hi = parse_with_fallback raw key dflt lo hi dflt"

definition parse_probability_floor :: "(string \<Rightarrow> string option) \<Rightarrow> string \<Rightarrow> pyfloat \<Rightarrow> pyfloat \<Rightarrow> pyfloat" where
  "parse_probability_floor raw key dflt floor_value =
     (case parse_float_setting raw key dflt of
        Finite v \<Rightarrow>
          let x = (if 1 < v then flt (v / 100) else v) in
          if x < floor_value then (if key = ''MIN_DIRECTION_PROB'' then dflt else floor_value)
          else if 1 < x then dflt else x
      | _ \<Rightarrow> dflt)"

text \<open>\<open>str(raw.get(key, default) or default).strip().upper()\<close> and a check against the allowed names.\<close>

definition text_setting :: "env_settings \<Rightarrow> (string \<Rightarrow> string option) \<Rightarrow> string \<Rightarrow> string \<Rightarrow> string" where
  "text_setting ev raw key dflt = text_or (Some (get_or raw key (env_or (ev_text ev) key dflt))) dflt"

definition choice :: "string \<Rightarrow> string list \<Rightarrow> string \<Rightarrow> string" where
  "choice s allowed fallback = (let v = upper (strip s) in if v \<in> set allowed then v else fallback)"

text \<open>The old mode names and unknown ones are all read as \<open>combined\<close>.\<close>

definition trading_mode_of :: "string \<Rightarrow> string" where
  "trading_mode_of s =
     (let m = lower s in
      if m = ''combined'' then m else if m \<in> {''ct_outsider'', ''ct''} then ''ct_outsider'' else ''combined'')"

definition parse_mrf_version :: "env_settings \<Rightarrow> (string \<Rightarrow> string option) \<Rightarrow> int" where
  "parse_mrf_version ev raw =
     (let v = parse_int_setting (raw ''MARKET_REGIME_FILTER_VERSION'') (env_or (ev_int ev) ''MARKET_REGIME_FILTER_VERSION'' 1)
      in if v \<in> {1, 2, 3} then v else 1)"

definition parse_min_direction_prob :: "env_settings \<Rightarrow> (string \<Rightarrow> string option) \<Rightarrow> pyfloat" where
  "parse_min_direction_prob ev raw =
     parse_probability_floor raw ''MIN_DIRECTION_PROB'' (env_or (ev_float ev) ''MIN_DIRECTION_PROB'' (flt (101/200))) (1/2)"

definition MIN_HISTORY_CANDLES :: int where
  "MIN_HISTORY_CANDLES = 97"

text \<open>The four numbers of the regime gate are accepted or replaced together.\<close>

record mrf_gate =
  gate_veto :: pyfloat
  gate_margin :: pyfloat
  gate_asset :: pyfloat
  gate_global :: pyfloat

definition default_gate :: mrf_gate where
  "default_gate = \<lparr>gate_veto = flt (3/20), gate_margin = flt (1/20), gate_asset = flt (7/10), gate_global = flt (3/10)\<rparr>"

definition gate_valid :: "mrf_gate \<Rightarrow> bool" where
  "gate_valid g \<longleftrightarrow> 0 \<le> gate_asset g \<and> 0 \<le> gate_global g \<and> 0 < flt (gate_asset g + gate_global g) \<and>
     0 \<le> gate_veto g \<and> gate_veto g \<le> 1 \<and> 0 \<le> gate_margin g"

definition parse_mrf_gate :: "(string \<Rightarrow> string option) \<Rightarrow> mrf_gate" where
  "parse_mrf_gate raw =
     (case (parse_float_setting raw ''MARKET_REGIME_VETO_THRESHOLD'' (gate_veto default_gate),
            parse_float_setting raw ''MARKET_REGIME_EDGE_OVERRIDE_MARGIN'' (gate_margin default_gate),
            parse_float_setting raw ''MARKET_REGIME_ASSET_WEIGHT'' (gate_asset default_gate),
            parse_float_setting raw ''MARKET_REGIME_GLOBAL_WEIGHT'' (gate_global default_gate)) of
        (Finite v, Finite m, Finite a, Finite b) \<Rightarrow>
          let g = \<lparr>gate_veto = v, gate_margin = m, gate_asset = a, gate_global = b\<rparr>
          in if gate_valid g then g else default_gate
      | _ \<Rightarrow> default_gate)"

section \<open>The configuration\<close>

text \<open>\<open>TradingConfig\<close>, in four groups: market and risk, combined voting, weighted policy, regime filter.\<close>

record market_settings =
  tc_trading_enabled :: bool
  tc_trading_mode :: string
  tc_favor_min_time_left :: int
  tc_favor_max_time_left :: int
  tc_outs_min_time_left :: int
  tc_outs_max_time_left :: int
  tc_bet_size :: dec_value
  tc_dead_zone :: dec_value
  tc_daily_limit :: dec_value
  tc_trade_min_price :: dec_value
  tc_trade_max_price :: dec_value
  tc_capital :: dec_value
  tc_active_features_str :: string
  tc_trade_on_favorite :: bool
  tc_trade_on_flip :: bool
  tc_flip_threshold :: pyfloat
  tc_outs_min_edge :: pyfloat
  tc_favorite_threshold :: pyfloat
  tc_trade_assets :: "string list"
  tc_bet_sizing_mode :: string
  tc_max_bet_size_usdc :: dec_value
  tc_favorite_min_price :: dec_value
  tc_favorite_max_price :: dec_value
  tc_favorite_min_edge :: pyfloat
  tc_outsider_max_price :: dec_value
  tc_liquidity_fraction :: dec_value
  tc_bypass_bet_size_check :: bool
  tc_stop_loss_enabled :: bool
  tc_take_profit_enabled :: bool
  tc_take_profit_multiplier :: dec_value
  tc_max_price_drift :: dec_value
  tc_stop_loss_pct_favorite :: dec_value
  tc_stop_loss_pct_outsider :: dec_value
  tc_fee_rate :: dec_value
  tc_slippage_rate :: dec_value
  tc_max_exposure_pct :: dec_value
  tc_min_direction_prob :: pyfloat
  tc_min_win_prob :: pyfloat

record combined_settings = market_settings +
  tc_combined_dir_discount_weight :: pyfloat
  tc_combined_dir_strong_threshold :: pyfloat
  tc_combined_require_consensus :: bool
  tc_combined_fallback_to_logreg_on_none :: bool
  tc_combined_logreg_abstain_band :: pyfloat
  tc_invert_lgbm_signal :: bool
  tc_max_bet_edge :: dec_value
  tc_outsider_pwin_discount :: pyfloat
  tc_max_spread_pct :: pyfloat
  tc_combined_cost_buffer :: dec_value
  tc_lgbm_unavailable_policy :: string
  tc_lightgbm_decision_mode :: string
  tc_enable_ece_correction :: bool

record weighted_settings = combined_settings +
  tc_trading_policy_mode :: string
  tc_weighted_policy_id :: string
  tc_weighted_market_weight :: pyfloat
  tc_weighted_logreg_weight :: pyfloat
  tc_weighted_lgbm_weight :: pyfloat
  tc_weighted_mrf_beta :: pyfloat
  tc_weighted_models_agree_beta :: pyfloat
  tc_weighted_mrf_application :: string
  tc_weighted_mrf_sizing_gamma :: pyfloat
  tc_weighted_intercept :: pyfloat
  tc_weighted_fee_rate :: pyfloat
  tc_weighted_maker_fee_rate :: pyfloat
  tc_weighted_fee_exponent :: pyfloat
  tc_weighted_slippage_rate :: pyfloat
  tc_weighted_latency_buffer :: pyfloat
  tc_weighted_execution_role :: string
  tc_weighted_min_net_ev_favorite :: pyfloat
  tc_weighted_min_net_ev_outsider :: pyfloat
  tc_weighted_fixed_bet_usdc :: pyfloat
  tc_weighted_mrf_extreme_veto_threshold :: pyfloat
  tc_weighted_policy_artifact_path :: string
  tc_weighted_sizing_mode :: string
  tc_weighted_standard_error :: pyfloat
  tc_weighted_kelly_fraction :: pyfloat
  tc_weighted_size_cap_usdc :: pyfloat

record trading_config = weighted_settings +
  tc_require_reversion_regime :: bool
  tc_mrf_mode :: string
  tc_mrf_version :: int
  tc_mrf_min_history :: int
  tc_mrf_outsider_trend_multiplier :: dec_value
  tc_mrf_unknown_multiplier :: dec_value
  tc_mrf_breadth_threshold :: dec_value
  tc_mrf_efficiency_threshold :: dec_value
  tc_mrf_veto_threshold :: pyfloat
  tc_mrf_edge_override_margin :: pyfloat
  tc_mrf_asset_weight :: pyfloat
  tc_mrf_global_weight :: pyfloat

definition parse_trading_config :: "env_settings \<Rightarrow> (string \<Rightarrow> string option) \<Rightarrow> trading_config" where
  "parse_trading_config ev raw =
     \<lparr>tc_trading_enabled = parse_bool (raw ''TRADING_ENABLED'') (env_or (ev_bool ev) ''TRADING_ENABLED'' True),
      tc_trading_mode = trading_mode_of (get_or raw ''TRADING_MODE'' (env_or (ev_text ev) ''TRADING_MODE'' ''combined'')),
      tc_favor_min_time_left = parse_int_setting (raw ''FAVOR_MIN_TIME_LEFT_SEC'') (env_or (ev_int ev) ''FAVOR_MIN_TIME_LEFT_SEC'' 60),
      tc_favor_max_time_left = parse_int_setting (raw ''FAVOR_MAX_TIME_LEFT_SEC'') (env_or (ev_int ev) ''FAVOR_MAX_TIME_LEFT_SEC'' 600),
      tc_outs_min_time_left = parse_int_setting (raw ''OUTS_MIN_TIME_LEFT_SEC'') (env_or (ev_int ev) ''OUTS_MIN_TIME_LEFT_SEC'' 30),
      tc_outs_max_time_left = parse_int_setting (raw ''OUTS_MAX_TIME_LEFT_SEC'') (env_or (ev_int ev) ''OUTS_MAX_TIME_LEFT_SEC'' 300),
      tc_bet_size = parse_float_setting raw ''TRADE_BET_SIZE_USDC'' (env_or (ev_float ev) ''TRADE_BET_SIZE_USDC'' 10),
      tc_dead_zone = parse_float_setting raw ''DEAD_ZONE_WIDTH'' (env_or (ev_float ev) ''DEAD_ZONE_WIDTH'' (flt (1/20))),
      tc_daily_limit = parse_float_setting raw ''DAILY_LOSS_LIMIT_USDC'' (env_or (ev_float ev) ''DAILY_LOSS_LIMIT_USDC'' (- 100)),
      tc_trade_min_price = parse_float_setting raw ''TRADE_MIN_PRICE'' (env_or (ev_float ev) ''TRADE_MIN_PRICE'' (flt (1/20))),
      tc_trade_max_price = parse_float_setting raw ''TRADE_MAX_PRICE'' (env_or (ev_float ev) ''TRADE_MAX_PRICE'' (flt (19/20))),
      tc_capital = parse_float_setting raw ''INITIAL_CAPITAL'' (env_or (ev_float ev) ''INITIAL_CAPITAL'' 100),
      tc_active_features_str = get_or raw ''ACTIVE_FEATURES'' (env_or (ev_text ev) ''ACTIVE_FEATURES'' ''''),
      tc_trade_on_favorite = parse_bool (raw ''TRADE_ON_FAVORITE'') (env_or (ev_bool ev) ''TRADE_ON_FAVORITE'' True),
      tc_trade_on_flip = parse_bool (raw ''TRADE_ON_FLIP'') (env_or (ev_bool ev) ''TRADE_ON_FLIP'' False),
      tc_flip_threshold = parse_fraction_setting raw ''FLIP_THRESHOLD'' (env_or (ev_float ev) ''FLIP_THRESHOLD'' (flt (3/5))) 0 1,
      tc_outs_min_edge = parse_fraction_setting raw ''OUTS_MIN_EDGE'' (env_or (ev_float ev) ''OUTS_MIN_EDGE'' (flt (1/25))) (- 1) 1,
      tc_favorite_threshold = parse_fraction_setting raw ''FAVORITE_THRESHOLD'' (env_or (ev_float ev) ''FAVORITE_THRESHOLD'' (flt (7/10))) 0 1,
      tc_trade_assets = filter (\<lambda>a. a \<noteq> []) (map strip (split_comma (get_or raw ''TRADE_ASSETS'' (env_or (ev_text ev) ''TRADE_ASSETS'' ''BTC,ETH'')))),
      tc_bet_sizing_mode = get_or raw ''BET_SIZING_MODE'' (env_or (ev_text ev) ''BET_SIZING_MODE'' ''fixed''),
      tc_max_bet_size_usdc = parse_float_setting raw ''MAX_BET_SIZE_USDC'' (env_or (ev_float ev) ''MAX_BET_SIZE_USDC'' 50),
      tc_favorite_min_price = parse_float_setting raw ''FAVORITE_MIN_PRICE'' (env_or (ev_float ev) ''FAVORITE_MIN_PRICE'' (flt (11/20))),
      tc_favorite_max_price = parse_float_setting raw ''FAVORITE_MAX_PRICE'' (env_or (ev_float ev) ''FAVORITE_MAX_PRICE'' (flt (19/20))),
      tc_favorite_min_edge = parse_fraction_setting raw ''FAVORITE_MIN_EDGE'' (env_or (ev_float ev) ''FAVORITE_MIN_EDGE'' (flt (1/20))) (- 1) 1,
      tc_outsider_max_price = parse_float_setting raw ''OUTSIDER_MAX_PRICE'' (env_or (ev_float ev) ''OUTSIDER_MAX_PRICE'' (flt (2/5))),
      tc_liquidity_fraction = parse_float_setting raw ''LIQUIDITY_FRACTION'' (env_or (ev_float ev) ''LIQUIDITY_FRACTION'' (flt (1/10))),
      tc_bypass_bet_size_check = parse_bool (raw ''BYPASS_BET_SIZE_CHECK'') (env_or (ev_bool ev) ''BYPASS_BET_SIZE_CHECK'' False),
      tc_stop_loss_enabled = parse_bool (raw ''STOP_LOSS_ENABLED'') (env_or (ev_bool ev) ''STOP_LOSS_ENABLED'' False),
      tc_take_profit_enabled = parse_bool (raw ''TAKE_PROFIT_ENABLED'') (env_or (ev_bool ev) ''TAKE_PROFIT_ENABLED'' False),
      tc_take_profit_multiplier = parse_float_setting raw ''TAKE_PROFIT_MULTIPLIER'' (env_or (ev_float ev) ''TAKE_PROFIT_MULTIPLIER'' 2),
      tc_max_price_drift = parse_float_setting raw ''MAX_PRICE_DRIFT'' (env_or (ev_float ev) ''MAX_PRICE_DRIFT'' (flt (3/100))),
      tc_stop_loss_pct_favorite = parse_float_setting raw ''STOP_LOSS_PCT_FAVORITE'' (env_or (ev_float ev) ''STOP_LOSS_PCT_FAVORITE'' 40),
      tc_stop_loss_pct_outsider = parse_float_setting raw ''STOP_LOSS_PCT_OUTSIDER'' (env_or (ev_float ev) ''STOP_LOSS_PCT_OUTSIDER'' 60),
      tc_fee_rate = parse_float_setting raw ''FEE_RATE'' (env_or (ev_float ev) ''FEE_RATE'' 0),
      tc_slippage_rate = parse_float_setting raw ''SLIPPAGE_RATE'' (env_or (ev_float ev) ''SLIPPAGE_RATE'' 0),
      tc_max_exposure_pct = parse_float_setting raw ''MAX_EXPOSURE_PCT'' (env_or (ev_float ev) ''MAX_EXPOSURE_PCT'' 15),
      tc_min_direction_prob = parse_min_direction_prob ev raw,
      tc_min_win_prob = parse_fraction_setting raw ''MIN_WIN_PROB'' (env_or (ev_float ev) ''MIN_WIN_PROB'' (flt (51/100))) 0 1,
      tc_combined_dir_discount_weight = parse_fraction_setting raw ''COMBINED_DIR_DISCOUNT_WEIGHT'' 0 0 1,
      tc_combined_dir_strong_threshold = parse_probability_floor raw ''COMBINED_DIR_STRONG_THRESHOLD'' (flt (13/20)) (parse_min_direction_prob ev raw),
      tc_combined_require_consensus = parse_bool (raw ''COMBINED_REQUIRE_CONSENSUS'') (env_or (ev_bool ev) ''COMBINED_REQUIRE_CONSENSUS'' True),
      tc_combined_fallback_to_logreg_on_none = parse_bool (raw ''COMBINED_FALLBACK_TO_LOGREG_ON_NONE'') (env_or (ev_bool ev) ''COMBINED_FALLBACK_TO_LOGREG_ON_NONE'' True),
      tc_combined_logreg_abstain_band = parse_fraction_setting raw ''COMBINED_LOGREG_ABSTAIN_BAND'' (flt (1/20)) 0 (1/4),
      tc_invert_lgbm_signal = parse_bool (raw ''INVERT_LGBM_SIGNAL'') False,
      tc_max_bet_edge = parse_float_setting raw ''MAX_BET_EDGE'' (env_or (ev_float ev) ''MAX_BET_EDGE'' (flt (2/5))),
      tc_outsider_pwin_discount = parse_fraction_setting raw ''OUTSIDER_PWIN_DISCOUNT'' (env_or (ev_float ev) ''OUTSIDER_PWIN_DISCOUNT'' (flt (13/20))) 0 1,
      tc_max_spread_pct = parse_fraction_setting raw ''MAX_SPREAD_PCT'' (env_or (ev_float ev) ''MAX_SPREAD_PCT'' (flt (2/25))) 0 1,
      tc_combined_cost_buffer = parse_float_setting raw ''COMBINED_COST_BUFFER'' (flt (1/50)),
      tc_lgbm_unavailable_policy = upper (strip (get_or raw ''COMBINED_LGBM_UNAVAILABLE_POLICY'' (env_or (ev_text ev) ''COMBINED_LGBM_UNAVAILABLE_POLICY'' ''SKIP''))),
      tc_lightgbm_decision_mode = choice (get_or raw ''LIGHTGBM_DECISION_MODE'' ''SHADOW'') [''OFF'', ''SHADOW'', ''ACTIVE''] ''SHADOW'',
      tc_enable_ece_correction = parse_bool (raw ''ENABLE_ECE_CORRECTION'') (env_or (ev_bool ev) ''ENABLE_ECE_CORRECTION'' True),
      tc_trading_policy_mode = choice (text_setting ev raw ''TRADING_POLICY_MODE'' ''LEGACY'') [''LEGACY'', ''WEIGHTED_SHADOW'', ''WEIGHTED_ACTIVE''] ''LEGACY'',
      tc_weighted_policy_id = take 64 (strip (text_setting ev raw ''WEIGHTED_POLICY_ID'' ''UNVERSIONED'')),
      tc_weighted_market_weight = parse_bounded_float raw ''WEIGHTED_MARKET_WEIGHT'' (env_or (ev_float ev) ''WEIGHTED_MARKET_WEIGHT'' (flt (9/10))) 0 1,
      tc_weighted_logreg_weight = parse_bounded_float raw ''WEIGHTED_LOGREG_WEIGHT'' (env_or (ev_float ev) ''WEIGHTED_LOGREG_WEIGHT'' (flt (1/20))) 0 1,
      tc_weighted_lgbm_weight = parse_bounded_float raw ''WEIGHTED_LGBM_WEIGHT'' (env_or (ev_float ev) ''WEIGHTED_LGBM_WEIGHT'' (flt (1/20))) 0 1,
      tc_weighted_mrf_beta = parse_with_fallback raw ''WEIGHTED_MRF_BETA'' (env_or (ev_float ev) ''WEIGHTED_MRF_BETA'' 0) (- 2) 2 0,
      tc_weighted_models_agree_beta = parse_bounded_float raw ''WEIGHTED_MODELS_AGREE_BETA'' (env_or (ev_float ev) ''WEIGHTED_MODELS_AGREE_BETA'' 0) (- 2) 2,
      tc_weighted_mrf_application = choice (text_setting ev raw ''WEIGHTED_MRF_APPLICATION'' ''PROBABILITY'') [''PROBABILITY'', ''STAKE''] ''PROBABILITY'',
      tc_weighted_mrf_sizing_gamma = parse_bounded_float raw ''WEIGHTED_MRF_SIZING_GAMMA'' (env_or (ev_float ev) ''WEIGHTED_MRF_SIZING_GAMMA'' 0) (- 1) 1,
      tc_weighted_intercept = parse_bounded_float raw ''WEIGHTED_INTERCEPT'' (env_or (ev_float ev) ''WEIGHTED_INTERCEPT'' 0) (- 5) 5,
      tc_weighted_fee_rate = parse_bounded_float raw ''WEIGHTED_FEE_RATE'' (env_or (ev_float ev) ''WEIGHTED_FEE_RATE'' (flt (7/100))) 0 1,
      tc_weighted_maker_fee_rate = parse_bounded_float raw ''WEIGHTED_MAKER_FEE_RATE'' (env_or (ev_float ev) ''WEIGHTED_MAKER_FEE_RATE'' 0) 0 1,
      tc_weighted_fee_exponent = parse_with_fallback raw ''WEIGHTED_FEE_EXPONENT'' (env_or (ev_float ev) ''WEIGHTED_FEE_EXPONENT'' 1) 0 16 1,
      tc_weighted_slippage_rate = parse_bounded_float raw ''WEIGHTED_SLIPPAGE_RATE'' (env_or (ev_float ev) ''WEIGHTED_SLIPPAGE_RATE'' (flt (1/200))) 0 1,
      tc_weighted_latency_buffer = parse_bounded_float raw ''WEIGHTED_LATENCY_BUFFER'' (env_or (ev_float ev) ''WEIGHTED_LATENCY_BUFFER'' 0) 0 1,
      tc_weighted_execution_role = choice (text_setting ev raw ''WEIGHTED_EXECUTION_ROLE'' ''TAKER'') [''MAKER'', ''TAKER''] ''TAKER'',
      tc_weighted_min_net_ev_favorite = parse_bounded_float raw ''WEIGHTED_MIN_NET_EV_FAVORITE'' (env_or (ev_float ev) ''WEIGHTED_MIN_NET_EV_FAVORITE'' (flt (3/100))) 0 1,
      tc_weighted_min_net_ev_outsider = parse_bounded_float raw ''WEIGHTED_MIN_NET_EV_OUTSIDER'' (env_or (ev_float ev) ''WEIGHTED_MIN_NET_EV_OUTSIDER'' (flt (3/100))) 0 1,
      tc_weighted_fixed_bet_usdc = parse_bounded_float raw ''WEIGHTED_FIXED_BET_USDC'' (env_or (ev_float ev) ''WEIGHTED_FIXED_BET_USDC'' 1) (flt (1/100)) 1000,
      tc_weighted_mrf_extreme_veto_threshold = parse_bounded_float raw ''WEIGHTED_MRF_EXTREME_VETO_THRESHOLD'' (env_or (ev_float ev) ''WEIGHTED_MRF_EXTREME_VETO_THRESHOLD'' (- 1)) (- 1) 0,
      tc_weighted_policy_artifact_path = strip (text_setting ev raw ''WEIGHTED_POLICY_ARTIFACT_PATH'' ''''),
      tc_weighted_sizing_mode = choice (text_setting ev raw ''WEIGHTED_SIZING_MODE'' ''FIXED'') [''FIXED'', ''LOWER_BOUND_KELLY'', ''STEPPED_EDGE''] ''FIXED'',
      tc_weighted_standard_error = parse_bounded_float raw ''WEIGHTED_STANDARD_ERROR'' (env_or (ev_float ev) ''WEIGHTED_STANDARD_ERROR'' 0) 0 (1/2),
      tc_weighted_kelly_fraction = parse_bounded_float raw ''WEIGHTED_KELLY_FRACTION'' (env_or (ev_float ev) ''WEIGHTED_KELLY_FRACTION'' (flt (1/40))) 0 1,
      tc_weighted_size_cap_usdc = parse_bounded_float raw ''WEIGHTED_SIZE_CAP_USDC'' (env_or (ev_float ev) ''WEIGHTED_SIZE_CAP_USDC'' 3) (flt (1/100)) 1000,
      tc_require_reversion_regime = parse_bool (raw ''REQUIRE_REVERSION_REGIME'') False,
      tc_mrf_mode = choice (get_or raw ''MARKET_REGIME_FILTER_MODE'' ''OFF'') [''OFF'', ''SHADOW'', ''ACTIVE''] ''OFF'',
      tc_mrf_version = parse_mrf_version ev raw,
      tc_mrf_min_history = max MIN_HISTORY_CANDLES (parse_int_setting (raw ''MARKET_REGIME_MIN_HISTORY'') MIN_HISTORY_CANDLES),
      tc_mrf_outsider_trend_multiplier = parse_float_setting raw ''MARKET_REGIME_OUTSIDER_TREND_MULTIPLIER'' 0,
      tc_mrf_unknown_multiplier = parse_float_setting raw ''MARKET_REGIME_UNKNOWN_MULTIPLIER'' (flt (4/5)),
      tc_mrf_breadth_threshold = parse_float_setting raw ''MARKET_REGIME_BREADTH_THRESHOLD'' (flt (13/20)),
      tc_mrf_efficiency_threshold = parse_float_setting raw ''MARKET_REGIME_EFFICIENCY_THRESHOLD'' (flt (2/5)),
      tc_mrf_veto_threshold = gate_veto (parse_mrf_gate raw),
      tc_mrf_edge_override_margin = gate_margin (parse_mrf_gate raw),
      tc_mrf_asset_weight = gate_asset (parse_mrf_gate raw),
      tc_mrf_global_weight = gate_global (parse_mrf_gate raw)\<rparr>"

section \<open>Reading the configuration\<close>

definition get_min_edge :: "trading_config \<Rightarrow> bool \<Rightarrow> pyfloat" where
  "get_min_edge cfg is_outsider = (if is_outsider then tc_outs_min_edge cfg else tc_favorite_min_edge cfg)"

definition get_weighted_min_net_ev :: "trading_config \<Rightarrow> bool \<Rightarrow> pyfloat" where
  "get_weighted_min_net_ev cfg is_outsider =
     (if is_outsider then tc_weighted_min_net_ev_outsider cfg else tc_weighted_min_net_ev_favorite cfg)"

text \<open>The reason a time or a price is refused, with the numbers its text shows; \<open>None\<close> is \<open>OK\<close>.\<close>

datatype bound_reason =
    Market_closed dec_value
  | Time_out_of bool dec_value int int
  | Price_out_of_global dec_value dec_value dec_value
  | Outsider_price_above dec_value dec_value
  | Favorite_price_out_of dec_value dec_value dec_value

definition is_time_valid :: "trading_config \<Rightarrow> dec_value \<Rightarrow> bool \<Rightarrow> bound_reason option" where
  "is_time_valid cfg time_left is_outsider =
     (if float_le time_left (Finite 0) then Some (Market_closed time_left)
      else let lo = (if is_outsider then tc_outs_min_time_left cfg else tc_favor_min_time_left cfg);
               hi = (if is_outsider then tc_outs_max_time_left cfg else tc_favor_max_time_left cfg)
           in if \<not> (float_le (Finite (of_int lo)) time_left \<and> float_le time_left (Finite (of_int hi)))
              then Some (Time_out_of is_outsider time_left lo hi) else None)"

definition is_price_valid :: "trading_config \<Rightarrow> dec_value \<Rightarrow> bool \<Rightarrow> bound_reason option" where
  "is_price_valid cfg price is_outsider =
     (if \<not> (float_le (tc_trade_min_price cfg) price \<and> float_le price (tc_trade_max_price cfg))
      then Some (Price_out_of_global price (tc_trade_min_price cfg) (tc_trade_max_price cfg))
      else if is_outsider then
        (if float_less (tc_outsider_max_price cfg) price
         then Some (Outsider_price_above price (tc_outsider_max_price cfg)) else None)
      else if \<not> (float_le (tc_favorite_min_price cfg) price \<and> float_le price (tc_favorite_max_price cfg))
      then Some (Favorite_price_out_of price (tc_favorite_min_price cfg) (tc_favorite_max_price cfg))
      else None)"

section \<open>Every parsed configuration is valid\<close>

lemma parse_with_fallback_bounds:
  assumes "lo \<le> fallback" "fallback \<le> hi"
  shows "lo \<le> parse_with_fallback raw key dflt lo hi fallback \<and> parse_with_fallback raw key dflt lo hi fallback \<le> hi"
  using assms by (auto simp: parse_with_fallback_def split: dec_value.split)

lemma parse_fraction_bounds:
  assumes "lo \<le> dflt" "dflt \<le> hi"
  shows "lo \<le> parse_fraction_setting raw key dflt lo hi \<and> parse_fraction_setting raw key dflt lo hi \<le> hi"
  using assms by (auto simp: parse_fraction_setting_def Let_def split: dec_value.split)

lemma parse_probability_bounds:
  assumes "lo \<le> dflt" "dflt \<le> 1" "lo \<le> f" "f \<le> 1"
  shows "lo \<le> parse_probability_floor raw key dflt f \<and> parse_probability_floor raw key dflt f \<le> 1"
  using assms by (auto simp: parse_probability_floor_def Let_def split: dec_value.split)

lemma choice_allowed: "fallback \<in> set allowed \<Longrightarrow> choice s allowed fallback \<in> set allowed"
  by (simp add: choice_def Let_def)

lemma default_gate_valid: "gate_valid default_gate"
  by code_simp

lemma mrf_gate_valid: "gate_valid (parse_mrf_gate raw)"
  by (simp add: parse_mrf_gate_def Let_def default_gate_valid split: dec_value.split)

text \<open>
  The numbers of the environment that the parser may return as a default, with the bounds a valid
  configuration has for them.
\<close>

definition ENV_BOUNDS :: "(string \<times> rat \<times> rat) list" where
  "ENV_BOUNDS =
     [(''FLIP_THRESHOLD'', 0, 1), (''OUTS_MIN_EDGE'', - 1, 1), (''FAVORITE_THRESHOLD'', 0, 1), (''FAVORITE_MIN_EDGE'', - 1, 1),
      (''MIN_WIN_PROB'', 0, 1), (''OUTSIDER_PWIN_DISCOUNT'', 0, 1), (''MAX_SPREAD_PCT'', 0, 1), (''MIN_DIRECTION_PROB'', 1/2, 1),
      (''WEIGHTED_MARKET_WEIGHT'', 0, 1), (''WEIGHTED_LOGREG_WEIGHT'', 0, 1), (''WEIGHTED_LGBM_WEIGHT'', 0, 1),
      (''WEIGHTED_MODELS_AGREE_BETA'', - 2, 2), (''WEIGHTED_MRF_SIZING_GAMMA'', - 1, 1), (''WEIGHTED_INTERCEPT'', - 5, 5),
      (''WEIGHTED_FEE_RATE'', 0, 1), (''WEIGHTED_MAKER_FEE_RATE'', 0, 1), (''WEIGHTED_SLIPPAGE_RATE'', 0, 1),
      (''WEIGHTED_LATENCY_BUFFER'', 0, 1), (''WEIGHTED_MIN_NET_EV_FAVORITE'', 0, 1), (''WEIGHTED_MIN_NET_EV_OUTSIDER'', 0, 1),
      (''WEIGHTED_FIXED_BET_USDC'', flt (1/100), 1000), (''WEIGHTED_MRF_EXTREME_VETO_THRESHOLD'', - 1, 0),
      (''WEIGHTED_STANDARD_ERROR'', 0, 1/2), (''WEIGHTED_KELLY_FRACTION'', 0, 1), (''WEIGHTED_SIZE_CAP_USDC'', flt (1/100), 1000)]"

definition env_ok :: "env_settings \<Rightarrow> bool" where
  "env_ok ev \<longleftrightarrow> list_all (\<lambda>(k, lo, hi). case ev_float ev k of None \<Rightarrow> True | Some v \<Rightarrow> lo \<le> v \<and> v \<le> hi) ENV_BOUNDS"

lemma env_bound:
  assumes "env_ok ev" "(k, lo, hi) \<in> set ENV_BOUNDS" "lo \<le> d" "d \<le> hi"
  shows "lo \<le> env_or (ev_float ev) k d \<and> env_or (ev_float ev) k d \<le> hi"
proof -
  have "case ev_float ev k of None \<Rightarrow> True | Some v \<Rightarrow> lo \<le> v \<and> v \<le> hi"
    using assms(1,2) unfolding env_ok_def list_all_iff by fast
  then show ?thesis using assms(3,4) by (simp add: env_or_def split: option.splits)
qed

lemma bounded_setting:
  assumes "env_ok ev" "(k, lo, hi) \<in> set ENV_BOUNDS" "lo \<le> d" "d \<le> hi"
  shows "lo \<le> parse_bounded_float raw k (env_or (ev_float ev) k d) lo hi \<and> parse_bounded_float raw k (env_or (ev_float ev) k d) lo hi \<le> hi"
    "lo \<le> parse_fraction_setting raw k (env_or (ev_float ev) k d) lo hi \<and> parse_fraction_setting raw k (env_or (ev_float ev) k d) lo hi \<le> hi"
  using env_bound [OF assms] unfolding parse_bounded_float_def
  by (auto intro!: parse_with_fallback_bounds parse_fraction_bounds)

definition between :: "rat \<Rightarrow> rat \<Rightarrow> rat \<Rightarrow> bool" where
  "between lo hi x \<longleftrightarrow> lo \<le> x \<and> x \<le> hi"

definition names_ok :: "trading_config \<Rightarrow> bool" where
  "names_ok c \<longleftrightarrow> tc_trading_mode c \<in> {''combined'', ''ct_outsider''} \<and>
     tc_trading_policy_mode c \<in> {''LEGACY'', ''WEIGHTED_SHADOW'', ''WEIGHTED_ACTIVE''} \<and>
     tc_weighted_execution_role c \<in> {''MAKER'', ''TAKER''} \<and> tc_weighted_mrf_application c \<in> {''PROBABILITY'', ''STAKE''} \<and>
     tc_weighted_sizing_mode c \<in> {''FIXED'', ''LOWER_BOUND_KELLY'', ''STEPPED_EDGE''} \<and>
     tc_lightgbm_decision_mode c \<in> {''OFF'', ''SHADOW'', ''ACTIVE''} \<and> tc_mrf_mode c \<in> {''OFF'', ''SHADOW'', ''ACTIVE''} \<and>
     [] \<notin> set (tc_trade_assets c) \<and> length (tc_weighted_policy_id c) \<le> 64"

definition regime_ok :: "trading_config \<Rightarrow> bool" where
  "regime_ok c \<longleftrightarrow> tc_mrf_version c \<in> {1, 2, 3} \<and> MIN_HISTORY_CANDLES \<le> tc_mrf_min_history c \<and>
     0 \<le> tc_mrf_asset_weight c \<and> 0 \<le> tc_mrf_global_weight c \<and> 0 < tc_mrf_asset_weight c + tc_mrf_global_weight c \<and>
     between 0 1 (tc_mrf_veto_threshold c) \<and> 0 \<le> tc_mrf_edge_override_margin c"

definition entry_ok :: "trading_config \<Rightarrow> bool" where
  "entry_ok c \<longleftrightarrow> between 0 1 (tc_flip_threshold c) \<and> between (- 1) 1 (tc_outs_min_edge c) \<and> between 0 1 (tc_favorite_threshold c) \<and>
     between (- 1) 1 (tc_favorite_min_edge c) \<and> between 0 1 (tc_min_win_prob c) \<and> between (1/2) 1 (tc_min_direction_prob c) \<and>
     between (1/2) 1 (tc_combined_dir_strong_threshold c) \<and> between 0 1 (tc_combined_dir_discount_weight c) \<and>
     between 0 (1/4) (tc_combined_logreg_abstain_band c) \<and> between 0 1 (tc_outsider_pwin_discount c) \<and> between 0 1 (tc_max_spread_pct c)"

definition weights_ok :: "trading_config \<Rightarrow> bool" where
  "weights_ok c \<longleftrightarrow> list_all (between 0 1)
       [tc_weighted_market_weight c, tc_weighted_logreg_weight c, tc_weighted_lgbm_weight c, tc_weighted_fee_rate c,
        tc_weighted_maker_fee_rate c, tc_weighted_slippage_rate c, tc_weighted_latency_buffer c, tc_weighted_min_net_ev_favorite c,
        tc_weighted_min_net_ev_outsider c, tc_weighted_kelly_fraction c] \<and>
     list_all (between (- 2) 2) [tc_weighted_mrf_beta c, tc_weighted_models_agree_beta c] \<and>
     between (- 1) 1 (tc_weighted_mrf_sizing_gamma c) \<and> between (- 5) 5 (tc_weighted_intercept c) \<and>
     between 0 16 (tc_weighted_fee_exponent c) \<and> between (- 1) 0 (tc_weighted_mrf_extreme_veto_threshold c) \<and>
     between 0 (1/2) (tc_weighted_standard_error c) \<and>
     list_all (between (flt (1/100)) 1000) [tc_weighted_fixed_bet_usdc c, tc_weighted_size_cap_usdc c]"

lemma flt_below: "0 \<le> x \<Longrightarrow> x \<le> 1 \<Longrightarrow> 0 \<le> flt x" "x \<le> 1 \<Longrightarrow> flt x \<le> 1"
  by (simp_all add: flt_le_1)

lemma half_le_flt: "1/2 \<le> x \<Longrightarrow> 1/2 \<le> flt x"
  using flt_mono [of "1/2" x] by simp

lemma parsed_names_ok: "names_ok (parse_trading_config ev raw)"
  using choice_allowed [of "''LEGACY''" "[''LEGACY'', ''WEIGHTED_SHADOW'', ''WEIGHTED_ACTIVE'']"]
    choice_allowed [of "''TAKER''" "[''MAKER'', ''TAKER'']"] choice_allowed [of "''PROBABILITY''" "[''PROBABILITY'', ''STAKE'']"]
    choice_allowed [of "''FIXED''" "[''FIXED'', ''LOWER_BOUND_KELLY'', ''STEPPED_EDGE'']"]
    choice_allowed [of "''SHADOW''" "[''OFF'', ''SHADOW'', ''ACTIVE'']"] choice_allowed [of "''OFF''" "[''OFF'', ''SHADOW'', ''ACTIVE'']"]
  by (simp add: names_ok_def parse_trading_config_def trading_mode_of_def Let_def)

lemma parsed_regime_ok: "regime_ok (parse_trading_config ev raw)"
  using mrf_gate_valid [of raw]
  by (simp add: regime_ok_def parse_trading_config_def parse_mrf_version_def gate_valid_def between_def Let_def)

lemma parsed_entry_ok:
  assumes "env_ok ev" shows "entry_ok (parse_trading_config ev raw)"
proof -
  note s = bounded_setting(2) [OF assms, folded between_def]
  have d: "1/2 \<le> parse_min_direction_prob ev raw \<and> parse_min_direction_prob ev raw \<le> 1"
    using env_bound [OF assms, of "''MIN_DIRECTION_PROB''" "1/2" 1 "flt (101/200)"] half_le_flt [of "101/200"]
    unfolding parse_min_direction_prob_def by (intro parse_probability_bounds) (simp_all add: ENV_BOUNDS_def flt_below)
  have "1/2 \<le> parse_probability_floor raw ''COMBINED_DIR_STRONG_THRESHOLD'' (flt (13/20)) (parse_min_direction_prob ev raw) \<and>
      parse_probability_floor raw ''COMBINED_DIR_STRONG_THRESHOLD'' (flt (13/20)) (parse_min_direction_prob ev raw) \<le> 1"
    using d half_le_flt [of "13/20"] by (intro parse_probability_bounds) (simp_all add: flt_below)
  moreover have "0 \<le> parse_fraction_setting raw ''COMBINED_DIR_DISCOUNT_WEIGHT'' 0 0 1 \<and> parse_fraction_setting raw ''COMBINED_DIR_DISCOUNT_WEIGHT'' 0 0 1 \<le> 1"
    by (rule parse_fraction_bounds) simp_all
  moreover have "flt (1/20) \<le> 1/4" by code_simp
  then have "0 \<le> parse_fraction_setting raw ''COMBINED_LOGREG_ABSTAIN_BAND'' (flt (1/20)) 0 (1/4) \<and>
      parse_fraction_setting raw ''COMBINED_LOGREG_ABSTAIN_BAND'' (flt (1/20)) 0 (1/4) \<le> 1/4"
    by (intro parse_fraction_bounds) simp_all
  moreover have "- 1 \<le> flt x" if "0 \<le> x" for x using that by (simp add: order_trans [of _ 0])
  ultimately show ?thesis using d unfolding entry_ok_def parse_trading_config_def between_def [symmetric]
    by (auto simp: ENV_BOUNDS_def flt_below intro!: s)
qed

lemma parsed_weights_ok:
  assumes "env_ok ev" shows "weights_ok (parse_trading_config ev raw)"
proof -
  note s = bounded_setting(1) [OF assms, folded between_def]
  note f = parse_with_fallback_bounds [folded between_def]
  have m: "flt (1/100) \<le> 1" "flt (1/100) \<le> 3" "flt (1/100) \<le> 1000" using flt_le_1 [of "1/100"] by simp_all
  show ?thesis unfolding weights_ok_def parse_trading_config_def
    by (auto simp: ENV_BOUNDS_def flt_below m intro!: s f)
qed


definition no_env :: env_settings where
  "no_env = \<lparr>ev_float = Map.empty, ev_int = Map.empty, ev_bool = Map.empty, ev_text = Map.empty\<rparr>"


text \<open>
  The floor of \<open>COMBINED_DIR_STRONG_THRESHOLD\<close> is the smallest direction probability, but a value that is not
  usable is replaced by 0.65, whatever the floor is.
\<close>

theorem strong_threshold_below_floor:
  "(let c = parse_trading_config no_env [''MIN_DIRECTION_PROB'' \<mapsto> ''0.9'', ''COMBINED_DIR_STRONG_THRESHOLD'' \<mapsto> ''nan'']
    in tc_combined_dir_strong_threshold c < tc_min_direction_prob c)"
proof -
  have "parse_probability_floor [''MIN_DIRECTION_PROB'' \<mapsto> ''0.9'', ''COMBINED_DIR_STRONG_THRESHOLD'' \<mapsto> ''nan''] ''COMBINED_DIR_STRONG_THRESHOLD''
      (flt (13/20)) (flt (9/10)) < flt (9/10)"
    "parse_min_direction_prob no_env [''MIN_DIRECTION_PROB'' \<mapsto> ''0.9'', ''COMBINED_DIR_STRONG_THRESHOLD'' \<mapsto> ''nan''] = flt (9/10)"
    by code_simp+
  then show ?thesis by (simp add: parse_trading_config_def)
qed

text \<open>The execution worker and the engine read the same numbers from the same settings.\<close>

definition worker_defaults :: "env_settings \<Rightarrow> trading_defaults" where
  "worker_defaults ev =
     \<lparr>td_trade_min = env_or (ev_float ev) ''TRADE_MIN_PRICE'' (flt (1/20)),
      td_trade_max = env_or (ev_float ev) ''TRADE_MAX_PRICE'' (flt (19/20)),
      td_favorite_min = env_or (ev_float ev) ''FAVORITE_MIN_PRICE'' (flt (11/20)),
      td_favorite_max = env_or (ev_float ev) ''FAVORITE_MAX_PRICE'' (flt (19/20)),
      td_outsider_max = env_or (ev_float ev) ''OUTSIDER_MAX_PRICE'' (flt (2/5)),
      td_outs_min_edge = env_or (ev_float ev) ''OUTS_MIN_EDGE'' (flt (1/25)),
      td_favorite_min_edge = env_or (ev_float ev) ''FAVORITE_MIN_EDGE'' (flt (1/20))\<rparr>"

lemma worker_bounds_agree:
  "parse_trading_settings (worker_defaults ev) raw =
     (let c = parse_trading_config ev raw in
      \<lparr>tb_cost_buffer = tc_combined_cost_buffer c, tb_trade_min = tc_trade_min_price c, tb_trade_max = tc_trade_max_price c,
       tb_favorite_min = tc_favorite_min_price c, tb_favorite_max = tc_favorite_max_price c,
       tb_outsider_max = tc_outsider_max_price c, tb_outs_min_edge = tc_outs_min_edge c,
       tb_favorite_min_edge = tc_favorite_min_edge c\<rparr>)"
  by (simp add: parse_trading_settings_def parse_trading_config_def worker_defaults_def Let_def)

section \<open>Bounds of a price and a time\<close>

lemma valid_outsider_price:
  "is_price_valid cfg (Finite p) True = None \<Longrightarrow>
     float_le (tc_trade_min_price cfg) (Finite p) \<and> float_le (Finite p) (tc_trade_max_price cfg) \<and>
     \<not> float_less (tc_outsider_max_price cfg) (Finite p)"
  by (auto simp: is_price_valid_def split: if_splits)

lemma valid_time_positive: "is_time_valid cfg t b = None \<Longrightarrow> float_less (Finite 0) t"
  by (cases t) (auto simp: is_time_valid_def Let_def split: if_splits)

end
