(* ===== verification/Weighted_Policy.thy ===== *)
theory Weighted_Policy
  imports Sizing Worker_Config
begin

text \<open>
  \<open>trading/weighted_policy.py\<close>: the probability of YES as the market price corrected in log-odds by two models,
  the cost of a share, and the choice of the side with the best expected profit. Values that the source
  annotates as numbers but converts defensively are \<open>py_any\<close>. The functions \<open>exp\<close> and \<open>log\<close> of the C library
  and the power of decimals with a fractional exponent are parameters (\<open>libm\<close>, \<open>pw\<close>). The dictionaries built
  for telemetry are left out; the inputs \<open>ece\<close>, \<open>regime\<close> and \<open>time_left_sec\<close>, which no formula reads, too.
\<close>

section \<open>Probabilities from the order book\<close>

definition BUY_YES :: string where "BUY_YES = ''BUY_YES''"
definition BUY_NO :: string where "BUY_NO = ''BUY_NO''"

definition probability_for_side :: "py_any \<Rightarrow> string \<Rightarrow> pyfloat option outcome" where
  "probability_for_side p_yes side =
     (case clamp_probability p_yes None of None \<Rightarrow> Inr None
      | Some p \<Rightarrow>
          if side = BUY_YES then Inr (Some p)
          else if side = BUY_NO then Inr (Some (flt (1 - p)))
          else Inl (ValueError (''unsupported side: '' @ side)))"

text \<open>\<open>float(x or 0.0)\<close>; \<open>None\<close> when it raises.\<close>

fun depth_of :: "py_any \<Rightarrow> dec_value option" where
  "depth_of VNone = Some (Finite 0)"
| "depth_of (VNumber x) = Some x"
| "depth_of (VText s) = (if s = [] then Some (Finite 0) else parse_float s)"
| "depth_of VOther = None"

definition book_reference :: "py_any \<Rightarrow> py_any \<Rightarrow> py_any \<Rightarrow> py_any \<Rightarrow> dec_value option" where
  "book_reference bid ask bid_size ask_size =
     (let bid_value = clamp_probability bid None; ask_value = clamp_probability ask None in
      case ask_value of
        Some a \<Rightarrow>
          if 0 < a \<and> a < 1 then
            (case bid_value of
               Some b \<Rightarrow>
                 if 0 < b \<and> b \<le> a then
                   (let (bd, ad) = (case (depth_of bid_size, depth_of ask_size) of
                          (Some x, Some y) \<Rightarrow> (x, y) | _ \<Rightarrow> (Finite 0, Finite 0)) in
                    if float_less (Finite 0) bd \<and> float_less (Finite 0) ad
                    then Some (py_round 8 (f_div (f_add (f_mul (Finite a) bd) (f_mul (Finite b) ad)) (f_add bd ad)))
                    else Some (py_round 8 (Finite (flt (flt (b + a) / 2)))))
                 else Some (Finite a)
             | None \<Rightarrow> Some (Finite a))
          else map_option Finite bid_value
      | None \<Rightarrow> map_option Finite bid_value)"

record book_side =
  bs_bid :: py_any
  bs_ask :: py_any
  bs_bid_size :: py_any
  bs_ask_size :: py_any

definition side_reference :: "book_side \<Rightarrow> dec_value option" where
  "side_reference s = book_reference (bs_bid s) (bs_ask s) (bs_bid_size s) (bs_ask_size s)"

definition market_yes_probability :: "book_side \<Rightarrow> book_side \<Rightarrow> py_any \<Rightarrow> pyfloat option" where
  "market_yes_probability yes_side no_side fallback_yes =
     (case (side_reference yes_side, side_reference no_side) of
        (Some (Finite yes), Some (Finite no)) \<Rightarrow>
          if 0 < yes \<and> yes < 1 \<and> 0 < no \<and> no < 1 \<and> 0 < flt (yes + no)
          then Some (round_float 8 (flt (yes / flt (yes + no))))
          else clamp_probability fallback_yes None
      | _ \<Rightarrow> clamp_probability fallback_yes None)"

definition logreg_flip_to_yes_probability :: "py_any \<Rightarrow> py_any \<Rightarrow> pyfloat option" where
  "logreg_flip_to_yes_probability p_flip fresh_yes_price =
     (case (clamp_probability p_flip None, clamp_probability fresh_yes_price None) of
        (Some p, Some market) \<Rightarrow> Some (round_float 8 (if 1/2 \<le> market then flt (1 - p) else p))
      | _ \<Rightarrow> None)"

section \<open>Log-odds\<close>

record libm =
  lib_exp :: "pyfloat \<Rightarrow> pyfloat"
  lib_log :: "pyfloat \<Rightarrow> pyfloat"

definition logit :: "libm \<Rightarrow> pyfloat \<Rightarrow> pyfloat" where
  "logit lib probability =
     (let eps = flt (1 / 10 ^ 6); p = max eps (min (flt (1 - eps)) (clamp_half (VNumber (Finite probability))))
      in lib_log lib (flt (p / flt (1 - p))))"

definition sigmoid :: "libm \<Rightarrow> pyfloat \<Rightarrow> pyfloat" where
  "sigmoid lib v = (let x = max (- 40) (min 40 v) in flt (1 / flt (1 + lib_exp lib (- x))))"

section \<open>The configuration and the inputs\<close>

record policy_config =
  pc_market_weight :: py_any
  pc_logreg_weight :: py_any
  pc_lgbm_weight :: py_any
  pc_mrf_beta :: py_any
  pc_models_agree_beta :: py_any
  pc_mrf_application :: "string option"
  pc_intercept :: py_any
  pc_fee_rate :: py_any
  pc_maker_fee_rate :: py_any
  pc_fee_exponent :: py_any
  pc_slippage_rate :: py_any
  pc_latency_buffer :: py_any
  pc_execution_role :: "string option"
  pc_mrf_extreme_veto_threshold :: py_any
  pc_stacker_feature_names :: "string list"
  pc_stacker_coefficients :: "py_any list"
  pc_stacker_segment_models :: "(string \<times> py_any list) option list"  \<comment> \<open>\<open>None\<close>: not a pair\<close>

record weights =
  w_market :: pyfloat
  w_logreg :: pyfloat
  w_lgbm :: pyfloat

definition normalized_weights :: "policy_config \<Rightarrow> bool \<Rightarrow> bool \<Rightarrow> bool \<Rightarrow> weights" where
  "normalized_weights c has_market has_logreg has_lgbm =
     (let m = finite_nonnegative (pc_market_weight c) 0; r = finite_nonnegative (pc_logreg_weight c) 0;
          g = finite_nonnegative (pc_lgbm_weight c) 0; total = py_sum [m, r, g] in
      if total \<le> 0 \<or> \<not> has_market then \<lparr>w_market = 0, w_logreg = 0, w_lgbm = 0\<rparr>
      else let wr = (if has_logreg then flt (r / total) else 0); wg = (if has_lgbm then flt (g / total) else 0)
           in \<lparr>w_market = max 0 (flt (flt (1 - wr) - wg)), w_logreg = wr, w_lgbm = wg\<rparr>)"

record probability_inputs =
  pi_market_yes :: py_any
  pi_logreg_yes :: py_any
  pi_lgbm_yes :: py_any
  pi_asset :: "string option"
  pi_phase :: "string option"
  pi_role :: "string option"

definition models_agree :: "probability_inputs \<Rightarrow> bool option" where
  "models_agree i =
     (case (clamp_probability (pi_logreg_yes i) None, clamp_probability (pi_lgbm_yes i) None) of
        (Some a, Some b) \<Rightarrow> Some ((1/2 \<le> a) = (1/2 \<le> b))
      | _ \<Rightarrow> None)"

section \<open>The stacker\<close>

definition STACKER_FEATURE_NAMES :: "string list" where
  "STACKER_FEATURE_NAMES =
     [''intercept'', ''market_logit'', ''logreg_residual'', ''lgbm_residual'', ''mrf_evidence'', ''role_outsider'',
      ''models_agree'', ''outsider_agree'', ''outsider_logreg_residual'', ''outsider_lgbm_residual'']"

definition or_unknown :: "string \<Rightarrow> string" where
  "or_unknown s = (if s = [] then ''UNKNOWN'' else s)"

definition segment_asset_labels :: "string option \<Rightarrow> string list" where
  "segment_asset_labels v =
     (let raw = or_unknown (upper (strip (text_or v ''UNKNOWN'')));
          raw = or_unknown (takeWhile (\<lambda>c. c \<noteq> CHR ''_'') raw);
          canonical = (if ends_with ''USDT'' raw \<and> 4 < length raw then take (length raw - 4) raw else raw)
      in if canonical \<noteq> raw then [canonical, raw] else [canonical])"

definition stacker_segment_key_parts :: "probability_inputs \<Rightarrow> string list" where
  "stacker_segment_key_parts i =
     (let raw_role = or_unknown (upper (strip (text_or (pi_role i) ''UNKNOWN'')));
          role = (if raw_role \<in> {''OUTSIDER'', ''OUTS'', ''UNDERDOG''} then ''OUTSIDER''
                  else if raw_role \<in> {''FAVORITE'', ''FAV''} then ''FAVORITE'' else raw_role);
          phase = or_unknown (upper (strip (text_or (pi_phase i) ''UNKNOWN'')));
          agreement = (case models_agree i of Some True \<Rightarrow> ''AGREE'' | Some False \<Rightarrow> ''DISAGREE'' | None \<Rightarrow> ''UNKNOWN'')
      in map (\<lambda>asset. asset @ ''|'' @ phase @ ''|'' @ role @ ''|'' @ agreement) (segment_asset_labels (pi_asset i)))"

text \<open>\<open>tuple(float(v) for v in values)\<close> with all values finite; \<open>None\<close> otherwise.\<close>

fun finite_floats :: "py_any list \<Rightarrow> pyfloat list option" where
  "finite_floats [] = Some []"
| "finite_floats (v # vs) =
     (case (to_float v, finite_floats vs) of (Some (Finite x), Some xs) \<Rightarrow> Some (x # xs) | _ \<Rightarrow> None)"

definition usable_coefficients :: "py_any list \<Rightarrow> pyfloat list option" where
  "usable_coefficients vs =
     (case finite_floats vs of
        Some xs \<Rightarrow> if length xs = length STACKER_FEATURE_NAMES \<and> \<bar>flt (xs ! 1 - 1)\<bar> \<le> flt (1 / 10 ^ 6) then Some xs else None
      | None \<Rightarrow> None)"

fun segment_coefficients :: "string list \<Rightarrow> (string \<times> py_any list) option list \<Rightarrow> pyfloat list option" where
  "segment_coefficients keys [] = None"
| "segment_coefficients keys (None # ss) = segment_coefficients keys ss"
| "segment_coefficients keys (Some (k, vs) # ss) =
     (if k \<in> set keys
      then case usable_coefficients vs of Some xs \<Rightarrow> Some xs | None \<Rightarrow> segment_coefficients keys ss
      else segment_coefficients keys ss)"

record scored =
  sc_final :: pyfloat
  sc_market :: pyfloat
  sc_logreg :: pyfloat
  sc_lgbm :: pyfloat
  sc_adjustment :: pyfloat
  sc_intercept :: pyfloat
  sc_agreement :: pyfloat

definition stacker_score :: "libm \<Rightarrow> probability_inputs \<Rightarrow> policy_config \<Rightarrow> pyfloat \<Rightarrow> scored option" where
  "stacker_score lib i c evidence =
     (if pc_stacker_feature_names c \<noteq> STACKER_FEATURE_NAMES then None
      else case (case segment_coefficients (stacker_segment_key_parts i) (pc_stacker_segment_models c) of
               Some xs \<Rightarrow> Some xs | None \<Rightarrow> usable_coefficients (pc_stacker_coefficients c)) of
        None \<Rightarrow> None
      | Some xs \<Rightarrow>
          (case clamp_probability (pi_market_yes i) None of
             None \<Rightarrow> None
           | Some market \<Rightarrow>
               let ml = logit lib market;
                   outsider = (if upper (strip (text_or (pi_role i) '''')) \<in> {''OUTSIDER'', ''OUTS'', ''UNDERDOG''} then 1 else 0);
                   agree = (if models_agree i = Some True then 1 else 0);
                   residual = (\<lambda>v. case clamp_probability v None of Some p \<Rightarrow> flt (logit lib p - ml) | None \<Rightarrow> 0);
                   lr = residual (pi_logreg_yes i); lg = residual (pi_lgbm_yes i);
                   t = map2 (\<lambda>x f. flt (x * f)) xs
                         [1, ml, lr, lg, evidence, outsider, agree, flt (outsider * agree), flt (outsider * lr), flt (outsider * lg)]
               in Some \<lparr>sc_final = sigmoid lib (py_sum t), sc_market = t ! 1, sc_logreg = t ! 2, sc_lgbm = t ! 3,
                        sc_adjustment = t ! 4, sc_intercept = flt (flt (flt (t ! 0 + t ! 5) + t ! 8) + t ! 9),
                        sc_agreement = flt (t ! 6 + t ! 7)\<rparr>))"

section \<open>The probability of YES\<close>

record weighted_probability =
  wp_market_yes :: "pyfloat option"
  wp_logreg_yes :: "pyfloat option"
  wp_lgbm_yes :: "pyfloat option"
  wp_final_yes :: pyfloat
  wp_market_weight :: pyfloat
  wp_logreg_weight :: pyfloat
  wp_lgbm_weight :: pyfloat
  wp_mrf_evidence :: pyfloat
  wp_mrf_adjustment :: pyfloat
  wp_agree_adjustment :: pyfloat
  wp_market_contribution :: pyfloat
  wp_logreg_contribution :: pyfloat
  wp_lgbm_contribution :: pyfloat
  wp_intercept_contribution :: pyfloat
  wp_models_agree :: "bool option"
  wp_missing :: "string list"

text \<open>\<open>float(value)\<close>, and zero when it raises or is not finite.\<close>

definition finite_or_zero :: "py_any \<Rightarrow> pyfloat" where
  "finite_or_zero v = (case to_float v of Some (Finite x) \<Rightarrow> x | _ \<Rightarrow> 0)"

definition signed_evidence :: "py_any \<Rightarrow> pyfloat" where
  "signed_evidence v = max (- 1) (min 1 (finite_or_zero v))"

definition stake_application :: "policy_config \<Rightarrow> bool" where
  "stake_application c \<longleftrightarrow> upper (strip (text_or (pc_mrf_application c) ''PROBABILITY'')) \<in> {''STAKE'', ''STAKE_ADJUSTMENT''}"

text \<open>The formula without a stacker: the market in log-odds, moved by weighted residuals of the models.\<close>

definition residual_score :: "libm \<Rightarrow> probability_inputs \<Rightarrow> policy_config \<Rightarrow> weights \<Rightarrow> pyfloat \<Rightarrow> scored" where
  "residual_score lib i c w evidence =
     (let beta = (if stake_application c then 0 else finite_or_zero (pc_mrf_beta c));
          intercept = finite_or_zero (pc_intercept c);
          adjustment = flt (beta * evidence);
          agreement = (if models_agree i = Some True then max (- 2) (min 2 (finite_or_zero (pc_models_agree_beta c))) else 0)
      in case clamp_probability (pi_market_yes i) None of
           Some market \<Rightarrow>
             if py_sum [w_market w, w_logreg w, w_lgbm w] \<le> 0
             then \<lparr>sc_final = 1/2, sc_market = 0, sc_logreg = 0, sc_lgbm = 0, sc_adjustment = adjustment,
                   sc_intercept = intercept, sc_agreement = agreement\<rparr>
             else let ml = logit lib market;
                      part = (\<lambda>wt v. case clamp_probability v None of
                                Some p \<Rightarrow> if 0 < wt then flt (wt * flt (logit lib p - ml)) else 0 | None \<Rightarrow> 0);
                      lr = part (w_logreg w) (pi_logreg_yes i); lg = part (w_lgbm w) (pi_lgbm_yes i)
                  in \<lparr>sc_final = sigmoid lib (flt (flt (flt (flt (flt (ml + lr) + lg) + adjustment) + agreement) + intercept)),
                      sc_market = ml, sc_logreg = lr, sc_lgbm = lg, sc_adjustment = adjustment,
                      sc_intercept = intercept, sc_agreement = agreement\<rparr>
         | None \<Rightarrow> \<lparr>sc_final = 1/2, sc_market = 0, sc_logreg = 0, sc_lgbm = 0, sc_adjustment = adjustment,
                    sc_intercept = intercept, sc_agreement = agreement\<rparr>)"

definition score_weighted_probability :: "libm \<Rightarrow> probability_inputs \<Rightarrow> policy_config \<Rightarrow> py_any \<Rightarrow> weighted_probability" where
  "score_weighted_probability lib i c mrf_evidence =
     (let market = clamp_probability (pi_market_yes i) None; logreg = clamp_probability (pi_logreg_yes i) None;
          lgbm = clamp_probability (pi_lgbm_yes i) None;
          w = normalized_weights c (market \<noteq> None) (logreg \<noteq> None) (lgbm \<noteq> None);
          evidence = signed_evidence mrf_evidence;
          s = (case stacker_score lib i c (if stake_application c then 0 else evidence) of
                 Some x \<Rightarrow> x | None \<Rightarrow> residual_score lib i c w evidence)
      in \<lparr>wp_market_yes = market, wp_logreg_yes = logreg, wp_lgbm_yes = lgbm,
          wp_final_yes = round_float 8 (max 0 (min 1 (sc_final s))),
          wp_market_weight = round_float 8 (w_market w), wp_logreg_weight = round_float 8 (w_logreg w),
          wp_lgbm_weight = round_float 8 (w_lgbm w),
          wp_mrf_evidence = round_float 8 evidence, wp_mrf_adjustment = round_float 8 (sc_adjustment s),
          wp_agree_adjustment = round_float 8 (sc_agreement s),
          wp_market_contribution = round_float 8 (sc_market s), wp_logreg_contribution = round_float 8 (sc_logreg s),
          wp_lgbm_contribution = round_float 8 (sc_lgbm s), wp_intercept_contribution = round_float 8 (sc_intercept s),
          wp_models_agree = models_agree i,
          wp_missing = map fst (filter (\<lambda>(n, v). v = None) [(''market'', market), (''logreg'', logreg), (''lgbm'', lgbm)])\<rparr>)"

section \<open>The cost of a share\<close>

record trade_cost =
  co_price :: pyfloat
  co_role :: string
  co_fee_rate :: pyfloat
  co_maker_fee_rate :: pyfloat
  co_fee_exponent :: pyfloat
  co_fee_per_share :: pyfloat
  co_maker_fee_per_share :: pyfloat
  co_taker_fee_per_share :: pyfloat
  co_slippage_per_share :: pyfloat
  co_spread_per_share :: pyfloat
  co_latency_buffer_per_share :: pyfloat
  co_total_per_share :: pyfloat
  co_expected_execution_price :: pyfloat
  co_source :: string

definition polymarket_taker_fee_per_share :: "(decimal \<Rightarrow> decimal \<Rightarrow> decimal) \<Rightarrow> py_any \<Rightarrow> py_any \<Rightarrow> py_any \<Rightarrow> pyfloat outcome" where
  "polymarket_taker_fee_per_share pw price fee_rate fee_exponent =
     bind_out (fee_per_share pw (repr_dec (clamp_half price)) (repr_dec (finite_nonnegative fee_rate 0))
                 (repr_dec (finite_nonnegative fee_exponent 1)) ''TAKER'' 0 ''POLYMARKET_PRICE_DEPENDENT'')
       (\<lambda>f. Inr (flt f))"

record cost_params =
  cp_fee_rate :: py_any
  cp_maker_fee_rate :: py_any
  cp_fee_exponent :: py_any
  cp_slippage_rate :: py_any
  cp_role :: "string option"
  cp_spread :: py_any
  cp_latency_buffer :: py_any
  cp_source :: string

definition execution_role :: "string option \<Rightarrow> string" where
  "execution_role r = (let role = upper (strip (text_or r ''TAKER'')) in if role \<in> {''MAKER'', ''TAKER''} then role else ''TAKER'')"

definition estimate_trade_cost :: "(decimal \<Rightarrow> decimal \<Rightarrow> decimal) \<Rightarrow> py_any \<Rightarrow> cost_params \<Rightarrow> trade_cost outcome" where
  "estimate_trade_cost pw price_arg k =
     (let price = clamp_half price_arg; role = execution_role (cp_role k);
          fee_rate = finite_nonnegative (cp_fee_rate k) 0; maker_fee_rate = finite_nonnegative (cp_maker_fee_rate k) 0;
          fee_exponent = finite_nonnegative (cp_fee_exponent k) 1; slippage_rate = finite_nonnegative (cp_slippage_rate k) 0;
          spread = finite_nonnegative (cp_spread k) 0; latency = finite_nonnegative (cp_latency_buffer k) 0;
          fee_at = (\<lambda>rate. polymarket_taker_fee_per_share pw (VNumber (Finite price)) (VNumber (Finite rate)) (VNumber (Finite fee_exponent)))
      in bind_out (fee_at fee_rate) (\<lambda>taker. bind_out (fee_at maker_fee_rate) (\<lambda>maker.
           let fee = (if role = ''MAKER'' then maker else taker);
               slippage = flt (price * slippage_rate);
               total = flt (flt (flt (fee + slippage) + spread) + latency)
           in Inr \<lparr>co_price = price, co_role = role, co_fee_rate = fee_rate, co_maker_fee_rate = maker_fee_rate,
                   co_fee_exponent = fee_exponent, co_fee_per_share = round_float 8 fee,
                   co_maker_fee_per_share = round_float 8 maker, co_taker_fee_per_share = round_float 8 taker,
                   co_slippage_per_share = round_float 8 slippage, co_spread_per_share = round_float 8 spread,
                   co_latency_buffer_per_share = round_float 8 latency, co_total_per_share = round_float 8 total,
                   co_expected_execution_price = round_float 8 (flt (flt (flt (price + slippage) + spread) + latency)),
                   co_source = cp_source k\<rparr>)))"

definition weighted_net_ev_per_share :: "py_any \<Rightarrow> py_any \<Rightarrow> trade_cost \<Rightarrow> pyfloat outcome" where
  "weighted_net_ev_per_share p_win ask costs =
     (case (clamp_probability p_win None, clamp_probability ask None) of
        (Some p, Some price) \<Rightarrow> Inr (round_float 8 (flt (flt (p - price) - co_total_per_share costs)))
      | _ \<Rightarrow> Inl (ValueError ''p_win and ask must be finite probabilities''))"

section \<open>The choice of a side\<close>

record side_quote =
  qt_side :: string
  qt_ask :: pyfloat
  qt_p_win :: pyfloat
  qt_gross_ev :: pyfloat
  qt_cost :: trade_cost
  qt_net_ev :: pyfloat

definition quote_cost_params :: "policy_config \<Rightarrow> py_any \<Rightarrow> string \<Rightarrow> cost_params" where
  "quote_cost_params c spread source =
     \<lparr>cp_fee_rate = pc_fee_rate c, cp_maker_fee_rate = pc_maker_fee_rate c, cp_fee_exponent = pc_fee_exponent c,
      cp_slippage_rate = pc_slippage_rate c, cp_role = pc_execution_role c, cp_spread = spread,
      cp_latency_buffer = pc_latency_buffer c, cp_source = source\<rparr>"

text \<open>The probability passed in is a number, so the assertion of the source cannot fail.\<close>

definition make_side_quote ::
  "(decimal \<Rightarrow> decimal \<Rightarrow> decimal) \<Rightarrow> string \<Rightarrow> py_any \<Rightarrow> pyfloat \<Rightarrow> policy_config \<Rightarrow> py_any \<Rightarrow> string \<Rightarrow> side_quote option outcome" where
  "make_side_quote pw side ask_arg p_yes c spread source =
     (case clamp_probability ask_arg None of
        None \<Rightarrow> Inr None
      | Some ask \<Rightarrow>
          if ask \<le> 0 \<or> 1 \<le> ask then Inr None
          else bind_out (probability_for_side (VNumber (Finite p_yes)) side) (\<lambda>win.
            case win of None \<Rightarrow> Inr None
            | Some p_win \<Rightarrow>
                bind_out (estimate_trade_cost pw (VNumber (Finite ask)) (quote_cost_params c spread source)) (\<lambda>cost.
                bind_out (weighted_net_ev_per_share (VNumber (Finite p_win)) (VNumber (Finite ask)) cost) (\<lambda>net.
                  Inr (Some \<lparr>qt_side = side, qt_ask = round_float 8 ask, qt_p_win = round_float 8 p_win,
                             qt_gross_ev = round_float 8 (flt (p_win - ask)), qt_cost = cost,
                             qt_net_ev = round_float 8 net\<rparr>)))))"

record selection =
  sl_probability :: weighted_probability
  sl_selected :: "side_quote option"
  sl_yes_quote :: "side_quote option"
  sl_no_quote :: "side_quote option"
  sl_reason :: string

text \<open>\<open>max(quotes, key=...)\<close>: YES comes first and wins a tie.\<close>

fun best_quote :: "side_quote option \<Rightarrow> side_quote option \<Rightarrow> side_quote option" where
  "best_quote (Some y) (Some n) = Some (if qt_net_ev y < qt_net_ev n then n else y)"
| "best_quote (Some y) None = Some y"
| "best_quote None n = n"

definition mrf_veto :: "py_any \<Rightarrow> pyfloat \<Rightarrow> bool" where
  "mrf_veto threshold evidence \<longleftrightarrow>
     (if threshold = VNone then False
      else case (case to_float threshold of None \<Rightarrow> Finite (- 1) | Some x \<Rightarrow> x) of
             Finite x \<Rightarrow> let v = max (- 1) (min 0 x) in - 1 < v \<and> evidence \<le> v
           | _ \<Rightarrow> False)"

definition select_weighted_side ::
  "libm \<Rightarrow> (decimal \<Rightarrow> decimal \<Rightarrow> decimal) \<Rightarrow> probability_inputs \<Rightarrow> py_any \<Rightarrow> py_any \<Rightarrow> policy_config \<Rightarrow> py_any \<Rightarrow> py_any \<Rightarrow> string \<Rightarrow> py_any
     \<Rightarrow> py_any \<Rightarrow> selection outcome" where
  "select_weighted_side lib pw i yes_ask no_ask c mrf_evidence min_net_ev fee_source spread veto_threshold =
     (let p = score_weighted_probability lib i c mrf_evidence in
      bind_out (make_side_quote pw BUY_YES yes_ask (wp_final_yes p) c spread fee_source) (\<lambda>y.
      bind_out (make_side_quote pw BUY_NO no_ask (wp_final_yes p) c spread fee_source) (\<lambda>n.
        let result = (\<lambda>sel reason. Inr \<lparr>sl_probability = p, sl_selected = sel, sl_yes_quote = y, sl_no_quote = n, sl_reason = reason\<rparr>)
        in case best_quote y n of
             None \<Rightarrow> result None ''NO_VALID_ASK''
           | Some best \<Rightarrow>
               if mrf_veto veto_threshold (wp_mrf_evidence p) then result None ''MRF_EXTREME_VETO''
               else if flt (flt (wp_market_weight p + wp_logreg_weight p) + wp_lgbm_weight p) \<le> 0
               then result None ''NO_CONFIGURED_COMPONENT_WEIGHT''
               else let threshold = finite_nonnegative min_net_ev 0 in
                    if qt_net_ev best < threshold
                    then result None (''BEST_NET_EV_BELOW_THRESHOLD:'' @ fixed_str 6 (qt_net_ev best) @ ''<'' @ fixed_str 6 threshold)
                    else result (Some best) ''SELECTED_BEST_NET_EV'')))"

section \<open>Counterfactual arms\<close>

record arm_result =
  ar_arm :: string
  ar_selected_side :: "string option"
  ar_selected_ask :: "pyfloat option"
  ar_selected_cost :: "pyfloat option"
  ar_yes_cost :: "pyfloat option"
  ar_no_cost :: "pyfloat option"
  ar_p_final_yes :: pyfloat
  ar_models_agree :: "bool option"
  ar_yes_net_ev :: "pyfloat option"
  ar_no_net_ev :: "pyfloat option"
  ar_net_ev :: "pyfloat option"
  ar_reason :: string
  ar_missing :: "string list"

definition without_models :: "pyfloat \<Rightarrow> pyfloat \<Rightarrow> pyfloat \<Rightarrow> policy_config \<Rightarrow> policy_config" where
  "without_models m r g c =
     c\<lparr>pc_market_weight := VNumber (Finite m), pc_logreg_weight := VNumber (Finite r), pc_lgbm_weight := VNumber (Finite g),
       pc_mrf_beta := VNumber (Finite 0), pc_models_agree_beta := VNumber (Finite 0),
       pc_stacker_feature_names := [], pc_stacker_coefficients := []\<rparr>"

definition policy_arms :: "policy_config \<Rightarrow> (string \<times> policy_config) list" where
  "policy_arms c =
     [(''MARKET_ONLY'', without_models 1 0 0 c),
      (''MARKET_LOGREG'', without_models (flt (4/5)) (flt (1/5)) 0 c),
      (''MARKET_LGBM'', without_models (flt (4/5)) 0 (flt (1/5)) c),
      (''FULL_WEIGHTED'', c\<lparr>pc_mrf_beta := VNumber (Finite 0), pc_models_agree_beta := VNumber (Finite 0)\<rparr>),
      (''FULL_WEIGHTED_MRF'', c)]"

definition compact :: "string \<Rightarrow> selection \<Rightarrow> arm_result" where
  "compact name s =
     \<lparr>ar_arm = name, ar_selected_side = map_option qt_side (sl_selected s), ar_selected_ask = map_option qt_ask (sl_selected s),
      ar_selected_cost = map_option (co_total_per_share \<circ> qt_cost) (sl_selected s),
      ar_yes_cost = map_option (co_total_per_share \<circ> qt_cost) (sl_yes_quote s),
      ar_no_cost = map_option (co_total_per_share \<circ> qt_cost) (sl_no_quote s),
      ar_p_final_yes = wp_final_yes (sl_probability s), ar_models_agree = wp_models_agree (sl_probability s),
      ar_yes_net_ev = map_option qt_net_ev (sl_yes_quote s), ar_no_net_ev = map_option qt_net_ev (sl_no_quote s),
      ar_net_ev = map_option qt_net_ev (sl_selected s), ar_reason = sl_reason s, ar_missing = wp_missing (sl_probability s)\<rparr>"

definition run_arm ::
  "libm \<Rightarrow> (decimal \<Rightarrow> decimal \<Rightarrow> decimal) \<Rightarrow> probability_inputs \<Rightarrow> py_any \<Rightarrow> py_any \<Rightarrow> py_any \<Rightarrow> string \<Rightarrow> py_any \<Rightarrow> string \<times> policy_config
     \<Rightarrow> arm_result outcome" where
  "run_arm lib pw i yes_ask no_ask mrf_evidence fee_source spread arm =
     (let (name, c) = arm in
      bind_out (select_weighted_side lib pw i yes_ask no_ask c (if name = ''FULL_WEIGHTED_MRF'' then mrf_evidence else VNone)
                  (VNumber (Finite 0)) fee_source spread (pc_mrf_extreme_veto_threshold c)) (\<lambda>s. Inr (compact name s)))"

fun run_arms :: "('a \<Rightarrow> 'b outcome) \<Rightarrow> 'a list \<Rightarrow> 'b list outcome" where
  "run_arms f [] = Inr []"
| "run_arms f (x # xs) = bind_out (f x) (\<lambda>y. bind_out (run_arms f xs) (\<lambda>ys. Inr (y # ys)))"

text \<open>\<open>p >= 0.5\<close> for a value that is not \<open>None\<close>.\<close>

fun at_least_half :: "py_any \<Rightarrow> bool outcome" where
  "at_least_half (VNumber x) = Inr (float_le (Finite (1/2)) x)"
| "at_least_half _ = Inl (TypeError ''>='')"

definition raw_agreement :: "probability_inputs \<Rightarrow> bool outcome" where
  "raw_agreement i =
     (if pi_logreg_yes i = VNone \<or> pi_lgbm_yes i = VNone then Inr False
      else bind_out (at_least_half (pi_logreg_yes i)) (\<lambda>a. bind_out (at_least_half (pi_lgbm_yes i)) (\<lambda>b. Inr (a = b))))"

text \<open>The gated arm is the full one, reduced to outsiders on which the models agree. Keys it lacks are \<open>None\<close>.\<close>

definition outsider_agree_arm :: "probability_inputs \<Rightarrow> bool \<Rightarrow> arm_result \<Rightarrow> arm_result" where
  "outsider_agree_arm i agreement full =
     (let gate = full\<lparr>ar_arm := ''OUTSIDER_AGREE_ONLY'', ar_selected_side := None, ar_selected_ask := None, ar_selected_cost := None,
                      ar_yes_cost := None, ar_no_cost := None, ar_net_ev := None, ar_missing := []\<rparr> in
      if \<not> agreement
      then gate\<lparr>ar_models_agree := (if pi_logreg_yes i \<noteq> VNone \<and> pi_lgbm_yes i \<noteq> VNone then Some False else None),
                ar_reason := ''OUTSIDER_AGREE_GATE''\<rparr>
      else if ar_selected_side full = None then gate\<lparr>ar_models_agree := Some True\<rparr>
      else if (case ar_selected_ask full of Some a \<Rightarrow> a | None \<Rightarrow> 0) < 1/2 then full\<lparr>ar_arm := ''OUTSIDER_AGREE_ONLY''\<rparr>
      else full\<lparr>ar_arm := ''OUTSIDER_AGREE_ONLY'', ar_selected_side := None, ar_net_ev := None, ar_reason := ''NOT_OUTSIDER''\<rparr>)"

definition benchmark_policy_arms ::
  "libm \<Rightarrow> (decimal \<Rightarrow> decimal \<Rightarrow> decimal) \<Rightarrow> probability_inputs \<Rightarrow> py_any \<Rightarrow> py_any \<Rightarrow> policy_config \<Rightarrow> py_any \<Rightarrow> string \<Rightarrow> py_any
     \<Rightarrow> arm_result list outcome" where
  "benchmark_policy_arms lib pw i yes_ask no_ask c mrf_evidence fee_source spread =
     bind_out (run_arms (run_arm lib pw i yes_ask no_ask mrf_evidence fee_source spread) (policy_arms c)) (\<lambda>rs.
     bind_out (raw_agreement i) (\<lambda>agreement. Inr (rs @ [outsider_agree_arm i agreement (last rs)])))"

section \<open>Bounds\<close>

lemma clamp_probability_bounds: "clamp_probability v None = Some p \<Longrightarrow> 0 \<le> p \<and> p \<le> 1"
  by (auto simp: clamp_probability_def split: option.splits dec_value.splits)

lemma clamp_probability_unit [simp]: "0 \<le> p \<Longrightarrow> p \<le> 1 \<Longrightarrow> clamp_probability (VNumber (Finite p)) d = Some p"
  by (simp add: clamp_probability_def)

lemma round_float_unit: "0 \<le> x \<Longrightarrow> x \<le> 1 \<Longrightarrow> 0 \<le> round_float n x \<and> round_float n x \<le> 1"
proof -
  have "round_float n 1 = 1" using rhe_of_int [of "10 ^ n"] by (simp add: round_float_def)
  then show ?thesis if "0 \<le> x" "x \<le> 1" using round_float_mono [OF that(2), of n] round_float_nonneg [OF that(1)] by simp
qed

lemma final_probability_bounds:
  "0 \<le> wp_final_yes (score_weighted_probability lib i c e) \<and> wp_final_yes (score_weighted_probability lib i c e) \<le> 1"
  using round_float_unit [of "max 0 (min 1 _)" 8] by (simp add: score_weighted_probability_def Let_def)

text \<open>An argument that, if it is a finite number, is one that a float can hold.\<close>

fun is_float :: "py_any \<Rightarrow> bool" where
  "is_float (VNumber (Finite x)) \<longleftrightarrow> flt x = x"
| "is_float _ \<longleftrightarrow> True"

lemma to_float_float: "is_float v \<Longrightarrow> to_float v = Some (Finite x) \<Longrightarrow> flt x = x"
  by (cases v rule: is_float.cases) (auto simp: parse_float_def Let_def split: if_splits option.splits prod.splits)

lemma flt_clamp [simp]: "flt x = x \<Longrightarrow> flt (max 0 (min 1 x)) = max 0 (min 1 x)"
  by (simp add: max_def min_def)

lemma clamp_probability_float: "is_float v \<Longrightarrow> clamp_probability v None = Some p \<Longrightarrow> flt p = p"
  by (auto simp: clamp_probability_def dest!: to_float_float split: option.splits dec_value.splits)

lemma finite_nonnegative_float: "is_float v \<Longrightarrow> flt d = d \<Longrightarrow> flt (finite_nonnegative v d) = finite_nonnegative v d"
  by (auto simp: finite_nonnegative_def dest!: to_float_float split: option.splits dec_value.splits)

lemma round_float_float [simp]: "flt (round_float n x) = round_float n x"
  by (simp add: round_float_def)

lemma py_round_float: "py_round n v = Finite x \<Longrightarrow> flt x = x"
  by (cases v) auto

lemma side_reference_float:
  assumes "is_float (bs_bid s)" "is_float (bs_ask s)" "side_reference s = Some (Finite x)" shows "flt x = x"
  using assms clamp_probability_float py_round_float unfolding side_reference_def book_reference_def Let_def
  by (auto split: option.splits if_splits prod.splits)

text \<open>The prior of the market is a probability, whatever the book holds.\<close>

lemma market_probability_bounds:
  assumes "is_float (bs_bid y)" "is_float (bs_ask y)" "market_yes_probability y n f = Some p" shows "0 \<le> p \<and> p \<le> 1"
proof -
  have q: "0 \<le> flt (a / flt (a + b)) \<and> flt (a / flt (a + b)) \<le> 1" if "0 < a" "0 < b" "flt a = a" for a b
  proof -
    have "a \<le> flt (a + b)" using flt_mono [of a "a + b"] that by simp
    then have "0 \<le> a / flt (a + b)" "a / flt (a + b) \<le> 1" using that by simp_all
    then show ?thesis by (simp add: flt_le_1)
  qed
  show ?thesis
    using assms(3) clamp_probability_bounds [of f p] q [OF _ _ side_reference_float [OF assms(1,2)]] round_float_unit
    unfolding market_yes_probability_def by (auto split: option.splits dec_value.splits if_splits)
qed

section \<open>Costs\<close>

lemma repr_dec_nonneg: "flt x = x \<Longrightarrow> 0 \<le> x \<Longrightarrow> 0 \<le> repr_dec x"
  using repr_dec_pos [of x] by (cases "x = 0") (auto simp: repr_dec_def)

lemma repr_dec_below_1: "flt x = x \<Longrightarrow> x < 1 \<Longrightarrow> repr_dec x < 1"
  by (metis flt_1 flt_mono flt_repr_dec not_le)

lemma d_pow_ok: "0 < x \<Longrightarrow> pow_nonneg pw \<Longrightarrow> \<exists>y. d_pow pw x e = Inr y \<and> 0 \<le> y"
  by (auto simp: d_pow_def pow_nonneg_def)

lemma taker_fee_ok:
  assumes "flt p = p" "0 < p" "p < 1" "flt r = r" "0 \<le> r" "flt e = e" "0 \<le> e" "pow_nonneg pw"
  shows "\<exists>f. polymarket_taker_fee_per_share pw (VNumber (Finite p)) (VNumber (Finite r)) (VNumber (Finite e)) = Inr f \<and> 0 \<le> f"
proof -
  have p: "0 < repr_dec p" "repr_dec p < 1" using assms repr_dec_pos repr_dec_below_1 by simp_all
  have "0 < d_mul (repr_dec p) (d_sub 1 (repr_dec p))" using p by (simp add: d_mul_def d_sub_def)
  from d_pow_ok [OF this assms(8)] obtain y where
    "d_pow pw (d_mul (repr_dec p) (d_sub 1 (repr_dec p))) (repr_dec e) = Inr y" "0 \<le> y" by blast
  moreover have "finite_nonnegative (VNumber (Finite r)) 0 = r" "finite_nonnegative (VNumber (Finite e)) 1 = e"
    using assms by (simp_all add: finite_nonnegative_def)
  moreover have "upper ''TAKER'' \<noteq> ''MAKER''" "upper (strip ''POLYMARKET_PRICE_DEPENDENT'') = ''POLYMARKET_PRICE_DEPENDENT''"
    by code_simp+
  moreover have "0 \<le> repr_dec r" "0 \<le> repr_dec e" using assms repr_dec_nonneg by simp_all
  ultimately show ?thesis using assms(2,3) p
    by (simp add: polymarket_taker_fee_per_share_def fee_per_share_def d_mul_def)
qed

text \<open>For a price inside the unit interval the estimate exists, and every part of it is nonnegative.\<close>

lemma estimate_trade_cost_ok:
  assumes "flt p = p" "0 < p" "p < 1" "pow_nonneg pw" "is_float (cp_fee_rate k)" "is_float (cp_maker_fee_rate k)" "is_float (cp_fee_exponent k)"
  shows "\<exists>c. estimate_trade_cost pw (VNumber (Finite p)) k = Inr c \<and> 0 \<le> co_fee_per_share c \<and> 0 \<le> co_total_per_share c \<and>
    co_price c = p \<and> co_role c \<in> {''MAKER'', ''TAKER''}"
proof -
  define R M E where "R = finite_nonnegative (cp_fee_rate k) 0" and "M = finite_nonnegative (cp_maker_fee_rate k) 0"
    and "E = finite_nonnegative (cp_fee_exponent k) 1"
  note n = finite_nonnegative_nonneg
  have f: "flt R = R" "flt M = M" "flt E = E" "0 \<le> R" "0 \<le> M" "0 \<le> E"
    using assms(5-7) by (simp_all add: R_def M_def E_def finite_nonnegative_float n)
  obtain t where t: "polymarket_taker_fee_per_share pw (VNumber (Finite p)) (VNumber (Finite R)) (VNumber (Finite E)) = Inr t" "0 \<le> t"
    using taker_fee_ok [OF assms(1-3) f(1,4,3,6) assms(4)] by blast
  obtain m where m: "polymarket_taker_fee_per_share pw (VNumber (Finite p)) (VNumber (Finite M)) (VNumber (Finite E)) = Inr m" "0 \<le> m"
    using taker_fee_ok [OF assms(1-3) f(2,5,3,6) assms(4)] by blast
  show ?thesis using t m assms(2,3) n [of 0]
    by (auto simp: estimate_trade_cost_def execution_role_def Let_def R_def M_def E_def intro!: round_float_nonneg add_nonneg_nonneg mult_nonneg_nonneg)
qed

definition policy_floats :: "policy_config \<Rightarrow> bool" where
  "policy_floats c \<longleftrightarrow> is_float (pc_fee_rate c) \<and> is_float (pc_maker_fee_rate c) \<and> is_float (pc_fee_exponent c)"

text \<open>What a quote says: its ask is inside the unit interval and its expected profit is after costs.\<close>

definition quote_ok :: "string \<Rightarrow> pyfloat \<Rightarrow> py_any \<Rightarrow> side_quote \<Rightarrow> bool" where
  "quote_ok side p_yes ask q \<longleftrightarrow> qt_side q = side \<and> 0 \<le> co_total_per_share (qt_cost q) \<and>
     (case clamp_probability ask None of None \<Rightarrow> False
      | Some a \<Rightarrow> 0 < a \<and> a < 1 \<and> co_price (qt_cost q) = a \<and>
          (let win = (if side = BUY_YES then p_yes else flt (1 - p_yes)) in
           qt_p_win q = round_float 8 win \<and>
           qt_net_ev q = round_float 8 (round_float 8 (flt (flt (win - a) - co_total_per_share (qt_cost q))))))"

lemma make_side_quote_ok:
  assumes "side \<in> {BUY_YES, BUY_NO}" "is_float ask" "0 \<le> p" "p \<le> 1" "policy_floats c" "pow_nonneg pw"
  shows "\<exists>q. make_side_quote pw side ask p c spread source = Inr q \<and>
    (q = None \<longleftrightarrow> (\<forall>a. clamp_probability ask None = Some a \<longrightarrow> a \<le> 0 \<or> 1 \<le> a)) \<and> (\<forall>x. q = Some x \<longrightarrow> quote_ok side p ask x)"
proof (cases "clamp_probability ask None")
  case None
  then show ?thesis by (simp add: make_side_quote_def)
next
  case (Some a)
  define win where "win = (if side = BUY_YES then p else flt (1 - p))"
  have w: "probability_for_side (VNumber (Finite p)) side = Inr (Some win)"
    using assms(1,3,4) by (auto simp: probability_for_side_def win_def BUY_YES_def BUY_NO_def)
  have wb: "0 \<le> win" "win \<le> 1" using assms(3,4) flt_le_1 by (auto simp: win_def)
  show ?thesis
  proof (cases "a \<le> 0 \<or> 1 \<le> a")
    case True
    then show ?thesis using Some by (simp add: make_side_quote_def)
  next
    case False
    then have a: "0 < a" "a < 1" by simp_all
    obtain k where k: "estimate_trade_cost pw (VNumber (Finite a)) (quote_cost_params c spread source) = Inr k" "0 \<le> co_total_per_share k" "co_price k = a"
      using estimate_trade_cost_ok [OF clamp_probability_float [OF assms(2) Some] a assms(6), of "quote_cost_params c spread source"] assms(5)
      by (auto simp: policy_floats_def quote_cost_params_def)
    show ?thesis using Some a w wb k
      by (auto simp: make_side_quote_def weighted_net_ev_per_share_def quote_ok_def win_def [symmetric] Let_def)
  qed
qed

section \<open>Properties of the policy\<close>

lemma best_quote_max:
  assumes "best_quote y n = Some q"
  shows "q \<in> set_option y \<union> set_option n" "x \<in> set_option y \<union> set_option n \<Longrightarrow> qt_net_ev x \<le> qt_net_ev q"
  using assms by (cases y; cases n; auto split: if_splits)+

lemma best_quote_None: "best_quote y n = None \<longleftrightarrow> y = None \<and> n = None"
  by (cases y; cases n) auto

text \<open>
  C22: the weighted policy buys only what it should. The choice of a side never raises; the probability it uses
  lies between zero and one. A selected quote is one of the two that were offered, has a price strictly between
  zero and one, an expected profit after nonnegative costs of at least the threshold (and the threshold is not
  negative), and no offered quote is better; it is never selected under the regime veto. When nothing is
  selected, there was no valid ask, or the veto held, or no component has weight, or the best quote is below the
  threshold.
\<close>

theorem weighted_selection_correct:
  assumes "is_float yes_ask" "is_float no_ask" "policy_floats c" "pow_nonneg pw"
  shows "\<exists>s p. select_weighted_side lib pw i yes_ask no_ask c evidence min_net_ev source spread veto = Inr s \<and>
    p = sl_probability s \<and> 0 \<le> wp_final_yes p \<and> wp_final_yes p \<le> 1 \<and>
    (\<forall>q. sl_selected s = Some q \<longrightarrow>
       (sl_yes_quote s = Some q \<and> quote_ok BUY_YES (wp_final_yes p) yes_ask q \<or>
        sl_no_quote s = Some q \<and> quote_ok BUY_NO (wp_final_yes p) no_ask q) \<and>
       0 \<le> finite_nonnegative min_net_ev 0 \<and> finite_nonnegative min_net_ev 0 \<le> qt_net_ev q \<and>
       (\<forall>x\<in>set_option (sl_yes_quote s) \<union> set_option (sl_no_quote s). qt_net_ev x \<le> qt_net_ev q) \<and>
       \<not> mrf_veto veto (wp_mrf_evidence p)) \<and>
    (sl_selected s = None \<longrightarrow>
       sl_yes_quote s = None \<and> sl_no_quote s = None \<or> mrf_veto veto (wp_mrf_evidence p) \<or>
       flt (flt (wp_market_weight p + wp_logreg_weight p) + wp_lgbm_weight p) \<le> 0 \<or>
       (\<forall>x\<in>set_option (sl_yes_quote s) \<union> set_option (sl_no_quote s). qt_net_ev x < finite_nonnegative min_net_ev 0))"
proof -
  define p where "p = score_weighted_probability lib i c evidence"
  have pb: "0 \<le> wp_final_yes p" "wp_final_yes p \<le> 1" using final_probability_bounds by (simp_all add: p_def)
  obtain y where y: "make_side_quote pw BUY_YES yes_ask (wp_final_yes p) c spread source = Inr y"
      "\<And>x. y = Some x \<Longrightarrow> quote_ok BUY_YES (wp_final_yes p) yes_ask x"
    using make_side_quote_ok [OF _ assms(1) pb assms(3,4), of BUY_YES spread source] by auto
  obtain n where n: "make_side_quote pw BUY_NO no_ask (wp_final_yes p) c spread source = Inr n"
      "\<And>x. n = Some x \<Longrightarrow> quote_ok BUY_NO (wp_final_yes p) no_ask x"
    using make_side_quote_ok [OF _ assms(2) pb assms(3,4), of BUY_NO spread source] by auto
  show ?thesis
  proof (cases "best_quote y n")
    case None
    then show ?thesis using y n pb by (simp add: select_weighted_side_def p_def [symmetric] best_quote_None)
  next
    case (Some q)
    note best = best_quote_max [OF Some]
    have "0 \<le> finite_nonnegative min_net_ev 0" by (simp add: finite_nonnegative_nonneg)
    moreover have "y = Some q \<and> quote_ok BUY_YES (wp_final_yes p) yes_ask q \<or> n = Some q \<and> quote_ok BUY_NO (wp_final_yes p) no_ask q"
      using best(1) y(2) n(2) by auto
    moreover have "\<forall>x\<in>set_option y \<union> set_option n. qt_net_ev x < t" if "qt_net_ev q < t" for t using best(2) that by fastforce
    ultimately show ?thesis using Some y(1) n(1) pb best(2)
      by (auto simp: select_weighted_side_def p_def [symmetric] Let_def)
  qed
qed

text \<open>
  Evidence about the market regime that is configured to change the stake does not change the decision. With
  the application STAKE, the probability of YES and, without the veto, the selected quote are the same whatever
  the evidence is, also when a trained stacker has a coefficient for it.
\<close>

theorem stake_evidence_ignored:
  assumes "stake_application c"
  shows "wp_final_yes (score_weighted_probability lib i c e) = wp_final_yes (score_weighted_probability lib i c e') \<and>
    map_sum id sl_selected (select_weighted_side lib pw i yes_ask no_ask c e min_net_ev source spread VNone) =
    map_sum id sl_selected (select_weighted_side lib pw i yes_ask no_ask c e' min_net_ev source spread VNone)"
proof -
  have "residual_score lib i c w x = residual_score lib i c w 0" for w x
    using assms by (cases "clamp_probability (pi_market_yes i) None") (simp_all add: residual_score_def Let_def)
  then have r: "residual_score lib i c w x = residual_score lib i c w y" for w x y by metis
  have p: "score_weighted_probability lib i c x =
      (score_weighted_probability lib i c VNone)\<lparr>wp_mrf_evidence := round_float 8 (signed_evidence x)\<rparr>" for x
    using assms r [of _ "signed_evidence x" "signed_evidence VNone"]
    by (cases "stacker_score lib i c 0") (simp_all add: score_weighted_probability_def Let_def)
  have "map_sum id sl_selected (select_weighted_side lib pw i yes_ask no_ask c x min_net_ev source spread VNone) =
      map_sum id sl_selected (select_weighted_side lib pw i yes_ask no_ask c VNone min_net_ev source spread VNone)" for x
    unfolding select_weighted_side_def
    by (subst p) (simp add: mrf_veto_def Let_def split: sum.split option.split)
  moreover have "wp_final_yes (score_weighted_probability lib i c x) = wp_final_yes (score_weighted_probability lib i c VNone)" for x
    by (subst p) simp
  ultimately show ?thesis by metis
qed

text \<open>
  The arm that trades on the market alone does so. What the two models say has no influence on the
  probability, the selected side, its price and profit or the reason of the arm MARKET_ONLY, whatever the
  configured weights and stacker are.
\<close>

theorem market_only_ignores_models:
  "map_sum id (\<lambda>r. (ar_p_final_yes r, ar_selected_side r, ar_selected_ask r, ar_net_ev r, ar_reason r))
     (run_arm lib pw i yes_ask no_ask evidence source spread (''MARKET_ONLY'', without_models 1 0 0 c)) =
   map_sum id (\<lambda>r. (ar_p_final_yes r, ar_selected_side r, ar_selected_ask r, ar_net_ev r, ar_reason r))
     (run_arm lib pw (i\<lparr>pi_logreg_yes := logreg, pi_lgbm_yes := lgbm\<rparr>) yes_ask no_ask evidence source spread
       (''MARKET_ONLY'', without_models 1 0 0 c))"
proof -
  define m where "m = without_models 1 0 0 c"
  have w: "normalized_weights m a b g = (if a then \<lparr>w_market = 1, w_logreg = 0, w_lgbm = 0\<rparr> else \<lparr>w_market = 0, w_logreg = 0, w_lgbm = 0\<rparr>)" for a b g
    by (simp add: normalized_weights_def m_def without_models_def finite_nonnegative_def Let_def)
  have s: "stacker_score lib j m x = None" for j x by (simp add: stacker_score_def m_def without_models_def STACKER_FEATURE_NAMES_def)
  have z: "finite_or_zero (pc_mrf_beta m) = 0" "finite_or_zero (pc_models_agree_beta m) = 0"
    by (simp_all add: m_def without_models_def finite_or_zero_def)
  have r: "residual_score lib (i\<lparr>pi_logreg_yes := logreg, pi_lgbm_yes := lgbm\<rparr>) m (normalized_weights m a b g) x =
      residual_score lib i m (normalized_weights m a b' g') x" for a b g b' g' x
    by (cases "clamp_probability (pi_market_yes i) None") (simp_all add: residual_score_def w z Let_def split: option.split)
  define p where "p = score_weighted_probability lib i m VNone"
  define p' where "p' = score_weighted_probability lib (i\<lparr>pi_logreg_yes := logreg, pi_lgbm_yes := lgbm\<rparr>) m VNone"
  have "wp_final_yes p' = wp_final_yes p" "wp_market_weight p' = wp_market_weight p" "wp_logreg_weight p' = wp_logreg_weight p"
    "wp_lgbm_weight p' = wp_lgbm_weight p" "wp_mrf_evidence p' = wp_mrf_evidence p"
    unfolding p_def p'_def score_weighted_probability_def Let_def
    using r [of "clamp_probability (pi_market_yes i) None \<noteq> None"] by (simp_all add: s w)
  then show ?thesis unfolding run_arm_def m_def [symmetric] select_weighted_side_def p_def [symmetric] p'_def [symmetric]
    by (simp add: p_def [symmetric] p'_def [symmetric] compact_def Let_def split: sum.split option.split)
qed

definition sample_weighted_policy :: policy_config where
  "sample_weighted_policy =
     \<lparr>pc_market_weight = VNumber (Finite 1), pc_logreg_weight = VNone, pc_lgbm_weight = VNone, pc_mrf_beta = VNumber (Finite 1),
      pc_models_agree_beta = VNone, pc_mrf_application = Some ''stake'', pc_intercept = VNone, pc_fee_rate = VNone,
      pc_maker_fee_rate = VNone, pc_fee_exponent = VNone, pc_slippage_rate = VNone, pc_latency_buffer = VNone,
      pc_execution_role = None, pc_mrf_extreme_veto_threshold = VNone, pc_stacker_feature_names = [],
      pc_stacker_coefficients = [], pc_stacker_segment_models = []\<rparr>"

definition sample_inputs :: probability_inputs where
  "sample_inputs =
     \<lparr>pi_market_yes = VNumber (Finite (3/4)), pi_logreg_yes = VNone, pi_lgbm_yes = VNone, pi_asset = Some ''BTC'',
      pi_phase = None, pi_role = None\<rparr>"

text \<open>A stand-in for the C library under which the odds of the sample are kept.\<close>

definition sample_libm :: libm where
  "sample_libm = \<lparr>lib_exp = (\<lambda>x. if x \<le> - 1 then 1/3 else 1), lib_log = (\<lambda>x. if 2 < x then 1 else 0)\<rparr>"

lemma sample_probability:
  "wp_final_yes (score_weighted_probability sample_libm sample_inputs sample_weighted_policy VNone) = 3/4"
  "wp_market_weight (score_weighted_probability sample_libm sample_inputs sample_weighted_policy VNone) = 1"
  "wp_logreg_weight (score_weighted_probability sample_libm sample_inputs sample_weighted_policy VNone) = 0"
  "wp_lgbm_weight (score_weighted_probability sample_libm sample_inputs sample_weighted_policy VNone) = 0"
proof -
  let ?c = sample_weighted_policy and ?i = sample_inputs
  have v: "logit sample_libm (3/4) = 1" "sigmoid sample_libm 1 = 3/4" "round_float 8 (3/4) = 3/4" "round_float 8 1 = 1" by code_simp+
  have c: "clamp_probability (pi_market_yes ?i) None = Some (3/4)" "clamp_probability (pi_logreg_yes ?i) None = None"
    "clamp_probability (pi_lgbm_yes ?i) None = None" "models_agree ?i = None"
    by (simp_all add: sample_inputs_def clamp_probability_def models_agree_def)
  have w: "normalized_weights ?c True False False = \<lparr>w_market = 1, w_logreg = 0, w_lgbm = 0\<rparr>"
    by (simp add: normalized_weights_def sample_weighted_policy_def finite_nonnegative_def)
  have s: "stacker_score sample_libm ?i ?c x = None" for x
    by (simp add: stacker_score_def sample_weighted_policy_def STACKER_FEATURE_NAMES_def)
  have z: "finite_or_zero (pc_intercept ?c) = 0" "signed_evidence VNone = 0"
    by (simp_all add: finite_or_zero_def signed_evidence_def sample_weighted_policy_def)
  have r: "sc_final (residual_score sample_libm ?i ?c \<lparr>w_market = 1, w_logreg = 0, w_lgbm = 0\<rparr> 0) = 3/4"
    by (simp add: residual_score_def c z v)
  show "wp_final_yes (score_weighted_probability sample_libm ?i ?c VNone) = 3/4"
    "wp_market_weight (score_weighted_probability sample_libm ?i ?c VNone) = 1"
    "wp_logreg_weight (score_weighted_probability sample_libm ?i ?c VNone) = 0"
    "wp_lgbm_weight (score_weighted_probability sample_libm ?i ?c VNone) = 0"
    by (simp_all add: score_weighted_probability_def Let_def c w s z r v del: not_None_eq)
qed

lemma sample_cost:
  "\<exists>k. estimate_trade_cost (\<lambda>_ _. 0) (VNumber (Finite (1/2))) (quote_cost_params sample_weighted_policy VNone source) = Inr k \<and>
     co_total_per_share k = 0"
proof -
  have v: "repr_dec (1/2) = 1/2" "repr_dec 0 = 0" "repr_dec 1 = 1" "execution_role None = ''TAKER''" "upper ''TAKER'' = ''TAKER''"
    "upper (strip ''POLYMARKET_PRICE_DEPENDENT'') = ''POLYMARKET_PRICE_DEPENDENT''" by code_simp+
  show ?thesis
    by (simp add: v estimate_trade_cost_def quote_cost_params_def sample_weighted_policy_def polymarket_taker_fee_per_share_def fee_per_share_def
        d_pow_def d_mul_def d_sub_def finite_nonnegative_def Let_def)
qed

theorem weighted_selection_correct_witness:
  "\<exists>s q. select_weighted_side sample_libm (\<lambda>_ _. 0) sample_inputs (VNumber (Finite (1/2))) VNone sample_weighted_policy VNone
      (VNumber (Finite (1/10))) ''CONFIG_DEFAULT'' VNone VNone = Inr s \<and> sl_selected s = Some q \<and>
    quote_ok BUY_YES (wp_final_yes (sl_probability s)) (VNumber (Finite (1/2))) q"
proof -
  have "is_float (VNumber (Finite (1/2)))" "is_float VNone" "policy_floats sample_weighted_policy" "pow_nonneg (\<lambda>_ _. 0)"
    by (simp_all add: policy_floats_def sample_weighted_policy_def pow_nonneg_def)
  note sel = weighted_selection_correct [OF this, of sample_libm sample_inputs VNone "VNumber (Finite (1/10))" "''CONFIG_DEFAULT''" VNone VNone]
  have r: "flt (1/4) = 1/4" "round_float 8 (1/4) = 1/4" by code_simp+
  obtain k where k: "estimate_trade_cost (\<lambda>_ _. 0) (VNumber (Finite (1/2))) (quote_cost_params sample_weighted_policy VNone ''CONFIG_DEFAULT'') = Inr k"
    "co_total_per_share k = 0" using sample_cost by blast
  have "case select_weighted_side sample_libm (\<lambda>_ _. 0) sample_inputs (VNumber (Finite (1/2))) VNone sample_weighted_policy VNone
      (VNumber (Finite (1/10))) ''CONFIG_DEFAULT'' VNone VNone of Inr s \<Rightarrow> sl_selected s \<noteq> None \<and> sl_no_quote s = None | Inl _ \<Rightarrow> False"
    by (simp add: sample_probability k r select_weighted_side_def make_side_quote_def probability_for_side_def weighted_net_ev_per_share_def
        clamp_probability_def mrf_veto_def finite_nonnegative_def Let_def)
  then show ?thesis using sel by fastforce
qed

theorem stake_evidence_ignored_witness:
  "wp_final_yes (score_weighted_probability sample_libm sample_inputs sample_weighted_policy (VNumber (Finite 1))) =
   wp_final_yes (score_weighted_probability sample_libm sample_inputs sample_weighted_policy VNone)"
proof -
  have "stake_application sample_weighted_policy" by code_simp
  from stake_evidence_ignored [OF this] show ?thesis by blast
qed

end
