(* ===== verification/Trade_Decision.thy ===== *)
theory Trade_Decision
  imports Weighted_Policy Trading_Config
begin

text \<open>
  From a signal to an order: \<open>crypto/edge.py\<close> (the expected profit of a share), the quotes of \<open>MarketSignal\<close>
  in \<open>trading/feature_builder.py\<close>, the outsider strategy of \<open>trading/decision_logic.py\<close> and the last check
  before an order, \<open>trading/pre_trade_validator.py\<close>. The price feed is an argument: the answer of
  \<open>get_market_prices\<close>, whose fields may hold anything. Log messages are left out. The dictionary of decision
  details is a map; a reason is a text, or the bound that was violated.
\<close>

section \<open>Expected profit\<close>

definition compute_crypto_signal_strength :: "dec_value \<Rightarrow> dec_value \<Rightarrow> dec_value \<Rightarrow> dec_value \<times> string" where
  "compute_crypto_signal_strength p_up threshold_up threshold_down =
     (if \<not> (float_le (Finite 0) threshold_down \<and> float_less threshold_down threshold_up \<and> float_le threshold_up (Finite 1))
      then (Finite 0, ''NONE'')
      else if float_le threshold_up p_up then (py_round 4 (f_sub p_up threshold_up), ''UP'')
      else if float_le p_up threshold_down then (py_round 4 (f_sub threshold_down p_up), ''DOWN'')
      else (Finite 0, ''NONE''))"

text \<open>
  The profit of a share after costs; NaN for a missing or impossible price or probability. The costs are the
  fee, the slippage, the two buffers and an extra amount, added in this order.
\<close>

definition net_ev_per_share ::
  "py_any \<Rightarrow> py_any \<Rightarrow> dec_value \<Rightarrow> dec_value \<Rightarrow> dec_value \<Rightarrow> dec_value \<Rightarrow> py_any \<Rightarrow> dec_value \<Rightarrow> dec_value" where
  "net_ev_per_share p_win executable_ask fee slippage latency spread ask_price extra =
     (let ask = (if ask_price \<noteq> VNone then ask_price else executable_ask) in
      case (to_float ask, to_float p_win) of
        (Some (Finite a), Some (Finite p)) \<Rightarrow>
          if a \<le> 0 \<or> 1 \<le> a \<or> p < 0 \<or> 1 < p then NotANumber
          else py_round 8 (f_sub (Finite (flt (p - a))) (f_add (f_add (f_add (f_add fee slippage) latency) spread) extra))
      | _ \<Rightarrow> NotANumber)"

definition compute_economic_edge :: "dec_value \<Rightarrow> dec_value \<Rightarrow> dec_value \<Rightarrow> dec_value \<Rightarrow> dec_value \<Rightarrow> dec_value" where
  "compute_economic_edge p_win ask fee_rate slippage_rate latency =
     (if float_le ask (Finite 0) \<or> float_le (Finite 1) ask then Finite 0
      else net_ev_per_share (VNumber p_win) (VNumber ask) (f_mul ask fee_rate) (f_mul ask slippage_rate) latency (Finite 0) VNone (Finite 0))"

definition compute_roi :: "dec_value \<Rightarrow> dec_value \<Rightarrow> dec_value" where
  "compute_roi net_ev ask = (if float_le ask (Finite 0) then Finite 0 else f_div net_ev ask)"

section \<open>The signal\<close>

record market_signal =
  ms_asset :: string
  ms_mid_price :: dec_value
  ms_spread :: dec_value
  ms_volume_5min :: dec_value
  ms_yes_bid :: "dec_value option"
  ms_yes_ask :: "dec_value option"
  ms_no_bid :: "dec_value option"
  ms_no_ask :: "dec_value option"

text \<open>A quote of the book when it is positive, else the midpoint moved by half the spread.\<close>

definition quote_or :: "dec_value option \<Rightarrow> dec_value \<Rightarrow> dec_value" where
  "quote_or q estimate = (case q of Some x \<Rightarrow> if float_less (Finite 0) x then x else estimate | None \<Rightarrow> estimate)"

definition half_spread :: "market_signal \<Rightarrow> dec_value" where
  "half_spread s = f_div (ms_spread s) (Finite 2)"

definition get_yes_ask :: "market_signal \<Rightarrow> dec_value" where
  "get_yes_ask s = quote_or (ms_yes_ask s) (py_min (f_add (ms_mid_price s) (half_spread s)) (Finite (flt (99/100))))"

definition get_yes_bid :: "market_signal \<Rightarrow> dec_value" where
  "get_yes_bid s = quote_or (ms_yes_bid s) (py_max (f_sub (ms_mid_price s) (half_spread s)) (Finite (flt (1/100))))"

definition get_no_ask :: "market_signal \<Rightarrow> dec_value" where
  "get_no_ask s = quote_or (ms_no_ask s) (py_min (f_add (f_sub (Finite 1) (ms_mid_price s)) (half_spread s)) (Finite (flt (99/100))))"

definition get_no_bid :: "market_signal \<Rightarrow> dec_value" where
  "get_no_bid s = quote_or (ms_no_bid s) (py_max (f_sub (f_sub (Finite 1) (ms_mid_price s)) (half_spread s)) (Finite (flt (1/100))))"

section \<open>The outsider strategy\<close>

datatype trade_reason = Reason string | Out_of_bounds bound_reason

record trade_decision =
  dn_action :: string
  dn_buy_price :: dec_value
  dn_bet_size :: dec_value
  dn_reason :: trade_reason
  dn_strategy_type :: string
  dn_p_flip :: "dec_value option"
  dn_edge :: "dec_value option"
  dn_p_win_effective :: "dec_value option"
  dn_p_win_raw :: "dec_value option"
  dn_details :: "(string \<rightharpoonup> py_any) option"

definition skip_decision :: "trade_reason \<Rightarrow> string \<Rightarrow> dec_value \<Rightarrow> dec_value option \<Rightarrow> trade_decision" where
  "skip_decision reason strategy p_flip edge =
     \<lparr>dn_action = ''SKIP'', dn_buy_price = Finite 0, dn_bet_size = Finite 0, dn_reason = reason, dn_strategy_type = strategy,
      dn_p_flip = Some p_flip, dn_edge = edge, dn_p_win_effective = None, dn_p_win_raw = None, dn_details = None\<rparr>"

definition resolve_final_bet :: "dec_value \<Rightarrow> dec_value \<Rightarrow> trading_config \<Rightarrow> bool \<Rightarrow> dec_value" where
  "resolve_final_bet edge volume_5min cfg is_outsider =
     (if tc_bet_sizing_mode cfg = ''fixed'' then tc_bet_size cfg
      else let bet = compute_bet_size_with_liquidity edge volume_5min (tc_bet_size cfg) (tc_max_bet_size_usdc cfg)
                       (Finite (get_min_edge cfg is_outsider)) (tc_max_bet_edge cfg) (tc_liquidity_fraction cfg)
           in if float_less bet (tc_bet_size cfg) then tc_bet_size cfg else bet)"

definition decide_outsider :: "market_signal \<Rightarrow> dec_value \<Rightarrow> trading_config \<Rightarrow> dec_value \<Rightarrow> dec_value \<Rightarrow> trade_decision" where
  "decide_outsider s p_flip cfg ece time_left =
     (case (is_time_valid cfg time_left True, float_less (Finite 0) time_left) of
        (Some r, True) \<Rightarrow> skip_decision (Out_of_bounds r) ''OUTSIDER'' p_flip None
      | _ \<Rightarrow>
          let flip_thresh = (if 1 < tc_flip_threshold cfg then flt (tc_flip_threshold cfg / 100) else tc_flip_threshold cfg);
              p_eff = py_min p_flip (apply_ece_correction p_flip (Some ece)) in
          if is_in_dead_zone (ms_mid_price s) (tc_dead_zone cfg)
          then skip_decision (Reason ''dead zone'') ''SKIP'' p_flip (Some (Finite 0))
          else let is_yes_fav = float_le FLIP_MIDPOINT (ms_mid_price s);
                   ask = (if is_yes_fav then get_no_ask s else get_yes_ask s);
                   action = (if is_yes_fav then BUY_NO else BUY_YES) in
            if float_le ask (Finite 0) then skip_decision (Reason ''outsider_ask=0'') ''SKIP'' p_flip (Some (Finite 0))
            else let discount = Finite (tc_outsider_pwin_discount cfg); p_win = f_mul p_eff discount; edge = compute_edge p_win ask in
              if float_less p_eff (Finite flip_thresh)
              then skip_decision (Reason (''p_flip_effective='' @ format_value 3 p_eff @ '' < threshold='' @ fixed_str 3 flip_thresh)) ''SKIP'' p_flip (Some edge)
              else case is_price_valid cfg ask True of
                Some r \<Rightarrow> skip_decision (Out_of_bounds r) ''SKIP'' p_flip (Some edge)
              | None \<Rightarrow>
                  let min_edge = get_min_edge cfg True in
                  if float_less edge (Finite min_edge)
                  then skip_decision (Reason (''edge='' @ format_value 3 edge @ '' < min='' @ fixed_str 3 min_edge)) ''SKIP'' p_flip (Some edge)
                  else let bet = resolve_final_bet edge (ms_volume_5min s) cfg True in
                    if float_le bet (Finite 0) \<and> \<not> tc_bypass_bet_size_check cfg
                    then skip_decision (Reason ''Bet size 0'') ''SKIP'' p_flip (Some edge)
                    else \<lparr>dn_action = action, dn_buy_price = ask, dn_bet_size = bet,
                          dn_reason = Reason (''OUTSIDER p_flip_effective='' @ format_value 3 p_eff @ '' >= '' @ fixed_str 3 flip_thresh),
                          dn_strategy_type = ''OUTSIDER'', dn_p_flip = Some p_flip, dn_edge = Some edge,
                          dn_p_win_effective = Some p_win, dn_p_win_raw = Some (f_mul p_flip discount),
                          dn_details = Some [''market_role'' \<mapsto> VText ''OUTSIDER'', ''signal_type'' \<mapsto> VText ''FLIP'',
                            ''p_flip_raw'' \<mapsto> VNumber (py_round 4 p_flip), ''p_flip_effective'' \<mapsto> VNumber (py_round 4 p_eff),
                            ''ece_used'' \<mapsto> VNumber (py_round 4 ece), ''threshold_upper_applied'' \<mapsto> VNumber (py_round 4 (Finite flip_thresh)),
                            ''bet_size_before_multiplier'' \<mapsto> VNumber (py_round 4 bet), ''outsider_discount'' \<mapsto> VNumber (py_round 4 discount)]\<rparr>)"

section \<open>The last check before an order\<close>

text \<open>The answer of the price feed.\<close>

record feed_prices =
  fp_best_ask :: py_any
  fp_best_bid :: py_any
  fp_current_spread :: py_any

record pre_trade =
  pt_valid :: bool
  pt_buy_price :: dec_value
  pt_bet_size :: dec_value
  pt_edge :: dec_value
  pt_skip_reason :: "trade_reason option"
  pt_market_role :: "string option"

definition refuse :: "dec_value \<Rightarrow> dec_value \<Rightarrow> dec_value \<Rightarrow> trade_reason \<Rightarrow> string option \<Rightarrow> pre_trade" where
  "refuse price bet edge reason role =
     \<lparr>pt_valid = False, pt_buy_price = price, pt_bet_size = bet, pt_edge = edge, pt_skip_reason = Some reason, pt_market_role = role\<rparr>"

definition accept :: "dec_value \<Rightarrow> dec_value \<Rightarrow> dec_value \<Rightarrow> string \<Rightarrow> pre_trade" where
  "accept price bet edge role =
     \<lparr>pt_valid = True, pt_buy_price = price, pt_bet_size = bet, pt_edge = edge, pt_skip_reason = None, pt_market_role = Some role\<rparr>"

text \<open>\<open>decision.edge or 0.0\<close>: zero is falsy, NaN is not.\<close>

definition edge_or_zero :: "dec_value option \<Rightarrow> dec_value" where
  "edge_or_zero e = (case e of Some x \<Rightarrow> x | None \<Rightarrow> Finite 0)"

definition float_arg :: "py_any \<Rightarrow> dec_value outcome" where
  "float_arg v = (case to_float v of Some x \<Rightarrow> Inr x | None \<Rightarrow> Inl (float_error v))"

definition fresh_mid :: "feed_prices \<Rightarrow> dec_value \<Rightarrow> dec_value outcome" where
  "fresh_mid f ask =
     (if fp_best_bid f = VNone then Inr ask
      else bind_out (float_arg (fp_best_bid f)) (\<lambda>b. Inr (f_div (f_add b ask) (Finite 2))))"

text \<open>The spread, the largest ratio and the ratio of the spread to the midpoint; all zero when the feed has no spread.\<close>

definition spread_check :: "trading_config \<Rightarrow> feed_prices \<Rightarrow> dec_value \<Rightarrow> dec_value \<times> dec_value \<times> dec_value" where
  "spread_check cfg f mid =
     (case to_float (fp_current_spread f) of
        None \<Rightarrow> (Finite 0, Finite 0, Finite 0)
      | Some x \<Rightarrow> (f_abs x, Finite (tc_max_spread_pct cfg), f_div (f_abs x) (py_max mid (Finite (flt (1 / 10 ^ 9))))))"

text \<open>\<open>details.get(key, default)\<close>, and \<open>_weighted_detail_or_default\<close>, which also replaces a stored \<open>None\<close>.\<close>

definition detail_get :: "(string \<rightharpoonup> py_any) \<Rightarrow> string \<Rightarrow> py_any \<Rightarrow> py_any" where
  "detail_get d key dflt = (case d key of Some v \<Rightarrow> v | None \<Rightarrow> dflt)"

definition weighted_detail_or_default :: "(string \<rightharpoonup> py_any) \<Rightarrow> string \<Rightarrow> py_any \<Rightarrow> py_any" where
  "weighted_detail_or_default d key dflt = (let v = detail_get d key VNone in if v = VNone then dflt else v)"

text \<open>\<open>str(role or "TAKER")\<close>; the text of a number or another object is no role.\<close>

fun role_text :: "py_any \<Rightarrow> string option" where
  "role_text (VText s) = Some s"
| "role_text VNone = None"
| "role_text _ = Some ''OTHER''"

definition weighted_cost_params :: "trading_config \<Rightarrow> (string \<rightharpoonup> py_any) \<Rightarrow> dec_value \<Rightarrow> cost_params" where
  "weighted_cost_params cfg d spread =
     (let num = (\<lambda>x. VNumber (Finite x)) in
      \<lparr>cp_fee_rate = weighted_detail_or_default d ''weighted_fee_rate'' (num (tc_weighted_fee_rate cfg)),
       cp_maker_fee_rate = weighted_detail_or_default d ''weighted_maker_fee_rate'' (num (tc_weighted_maker_fee_rate cfg)),
       cp_fee_exponent = weighted_detail_or_default d ''weighted_fee_exponent'' (num (tc_weighted_fee_exponent cfg)),
       cp_slippage_rate = num (tc_weighted_slippage_rate cfg),
       cp_role = role_text (weighted_detail_or_default d ''weighted_execution_role'' (VText (tc_weighted_execution_role cfg))),
       cp_spread = VNumber (f_div spread (Finite 2)),
       cp_latency_buffer = weighted_detail_or_default d ''weighted_latency_buffer_per_share'' (num (tc_weighted_latency_buffer cfg)),
       cp_source = text_or (role_text (detail_get d ''weighted_fee_source'' VNone)) ''CONFIG_DEFAULT''\<rparr>)"

definition minimum_edge :: "trading_config \<Rightarrow> string \<Rightarrow> dec_value \<Rightarrow> (string \<rightharpoonup> py_any) \<Rightarrow> bool \<Rightarrow> dec_value \<Rightarrow> dec_value" where
  "minimum_edge cfg asset_mode asset_min_edge d weighted price =
     (if asset_mode = ''combined'' then
        let is_outsider = float_less price (Finite (1/2)) in
        if weighted
        then let dflt = Finite (get_weighted_min_net_ev cfg is_outsider)
             in case to_float (detail_get d ''weighted_min_net_ev'' (VNumber dflt)) of Some x \<Rightarrow> x | None \<Rightarrow> dflt
        else Finite (get_min_edge cfg is_outsider)
      else asset_min_edge)"

definition validated_edge ::
  "(decimal \<Rightarrow> decimal \<Rightarrow> decimal) \<Rightarrow> trading_config \<Rightarrow> (string \<rightharpoonup> py_any) \<Rightarrow> bool \<Rightarrow> dec_value \<Rightarrow> dec_value \<Rightarrow> dec_value \<Rightarrow> dec_value outcome" where
  "validated_edge pw cfg d weighted p_win price spread =
     (if weighted
      then bind_out (estimate_trade_cost pw (VNumber price) (weighted_cost_params cfg d spread)) (\<lambda>cost.
           bind_out (weighted_net_ev_per_share (VNumber p_win) (VNumber price) cost) (\<lambda>e. Inr (Finite e)))
      else Inr (compute_economic_edge p_win price (tc_fee_rate cfg) (tc_slippage_rate cfg) (Finite 0)))"

definition weighted_bet :: "trading_config \<Rightarrow> (string \<rightharpoonup> py_any) \<Rightarrow> dec_value" where
  "weighted_bet cfg d =
     (let fixed_bet = max (flt (1/100)) (tc_weighted_fixed_bet_usdc cfg);
          multiplier = (case to_float (detail_get d ''weighted_size_multiplier'' (VNumber (Finite 1))) of Some x \<Rightarrow> x | None \<Rightarrow> Finite 1);
          size_cap = max 0 (tc_weighted_size_cap_usdc cfg);
          max_multiplier = (if 0 < fixed_bet then flt (size_cap / fixed_bet) else 0)
      in f_mul (Finite fixed_bet) (py_max (Finite 0) (py_min (Finite max_multiplier) multiplier)))"

definition validated_bet :: "trading_config \<Rightarrow> (string \<rightharpoonup> py_any) \<Rightarrow> bool \<Rightarrow> dec_value \<Rightarrow> dec_value \<Rightarrow> dec_value" where
  "validated_bet cfg d weighted edge min_edge =
     (if weighted then weighted_bet cfg d
      else if tc_bet_sizing_mode cfg = ''fixed'' then tc_bet_size cfg
      else compute_bet_size_edge_scaled edge (tc_bet_size cfg) (tc_max_bet_size_usdc cfg) min_edge (tc_max_bet_edge cfg))"

text \<open>The stage after the price was accepted: edge, price bounds and size at the fresh price.\<close>

definition validate_at_price ::
  "(decimal \<Rightarrow> decimal \<Rightarrow> decimal) \<Rightarrow> trading_config \<Rightarrow> trade_decision \<Rightarrow> string \<Rightarrow> dec_value \<Rightarrow> dec_value \<Rightarrow> string \<Rightarrow> dec_value \<Rightarrow> dec_value
     \<Rightarrow> pre_trade outcome" where
  "validate_at_price pw cfg dn asset_mode asset_min_edge asset_max_price role spread price =
     (case dn_p_win_effective dn of
        None \<Rightarrow> Inr (refuse price (dn_bet_size dn) (edge_or_zero (dn_edge dn)) (Reason ''validation: Missing p_win_effective in TradeDecision'') None)
      | Some p_win \<Rightarrow>
          let d = (case dn_details dn of Some m \<Rightarrow> m | None \<Rightarrow> Map.empty);
              weighted = (d ''weighted_policy_mode'' = Some (VText ''WEIGHTED_ACTIVE''));
              min_edge = minimum_edge cfg asset_mode asset_min_edge d weighted price
          in bind_out (validated_edge pw cfg d weighted p_win price spread) (\<lambda>edge.
               if float_less edge min_edge
               then Inr (refuse price (dn_bet_size dn) edge (Reason (''validation: Edge below minimum (edge='' @ format_value 4 edge @
                      '' < min='' @ format_value 4 min_edge @ '')'')) None)
               else if \<not> (float_le (tc_trade_min_price cfg) price \<and> float_le price asset_max_price)
               then Inr (refuse price (dn_bet_size dn) edge (Out_of_bounds (Price_out_of_global price (tc_trade_min_price cfg) asset_max_price)) None)
               else let bet = validated_bet cfg d weighted edge min_edge in
                 if float_le bet (Finite 0) then Inr (refuse price bet edge (Reason ''validation: Bet size <= 0'') None)
                 else Inr (accept price bet edge role)))"

definition within_ct_limits :: "dec_value \<Rightarrow> bool" where
  "within_ct_limits ask \<longleftrightarrow> float_le (Finite (flt (1/100))) ask \<and> float_le ask (Finite (flt (2/5)))"

definition validate_fresh ::
  "(decimal \<Rightarrow> decimal \<Rightarrow> decimal) \<Rightarrow> trading_config \<Rightarrow> trade_decision \<Rightarrow> string \<Rightarrow> dec_value \<Rightarrow> dec_value \<Rightarrow> feed_prices \<Rightarrow> dec_value \<Rightarrow> dec_value
     \<Rightarrow> pre_trade outcome" where
  "validate_fresh pw cfg dn asset_mode asset_min_edge asset_max_price f ask mid =
     (let role = (if float_less mid (Finite (1/2)) then ''OUTSIDER'' else ''FAVORITE'');
          (spread, max_spread, ratio) = spread_check cfg f mid;
          no = (\<lambda>edge reason r. Inr (refuse (dn_buy_price dn) (dn_bet_size dn) edge (Reason reason) r));
          old_edge = edge_or_zero (dn_edge dn);
          drift = f_abs (f_sub ask (dn_buy_price dn)) in
      if dn_strategy_type dn = ''CT_OUTSIDER''
      then if \<not> within_ct_limits ask
           then no (Finite 0) (''validation: Fresh ask '' @ format_value 3 ask @ '' outside CT limits [0.01, 0.40]'') (Some ''OUTSIDER'')
           else Inr (accept (dn_buy_price dn) (py_min (dn_bet_size dn) (Finite 1)) (Finite 0) ''OUTSIDER'')
      else if float_less (Finite 0) max_spread \<and> float_less max_spread ratio
      then no old_edge (''validation: Spread '' @ format_value 4 spread @ '' / mid '' @ format_value 4 mid @ '' = '' @ format_value 4 ratio @
             '' > max '' @ format_value 4 max_spread) (Some role)
      else if dn_strategy_type dn = ''OUTSIDER'' \<and> role \<noteq> ''OUTSIDER''
      then no (Finite 0) ''validation: OUTSIDER strategy selected a favorite token'' None
      else if dn_strategy_type dn = ''ML_TREND'' \<and> role \<noteq> ''FAVORITE''
      then no (Finite 0) ''validation: ML_TREND selected an outsider token'' None
      else if float_less (tc_max_price_drift cfg) drift
      then no old_edge (''validation: Price drift too large: '' @ format_value 3 drift) None
      else case (case dn_details dn of Some d \<Rightarrow> detail_get d ''max_acceptable_price'' VNone | None \<Rightarrow> VNone) of
             VNone \<Rightarrow> validate_at_price pw cfg dn asset_mode asset_min_edge asset_max_price role spread ask
           | v \<Rightarrow> bind_out (float_arg v) (\<lambda>limit.
               if float_less limit ask
               then no old_edge (''validation: Fresh ask '' @ format_value 3 ask @ '' exceeded max_acceptable_price '' @ format_value 3 limit) None
               else validate_at_price pw cfg dn asset_mode asset_min_edge asset_max_price role spread ask))"

definition validate_pre_trade ::
  "(decimal \<Rightarrow> decimal \<Rightarrow> decimal) \<Rightarrow> (string \<Rightarrow> feed_prices option) \<Rightarrow> string \<Rightarrow> string \<Rightarrow> trade_decision option \<Rightarrow> trading_config \<Rightarrow> string
     \<Rightarrow> dec_value \<Rightarrow> dec_value \<Rightarrow> pre_trade outcome" where
  "validate_pre_trade pw feed yes_token no_token decision cfg asset_mode asset_min_edge asset_max_price =
     (case decision of
        None \<Rightarrow> Inr (refuse (Finite 0) (Finite 0) (Finite 0) (Reason ''validation: Decision is None'') None)
      | Some dn \<Rightarrow>
          if dn_action dn = ''SKIP'' then Inr (refuse (Finite 0) (Finite 0) (Finite 0) (dn_reason dn) None)
          else let side = (if dn_action dn = BUY_YES then ''YES'' else ''NO'');
                   missing = Inr (refuse (dn_buy_price dn) (dn_bet_size dn) (edge_or_zero (dn_edge dn))
                     (Reason (''validation: No fresh prices from API for '' @ asset_mode @ '' ('' @ side @ '')'')) None)
               in case feed (if side = ''YES'' then yes_token else no_token) of
                    None \<Rightarrow> missing
                  | Some f \<Rightarrow>
                      if fp_best_ask f = VNone then missing
                      else bind_out (float_arg (fp_best_ask f)) (\<lambda>ask.
                             bind_out (fresh_mid f ask) (\<lambda>mid.
                               validate_fresh pw cfg dn asset_mode asset_min_edge asset_max_price f ask mid)))"

section \<open>Finite inputs give finite edges\<close>

lemma f_mul_finite [simp]: "isfinite x \<Longrightarrow> isfinite y \<Longrightarrow> isfinite (f_mul x y)"
  and f_add_finite [simp]: "isfinite x \<Longrightarrow> isfinite y \<Longrightarrow> isfinite (f_add x y)"
  and f_sub_finite [simp]: "isfinite x \<Longrightarrow> isfinite y \<Longrightarrow> isfinite (f_sub x y)"
  and py_round_finite [simp]: "isfinite x \<Longrightarrow> isfinite (py_round n x)"
  by (cases x; cases y; simp add: f_sub_def)+

lemma economic_edge_finite:
  assumes "0 \<le> p" "p \<le> 1" "isfinite fee" "isfinite slip" "isfinite lat" "ask \<noteq> NotANumber"
  shows "isfinite (compute_economic_edge (Finite p) ask fee slip lat)"
proof (cases "float_le ask (Finite 0) \<or> float_le (Finite 1) ask")
  case True
  then show ?thesis by (simp add: compute_economic_edge_def)
next
  case False
  then obtain a where "ask = Finite a" "0 < a" "a < 1" using assms(6) by (cases ask) auto
  then show ?thesis using assms(1-5) by (simp add: compute_economic_edge_def net_ev_per_share_def Let_def)
qed

lemma float_le_of_not_less: "isfinite x \<Longrightarrow> y \<noteq> NotANumber \<Longrightarrow> \<not> float_less x y \<Longrightarrow> float_le y x"
  by (cases x; cases y) auto

section \<open>What an accepted order satisfies\<close>

definition is_weighted :: "trade_decision \<Rightarrow> bool" where
  "is_weighted dn \<longleftrightarrow> (case dn_details dn of Some d \<Rightarrow> d ''weighted_policy_mode'' = Some (VText ''WEIGHTED_ACTIVE'') | None \<Rightarrow> False)"

lemma accepted_at_price:
  assumes "validate_at_price pw cfg dn mode min_e max_p role spread price = Inr v" "pt_valid v"
  shows "\<exists>p. dn_p_win_effective dn = Some p \<and> pt_buy_price v = price \<and> pt_market_role v = Some role \<and>
    float_le (tc_trade_min_price cfg) price \<and> float_le price max_p \<and> \<not> float_le (pt_bet_size v) (Finite 0) \<and>
    (let d = (case dn_details dn of Some m \<Rightarrow> m | None \<Rightarrow> Map.empty); m = minimum_edge cfg mode min_e d (is_weighted dn) price in
     validated_edge pw cfg d (is_weighted dn) p price spread = Inr (pt_edge v) \<and> \<not> float_less (pt_edge v) m \<and>
     pt_bet_size v = validated_bet cfg d (is_weighted dn) (pt_edge v) m)"
proof -
  have w: "((case dn_details dn of Some m \<Rightarrow> m | None \<Rightarrow> Map.empty) ''weighted_policy_mode'' = Some (VText ''WEIGHTED_ACTIVE'')) = is_weighted dn"
    by (simp add: is_weighted_def split: option.split)
  show ?thesis using assms unfolding validate_at_price_def Let_def w
    by (auto simp: refuse_def accept_def split: option.splits if_splits sum.splits)
qed

lemma accepted_fresh:
  assumes "validate_fresh pw cfg dn mode min_e max_p f ask mid = Inr v" "pt_valid v" "dn_strategy_type dn \<noteq> ''CT_OUTSIDER''"
  shows "\<exists>role. validate_at_price pw cfg dn mode min_e max_p role (fst (spread_check cfg f mid)) ask = Inr v \<and>
    \<not> float_less (tc_max_price_drift cfg) (f_abs (f_sub ask (dn_buy_price dn))) \<and>
    (dn_strategy_type dn = ''OUTSIDER'' \<longrightarrow> float_less mid (Finite (1/2))) \<and>
    (dn_strategy_type dn = ''ML_TREND'' \<longrightarrow> \<not> float_less mid (Finite (1/2))) \<and>
    (\<forall>s. to_float (fp_current_spread f) = Some s \<longrightarrow> 0 < tc_max_spread_pct cfg \<longrightarrow>
       \<not> float_less (Finite (tc_max_spread_pct cfg)) (f_div (f_abs s) (py_max mid (Finite (flt (1 / 10 ^ 9)))))) \<and>
    (\<forall>d x limit. dn_details dn = Some d \<longrightarrow> d ''max_acceptable_price'' = Some x \<longrightarrow> x \<noteq> VNone \<longrightarrow> to_float x = Some limit \<longrightarrow> \<not> float_less limit ask)"
proof -
  obtain spread max_spread ratio where sc: "spread_check cfg f mid = (spread, max_spread, ratio)" by (cases "spread_check cfg f mid")
  define role where "role = (if float_less mid (Finite (1/2)) then ''OUTSIDER'' else ''FAVORITE'')"
  define limit_arg where "limit_arg = (case dn_details dn of Some d \<Rightarrow> detail_get d ''max_acceptable_price'' VNone | None \<Rightarrow> VNone)"
  note run = assms(1) [unfolded validate_fresh_def Let_def sc prod.case role_def [symmetric] limit_arg_def [symmetric]]
  have not_refused: "\<not> pt_valid (refuse a b c d e)" for a b c d e by (simp add: refuse_def)
  have s: "\<not> (float_less (Finite 0) max_spread \<and> float_less max_spread ratio)"
    and o: "\<not> (dn_strategy_type dn = ''OUTSIDER'' \<and> role \<noteq> ''OUTSIDER'')"
    and t: "\<not> (dn_strategy_type dn = ''ML_TREND'' \<and> role \<noteq> ''FAVORITE'')"
    and d: "\<not> float_less (tc_max_price_drift cfg) (f_abs (f_sub ask (dn_buy_price dn)))"
    using run assms(2,3) not_refused by (auto split: if_split_asm)
  have "(case limit_arg of VNone \<Rightarrow> validate_at_price pw cfg dn mode min_e max_p role spread ask
         | y \<Rightarrow> bind_out (float_arg y) (\<lambda>limit. if float_less limit ask
               then Inr (refuse (dn_buy_price dn) (dn_bet_size dn) (edge_or_zero (dn_edge dn)) (Reason (''validation: Fresh ask '' @ format_value 3 ask @ '' exceeded max_acceptable_price '' @ format_value 3 limit)) None)
               else validate_at_price pw cfg dn mode min_e max_p role spread ask)) = Inr v"
    using run s o t d assms(3) by (simp split: if_split_asm)
  then have "validate_at_price pw cfg dn mode min_e max_p role spread ask = Inr v \<and>
      (\<forall>limit. limit_arg \<noteq> VNone \<longrightarrow> to_float limit_arg = Some limit \<longrightarrow> \<not> float_less limit ask)"
    using assms(2) not_refused by (cases limit_arg) (auto simp: float_arg_def split: option.splits if_split_asm)
  moreover have "dn_details dn = Some m \<Longrightarrow> m ''max_acceptable_price'' = Some x \<Longrightarrow> limit_arg = x" for m x
    by (simp add: limit_arg_def detail_get_def)
  ultimately show ?thesis using s o t d sc
    by (intro exI [of _ role]) (auto simp: role_def spread_check_def split: if_splits option.splits)
qed


text \<open>
  A probability that is not a number is traded. \<open>compute_net_ev_per_share\<close> returns NaN for it "to prevent
  false-positive threshold passing", but the check that follows asks whether the edge is below the minimum,
  which NaN never is: with any price inside the bounds the order is accepted, whatever the minimum edge is, and
  with scaled bets its size is NaN as well.
\<close>

theorem nan_edge_is_accepted:
  assumes "0 < a" "a < 1" "dn_p_win_effective dn = Some NotANumber" "dn_details dn = None"
    "float_le (tc_trade_min_price cfg) (Finite a)" "float_le (Finite a) max_p" "float_less (Finite 0) (tc_bet_size cfg)"
    "tc_bet_sizing_mode cfg \<noteq> ''fixed'' \<longrightarrow> \<not> float_le (tc_max_bet_edge cfg) (minimum_edge cfg mode min_e Map.empty False (Finite a))"
  shows "\<exists>v. validate_at_price pw cfg dn mode min_e max_p role spread (Finite a) = Inr v \<and> pt_valid v \<and> pt_edge v = NotANumber \<and>
    pt_bet_size v = (if tc_bet_sizing_mode cfg = ''fixed'' then tc_bet_size cfg else NotANumber)"
proof -
  have e: "validated_edge pw cfg Map.empty False NotANumber (Finite a) spread = Inr NotANumber"
    using assms(1,2) by (simp add: validated_edge_def compute_economic_edge_def net_ev_per_share_def)
  have "\<not> float_le (tc_bet_size cfg) (Finite 0)" using assms(7) by (cases "tc_bet_size cfg") auto
  moreover have "validated_bet cfg Map.empty False NotANumber (minimum_edge cfg mode min_e Map.empty False (Finite a)) =
      (if tc_bet_sizing_mode cfg = ''fixed'' then tc_bet_size cfg else NotANumber)"
    using assms(8) by (simp add: validated_bet_def edge_scaled_NaN)
  ultimately show ?thesis using assms(3-6) e by (simp add: validate_at_price_def accept_def)
qed

text \<open>
  The stake of the weighted policy stays within its cap. Whatever multiplier the decision carries, the bet is
  a number between zero and the product of the fixed bet and the largest multiplier; a multiplier that is not a
  number counts as the largest one.
\<close>

theorem weighted_bet_capped:
  "\<exists>b. weighted_bet cfg d = Finite b \<and> 0 \<le> b \<and>
     (let fixed = max (flt (1/100)) (tc_weighted_fixed_bet_usdc cfg); top = flt (fixed * flt (max 0 (tc_weighted_size_cap_usdc cfg) / fixed)) in
      b \<le> top \<and> (d ''weighted_size_multiplier'' = Some (VNumber NotANumber) \<longrightarrow> b = top))"
proof -
  define fixed where "fixed = max (flt (1/100)) (tc_weighted_fixed_bet_usdc cfg)"
  have "0 < flt (1/100)" by simp
  then have pos: "0 < fixed" unfolding fixed_def by (rule less_max_iff_disj [THEN iffD2, OF disjI1])
  define m where "m = flt (max 0 (tc_weighted_size_cap_usdc cfg) / fixed)"
  have m: "0 \<le> m" using pos by (simp add: m_def)
  define x where "x = (case to_float (detail_get d ''weighted_size_multiplier'' (VNumber (Finite 1))) of Some x \<Rightarrow> x | None \<Rightarrow> Finite 1)"
  obtain k where k: "py_max (Finite 0) (py_min (Finite m) x) = Finite k" "0 \<le> k" "k \<le> m" using clamp_bounds [OF m] by blast
  have w: "weighted_bet cfg d = Finite (flt (fixed * k))"
    unfolding weighted_bet_def Let_def fixed_def [symmetric] x_def [symmetric] using pos k(1) by (simp add: m_def)
  have "flt (fixed * k) \<le> flt (fixed * m)" using k(3) pos by (intro flt_mono mult_left_mono) simp_all
  moreover have "0 \<le> flt (fixed * k)" using k(2) pos by simp
  moreover have "k = m" if "d ''weighted_size_multiplier'' = Some (VNumber NotANumber)"
    using that k(1) m by (simp add: x_def detail_get_def)
  ultimately show ?thesis using w by (auto simp: Let_def fixed_def m_def)
qed

section \<open>A sample order\<close>

definition sample_config :: trading_config where
  "sample_config = parse_trading_config no_env Map.empty"

definition sample_decision :: "dec_value \<Rightarrow> trade_decision" where
  "sample_decision p =
     \<lparr>dn_action = BUY_YES, dn_buy_price = Finite (1/4), dn_bet_size = Finite 10, dn_reason = Reason '''', dn_strategy_type = ''OUTSIDER'',
      dn_p_flip = None, dn_edge = None, dn_p_win_effective = Some p, dn_p_win_raw = None, dn_details = None\<rparr>"

definition sample_feed :: "string \<Rightarrow> feed_prices option" where
  "sample_feed token = Some \<lparr>fp_best_ask = VNumber (Finite (1/4)), fp_best_bid = VNone, fp_current_spread = VNone\<rparr>"

lemma sample_config_values:
  "tc_trade_min_price sample_config = Finite (flt (1/20))" "tc_bet_size sample_config = Finite 10"
  "tc_bet_sizing_mode sample_config = ''fixed''" "tc_max_price_drift sample_config = Finite (flt (3/100))"
  "tc_fee_rate sample_config = Finite 0" "tc_slippage_rate sample_config = Finite 0" "tc_outs_min_edge sample_config = flt (1/25)"
proof -
  have "\<bar>flt (1/25)\<bar> \<le> 1" "- 1 \<le> flt (1/25)" by code_simp+
  then show "tc_outs_min_edge sample_config = flt (1/25)"
    by (auto simp: sample_config_def parse_trading_config_def parse_fraction_setting_def parse_float_setting_def env_or_def no_env_def Let_def)
qed (simp_all add: sample_config_def parse_trading_config_def parse_float_setting_def env_or_def get_or_def no_env_def)

lemma sample_accepted:
  "validate_pre_trade pw sample_feed yes_token no_token (Some (sample_decision (Finite (1/2)))) sample_config ''combined'' (Finite 0) (Finite 1) =
     Inr (accept (Finite (1/4)) (Finite 10) (Finite (1/4)) ''OUTSIDER'')"
proof -
  have v: "flt (1/4) = 1/4" "round_float 8 (1/4) = 1/4" "\<not> 1 < flt (1/25) * 4" "flt (1/20) * 4 \<le> 1" by code_simp+
  have m: "minimum_edge sample_config ''combined'' (Finite 0) Map.empty False (Finite (1/4)) = Finite (flt (1/25))"
    by (simp add: minimum_edge_def get_min_edge_def sample_config_values)
  have e: "validated_edge pw sample_config Map.empty False (Finite (1/2)) (Finite (1/4)) s = Inr (Finite (1/4))" for s
    by (simp add: validated_edge_def compute_economic_edge_def net_ev_per_share_def sample_config_values f_sub_def v)
  have b: "validated_bet sample_config Map.empty False x y = Finite 10" for x y by (simp add: validated_bet_def sample_config_values)
  show ?thesis
    by (simp add: validate_pre_trade_def sample_feed_def sample_decision_def float_arg_def fresh_mid_def validate_fresh_def spread_check_def
        validate_at_price_def sample_config_values f_sub_def m e b v BUY_YES_def Let_def)
qed


theorem nan_edge_is_accepted_witness:
  "\<exists>v. validate_at_price (\<lambda>_ _. 0) sample_config (sample_decision NotANumber) ''combined'' (Finite 0) (Finite 1) ''OUTSIDER'' (Finite 0) (Finite (1/4)) = Inr v \<and>
     pt_valid v \<and> pt_edge v = NotANumber"
proof -
  have "flt (1/20) \<le> 1/4" by code_simp
  then have "float_le (tc_trade_min_price sample_config) (Finite (1/4))" by (simp add: sample_config_values)
  from nan_edge_is_accepted [OF _ _ _ _ this, where dn = "sample_decision NotANumber" and max_p = "Finite 1" and mode = "''combined''" and min_e = "Finite 0" and
      pw = "\<lambda>_ _. 0" and role = "''OUTSIDER''" and spread = "Finite 0"]
  show ?thesis by (auto simp: sample_decision_def sample_config_values)
qed

theorem weighted_bet_capped_witness:
  "\<exists>b. weighted_bet sample_config [''weighted_size_multiplier'' \<mapsto> VNumber NotANumber] = Finite b \<and>
     b = flt (max (flt (1/100)) (tc_weighted_fixed_bet_usdc sample_config) *
       flt (max 0 (tc_weighted_size_cap_usdc sample_config) / max (flt (1/100)) (tc_weighted_fixed_bet_usdc sample_config)))"
  using weighted_bet_capped [of sample_config "[''weighted_size_multiplier'' \<mapsto> VNumber NotANumber]"] by (auto simp: Let_def)

section \<open>The outsider decision\<close>

lemma skip_action [simp]: "dn_action (skip_decision r s p e) = ''SKIP''"
  by (simp add: skip_decision_def)

text \<open>
  What a BUY of the outsider strategy means. The token bought is the one the market holds less likely (NO when
  YES has at least one half), at its ask, which is positive and inside the configured bounds; the flip
  probability, lowered by the calibration error, is not below the threshold, the edge computed from it is not
  below the minimum, and the midpoint is outside the dead zone. If the market is still open, the time left is in
  the window.
\<close>

theorem outsider_buy_checked:
  assumes "dn_action (decide_outsider s p_flip cfg ece time_left) \<noteq> ''SKIP''" "float_less (Finite 0) time_left"
  shows "(let dn = decide_outsider s p_flip cfg ece time_left; fav = float_le FLIP_MIDPOINT (ms_mid_price s);
      ask = (if fav then get_no_ask s else get_yes_ask s); p = py_min p_flip (apply_ece_correction p_flip (Some ece)) in
    dn_action dn = (if fav then BUY_NO else BUY_YES) \<and> dn_buy_price dn = ask \<and> dn_strategy_type dn = ''OUTSIDER'' \<and>
    is_time_valid cfg time_left True = None \<and> is_price_valid cfg ask True = None \<and> \<not> float_le ask (Finite 0) \<and>
    \<not> is_in_dead_zone (ms_mid_price s) (tc_dead_zone cfg) \<and>
    dn_p_win_effective dn = Some (f_mul p (Finite (tc_outsider_pwin_discount cfg))) \<and>
    dn_edge dn = Some (compute_edge (f_mul p (Finite (tc_outsider_pwin_discount cfg))) ask) \<and>
    (tc_flip_threshold cfg \<le> 1 \<longrightarrow> \<not> float_less p (Finite (tc_flip_threshold cfg))) \<and>
    \<not> float_less (compute_edge (f_mul p (Finite (tc_outsider_pwin_discount cfg))) ask) (Finite (get_min_edge cfg True)) \<and>
    dn_bet_size dn = resolve_final_bet (compute_edge (f_mul p (Finite (tc_outsider_pwin_discount cfg))) ask) (ms_volume_5min s) cfg True \<and>
    (float_le (dn_bet_size dn) (Finite 0) \<longrightarrow> tc_bypass_bet_size_check cfg))"
proof (cases "is_time_valid cfg time_left True")
  case (Some r)
  then show ?thesis using assms by (simp add: decide_outsider_def)
next
  case None
  define fav where "fav = float_le FLIP_MIDPOINT (ms_mid_price s)"
  define ask where "ask = (if fav then get_no_ask s else get_yes_ask s)"
  define p where "p = py_min p_flip (apply_ece_correction p_flip (Some ece))"
  define edge where "edge = compute_edge (f_mul p (Finite (tc_outsider_pwin_discount cfg))) ask"
  define thr where "thr = (if 1 < tc_flip_threshold cfg then flt (tc_flip_threshold cfg / 100) else tc_flip_threshold cfg)"
  define bet where "bet = resolve_final_bet edge (ms_volume_5min s) cfg True"
  note D = decide_outsider_def [of s p_flip cfg ece time_left, unfolded None prod.case option.case Let_def, folded fav_def p_def thr_def,
      folded ask_def, folded edge_def, folded bet_def]
  have z: "\<not> is_in_dead_zone (ms_mid_price s) (tc_dead_zone cfg)" by (rule notI) (use assms(1) in \<open>simp add: D\<close>)
  have a: "\<not> float_le ask (Finite 0)" by (rule notI) (use assms(1) z in \<open>simp add: D\<close>)
  have t: "\<not> float_less p (Finite thr)" by (rule notI) (use assms(1) z a in \<open>simp add: D\<close>)
  have v: "is_price_valid cfg ask True = None" by (rule ccontr) (use assms(1) z a t in \<open>auto simp: D\<close>)
  have e: "\<not> float_less edge (Finite (get_min_edge cfg True))" by (rule notI) (use assms(1) z a t v in \<open>simp add: D\<close>)
  have b: "\<not> (float_le bet (Finite 0) \<and> \<not> tc_bypass_bet_size_check cfg)" by (rule notI) (use assms(1) z a t v e in \<open>simp add: D\<close>)
  have "tc_flip_threshold cfg \<le> 1 \<Longrightarrow> thr = tc_flip_threshold cfg" by (simp add: thr_def)
  then show ?thesis using t e b v a z None
    unfolding Let_def fav_def [symmetric] p_def [symmetric] ask_def [symmetric] edge_def [symmetric] bet_def [symmetric]
    by (auto simp: D)
qed

definition sample_market_signal :: market_signal where
  "sample_market_signal =
     \<lparr>ms_asset = ''BTC'', ms_mid_price = Finite (3/4), ms_spread = Finite 0, ms_volume_5min = Finite 0, ms_yes_bid = None, ms_yes_ask = None,
      ms_no_bid = None, ms_no_ask = Some (Finite (1/4))\<rparr>"

lemma sample_outsider_values:
  "tc_trade_max_price sample_config = Finite (flt (19/20))" "tc_outsider_max_price sample_config = Finite (flt (2/5))"
  "tc_dead_zone sample_config = Finite (flt (1/20))" "tc_outs_min_time_left sample_config = 30" "tc_outs_max_time_left sample_config = 300"
  "tc_flip_threshold sample_config = flt (3/5)" "tc_outsider_pwin_discount sample_config = flt (13/20)"
proof -
  have "\<bar>flt (3/5)\<bar> \<le> 1" "0 \<le> flt (3/5)" "\<bar>flt (13/20)\<bar> \<le> 1" "0 \<le> flt (13/20)" by code_simp+
  then show "tc_flip_threshold sample_config = flt (3/5)" "tc_outsider_pwin_discount sample_config = flt (13/20)"
    by (auto simp: sample_config_def parse_trading_config_def parse_fraction_setting_def parse_float_setting_def env_or_def no_env_def Let_def)
qed (simp_all add: sample_config_def parse_trading_config_def parse_float_setting_def parse_int_setting_def env_or_def no_env_def)

text \<open>The sample signal is bought for every flip probability that is not below the threshold, not being a number included.\<close>

lemma sample_buy:
  assumes "p_flip \<in> {Finite 1, NotANumber}" "time_left \<in> {Finite 0, Finite 60}"
  shows "dn_action (decide_outsider sample_market_signal p_flip sample_config (Finite 0) time_left) = BUY_NO"
proof -
  have n: "flt (1/4) = 1/4" "\<not> 1 < flt (1/20) / 2 * 4" "\<not> 1 < flt (3/5)" "flt (1/20) * 4 \<le> 1" "\<not> flt (2/5) * 4 < 1" "1 \<le> flt (19/20) * 4"
    "\<not> round_float 4 (flt (flt (13/20) - 1/4)) < flt (1/25)" "\<not> 1/4 < flt (flt (1/20) / 2)" by code_simp+
  have dz: "\<not> is_in_dead_zone (Finite (3/4)) (Finite (flt (1/20)))" using n(1,8) by (simp add: is_in_dead_zone_def FLIP_MIDPOINT_def f_sub_def)
  have ask: "get_no_ask sample_market_signal = Finite (1/4)" by (simp add: get_no_ask_def quote_or_def sample_market_signal_def)
  have fav: "float_le FLIP_MIDPOINT (ms_mid_price sample_market_signal)" by (simp add: FLIP_MIDPOINT_def sample_market_signal_def)
  have price: "is_price_valid sample_config (Finite (1/4)) True = None"
    using n(4-6) by (simp add: is_price_valid_def sample_config_values sample_outsider_values)
  have time: "(case (is_time_valid sample_config time_left True, float_less (Finite 0) time_left) of (Some r, True) \<Rightarrow> a r | _ \<Rightarrow> b) = b" for a b
    using assms(2) by (auto simp: is_time_valid_def sample_outsider_values split: option.split)
  have p: "py_min p_flip (apply_ece_correction p_flip (Some (Finite 0))) = p_flip" using assms(1) by (auto simp: apply_ece_correction_def)
  have bet: "resolve_final_bet e x sample_config True = Finite 10" for e x by (simp add: resolve_final_bet_def sample_config_values)
  have thr: "\<not> float_less p_flip (Finite (flt (3/5)))" using assms(1) n(3) by auto
  have edge: "\<not> float_less (compute_edge (f_mul p_flip (Finite (flt (13/20)))) (Finite (1/4))) (Finite (flt (1/25)))"
    using assms(1) n(7) by (auto simp: compute_edge_def f_sub_def)
  have dz': "\<not> is_in_dead_zone (ms_mid_price sample_market_signal) (tc_dead_zone sample_config)" using dz by (simp add: sample_market_signal_def sample_outsider_values)
  show ?thesis unfolding decide_outsider_def time p Let_def
    using dz' fav price thr edge n(3) by (simp add: ask sample_outsider_values sample_config_values get_min_edge_def bet)
qed

theorem outsider_buy_checked_witness:
  "dn_buy_price (decide_outsider sample_market_signal (Finite 1) sample_config (Finite 0) (Finite 60)) = Finite (1/4)"
proof -
  have "dn_action (decide_outsider sample_market_signal (Finite 1) sample_config (Finite 0) (Finite 60)) \<noteq> ''SKIP''"
    using sample_buy [of "Finite 1" "Finite 60"] by (simp add: BUY_NO_def)
  from outsider_buy_checked [OF this] show ?thesis
    by (simp add: FLIP_MIDPOINT_def sample_market_signal_def get_no_ask_def quote_or_def Let_def)
qed

text \<open>A market whose time is over or unknown is not skipped, although the reason for it exists.\<close>

theorem closed_market_is_bought:
  "is_time_valid sample_config (Finite 0) True = Some (Market_closed (Finite 0)) \<and>
   dn_action (decide_outsider sample_market_signal (Finite 1) sample_config (Finite 0) (Finite 0)) = BUY_NO"
  using sample_buy [of "Finite 1" "Finite 0"] by (simp add: is_time_valid_def)

text \<open>A flip probability that is not a number is bought.\<close>

theorem nan_flip_is_bought:
  "dn_action (decide_outsider sample_market_signal NotANumber sample_config (Finite 0) (Finite 60)) = BUY_NO"
  by (rule sample_buy) simp_all

end
