(* ===== verification/Ct_Policy.thy ===== *)
theory Ct_Policy
  imports Py_Float
begin

text \<open>
  The CT outsider strategy: \<open>trading/ct_policy.py\<close> (a pure decision on two quotes and a price history) and
  \<open>trading/ct_reservation.py\<close> (one decision per market, by an atomic insert). An observation is one of the three
  annotated kinds; for a mapping the model has the first of the alternative keys, with an unreadable time as a
  missing one. The classifier \<open>classify_local_regime\<close> (numpy) is an argument from prices to a result, \<open>None\<close> when
  it raises. The hash of the specification, the identifiers for the audit and the timing diagnostics, which no
  decision reads, are left out. Timestamps in seconds are floats of the microseconds, as in the source.
\<close>

section \<open>The specification and the history\<close>

record ct_spec =
  cs_spec_id :: string
  cs_asset :: string
  cs_window_min :: pyfloat
  cs_window_max :: pyfloat
  cs_price_min :: pyfloat
  cs_price_max :: pyfloat
  cs_history_window :: pyfloat
  cs_min_observations :: nat
  cs_required_signal :: string
  cs_max_purchase_cost :: pyfloat
  cs_parity_tolerance :: pyfloat
  cs_max_staleness :: pyfloat

definition BTC_CT_T5_V1_SPEC :: ct_spec where
  "BTC_CT_T5_V1_SPEC =
     \<lparr>cs_spec_id = ''BTC_CT_T5_V1'', cs_asset = ''BTC'', cs_window_min = 210, cs_window_max = 300, cs_price_min = flt (1/100),
      cs_price_max = flt (2/5), cs_history_window = 900, cs_min_observations = 3, cs_required_signal = ''REVERSION'',
      cs_max_purchase_cost = 1, cs_parity_tolerance = flt (1 / 10 ^ 4), cs_max_staleness = 15\<rparr>"

definition in_seconds :: "int \<Rightarrow> pyfloat" where
  "in_seconds us = flt (of_int us / 10 ^ 6)"

datatype observation =
    Snapshot (received_at: "time option") (recorded_at: "time option") (snapshot_price: py_any)
  | Stamped time py_any
  | Bare dec_value

text \<open>The time and price of an observation that can be used at all; a bare price counts as of the decision.\<close>

fun parse_observation :: "time \<Rightarrow> observation \<Rightarrow> (time \<times> pyfloat) option" where
  "parse_observation now (Snapshot rec t p) =
     (if (case rec of Some r \<Rightarrow> in_seconds now < in_seconds r | None \<Rightarrow> False) then None
      else case (t, to_float p) of (Some s, Some (Finite x)) \<Rightarrow> if 0 < x then Some (s, x) else None | _ \<Rightarrow> None)"
| "parse_observation now (Stamped t p) = (case to_float p of Some (Finite x) \<Rightarrow> if 0 < x then Some (t, x) else None | _ \<Rightarrow> None)"
| "parse_observation now (Bare v) = (case v of Finite x \<Rightarrow> if 0 < x then Some (now, x) else None | _ \<Rightarrow> None)"

definition in_window :: "pyfloat \<Rightarrow> time \<Rightarrow> time \<Rightarrow> bool" where
  "in_window window_sec now t \<longleftrightarrow> flt (in_seconds now - window_sec) \<le> in_seconds t \<and> in_seconds t \<le> in_seconds now"

definition causal :: "pyfloat \<Rightarrow> time \<Rightarrow> observation \<Rightarrow> bool" where
  "causal window_sec now ob \<longleftrightarrow> (case parse_observation now ob of Some (t, x) \<Rightarrow> in_window window_sec now t | None \<Rightarrow> False)"

definition usable_observations :: "pyfloat \<Rightarrow> time \<Rightarrow> observation list \<Rightarrow> (time \<times> pyfloat) list" where
  "usable_observations window_sec now obs =
     sort_key (\<lambda>(t, x). in_seconds t) (List.map_filter (\<lambda>ob. if causal window_sec now ob then parse_observation now ob else None) obs)"

datatype ct_status = VALID | INSUFFICIENT_HISTORY | INVALID_SERIES | CALCULATION_ERROR

fun status_name :: "ct_status \<Rightarrow> string" where
  "status_name VALID = ''VALID''"
| "status_name INSUFFICIENT_HISTORY = ''INSUFFICIENT_HISTORY''"
| "status_name INVALID_SERIES = ''INVALID_SERIES''"
| "status_name CALCULATION_ERROR = ''CALCULATION_ERROR''"

record ct_features =
  cf_efficiency_ratio :: dec_value
  cf_sign_change_freq :: dec_value
  cf_autocorr_lag1 :: dec_value
  cf_local_mean :: dec_value
  cf_local_std :: dec_value
  cf_slope_norm :: dec_value

type_synonym classifier = "pyfloat list \<Rightarrow> (string \<times> ct_features) option"

record ct_regime =
  cr_state :: string
  cr_status :: ct_status
  cr_features :: "ct_features option"
  cr_observations :: nat
  cr_first_obs :: "time option"
  cr_last_obs :: "time option"
  cr_prices :: "pyfloat list"

definition uncertain :: "ct_status \<Rightarrow> (time \<times> pyfloat) list \<Rightarrow> ct_regime" where
  "uncertain st xs =
     \<lparr>cr_state = ''UNCERTAIN'', cr_status = st, cr_features = None, cr_observations = length xs,
      cr_first_obs = (if xs = [] then None else Some (fst (hd xs))), cr_last_obs = (if xs = [] then None else Some (fst (last xs))),
      cr_prices = map snd xs\<rparr>"

definition compute_token_ct_regime :: "classifier \<Rightarrow> observation list \<Rightarrow> time \<Rightarrow> pyfloat \<Rightarrow> nat \<Rightarrow> ct_regime" where
  "compute_token_ct_regime classify obs now window_sec min_obs =
     (let xs = usable_observations window_sec now obs in
      if xs = [] then uncertain (if obs = [] then INSUFFICIENT_HISTORY else INVALID_SERIES) []
      else if length xs < min_obs then uncertain INSUFFICIENT_HISTORY xs
      else case classify (map snd xs) of
             None \<Rightarrow> uncertain CALCULATION_ERROR xs
           | Some (state, features) \<Rightarrow> (uncertain VALID xs)\<lparr>cr_state := state, cr_features := Some features\<rparr>)"

section \<open>Markets and quotes\<close>

record token_mapping =
  tm_market_id :: string
  tm_asset :: string
  tm_expiration :: time
  tm_up_token :: string
  tm_down_token :: string

definition no_token :: "string \<Rightarrow> bool" where
  "no_token s \<longleftrightarrow> strip s \<in> {'''', ''N/A'', ''None''}"

text \<open>\<open>validate\<close>: the error, if any.\<close>

definition validate_mapping :: "token_mapping \<Rightarrow> string option" where
  "validate_mapping m =
     (if strip (tm_market_id m) = [] then Some ''MISSING_MARKET_ID''
      else if no_token (tm_up_token m) then Some ''MISSING_UP_TOKEN_ID''
      else if no_token (tm_down_token m) then Some ''MISSING_DOWN_TOKEN_ID''
      else if tm_up_token m = tm_down_token m then Some ''AMBIGUOUS_TOKEN_MAPPING''
      else None)"

record ct_quote =
  cq_token :: string
  cq_bid :: "dec_value option"
  cq_ask :: "dec_value option"
  cq_mid :: "dec_value option"
  cq_event_at :: "time option"
  cq_received_at :: "time option"

definition compute_age_sec :: "ct_quote \<Rightarrow> time \<Rightarrow> pyfloat option" where
  "compute_age_sec q now =
     (case (case cq_event_at q of Some t \<Rightarrow> Some t | None \<Rightarrow> cq_received_at q) of
        None \<Rightarrow> None | Some t \<Rightarrow> Some (in_seconds (now - t)))"

fun unit_price :: "dec_value option \<Rightarrow> bool" where
  "unit_price (Some (Finite x)) \<longleftrightarrow> 0 < x \<and> x < 1"
| "unit_price _ \<longleftrightarrow> False"

text \<open>\<open>is_valid_for_decision\<close>: the error, if any.\<close>

definition quote_error :: "ct_quote \<Rightarrow> time \<Rightarrow> pyfloat \<Rightarrow> string option" where
  "quote_error q now max_staleness =
     (if \<not> unit_price (cq_mid q) then Some ''INVALID_MID_QUOTE''
      else if \<not> unit_price (cq_ask q) then Some ''INVALID_ASK_QUOTE''
      else if cq_bid q \<noteq> None \<and> \<not> unit_price (cq_bid q) then Some ''INVALID_BID_QUOTE''
      else if (case (cq_bid q, cq_ask q) of (Some b, Some a) \<Rightarrow> float_less a b | _ \<Rightarrow> False) then Some ''CROSSED_BOOK_QUOTE''
      else if cq_event_at q = None \<and> cq_received_at q = None then Some ''MISSING_QUOTE_TIMESTAMP''
      else if (case cq_received_at q of Some t \<Rightarrow> now < t | None \<Rightarrow> False)
      then Some ''FUTURE_QUOTE_DETECTED: FUTURE_QUOTE_RECEIVED: RECEIVED_IN_FUTURE''
      else if (case cq_event_at q of Some t \<Rightarrow> now < t | None \<Rightarrow> False) then Some ''FUTURE_QUOTE_DETECTED: EVENT_IN_FUTURE''
      else case compute_age_sec q now of
             None \<Rightarrow> Some ''MISSING_QUOTE_TIMESTAMP''
           | Some age \<Rightarrow> if age < 0 then Some ''FUTURE_QUOTE_DETECTED: NEGATIVE_AGE''
                         else if max_staleness < age then Some ''STALE_QUOTE'' else None)"

section \<open>The decision\<close>

datatype ct_side = UP | DOWN

record ct_decision =
  ct_action :: string
  ct_side :: "ct_side option"
  ct_token :: "string option"
  ct_reason :: string
  ct_time_left :: pyfloat
  ct_limit_price :: "pyfloat option"
  ct_budget :: pyfloat
  ct_selected_ask :: "pyfloat option"
  ct_selected_mid :: "pyfloat option"
  ct_selected_bid :: "pyfloat option"
  ct_other_mid :: "pyfloat option"
  ct_margin :: "pyfloat option"
  ct_regime_state :: string
  ct_executable :: bool

definition make_skip :: "ct_spec \<Rightarrow> string \<Rightarrow> pyfloat \<Rightarrow> ct_decision" where
  "make_skip spec reason time_left =
     \<lparr>ct_action = ''SKIP'', ct_side = None, ct_token = None, ct_reason = reason, ct_time_left = round_float 2 time_left, ct_limit_price = None,
      ct_budget = cs_max_purchase_cost spec, ct_selected_ask = None, ct_selected_mid = None, ct_selected_bid = None, ct_other_mid = None,
      ct_margin = None, ct_regime_state = ''NOT_EVALUATED'', ct_executable = False\<rparr>"

text \<open>A price of a quote that passed \<open>quote_error\<close>.\<close>

definition price_of :: "dec_value option \<Rightarrow> pyfloat" where
  "price_of v = (case v of Some (Finite x) \<Rightarrow> x | _ \<Rightarrow> 0)"

definition chosen_fields :: "ct_side \<Rightarrow> ct_quote \<Rightarrow> pyfloat \<Rightarrow> ct_decision \<Rightarrow> ct_decision" where
  "chosen_fields side q other d =
     d\<lparr>ct_side := Some side, ct_token := Some (cq_token q), ct_selected_ask := Some (price_of (cq_ask q)),
       ct_selected_mid := Some (price_of (cq_mid q)), ct_selected_bid := map_option (\<lambda>b. price_of (Some b)) (cq_bid q),
       ct_other_mid := Some other, ct_margin := Some (flt (other - price_of (cq_mid q)))\<rparr>"

definition decide_on_history ::
  "classifier \<Rightarrow> ct_spec \<Rightarrow> time \<Rightarrow> pyfloat \<Rightarrow> ct_side \<Rightarrow> ct_quote \<Rightarrow> pyfloat \<Rightarrow> observation list option \<Rightarrow> ct_decision" where
  "decide_on_history classify spec now time_left side q other history =
     (let skip = (\<lambda>reason. chosen_fields side q other (make_skip spec reason time_left)); ask = price_of (cq_ask q) in
      if \<not> (cs_price_min spec \<le> ask \<and> ask \<le> cs_price_max spec) then skip ''PRICE_FILTER''
      else case history of
        None \<Rightarrow> skip ''MISSING_TOKEN_HISTORY''
      | Some obs \<Rightarrow>
          if obs = [] then skip ''MISSING_TOKEN_HISTORY''
          else let r = compute_token_ct_regime classify obs now (cs_history_window spec) (cs_min_observations spec) in
            if cr_status r \<noteq> VALID then (skip (status_name (cr_status r)))\<lparr>ct_regime_state := ''UNCERTAIN''\<rparr>
            else if cr_state r \<noteq> cs_required_signal spec
            then (skip (''REGIME_NOT_REVERSION: '' @ cr_state r))\<lparr>ct_regime_state := cr_state r\<rparr>
            else (skip ''CT_SIGNAL_REVERSION'')\<lparr>ct_action := ''BUY'', ct_limit_price := Some ask, ct_regime_state := cr_state r, ct_executable := True\<rparr>)"

definition evaluate_ct_policy ::
  "classifier \<Rightarrow> ct_spec \<Rightarrow> time \<Rightarrow> token_mapping \<Rightarrow> ct_quote \<Rightarrow> ct_quote \<Rightarrow> observation list option \<Rightarrow> ct_decision" where
  "evaluate_ct_policy classify spec now m up down history =
     (case validate_mapping m of
        Some err \<Rightarrow> make_skip spec (''MAPPING_ERROR: '' @ err) 0
      | None \<Rightarrow>
          if upper (strip (tm_asset m)) \<noteq> upper (strip (cs_asset spec))
          then make_skip spec (''ASSET_MISMATCH: '' @ tm_asset m @ '' != '' @ cs_asset spec) 0
          else let time_left = in_seconds (tm_expiration m - now) in
            if \<not> (cs_window_min spec \<le> time_left \<and> time_left \<le> cs_window_max spec) then make_skip spec ''OUTSIDE_WINDOW'' time_left
            else case (quote_error up now (cs_max_staleness spec), quote_error down now (cs_max_staleness spec)) of
                   (Some e, _) \<Rightarrow> make_skip spec (''QUOTE_ERROR: '' @ e) time_left
                 | (None, Some e) \<Rightarrow> make_skip spec (''QUOTE_ERROR: '' @ e) time_left
                 | (None, None) \<Rightarrow>
                     let um = price_of (cq_mid up); dm = price_of (cq_mid down); diff = flt (um - dm); tol = cs_parity_tolerance spec in
                     if \<bar>diff\<bar> \<le> tol
                     then (make_skip spec ''PARITY'' time_left)\<lparr>ct_selected_mid := Some um, ct_other_mid := Some dm, ct_margin := Some 0\<rparr>
                     else if diff < - tol then decide_on_history classify spec now time_left UP up dm history
                     else decide_on_history classify spec now time_left DOWN down um history)"

text \<open>Line-item accounting of a scenario: shares, gross result, fee, net result, return.\<close>

record economics =
  ec_shares :: dec_value
  ec_gross :: dec_value
  ec_fee :: dec_value
  ec_net :: dec_value
  ec_return :: dec_value

definition calculate_scenario_economics :: "dec_value \<Rightarrow> string \<Rightarrow> dec_value \<Rightarrow> dec_value \<Rightarrow> economics" where
  "calculate_scenario_economics ask outcome budget fee_rate =
     (if float_le ask (Finite 0) \<or> \<not> isfinite ask
      then \<lparr>ec_shares = Finite 0, ec_gross = Finite 0, ec_fee = Finite 0, ec_net = Finite 0, ec_return = Finite 0\<rparr>
      else let target = Finite (if upper (strip outcome) \<in> {''WIN'', ''YES'', ''1''} then 1 else 0);
               shares = f_div budget ask; gross = f_mul shares (f_sub target ask); fee = f_mul budget fee_rate; net = f_sub gross fee
           in \<lparr>ec_shares = shares, ec_gross = gross, ec_fee = fee, ec_net = net,
               ec_return = (if float_less (Finite 0) budget then f_div net budget else Finite 0)\<rparr>)"

section \<open>Reservations\<close>

record ct_reservation =
  rv_key :: string
  rv_market_id :: string
  rv_spec_id :: string
  rv_action_ct :: string
  rv_decision_at :: time
  rv_side :: "string option"
  rv_limit_price :: "pyfloat option"
  rv_budget :: "pyfloat option"
  rv_reason_ct :: string
  rv_trade_id :: "int option"
  rv_details :: "(string \<rightharpoonup> py_any) option"
  rv_repeat_count :: int
  rv_last_repeat_at :: "time option"
  rv_created_at :: time

definition get_ct_decision_reservation :: "ct_reservation list \<Rightarrow> string \<Rightarrow> ct_reservation option" where
  "get_ct_decision_reservation rows key = List.find (\<lambda>r. rv_key r = key) rows"

text \<open>
  INSERT ... ON CONFLICT DO NOTHING, then the counter of repeats. The row passed in carries the values of the
  call; the details are those that survive the conversion to JSON.
\<close>

definition reserve_ct_decision :: "bool \<Rightarrow> time \<Rightarrow> ct_reservation \<Rightarrow> ct_reservation list \<Rightarrow> (bool \<times> ct_reservation option) \<times> ct_reservation list" where
  "reserve_ct_decision increment_on_conflict now row rows =
     (case get_ct_decision_reservation rows (rv_key row) of
        None \<Rightarrow>
          let new = row\<lparr>rv_repeat_count := 0, rv_last_repeat_at := None, rv_created_at := now\<rparr> in ((True, Some new), rows @ [new])
      | Some _ \<Rightarrow>
          let rows' = (if increment_on_conflict
                then map (\<lambda>r. if rv_key r = rv_key row then r\<lparr>rv_repeat_count := rv_repeat_count r + 1, rv_last_repeat_at := Some now\<rparr> else r) rows
                else rows)
          in ((False, get_ct_decision_reservation rows' (rv_key row)), rows'))"

text \<open>Several callers, one after the other in the order in which the database takes their inserts.\<close>

fun reserve_all :: "(bool \<times> time \<times> ct_reservation) list \<Rightarrow> ct_reservation list \<Rightarrow> bool list \<times> ct_reservation list" where
  "reserve_all [] rows = ([], rows)"
| "reserve_all ((inc, now, row) # calls) rows =
     (let ((won, _), rows') = reserve_ct_decision inc now row rows; (wins, rows'') = reserve_all calls rows' in (won # wins, rows''))"

definition decision_of :: "ct_reservation \<Rightarrow> ct_reservation" where
  "decision_of r = r\<lparr>rv_repeat_count := 0, rv_last_repeat_at := None\<rparr>"

section \<open>When the policy buys\<close>

definition fresh_quote :: "ct_quote \<Rightarrow> time \<Rightarrow> pyfloat \<Rightarrow> bool" where
  "fresh_quote q now max_age \<longleftrightarrow> unit_price (cq_mid q) \<and> unit_price (cq_ask q) \<and>
     (case cq_bid q of None \<Rightarrow> True | Some b \<Rightarrow> unit_price (Some b) \<and> price_of (Some b) \<le> price_of (cq_ask q)) \<and>
     (\<forall>t. cq_received_at q = Some t \<longrightarrow> t \<le> now) \<and> (\<forall>t. cq_event_at q = Some t \<longrightarrow> t \<le> now) \<and>
     (\<exists>age. compute_age_sec q now = Some age \<and> 0 \<le> age \<and> age \<le> max_age)"

lemma unit_price_cases: "unit_price v \<longleftrightarrow> (\<exists>x. v = Some (Finite x) \<and> 0 < x \<and> x < 1)"
  by (cases v rule: unit_price.cases) auto

lemma quote_error_None: "quote_error q now max_age = None \<longleftrightarrow> fresh_quote q now max_age"
proof -
  have age: "compute_age_sec q now = None \<longleftrightarrow> cq_event_at q = None \<and> cq_received_at q = None"
    by (auto simp: compute_age_sec_def split: option.split)
  have cross: "(case (cq_bid q, cq_ask q) of (Some b, Some a) \<Rightarrow> float_less a b | _ \<Rightarrow> False) \<longleftrightarrow>
      (case cq_bid q of None \<Rightarrow> False | Some b \<Rightarrow> price_of (cq_ask q) < price_of (Some b))"
    if "unit_price (cq_ask q)" "cq_bid q \<noteq> None \<longrightarrow> unit_price (cq_bid q)"
    using that by (auto simp: unit_price_cases price_of_def split: option.split)
  show ?thesis
  proof (cases "unit_price (cq_ask q) \<and> (cq_bid q \<noteq> None \<longrightarrow> unit_price (cq_bid q))")
    case True
    then show ?thesis using cross age unfolding quote_error_def fresh_quote_def
      by (auto split: option.splits simp: not_less)
  next
    case False
    then show ?thesis unfolding quote_error_def fresh_quote_def by (auto split: option.splits)
  qed
qed

lemma chosen_fields_skip [simp]:
  "ct_action (chosen_fields s q other d) = ct_action d" "ct_limit_price (chosen_fields s q other d) = ct_limit_price d"
  "ct_executable (chosen_fields s q other d) = ct_executable d" "ct_budget (chosen_fields s q other d) = ct_budget d"
  "ct_side (chosen_fields s q other d) = Some s" "ct_token (chosen_fields s q other d) = Some (cq_token q)"
  by (simp_all add: chosen_fields_def)

lemma make_skip_fields [simp]:
  "ct_action (make_skip spec r t) = ''SKIP''" "ct_limit_price (make_skip spec r t) = None" "\<not> ct_executable (make_skip spec r t)"
  "ct_budget (make_skip spec r t) = cs_max_purchase_cost spec" "ct_side (make_skip spec r t) = None" "ct_token (make_skip spec r t) = None"
  by (simp_all add: make_skip_def)

text \<open>The regime signal of a history.\<close>

definition signals :: "classifier \<Rightarrow> ct_spec \<Rightarrow> time \<Rightarrow> observation list option \<Rightarrow> bool" where
  "signals classify spec now history \<longleftrightarrow>
     (case history of None \<Rightarrow> False
      | Some obs \<Rightarrow>
          let xs = usable_observations (cs_history_window spec) now obs in
          xs \<noteq> [] \<and> cs_min_observations spec \<le> length xs \<and>
          (\<exists>features. classify (map snd xs) = Some (cs_required_signal spec, features)))"

lemma regime_signals:
  "obs \<noteq> [] \<Longrightarrow> (let r = compute_token_ct_regime classify obs now (cs_history_window spec) (cs_min_observations spec) in
     cr_status r = VALID \<and> cr_state r = cs_required_signal spec) \<longleftrightarrow> signals classify spec now (Some obs)"
  by (auto simp: compute_token_ct_regime_def signals_def uncertain_def Let_def split: option.split)

lemma usable_empty [simp]: "usable_observations w now [] = []"
  by (simp add: usable_observations_def)

lemma decide_on_history_buys:
  "(let d = decide_on_history classify spec now t side q other history; ask = price_of (cq_ask q);
       buy = (cs_price_min spec \<le> ask \<and> ask \<le> cs_price_max spec \<and> signals classify spec now history) in
    ct_action d = (if buy then ''BUY'' else ''SKIP'') \<and> ct_executable d = buy \<and> ct_limit_price d = (if buy then Some ask else None) \<and>
    ct_side d = Some side \<and> ct_token d = Some (cq_token q) \<and> ct_budget d = cs_max_purchase_cost spec)"
proof (cases history)
  case None
  then show ?thesis by (simp add: decide_on_history_def signals_def Let_def)
next
  case (Some obs)
  show ?thesis
  proof (cases "obs = []")
    case True
    then show ?thesis using Some by (simp add: decide_on_history_def signals_def Let_def)
  next
    case False
    then show ?thesis using regime_signals [OF False, of classify now spec] Some by (auto simp: decide_on_history_def Let_def)
  qed
qed

section \<open>Properties of the policy\<close>

text \<open>The conditions under which a side is bought: \<open>q\<close> is its quote, \<open>other\<close> that of the opposite side.\<close>

definition buys :: "classifier \<Rightarrow> ct_spec \<Rightarrow> time \<Rightarrow> token_mapping \<Rightarrow> ct_quote \<Rightarrow> ct_quote \<Rightarrow> observation list option \<Rightarrow> bool" where
  "buys classify spec now m q other history \<longleftrightarrow>
     validate_mapping m = None \<and> upper (strip (tm_asset m)) = upper (strip (cs_asset spec)) \<and>
     cs_window_min spec \<le> in_seconds (tm_expiration m - now) \<and> in_seconds (tm_expiration m - now) \<le> cs_window_max spec \<and>
     fresh_quote q now (cs_max_staleness spec) \<and> fresh_quote other now (cs_max_staleness spec) \<and>
     flt (price_of (cq_mid q) - price_of (cq_mid other)) < - cs_parity_tolerance spec \<and>
     cs_price_min spec \<le> price_of (cq_ask q) \<and> price_of (cq_ask q) \<le> cs_price_max spec \<and> signals classify spec now history"

lemma parity_swap:
  assumes "0 \<le> tol"
  shows "\<not> \<bar>flt (x - y)\<bar> \<le> tol \<Longrightarrow> \<not> flt (x - y) < - tol \<longleftrightarrow> flt (y - x) < - tol" "\<bar>flt (x - y)\<bar> \<le> tol \<longleftrightarrow> \<bar>flt (y - x)\<bar> \<le> tol"
    "\<bar>flt (x - y)\<bar> \<le> tol \<Longrightarrow> \<not> flt (x - y) < - tol"
proof -
  have "flt (y - x) = - flt (x - y)" using flt_minus [of "x - y"] by simp
  then show "\<not> \<bar>flt (x - y)\<bar> \<le> tol \<Longrightarrow> \<not> flt (x - y) < - tol \<longleftrightarrow> flt (y - x) < - tol" "\<bar>flt (x - y)\<bar> \<le> tol \<longleftrightarrow> \<bar>flt (y - x)\<bar> \<le> tol"
    "\<bar>flt (x - y)\<bar> \<le> tol \<Longrightarrow> \<not> flt (x - y) < - tol" using assms by auto
qed

text \<open>The decision in terms of \<open>buys\<close>, for both sides at once.\<close>

lemma evaluate_outcome:
  assumes "0 \<le> cs_parity_tolerance spec"
  shows "(let d = evaluate_ct_policy classify spec now m up down h; u = buys classify spec now m up down h; w = buys classify spec now m down up h in
    \<not> (u \<and> w) \<and> ct_action d = (if u \<or> w then ''BUY'' else ''SKIP'') \<and> ct_executable d = (u \<or> w) \<and>
    ct_limit_price d = (if u then Some (price_of (cq_ask up)) else if w then Some (price_of (cq_ask down)) else None) \<and>
    (u \<longrightarrow> ct_side d = Some UP \<and> ct_token d = Some (cq_token up)) \<and> (w \<longrightarrow> ct_side d = Some DOWN \<and> ct_token d = Some (cq_token down)) \<and>
    ct_budget d = cs_max_purchase_cost spec)"
proof -
  let ?tol = "cs_parity_tolerance spec" let ?um = "price_of (cq_mid up)" let ?dm = "price_of (cq_mid down)"
  let ?t = "in_seconds (tm_expiration m - now)"
  note swap = parity_swap [OF assms, of ?um ?dm] and swap' = parity_swap [OF assms, of ?dm ?um]
  define ready where "ready \<longleftrightarrow> validate_mapping m = None \<and> upper (strip (tm_asset m)) = upper (strip (cs_asset spec)) \<and>
    cs_window_min spec \<le> ?t \<and> ?t \<le> cs_window_max spec \<and> fresh_quote up now (cs_max_staleness spec) \<and> fresh_quote down now (cs_max_staleness spec)"
  show ?thesis
  proof (cases "ready \<and> \<not> \<bar>flt (?um - ?dm)\<bar> \<le> ?tol")
    case True
    have "quote_error up now (cs_max_staleness spec) = None" "quote_error down now (cs_max_staleness spec) = None"
      using True by (simp_all add: ready_def quote_error_None)
    with True have e: "evaluate_ct_policy classify spec now m up down h =
        (if flt (?um - ?dm) < - ?tol then decide_on_history classify spec now ?t UP up ?dm h else decide_on_history classify spec now ?t DOWN down ?um h)"
      by (simp add: ready_def evaluate_ct_policy_def Let_def)
    show ?thesis
    proof (cases "flt (?um - ?dm) < - ?tol")
      case low: True
      then have "\<not> flt (?dm - ?um) < - ?tol" using True swap by simp
      then show ?thesis using decide_on_history_buys [of classify spec now ?t UP up ?dm h] True low e
        by (auto simp: buys_def ready_def Let_def)
    next
      case high: False
      then have "flt (?dm - ?um) < - ?tol" using True swap by simp
      then show ?thesis using decide_on_history_buys [of classify spec now ?t DOWN down ?um h] True high e
        by (auto simp: buys_def ready_def Let_def)
    qed
  next
    case False
    have "buys classify spec now m up down h \<Longrightarrow> ready \<and> flt (?um - ?dm) < - ?tol"
      "buys classify spec now m down up h \<Longrightarrow> ready \<and> flt (?dm - ?um) < - ?tol" by (simp_all add: buys_def ready_def)
    then have n: "\<not> buys classify spec now m up down h" "\<not> buys classify spec now m down up h"
      using False swap(2,3) swap'(3) by blast+
    have "ct_action d = ''SKIP'' \<and> \<not> ct_executable d \<and> ct_limit_price d = None \<and> ct_budget d = cs_max_purchase_cost spec"
      if "d = evaluate_ct_policy classify spec now m up down h" for d
      using False unfolding that evaluate_ct_policy_def ready_def Let_def quote_error_None [symmetric]
      by (cases "validate_mapping m"; cases "upper (strip (tm_asset m)) = upper (strip (cs_asset spec))";
          cases "cs_window_min spec \<le> ?t \<and> ?t \<le> cs_window_max spec"; cases "quote_error up now (cs_max_staleness spec)";
          cases "quote_error down now (cs_max_staleness spec)"; simp)
    then show ?thesis using n by (simp add: Let_def)
  qed
qed

text \<open>
  C21: when the CT policy buys. It buys a side exactly when the market is mapped and of the right asset, the time
  left lies in the window, both quotes are valid and fresh, the side is the outsider by more than the
  tolerance, its ask lies in the price range and its history signals the required regime; it never buys both
  sides. The limit is the ask of that side, the budget the one of the specification, and only a BUY is
  executable.
\<close>

theorem ct_buys_exactly_when:
  assumes "0 \<le> cs_parity_tolerance spec"
  shows "(let d = evaluate_ct_policy classify spec now m up down history in
    (ct_action d = ''BUY'' \<longleftrightarrow> buys classify spec now m up down history \<or> buys classify spec now m down up history) \<and>
    (buys classify spec now m up down history \<longrightarrow> ct_side d = Some UP \<and> ct_token d = Some (cq_token up) \<and> ct_limit_price d = Some (price_of (cq_ask up))) \<and>
    (buys classify spec now m down up history \<longrightarrow> ct_side d = Some DOWN \<and> ct_token d = Some (cq_token down) \<and> ct_limit_price d = Some (price_of (cq_ask down))) \<and>
    (ct_executable d \<longleftrightarrow> ct_action d = ''BUY'') \<and> ct_budget d = cs_max_purchase_cost spec)"
  using evaluate_outcome [OF assms, of classify now m up down history] by (auto simp: Let_def)

definition swap_tokens :: "token_mapping \<Rightarrow> token_mapping" where
  "swap_tokens m = m\<lparr>tm_up_token := tm_down_token m, tm_down_token := tm_up_token m\<rparr>"

fun mirror_side :: "ct_side \<Rightarrow> ct_side" where
  "mirror_side UP = DOWN"
| "mirror_side DOWN = UP"

lemma buys_swap: "buys classify spec now (swap_tokens m) q other h = buys classify spec now m q other h"
  by (auto simp: buys_def swap_tokens_def validate_mapping_def)

text \<open>
  The CT policy treats UP and DOWN alike. Exchanging the two tokens and their quotes gives the same action,
  limit, budget and executability, and when it buys, the same token under the opposite name.
\<close>

theorem ct_policy_symmetric:
  assumes "0 \<le> cs_parity_tolerance spec"
  shows "(let d = evaluate_ct_policy classify spec now m up down history;
      d' = evaluate_ct_policy classify spec now (swap_tokens m) down up history in
    ct_action d' = ct_action d \<and> ct_limit_price d' = ct_limit_price d \<and> ct_budget d' = ct_budget d \<and> ct_executable d' = ct_executable d \<and>
    (ct_action d = ''BUY'' \<longrightarrow> ct_token d' = ct_token d \<and> ct_side d' = map_option mirror_side (ct_side d)))"
  using evaluate_outcome [OF assms, of classify now m up down history]
    evaluate_outcome [OF assms, of classify now "swap_tokens m" down up history]
  by (auto simp: Let_def buys_swap split: if_split_asm)


section \<open>One decision per market\<close>

lemma get_reservation_None: "get_ct_decision_reservation rows k = None \<longleftrightarrow> k \<notin> rv_key ` set rows"
  by (auto simp: get_ct_decision_reservation_def find_None_iff)

lemma reserve_step:
  assumes "reserve_ct_decision inc now row rows = ((won, res), rows')" "distinct (map rv_key rows)"
  shows "distinct (map rv_key rows') \<and> rv_key ` set rows' = insert (rv_key row) (rv_key ` set rows) \<and> (won \<longleftrightarrow> rv_key row \<notin> rv_key ` set rows) \<and>
    (\<forall>r\<in>set rows. \<exists>r'\<in>set rows'. decision_of r' = decision_of r \<and> rv_repeat_count r \<le> rv_repeat_count r')"
proof (cases "get_ct_decision_reservation rows (rv_key row)")
  case None
  then show ?thesis using assms get_reservation_None [of rows "rv_key row"] by (auto simp: reserve_ct_decision_def Let_def)
next
  case (Some x)
  define f :: "ct_reservation \<Rightarrow> ct_reservation" where "f = (\<lambda>r. if inc \<and> rv_key r = rv_key row then r\<lparr>rv_repeat_count := rv_repeat_count r + 1, rv_last_repeat_at := Some now\<rparr> else r)"
  have f: "rv_key (f r) = rv_key r" "decision_of (f r) = decision_of r" "rv_repeat_count r \<le> rv_repeat_count (f r)" for r
    by (simp_all add: f_def decision_of_def)
  have "rows' = map f rows" "\<not> won" using Some assms(1) by (auto simp: reserve_ct_decision_def f_def Let_def split: if_splits)
  moreover have "map rv_key (map f rows) = map rv_key rows" "rv_key ` f ` set rows = rv_key ` set rows" using f(1) by (auto simp: image_image)
  moreover have "rv_key row \<in> rv_key ` set rows" using Some get_reservation_None [of rows "rv_key row"] by auto
  ultimately show ?thesis using assms(2) f(2,3) by (auto simp: insert_absorb simp del: map_map)
qed

definition wins_for :: "string \<Rightarrow> bool list \<Rightarrow> (bool \<times> time \<times> ct_reservation) list \<Rightarrow> nat" where
  "wins_for k wins calls = length (filter (\<lambda>(won, inc, now, row). won \<and> rv_key row = k) (zip wins calls))"

text \<open>
  C19: one decision per market and specification. In whatever order the database takes the inserts of any number
  of callers, at most one of them is told that it is first for a key, exactly one if the key was free and
  somebody asked; the reservations that were there keep their decision unchanged, and only the counter of
  repeats grows.
\<close>

theorem ct_decision_reserved_once:
  assumes "distinct (map rv_key rows)" "reserve_all calls rows = (wins, rows')"
  shows "distinct (map rv_key rows') \<and> length wins = length calls \<and>
    wins_for k wins calls = (if k \<notin> rv_key ` set rows \<and> k \<in> (\<lambda>(inc, now, row). rv_key row) ` set calls then 1 else 0) \<and>
    (\<forall>r\<in>set rows. \<exists>r'\<in>set rows'. decision_of r' = decision_of r \<and> rv_repeat_count r \<le> rv_repeat_count r')"
  using assms
proof (induction calls arbitrary: rows wins)
  case Nil
  then show ?case by (auto simp: wins_for_def)
next
  case (Cons c calls)
  obtain inc now row where c: "c = (inc, now, row)" by (metis prod.exhaust)
  obtain won res mid where s: "reserve_ct_decision inc now row rows = ((won, res), mid)" by (metis prod.exhaust)
  obtain ws where w: "reserve_all calls mid = (ws, rows')" "wins = won # ws" using Cons.prems(2) s by (auto simp: c split: prod.splits)
  note step = reserve_step [OF s Cons.prems(1)]
  note IH = Cons.IH [OF conjunct1 [OF step] w(1)] step
  have "wins_for k wins ((inc, now, row) # calls) = (if won \<and> rv_key row = k then 1 else 0) + wins_for k ws calls"
    by (simp add: wins_for_def w(2))
  then have "wins_for k wins (c # calls) =
      (if k \<notin> rv_key ` set rows \<and> k \<in> (\<lambda>(inc, now, row). rv_key row) ` set (c # calls) then 1 else 0)"
    using IH by (auto simp: c)
  moreover have "\<exists>r'\<in>set rows'. decision_of r' = decision_of r \<and> rv_repeat_count r \<le> rv_repeat_count r'" if r: "r \<in> set rows" for r
  proof -
    obtain r1 where r1: "r1 \<in> set mid" "decision_of r1 = decision_of r" "rv_repeat_count r \<le> rv_repeat_count r1" using step r by blast
    then obtain r2 where "r2 \<in> set rows'" "decision_of r2 = decision_of r1" "rv_repeat_count r1 \<le> rv_repeat_count r2" using IH by blast
    with r1 show ?thesis by (intro bexI [of _ r2]) auto
  qed
  ultimately show ?case using IH w(2) by simp
qed

section \<open>A sample decision\<close>

definition ct_market :: token_mapping where
  "ct_market = \<lparr>tm_market_id = ''m'', tm_asset = ''btc'', tm_expiration = seconds 240, tm_up_token = ''u'', tm_down_token = ''d''\<rparr>"

definition ct_quote_at :: "string \<Rightarrow> rat \<Rightarrow> ct_quote" where
  "ct_quote_at token p = \<lparr>cq_token = token, cq_bid = None, cq_ask = Some (Finite p), cq_mid = Some (Finite p), cq_event_at = Some 0, cq_received_at = None\<rparr>"

definition always_reverts :: classifier where
  "always_reverts prices = Some (''REVERSION'', \<lparr>cf_efficiency_ratio = Finite 0, cf_sign_change_freq = Finite 1, cf_autocorr_lag1 = NotANumber,
     cf_local_mean = NotANumber, cf_local_std = NotANumber, cf_slope_norm = NotANumber\<rparr>)"

definition ct_history :: "observation list" where
  "ct_history = [Bare (Finite (1/4)), Stamped 0 (VNumber (Finite (1/4))), Snapshot None (Some 0) (VText ''0.25'')]"

lemma sample_ct_buy:
  "ct_action (evaluate_ct_policy always_reverts BTC_CT_T5_V1_SPEC 0 ct_market (ct_quote_at ''u'' (1/4)) (ct_quote_at ''d'' (3/4)) (Some ct_history)) = ''BUY''"
  by code_simp

lemma spec_tolerance: "0 \<le> cs_parity_tolerance BTC_CT_T5_V1_SPEC"
  by (simp add: BTC_CT_T5_V1_SPEC_def)

theorem ct_buys_exactly_when_witness:
  "buys always_reverts BTC_CT_T5_V1_SPEC 0 ct_market (ct_quote_at ''u'' (1/4)) (ct_quote_at ''d'' (3/4)) (Some ct_history) \<or>
   buys always_reverts BTC_CT_T5_V1_SPEC 0 ct_market (ct_quote_at ''d'' (3/4)) (ct_quote_at ''u'' (1/4)) (Some ct_history)"
  using ct_buys_exactly_when [OF spec_tolerance, of always_reverts 0 ct_market "ct_quote_at ''u'' (1/4)" "ct_quote_at ''d'' (3/4)" "Some ct_history"]
    sample_ct_buy by (simp add: Let_def)

theorem ct_policy_symmetric_witness:
  "ct_action (evaluate_ct_policy always_reverts BTC_CT_T5_V1_SPEC 0 (swap_tokens ct_market) (ct_quote_at ''d'' (3/4)) (ct_quote_at ''u'' (1/4)) (Some ct_history)) = ''BUY''"
  using ct_policy_symmetric [OF spec_tolerance, of always_reverts 0 ct_market "ct_quote_at ''u'' (1/4)" "ct_quote_at ''d'' (3/4)" "Some ct_history"]
    sample_ct_buy by (simp add: Let_def)


definition ct_row :: "string \<Rightarrow> string \<Rightarrow> ct_reservation" where
  "ct_row key action =
     \<lparr>rv_key = key, rv_market_id = ''m'', rv_spec_id = ''BTC_CT_T5_V1'', rv_action_ct = action, rv_decision_at = 0, rv_side = None,
      rv_limit_price = None, rv_budget = None, rv_reason_ct = '''', rv_trade_id = None, rv_details = None, rv_repeat_count = 0,
      rv_last_repeat_at = None, rv_created_at = 0\<rparr>"

theorem ct_decision_reserved_once_witness:
  "wins_for ''k'' (fst (reserve_all [(True, 1, ct_row ''k'' ''BUY''), (True, 2, ct_row ''k'' ''SKIP''), (False, 3, ct_row ''k'' ''BUY'')] []))
     [(True, 1, ct_row ''k'' ''BUY''), (True, 2, ct_row ''k'' ''SKIP''), (False, 3, ct_row ''k'' ''BUY'')] = 1"
proof -
  let ?calls = "[(True, 1, ct_row ''k'' ''BUY''), (True, 2, ct_row ''k'' ''SKIP''), (False, 3, ct_row ''k'' ''BUY'')]"
  have "distinct (map rv_key [])" by simp
  from ct_decision_reserved_once [OF this, of ?calls "fst (reserve_all ?calls [])" "snd (reserve_all ?calls [])" "''k''"]
  show ?thesis by (simp add: ct_row_def)
qed

end
