(* ===== verification/Market_Guards.thy ===== *)
theory Market_Guards
  imports Trading_Config
begin

text \<open>
  \<open>trading/market_guards.py\<close>: the checks before a market is evaluated. The rows of the trade history and the
  snapshots come in the order in which the database returns them; a comparison with NULL does not hold. The
  classifier of the price regime (numpy) is an argument, \<open>None\<close> when it raises.
\<close>

record history_row =
  hr_market_id :: string
  hr_status :: string
  hr_strategy_name :: "string option"
  hr_strategy_type :: "string option"

record guarded_market =
  gm_market_id :: string
  gm_asset :: string
  gm_yes_token :: "string option"
  gm_no_token :: "string option"

record guard_result =
  gr_passed :: bool
  gr_skip_reason :: "string option"
  gr_existing_skipped :: "history_row option"

definition ct_row_of :: "history_row \<Rightarrow> bool" where
  "ct_row_of r \<longleftrightarrow> hr_strategy_name r = Some ''BTC_CT_T5_V1'' \<or> hr_strategy_type r = Some ''CT_OUTSIDER''"

definition is_ct_mode :: "trading_config \<Rightarrow> string \<Rightarrow> bool" where
  "is_ct_mode cfg asset_mode \<longleftrightarrow> lower asset_mode \<in> {''ct_outsider'', ''ct''} \<or> lower (tc_trading_mode cfg) \<in> {''ct_outsider'', ''ct''}"

definition existing_skip :: "bool \<Rightarrow> guarded_market \<Rightarrow> history_row list \<Rightarrow> history_row option" where
  "existing_skip ct m rows =
     List.find (\<lambda>r. hr_market_id r = gm_market_id m \<and> hr_status r = ''SKIPPED'' \<and> (ct \<longrightarrow> ct_row_of r)) rows"

definition TRADED_STATUSES :: "string set" where
  "TRADED_STATUSES = {''SUCCESS'', ''LIVE'', ''FAILED'', ''PAPER'', ''SHADOW'', ''PENDING''}"

definition already_traded :: "bool \<Rightarrow> guarded_market \<Rightarrow> history_row list \<Rightarrow> bool" where
  "already_traded ct m rows \<longleftrightarrow>
     list_ex (\<lambda>r. hr_market_id r = gm_market_id m \<and> hr_status r \<in> TRADED_STATUSES \<and> ct_row_of r = ct) rows"

definition outside_window :: "trading_config \<Rightarrow> bool \<Rightarrow> dec_value \<Rightarrow> bool" where
  "outside_window cfg ct time_left \<longleftrightarrow>
     (let lo = (if ct then 210 else min (tc_favor_min_time_left cfg) (tc_outs_min_time_left cfg));
          hi = (if ct then 300 else max (tc_favor_max_time_left cfg) (tc_outs_max_time_left cfg))
      in \<not> (float_le (Finite (of_int lo)) time_left \<and> float_le time_left (Finite (of_int hi))))"

definition missing_token :: "string option \<Rightarrow> bool" where
  "missing_token t \<longleftrightarrow> t \<in> {None, Some '''', Some ''N/A''}"

text \<open>
  The regime guard, which strict favorites skip: with at least three prices of the last fifteen minutes the
  regime must be REVERSION; when the classification raises, the market passes.
\<close>

definition strictly_favorite :: "trading_config \<Rightarrow> bool option \<Rightarrow> bool" where
  "strictly_favorite cfg is_outsider \<longleftrightarrow>
     is_outsider = Some False \<or> is_outsider = None \<and> tc_trade_on_favorite cfg \<and> \<not> tc_trade_on_flip cfg"

definition recent_prices :: "time \<Rightarrow> (time \<times> pyfloat option) list \<Rightarrow> pyfloat list" where
  "recent_prices start snaps =
     List.map_filter (\<lambda>(t, p). if t \<le> start \<and> start - seconds 900 \<le> t then p else None) (sort_key fst snaps)"

definition regime_guard :: "(pyfloat list \<Rightarrow> string option) \<Rightarrow> trading_config \<Rightarrow> bool option \<Rightarrow> time \<Rightarrow> (time \<times> pyfloat option) list \<Rightarrow> string option" where
  "regime_guard classify cfg is_outsider start snaps =
     (if \<not> tc_require_reversion_regime cfg \<or> strictly_favorite cfg is_outsider then None
      else let prices = recent_prices start snaps in
        if length prices < 3 then None
        else case classify prices of None \<Rightarrow> None
             | Some state \<Rightarrow> if state \<noteq> ''REVERSION'' then Some (''guard: Non-reversion regime ('' @ state @ '' != REVERSION)'') else None)"

definition check_market_guards ::
  "(pyfloat list \<Rightarrow> string option) \<Rightarrow> history_row list \<Rightarrow> (time \<times> pyfloat option) list \<Rightarrow> guarded_market \<Rightarrow> trading_config \<Rightarrow> string
     \<Rightarrow> dec_value \<Rightarrow> time \<Rightarrow> bool option \<Rightarrow> guard_result" where
  "check_market_guards classify rows snaps m cfg asset_mode time_left start is_outsider =
     (let ct = is_ct_mode cfg asset_mode; skipped = existing_skip ct m rows;
          no = (\<lambda>reason. \<lparr>gr_passed = False, gr_skip_reason = Some reason, gr_existing_skipped = skipped\<rparr>) in
      if ct \<and> skipped \<noteq> None then no ''guard: Decision already recorded in window (SKIP)''
      else if float_le time_left (Finite 0) then no ''guard: Time left <= 0''
      else if outside_window cfg ct time_left then no ''guard: Outside time window''
      else if already_traded ct m rows then no ''guard: Trade already exists''
      else if (if ct then upper (gm_asset m) \<noteq> ''BTC'' else gm_asset m \<notin> set (tc_trade_assets cfg)) then no ''guard: Asset not in TRADE_ASSETS''
      else if missing_token (gm_yes_token m) \<or> missing_token (gm_no_token m) then no ''guard: Token IDs missing in DB''
      else case regime_guard classify cfg is_outsider start snaps of
             Some reason \<Rightarrow> no reason
           | None \<Rightarrow> \<lparr>gr_passed = True, gr_skip_reason = None, gr_existing_skipped = skipped\<rparr>)"

text \<open>
  When a market is evaluated. The guards pass exactly when the time left is positive and inside the window of
  the mode, no trade of the same strategy family exists for the market (trades of the CT strategy and of the
  others do not block each other), a CT market has no recorded skip, the asset is allowed, both tokens are
  known and the regime guard has no objection; otherwise a reason is given.
\<close>

theorem guards_pass_exactly_when:
  "(let ct = is_ct_mode cfg mode; g = check_market_guards classify rows snaps m cfg mode time_left start is_outsider in
    (gr_passed g \<longleftrightarrow> float_less (Finite 0) time_left \<and> \<not> outside_window cfg ct time_left \<and>
       (\<forall>r\<in>set rows. hr_market_id r = gm_market_id m \<and> hr_status r \<in> TRADED_STATUSES \<longrightarrow> ct_row_of r \<noteq> ct) \<and>
       (ct \<longrightarrow> (\<forall>r\<in>set rows. hr_market_id r = gm_market_id m \<and> hr_status r = ''SKIPPED'' \<longrightarrow> \<not> ct_row_of r)) \<and>
       (if ct then upper (gm_asset m) = ''BTC'' else gm_asset m \<in> set (tc_trade_assets cfg)) \<and>
       \<not> missing_token (gm_yes_token m) \<and> \<not> missing_token (gm_no_token m) \<and> regime_guard classify cfg is_outsider start snaps = None) \<and>
    (gr_passed g \<longleftrightarrow> gr_skip_reason g = None) \<and> gr_existing_skipped g = existing_skip ct m rows)"
proof -
  define ct where "ct = is_ct_mode cfg mode"
  define nt where "nt \<longleftrightarrow> (\<forall>r\<in>set rows. hr_market_id r = gm_market_id m \<and> hr_status r \<in> TRADED_STATUSES \<longrightarrow> ct_row_of r \<noteq> ct)"
  define ns where "ns \<longleftrightarrow> (\<forall>r\<in>set rows. hr_market_id r = gm_market_id m \<and> hr_status r = ''SKIPPED'' \<longrightarrow> \<not> ct_row_of r)"
  define asset_ok where "asset_ok \<longleftrightarrow> (if ct then upper (gm_asset m) = ''BTC'' else gm_asset m \<in> set (tc_trade_assets cfg))"
  have skip: "ct \<longrightarrow> (existing_skip ct m rows = None \<longleftrightarrow> ns)"
    by (auto simp: existing_skip_def find_None_iff ns_def)
  have traded: "already_traded ct m rows \<longleftrightarrow> \<not> nt"
    by (auto simp: already_traded_def list_ex_iff nt_def)
  have time: "\<not> outside_window cfg ct time_left \<longrightarrow> (float_less (Finite 0) time_left \<longleftrightarrow> \<not> float_le time_left (Finite 0))"
    by (cases time_left) (auto simp: outside_window_def Let_def)
  define g where "g = check_market_guards classify rows snaps m cfg mode time_left start is_outsider"
  note run = g_def [unfolded check_market_guards_def Let_def, folded ct_def]
  have "gr_existing_skipped g = existing_skip ct m rows" "gr_passed g \<longleftrightarrow> gr_skip_reason g = None"
    by (simp_all add: run split: option.split)
  moreover have "gr_passed g \<longleftrightarrow> \<not> (ct \<and> existing_skip ct m rows \<noteq> None) \<and> \<not> float_le time_left (Finite 0) \<and> \<not> outside_window cfg ct time_left \<and>
      \<not> already_traded ct m rows \<and> asset_ok \<and>
      \<not> missing_token (gm_yes_token m) \<and> \<not> missing_token (gm_no_token m) \<and> regime_guard classify cfg is_outsider start snaps = None"
    by (simp add: run asset_ok_def split: option.split)
  ultimately show ?thesis using skip traded time
    unfolding Let_def ct_def [symmetric] g_def [symmetric] nt_def [symmetric] ns_def [symmetric] asset_ok_def [symmetric] by argo
qed

theorem guards_pass_exactly_when_witness:
  "\<not> gr_passed (check_market_guards (\<lambda>_. None) [\<lparr>hr_market_id = ''m'', hr_status = ''FAILED'', hr_strategy_name = None, hr_strategy_type = None\<rparr>] []
      \<lparr>gm_market_id = ''m'', gm_asset = ''BTC'', gm_yes_token = Some ''y'', gm_no_token = Some ''n''\<rparr> (parse_trading_config no_env Map.empty) ''combined''
      (Finite 60) 0 None)"
proof -
  let ?cfg = "parse_trading_config no_env Map.empty"
  let ?row = "\<lparr>hr_market_id = ''m'', hr_status = ''FAILED'', hr_strategy_name = None, hr_strategy_type = None\<rparr>"
  have "tc_trading_mode ?cfg = ''combined''" by (simp add: parse_trading_config_def trading_mode_of_def get_or_def env_or_def no_env_def) code_simp
  moreover have "lower ''combined'' = ''combined''" by code_simp
  ultimately have "\<not> is_ct_mode ?cfg ''combined''" by (simp add: is_ct_mode_def)
  then show ?thesis
    using guards_pass_exactly_when [of ?cfg "''combined''" "\<lambda>_. None" "[?row]" "[]"
        "\<lparr>gm_market_id = ''m'', gm_asset = ''BTC'', gm_yes_token = Some ''y'', gm_no_token = Some ''n''\<rparr>" "Finite 60" 0 None]
    by (simp add: Let_def ct_row_of_def TRADED_STATUSES_def)
qed

end
