(* ===== verification/Policy_Artifact.thy ===== *)
theory Policy_Artifact
  imports Weighted_Policy Trading_Config "HOL-Library.List_Lexorder" "HOL-Library.Char_ord"
begin

text \<open>
  \<open>trading/policy_artifact.py\<close> and the part of \<open>trading/combined_voting.py\<close> that reads an artifact: the
  immutable file with the settings, the stacker and the tuned thresholds of a weighted policy, and the gate that
  decides whether the evidence is enough to trade with it. Reading the file (JSON, SHA-256) is the argument
  \<open>arts\<close>: the artifact found under a path, \<open>None\<close> when the source reports it as invalid. Values of the JSON
  document are \<open>py_any\<close>, true and false being the numbers 1 and 0; mappings and lists where a number is
  expected have no conversion. The scalar part does not hold keys of the stacker, and the keys that only
  telemetry reads are left out.
\<close>

section \<open>The artifact\<close>

text \<open>A threshold is one value or, for a time window, a list.\<close>

datatype threshold = Scalar py_any | Sequence "py_any list"

text \<open>The names (as texts) and the coefficients of a stacker; \<open>None\<close> where the source finds no mapping or no lists.\<close>

type_synonym stacker_payload = "(string list \<times> py_any list) option"

record stacker_segment =
  sg_key :: string
  sg_payload :: stacker_payload
  sg_training_markets :: py_any

record stacker_hierarchy =
  hi_global :: stacker_payload
  hi_min_segment_rows :: py_any
  hi_segments :: "stacker_segment list"

record policy_artifact =
  pa_artifact_id :: string
  pa_standard_error :: py_any
  pa_policy_config :: "string \<rightharpoonup> py_any"
  pa_model :: stacker_payload
  pa_hierarchical :: "stacker_hierarchy option"
  pa_thresholds :: "(string \<rightharpoonup> threshold) option"
  pa_selected_tuning :: "(string \<rightharpoonup> threshold) option"

section \<open>Runtime settings from an artifact\<close>

text \<open>\<open>int(value)\<close>; \<open>None\<close> where Python raises.\<close>

fun to_int :: "py_any \<Rightarrow> int option" where
  "to_int (VNumber (Finite x)) = Some (trunc x)"
| "to_int (VText s) = parse_int s"
| "to_int _ = None"

definition parse_coefficients :: "stacker_payload \<Rightarrow> pyfloat list option" where
  "parse_coefficients payload =
     (case payload of None \<Rightarrow> None
      | Some (names, cs) \<Rightarrow>
          (case usable_coefficients cs of None \<Rightarrow> None
           | Some xs \<Rightarrow> if names = STACKER_FEATURE_NAMES then Some xs else None))"

definition minimum_markets :: "stacker_hierarchy \<Rightarrow> int" where
  "minimum_markets h = (case to_int (hi_min_segment_rows h) of Some n \<Rightarrow> max 1 n | None \<Rightarrow> 1)"

definition segment_model :: "int \<Rightarrow> stacker_segment \<Rightarrow> (string \<times> pyfloat list) option" where
  "segment_model least s =
     (case (parse_coefficients (sg_payload s), to_int (sg_training_markets s)) of
        (Some xs, Some n) \<Rightarrow> if n < least then None else Some (sg_key s, xs)
      | _ \<Rightarrow> None)"

definition segment_models :: "stacker_hierarchy option \<Rightarrow> (string \<times> pyfloat list) list" where
  "segment_models h =
     (case h of None \<Rightarrow> []
      | Some h \<Rightarrow> sort_key fst (List.map_filter (segment_model (minimum_markets h)) (hi_segments h)))"

text \<open>The model itself, or else the global model of the hierarchy.\<close>

definition global_coefficients :: "policy_artifact \<Rightarrow> pyfloat list option" where
  "global_coefficients a =
     (case parse_coefficients (pa_model a) of
        Some xs \<Rightarrow> Some xs
      | None \<Rightarrow> (case pa_hierarchical a of Some h \<Rightarrow> parse_coefficients (hi_global h) | None \<Rightarrow> None))"

definition override :: "policy_artifact \<Rightarrow> string \<Rightarrow> py_any \<Rightarrow> py_any" where
  "override a key v = (case pa_policy_config a key of Some x \<Rightarrow> if x = VOther then v else x | None \<Rightarrow> v)"

text \<open>The text of a value; no number is a role or an application, so their texts are not told apart.\<close>

fun any_text :: "py_any \<Rightarrow> string option" where
  "any_text VNone = None"
| "any_text (VText s) = Some s"
| "any_text _ = Some ''OTHER''"

definition override_text :: "policy_artifact \<Rightarrow> string \<Rightarrow> string option \<Rightarrow> string option" where
  "override_text a key v = (case pa_policy_config a key of Some x \<Rightarrow> if x = VOther then v else any_text x | None \<Rightarrow> v)"

abbreviation numbers :: "pyfloat list \<Rightarrow> py_any list" where
  "numbers xs \<equiv> map (\<lambda>x. VNumber (Finite x)) xs"

definition weighted_policy_config_from_artifact :: "policy_artifact \<Rightarrow> policy_config \<Rightarrow> policy_config" where
  "weighted_policy_config_from_artifact a base =
     (let c = base\<lparr>pc_market_weight := override a ''market_weight'' (pc_market_weight base),
             pc_logreg_weight := override a ''logreg_weight'' (pc_logreg_weight base),
             pc_lgbm_weight := override a ''lgbm_weight'' (pc_lgbm_weight base),
             pc_mrf_beta := override a ''mrf_beta'' (pc_mrf_beta base),
             pc_models_agree_beta := override a ''models_agree_beta'' (pc_models_agree_beta base),
             pc_mrf_application := override_text a ''mrf_application'' (pc_mrf_application base),
             pc_intercept := override a ''intercept'' (pc_intercept base),
             pc_fee_rate := override a ''fee_rate'' (pc_fee_rate base),
             pc_maker_fee_rate := override a ''maker_fee_rate'' (pc_maker_fee_rate base),
             pc_fee_exponent := override a ''fee_exponent'' (pc_fee_exponent base),
             pc_slippage_rate := override a ''slippage_rate'' (pc_slippage_rate base),
             pc_latency_buffer := override a ''latency_buffer'' (pc_latency_buffer base),
             pc_execution_role := override_text a ''execution_role'' (pc_execution_role base),
             pc_mrf_extreme_veto_threshold := override a ''mrf_extreme_veto_threshold'' (pc_mrf_extreme_veto_threshold base)\<rparr>;
          c = (case global_coefficients a of None \<Rightarrow> c
               | Some xs \<Rightarrow> c\<lparr>pc_stacker_feature_names := STACKER_FEATURE_NAMES, pc_stacker_coefficients := numbers xs\<rparr>);
          segments = segment_models (pa_hierarchical a)
      in if segments = [] then c
         else c\<lparr>pc_stacker_segment_models := map (\<lambda>(key, xs). Some (key, numbers xs)) segments\<rparr>)"

section \<open>Tuned thresholds\<close>

type_synonym artifact_store = "string \<Rightarrow> policy_artifact option"

definition artifact_path :: "trading_config \<Rightarrow> string" where
  "artifact_path cfg = strip (tc_weighted_policy_artifact_path cfg)"

definition weighted_artifact :: "artifact_store \<Rightarrow> trading_config \<Rightarrow> policy_artifact option" where
  "weighted_artifact arts cfg = (if artifact_path cfg = [] then None else arts (artifact_path cfg))"

definition weighted_policy_id :: "artifact_store \<Rightarrow> trading_config \<Rightarrow> string" where
  "weighted_policy_id arts cfg =
     take 64 (case weighted_artifact arts cfg of
                Some a \<Rightarrow> pa_artifact_id a
              | None \<Rightarrow> if tc_weighted_policy_id cfg = [] then ''UNVERSIONED'' else tc_weighted_policy_id cfg)"

definition threshold_get :: "(string \<rightharpoonup> threshold) \<Rightarrow> string \<Rightarrow> threshold" where
  "threshold_get d key = (case d key of Some v \<Rightarrow> v | None \<Rightarrow> Scalar VNone)"

definition artifact_threshold :: "artifact_store \<Rightarrow> trading_config \<Rightarrow> string \<Rightarrow> threshold" where
  "artifact_threshold arts cfg key =
     (case weighted_artifact arts cfg of None \<Rightarrow> Scalar VNone
      | Some a \<Rightarrow>
          (case pa_thresholds a of None \<Rightarrow> Scalar VNone
           | Some main \<Rightarrow>
               if threshold_get main key \<noteq> Scalar VNone then threshold_get main key
               else case pa_selected_tuning a of Some tuned \<Rightarrow> threshold_get tuned key | None \<Rightarrow> Scalar VNone))"

fun threshold_float :: "threshold \<Rightarrow> dec_value option" where
  "threshold_float (Scalar v) = to_float v"
| "threshold_float (Sequence vs) = None"

text \<open>\<open>str(raw).strip().upper()\<close>; the empty text when there is no value.\<close>

fun threshold_text :: "threshold \<Rightarrow> string" where
  "threshold_text (Scalar v) = upper (strip (str_or_empty (any_text v)))"
| "threshold_text (Sequence vs) = ''OTHER''"

fun first_fraction :: "threshold list \<Rightarrow> pyfloat \<Rightarrow> pyfloat" where
  "first_fraction [] dflt = dflt"
| "first_fraction (t # ts) dflt =
     (case threshold_float t of
        Some (Finite x) \<Rightarrow> if 0 \<le> x \<and> x \<le> 1 then x else first_fraction ts dflt
      | _ \<Rightarrow> first_fraction ts dflt)"

definition weighted_min_net_ev :: "artifact_store \<Rightarrow> trading_config \<Rightarrow> bool \<Rightarrow> pyfloat" where
  "weighted_min_net_ev arts cfg is_outsider =
     first_fraction
       (map (artifact_threshold arts cfg)
          [if is_outsider then ''min_net_ev_outsider'' else ''min_net_ev_favorite'', ''min_net_ev''])
       (get_weighted_min_net_ev cfg is_outsider)"

definition weighted_tuned_price_cap :: "artifact_store \<Rightarrow> trading_config \<Rightarrow> bool \<Rightarrow> pyfloat option" where
  "weighted_tuned_price_cap arts cfg is_outsider =
     (case threshold_float (artifact_threshold arts cfg (if is_outsider then ''outsider_max_price'' else ''favorite_max_price'')) of
        Some (Finite x) \<Rightarrow> if 0 < x \<and> x < 1 then Some x else None
      | _ \<Rightarrow> None)"

definition weighted_tuned_time_window :: "artifact_store \<Rightarrow> trading_config \<Rightarrow> bool \<Rightarrow> (pyfloat \<times> pyfloat) option" where
  "weighted_tuned_time_window arts cfg is_outsider =
     (case artifact_threshold arts cfg (if is_outsider then ''time_left_outsider'' else ''time_left_favorite'') of
        Sequence [a, b] \<Rightarrow>
          (case (to_float a, to_float b) of
             (Some (Finite lo), Some (Finite hi)) \<Rightarrow> if lo < 0 \<or> hi < lo then None else Some (lo, hi)
           | _ \<Rightarrow> None)
      | _ \<Rightarrow> None)"

definition weighted_tuned_mrf_beta :: "artifact_store \<Rightarrow> trading_config \<Rightarrow> pyfloat option" where
  "weighted_tuned_mrf_beta arts cfg =
     (case threshold_float (artifact_threshold arts cfg ''mrf_beta'') of
        Some (Finite x) \<Rightarrow> if 10 < \<bar>x\<bar> then None else Some x
      | _ \<Rightarrow> None)"

definition normal_application :: "string \<Rightarrow> string option" where
  "normal_application s =
     (if s \<in> {''PROBABILITY'', ''PROBABILITY_ADJUSTMENT''} then Some ''PROBABILITY''
      else if s \<in> {''STAKE'', ''STAKE_ADJUSTMENT''} then Some ''STAKE'' else None)"

definition weighted_tuned_mrf_application :: "artifact_store \<Rightarrow> trading_config \<Rightarrow> string option" where
  "weighted_tuned_mrf_application arts cfg = normal_application (threshold_text (artifact_threshold arts cfg ''mrf_application''))"

definition weighted_outsider_agreement_mode :: "artifact_store \<Rightarrow> trading_config \<Rightarrow> string option" where
  "weighted_outsider_agreement_mode arts cfg =
     (let mode = threshold_text (artifact_threshold arts cfg ''outsider_agreement'')
      in if mode \<in> {''FULL_WEIGHTED_MRF'', ''OUTSIDER_AGREE_ONLY''} then Some mode else None)"

definition apply_artifact_tuning :: "artifact_store \<Rightarrow> trading_config \<Rightarrow> policy_config \<Rightarrow> policy_config" where
  "apply_artifact_tuning arts cfg c =
     (let c = (case weighted_tuned_mrf_beta arts cfg of Some b \<Rightarrow> c\<lparr>pc_mrf_beta := VNumber (Finite b)\<rparr> | None \<Rightarrow> c)
      in case weighted_tuned_mrf_application arts cfg of Some m \<Rightarrow> c\<lparr>pc_mrf_application := Some m\<rparr> | None \<Rightarrow> c)"

text \<open>The uncertainty of the model: measured out of fold, else configured, else unknown.\<close>

definition weighted_standard_error :: "trading_config \<Rightarrow> policy_artifact option \<Rightarrow> pyfloat option" where
  "weighted_standard_error cfg a =
     (let configured = tc_weighted_standard_error cfg;
          fallback = (if 0 < configured then Some (min (1/2) configured)
                      else if a = None \<and> configured = 0 then Some 0 else None)
      in case map_option (to_float \<circ> pa_standard_error) a of
           Some (Some (Finite x)) \<Rightarrow> if 0 \<le> x then Some (min (1/2) x) else fallback
         | _ \<Rightarrow> fallback)"

section \<open>What a runtime may rely on\<close>

text \<open>The tuned numbers are in their ranges, whatever the file holds.\<close>

lemma first_fraction_bounds: "first_fraction ts dflt = dflt \<or> 0 \<le> first_fraction ts dflt \<and> first_fraction ts dflt \<le> 1"
  by (induction ts) (auto split: option.splits dec_value.splits)

text \<open>
  The thresholds read from an artifact are in their ranges, whatever the file holds: the least expected profit
  is a fraction or the configured one, the price cap lies strictly between 0 and 1, the time window is ordered
  and starts at 0 or later, the weight of the evidence is at most 10, and the standard error is between 0 and
  one half, unless a negative one is configured, which counts as unknown.
\<close>

theorem tuned_thresholds_bounded:
  "(weighted_min_net_ev arts cfg b = get_weighted_min_net_ev cfg b \<or>
      0 \<le> weighted_min_net_ev arts cfg b \<and> weighted_min_net_ev arts cfg b \<le> 1) \<and>
   (case weighted_tuned_price_cap arts cfg b of Some x \<Rightarrow> 0 < x \<and> x < 1 | None \<Rightarrow> True) \<and>
   (case weighted_tuned_time_window arts cfg b of Some (lo, hi) \<Rightarrow> 0 \<le> lo \<and> lo \<le> hi | None \<Rightarrow> True) \<and>
   (case weighted_tuned_mrf_beta arts cfg of Some x \<Rightarrow> \<bar>x\<bar> \<le> 10 | None \<Rightarrow> True) \<and>
   (case weighted_standard_error cfg a of Some x \<Rightarrow> 0 \<le> x \<and> x \<le> 1/2 | None \<Rightarrow> True)"
proof (intro conjI)
  show "weighted_min_net_ev arts cfg b = get_weighted_min_net_ev cfg b \<or>
      0 \<le> weighted_min_net_ev arts cfg b \<and> weighted_min_net_ev arts cfg b \<le> 1"
    unfolding weighted_min_net_ev_def by (rule first_fraction_bounds)
  show "case weighted_tuned_price_cap arts cfg b of Some x \<Rightarrow> 0 < x \<and> x < 1 | None \<Rightarrow> True"
    by (auto simp: weighted_tuned_price_cap_def split: option.splits dec_value.splits)
  show "case weighted_tuned_time_window arts cfg b of Some (lo, hi) \<Rightarrow> 0 \<le> lo \<and> lo \<le> hi | None \<Rightarrow> True"
    by (auto simp: weighted_tuned_time_window_def split: option.splits dec_value.splits threshold.splits list.splits)
  show "case weighted_tuned_mrf_beta arts cfg of Some x \<Rightarrow> \<bar>x\<bar> \<le> 10 | None \<Rightarrow> True"
    by (auto simp: weighted_tuned_mrf_beta_def split: option.splits dec_value.splits)
  show "case weighted_standard_error cfg a of Some x \<Rightarrow> 0 \<le> x \<and> x \<le> 1/2 | None \<Rightarrow> True"
    by (auto simp: weighted_standard_error_def Let_def split: option.splits dec_value.splits)
qed

text \<open>
  A trained model is used only as the benchmark exports it: ten finite coefficients in the order of the feature
  contract, the market with weight one. A segment is used only with enough markets behind it.
\<close>

definition trained_stacker :: "py_any list \<Rightarrow> bool" where
  "trained_stacker cs \<longleftrightarrow>
     (\<exists>xs. cs = numbers xs \<and> length xs = length STACKER_FEATURE_NAMES \<and> \<bar>flt (xs ! 1 - 1)\<bar> \<le> flt (1 / 10 ^ 6))"

lemma parse_coefficients_trained: "parse_coefficients p = Some xs \<Longrightarrow> trained_stacker (numbers xs)"
  by (auto simp: parse_coefficients_def usable_coefficients_def trained_stacker_def split: option.splits if_splits prod.splits)

lemma global_coefficients_trained: "global_coefficients a = Some xs \<Longrightarrow> trained_stacker (numbers xs)"
  by (auto simp: global_coefficients_def split: option.splits dest: parse_coefficients_trained)

lemma segment_modelD:
  "segment_model least s = Some (key, xs) \<Longrightarrow>
     key = sg_key s \<and> trained_stacker (numbers xs) \<and> (\<exists>n. to_int (sg_training_markets s) = Some n \<and> least \<le> n)"
  by (auto simp: segment_model_def split: option.splits if_splits dest: parse_coefficients_trained)

lemma segment_models_member:
  assumes "(key, xs) \<in> set (segment_models h)"
  shows "trained_stacker (numbers xs) \<and> (\<exists>s n. s \<in> set (case h of Some h \<Rightarrow> hi_segments h | None \<Rightarrow> []) \<and> key = sg_key s \<and>
    to_int (sg_training_markets s) = Some n \<and> 1 \<le> n)"
proof (cases h)
  case None then show ?thesis using assms by (simp add: segment_models_def)
next
  case (Some h')
  then obtain s where s: "s \<in> set (hi_segments h')" "segment_model (minimum_markets h') s = Some (key, xs)"
    using assms by (auto simp: segment_models_def List.map_filter_def)
  moreover have "1 \<le> minimum_markets h'" by (simp add: minimum_markets_def split: option.split)
  ultimately show ?thesis using Some segment_modelD [OF s(2)] by fastforce
qed

theorem artifact_stacker_trained:
  fixes a :: policy_artifact and base :: policy_config
  assumes "pc_stacker_feature_names base = []" "pc_stacker_coefficients base = []" "pc_stacker_segment_models base = []"
  defines "c \<equiv> weighted_policy_config_from_artifact a base"
  shows "(pc_stacker_feature_names c = [] \<and> pc_stacker_coefficients c = [] \<or>
      pc_stacker_feature_names c = STACKER_FEATURE_NAMES \<and> trained_stacker (pc_stacker_coefficients c)) \<and>
    (\<forall>m\<in>set (pc_stacker_segment_models c). \<exists>key cs. m = Some (key, cs) \<and> trained_stacker cs \<and>
      (\<exists>h s n. pa_hierarchical a = Some h \<and> s \<in> set (hi_segments h) \<and> sg_key s = key \<and>
        to_int (sg_training_markets s) = Some n \<and> 1 \<le> n))"
proof -
  have names: "pc_stacker_feature_names c = (if global_coefficients a = None then [] else STACKER_FEATURE_NAMES)"
    using assms(1) by (auto simp: c_def weighted_policy_config_from_artifact_def Let_def split: option.split)
  have coeffs: "pc_stacker_coefficients c = (case global_coefficients a of None \<Rightarrow> [] | Some xs \<Rightarrow> numbers xs)"
    using assms(2) by (auto simp: c_def weighted_policy_config_from_artifact_def Let_def split: option.split)
  have segs: "pc_stacker_segment_models c = map (\<lambda>(key, xs). Some (key, numbers xs)) (segment_models (pa_hierarchical a))"
    using assms(3) by (auto simp: c_def weighted_policy_config_from_artifact_def Let_def split: option.split)
  have global: "pc_stacker_feature_names c = [] \<and> pc_stacker_coefficients c = [] \<or>
      pc_stacker_feature_names c = STACKER_FEATURE_NAMES \<and> trained_stacker (pc_stacker_coefficients c)"
    unfolding names coeffs by (cases "global_coefficients a") (simp_all add: global_coefficients_trained)
  have seg: "\<exists>key cs. m = Some (key, cs) \<and> trained_stacker cs \<and>
      (\<exists>h s n. pa_hierarchical a = Some h \<and> s \<in> set (hi_segments h) \<and> sg_key s = key \<and> to_int (sg_training_markets s) = Some n \<and> 1 \<le> n)"
    if "m \<in> set (pc_stacker_segment_models c)" for m
  proof -
    from that obtain key xs where m: "m = Some (key, numbers xs)" "(key, xs) \<in> set (segment_models (pa_hierarchical a))"
      unfolding segs by auto
    from segment_models_member [OF m(2)] m(1) show ?thesis by (cases "pa_hierarchical a") auto
  qed
  from global seg show ?thesis by blast
qed

end
