(* ===== verification/Combined_Voting.thy ===== *)
theory Combined_Voting
  imports Policy_Artifact Trade_Decision
begin

text \<open>
  The first half of \<open>trading/combined_voting.py\<close>: the votes of the two models and their consensus, the discount
  for an unsure direction, the selection and the stake of the weighted policy, and the counterfactual arms that
  the shadow mode records. A dictionary of results is a record; a reason is a text or the numbers its text shows.
\<close>

section \<open>The input of a decision\<close>

text \<open>
  \<open>CryptoSignal\<close> without the fields that are only copied into the result, and the arguments of
  \<open>evaluate_combined_entry\<close>, which both entry points pass on unchanged.
\<close>

record crypto_signal =
  cg_symbol :: string
  cg_p_up :: "dec_value option"
  cg_p_down :: "dec_value option"
  cg_direction :: "string option"
  cg_model_version :: "int option"
  cg_features_ok :: bool
  cg_risk_vetoed :: bool
  cg_risk_reason :: string
  cg_regime :: string
  cg_status :: string

record entry_input =
  ei_signal :: crypto_signal
  ei_market_phase :: string
  ei_entry_model_key :: "string option"
  ei_entry_model_source :: string
  ei_p_flip :: "dec_value option"
  ei_fresh_yes_price :: dec_value
  ei_yes_ask :: "dec_value option"
  ei_no_ask :: "dec_value option"
  ei_cost_buffer :: dec_value
  ei_volume_5min :: dec_value
  ei_time_left :: dec_value
  ei_entry_model_ece :: dec_value
  ei_flip_threshold :: py_any
  ei_mrf_evidence :: py_any
  ei_fee_rate :: "dec_value option"
  ei_maker_fee_rate :: "dec_value option"
  ei_taker_only :: bool
  ei_fee_exponent :: "dec_value option"
  ei_fee_source :: string
  ei_spread :: "dec_value option"
  ei_spread_cost :: "dec_value option"
  ei_yes_bid :: "dec_value option"
  ei_no_bid :: "dec_value option"
  ei_yes_bid_size :: "dec_value option"
  ei_yes_ask_size :: "dec_value option"
  ei_no_bid_size :: "dec_value option"
  ei_no_ask_size :: "dec_value option"

fun any_of :: "dec_value option \<Rightarrow> py_any" where
  "any_of (Some x) = VNumber x"
| "any_of None = VNone"

text \<open>\<open>x or 0.0\<close>.\<close>

definition or_zero :: "dec_value option \<Rightarrow> dec_value" where
  "or_zero x = (case x of Some v \<Rightarrow> v | None \<Rightarrow> Finite 0)"

abbreviation num :: "pyfloat \<Rightarrow> py_any" where
  "num x \<equiv> VNumber (Finite x)"

section \<open>Votes\<close>

definition yes_is_favorite :: "dec_value \<Rightarrow> bool" where
  "yes_is_favorite fresh \<longleftrightarrow> float_le (Finite (1/2)) fresh"

definition logreg_direction_vote :: "dec_value option \<Rightarrow> dec_value \<Rightarrow> dec_value \<Rightarrow> dec_value \<Rightarrow> string" where
  "logreg_direction_vote p_flip fresh flip_threshold abstain_band =
     (case p_flip of None \<Rightarrow> ''ABSTAIN''
      | Some p \<Rightarrow>
          if float_less (f_abs (f_sub p flip_threshold)) abstain_band then ''ABSTAIN''
          else if float_less flip_threshold p then (if yes_is_favorite fresh then BUY_NO else BUY_YES)
          else (if yes_is_favorite fresh then BUY_YES else BUY_NO))"

record direction_consensus =
  dc_final_side :: string
  dc_type :: string
  dc_reason :: string

definition lgbm_side_of :: "string \<Rightarrow> string" where
  "lgbm_side_of vote = (if vote = ''UP'' then BUY_YES else if vote = ''DOWN'' then BUY_NO else ''ABSTAIN'')"

definition resolve_direction_consensus :: "string \<Rightarrow> string \<Rightarrow> bool \<Rightarrow> bool \<Rightarrow> direction_consensus" where
  "resolve_direction_consensus lgbm_vote lr_vote require_consensus fallback =
     (let side = lgbm_side_of lgbm_vote;
          dc = (\<lambda>s t r. \<lparr>dc_final_side = s, dc_type = t, dc_reason = r\<rparr>);
          conflict = ''LGBM='' @ side @ '', LR='' @ lr_vote in
      if require_consensus then
        (if side = ''ABSTAIN'' \<and> lr_vote = ''ABSTAIN'' then dc ''SKIP'' ''BOTH_ABSTAIN'' ''No directional signal from any model''
         else if side = ''ABSTAIN'' \<and> \<not> fallback then dc ''SKIP'' ''PARTIAL_LR'' ''LightGBM is NONE, fallback disabled''
         else if side = ''ABSTAIN'' \<or> lr_vote = ''ABSTAIN''
         then dc ''SKIP'' ''MISSING_VOTE'' ''Consensus requires both LightGBM and LogReg votes''
         else if side = lr_vote then dc side ''AGREE'' (''Both models agree on '' @ side)
         else dc ''SKIP'' ''CONFLICT'' (''Conflict: '' @ conflict))
      else if side = ''ABSTAIN'' \<and> lr_vote = ''ABSTAIN'' then dc ''SKIP'' ''BOTH_ABSTAIN'' ''No directional signal from any model''
      else if side = ''ABSTAIN'' then
        (if fallback then dc lr_vote ''PARTIAL_LR'' ''LightGBM is NONE, fallback to LogReg''
         else dc ''SKIP'' ''PARTIAL_LR'' ''LightGBM is NONE, fallback disabled'')
      else if lr_vote = ''ABSTAIN'' then dc side ''PARTIAL_LGBM'' ''LogReg is missing, using LightGBM''
      else if side = lr_vote then dc side ''AGREE'' (''Both models agree on '' @ side)
      else dc side ''CONFLICT'' (''Conflict resolved to LightGBM: '' @ side))"

definition normalize_threshold :: "dec_value \<Rightarrow> dec_value" where
  "normalize_threshold v = (if float_less (Finite 1) v then f_div v (Finite 100) else v)"

text \<open>\<open>round(max(0.0, min(1.0, p)), 4)\<close>\<close>

definition unit_round :: "dec_value \<Rightarrow> dec_value" where
  "unit_round p = py_round 4 (py_max (Finite 0) (py_min (Finite 1) p))"

definition apply_direction_confidence_discount :: "dec_value \<Rightarrow> dec_value \<Rightarrow> pyfloat \<Rightarrow> pyfloat \<Rightarrow> pyfloat \<Rightarrow> dec_value" where
  "apply_direction_confidence_discount p_logreg_win dir_prob min_direction_prob strong_threshold discount_weight =
     (if discount_weight \<le> 0 then unit_round p_logreg_win
      else let band = flt (strong_threshold - min_direction_prob) in
        if band \<le> 0 then unit_round p_logreg_win
        else let weakness = py_max (Finite 0) (py_min (Finite 1) (f_div (f_sub (Finite strong_threshold) dir_prob) (Finite band)));
                 multiplier = f_sub (Finite 1) (f_mul (Finite discount_weight) weakness)
             in unit_round (f_mul p_logreg_win multiplier))"

section \<open>The weighted selection\<close>

text \<open>A side is the outsider when the market gives it less than one half; YES is not at exactly one half.\<close>

definition is_outsider_side :: "string \<Rightarrow> dec_value \<Rightarrow> bool" where
  "is_outsider_side side fresh \<longleftrightarrow>
     side = BUY_YES \<and> float_less fresh (Finite (1/2)) \<or> side = BUY_NO \<and> yes_is_favorite fresh"

definition lgbm_available :: "crypto_signal \<Rightarrow> bool" where
  "lgbm_available sig \<longleftrightarrow> cg_features_ok sig \<and> (case cg_model_version sig of Some v \<Rightarrow> 0 \<le> v | None \<Rightarrow> False)"

text \<open>Fees of the market itself replace configured ones, and a market without makers forces the role.\<close>

definition request_costs :: "entry_input \<Rightarrow> policy_config \<Rightarrow> policy_config" where
  "request_costs i c =
     c\<lparr>pc_fee_rate := (case ei_fee_rate i of Some x \<Rightarrow> VNumber x | None \<Rightarrow> pc_fee_rate c),
       pc_maker_fee_rate := (case ei_maker_fee_rate i of Some x \<Rightarrow> VNumber x | None \<Rightarrow> pc_maker_fee_rate c),
       pc_fee_exponent := (case ei_fee_exponent i of Some x \<Rightarrow> VNumber x | None \<Rightarrow> pc_fee_exponent c),
       pc_execution_role := (if ei_taker_only i then Some ''TAKER'' else pc_execution_role c)\<rparr>"

definition configured_policy :: "trading_config \<Rightarrow> policy_config" where
  "configured_policy cfg =
     \<lparr>pc_market_weight = num (tc_weighted_market_weight cfg), pc_logreg_weight = num (tc_weighted_logreg_weight cfg),
      pc_lgbm_weight = num (tc_weighted_lgbm_weight cfg), pc_mrf_beta = num (tc_weighted_mrf_beta cfg),
      pc_models_agree_beta = num (tc_weighted_models_agree_beta cfg),
      pc_mrf_application = Some (upper (text_or (Some (tc_weighted_mrf_application cfg)) ''PROBABILITY'')),
      pc_intercept = num (tc_weighted_intercept cfg), pc_fee_rate = num (tc_weighted_fee_rate cfg),
      pc_maker_fee_rate = num (tc_weighted_maker_fee_rate cfg), pc_fee_exponent = num (tc_weighted_fee_exponent cfg),
      pc_slippage_rate = num (tc_weighted_slippage_rate cfg), pc_latency_buffer = num (tc_weighted_latency_buffer cfg),
      pc_execution_role = Some (tc_weighted_execution_role cfg),
      pc_mrf_extreme_veto_threshold = num (tc_weighted_mrf_extreme_veto_threshold cfg),
      pc_stacker_feature_names = [], pc_stacker_coefficients = [], pc_stacker_segment_models = []\<rparr>"

text \<open>In the STAKE mode the evidence changes the stake only: its weight in the probability is zero.\<close>

definition normalize_application :: "policy_config \<Rightarrow> policy_config" where
  "normalize_application c =
     (let application = (case normal_application (upper (strip (text_or (pc_mrf_application c) ''PROBABILITY''))) of
                           Some m \<Rightarrow> m | None \<Rightarrow> ''PROBABILITY'');
          c = c\<lparr>pc_mrf_application := Some application\<rparr>
      in if application = ''STAKE'' then c\<lparr>pc_mrf_beta := num 0\<rparr> else c)"

definition runtime_policy :: "artifact_store \<Rightarrow> trading_config \<Rightarrow> entry_input \<Rightarrow> policy_config" where
  "runtime_policy arts cfg i =
     (let c = request_costs i (configured_policy cfg)
      in normalize_application
           (case weighted_artifact arts cfg of
              None \<Rightarrow> c
            | Some a \<Rightarrow> apply_artifact_tuning arts cfg (request_costs i (weighted_policy_config_from_artifact a c))))"

definition selection_inputs :: "entry_input \<Rightarrow> dec_value option \<Rightarrow> probability_inputs" where
  "selection_inputs i p_flip =
     (let market = market_yes_probability
            \<lparr>bs_bid = any_of (ei_yes_bid i), bs_ask = any_of (ei_yes_ask i), bs_bid_size = any_of (ei_yes_bid_size i), bs_ask_size = any_of (ei_yes_ask_size i)\<rparr>
            \<lparr>bs_bid = any_of (ei_no_bid i), bs_ask = any_of (ei_no_ask i), bs_bid_size = any_of (ei_no_bid_size i), bs_ask_size = any_of (ei_no_ask_size i)\<rparr>
            (VNumber (ei_fresh_yes_price i));
          logreg = logreg_flip_to_yes_probability (any_of p_flip) (VNumber (ei_fresh_yes_price i));
          sig = ei_signal i
      in \<lparr>pi_market_yes = any_of (map_option Finite market), pi_logreg_yes = any_of (map_option Finite logreg),
          pi_lgbm_yes = (if lgbm_available sig then any_of (cg_p_up sig) else VNone),
          pi_asset = Some (cg_symbol sig), pi_phase = Some (ei_market_phase i),
          pi_role = Some (if float_less (ei_fresh_yes_price i) (Finite (1/2)) then ''OUTSIDER'' else ''FAVORITE'')\<rparr>)"

definition spread_of :: "entry_input \<Rightarrow> py_any" where
  "spread_of i = VNumber (case ei_spread_cost i of Some x \<Rightarrow> x | None \<Rightarrow> or_zero (ei_spread i))"

definition build_weighted_selection ::
  "libm \<Rightarrow> (decimal \<Rightarrow> decimal \<Rightarrow> decimal) \<Rightarrow> artifact_store \<Rightarrow> trading_config \<Rightarrow> entry_input \<Rightarrow> dec_value option \<Rightarrow> selection outcome" where
  "build_weighted_selection lib pw arts cfg i p_flip =
     (let c = runtime_policy arts cfg i; inputs = selection_inputs i p_flip in
      if artifact_path cfg \<noteq> [] \<and> weighted_artifact arts cfg = None
      then Inr \<lparr>sl_probability = score_weighted_probability lib inputs c (ei_mrf_evidence i), sl_selected = None,
                sl_yes_quote = None, sl_no_quote = None, sl_reason = ''POLICY_ARTIFACT_INVALID''\<rparr>
      else bind_out (select_weighted_side lib pw inputs (any_of (ei_yes_ask i)) (any_of (ei_no_ask i)) c (ei_mrf_evidence i)
                       (num 0) (ei_fee_source i) (spread_of i) (pc_mrf_extreme_veto_threshold c)) (\<lambda>s.
             case sl_selected s of
               Some q \<Rightarrow>
                 if is_outsider_side (qt_side q) (ei_fresh_yes_price i) \<and>
                    weighted_outsider_agreement_mode arts cfg = Some ''OUTSIDER_AGREE_ONLY'' \<and>
                    wp_models_agree (sl_probability s) \<noteq> Some True
                 then Inr (s\<lparr>sl_selected := None, sl_reason := ''OUTSIDER_AGREE_GATE''\<rparr>) else Inr s
             | None \<Rightarrow> Inr s))"

section \<open>The stake of the weighted policy\<close>

record weighted_sizing =
  ws_edge_lower_bound :: "pyfloat option"
  ws_size_multiplier :: dec_value

definition fixed_bet_of :: "trading_config \<Rightarrow> pyfloat" where
  "fixed_bet_of cfg = max (flt (1/100)) (tc_weighted_fixed_bet_usdc cfg)"

definition size_cap_of :: "trading_config \<Rightarrow> pyfloat" where
  "size_cap_of cfg = max 0 (tc_weighted_size_cap_usdc cfg)"

definition sizing_application :: "artifact_store \<Rightarrow> trading_config \<Rightarrow> string" where
  "sizing_application arts cfg =
     (let configured = Some (tc_weighted_mrf_application cfg)
      in upper (case weighted_tuned_mrf_application arts cfg of
           Some m \<Rightarrow> m
         | None \<Rightarrow> text_or (case weighted_artifact arts cfg of Some a \<Rightarrow>
                      (case pa_policy_config a ''mrf_application'' of Some x \<Rightarrow> any_text x | None \<Rightarrow> configured)
                    | None \<Rightarrow> configured) ''PROBABILITY''))"

definition sizing_gamma :: "artifact_store \<Rightarrow> trading_config \<Rightarrow> py_any" where
  "sizing_gamma arts cfg =
     (let configured = num (tc_weighted_mrf_sizing_gamma cfg)
      in case weighted_artifact arts cfg of
           Some a \<Rightarrow> (case pa_policy_config a ''mrf_sizing_gamma'' of Some x \<Rightarrow> x | None \<Rightarrow> configured)
         | None \<Rightarrow> configured)"

text \<open>The factor of the evidence, between one half and five quarters.\<close>

definition mrf_multiplier :: "py_any \<Rightarrow> pyfloat \<Rightarrow> dec_value" where
  "mrf_multiplier gamma evidence =
     (case to_float gamma of
        None \<Rightarrow> Finite 1
      | Some g \<Rightarrow> py_max (Finite (1/2)) (py_min (Finite (5/4)) (f_add (Finite 1) (f_mul g (Finite evidence)))))"

definition base_multiplier :: "artifact_store \<Rightarrow> trading_config \<Rightarrow> side_quote \<Rightarrow> pyfloat option \<Rightarrow> pyfloat \<Rightarrow> bool \<Rightarrow> pyfloat outcome" where
  "base_multiplier arts cfg q standard_error edge_lower is_outsider =
     (let mode = upper (text_or (Some (tc_weighted_sizing_mode cfg)) ''FIXED'') in
      if standard_error = None \<and> mode \<in> {''LOWER_BOUND_KELLY'', ''STEPPED_EDGE''} then Inr 1
      else if mode = ''LOWER_BOUND_KELLY'' then
        bind_out (conservative_size (num (qt_p_win q)) (num (qt_ask q)) (num (co_total_per_share (qt_cost q)))
                    (any_of (map_option Finite standard_error)) (num (tc_weighted_kelly_fraction cfg))
                    (num (weighted_min_net_ev arts cfg is_outsider))) (\<lambda>s. Inr (sz_size_multiplier s))
      else if mode = ''STEPPED_EDGE'' then
        Inr (flt (stepped_bet_size (num edge_lower) (num (fixed_bet_of cfg)) (num (size_cap_of cfg))
                    (numbers DEFAULT_STEPPED_EDGE_THRESHOLDS) / fixed_bet_of cfg))
      else Inr 1)"

definition weighted_sizing_fields :: "artifact_store \<Rightarrow> trading_config \<Rightarrow> selection \<Rightarrow> dec_value \<Rightarrow> weighted_sizing outcome" where
  "weighted_sizing_fields arts cfg s fresh =
     (case sl_selected s of
        None \<Rightarrow> Inr \<lparr>ws_edge_lower_bound = None, ws_size_multiplier = Finite 0\<rparr>
      | Some q \<Rightarrow>
          let standard_error = weighted_standard_error cfg (weighted_artifact arts cfg) in
          bind_out (conservative_size (num (qt_p_win q)) (num (qt_ask q)) (num (co_total_per_share (qt_cost q)))
                      (any_of (map_option Finite standard_error)) (num 0) (num (- 1))) (\<lambda>bound.
          bind_out (base_multiplier arts cfg q standard_error (sz_edge_lower bound) (is_outsider_side (qt_side q) fresh)) (\<lambda>m.
            let m = (if sizing_application arts cfg \<in> {''STAKE'', ''STAKE_ADJUSTMENT''}
                     then f_mul (Finite m) (mrf_multiplier (sizing_gamma arts cfg) (wp_mrf_evidence (sl_probability s)))
                     else Finite m);
                top = flt (size_cap_of cfg / fixed_bet_of cfg)
            in Inr \<lparr>ws_edge_lower_bound = Some (round_float 8 (sz_edge_lower bound)),
                    ws_size_multiplier = py_round 8 (py_max (Finite 0) (py_min (Finite top) m))\<rparr>)))"

section \<open>The shadow record\<close>

datatype entry_reason =
    Plain_reason string
  | Bound_reason bound_reason
  | Spread_above dec_value dec_value dec_value pyfloat         \<comment> \<open>spread, midpoint, ratio, largest ratio\<close>
  | Out_of_tuned_window bool dec_value pyfloat pyfloat          \<comment> \<open>outsider, time left, window\<close>
  | Above_tuned_price bool dec_value pyfloat
  | Net_ev_below "pyfloat option" pyfloat
  | Direction_prob_below dec_value pyfloat
  | Win_prob_below dec_value pyfloat
  | Flip_below dec_value dec_value
  | Net_edge_below dec_value pyfloat dec_value dec_value        \<comment> \<open>net edge, minimum, gross edge, buffer\<close>
  | Entry_ready string dec_value dec_value "string option" dec_value

record eligibility =
  el_eligible :: bool
  el_skip_reason :: "entry_reason option"
  el_role :: "string option"
  el_selected_side :: "string option"
  el_selected_ask :: "pyfloat option"
  el_selected_cost :: "pyfloat option"
  el_net_ev :: "pyfloat option"

definition not_eligible :: "string option \<Rightarrow> entry_reason \<Rightarrow> eligibility" where
  "not_eligible role reason =
     \<lparr>el_eligible = False, el_skip_reason = Some reason, el_role = role, el_selected_side = None, el_selected_ask = None,
      el_selected_cost = None, el_net_ev = None\<rparr>"

text \<open>The spread relative to the midpoint of the side; \<open>Some\<close> reason when it is too wide. A limit of zero switches the check off.\<close>

definition side_mid :: "string \<Rightarrow> dec_value \<Rightarrow> dec_value" where
  "side_mid side fresh = (if side = BUY_YES then fresh else f_sub (Finite 1) fresh)"

definition spread_guard :: "trading_config \<Rightarrow> dec_value option \<Rightarrow> string \<Rightarrow> dec_value \<Rightarrow> entry_reason option" where
  "spread_guard cfg spread side fresh =
     (case spread of None \<Rightarrow> None
      | Some x \<Rightarrow>
          let ratio = f_div (f_abs x) (py_max (side_mid side fresh) (Finite (flt (1 / 10 ^ 9)))) in
          if 0 < tc_max_spread_pct cfg \<and> float_less (Finite (tc_max_spread_pct cfg)) ratio
          then Some (Spread_above (f_abs x) (side_mid side fresh) ratio (tc_max_spread_pct cfg)) else None)"

definition tuned_time_guard :: "artifact_store \<Rightarrow> trading_config \<Rightarrow> dec_value \<Rightarrow> bool \<Rightarrow> entry_reason option" where
  "tuned_time_guard arts cfg time_left is_outsider =
     (case weighted_tuned_time_window arts cfg is_outsider of
        Some (lo, hi) \<Rightarrow>
          if isfinite time_left \<and> float_le (Finite lo) time_left \<and> float_le time_left (Finite hi) then None
          else Some (Out_of_tuned_window is_outsider time_left lo hi)
      | None \<Rightarrow> None)"

definition tuned_price_guard :: "artifact_store \<Rightarrow> trading_config \<Rightarrow> dec_value \<Rightarrow> bool \<Rightarrow> entry_reason option" where
  "tuned_price_guard arts cfg ask is_outsider =
     (case weighted_tuned_price_cap arts cfg is_outsider of
        Some cap \<Rightarrow> if \<not> isfinite ask \<or> float_less (Finite cap) ask then Some (Above_tuned_price is_outsider ask cap) else None
      | None \<Rightarrow> None)"

text \<open>
  Would the active mode trade this arm? The side of an arm is one of the two, or none; a missing profit is
  rejected like NaN.
\<close>

definition weighted_policy_eligibility ::
  "artifact_store \<Rightarrow> trading_config \<Rightarrow> arm_result \<Rightarrow> dec_value \<Rightarrow> dec_value option \<Rightarrow> dec_value option \<Rightarrow> eligibility" where
  "weighted_policy_eligibility arts cfg arm fresh time_left spread =
     (let side = upper (strip (str_or_empty (ar_selected_side arm))) in
      if side \<notin> {BUY_YES, BUY_NO}
      then not_eligible None (Plain_reason (if ar_reason arm = [] then ''NO_SELECTION'' else ar_reason arm))
      else case ar_selected_ask arm of
        None \<Rightarrow> not_eligible None (Plain_reason ''NO_VALID_ASK'')
      | Some ask \<Rightarrow>
          if \<not> (0 < ask \<and> ask < 1) then not_eligible None (Plain_reason ''NO_VALID_ASK'')
          else let is_outsider = is_outsider_side side fresh; reject = not_eligible (Some (if is_outsider then ''OUTSIDER'' else ''FAVORITE'')) in
            if \<not> isfinite fresh then reject (Plain_reason ''INVALID_FRESH_YES_PRICE'')
            else if \<not> is_outsider \<and> \<not> tc_trade_on_favorite cfg then reject (Plain_reason (''TRADE_ON_FAVORITE_DISABLED:'' @ side))
            else if is_outsider \<and> \<not> tc_trade_on_flip cfg then reject (Plain_reason (''TRADE_ON_FLIP_DISABLED:'' @ side))
            else case spread_guard cfg spread side fresh of
              Some r \<Rightarrow> reject r
            | None \<Rightarrow>
                (case time_left of
                   None \<Rightarrow> reject (Plain_reason ''time_left=unknown'')
                 | Some t \<Rightarrow>
                     if \<not> isfinite t then reject (Plain_reason ''time_left=unknown'')
                     else case is_time_valid cfg t is_outsider of
                       Some r \<Rightarrow> reject (Bound_reason r)
                     | None \<Rightarrow>
                         (case tuned_time_guard arts cfg t is_outsider of
                            Some r \<Rightarrow> reject r
                          | None \<Rightarrow>
                              (case is_price_valid cfg (Finite ask) is_outsider of
                                 Some r \<Rightarrow> reject (Bound_reason r)
                               | None \<Rightarrow>
                                   (case tuned_price_guard arts cfg (Finite ask) is_outsider of
                                      Some r \<Rightarrow> reject r
                                    | None \<Rightarrow>
                                        if is_outsider \<and> weighted_outsider_agreement_mode arts cfg = Some ''OUTSIDER_AGREE_ONLY'' \<and>
                                           ar_models_agree arm \<noteq> Some True
                                        then reject (Plain_reason ''OUTSIDER_AGREE_GATE'')
                                        else let least = weighted_min_net_ev arts cfg is_outsider in
                                          case ar_net_ev arm of
                                            None \<Rightarrow> reject (Net_ev_below None least)
                                          | Some ev \<Rightarrow>
                                              if ev < least then reject (Net_ev_below (Some ev) least)
                                              else \<lparr>el_eligible = True, el_skip_reason = None,
                                                    el_role = Some (if is_outsider then ''OUTSIDER'' else ''FAVORITE''),
                                                    el_selected_side = Some side, el_selected_ask = Some ask,
                                                    el_selected_cost = ar_selected_cost arm, el_net_ev = Some ev\<rparr>)))))"

text \<open>
  The configuration of the counterfactual arms: the weights that the selection used, the costs of its best
  quote, and the defaults for everything that is not passed on.
\<close>

definition snapshot_policy :: "artifact_store \<Rightarrow> trading_config \<Rightarrow> selection \<Rightarrow> policy_config" where
  "snapshot_policy arts cfg s =
     (let p = sl_probability s; quoted = best_quote (sl_yes_quote s) (sl_no_quote s);
          cost = (\<lambda>f x. num (case quoted of Some q \<Rightarrow> f (qt_cost q) | None \<Rightarrow> x));
          slippage = num (case quoted of
              Some q \<Rightarrow> if 0 < co_price (qt_cost q)
                        then flt (co_slippage_per_share (qt_cost q) / max (co_price (qt_cost q)) (flt (1 / 10 ^ 9)))
                        else tc_weighted_slippage_rate cfg
            | None \<Rightarrow> tc_weighted_slippage_rate cfg);
          with_costs = (\<lambda>c. c\<lparr>
              pc_fee_rate := cost co_fee_rate (tc_weighted_fee_rate cfg),
              pc_maker_fee_rate := cost co_maker_fee_rate (tc_weighted_maker_fee_rate cfg),
              pc_fee_exponent := cost co_fee_exponent (tc_weighted_fee_exponent cfg),
              pc_slippage_rate := slippage,
              pc_latency_buffer := cost co_latency_buffer_per_share (tc_weighted_latency_buffer cfg),
              pc_execution_role := Some (case quoted of Some q \<Rightarrow> co_role (qt_cost q) | None \<Rightarrow> tc_weighted_execution_role cfg)\<rparr>);
          base = with_costs (configured_policy cfg\<lparr>pc_market_weight := num (wp_market_weight p),
              pc_logreg_weight := num (wp_logreg_weight p), pc_lgbm_weight := num (wp_lgbm_weight p), pc_intercept := num 0\<rparr>);
          c = (case weighted_artifact arts cfg of
                 None \<Rightarrow> base
               | Some a \<Rightarrow> apply_artifact_tuning arts cfg (with_costs (weighted_policy_config_from_artifact a base)))
      in if upper (strip (text_or (pc_mrf_application c) ''PROBABILITY'')) \<in> {''STAKE'', ''STAKE_ADJUSTMENT''}
         then c\<lparr>pc_mrf_beta := num 0, pc_mrf_application := Some ''STAKE''\<rparr> else c)"

text \<open>The arms, the eligibility of the arm \<open>FULL_WEIGHTED_MRF\<close>, and the action that was taken with its quote.\<close>

record snapshot =
  sn_arms :: "arm_result list"
  sn_full_eligibility :: eligibility
  sn_legacy_side :: "string option"
  sn_legacy_ask :: "pyfloat option"
  sn_legacy_cost :: "pyfloat option"

definition full_arm :: "arm_result list \<Rightarrow> arm_result" where
  "full_arm arms = the (List.find (\<lambda>a. ar_arm a = ''FULL_WEIGHTED_MRF'') arms)"

definition weighted_benchmark_snapshot ::
  "libm \<Rightarrow> (decimal \<Rightarrow> decimal \<Rightarrow> decimal) \<Rightarrow> artifact_store \<Rightarrow> trading_config \<Rightarrow> selection \<Rightarrow> dec_value \<Rightarrow> string
     \<Rightarrow> dec_value option \<Rightarrow> dec_value option \<Rightarrow> snapshot outcome" where
  "weighted_benchmark_snapshot lib pw arts cfg s fresh action time_left spread =
     (let p = sl_probability s; quoted = best_quote (sl_yes_quote s) (sl_no_quote s);
          ask = (\<lambda>q. any_of (map_option (Finite \<circ> qt_ask) q));
          inputs = \<lparr>pi_market_yes = any_of (map_option Finite (wp_market_yes p)), pi_logreg_yes = any_of (map_option Finite (wp_logreg_yes p)),
                    pi_lgbm_yes = any_of (map_option Finite (wp_lgbm_yes p)), pi_asset = None, pi_phase = None,
                    pi_role = Some (if float_less fresh (Finite (1/2)) then ''OUTSIDER'' else ''FAVORITE'')\<rparr>;
          legacy = (if action = BUY_YES then sl_yes_quote s else if action = BUY_NO then sl_no_quote s else None)
      in bind_out (benchmark_policy_arms lib pw inputs (ask (sl_yes_quote s)) (ask (sl_no_quote s)) (snapshot_policy arts cfg s)
                     (num (wp_mrf_evidence p)) (case quoted of Some q \<Rightarrow> co_source (qt_cost q) | None \<Rightarrow> ''CONFIG_DEFAULT'')
                     (num (case quoted of Some q \<Rightarrow> co_spread_per_share (qt_cost q) | None \<Rightarrow> 0))) (\<lambda>arms.
           Inr \<lparr>sn_arms = arms,
                sn_full_eligibility = weighted_policy_eligibility arts cfg (full_arm arms) fresh time_left spread,
                sn_legacy_side = (if action \<in> {BUY_YES, BUY_NO} then Some action else None),
                sn_legacy_ask = map_option qt_ask legacy,
                sn_legacy_cost = map_option (co_total_per_share \<circ> qt_cost) legacy\<rparr>))"

section \<open>The consensus\<close>

text \<open>
  The side on which the two models are traded. With the required consensus it is the common side of two
  votes, and no trade otherwise, whatever the fallback flag says. Without it the direction model decides when it
  has an opinion, the other model only if the fallback is on.
\<close>

theorem consensus_side:
  assumes "lr \<in> {BUY_YES, BUY_NO, ''ABSTAIN''}"
  shows "dc_final_side (resolve_direction_consensus vote lr require fallback) =
    (let side = lgbm_side_of vote in
     if require then (if side = lr \<and> lr \<noteq> ''ABSTAIN'' then lr else ''SKIP'')
     else if side \<noteq> ''ABSTAIN'' then side
     else if fallback \<and> lr \<noteq> ''ABSTAIN'' then lr else ''SKIP'')"
  using assms by (auto simp: resolve_direction_consensus_def Let_def lgbm_side_of_def BUY_YES_def BUY_NO_def)

theorem consensus_side_witness:
  "dc_final_side (resolve_direction_consensus ''NONE'' BUY_YES True True) = ''SKIP''"
  using consensus_side [of BUY_YES "''NONE''" True True] by (simp add: lgbm_side_of_def BUY_YES_def)

lemma vote_values: "logreg_direction_vote p fresh thr band \<in> {BUY_YES, BUY_NO, ''ABSTAIN''}"
  by (simp add: logreg_direction_vote_def split: option.split)

section \<open>The discount\<close>

definition direction_weakness :: "rat \<Rightarrow> rat \<Rightarrow> rat \<Rightarrow> rat" where
  "direction_weakness lo hi d = max 0 (min 1 (flt (flt (hi - d) / flt (hi - lo))))"

definition discounted :: "rat \<Rightarrow> rat \<Rightarrow> rat \<Rightarrow> rat" where
  "discounted p w v = round_float 4 (max 0 (min 1 (flt (p * flt (1 - flt (w * v))))))"

lemma discount_finite:
  assumes "0 < w" "0 < flt (hi - lo)"
  shows "apply_direction_confidence_discount (Finite p) (Finite d) lo hi w = Finite (discounted p w (direction_weakness lo hi d))"
  using assms by (simp add: apply_direction_confidence_discount_def unit_round_def Let_def f_sub_def discounted_def direction_weakness_def)

lemma unit_round_unit: "0 \<le> p \<Longrightarrow> p \<le> 1 \<Longrightarrow> unit_round (Finite p) = Finite (round_float 4 p)"
  by (simp add: unit_round_def)

lemma weakness_bounds: "0 \<le> direction_weakness lo hi d" "direction_weakness lo hi d \<le> 1"
  by (simp_all add: direction_weakness_def)

lemma weakness_antimono: "0 < flt (hi - lo) \<Longrightarrow> d \<le> d' \<Longrightarrow> direction_weakness lo hi d' \<le> direction_weakness lo hi d"
  unfolding direction_weakness_def by (intro max.mono min.mono flt_mono divide_right_mono) simp_all

lemma discounted_antimono:
  assumes "0 \<le> p" "0 \<le> w" "v \<le> v'" shows "discounted p w v' \<le> discounted p w v"
  unfolding discounted_def using assms
  by (intro round_float_mono max.mono min.mono flt_mono mult_left_mono diff_left_mono) simp_all

lemma discounted_none: "flt p = p \<Longrightarrow> 0 \<le> p \<Longrightarrow> p \<le> 1 \<Longrightarrow> discounted p w 0 = round_float 4 p"
  by (simp add: discounted_def)

text \<open>
  The discount of the probability of winning for an unsure direction. For a probability and a weight between
  0 and 1 the result is a probability not above the undiscounted one; it is the undiscounted one when the weight
  is zero, when the two thresholds leave no band, and when the direction is at least as sure as the strong
  threshold; and a surer direction never gives a smaller result.
\<close>

theorem discount_bounded:
  assumes "flt p = p" "0 \<le> p" "p \<le> 1" "0 \<le> w" "w \<le> 1" "d \<le> d'"
  shows "\<exists>r r'. apply_direction_confidence_discount (Finite p) (Finite d) lo hi w = Finite r \<and>
    apply_direction_confidence_discount (Finite p) (Finite d') lo hi w = Finite r' \<and>
    0 \<le> r \<and> r \<le> r' \<and> r' \<le> round_float 4 p \<and> (w = 0 \<or> hi \<le> lo \<or> hi \<le> d \<longrightarrow> r = round_float 4 p)"
proof (cases "w = 0 \<or> hi \<le> lo")
  case True
  then have "apply_direction_confidence_discount (Finite p) (Finite x) lo hi w = Finite (round_float 4 p)" for x
    using assms by (auto simp: apply_direction_confidence_discount_def Let_def unit_round_unit)
  then show ?thesis using round_float_nonneg [OF assms(2)] by simp
next
  case False
  then have wb: "0 < w" "0 < flt (hi - lo)" using assms(4) by simp_all
  let ?v = "direction_weakness lo hi d" let ?v' = "direction_weakness lo hi d'"
  have "0 \<le> discounted p w ?v" by (simp add: discounted_def round_float_nonneg)
  moreover have "discounted p w ?v \<le> discounted p w ?v'"
    by (rule discounted_antimono [OF assms(2,4) weakness_antimono [OF wb(2) assms(6)]])
  moreover have "discounted p w ?v' \<le> round_float 4 p"
    using discounted_antimono [OF assms(2,4) weakness_bounds(1), of lo hi d'] discounted_none [OF assms(1-3)] by simp
  moreover have "?v = 0" if "hi \<le> d"
  proof -
    have "flt (hi - d) / flt (hi - lo) \<le> 0" using that wb(2) by (intro divide_nonpos_pos) simp_all
    then have "flt (flt (hi - d) / flt (hi - lo)) \<le> 0" by (rule flt_nonpos_iff [THEN iffD2])
    moreover have "max 0 (min 1 x) = 0" if "x \<le> 0" for x :: rat using that by simp
    ultimately show ?thesis unfolding direction_weakness_def by blast
  qed
  ultimately show ?thesis using False discounted_none [OF assms(1-3)] by (auto simp: discount_finite [OF wb])
qed

theorem discount_bounded_witness:
  "\<exists>r. apply_direction_confidence_discount (Finite (1/2)) (Finite 1) (1/2) (3/4) 1 = Finite r \<and> r = round_float 4 (1/2)"
  using discount_bounded [of "1/2" 1 1 1 "1/2" "3/4"] by auto

text \<open>A probability that is not a number comes out of the clamp as certainty.\<close>

lemma unit_round_NaN: "unit_round NotANumber = Finite 1"
proof -
  have "round_float 4 1 = 1" using round_float_near [of 1 "10 ^ 4" 4] by (simp add: round_float_def flt_1)
  then show ?thesis by (simp add: unit_round_def)
qed

section \<open>The stake is bounded\<close>

lemma conservative_size_total: "\<exists>s. conservative_size p a c se f (num m) = Inr s"
  by (simp add: conservative_size_def Let_def)

lemma base_multiplier_total: "\<exists>m. base_multiplier arts cfg q se e b = Inr m"
  using conservative_size_total by (auto simp: base_multiplier_def Let_def split: sum.split) (metis sum.distinct(1))

lemma weighted_sizing_total:
  "\<exists>e m. weighted_sizing_fields arts cfg s fresh = Inr \<lparr>ws_edge_lower_bound = e, ws_size_multiplier = Finite m\<rparr> \<and>
     0 \<le> m \<and> m \<le> round_float 8 (flt (size_cap_of cfg / fixed_bet_of cfg))"
proof -
  have pos: "0 < fixed_bet_of cfg"
  proof -
    have "0 < flt (1/100)" by simp
    then show ?thesis unfolding fixed_bet_of_def by (rule less_max_iff_disj [THEN iffD2, OF disjI1])
  qed
  let ?top = "flt (size_cap_of cfg / fixed_bet_of cfg)"
  have top: "0 \<le> ?top" using pos by (simp add: size_cap_of_def)
  show ?thesis
  proof (cases "sl_selected s")
    case None
    then show ?thesis using round_float_nonneg [OF top] by (simp add: weighted_sizing_fields_def)
  next
    case (Some q)
    define se where "se = weighted_standard_error cfg (weighted_artifact arts cfg)"
    obtain b where b: "conservative_size (num (qt_p_win q)) (num (qt_ask q)) (num (co_total_per_share (qt_cost q)))
        (any_of (map_option Finite se)) (num 0) (num (- 1)) = Inr b" using conservative_size_total by blast
    obtain m where m: "base_multiplier arts cfg q se (sz_edge_lower b) (is_outsider_side (qt_side q) fresh) = Inr m"
      using base_multiplier_total by blast
    define x where "x = (if sizing_application arts cfg \<in> {''STAKE'', ''STAKE_ADJUSTMENT''}
        then f_mul (Finite m) (mrf_multiplier (sizing_gamma arts cfg) (wp_mrf_evidence (sl_probability s))) else Finite m)"
    obtain k where k: "py_max (Finite 0) (py_min (Finite ?top) x) = Finite k" "0 \<le> k" "k \<le> ?top" using clamp_bounds [OF top] by blast
    have "weighted_sizing_fields arts cfg s fresh =
        Inr \<lparr>ws_edge_lower_bound = Some (round_float 8 (sz_edge_lower b)), ws_size_multiplier = Finite (round_float 8 k)\<rparr>"
      unfolding weighted_sizing_fields_def Some option.case Let_def se_def [symmetric] b m sum.case x_def [symmetric] k(1) by simp
    then show ?thesis using round_float_nonneg [OF k(2)] round_float_mono [OF k(3)] by blast
  qed
qed


text \<open>
  A sizing factor that is not a number multiplies the stake by five quarters. The arms of the shadow record are
  computed without the configured intercept, which the runtime uses.
\<close>

lemma nan_gamma_raises_stake: "mrf_multiplier (VNumber NotANumber) evidence = Finite (5/4)"
  by (simp add: mrf_multiplier_def)

theorem shadow_arms_ignore_intercept:
  "weighted_artifact arts cfg = None \<Longrightarrow>
     pc_intercept (snapshot_policy arts cfg s) = num 0 \<and> pc_intercept (runtime_policy arts cfg i) = num (tc_weighted_intercept cfg)"
  by (simp add: snapshot_policy_def runtime_policy_def request_costs_def configured_policy_def normalize_application_def Let_def)

end
