(* ===== verification/Combined_Entry.thy ===== *)
theory Combined_Entry
  imports Combined_Voting
begin

text \<open>
  The second half of \<open>trading/combined_voting.py\<close>: one decision of the COMBINED mode, from the signals to a BUY or
  a reason to skip, and the wrapper that adds the weighted policy as a shadow or puts it in charge. The fields of
  the result that only copy a field of the signal or an argument are left out. An argument with a default is
  always passed.
\<close>

section \<open>The result\<close>

text \<open>The weighted fields: those copied from the selection are represented by it.\<close>

record weighted_fields =
  wf_policy_mode :: string
  wf_policy_id :: string
  wf_selection :: selection
  wf_quoted :: "side_quote option"
  wf_min_net_ev :: "pyfloat option"
  wf_snapshot :: snapshot
  wf_sizing :: weighted_sizing

record entry_result =
  er_action :: string
  er_skip_reason :: entry_reason
  er_direction_status :: string
  er_direction_probability :: dec_value
  er_direction_value :: "string option"
  er_entry_status :: string
  er_p_candidate_win :: "dec_value option"
  er_p_logreg_win :: "dec_value option"
  er_discount_applied :: dec_value
  er_discount_weight :: dec_value
  er_candidate_side :: "string option"
  er_candidate_ask :: "dec_value option"
  er_gross_edge :: "dec_value option"
  er_cost_buffer :: dec_value
  er_net_edge :: "dec_value option"
  er_max_acceptable_price :: "dec_value option"
  er_bet_size :: dec_value
  er_p_flip :: "dec_value option"
  er_p_flip_raw :: "dec_value option"
  er_p_flip_effective :: "dec_value option"
  er_entry_model_ece :: dec_value
  er_lr_vote :: "string option"
  er_lgbm_vote :: "string option"
  er_consensus_type :: "string option"
  er_would_live_accept :: "bool option"
  er_weighted :: "weighted_fields option"

section \<open>What is known before the votes\<close>

definition policy_mode :: "trading_config \<Rightarrow> string" where
  "policy_mode cfg = upper (text_or (Some (tc_trading_policy_mode cfg)) ''LEGACY'')"

definition weighted_active :: "trading_config \<Rightarrow> bool" where
  "weighted_active cfg \<longleftrightarrow> policy_mode cfg = ''WEIGHTED_ACTIVE''"

definition logreg_only :: "trading_config \<Rightarrow> bool" where
  "logreg_only cfg \<longleftrightarrow> tc_lightgbm_decision_mode cfg \<in> {''SHADOW'', ''OFF''} \<and> \<not> weighted_active cfg"

text \<open>The flip probability after the correction for the calibration error.\<close>

definition effective_flip :: "trading_config \<Rightarrow> entry_input \<Rightarrow> dec_value option" where
  "effective_flip cfg i =
     (case ei_p_flip i of
        Some p \<Rightarrow> if float_less (Finite 0) (ei_entry_model_ece i) \<and> tc_enable_ece_correction cfg
                  then Some (apply_ece_correction p (Some (ei_entry_model_ece i))) else Some p
      | None \<Rightarrow> None)"

definition flip_threshold_value :: "trading_config \<Rightarrow> entry_input \<Rightarrow> dec_value" where
  "flip_threshold_value cfg i =
     (let dflt = normalize_threshold (Finite (tc_flip_threshold cfg));
          v = (if ei_flip_threshold i = VNone then dflt
               else case to_float (ei_flip_threshold i) of Some x \<Rightarrow> normalize_threshold x | None \<Rightarrow> dflt)
      in if float_le (Finite 0) v \<and> float_le v (Finite 1) then v else dflt)"

definition direction_probability :: "crypto_signal \<Rightarrow> dec_value" where
  "direction_probability sig =
     (if cg_direction sig = Some ''UP'' then or_zero (cg_p_up sig)
      else if cg_direction sig = Some ''DOWN'' then or_zero (cg_p_down sig)
      else py_max (or_zero (cg_p_up sig)) (or_zero (cg_p_down sig)))"

record entry_context =
  ec_signal :: crypto_signal
  ec_p_flip :: "dec_value option"
  ec_direction_probability :: dec_value
  ec_direction_value :: "string option"
  ec_status :: string

definition initial_context :: "trading_config \<Rightarrow> entry_input \<Rightarrow> entry_context" where
  "initial_context cfg i =
     (let sig = ei_signal i in
      \<lparr>ec_signal = sig, ec_p_flip = effective_flip cfg i, ec_direction_probability = direction_probability sig,
       ec_direction_value = cg_direction sig,
       ec_status = (if logreg_only cfg then (if tc_lightgbm_decision_mode cfg = ''SHADOW'' then ''SHADOW_NOT_APPLIED'' else ''DISABLED_BY_OPERATOR'')
                    else if cg_status sig \<noteq> [] then cg_status sig
                    else if cg_features_ok sig then ''READY'' else ''INVALID_FEATURES'')\<rparr>)"

text \<open>A skip with the fields that most returns fill in.\<close>

definition skip_entry :: "entry_input \<Rightarrow> entry_context \<Rightarrow> string \<Rightarrow> string \<Rightarrow> entry_reason \<Rightarrow> entry_result" where
  "skip_entry i x direction_status entry_status reason =
     \<lparr>er_action = ''SKIP'', er_skip_reason = reason, er_direction_status = direction_status,
      er_direction_probability = ec_direction_probability x, er_direction_value = ec_direction_value x,
      er_entry_status = entry_status, er_p_candidate_win = None, er_p_logreg_win = None, er_discount_applied = Finite 1,
      er_discount_weight = Finite 0, er_candidate_side = None, er_candidate_ask = None, er_gross_edge = None,
      er_cost_buffer = ei_cost_buffer i, er_net_edge = None, er_max_acceptable_price = None, er_bet_size = Finite 0,
      er_p_flip = ec_p_flip x, er_p_flip_raw = ei_p_flip i, er_p_flip_effective = ec_p_flip x,
      er_entry_model_ece = ei_entry_model_ece i, er_lr_vote = None, er_lgbm_vote = None, er_consensus_type = None,
      er_would_live_accept = None, er_weighted = None\<rparr>"

section \<open>The direction\<close>

definition unavailable_reason :: "crypto_signal \<Rightarrow> string \<Rightarrow> string" where
  "unavailable_reason sig status =
     (if status = ''REGIME_UNAVAILABLE'' \<and> cg_symbol sig \<noteq> [] \<and> cg_regime sig \<noteq> []
      then ''Direction Model unavailable: required='' @ cg_symbol sig @ ''_'' @ cg_regime sig @ '' status=REGIME_UNAVAILABLE''
      else if status = ''MODEL_NOT_LOADED''
      then ''Direction Model unavailable: no active models loaded for '' @ cg_symbol sig @ '' status=MODEL_NOT_LOADED''
      else if status = ''INFERENCE_FAILED'' \<and> cg_risk_reason sig \<noteq> []
      then ''Direction Model error ('' @ cg_symbol sig @ ''): '' @ cg_risk_reason sig
      else ''Direction Model unavailable (status='' @ status @ '')'')"

text \<open>\<open>Inr\<close>: the context to go on with, in which the signal may have been replaced by the fallback.\<close>

definition check_direction_model :: "trading_config \<Rightarrow> entry_input \<Rightarrow> entry_context \<Rightarrow> entry_result + entry_context" where
  "check_direction_model cfg i x =
     (let sig = ec_signal x in
      if weighted_active cfg \<or> logreg_only cfg \<or> lgbm_available sig then Inr x
      else if ec_status x \<in> {''MODEL_NOT_LOADED'', ''REGIME_UNAVAILABLE'', ''INFERENCE_FAILED''} \<and>
              tc_lgbm_unavailable_policy cfg = ''LOGREG_FALLBACK''
      then Inr (x\<lparr>ec_signal := sig\<lparr>cg_direction := Some ''NONE'', cg_features_ok := True, cg_model_version := Some (- 1), cg_status := ''LGBM_FALLBACK''\<rparr>,
                  ec_status := ''LGBM_FALLBACK'', ec_direction_value := Some ''NONE''\<rparr>)
      else Inl (skip_entry i x (ec_status x) ''DIRECTION_UNAVAILABLE'' (Plain_reason (unavailable_reason sig (ec_status x)))
                 \<lparr>er_would_live_accept := Some False\<rparr>))"

record voted =
  vt_context :: entry_context
  vt_consensus :: direction_consensus
  vt_lr_vote :: string
  vt_lgbm_vote :: string

definition with_votes :: "voted \<Rightarrow> entry_result \<Rightarrow> entry_result" where
  "with_votes v r =
     r\<lparr>er_lr_vote := Some (vt_lr_vote v), er_lgbm_vote := Some (vt_lgbm_vote v), er_consensus_type := Some (dc_type (vt_consensus v))\<rparr>"

definition direction_stage :: "trading_config \<Rightarrow> entry_input \<Rightarrow> selection option \<Rightarrow> entry_result + voted" where
  "direction_stage cfg i w =
     (let x = initial_context cfg i; active = weighted_active cfg in
      case (case w of Some s \<Rightarrow> (case sl_selected s of None \<Rightarrow> Some s | Some q \<Rightarrow> None) | None \<Rightarrow> None) of
        Some s \<Rightarrow> Inl (skip_entry i x ''WEIGHTED_NO_SELECTION'' ''WEIGHTED_SKIP'' (Plain_reason (''Weighted policy: '' @ sl_reason s))
                        \<lparr>er_cost_buffer := Finite (flt (1/50)), er_would_live_accept := Some False\<rparr>)
      | None \<Rightarrow>
          (case check_direction_model cfg i x of
             Inl r \<Rightarrow> Inl r
           | Inr x \<Rightarrow>
               let sig = ec_signal x; prob = ec_direction_probability x;
                   lr = logreg_direction_vote (ec_p_flip x) (ei_fresh_yes_price i) (flip_threshold_value cfg i)
                          (Finite (tc_combined_logreg_abstain_band cfg));
                   lgbm = text_or (cg_direction sig) ''NONE'';
                   vote = (\<lambda>dc. \<lparr>vt_context = x, vt_consensus = dc, vt_lr_vote = lr, vt_lgbm_vote = lgbm\<rparr>);
                   only = \<lparr>dc_final_side = lr, dc_type = ''LOGREG_ONLY'', dc_reason = ''LogReg-only mode active''\<rparr>
               in if \<not> logreg_only cfg \<and> cg_risk_vetoed sig
                  then Inl (skip_entry i x ''FUNDING_VETOED'' ''DIRECTION_VETOED''
                             (Plain_reason (''Direction Model funding veto: '' @ cg_risk_reason sig))\<lparr>er_would_live_accept := Some False\<rparr>)
                  else if \<not> active \<and> (ec_p_flip x = None \<or> ei_entry_model_key i = None)
                  then Inl (skip_entry i x (ec_status x) ''MODEL_NOT_FOUND'' (Plain_reason ''Entry Model (LogReg) evaluation failed or unavailable''))
                  else if \<not> active \<and> \<not> logreg_only cfg \<and> cg_direction sig \<in> {Some ''UP'', Some ''DOWN''} \<and>
                          float_less prob (Finite (tc_min_direction_prob cfg))
                  then Inl (skip_entry i x ''LOW_DIRECTION_PROB'' ''DIRECTION_UNAVAILABLE'' (Direction_prob_below prob (tc_min_direction_prob cfg)))
                  else if logreg_only cfg \<and> lr = ''ABSTAIN''
                  then Inl (with_votes (vote only) (skip_entry i x (ec_status x) ''LOGREG_ABSTAIN''
                             (Plain_reason ''LogReg did not yield a confident direction (ABSTAIN)'')))
                  else let dc = (case w of
                                   Some s \<Rightarrow> \<lparr>dc_final_side = (case sl_selected s of Some q \<Rightarrow> qt_side q | None \<Rightarrow> ''SKIP''),
                                              dc_type = ''WEIGHTED_SCORE'', dc_reason = ''Selected side with highest cost-aware expected value''\<rparr>
                                 | None \<Rightarrow>
                                     if logreg_only cfg then only
                                     else resolve_direction_consensus lgbm lr (tc_combined_require_consensus cfg)
                                            (tc_combined_fallback_to_logreg_on_none cfg))
                       in if dc_final_side dc = ''SKIP''
                          then Inl (with_votes (vote dc) (skip_entry i x (ec_status x) ''CONSENSUS_FAILED''
                                     (Plain_reason (''Consensus failed: '' @ dc_type dc @ '' ('' @ dc_reason dc @ '')''))))
                          else Inr (vote dc)))"

section \<open>The candidate\<close>

record entry_candidate =
  cd_voted :: voted
  cd_status :: string
  cd_side :: string
  cd_ask :: dec_value
  cd_is_outsider :: bool

definition candidate_ask_of :: "entry_input \<Rightarrow> string \<Rightarrow> dec_value" where
  "candidate_ask_of i side =
     (if side = BUY_YES then quote_or (ei_yes_ask i) (ei_fresh_yes_price i)
      else quote_or (ei_no_ask i) (py_round 4 (f_sub (Finite 1) (ei_fresh_yes_price i))))"

definition candidate_of :: "trading_config \<Rightarrow> entry_input \<Rightarrow> selection option \<Rightarrow> voted \<Rightarrow> entry_candidate" where
  "candidate_of cfg i w v =
     (let side = dc_final_side (vt_consensus v) in
      \<lparr>cd_voted = v,
       cd_status = (case w of
           Some s \<Rightarrow> if wp_lgbm_yes (sl_probability s) \<noteq> None then ''WEIGHTED_LGBM_USED'' else ''WEIGHTED_LGBM_MISSING''
         | None \<Rightarrow> if \<not> logreg_only cfg \<and> cg_direction (ec_signal (vt_context v)) \<notin> {Some ''UP'', Some ''DOWN''}
                   then ''DIRECTION_NONE_FALLBACK_LR'' else ec_status (vt_context v)),
       cd_side = side, cd_ask = candidate_ask_of i side, cd_is_outsider = is_outsider_side side (ei_fresh_yes_price i)\<rparr>)"

definition skip_candidate :: "entry_input \<Rightarrow> entry_candidate \<Rightarrow> string \<Rightarrow> entry_reason \<Rightarrow> entry_result" where
  "skip_candidate i c entry_status reason =
     with_votes (cd_voted c) (skip_entry i (vt_context (cd_voted c)) (cd_status c) entry_status reason)
       \<lparr>er_candidate_side := Some (cd_side c), er_candidate_ask := Some (cd_ask c)\<rparr>"

text \<open>Some returns leave the corrected probability and the calibration error at their defaults.\<close>

definition without_correction :: "entry_result \<Rightarrow> entry_result" where
  "without_correction r = r\<lparr>er_p_flip_raw := None, er_p_flip_effective := None, er_entry_model_ece := Finite 0\<rparr>"

definition early_gate :: "trading_config \<Rightarrow> entry_input \<Rightarrow> entry_candidate \<Rightarrow> entry_result option" where
  "early_gate cfg i c =
     (if \<not> cd_is_outsider c \<and> \<not> tc_trade_on_favorite cfg
      then Some (without_correction (skip_candidate i c ''FAVORITE_DISABLED''
             (Plain_reason (''TRADE_ON_FAVORITE is disabled, skipping favorite candidate '' @ cd_side c)))\<lparr>er_cost_buffer := Finite (flt (1/50))\<rparr>)
      else map_option (skip_candidate i c ''SPREAD_TOO_WIDE'') (spread_guard cfg (ei_spread i) (cd_side c) (ei_fresh_yes_price i)))"

record win_estimate =
  we_p_win :: dec_value
  we_p_logreg_win :: dec_value
  we_discount_weight :: dec_value
  we_discount_applied :: dec_value

text \<open>The flip probability read as the probability that the side wins.\<close>

definition flip_to_win :: "dec_value \<Rightarrow> string \<Rightarrow> dec_value \<Rightarrow> dec_value" where
  "flip_to_win p side fresh = (if (side = BUY_YES) = yes_is_favorite fresh then f_sub (Finite 1) p else p)"

definition win_estimate_of :: "trading_config \<Rightarrow> entry_input \<Rightarrow> selection option \<Rightarrow> entry_candidate \<Rightarrow> win_estimate outcome" where
  "win_estimate_of cfg i w c =
     (case w of
        Some s \<Rightarrow>
          let p = Finite (case sl_selected s of Some q \<Rightarrow> qt_p_win q | None \<Rightarrow> 0) in
          bind_out (probability_for_side (any_of (map_option Finite (wp_logreg_yes (sl_probability s)))) (cd_side c)) (\<lambda>r.
            Inr \<lparr>we_p_win = unit_round p, we_p_logreg_win = unit_round (case r of Some x \<Rightarrow> Finite x | None \<Rightarrow> p),
                 we_discount_weight = Finite 0, we_discount_applied = Finite 1\<rparr>)
      | None \<Rightarrow>
          let p = unit_round (flip_to_win (or_zero (ec_p_flip (vt_context (cd_voted c)))) (cd_side c) (ei_fresh_yes_price i)) in
          if logreg_only cfg then Inr \<lparr>we_p_win = p, we_p_logreg_win = p, we_discount_weight = Finite 0, we_discount_applied = Finite 1\<rparr>
          else let d = apply_direction_confidence_discount p (ec_direction_probability (vt_context (cd_voted c)))
                         (tc_min_direction_prob cfg) (tc_combined_dir_strong_threshold cfg) (tc_combined_dir_discount_weight cfg)
               in Inr \<lparr>we_p_win = d, we_p_logreg_win = p, we_discount_weight = Finite (tc_combined_dir_discount_weight cfg),
                       we_discount_applied = (if float_less (Finite 0) p then py_round 4 (f_div d p) else Finite 0)\<rparr>)"

definition skip_estimated :: "entry_input \<Rightarrow> entry_candidate \<Rightarrow> win_estimate \<Rightarrow> string \<Rightarrow> entry_reason \<Rightarrow> entry_result" where
  "skip_estimated i c e entry_status reason =
     (skip_candidate i c entry_status reason)
       \<lparr>er_p_candidate_win := Some (we_p_win e), er_p_logreg_win := Some (we_p_logreg_win e),
        er_discount_applied := we_discount_applied e, er_discount_weight := we_discount_weight e\<rparr>"

definition time_refusal :: "artifact_store \<Rightarrow> trading_config \<Rightarrow> dec_value \<Rightarrow> bool \<Rightarrow> entry_reason option" where
  "time_refusal arts cfg time_left is_outsider =
     (case is_time_valid cfg time_left is_outsider of
        Some r \<Rightarrow> Some (Bound_reason r)
      | None \<Rightarrow> if weighted_active cfg then tuned_time_guard arts cfg time_left is_outsider else None)"

definition price_refusal :: "artifact_store \<Rightarrow> trading_config \<Rightarrow> dec_value \<Rightarrow> bool \<Rightarrow> entry_reason option" where
  "price_refusal arts cfg ask is_outsider =
     (case is_price_valid cfg ask is_outsider of
        Some r \<Rightarrow> Some (Bound_reason r)
      | None \<Rightarrow> if weighted_active cfg then tuned_price_guard arts cfg ask is_outsider else None)"

definition late_gate :: "artifact_store \<Rightarrow> trading_config \<Rightarrow> entry_input \<Rightarrow> entry_candidate \<Rightarrow> win_estimate \<Rightarrow> entry_result option" where
  "late_gate arts cfg i c e =
     (let active = weighted_active cfg; x = vt_context (cd_voted c); flip = or_zero (ec_p_flip x) in
      if \<not> active \<and> float_less (we_p_win e) (Finite (tc_min_win_prob cfg))
      then Some (skip_estimated i c e ''LOW_WIN_PROB'' (Win_prob_below (we_p_win e) (tc_min_win_prob cfg)))
      else case time_refusal arts cfg (ei_time_left i) (cd_is_outsider c) of
        Some r \<Rightarrow> Some ((skip_entry i x (cd_status c) ''INVALID_TIME'' r)
                    \<lparr>er_p_candidate_win := Some (we_p_win e), er_cost_buffer := Finite (flt (1/50))\<rparr>)
      | None \<Rightarrow>
          if cd_is_outsider c \<and> \<not> tc_trade_on_flip cfg
          then Some (skip_estimated i c e ''OUTSIDER_DISABLED''
                 (Plain_reason (''TRADE_ON_FLIP is disabled, skipping outsider candidate '' @ cd_side c)))
          else if \<not> active \<and> cd_is_outsider c \<and> float_less flip (flip_threshold_value cfg i)
          then Some (without_correction (skip_estimated i c e ''PFLIP_BELOW_FLIP_THRESHOLD'' (Flip_below flip (flip_threshold_value cfg i))))
          else map_option (skip_estimated i c e ''PRICE_OUT_OF_BOUNDS'') (price_refusal arts cfg (cd_ask c) (cd_is_outsider c)))"

section \<open>Edge, stake and limit price\<close>

record entry_edge =
  eg_gross :: dec_value
  eg_cost_buffer :: dec_value
  eg_net :: dec_value
  eg_min_net :: pyfloat

definition entry_edge_of :: "artifact_store \<Rightarrow> trading_config \<Rightarrow> entry_input \<Rightarrow> selection option \<Rightarrow> entry_candidate \<Rightarrow> win_estimate \<Rightarrow> entry_edge" where
  "entry_edge_of arts cfg i w c e =
     (let gross = compute_edge (we_p_win e) (cd_ask c) in
      case Option.bind w sl_selected of
        Some q \<Rightarrow> \<lparr>eg_gross = gross, eg_cost_buffer = Finite (co_total_per_share (qt_cost q)), eg_net = Finite (qt_net_ev q),
                   eg_min_net = weighted_min_net_ev arts cfg (cd_is_outsider c)\<rparr>
      | None \<Rightarrow> \<lparr>eg_gross = gross, eg_cost_buffer = ei_cost_buffer i, eg_net = py_round 4 (f_sub gross (ei_cost_buffer i)),
                 eg_min_net = get_min_edge cfg (cd_is_outsider c)\<rparr>)"

definition entry_bet :: "artifact_store \<Rightarrow> trading_config \<Rightarrow> entry_input \<Rightarrow> selection option \<Rightarrow> entry_candidate \<Rightarrow> entry_edge \<Rightarrow> dec_value outcome" where
  "entry_bet arts cfg i w c g =
     (case w of
        Some s \<Rightarrow> bind_out (weighted_sizing_fields arts cfg s (ei_fresh_yes_price i)) (\<lambda>z.
                    Inr (f_mul (Finite (tc_weighted_fixed_bet_usdc cfg)) (ws_size_multiplier z)))
      | None \<Rightarrow> Inr (resolve_final_bet (eg_net g) (ei_volume_5min i) cfg (cd_is_outsider c)))"

definition max_acceptable_price :: "artifact_store \<Rightarrow> trading_config \<Rightarrow> entry_candidate \<Rightarrow> win_estimate \<Rightarrow> entry_edge \<Rightarrow> dec_value" where
  "max_acceptable_price arts cfg c e g =
     (let by_edge = py_round 3 (f_sub (f_sub (we_p_win e) (eg_cost_buffer g)) (Finite (eg_min_net g)));
          by_drift = py_round 3 (f_add (cd_ask c) (tc_max_price_drift cfg));
          limit = py_min (py_min by_edge by_drift) (tc_trade_max_price cfg)
      in case (if weighted_active cfg then weighted_tuned_price_cap arts cfg (cd_is_outsider c) else None) of
           Some cap \<Rightarrow> py_min limit (Finite cap) | None \<Rightarrow> limit)"

definition size_entry ::
  "artifact_store \<Rightarrow> trading_config \<Rightarrow> entry_input \<Rightarrow> selection option \<Rightarrow> entry_candidate \<Rightarrow> win_estimate \<Rightarrow> entry_result outcome" where
  "size_entry arts cfg i w c e =
     (let g = entry_edge_of arts cfg i w c e;
          skip = (\<lambda>status reason. (skip_estimated i c e status reason)
                    \<lparr>er_gross_edge := Some (eg_gross g), er_cost_buffer := eg_cost_buffer g, er_net_edge := Some (eg_net g)\<rparr>)
      in if float_less (eg_net g) (Finite (eg_min_net g))
         then Inr (skip ''INSUFFICIENT_NET_EDGE'' (Net_edge_below (eg_net g) (eg_min_net g) (eg_gross g) (eg_cost_buffer g)))
         else bind_out (entry_bet arts cfg i w c g) (\<lambda>bet.
           if float_le bet (Finite 0) \<and> \<not> tc_bypass_bet_size_check cfg
           then Inr (skip ''ZERO_BET'' (Plain_reason ''Calculated bet size is 0.0 USDC''))
           else Inr ((skip ''READY'' (Entry_ready (cd_side c) (eg_net g) (eg_gross g) (cg_direction (ec_signal (vt_context (cd_voted c)))) (we_p_win e)))
                  \<lparr>er_action := cd_side c, er_max_acceptable_price := Some (max_acceptable_price arts cfg c e g), er_bet_size := bet,
                   er_would_live_accept := Some (ei_entry_model_source i = ''PHASE'' \<and> ec_status (vt_context (cd_voted c)) \<noteq> ''LGBM_FALLBACK'')\<rparr>)))"

section \<open>The decision\<close>

text \<open>The selection is present exactly in the active mode.\<close>

definition evaluate_selected :: "artifact_store \<Rightarrow> trading_config \<Rightarrow> entry_input \<Rightarrow> selection option \<Rightarrow> entry_result outcome" where
  "evaluate_selected arts cfg i w =
     (case direction_stage cfg i w of
        Inl r \<Rightarrow> Inr r
      | Inr v \<Rightarrow>
          let c = candidate_of cfg i w v in
          (case early_gate cfg i c of
             Some r \<Rightarrow> Inr r
           | None \<Rightarrow>
               bind_out (win_estimate_of cfg i w c) (\<lambda>e.
                 case late_gate arts cfg i c e of Some r \<Rightarrow> Inr r | None \<Rightarrow> size_entry arts cfg i w c e)))"

definition evaluate_combined_entry_inner ::
  "libm \<Rightarrow> (decimal \<Rightarrow> decimal \<Rightarrow> decimal) \<Rightarrow> artifact_store \<Rightarrow> trading_config \<Rightarrow> entry_input \<Rightarrow> (entry_result \<times> selection option) outcome" where
  "evaluate_combined_entry_inner lib pw arts cfg i =
     (if weighted_active cfg
      then bind_out (build_weighted_selection lib pw arts cfg i (effective_flip cfg i)) (\<lambda>s.
           bind_out (evaluate_selected arts cfg i (Some s)) (\<lambda>r. Inr (r, Some s)))
      else bind_out (evaluate_selected arts cfg i None) (\<lambda>r. Inr (r, None)))"

definition weighted_result_fields ::
  "libm \<Rightarrow> (decimal \<Rightarrow> decimal \<Rightarrow> decimal) \<Rightarrow> artifact_store \<Rightarrow> trading_config \<Rightarrow> entry_input \<Rightarrow> selection \<Rightarrow> string \<Rightarrow> weighted_fields outcome" where
  "weighted_result_fields lib pw arts cfg i s action =
     (let fresh = ei_fresh_yes_price i;
          quoted = (case sl_selected s of Some q \<Rightarrow> Some q | None \<Rightarrow> best_quote (sl_yes_quote s) (sl_no_quote s));
          outsider = (case sl_selected s of Some q \<Rightarrow> is_outsider_side (qt_side q) fresh | None \<Rightarrow> False)
      in bind_out (weighted_benchmark_snapshot lib pw arts cfg s fresh action (Some (ei_time_left i)) (ei_spread i)) (\<lambda>snap.
         bind_out (weighted_sizing_fields arts cfg s fresh) (\<lambda>z.
           Inr \<lparr>wf_policy_mode = policy_mode cfg, wf_policy_id = weighted_policy_id arts cfg, wf_selection = s, wf_quoted = quoted,
                wf_min_net_ev = map_option (\<lambda>_. weighted_min_net_ev arts cfg outsider) quoted, wf_snapshot = snap, wf_sizing = z\<rparr>)))"

definition evaluate_combined_entry ::
  "libm \<Rightarrow> (decimal \<Rightarrow> decimal \<Rightarrow> decimal) \<Rightarrow> artifact_store \<Rightarrow> trading_config \<Rightarrow> entry_input \<Rightarrow> entry_result outcome" where
  "evaluate_combined_entry lib pw arts cfg i =
     bind_out (evaluate_combined_entry_inner lib pw arts cfg i) (\<lambda>(r, w).
       let annotate = (\<lambda>s. bind_out (weighted_result_fields lib pw arts cfg i s (er_action r)) (\<lambda>f. Inr (r\<lparr>er_weighted := Some f\<rparr>)))
       in case w of
            Some s \<Rightarrow> annotate s
          | None \<Rightarrow>
              if policy_mode cfg = ''WEIGHTED_SHADOW''
              then bind_out (build_weighted_selection lib pw arts cfg i
                     (case er_p_flip_effective r of Some p \<Rightarrow> Some p | None \<Rightarrow> ei_p_flip i)) annotate
              else Inr r)"

section \<open>The gates\<close>

lemma skip_entry_fields [simp]:
  "er_action (skip_entry i x ds es r) = ''SKIP''" "er_entry_status (skip_entry i x ds es r) = es"
  "er_p_flip (skip_entry i x ds es r) = ec_p_flip x" "er_candidate_ask (skip_entry i x ds es r) = None"
  by (simp_all add: skip_entry_def)

lemma with_votes_fields [simp]:
  "er_action (with_votes v r) = er_action r" "er_entry_status (with_votes v r) = er_entry_status r"
  "er_p_flip (with_votes v r) = er_p_flip r"
  by (simp_all add: with_votes_def)

lemma skip_candidate_fields [simp]:
  "er_action (skip_candidate i c es r) = ''SKIP''" "er_entry_status (skip_candidate i c es r) = es"
  "er_p_flip (skip_candidate i c es r) = ec_p_flip (vt_context (cd_voted c))"
  "er_candidate_ask (skip_candidate i c es r) = Some (cd_ask c)"
  by (simp_all add: skip_candidate_def)

lemma without_correction_fields [simp]:
  "er_action (without_correction r) = er_action r" "er_entry_status (without_correction r) = er_entry_status r"
  by (simp_all add: without_correction_def)

lemma skip_estimated_fields [simp]:
  "er_action (skip_estimated i c e es r) = ''SKIP''" "er_entry_status (skip_estimated i c e es r) = es"
  "er_p_flip (skip_estimated i c e es r) = ec_p_flip (vt_context (cd_voted c))"
  "er_candidate_ask (skip_estimated i c e es r) = Some (cd_ask c)"
  "er_p_candidate_win (skip_estimated i c e es r) = Some (we_p_win e)"
  by (simp_all add: skip_estimated_def)

lemma check_direction_skips: "check_direction_model cfg i x = Inl r \<Longrightarrow> er_action r = ''SKIP''"
  by (auto simp: check_direction_model_def Let_def split: if_splits)

lemma direction_skips: "direction_stage cfg i w = Inl r \<Longrightarrow> er_action r = ''SKIP''"
  by (auto simp: direction_stage_def Let_def split: if_splits sum.splits option.splits dest: check_direction_skips)

lemma early_gate_skips: "early_gate cfg i c = Some r \<Longrightarrow> er_action r = ''SKIP''"
  by (auto simp: early_gate_def split: if_splits)

lemma late_gate_skips: "late_gate arts cfg i c e = Some r \<Longrightarrow> er_action r = ''SKIP''"
  by (auto simp: late_gate_def Let_def split: if_splits option.splits)

definition ready_entry :: "artifact_store \<Rightarrow> trading_config \<Rightarrow> entry_input \<Rightarrow> entry_candidate \<Rightarrow> win_estimate \<Rightarrow> entry_edge \<Rightarrow> dec_value \<Rightarrow> entry_result \<Rightarrow> bool" where
  "ready_entry arts cfg i c e g bet r \<longleftrightarrow>
     er_action r = cd_side c \<and> er_entry_status r = ''READY'' \<and> er_candidate_ask r = Some (cd_ask c) \<and>
     er_p_flip r = ec_p_flip (vt_context (cd_voted c)) \<and> er_p_candidate_win r = Some (we_p_win e) \<and> er_net_edge r = Some (eg_net g) \<and>
     er_max_acceptable_price r = Some (max_acceptable_price arts cfg c e g) \<and> er_bet_size r = bet"

lemma size_entry_buys:
  assumes "size_entry arts cfg i w c e = Inr r" "er_action r \<noteq> ''SKIP''"
  defines "g \<equiv> entry_edge_of arts cfg i w c e"
  shows "\<not> float_less (eg_net g) (Finite (eg_min_net g)) \<and>
    (\<exists>bet. entry_bet arts cfg i w c g = Inr bet \<and> (float_le bet (Finite 0) \<longrightarrow> tc_bypass_bet_size_check cfg) \<and> ready_entry arts cfg i c e g bet r)"
  using assms(1,2) unfolding size_entry_def Let_def g_def [symmetric]
  by (auto simp: ready_entry_def split: if_splits sum.splits)

lemma evaluate_buys:
  assumes "evaluate_selected arts cfg i w = Inr r" "er_action r \<noteq> ''SKIP''"
  obtains v e bet where "direction_stage cfg i w = Inr v"
    "early_gate cfg i (candidate_of cfg i w v) = None" "win_estimate_of cfg i w (candidate_of cfg i w v) = Inr e"
    "late_gate arts cfg i (candidate_of cfg i w v) e = None"
    "\<not> float_less (eg_net (entry_edge_of arts cfg i w (candidate_of cfg i w v) e)) (Finite (eg_min_net (entry_edge_of arts cfg i w (candidate_of cfg i w v) e)))"
    "float_le bet (Finite 0) \<longrightarrow> tc_bypass_bet_size_check cfg"
    "ready_entry arts cfg i (candidate_of cfg i w v) e (entry_edge_of arts cfg i w (candidate_of cfg i w v) e) bet r"
proof -
  from assms obtain v where v: "direction_stage cfg i w = Inr v" by (auto simp: evaluate_selected_def split: sum.splits dest: direction_skips)
  define c where "c = candidate_of cfg i w v"
  note run = assms(1) [unfolded evaluate_selected_def v sum.case Let_def, folded c_def]
  have early: "early_gate cfg i c = None" using run assms(2) by (auto split: option.splits dest: early_gate_skips)
  from run early obtain e where e: "win_estimate_of cfg i w c = Inr e" by (auto split: sum.splits)
  have late: "late_gate arts cfg i c e = None" using run early e assms(2) by (auto split: option.splits dest: late_gate_skips)
  from run early e late have "size_entry arts cfg i w c e = Inr r" by simp
  from size_entry_buys [OF this assms(2)] that [OF v] early e late show thesis unfolding c_def by blast
qed

text \<open>What the gates have checked.\<close>

lemma early_gate_None:
  "early_gate cfg i c = None \<longleftrightarrow>
     (\<not> cd_is_outsider c \<longrightarrow> tc_trade_on_favorite cfg) \<and> spread_guard cfg (ei_spread i) (cd_side c) (ei_fresh_yes_price i) = None"
  by (auto simp: early_gate_def)

lemma late_gate_None:
  "late_gate arts cfg i c e = None \<longleftrightarrow>
     (\<not> weighted_active cfg \<longrightarrow> \<not> float_less (we_p_win e) (Finite (tc_min_win_prob cfg)) \<and>
        (cd_is_outsider c \<longrightarrow> \<not> float_less (or_zero (ec_p_flip (vt_context (cd_voted c)))) (flip_threshold_value cfg i))) \<and>
     time_refusal arts cfg (ei_time_left i) (cd_is_outsider c) = None \<and> (cd_is_outsider c \<longrightarrow> tc_trade_on_flip cfg) \<and>
     price_refusal arts cfg (cd_ask c) (cd_is_outsider c) = None"
  by (auto simp: late_gate_def Let_def split: option.split)

lemma time_refusal_None:
  "time_refusal arts cfg t b = None \<longleftrightarrow> is_time_valid cfg t b = None \<and> (weighted_active cfg \<longrightarrow> tuned_time_guard arts cfg t b = None)"
  by (simp add: time_refusal_def split: option.split)

lemma price_refusal_None:
  "price_refusal arts cfg p b = None \<longleftrightarrow> is_price_valid cfg p b = None \<and> (weighted_active cfg \<longrightarrow> tuned_price_guard arts cfg p b = None)"
  by (simp add: price_refusal_def split: option.split)

lemma py_min_not_above: "\<not> float_less y x \<Longrightarrow> \<not> float_less y (py_min x z)" "\<not> float_less y (py_min x y)"
  by (cases x; cases y; cases z; auto simp: py_min_def)+

lemma max_price_below_limit: "\<not> float_less (tc_trade_max_price cfg) (max_acceptable_price arts cfg c e g)"
  by (auto simp: max_acceptable_price_def Let_def py_min_not_above split: option.split)

lemma check_direction_context:
  assumes "check_direction_model cfg i x = Inr y"
  shows "ec_p_flip y = ec_p_flip x \<and> cg_risk_vetoed (ec_signal y) = cg_risk_vetoed (ec_signal x) \<and>
    ec_direction_probability y = ec_direction_probability x \<and>
    (ec_signal y = ec_signal x \<and> ec_status y = ec_status x \<and> (weighted_active cfg \<or> logreg_only cfg \<or> lgbm_available (ec_signal x)) \<or>
     cg_direction (ec_signal y) = Some ''NONE'')"
  using assms by (auto simp: check_direction_model_def Let_def split: if_splits)

lemma initial_context_fields [simp]:
  "ec_signal (initial_context cfg i) = ei_signal i" "ec_p_flip (initial_context cfg i) = effective_flip cfg i"
  "ec_direction_probability (initial_context cfg i) = direction_probability (ei_signal i)"
  by (simp_all add: initial_context_def Let_def)

text \<open>The votes that reach the second stage.\<close>

definition vote_of :: "trading_config \<Rightarrow> entry_input \<Rightarrow> string" where
  "vote_of cfg i =
     logreg_direction_vote (effective_flip cfg i) (ei_fresh_yes_price i) (flip_threshold_value cfg i) (Finite (tc_combined_logreg_abstain_band cfg))"

lemma direction_passed:
  assumes "direction_stage cfg i w = Inr v"
  defines "x \<equiv> vt_context v"
  shows "check_direction_model cfg i (initial_context cfg i) = Inr x" "ec_p_flip x = effective_flip cfg i"
    "\<not> logreg_only cfg \<longrightarrow> \<not> cg_risk_vetoed (ei_signal i)"
    "\<not> weighted_active cfg \<longrightarrow> effective_flip cfg i \<noteq> None \<and> ei_entry_model_key i \<noteq> None"
    "dc_final_side (vt_consensus v) \<noteq> ''SKIP''"
    "w = Some s \<longrightarrow> (\<exists>q. sl_selected s = Some q \<and> dc_final_side (vt_consensus v) = qt_side q)"
    "w = None \<longrightarrow> (if logreg_only cfg then dc_final_side (vt_consensus v) = vote_of cfg i \<and> vote_of cfg i \<noteq> ''ABSTAIN''
        else vt_consensus v = resolve_direction_consensus (text_or (cg_direction (ec_signal x)) ''NONE'') (vote_of cfg i)
               (tc_combined_require_consensus cfg) (tc_combined_fallback_to_logreg_on_none cfg))"
proof -
  from assms(1) obtain y where y: "check_direction_model cfg i (initial_context cfg i) = Inr y"
    by (auto simp: direction_stage_def Let_def split: option.splits sum.splits)
  note run = assms(1) [unfolded direction_stage_def Let_def y sum.case]
  have sel: "w = Some s \<Longrightarrow> \<exists>q. sl_selected s = Some q" using run by (cases "sl_selected s") auto
  have noskip: "(case w of Some s \<Rightarrow> (case sl_selected s of None \<Rightarrow> Some s | Some q \<Rightarrow> None) | None \<Rightarrow> None) = None"
    using run by (cases w) (auto split: option.splits)
  note run = run [unfolded noskip option.case]
  from y have flip: "ec_p_flip y = effective_flip cfg i" "cg_risk_vetoed (ec_signal y) = cg_risk_vetoed (ei_signal i)"
    using check_direction_context [OF y] by simp_all
  have x: "x = y" using run by (auto simp: x_def split: if_splits)
  show "check_direction_model cfg i (initial_context cfg i) = Inr x" "ec_p_flip x = effective_flip cfg i" using y flip x by simp_all
  show "\<not> logreg_only cfg \<longrightarrow> \<not> cg_risk_vetoed (ei_signal i)"
    and "\<not> weighted_active cfg \<longrightarrow> effective_flip cfg i \<noteq> None \<and> ei_entry_model_key i \<noteq> None"
    using run flip by (auto split: if_splits)
  show "dc_final_side (vt_consensus v) \<noteq> ''SKIP''" using run by (auto split: if_splits)
  show "w = Some s \<longrightarrow> (\<exists>q. sl_selected s = Some q \<and> dc_final_side (vt_consensus v) = qt_side q)"
    using run sel by (auto split: if_splits)
  show "w = None \<longrightarrow> (if logreg_only cfg then dc_final_side (vt_consensus v) = vote_of cfg i \<and> vote_of cfg i \<noteq> ''ABSTAIN''
        else vt_consensus v = resolve_direction_consensus (text_or (cg_direction (ec_signal x)) ''NONE'') (vote_of cfg i)
               (tc_combined_require_consensus cfg) (tc_combined_fallback_to_logreg_on_none cfg))"
    using run flip(1) by (auto simp: vote_of_def x split: if_splits)
qed

section \<open>Side and ask of a selection\<close>

lemma make_side_quote_side:
  "make_side_quote pw side ask p c spread source = Inr (Some q) \<Longrightarrow>
     qt_side q = side \<and> (\<exists>a. clamp_probability ask None = Some a \<and> 0 < a \<and> a < 1 \<and> qt_ask q = round_float 8 a)"
  by (auto simp: make_side_quote_def split: option.splits if_splits sum.splits)

lemma selected_side:
  assumes "select_weighted_side lib pw i y n c ev least source spread veto = Inr s" "sl_selected s = Some q"
  shows "qt_side q \<in> {BUY_YES, BUY_NO}"
proof -
  obtain yq where y: "make_side_quote pw BUY_YES y (wp_final_yes (score_weighted_probability lib i c ev)) c spread source = Inr yq"
    using assms(1) by (auto simp: select_weighted_side_def Let_def split: sum.splits)
  obtain nq where n: "make_side_quote pw BUY_NO n (wp_final_yes (score_weighted_probability lib i c ev)) c spread source = Inr nq"
    using assms(1) by (auto simp: select_weighted_side_def Let_def split: sum.splits)
  have "best_quote yq nq = Some q" using assms by (auto simp: select_weighted_side_def Let_def y n split: if_splits option.splits)
  then have "yq = Some q \<or> nq = Some q" by (cases yq; cases nq) (auto split: if_splits)
  then show ?thesis using make_side_quote_side y n by fastforce
qed

lemma built_side:
  assumes "build_weighted_selection lib pw arts cfg i p = Inr s" "sl_selected s = Some q"
  shows "qt_side q \<in> {BUY_YES, BUY_NO}"
    "is_outsider_side (qt_side q) (ei_fresh_yes_price i) \<and> weighted_outsider_agreement_mode arts cfg = Some ''OUTSIDER_AGREE_ONLY'' \<longrightarrow>
      wp_models_agree (sl_probability s) = Some True"
proof -
  have valid: "\<not> (artifact_path cfg \<noteq> [] \<and> weighted_artifact arts cfg = None)"
  proof
    assume "artifact_path cfg \<noteq> [] \<and> weighted_artifact arts cfg = None"
    then show False using assms by (auto simp: build_weighted_selection_def Let_def split: if_splits)
  qed
  obtain t where t: "select_weighted_side lib pw (selection_inputs i p) (any_of (ei_yes_ask i)) (any_of (ei_no_ask i)) (runtime_policy arts cfg i)
      (ei_mrf_evidence i) (num 0) (ei_fee_source i) (spread_of i) (pc_mrf_extreme_veto_threshold (runtime_policy arts cfg i)) = Inr t"
    using assms(1) valid by (auto simp: build_weighted_selection_def Let_def split: sum.splits if_splits)
  note run = assms(1) [unfolded build_weighted_selection_def Let_def if_not_P [OF valid] t sum.case]
  have s: "s = t" using run assms(2) by (auto split: option.splits if_splits)
  show "qt_side q \<in> {BUY_YES, BUY_NO}" by (rule selected_side [OF t]) (use assms(2) s in simp)
  show "is_outsider_side (qt_side q) (ei_fresh_yes_price i) \<and> weighted_outsider_agreement_mode arts cfg = Some ''OUTSIDER_AGREE_ONLY'' \<longrightarrow>
      wp_models_agree (sl_probability s) = Some True"
    using run assms(2) s by (auto split: if_splits dest: arg_cong [where f = sl_selected])
qed

section \<open>What a BUY means\<close>

lemma consensus_sides:
  "lr \<in> {BUY_YES, BUY_NO, ''ABSTAIN''} \<Longrightarrow> dc_final_side (resolve_direction_consensus v lr b f) \<in> {BUY_YES, BUY_NO, ''SKIP''}"
  by (auto simp: resolve_direction_consensus_def lgbm_side_of_def Let_def)

lemma passed_side:
  assumes "direction_stage cfg i w = Inr v" "\<And>s q. w = Some s \<Longrightarrow> sl_selected s = Some q \<Longrightarrow> qt_side q \<in> {BUY_YES, BUY_NO}"
  shows "dc_final_side (vt_consensus v) \<in> {BUY_YES, BUY_NO}"
proof (cases w)
  case (Some s)
  then show ?thesis using direction_passed(6) [OF assms(1), of s] assms(2) by fastforce
next
  case None
  have vote: "vote_of cfg i \<in> {BUY_YES, BUY_NO, ''ABSTAIN''}" unfolding vote_of_def by (rule vote_values)
  show ?thesis
  proof (cases "logreg_only cfg")
    case True then show ?thesis using direction_passed(7) [OF assms(1)] None vote by auto
  next
    case False
    then have "vt_consensus v = resolve_direction_consensus (text_or (cg_direction (ec_signal (vt_context v))) ''NONE'') (vote_of cfg i)
        (tc_combined_require_consensus cfg) (tc_combined_fallback_to_logreg_on_none cfg)"
      using direction_passed(7) [OF assms(1)] None by simp
    then show ?thesis using consensus_sides [OF vote] direction_passed(5) [OF assms(1)] by auto
  qed
qed

lemma inner_result:
  assumes "evaluate_combined_entry lib pw arts cfg i = Inr r"
  obtains r0 w where "evaluate_selected arts cfg i w = Inr r0" "(w = None) = (\<not> weighted_active cfg)"
    "w \<noteq> None \<Longrightarrow> build_weighted_selection lib pw arts cfg i (effective_flip cfg i) = Inr (the w)"
    "r\<lparr>er_weighted := None\<rparr> = r0\<lparr>er_weighted := None\<rparr>"
proof -
  from assms obtain r0 w where inner: "evaluate_combined_entry_inner lib pw arts cfg i = Inr (r0, w)"
    by (auto simp: evaluate_combined_entry_def split: sum.splits)
  have "r\<lparr>er_weighted := None\<rparr> = r0\<lparr>er_weighted := None\<rparr>"
    using assms by (auto simp: evaluate_combined_entry_def inner Let_def split: sum.splits option.splits if_splits)
  moreover have "evaluate_selected arts cfg i w = Inr r0" "(w = None) = (\<not> weighted_active cfg)"
    "w \<noteq> None \<Longrightarrow> build_weighted_selection lib pw arts cfg i (effective_flip cfg i) = Inr (the w)"
    using inner by (auto simp: evaluate_combined_entry_inner_def split: if_splits sum.splits)
  ultimately show thesis using that by blast
qed

lemma same_decision_fields:
  assumes "r\<lparr>er_weighted := None\<rparr> = r0\<lparr>er_weighted := None\<rparr>"
  shows "er_action r = er_action r0" "er_entry_status r = er_entry_status r0" "er_candidate_ask r = er_candidate_ask r0"
    "er_p_flip r = er_p_flip r0" "er_p_candidate_win r = er_p_candidate_win r0" "er_net_edge r = er_net_edge r0"
    "er_max_acceptable_price r = er_max_acceptable_price r0" "er_bet_size r = er_bet_size r0"
  using assms by (cases r; cases r0; simp)+


text \<open>
  C24: the required consensus is kept to the end. When both votes are required and the direction model is in
  charge, a BUY is on the side of the direction model, whose answer was usable, and on the side of the entry
  model; no fallback replaces a missing vote.
\<close>

theorem required_consensus_respected:
  assumes "evaluate_combined_entry lib pw arts cfg i = Inr r" "er_action r \<noteq> ''SKIP''" "tc_combined_require_consensus cfg"
    "\<not> weighted_active cfg" "\<not> logreg_only cfg"
  shows "lgbm_side_of (text_or (cg_direction (ei_signal i)) ''NONE'') = er_action r \<and> vote_of cfg i = er_action r \<and>
    lgbm_available (ei_signal i)"
proof -
  obtain r0 where r0: "evaluate_selected arts cfg i None = Inr r0"
    and r: "r\<lparr>er_weighted := None\<rparr> = r0\<lparr>er_weighted := None\<rparr>" using inner_result [OF assms(1)] assms(4) by metis
  note f = same_decision_fields [OF r]
  obtain v where v: "direction_stage cfg i None = Inr v" and act: "er_action r = dc_final_side (vt_consensus v)"
  proof (rule evaluate_buys [OF r0])
    show "er_action r0 \<noteq> ''SKIP''" using assms(2) f(1) by simp
  next
    fix v e bet
    assume "direction_stage cfg i None = Inr v"
      "ready_entry arts cfg i (candidate_of cfg i None v) e (entry_edge_of arts cfg i None (candidate_of cfg i None v) e) bet r0"
    then show thesis using that [of v] f(1) by (simp add: ready_entry_def candidate_of_def Let_def)
  qed
  have vote: "vote_of cfg i \<in> {BUY_YES, BUY_NO, ''ABSTAIN''}" unfolding vote_of_def by (rule vote_values)
  let ?d = "text_or (cg_direction (ec_signal (vt_context v))) ''NONE''"
  have dc: "vt_consensus v = resolve_direction_consensus ?d (vote_of cfg i) True (tc_combined_fallback_to_logreg_on_none cfg)"
    using direction_passed(7) [OF v] assms(3,5) by simp
  then have both: "lgbm_side_of ?d = vote_of cfg i" "vote_of cfg i \<noteq> ''ABSTAIN''" "dc_final_side (vt_consensus v) = vote_of cfg i"
    using direction_passed(5) [OF v] consensus_side [OF vote, of ?d True "tc_combined_fallback_to_logreg_on_none cfg"]
    by (auto simp: Let_def split: if_splits)
  have "cg_direction (ec_signal (vt_context v)) \<noteq> Some ''NONE''" using both by (auto simp: text_or_def str_or_empty_def lgbm_side_of_def)
  then show ?thesis using check_direction_context [OF direction_passed(1) [OF v]] assms(4,5) both act by auto
qed

section \<open>The shadow record and the active mode\<close>

lemma valid_time_finite: "is_time_valid cfg t b = None \<Longrightarrow> isfinite t"
  by (cases t) (auto simp: is_time_valid_def Let_def split: if_splits)

lemma side_text: "side \<in> {BUY_YES, BUY_NO} \<Longrightarrow> upper (strip side) = side"
proof -
  have "upper (strip BUY_YES) = BUY_YES" "upper (strip BUY_NO) = BUY_NO" by code_simp+
  then show "side \<in> {BUY_YES, BUY_NO} \<Longrightarrow> upper (strip side) = side" by auto
qed

lemma sides_not_skip: "side \<in> {BUY_YES, BUY_NO} \<Longrightarrow> side \<noteq> ''SKIP''"
  by (auto simp: BUY_YES_def BUY_NO_def)

text \<open>The conditions that both have to check for a selected side.\<close>

definition active_gates :: "artifact_store \<Rightarrow> trading_config \<Rightarrow> entry_input \<Rightarrow> side_quote \<Rightarrow> dec_value \<Rightarrow> bool" where
  "active_gates arts cfg i q ask \<longleftrightarrow>
     (let outsider = is_outsider_side (qt_side q) (ei_fresh_yes_price i) in
      (if outsider then tc_trade_on_flip cfg else tc_trade_on_favorite cfg) \<and>
      spread_guard cfg (ei_spread i) (qt_side q) (ei_fresh_yes_price i) = None \<and>
      is_time_valid cfg (ei_time_left i) outsider = None \<and> tuned_time_guard arts cfg (ei_time_left i) outsider = None \<and>
      is_price_valid cfg ask outsider = None \<and> tuned_price_guard arts cfg ask outsider = None \<and>
      \<not> qt_net_ev q < weighted_min_net_ev arts cfg outsider)"

lemma eligible_gates:
  assumes "sl_selected s = Some q" "qt_side q \<in> {BUY_YES, BUY_NO}" "0 < qt_ask q" "qt_ask q < 1" "isfinite (ei_fresh_yes_price i)"
    "is_outsider_side (qt_side q) (ei_fresh_yes_price i) \<and> weighted_outsider_agreement_mode arts cfg = Some ''OUTSIDER_AGREE_ONLY'' \<longrightarrow>
      wp_models_agree (sl_probability s) = Some True"
  shows "el_eligible (weighted_policy_eligibility arts cfg (compact name s) (ei_fresh_yes_price i) (Some (ei_time_left i)) (ei_spread i)) \<longleftrightarrow>
    active_gates arts cfg i q (Finite (qt_ask q))"
proof -
  have arm: "upper (strip (str_or_empty (ar_selected_side (compact name s)))) = qt_side q" "ar_selected_ask (compact name s) = Some (qt_ask q)"
    "ar_models_agree (compact name s) = wp_models_agree (sl_probability s)" "ar_net_ev (compact name s) = Some (qt_net_ev q)"
    using assms(1) side_text [OF assms(2)] by (simp_all add: compact_def str_or_empty_def)
  define out where "out = is_outsider_side (qt_side q) (ei_fresh_yes_price i)"
  have agree: "\<not> (out \<and> weighted_outsider_agreement_mode arts cfg = Some ''OUTSIDER_AGREE_ONLY'' \<and>
      ar_models_agree (compact name s) \<noteq> Some True)" using assms(6) by (auto simp: out_def arm)
  note run = weighted_policy_eligibility_def [where arm = "compact name s" and fresh = "ei_fresh_yes_price i" and time_left = "Some (ei_time_left i)" and
      spread = "ei_spread i" and arts = arts and cfg = cfg, unfolded Let_def arm(1,2,4) option.case, folded out_def, unfolded if_not_P [OF agree]]
  have rej: "\<not> el_eligible (not_eligible x y)" for x y by (simp add: not_eligible_def)
  show ?thesis unfolding run active_gates_def Let_def out_def [symmetric]
    using assms(2-5) valid_time_finite [of cfg "ei_time_left i" out] rej
    by (auto split: option.split)
qed

lemma active_decision:
  assumes "weighted_active cfg" "sl_selected s = Some q" "qt_side q \<in> {BUY_YES, BUY_NO}" "\<not> cg_risk_vetoed (ei_signal i)"
    "evaluate_selected arts cfg i (Some s) = Inr r" "er_entry_status r \<noteq> ''ZERO_BET''"
  shows "er_action r = qt_side q \<longleftrightarrow> active_gates arts cfg i q (candidate_ask_of i (qt_side q))"
proof -
  have modes: "\<not> logreg_only cfg" using assms(1) by (simp add: logreg_only_def)
  have ns: "qt_side q \<noteq> ''SKIP''" by (rule sides_not_skip [OF assms(3)])
  have check: "check_direction_model cfg i (initial_context cfg i) = Inr (initial_context cfg i)"
    using assms(1) by (simp add: check_direction_model_def Let_def)
  obtain v where v: "direction_stage cfg i (Some s) = Inr v" "dc_final_side (vt_consensus v) = qt_side q"
    using assms(1,2,4) modes ns by (auto simp: direction_stage_def Let_def check)
  define c where "c = candidate_of cfg i (Some s) v"
  have c: "cd_side c = qt_side q" "cd_ask c = candidate_ask_of i (qt_side q)"
    "cd_is_outsider c = is_outsider_side (qt_side q) (ei_fresh_yes_price i)"
    by (simp_all add: c_def candidate_of_def Let_def v(2))
  note run = assms(5) [unfolded evaluate_selected_def v sum.case Let_def, folded c_def]
  have gates: "active_gates arts cfg i q (candidate_ask_of i (qt_side q)) \<longleftrightarrow>
      early_gate cfg i c = None \<and> late_gate arts cfg i c e = None \<and> \<not> qt_net_ev q < weighted_min_net_ev arts cfg (cd_is_outsider c)" for e
    using assms(1) by (auto simp: active_gates_def early_gate_None late_gate_None time_refusal_None price_refusal_None c Let_def)
  have edge: "eg_net (entry_edge_of arts cfg i (Some s) c e) = Finite (qt_net_ev q)"
    "eg_min_net (entry_edge_of arts cfg i (Some s) c e) = weighted_min_net_ev arts cfg (cd_is_outsider c)" for e
    using assms(2) by (simp_all add: entry_edge_of_def Let_def)
  show ?thesis
  proof (cases "early_gate cfg i c")
    case (Some r')
    then have "er_action r = ''SKIP''" using run early_gate_skips [OF Some] by simp
    then show ?thesis using gates Some ns by simp
  next
    case None
    then obtain e where e: "win_estimate_of cfg i (Some s) c = Inr e" using run by (auto split: sum.splits)
    show ?thesis
    proof (cases "late_gate arts cfg i c e")
      case (Some r')
      then have "er_action r = ''SKIP''" using run None e late_gate_skips [OF Some] by simp
      then show ?thesis using gates [of e] Some ns by simp
    next
      case late: None
      then have size: "size_entry arts cfg i (Some s) c e = Inr r" using run None e by simp
      show ?thesis using size assms(6) ns gates [of e] None late
        unfolding size_entry_def Let_def edge by (auto simp: c split: if_splits sum.splits)
    qed
  qed
qed


section \<open>The shadow changes nothing\<close>

lemma unweighted_fields [simp]:
  "er_weighted (skip_entry i x ds es r) = None" "er_weighted (with_votes v r') = er_weighted r'"
  "er_weighted (skip_candidate i c es r) = None" "er_weighted (without_correction r') = er_weighted r'"
  "er_weighted (skip_estimated i c e es r) = None"
  by (simp_all add: skip_entry_def with_votes_def skip_candidate_def without_correction_def skip_estimated_def)

lemma check_direction_unweighted: "check_direction_model cfg i x = Inl r \<Longrightarrow> er_weighted r = None"
  by (auto simp: check_direction_model_def Let_def split: if_splits)

lemma direction_unweighted: "direction_stage cfg i w = Inl r \<Longrightarrow> er_weighted r = None"
  by (auto simp: direction_stage_def Let_def split: if_splits sum.splits option.splits dest: check_direction_unweighted)

lemma late_gate_unweighted: "late_gate arts cfg i c e = Some r \<Longrightarrow> er_weighted r = None"
  by (auto simp: late_gate_def Let_def split: if_splits option.splits)

lemma size_entry_unweighted: "size_entry arts cfg i w c e = Inr r \<Longrightarrow> er_weighted r = None"
  by (auto simp: size_entry_def Let_def split: if_splits sum.splits)

lemma weighted_only_outside: "evaluate_selected arts cfg i w = Inr r \<Longrightarrow> er_weighted r = None"
  by (auto simp: evaluate_selected_def Let_def early_gate_def split: sum.splits option.splits if_splits
      dest: direction_unweighted late_gate_unweighted size_entry_unweighted)

text \<open>Outside the active mode the policy mode is not read.\<close>

abbreviation set_mode :: "string \<Rightarrow> trading_config \<Rightarrow> trading_config" where
  "set_mode m cfg \<equiv> cfg\<lparr>tc_trading_policy_mode := m\<rparr>"

lemma mode_unread [simp]:
  "effective_flip (set_mode m cfg) i = effective_flip cfg i" "flip_threshold_value (set_mode m cfg) i = flip_threshold_value cfg i"
  "spread_guard (set_mode m cfg) s side fresh = spread_guard cfg s side fresh"
  "is_time_valid (set_mode m cfg) t b = is_time_valid cfg t b" "is_price_valid (set_mode m cfg) p b = is_price_valid cfg p b"
  "get_min_edge (set_mode m cfg) b = get_min_edge cfg b"
  by (simp_all add: effective_flip_def flip_threshold_value_def spread_guard_def is_time_valid_def is_price_valid_def get_min_edge_def
      cong: option.case_cong if_cong)

lemma early_mode_unread [simp]: "early_gate (set_mode m cfg) i c = early_gate cfg i c"
  by (simp add: early_gate_def)

lemma bet_mode_unread [simp]: "resolve_final_bet e v (set_mode m cfg) b = resolve_final_bet e v cfg b"
  by (simp add: resolve_final_bet_def Let_def cong: if_cong)

lemma unwatched_mode:
  assumes "\<not> weighted_active cfg" "\<not> weighted_active (set_mode m cfg)"
  shows "evaluate_selected arts (set_mode m cfg) i None = evaluate_selected arts cfg i None"
proof -
  have only: "logreg_only (set_mode m cfg) = logreg_only cfg" using assms by (simp add: logreg_only_def)
  have ctx: "initial_context (set_mode m cfg) i = initial_context cfg i" by (simp add: initial_context_def only Let_def cong: if_cong)
  have check: "check_direction_model (set_mode m cfg) i x = check_direction_model cfg i x" for x
    using assms by (simp add: check_direction_model_def only Let_def cong: if_cong)
  have stage: "direction_stage (set_mode m cfg) i None = direction_stage cfg i None"
    using assms by (simp add: direction_stage_def only ctx check Let_def cong: sum.case_cong option.case_cong if_cong)
  have cand: "candidate_of (set_mode m cfg) i None v = candidate_of cfg i None v" for v by (simp add: candidate_of_def only Let_def cong: option.case_cong if_cong)
  have win: "win_estimate_of (set_mode m cfg) i None c = win_estimate_of cfg i None c" for c by (simp add: win_estimate_of_def only Let_def cong: option.case_cong if_cong)
  have time: "time_refusal arts (set_mode m cfg) t b = time_refusal arts cfg t b" for t b using assms by (simp add: time_refusal_def cong: option.case_cong if_cong)
  have price: "price_refusal arts (set_mode m cfg) p b = price_refusal arts cfg p b" for p b using assms by (simp add: price_refusal_def cong: option.case_cong if_cong)
  have late: "late_gate arts (set_mode m cfg) i c e = late_gate arts cfg i c e" for c e using assms by (simp add: late_gate_def time price Let_def cong: option.case_cong if_cong)
  have edge: "entry_edge_of arts (set_mode m cfg) i None c e = entry_edge_of arts cfg i None c e" for c e by (simp add: entry_edge_of_def Let_def cong: option.case_cong if_cong)
  have limit: "max_acceptable_price arts (set_mode m cfg) c e g = max_acceptable_price arts cfg c e g" for c e g
    using assms by (simp add: max_acceptable_price_def Let_def cong: option.case_cong if_cong)
  have size: "size_entry arts (set_mode m cfg) i None c e = size_entry arts cfg i None c e" for c e
    by (simp add: size_entry_def edge limit entry_bet_def Let_def cong: sum.case_cong option.case_cong if_cong)
  show ?thesis unfolding evaluate_selected_def stage cand win late size early_mode_unread by (rule refl)
qed

lemma fixed_modes: "policy_mode (set_mode ''LEGACY'' cfg) = ''LEGACY''"
proof -
  have "upper ''LEGACY'' = ''LEGACY''" by code_simp
  then show ?thesis by (simp add: policy_mode_def text_or_def str_or_empty_def)
qed

text \<open>
  C26: the shadow mode trades as the legacy mode does. Whatever the weighted policy computes, the result of the
  shadow mode is the result of the legacy mode with the record of the weighted policy attached.
\<close>

theorem shadow_trades_like_legacy:
  assumes "policy_mode cfg = ''WEIGHTED_SHADOW''" "evaluate_combined_entry lib pw arts cfg i = Inr r"
  shows "evaluate_combined_entry lib pw arts (set_mode ''LEGACY'' cfg) i = Inr (r\<lparr>er_weighted := None\<rparr>) \<and>
    (\<exists>f. er_weighted r = Some f \<and> wf_policy_mode f = ''WEIGHTED_SHADOW'')"
proof -
  have modes: "\<not> weighted_active cfg" "\<not> weighted_active (set_mode ''LEGACY'' cfg)" "policy_mode (set_mode ''LEGACY'' cfg) \<noteq> ''WEIGHTED_SHADOW''"
    using assms(1) by (simp_all add: weighted_active_def fixed_modes)
  obtain r0 where r0: "evaluate_selected arts cfg i None = Inr r0" and r: "r\<lparr>er_weighted := None\<rparr> = r0\<lparr>er_weighted := None\<rparr>"
    using inner_result [OF assms(2)] modes(1) by metis
  have none: "er_weighted r0 = None" by (rule weighted_only_outside [OF r0])
  have same: "r0\<lparr>er_weighted := None\<rparr> = r0" using none by (cases r0) simp
  have legacy: "evaluate_combined_entry lib pw arts (set_mode ''LEGACY'' cfg) i = Inr r0"
    using modes unwatched_mode [OF modes(1,2)] r0 by (simp add: evaluate_combined_entry_def evaluate_combined_entry_inner_def)
  have "\<exists>f. er_weighted r = Some f \<and> wf_policy_mode f = ''WEIGHTED_SHADOW''"
    using assms modes r0 by (auto simp: evaluate_combined_entry_def evaluate_combined_entry_inner_def Let_def weighted_result_fields_def split: sum.splits)
  then show ?thesis using legacy r same by simp
qed

section \<open>No input makes the decision fail\<close>

text \<open>Finite numbers are floats, the ones of the artifact and of the configuration included.\<close>

definition entry_floats :: "artifact_store \<Rightarrow> trading_config \<Rightarrow> entry_input \<Rightarrow> bool" where
  "entry_floats arts cfg i \<longleftrightarrow>
     list_all is_float [any_of (ei_yes_ask i), any_of (ei_no_ask i), any_of (ei_fee_rate i), any_of (ei_maker_fee_rate i),
       any_of (ei_fee_exponent i), num (tc_weighted_fee_rate cfg), num (tc_weighted_maker_fee_rate cfg), num (tc_weighted_fee_exponent cfg)] \<and>
     (case weighted_artifact arts cfg of Some a \<Rightarrow> \<forall>key v. pa_policy_config a key = Some v \<longrightarrow> is_float v | None \<Rightarrow> True)"

lemma override_float: "is_float v \<Longrightarrow> \<forall>key v. pa_policy_config a key = Some v \<longrightarrow> is_float v \<Longrightarrow> is_float (override a key v)"
  by (auto simp: override_def split: option.split)

lemma request_costs_floats:
  "policy_floats c \<Longrightarrow> is_float (any_of (ei_fee_rate i)) \<Longrightarrow> is_float (any_of (ei_maker_fee_rate i)) \<Longrightarrow> is_float (any_of (ei_fee_exponent i)) \<Longrightarrow>
     policy_floats (request_costs i c)"
  by (auto simp: policy_floats_def request_costs_def split: option.split)

lemma artifact_floats:
  "policy_floats c \<Longrightarrow> \<forall>key v. pa_policy_config a key = Some v \<longrightarrow> is_float v \<Longrightarrow> policy_floats (weighted_policy_config_from_artifact a c)"
  by (auto simp: policy_floats_def weighted_policy_config_from_artifact_def Let_def override_float split: option.split)

lemma tuning_floats: "policy_floats c \<Longrightarrow> policy_floats (apply_artifact_tuning arts cfg c)"
  by (auto simp: policy_floats_def apply_artifact_tuning_def Let_def split: option.split)

lemma application_floats: "policy_floats c \<Longrightarrow> policy_floats (normalize_application c)"
  by (auto simp: policy_floats_def normalize_application_def Let_def)

lemma configured_floats: "entry_floats arts cfg i \<Longrightarrow> policy_floats (configured_policy cfg)"
  by (simp add: policy_floats_def configured_policy_def entry_floats_def)

lemma runtime_floats: "entry_floats arts cfg i \<Longrightarrow> policy_floats (runtime_policy arts cfg i)"
  using configured_floats [of arts cfg i]
  by (auto simp: runtime_policy_def Let_def entry_floats_def intro!: application_floats tuning_floats request_costs_floats artifact_floats
      split: option.splits)

lemma selection_total:
  assumes "entry_floats arts cfg i" "pow_nonneg pw"
  shows "\<exists>s. build_weighted_selection lib pw arts cfg i p = Inr s"
proof -
  have asks: "is_float (any_of (ei_yes_ask i))" "is_float (any_of (ei_no_ask i))" using assms(1) by (simp_all add: entry_floats_def)
  obtain t where "select_weighted_side lib pw (selection_inputs i p) (any_of (ei_yes_ask i)) (any_of (ei_no_ask i)) (runtime_policy arts cfg i)
      (ei_mrf_evidence i) (num 0) (ei_fee_source i) (spread_of i) (pc_mrf_extreme_veto_threshold (runtime_policy arts cfg i)) = Inr t"
    using weighted_selection_correct [OF asks runtime_floats [OF assms(1)] assms(2)] by blast
  then show ?thesis by (auto simp: build_weighted_selection_def Let_def split: option.split)
qed

text \<open>The costs of a quote are floats again, so the counterfactual arms can be computed from them.\<close>

lemma make_side_quote_floats:
  assumes "make_side_quote pw side ask p c spread source = Inr (Some q)" "policy_floats c" "is_float ask"
  shows "flt (co_fee_rate (qt_cost q)) = co_fee_rate (qt_cost q)" "flt (co_maker_fee_rate (qt_cost q)) = co_maker_fee_rate (qt_cost q)"
    "flt (co_fee_exponent (qt_cost q)) = co_fee_exponent (qt_cost q)" "flt (qt_ask q) = qt_ask q"
proof -
  from assms(1) obtain a k where k: "estimate_trade_cost pw (num a) (quote_cost_params c spread source) = Inr k" "qt_cost q = k"
    by (auto simp: make_side_quote_def split: option.splits if_splits sum.splits)
  have "co_fee_rate k = finite_nonnegative (pc_fee_rate c) 0" "co_maker_fee_rate k = finite_nonnegative (pc_maker_fee_rate c) 0"
    "co_fee_exponent k = finite_nonnegative (pc_fee_exponent c) 1"
    using k(1) by (auto simp: estimate_trade_cost_def quote_cost_params_def Let_def split: sum.splits)
  then show "flt (co_fee_rate (qt_cost q)) = co_fee_rate (qt_cost q)" "flt (co_maker_fee_rate (qt_cost q)) = co_maker_fee_rate (qt_cost q)"
    "flt (co_fee_exponent (qt_cost q)) = co_fee_exponent (qt_cost q)"
    using assms(2) k(2) finite_nonnegative_float by (simp_all add: policy_floats_def)
  show "flt (qt_ask q) = qt_ask q" using make_side_quote_side [OF assms(1)] by auto
qed

definition quote_floats :: "side_quote option \<Rightarrow> bool" where
  "quote_floats x \<longleftrightarrow> (case x of None \<Rightarrow> True | Some q \<Rightarrow>
     flt (co_fee_rate (qt_cost q)) = co_fee_rate (qt_cost q) \<and> flt (co_maker_fee_rate (qt_cost q)) = co_maker_fee_rate (qt_cost q) \<and>
     flt (co_fee_exponent (qt_cost q)) = co_fee_exponent (qt_cost q) \<and> flt (qt_ask q) = qt_ask q)"

lemma selected_quotes_floats:
  assumes "select_weighted_side lib pw i y n c ev least source spread veto = Inr s" "policy_floats c" "is_float y" "is_float n"
  shows "quote_floats (sl_yes_quote s)" "quote_floats (sl_no_quote s)"
proof -
  obtain yq where y: "make_side_quote pw BUY_YES y (wp_final_yes (score_weighted_probability lib i c ev)) c spread source = Inr yq"
    using assms(1) by (auto simp: select_weighted_side_def Let_def split: sum.splits)
  obtain nq where n: "make_side_quote pw BUY_NO n (wp_final_yes (score_weighted_probability lib i c ev)) c spread source = Inr nq"
    using assms(1) by (auto simp: select_weighted_side_def Let_def split: sum.splits)
  have "sl_yes_quote s = yq" "sl_no_quote s = nq" using assms(1) by (auto simp: select_weighted_side_def Let_def y n split: if_splits option.splits)
  moreover have "quote_floats yq" using make_side_quote_floats [of pw _ y _ c] y assms(2,3) by (auto simp: quote_floats_def split: option.split)
  moreover have "quote_floats nq" using make_side_quote_floats [of pw _ n _ c] n assms(2,4) by (auto simp: quote_floats_def split: option.split)
  ultimately show "quote_floats (sl_yes_quote s)" "quote_floats (sl_no_quote s)" by simp_all
qed

lemma built_quotes_floats:
  assumes "build_weighted_selection lib pw arts cfg i p = Inr s" "entry_floats arts cfg i"
  shows "quote_floats (sl_yes_quote s) \<and> quote_floats (sl_no_quote s)"
proof (cases "artifact_path cfg \<noteq> [] \<and> weighted_artifact arts cfg = None")
  case True
  then show ?thesis using assms(1) by (auto simp: build_weighted_selection_def Let_def quote_floats_def split: if_splits)
next
  case False
  then obtain t where t: "select_weighted_side lib pw (selection_inputs i p) (any_of (ei_yes_ask i)) (any_of (ei_no_ask i)) (runtime_policy arts cfg i)
      (ei_mrf_evidence i) (num 0) (ei_fee_source i) (spread_of i) (pc_mrf_extreme_veto_threshold (runtime_policy arts cfg i)) = Inr t"
    using assms(1) by (auto simp: build_weighted_selection_def Let_def split: sum.splits if_splits)
  have "is_float (any_of (ei_yes_ask i))" "is_float (any_of (ei_no_ask i))" using assms(2) by (simp_all add: entry_floats_def)
  note q = selected_quotes_floats [OF t runtime_floats [OF assms(2)] this]
  have "sl_yes_quote s = sl_yes_quote t \<and> sl_no_quote s = sl_no_quote t"
    using assms(1) False by (auto simp: build_weighted_selection_def Let_def t split: if_splits option.splits)
  then show ?thesis using q by simp
qed

lemma combined_action:
  assumes "evaluate_combined_entry lib pw arts cfg i = Inr r" shows "er_action r \<in> {BUY_YES, BUY_NO, ''SKIP''}"
proof -
  obtain r0 w where r0: "evaluate_selected arts cfg i w = Inr r0" and w: "w \<noteq> None \<Longrightarrow> build_weighted_selection lib pw arts cfg i (effective_flip cfg i) = Inr (the w)"
    and r: "r\<lparr>er_weighted := None\<rparr> = r0\<lparr>er_weighted := None\<rparr>" using inner_result [OF assms] by metis
  have "er_action r0 \<in> {BUY_YES, BUY_NO}" if ns: "er_action r0 \<noteq> ''SKIP''"
  proof (rule evaluate_buys [OF r0 ns])
    fix v e bet
    assume v: "direction_stage cfg i w = Inr v"
      and ready: "ready_entry arts cfg i (candidate_of cfg i w v) e (entry_edge_of arts cfg i w (candidate_of cfg i w v) e) bet r0"
    have "dc_final_side (vt_consensus v) \<in> {BUY_YES, BUY_NO}" by (rule passed_side [OF v]) (use w built_side(1) in force)
    then show ?thesis using ready by (simp add: ready_entry_def candidate_of_def Let_def)
  qed
  then show ?thesis using same_decision_fields(1) [OF r] by auto
qed

lemma snapshot_floats:
  assumes "entry_floats arts cfg i" "quote_floats (sl_yes_quote s)" "quote_floats (sl_no_quote s)"
  shows "policy_floats (snapshot_policy arts cfg s)"
proof -
  define quoted where "quoted = best_quote (sl_yes_quote s) (sl_no_quote s)"
  have q: "quote_floats quoted" using assms(2,3)
    by (cases "sl_yes_quote s"; cases "sl_no_quote s") (auto simp: quoted_def quote_floats_def)
  have c: "is_float (num (case quoted of Some q \<Rightarrow> co_fee_rate (qt_cost q) | None \<Rightarrow> tc_weighted_fee_rate cfg))"
    "is_float (num (case quoted of Some q \<Rightarrow> co_maker_fee_rate (qt_cost q) | None \<Rightarrow> tc_weighted_maker_fee_rate cfg))"
    "is_float (num (case quoted of Some q \<Rightarrow> co_fee_exponent (qt_cost q) | None \<Rightarrow> tc_weighted_fee_exponent cfg))"
    using q assms(1) by (auto simp: quote_floats_def entry_floats_def split: option.splits)
  have stake: "policy_floats (if b then c\<lparr>pc_mrf_beta := x, pc_mrf_application := y\<rparr> else c) = policy_floats c" for b c x y
    by (simp add: policy_floats_def)
  show ?thesis unfolding snapshot_policy_def Let_def quoted_def [symmetric] stake
    using c by (auto simp: policy_floats_def intro!: tuning_floats [unfolded policy_floats_def] split: option.split)
qed

lemma run_arms_total: "(\<And>x. x \<in> set xs \<Longrightarrow> \<exists>y. f x = Inr y) \<Longrightarrow> \<exists>ys. run_arms f xs = Inr ys"
  by (induction xs) (auto split: sum.split, metis sum.distinct(1))

lemma policy_arms_floats: "policy_floats c \<Longrightarrow> arm \<in> set (policy_arms c) \<Longrightarrow> policy_floats (snd arm)"
  by (auto simp: policy_arms_def without_models_def policy_floats_def)

lemma benchmark_total:
  assumes "policy_floats c" "is_float y" "is_float n" "pow_nonneg pw" "pi_logreg_yes inputs = any_of l" "pi_lgbm_yes inputs = any_of g"
  shows "\<exists>arms. benchmark_policy_arms lib pw inputs y n c ev source spread = Inr arms"
proof -
  have "\<exists>r. run_arm lib pw inputs y n ev source spread arm = Inr r" if arm: "arm \<in> set (policy_arms c)" for arm
  proof -
    obtain name c' where a: "arm = (name, c')" by (cases arm)
    have "policy_floats c'" using policy_arms_floats [OF assms(1) arm] a by simp
    from weighted_selection_correct [OF assms(2,3) this assms(4)]
    obtain s where "select_weighted_side lib pw inputs y n c' (if name = ''FULL_WEIGHTED_MRF'' then ev else VNone) (num 0) source spread
        (pc_mrf_extreme_veto_threshold c') = Inr s" by blast
    then show ?thesis by (simp add: run_arm_def a)
  qed
  then obtain rs where rs: "run_arms (run_arm lib pw inputs y n ev source spread) (policy_arms c) = Inr rs"
    using run_arms_total by blast
  have "\<exists>b. raw_agreement inputs = Inr b" using assms(5,6) by (cases l; cases g) (auto simp: raw_agreement_def)
  then show ?thesis using rs by (auto simp: benchmark_policy_arms_def)
qed

lemma bind_total: "\<exists>x. m = Inr x \<Longrightarrow> (\<And>x. \<exists>y. f x = Inr y) \<Longrightarrow> \<exists>y. bind_out m f = Inr y"
  by (elim exE) simp

lemma fields_total:
  assumes "entry_floats arts cfg i" "quote_floats (sl_yes_quote s)" "quote_floats (sl_no_quote s)" "pow_nonneg pw"
  shows "\<exists>f. weighted_result_fields lib pw arts cfg i s action = Inr f"
proof -
  have ask: "is_float (any_of (map_option (Finite \<circ> qt_ask) x))" if "quote_floats x" for x
    using that by (cases x) (simp_all add: quote_floats_def)
  have "\<exists>snap. weighted_benchmark_snapshot lib pw arts cfg s (ei_fresh_yes_price i) action (Some (ei_time_left i)) (ei_spread i) = Inr snap"
    unfolding weighted_benchmark_snapshot_def Let_def
    by (rule bind_total, rule benchmark_total [OF snapshot_floats [OF assms(1-3)] ask [OF assms(2)] ask [OF assms(3)] assms(4)])
      (simp_all only: probability_inputs.select_convs sum.inject ex_simps simp_thms)
  then show ?thesis using weighted_sizing_total [of arts cfg s "ei_fresh_yes_price i"]
    by (auto simp: weighted_result_fields_def Let_def)
qed

lemma selected_total:
  assumes "\<And>s q. w = Some s \<Longrightarrow> sl_selected s = Some q \<Longrightarrow> qt_side q \<in> {BUY_YES, BUY_NO}"
  shows "\<exists>r. evaluate_selected arts cfg i w = Inr r"
proof (cases "direction_stage cfg i w")
  case (Inl r)
  then show ?thesis by (simp add: evaluate_selected_def)
next
  case (Inr v)
  define c where "c = candidate_of cfg i w v"
  have "cd_side c \<in> {BUY_YES, BUY_NO}" using passed_side [OF Inr assms] by (simp add: c_def candidate_of_def Let_def)
  then have prob: "\<exists>x. probability_for_side p (cd_side c) = Inr x" for p by (auto simp: probability_for_side_def split: option.split)
  have e: "\<exists>e. win_estimate_of cfg i w c = Inr e"
  proof (cases w)
    case None
    then show ?thesis by (simp add: win_estimate_of_def Let_def)
  next
    case (Some s)
    obtain x where "probability_for_side (any_of (map_option Finite (wp_logreg_yes (sl_probability s)))) (cd_side c) = Inr x" using prob by blast
    then show ?thesis by (simp add: win_estimate_of_def Let_def Some)
  qed
  have bet: "\<exists>b. entry_bet arts cfg i w c g = Inr b" for g
  proof (cases w)
    case None then show ?thesis by (simp add: entry_bet_def)
  next
    case (Some s)
    then show ?thesis using weighted_sizing_total [of arts cfg s "ei_fresh_yes_price i"] by (auto simp: entry_bet_def)
  qed
  have "\<exists>r. size_entry arts cfg i w c e = Inr r" for e
    using bet [of "entry_edge_of arts cfg i w c e"] by (auto simp: size_entry_def Let_def)
  then show ?thesis using e by (auto simp: evaluate_selected_def Inr c_def [symmetric] Let_def split: option.split)
qed

lemma combined_entry_total:
  assumes "entry_floats arts cfg i" "pow_nonneg pw"
  shows "\<exists>r. evaluate_combined_entry lib pw arts cfg i = Inr r \<and> er_action r \<in> {BUY_YES, BUY_NO, ''SKIP''}"
proof -
  obtain s where s: "build_weighted_selection lib pw arts cfg i (effective_flip cfg i) = Inr s" using selection_total [OF assms] by blast
  note side = built_side(1) [OF s] and floats = built_quotes_floats [OF s assms(1)]
  define w where "w = (if weighted_active cfg then Some s else None)"
  have "\<exists>r. evaluate_selected arts cfg i w = Inr r" by (rule selected_total) (use side in \<open>auto simp: w_def split: if_splits\<close>)
  then obtain r where r: "evaluate_selected arts cfg i w = Inr r" ..
  have inner: "evaluate_combined_entry_inner lib pw arts cfg i = Inr (r, w)"
    using r s by (cases "weighted_active cfg") (simp_all add: evaluate_combined_entry_inner_def w_def)
  have "\<exists>r. evaluate_combined_entry lib pw arts cfg i = Inr r"
  proof (cases "weighted_active cfg")
    case True
    then show ?thesis using fields_total [OF assms(1) _ _ assms(2), of s lib "er_action r"] floats
      by (auto simp: evaluate_combined_entry_def inner w_def)
  next
    case False
    obtain t where t: "build_weighted_selection lib pw arts cfg i (case er_p_flip_effective r of Some p \<Rightarrow> Some p | None \<Rightarrow> ei_p_flip i) = Inr t"
      using selection_total [OF assms] by blast
    show ?thesis using False fields_total [OF assms(1) _ _ assms(2), of t lib "er_action r"] built_quotes_floats [OF t assms(1)]
      by (auto simp: evaluate_combined_entry_def inner w_def t)
  qed
  then show ?thesis using combined_action by blast
qed


section \<open>Sample decisions\<close>

definition combined_config :: "string \<Rightarrow> string \<Rightarrow> trading_config" where
  "combined_config mode lgbm =
     sample_config\<lparr>tc_trading_policy_mode := mode, tc_lightgbm_decision_mode := lgbm, tc_flip_threshold := 1/2,
       tc_combined_logreg_abstain_band := 1/16, tc_combined_require_consensus := True, tc_combined_dir_discount_weight := 0,
       tc_enable_ece_correction := True, tc_min_direction_prob := 1/2, tc_min_win_prob := 1/2, tc_trade_on_favorite := True, tc_favor_min_time_left := 60,
       tc_favor_max_time_left := 600, tc_trade_min_price := Finite 0, tc_trade_max_price := Finite 1, tc_favorite_min_price := Finite 0,
       tc_favorite_max_price := Finite 1, tc_favorite_min_edge := 1/16, tc_max_spread_pct := 0, tc_bet_sizing_mode := ''fixed'',
       tc_bet_size := Finite 10, tc_bypass_bet_size_check := True, tc_max_price_drift := Finite 0,
       tc_weighted_policy_artifact_path := [], tc_weighted_market_weight := 1, tc_weighted_logreg_weight := 0, tc_weighted_lgbm_weight := 0,
       tc_weighted_mrf_beta := 0, tc_weighted_models_agree_beta := 0, tc_weighted_mrf_application := ''PROBABILITY'', tc_weighted_intercept := 0,
       tc_weighted_fee_rate := 0, tc_weighted_maker_fee_rate := 0, tc_weighted_fee_exponent := 1, tc_weighted_slippage_rate := 0,
       tc_weighted_latency_buffer := 0, tc_weighted_execution_role := ''TAKER'', tc_weighted_mrf_extreme_veto_threshold := - 1,
       tc_weighted_min_net_ev_favorite := 0\<rparr>"

definition combined_input :: "dec_value option \<Rightarrow> dec_value option \<Rightarrow> entry_input" where
  "combined_input p_flip yes_ask =
     \<lparr>ei_signal = \<lparr>cg_symbol = ''BTCUSDT'', cg_p_up = Some (Finite (3/4)), cg_p_down = Some (Finite (1/4)), cg_direction = Some ''UP'',
        cg_model_version = Some 1, cg_features_ok = True, cg_risk_vetoed = False, cg_risk_reason = [], cg_regime = [], cg_status = ''READY''\<rparr>,
      ei_market_phase = ''decided'', ei_entry_model_key = Some ''BTC_decided'', ei_entry_model_source = ''PHASE'', ei_p_flip = p_flip,
      ei_fresh_yes_price = Finite (3/4), ei_yes_ask = yes_ask, ei_no_ask = None, ei_cost_buffer = Finite 0, ei_volume_5min = Finite 0,
      ei_time_left = Finite 100, ei_entry_model_ece = Finite 0, ei_flip_threshold = VNone, ei_mrf_evidence = VNone, ei_fee_rate = None,
      ei_maker_fee_rate = None, ei_taker_only = False, ei_fee_exponent = None, ei_fee_source = ''CONFIG_DEFAULT'', ei_spread = None,
      ei_spread_cost = None, ei_yes_bid = None, ei_no_bid = None, ei_yes_bid_size = None, ei_yes_ask_size = None, ei_no_bid_size = None,
      ei_no_ask_size = None\<rparr>"

definition no_artifacts :: artifact_store where
  "no_artifacts path = None"

lemma sample_modes:
  "policy_mode (combined_config m l) = upper (text_or (Some m) ''LEGACY'')"
  "upper (text_or (Some ''LEGACY'') ''LEGACY'') = ''LEGACY''" "upper (text_or (Some ''WEIGHTED_SHADOW'') ''LEGACY'') = ''WEIGHTED_SHADOW''"
  "upper (text_or (Some ''WEIGHTED_ACTIVE'') ''LEGACY'') = ''WEIGHTED_ACTIVE''"
proof -
  show "policy_mode (combined_config m l) = upper (text_or (Some m) ''LEGACY'')" by (simp add: policy_mode_def combined_config_def)
  show "upper (text_or (Some ''LEGACY'') ''LEGACY'') = ''LEGACY''" "upper (text_or (Some ''WEIGHTED_SHADOW'') ''LEGACY'') = ''WEIGHTED_SHADOW''"
    "upper (text_or (Some ''WEIGHTED_ACTIVE'') ''LEGACY'') = ''WEIGHTED_ACTIVE''" by code_simp+
qed

lemma sample_floats: "entry_floats no_artifacts (combined_config m l) (combined_input p None)"
  "entry_floats no_artifacts (combined_config m l) (combined_input p (Some (Finite (1/2))))"
  by (simp_all add: entry_floats_def combined_config_def combined_input_def weighted_artifact_def artifact_path_def strip_def rstrip_def)

lemma sample_pow: "pow_nonneg (\<lambda>_ _. 0)"
  by (simp add: pow_nonneg_def)


theorem shadow_trades_like_legacy_witness:
  "\<exists>r. evaluate_combined_entry sample_libm (\<lambda>_ _. 0) no_artifacts (set_mode ''LEGACY'' (combined_config ''WEIGHTED_SHADOW'' ''SHADOW''))
      (combined_input (Some NotANumber) None) = Inr r"
proof -
  obtain r where "evaluate_combined_entry sample_libm (\<lambda>_ _. 0) no_artifacts (combined_config ''WEIGHTED_SHADOW'' ''SHADOW'')
      (combined_input (Some NotANumber) None) = Inr r"
    using combined_entry_total [OF sample_floats(1) sample_pow] by blast
  from shadow_trades_like_legacy [OF _ this] show ?thesis by (auto simp: sample_modes)
qed

text \<open>
  The sample is bought in the two modes without an active weighted policy, by both models; a flip probability that
  is not a number gives the vote for the favorite and counts as certainty.
\<close>

lemma sample_decision_run:
  assumes "l \<in> {''SHADOW'', ''ACTIVE''}" "p \<in> {Finite 0, NotANumber}"
  shows "\<exists>r. evaluate_selected no_artifacts (combined_config ''LEGACY'' l) (combined_input (Some p) None) None = Inr r \<and>
    er_action r = BUY_YES \<and> er_p_candidate_win r = Some (Finite 1)"
proof -
  let ?cfg = "combined_config ''LEGACY'' l" and ?i = "combined_input (Some p) None"
  have m: "\<not> weighted_active ?cfg" "logreg_only ?cfg = (l = ''SHADOW'')"
    using assms(1) by (auto simp: weighted_active_def logreg_only_def sample_modes) (simp_all add: combined_config_def)
  have one: "round_float 4 1 = 1" "round_float 4 (1/4) = 1/4" "flt (1/4) = 1/4" "\<not> 1/4 < (1/16 :: rat)" by code_simp+
  have flip: "effective_flip ?cfg ?i = Some p" by (simp add: effective_flip_def combined_input_def)
  have thr: "flip_threshold_value ?cfg ?i = Finite (1/2)"
    by (simp add: flip_threshold_value_def combined_input_def combined_config_def normalize_threshold_def)
  have vote: "vote_of ?cfg ?i = BUY_YES"
    using assms(2) unfolding vote_of_def flip thr
    by (auto simp: logreg_direction_vote_def combined_input_def combined_config_def yes_is_favorite_def f_sub_def flt_minus)
  have cons: "dc_final_side (resolve_direction_consensus ''UP'' BUY_YES True b) = BUY_YES" for b
    by (simp add: resolve_direction_consensus_def lgbm_side_of_def BUY_YES_def Let_def)
  have avail: "lgbm_available (ei_signal ?i)" by (simp add: lgbm_available_def combined_input_def)
  have check: "check_direction_model ?cfg ?i (initial_context ?cfg ?i) = Inr (initial_context ?cfg ?i)"
    using avail by (simp add: check_direction_model_def Let_def)
  have sig: "cg_direction (ei_signal ?i) = Some ''UP''" "cg_risk_vetoed (ei_signal ?i) = False" "ei_entry_model_key ?i = Some ''BTC_decided''"
    "direction_probability (ei_signal ?i) = Finite (3/4)" "ei_fresh_yes_price ?i = Finite (3/4)" "ei_spread ?i = None" "ei_time_left ?i = Finite 100"
    "ei_cost_buffer ?i = Finite 0" "ei_yes_ask ?i = None"
    by (simp_all add: combined_input_def direction_probability_def or_zero_def)
  have ns: "BUY_YES \<noteq> ''SKIP''" "BUY_YES \<noteq> ''ABSTAIN''" by (simp_all add: BUY_YES_def)
  obtain v where v: "direction_stage ?cfg ?i None = Inr v" "dc_final_side (vt_consensus v) = BUY_YES" "vt_context v = initial_context ?cfg ?i"
    using m assms(1) cons vote [unfolded vote_of_def flip sig(5)] ns sig
    by (auto simp: direction_stage_def Let_def check flip text_or_def str_or_empty_def) (auto simp: combined_config_def)
  define c where "c = candidate_of ?cfg ?i None v"
  have c: "cd_side c = BUY_YES" "cd_ask c = Finite (3/4)" "\<not> cd_is_outsider c" "cd_voted c = v"
    by (simp_all add: c_def candidate_of_def v candidate_ask_of_def quote_or_def sig is_outsider_side_def BUY_YES_def BUY_NO_def Let_def)
  have unit: "unit_round (flip_to_win p BUY_YES (Finite (3/4))) = Finite 1"
    using assms(2) one(1) by (auto simp: flip_to_win_def yes_is_favorite_def unit_round_def f_sub_def)
  have "unit_round (Finite 1) = Finite 1" "tc_combined_dir_discount_weight ?cfg = 0" using one(1) by (simp_all add: unit_round_def combined_config_def)
  then have discount: "apply_direction_confidence_discount (Finite 1) d lo hi (tc_combined_dir_discount_weight ?cfg) = Finite 1" for d lo hi
    by (simp add: apply_direction_confidence_discount_def)
  have "\<exists>e. win_estimate_of ?cfg ?i None c = Inr e \<and> we_p_win e = Finite 1"
    using unit discount by (cases "logreg_only ?cfg") (simp_all add: win_estimate_of_def c v(3) flip sig or_zero_def Let_def)
  then obtain e where e: "win_estimate_of ?cfg ?i None c = Inr e" "we_p_win e = Finite 1" by blast
  have gates: "early_gate ?cfg ?i c = None" "late_gate no_artifacts ?cfg ?i c e = None"
    using m(1) c e(2)
    by (simp_all add: early_gate_None late_gate_None time_refusal_None price_refusal_None spread_guard_def sig)
      (simp_all add: combined_config_def is_time_valid_def is_price_valid_def)
  have edge_value: "round_float 4 (flt (round_float 4 (flt (1/4)))) * 4 = 1" "round_float 4 (round_float 4 (flt (1/4))) * 4 = 1" by code_simp+
  have edge: "eg_net (entry_edge_of no_artifacts ?cfg ?i None c e) = Finite (1/4)" "eg_min_net (entry_edge_of no_artifacts ?cfg ?i None c e) = 1/16"
    using edge_value by (simp_all add: entry_edge_of_def compute_edge_def f_sub_def c e(2) sig get_min_edge_def Let_def) (simp add: combined_config_def)
  have "\<exists>r. size_entry no_artifacts ?cfg ?i None c e = Inr r \<and> er_action r = BUY_YES \<and> er_p_candidate_win r = Some (Finite 1)"
    using e(2) unfolding size_entry_def Let_def edge
    by (simp add: entry_bet_def c resolve_final_bet_def) (simp add: combined_config_def)
  then show ?thesis using e(1) gates by (simp add: evaluate_selected_def v(1) c_def [symmetric] Let_def)
qed

lemma sample_entry_run:
  assumes "l \<in> {''SHADOW'', ''ACTIVE''}" "p \<in> {Finite 0, NotANumber}"
  shows "\<exists>r. evaluate_combined_entry lib pw no_artifacts (combined_config ''LEGACY'' l) (combined_input (Some p) None) = Inr r \<and>
    er_action r = BUY_YES \<and> er_p_candidate_win r = Some (Finite 1)"
proof -
  have "\<not> weighted_active (combined_config ''LEGACY'' l)" by (simp add: weighted_active_def sample_modes)
  then show ?thesis using sample_decision_run [OF assms] sample_modes(1,2)
    by (auto simp: evaluate_combined_entry_def evaluate_combined_entry_inner_def)
qed

text \<open>A flip probability that is not a number is bought with the certainty of winning, also when the consensus is required.\<close>

theorem nan_flip_is_certain_win:
  "\<exists>r. evaluate_combined_entry lib pw no_artifacts (combined_config ''LEGACY'' ''ACTIVE'') (combined_input (Some NotANumber) None) = Inr r \<and>
     er_action r = BUY_YES \<and> er_p_candidate_win r = Some (Finite 1)"
  by (rule sample_entry_run) simp_all


theorem required_consensus_respected_witness:
  "vote_of (combined_config ''LEGACY'' ''ACTIVE'') (combined_input (Some (Finite 0)) None) = BUY_YES"
proof -
  obtain r where r: "evaluate_combined_entry sample_libm (\<lambda>_ _. 0) no_artifacts (combined_config ''LEGACY'' ''ACTIVE'')
      (combined_input (Some (Finite 0)) None) = Inr r" "er_action r = BUY_YES"
    using sample_entry_run [of "''ACTIVE''" "Finite 0" sample_libm "\<lambda>_ _. 0"] by auto
  have "er_action r \<noteq> ''SKIP''" using r(2) by (simp add: BUY_YES_def)
  moreover have "tc_combined_require_consensus (combined_config ''LEGACY'' ''ACTIVE'')" "\<not> weighted_active (combined_config ''LEGACY'' ''ACTIVE'')"
    "\<not> logreg_only (combined_config ''LEGACY'' ''ACTIVE'')"
    by (simp_all add: weighted_active_def logreg_only_def sample_modes) (simp_all add: combined_config_def)
  ultimately show ?thesis using required_consensus_respected [OF r(1)] r(2) by simp
qed

text \<open>
  When the legacy decision ends at a disabled role or below the flip threshold, its result has no corrected flip
  probability, and the shadow selection is computed from the uncorrected one.
\<close>

theorem shadow_of_disabled_favorite_uncorrected:
  assumes "policy_mode cfg = ''WEIGHTED_SHADOW''" "direction_stage cfg i None = Inr v" "early_gate cfg i (candidate_of cfg i None v) = Some r0"
    "er_entry_status r0 = ''FAVORITE_DISABLED''" "evaluate_combined_entry lib pw arts cfg i = Inr r"
  shows "\<exists>f. er_weighted r = Some f \<and> build_weighted_selection lib pw arts cfg i (ei_p_flip i) = Inr (wf_selection f)"
proof -
  have na: "\<not> weighted_active cfg" using assms(1) by (simp add: weighted_active_def)
  have e: "evaluate_selected arts cfg i None = Inr r0" using assms(2,3) by (simp add: evaluate_selected_def Let_def)
  have flip: "er_p_flip_effective r0 = None"
    using assms(3,4) by (auto simp: early_gate_def without_correction_def split: if_splits)
  show ?thesis using assms(1,5) na e flip
    by (auto simp: evaluate_combined_entry_def evaluate_combined_entry_inner_def Let_def weighted_result_fields_def split: sum.splits option.splits)
qed

text \<open>A decision of the active mode: YES at one half, which the market prices at three quarters.\<close>

lemma unchecked_bet_not_zero:
  assumes "evaluate_selected arts cfg i w = Inr r" "tc_bypass_bet_size_check cfg" "weighted_active cfg"
  shows "er_entry_status r \<noteq> ''ZERO_BET''"
proof -
  have d: "er_entry_status r \<noteq> ''ZERO_BET''" if "direction_stage cfg i w = Inl r"
    using that assms(3) by (auto simp: direction_stage_def check_direction_model_def Let_def split: if_splits sum.splits option.splits)
  have l: "er_entry_status r \<noteq> ''ZERO_BET''" if "late_gate arts cfg i c e = Some r" for c e
    using that by (auto simp: late_gate_def Let_def split: if_splits option.splits)
  have z: "er_entry_status r \<noteq> ''ZERO_BET''" if "size_entry arts cfg i w c e = Inr r" for c e
    using that assms(2) by (auto simp: size_entry_def Let_def split: if_splits sum.splits)
  show ?thesis using assms(1) d l z
    by (auto simp: evaluate_selected_def early_gate_def Let_def split: sum.splits option.splits if_splits)
qed

abbreviation active_config :: trading_config where
  "active_config \<equiv> combined_config ''WEIGHTED_ACTIVE'' ''ACTIVE''"

abbreviation active_input :: entry_input where
  "active_input \<equiv> combined_input None (Some (Finite (1/2)))"

lemma active_policy:
  "runtime_policy no_artifacts active_config active_input =
     \<lparr>pc_market_weight = num 1, pc_logreg_weight = num 0, pc_lgbm_weight = num 0, pc_mrf_beta = num 0, pc_models_agree_beta = num 0,
      pc_mrf_application = Some ''PROBABILITY'', pc_intercept = num 0, pc_fee_rate = num 0, pc_maker_fee_rate = num 0, pc_fee_exponent = num 1,
      pc_slippage_rate = num 0, pc_latency_buffer = num 0, pc_execution_role = Some ''TAKER'', pc_mrf_extreme_veto_threshold = num (- 1),
      pc_stacker_feature_names = [], pc_stacker_coefficients = [], pc_stacker_segment_models = []\<rparr>"
proof -
  have t: "upper (text_or (Some ''PROBABILITY'') ''PROBABILITY'') = ''PROBABILITY''" "strip [] = []"
    "upper (strip (text_or (Some ''PROBABILITY'') ''PROBABILITY'')) = ''PROBABILITY''" by code_simp+
  have path: "artifact_path active_config = []" by (simp add: artifact_path_def combined_config_def t)
  have req: "request_costs active_input c = c" for c by (simp add: request_costs_def combined_input_def)
  have base: "configured_policy active_config =
     \<lparr>pc_market_weight = num 1, pc_logreg_weight = num 0, pc_lgbm_weight = num 0, pc_mrf_beta = num 0, pc_models_agree_beta = num 0,
      pc_mrf_application = Some ''PROBABILITY'', pc_intercept = num 0, pc_fee_rate = num 0, pc_maker_fee_rate = num 0, pc_fee_exponent = num 1,
      pc_slippage_rate = num 0, pc_latency_buffer = num 0, pc_execution_role = Some ''TAKER'', pc_mrf_extreme_veto_threshold = num (- 1),
      pc_stacker_feature_names = [], pc_stacker_coefficients = [], pc_stacker_segment_models = []\<rparr>"
    by (simp add: configured_policy_def combined_config_def t)
  show ?thesis unfolding runtime_policy_def weighted_artifact_def path req Let_def base
    by (simp add: normalize_application_def normal_application_def t Let_def)
qed

lemma active_inputs:
  "pi_market_yes (selection_inputs active_input None) = num (3/4)" "pi_logreg_yes (selection_inputs active_input None) = VNone"
  "pi_lgbm_yes (selection_inputs active_input None) = num (3/4)"
  by (simp_all add: selection_inputs_def combined_input_def market_yes_probability_def side_reference_def book_reference_def clamp_probability_def
      logreg_flip_to_yes_probability_def lgbm_available_def Let_def)

lemma sample_active_cost:
  "estimate_trade_cost (\<lambda>_ _. 0) (num (1/2)) (quote_cost_params (runtime_policy no_artifacts active_config active_input) (spread_of active_input) source) =
     Inr k \<Longrightarrow> co_total_per_share k = 0"
proof -
  have v: "repr_dec (1/2) = 1/2" "repr_dec 0 = 0" "repr_dec 1 = 1" "execution_role (Some ''TAKER'') = ''TAKER''" "upper ''TAKER'' = ''TAKER''"
    "upper (strip ''POLYMARKET_PRICE_DEPENDENT'') = ''POLYMARKET_PRICE_DEPENDENT''" by code_simp+
  have s: "spread_of active_input = num 0" by (simp add: spread_of_def combined_input_def or_zero_def)
  assume "estimate_trade_cost (\<lambda>_ _. 0) (num (1/2))
    (quote_cost_params (runtime_policy no_artifacts active_config active_input) (spread_of active_input) source) = Inr k"
  then show ?thesis unfolding active_policy s
    by (auto simp: v estimate_trade_cost_def quote_cost_params_def polymarket_taker_fee_per_share_def fee_per_share_def
        d_pow_def d_mul_def d_sub_def finite_nonnegative_def Let_def split: sum.splits if_splits)
qed

lemma active_selection:
  "\<exists>s q. build_weighted_selection sample_libm (\<lambda>_ _. 0) no_artifacts active_config active_input None = Inr s \<and> sl_selected s = Some q \<and>
     qt_side q = BUY_YES \<and> qt_ask q = 1/2 \<and> 0 \<le> qt_net_ev q"
proof -
  let ?c = "runtime_policy no_artifacts active_config active_input" and ?i = "selection_inputs active_input None"
  define p where "p = score_weighted_probability sample_libm ?i ?c VNone"
  have v: "logit sample_libm (3/4) = 1" "sigmoid sample_libm 1 = 3/4" "round_float 8 (3/4) = 3/4" "round_float 8 1 = 1" "round_float 8 (1/2) = 1/2"
    "flt (3/4 - 1/2) = 1/4" "flt (1/4) = 1/4" by code_simp+
  have cl: "clamp_probability (num (3/4)) None = Some (3/4)" "clamp_probability VNone None = None" "clamp_probability (num (1/2)) None = Some (1/2)"
    by (simp_all add: clamp_probability_def)
  have w: "normalized_weights ?c True False True = \<lparr>w_market = 1, w_logreg = 0, w_lgbm = 0\<rparr>"
    by (simp add: normalized_weights_def active_policy finite_nonnegative_def)
  have st: "stacker_score sample_libm ?i ?c x = None" for x by (simp add: stacker_score_def active_policy STACKER_FEATURE_NAMES_def)
  have z: "finite_or_zero (num 0) = 0" "signed_evidence VNone = 0" "models_agree ?i = None"
    by (simp_all add: finite_or_zero_def signed_evidence_def models_agree_def active_inputs cl)
  have r: "sc_final (residual_score sample_libm ?i ?c \<lparr>w_market = 1, w_logreg = 0, w_lgbm = 0\<rparr> 0) = 3/4"
    by (simp add: residual_score_def active_inputs cl active_policy z v Let_def)
  have p: "wp_final_yes p = 3/4" "wp_market_weight p = 1" "wp_logreg_weight p = 0" "wp_lgbm_weight p = 0"
    by (simp_all add: p_def score_weighted_probability_def Let_def active_inputs cl w st z r v del: not_None_eq)
  have side_ok: "BUY_YES \<in> {BUY_YES, BUY_NO}" "is_float (num (1/2))" "0 \<le> wp_final_yes p" "wp_final_yes p \<le> 1" "policy_floats ?c"
    "pow_nonneg (\<lambda>_ _. 0)" by (simp_all add: p(1) active_policy policy_floats_def pow_nonneg_def)
  have valid: "\<not> (\<forall>a. clamp_probability (num (1/2)) None = Some a \<longrightarrow> a \<le> 0 \<or> 1 \<le> a)" unfolding cl by (auto intro: exI [of _ "1/2"])
  obtain y where y: "make_side_quote (\<lambda>_ _. 0) BUY_YES (num (1/2)) (wp_final_yes p) ?c (spread_of active_input) (ei_fee_source active_input) = Inr y"
    "y \<noteq> None" "\<forall>x. y = Some x \<longrightarrow> quote_ok BUY_YES (wp_final_yes p) (num (1/2)) x"
    using make_side_quote_ok [OF side_ok, of "spread_of active_input" "ei_fee_source active_input"] valid by blast
  then obtain q where q: "y = Some q" "quote_ok BUY_YES (wp_final_yes p) (num (1/2)) q" by auto
  have side: "qt_side q = BUY_YES" "qt_ask q = 1/2" using make_side_quote_side [OF y(1) [unfolded q(1)]] unfolding cl(3) option.inject by (blast, metis v(5))
  have cost: "co_total_per_share (qt_cost q) = 0"
    using y(1) q(1) sample_active_cost by (auto simp: make_side_quote_def cl split: if_splits sum.splits option.splits)
  have ev: "0 \<le> qt_net_ev q" using q(2) p(1) by (simp add: quote_ok_def cl cost v round_float_nonneg Let_def)
  have n: "make_side_quote (\<lambda>_ _. 0) BUY_NO VNone (wp_final_yes p) ?c (spread_of active_input) (ei_fee_source active_input) = Inr None"
    by (simp add: make_side_quote_def cl)
  have veto: "\<not> mrf_veto (num (- 1)) x" for x by (simp add: mrf_veto_def)
  obtain s where "select_weighted_side sample_libm (\<lambda>_ _. 0) ?i (num (1/2)) VNone ?c VNone (num 0) (ei_fee_source active_input)
      (spread_of active_input) (num (- 1)) = Inr s" "sl_selected s = Some q"
    unfolding select_weighted_side_def Let_def p_def [symmetric] y(1) [unfolded q(1)] n sum.case
    using p(2-4) ev by (simp add: veto finite_nonnegative_def)
  moreover have "artifact_path active_config = []" by (simp add: artifact_path_def combined_config_def strip_def rstrip_def)
  moreover have "\<not> is_outsider_side BUY_YES (Finite (3/4))" by (simp add: is_outsider_side_def BUY_YES_def BUY_NO_def)
  ultimately show ?thesis using side ev
    by (auto simp: build_weighted_selection_def combined_input_def active_policy [unfolded combined_input_def] Let_def)
qed


end
