(* ===== verification/Activation_Gate.thy ===== *)
theory Activation_Gate
  imports Policy_Artifact
begin

text \<open>
  The gate of \<open>trading/policy_artifact.py\<close> in front of a weighted policy: the evidence of a shadow run is compared
  with the required minimum, and every reason against the activation is listed. The evidence is data of a report,
  so its numbers may be anything; a plain text of policy identifiers is a list of one.
\<close>

record activation_evidence =
  ev_shadow_days :: py_any
  ev_shadow_resolved_markets :: py_any
  ev_shadow_candidate_trades :: py_any
  ev_repeat_oot_reports :: py_any
  ev_live_fills :: py_any
  ev_pnl_ci_lower :: py_any
  ev_weighted_brier :: py_any
  ev_market_brier :: py_any
  ev_legacy_brier :: py_any
  ev_weighted_net_pnl :: py_any
  ev_market_net_pnl :: py_any
  ev_legacy_net_pnl :: py_any
  ev_execution_drag :: py_any
  ev_calibration_error :: py_any
  ev_stability_ok :: "bool option"
  ev_sensitivity_ok :: "bool option"
  ev_sizing_mode :: "string option"
  ev_sizing_base_bet_usdc :: py_any
  ev_policy_id :: "string option"
  ev_policy_ids :: "string list"

record gate_limits =
  gl_min_shadow_days :: pyfloat
  gl_min_resolved_markets :: pyfloat
  gl_min_candidate_trades :: pyfloat
  gl_min_repeat_oot_reports :: pyfloat
  gl_min_live_fills :: pyfloat
  gl_require_live_validation :: bool
  gl_require_rollout_quality :: bool
  gl_min_brier_improvement :: pyfloat
  gl_max_execution_drag :: pyfloat
  gl_max_calibration_error :: pyfloat
  gl_expected_policy_id :: "string option"

definition default_limits :: gate_limits where
  "default_limits =
     \<lparr>gl_min_shadow_days = 14, gl_min_resolved_markets = 1000, gl_min_candidate_trades = 300, gl_min_repeat_oot_reports = 1,
      gl_min_live_fills = 300, gl_require_live_validation = False, gl_require_rollout_quality = False,
      gl_min_brier_improvement = flt (1/500), gl_max_execution_drag = flt (1/50), gl_max_calibration_error = flt (1/20),
      gl_expected_policy_id = None\<rparr>"

definition finite_number :: "py_any \<Rightarrow> pyfloat option" where
  "finite_number v = (case to_float v of Some (Finite x) \<Rightarrow> Some x | _ \<Rightarrow> None)"

text \<open>The policies named by the evidence, without duplicates; the single identifier only when the list names none.\<close>

definition observed_policies :: "activation_evidence \<Rightarrow> string list" where
  "observed_policies ev =
     (let ids = filter (\<lambda>s. s \<noteq> []) (map strip (ev_policy_ids ev)); single = strip (str_or_empty (ev_policy_id ev))
      in if ids \<noteq> [] then remdups ids else if single \<noteq> [] then [single] else [])"

definition identity_reasons :: "gate_limits \<Rightarrow> activation_evidence \<Rightarrow> string list" where
  "identity_reasons gl ev =
     (let expected = strip (str_or_empty (gl_expected_policy_id gl)); observed = observed_policies ev in
      if expected = [] then []
      else if observed = [] then [''POLICY_ID_EVIDENCE_MISSING'']
      else if length observed \<noteq> 1 then [''POLICY_IDS_MIXED'']
      else if hd observed \<noteq> expected then [''POLICY_ID_MISMATCH'']
      else [])"

definition minimum_reasons :: "py_any \<Rightarrow> pyfloat \<Rightarrow> string \<Rightarrow> string list" where
  "minimum_reasons v least name =
     (case finite_number v of
        None \<Rightarrow> [name @ ''_INVALID'']
      | Some x \<Rightarrow> if x < least then [name @ ''_BELOW_MINIMUM''] else [])"

definition pnl_ci_reasons :: "activation_evidence \<Rightarrow> string list" where
  "pnl_ci_reasons ev =
     (if ev_pnl_ci_lower ev = VNone then [''PNL_CI_LOWER_MISSING'']
      else case finite_number (ev_pnl_ci_lower ev) of
             None \<Rightarrow> [''PNL_CI_LOWER_NOT_POSITIVE'']
           | Some x \<Rightarrow> if x \<le> 0 then [''PNL_CI_LOWER_NOT_POSITIVE''] else [])"

definition brier_reasons :: "gate_limits \<Rightarrow> activation_evidence \<Rightarrow> string list" where
  "brier_reasons gl ev =
     (if ev_weighted_brier ev = VNone \<or> ev_market_brier ev = VNone \<or> ev_legacy_brier ev = VNone then [''BRIER_EVIDENCE_MISSING'']
      else case (finite_number (ev_weighted_brier ev), finite_number (ev_market_brier ev), finite_number (ev_legacy_brier ev)) of
        (Some w, Some m, Some l) \<Rightarrow>
          (if flt (m - w) < gl_min_brier_improvement gl then [''BRIER_NOT_BETTER_THAN_MARKET''] else []) @
          (if flt (l - w) < gl_min_brier_improvement gl then [''BRIER_NOT_BETTER_THAN_LEGACY''] else [])
      | _ \<Rightarrow> [''BRIER_EVIDENCE_INVALID''])"

definition pnl_reasons :: "activation_evidence \<Rightarrow> string list" where
  "pnl_reasons ev =
     (if ev_weighted_net_pnl ev = VNone \<or> ev_market_net_pnl ev = VNone \<or> ev_legacy_net_pnl ev = VNone then [''PNL_COMPARISON_MISSING'']
      else case (finite_number (ev_weighted_net_pnl ev), finite_number (ev_market_net_pnl ev), finite_number (ev_legacy_net_pnl ev)) of
        (Some w, Some m, Some l) \<Rightarrow>
          (if w \<le> m then [''PNL_NOT_BETTER_THAN_MARKET''] else []) @ (if w \<le> l then [''PNL_NOT_BETTER_THAN_LEGACY''] else [])
      | _ \<Rightarrow> [''PNL_COMPARISON_INVALID''])"

definition limit_reasons :: "py_any \<Rightarrow> (pyfloat \<Rightarrow> bool) \<Rightarrow> string \<Rightarrow> string list" where
  "limit_reasons v allowed name =
     (if v = VNone then [name @ ''_MISSING'']
      else case finite_number v of
             None \<Rightarrow> [name @ ''_ABOVE_LIMIT'']
           | Some x \<Rightarrow> if allowed x then [] else [name @ ''_ABOVE_LIMIT''])"

definition live_reasons :: "gate_limits \<Rightarrow> activation_evidence \<Rightarrow> string list" where
  "live_reasons gl ev =
     (if gl_require_live_validation gl then
        limit_reasons (ev_execution_drag ev) (\<lambda>x. x \<le> gl_max_execution_drag gl) ''EXECUTION_DRAG'' @
        limit_reasons (ev_calibration_error ev) (\<lambda>x. \<bar>x\<bar> \<le> gl_max_calibration_error gl) ''CALIBRATION_ERROR''
      else [])"

definition rollout_reasons :: "gate_limits \<Rightarrow> activation_evidence \<Rightarrow> string list" where
  "rollout_reasons gl ev =
     (if gl_require_rollout_quality gl then
        (if ev_stability_ok ev \<noteq> Some True then [''STABILITY_EVIDENCE_MISSING_OR_FAILED''] else []) @
        (if ev_sensitivity_ok ev \<noteq> Some True then [''SENSITIVITY_EVIDENCE_MISSING_OR_FAILED''] else []) @
        (if upper (strip (str_or_empty (ev_sizing_mode ev))) \<noteq> ''FIXED'' then [''FIRST_ACTIVE_SIZING_NOT_FIXED''] else []) @
        (case finite_number (ev_sizing_base_bet_usdc ev) of
           Some bet \<Rightarrow> if flt (1 / 10 ^ 9) < \<bar>flt (bet - 1)\<bar> then [''FIRST_ACTIVE_BET_NOT_ONE_USDC''] else []
         | None \<Rightarrow> [''FIRST_ACTIVE_BET_NOT_ONE_USDC''])
      else [])"

record activation_gate_result =
  ag_eligible :: bool
  ag_reasons :: "string list"

definition activation_gate :: "gate_limits \<Rightarrow> activation_evidence \<Rightarrow> activation_gate_result" where
  "activation_gate gl ev =
     (let reasons =
        identity_reasons gl ev @
        minimum_reasons (ev_shadow_days ev) (gl_min_shadow_days gl) ''SHADOW_DAYS'' @
        minimum_reasons (ev_shadow_resolved_markets ev) (gl_min_resolved_markets gl) ''SHADOW_RESOLVED_MARKETS'' @
        minimum_reasons (ev_shadow_candidate_trades ev) (gl_min_candidate_trades gl) ''SHADOW_CANDIDATE_TRADES'' @
        minimum_reasons (ev_repeat_oot_reports ev) (gl_min_repeat_oot_reports gl) ''REPEAT_OOT_REPORTS'' @
        (if gl_require_live_validation gl then minimum_reasons (ev_live_fills ev) (gl_min_live_fills gl) ''LIVE_FILLS'' else []) @
        pnl_ci_reasons ev @ brier_reasons gl ev @ pnl_reasons ev @ live_reasons gl ev @ rollout_reasons gl ev
      in \<lparr>ag_eligible = (reasons = []), ag_reasons = reasons\<rparr>)"

section \<open>What an eligible policy has shown\<close>

definition at_least :: "py_any \<Rightarrow> pyfloat \<Rightarrow> bool" where
  "at_least v least \<longleftrightarrow> (case finite_number v of Some x \<Rightarrow> least \<le> x | None \<Rightarrow> False)"

text \<open>The evidence that the gate asks for.\<close>

definition convincing :: "gate_limits \<Rightarrow> activation_evidence \<Rightarrow> bool" where
  "convincing gl ev \<longleftrightarrow>
     at_least (ev_shadow_days ev) (gl_min_shadow_days gl) \<and>
     at_least (ev_shadow_resolved_markets ev) (gl_min_resolved_markets gl) \<and>
     at_least (ev_shadow_candidate_trades ev) (gl_min_candidate_trades gl) \<and>
     at_least (ev_repeat_oot_reports ev) (gl_min_repeat_oot_reports gl) \<and>
     (\<exists>x. finite_number (ev_pnl_ci_lower ev) = Some x \<and> 0 < x) \<and>
     (\<exists>w m l. finite_number (ev_weighted_brier ev) = Some w \<and> finite_number (ev_market_brier ev) = Some m \<and>
        finite_number (ev_legacy_brier ev) = Some l \<and>
        gl_min_brier_improvement gl \<le> flt (m - w) \<and> gl_min_brier_improvement gl \<le> flt (l - w)) \<and>
     (\<exists>w m l. finite_number (ev_weighted_net_pnl ev) = Some w \<and> finite_number (ev_market_net_pnl ev) = Some m \<and>
        finite_number (ev_legacy_net_pnl ev) = Some l \<and> m < w \<and> l < w)"

definition identified :: "gate_limits \<Rightarrow> activation_evidence \<Rightarrow> bool" where
  "identified gl ev \<longleftrightarrow>
     (let expected = strip (str_or_empty (gl_expected_policy_id gl)) in expected \<noteq> [] \<longrightarrow> observed_policies ev = [expected])"

definition live_validated :: "gate_limits \<Rightarrow> activation_evidence \<Rightarrow> bool" where
  "live_validated gl ev \<longleftrightarrow>
     at_least (ev_live_fills ev) (gl_min_live_fills gl) \<and>
     (\<exists>d c. finite_number (ev_execution_drag ev) = Some d \<and> d \<le> gl_max_execution_drag gl \<and>
        finite_number (ev_calibration_error ev) = Some c \<and> \<bar>c\<bar> \<le> gl_max_calibration_error gl)"

definition careful_rollout :: "activation_evidence \<Rightarrow> bool" where
  "careful_rollout ev \<longleftrightarrow>
     ev_stability_ok ev = Some True \<and> ev_sensitivity_ok ev = Some True \<and>
     upper (strip (str_or_empty (ev_sizing_mode ev))) = ''FIXED'' \<and>
     (\<exists>b. finite_number (ev_sizing_base_bet_usdc ev) = Some b \<and> \<bar>flt (b - 1)\<bar> \<le> flt (1 / 10 ^ 9))"

lemma finite_number_simps [simp]: "finite_number VNone = None" "finite_number (VNumber (Finite x)) = Some x"
  "finite_number (VNumber NotANumber) = None" "finite_number (VNumber (Infinite n)) = None"
  by (simp_all add: finite_number_def)

lemma minimum_reasons_empty: "minimum_reasons v least name = [] \<longleftrightarrow> at_least v least"
  by (auto simp: minimum_reasons_def at_least_def split: option.split)

lemma identity_reasons_empty: "identity_reasons gl ev = [] \<longleftrightarrow> identified gl ev"
  by (cases "observed_policies ev") (auto simp: identity_reasons_def identified_def Let_def)

lemma pnl_ci_reasons_empty: "pnl_ci_reasons ev = [] \<longleftrightarrow> (\<exists>x. finite_number (ev_pnl_ci_lower ev) = Some x \<and> 0 < x)"
  by (auto simp: pnl_ci_reasons_def split: option.split)

lemma brier_reasons_empty:
  "brier_reasons gl ev = [] \<longleftrightarrow>
     (\<exists>w m l. finite_number (ev_weighted_brier ev) = Some w \<and> finite_number (ev_market_brier ev) = Some m \<and>
        finite_number (ev_legacy_brier ev) = Some l \<and>
        gl_min_brier_improvement gl \<le> flt (m - w) \<and> gl_min_brier_improvement gl \<le> flt (l - w))"
  by (auto simp: brier_reasons_def split: option.split)

lemma pnl_reasons_empty:
  "pnl_reasons ev = [] \<longleftrightarrow>
     (\<exists>w m l. finite_number (ev_weighted_net_pnl ev) = Some w \<and> finite_number (ev_market_net_pnl ev) = Some m \<and>
        finite_number (ev_legacy_net_pnl ev) = Some l \<and> m < w \<and> l < w)"
  by (auto simp: pnl_reasons_def split: option.split)

lemma limit_reasons_empty: "limit_reasons v allowed name = [] \<longleftrightarrow> (\<exists>x. finite_number v = Some x \<and> allowed x)"
  by (auto simp: limit_reasons_def split: option.split)

lemma rollout_reasons_empty: "rollout_reasons gl ev = [] \<longleftrightarrow> (gl_require_rollout_quality gl \<longrightarrow> careful_rollout ev)"
  by (auto simp: rollout_reasons_def careful_rollout_def split: option.split)

text \<open>
  A weighted policy becomes eligible exactly when the evidence names the expected policy and no other, all
  required numbers are present and finite, the shadow run is long enough, the lower end of the profit interval
  is positive, the Brier score is better than the scores of the market and of the legacy policy by the required
  margin and the profit above both; on request also the numbers of the live run and the careful first stake.
  Missing, malformed or infinite numbers and NaN never count in favor. The reasons are empty exactly then.
\<close>

theorem gate_opens_exactly_when:
  "(ag_eligible (activation_gate gl ev) \<longleftrightarrow>
      identified gl ev \<and> convincing gl ev \<and> (gl_require_live_validation gl \<longrightarrow> live_validated gl ev) \<and>
      (gl_require_rollout_quality gl \<longrightarrow> careful_rollout ev)) \<and>
   (ag_eligible (activation_gate gl ev) \<longleftrightarrow> ag_reasons (activation_gate gl ev) = [])"
  by (auto simp: activation_gate_def Let_def identity_reasons_empty minimum_reasons_empty pnl_ci_reasons_empty brier_reasons_empty
      pnl_reasons_empty limit_reasons_empty rollout_reasons_empty live_reasons_def live_validated_def convincing_def)

text \<open>A positive case: evidence that opens the gate with the default limits.\<close>

definition sample_evidence :: activation_evidence where
  "sample_evidence =
     (let n = (\<lambda>x. VNumber (Finite x)) in
      \<lparr>ev_shadow_days = n 14, ev_shadow_resolved_markets = n 1200, ev_shadow_candidate_trades = n 300, ev_repeat_oot_reports = n 1,
       ev_live_fills = n 0, ev_pnl_ci_lower = n 1, ev_weighted_brier = n 0, ev_market_brier = n 1, ev_legacy_brier = n 1,
       ev_weighted_net_pnl = n 9, ev_market_net_pnl = n 4, ev_legacy_net_pnl = n (- 2), ev_execution_drag = VNone,
       ev_calibration_error = VNone, ev_stability_ok = None, ev_sensitivity_ok = None, ev_sizing_mode = None,
       ev_sizing_base_bet_usdc = VNone, ev_policy_id = Some ''w1'', ev_policy_ids = []\<rparr>)"

theorem gate_opens_exactly_when_witness: "ag_eligible (activation_gate default_limits sample_evidence)"
proof -
  have "flt (1/500) \<le> flt 1" by (rule flt_mono) simp
  then have "identified default_limits sample_evidence \<and> convincing default_limits sample_evidence"
    by (simp add: identified_def convincing_def at_least_def default_limits_def sample_evidence_def Let_def str_or_empty_def strip_def rstrip_def)
  moreover have "\<not> gl_require_live_validation default_limits" "\<not> gl_require_rollout_quality default_limits"
    by (simp_all add: default_limits_def)
  ultimately show ?thesis using conjunct1 [OF gate_opens_exactly_when [of default_limits sample_evidence]] by simp
qed

end
