(* ===== verification/Market_Regime.thy ===== *)
theory Market_Regime
  imports Trading_Config
begin

text \<open>
  The market regime: \<open>crypto/market_regime_classifier.py\<close> (phase, strength and confidence of one asset and of the
  whole basket), and of \<open>crypto/market_regime.py\<close> and \<open>market_regime_integration.py\<close> the selection of the candles,
  the check of their continuity and the assembly of a snapshot. The features themselves are computed with numpy: the
  two functions that do it are arguments, and so is \<open>tanh\<close>. The features are finite, as that code guards them; the
  three thresholds set from the settings may be any float. The thresholds that divide are never zero in the default
  configuration, the only one from which configurations are built.
\<close>

section \<open>Phases\<close>

datatype market_phase = STRONG_UP | WEAK_UP | SIDEWAYS | WEAK_DOWN | STRONG_DOWN | HIGH_VOL_CHOP | MIXED | PHASE_UNKNOWN

fun phase_value :: "market_phase \<Rightarrow> string" where
  "phase_value STRONG_UP = ''STRONG_UP''"
| "phase_value WEAK_UP = ''WEAK_UP''"
| "phase_value SIDEWAYS = ''SIDEWAYS''"
| "phase_value WEAK_DOWN = ''WEAK_DOWN''"
| "phase_value STRONG_DOWN = ''STRONG_DOWN''"
| "phase_value HIGH_VOL_CHOP = ''HIGH_VOL_CHOP''"
| "phase_value MIXED = ''MIXED''"
| "phase_value PHASE_UNKNOWN = ''UNKNOWN''"

record classification =
  cl_phase :: market_phase
  cl_strength :: pyfloat
  cl_confidence :: pyfloat
  cl_direction :: pyfloat
  cl_reasons :: "string list"

record regime_config =
  rc_trend_ret :: pyfloat
  rc_sideways_ret_max :: pyfloat
  rc_trend_efficiency_min :: dec_value
  rc_sideways_efficiency_max :: pyfloat
  rc_high_vol_efficiency_max :: pyfloat
  rc_high_vol_ratio :: pyfloat
  rc_breadth_strong :: dec_value
  rc_breadth_weak :: dec_value
  rc_dispersion_high :: pyfloat
  rc_strong_score :: pyfloat
  rc_weak_score :: pyfloat
  rc_ret_norm_cap :: pyfloat

definition default_regime_config :: regime_config where
  "default_regime_config =
     \<lparr>rc_trend_ret = flt (1/50), rc_sideways_ret_max = flt (1/200), rc_trend_efficiency_min = Finite (flt (2/5)),
      rc_sideways_efficiency_max = flt (3/10), rc_high_vol_efficiency_max = 1/4, rc_high_vol_ratio = 3/2,
      rc_breadth_strong = Finite (flt (13/20)), rc_breadth_weak = Finite (flt (7/20)), rc_dispersion_high = flt (1/50),
      rc_strong_score = flt (3/5), rc_weak_score = flt (1/5), rc_ret_norm_cap = flt (1/10)\<rparr>"

section \<open>Features\<close>

text \<open>The fields that the classifier reads.\<close>

record asset_features =
  af_ret_4h :: pyfloat
  af_ret_12h :: pyfloat
  af_ret_24h :: pyfloat
  af_vol_ratio :: pyfloat
  af_efficiency :: pyfloat
  af_history_ready :: bool

record basket_features =
  bk_ret_4h :: pyfloat
  bk_ret_12h :: pyfloat
  bk_ret_24h :: pyfloat
  bk_breadth_up :: pyfloat
  bk_dispersion :: pyfloat
  bk_efficiency :: pyfloat
  bk_ready_count :: nat
  bk_total_count :: nat
  bk_history_ready :: bool

record regime_snapshot =
  rg_assets :: "(string \<times> asset_features) list"
  rg_basket :: basket_features
  rg_reasons :: "string list"

section \<open>Strength\<close>

definition normalize_ret :: "(pyfloat \<Rightarrow> pyfloat) \<Rightarrow> pyfloat \<Rightarrow> pyfloat \<Rightarrow> pyfloat" where
  "normalize_ret th ret cap = (if cap \<le> 0 then 0 else th (flt (\<bar>ret\<bar> / cap)))"

definition count_up :: "pyfloat \<Rightarrow> pyfloat \<Rightarrow> pyfloat \<Rightarrow> nat" where
  "count_up a b c = length (filter (\<lambda>r. 0 < r) [a, b, c])"

definition count_down :: "pyfloat \<Rightarrow> pyfloat \<Rightarrow> pyfloat \<Rightarrow> nat" where
  "count_down a b c = length (filter (\<lambda>r. r < 0) [a, b, c])"

definition magnitude_score :: "(pyfloat \<Rightarrow> pyfloat) \<Rightarrow> pyfloat \<Rightarrow> pyfloat \<Rightarrow> pyfloat \<Rightarrow> pyfloat \<Rightarrow> pyfloat" where
  "magnitude_score th cap a b c =
     flt (flt (flt (1/2 * normalize_ret th a cap) + flt (flt (3/10) * normalize_ret th b cap)) +
          flt (flt (1/5) * normalize_ret th c cap))"

definition consistency_score :: "pyfloat \<Rightarrow> pyfloat \<Rightarrow> pyfloat \<Rightarrow> pyfloat" where
  "consistency_score a b c = flt (of_nat (max (count_up a b c) (count_down a b c)) / 3)"

definition strength_of :: "pyfloat \<Rightarrow> pyfloat \<Rightarrow> pyfloat \<Rightarrow> pyfloat" where
  "strength_of magnitude efficiency consistency = flt (flt (magnitude * flt (1/2 + flt (1/2 * efficiency))) * consistency)"

definition classify_strength ::
  "(pyfloat \<Rightarrow> pyfloat) \<Rightarrow> regime_config \<Rightarrow> pyfloat \<Rightarrow> pyfloat \<Rightarrow> pyfloat \<Rightarrow> pyfloat \<Rightarrow> pyfloat \<times> pyfloat \<times> pyfloat" where
  "classify_strength th cfg a b c efficiency =
     (let m = magnitude_score th (rc_ret_norm_cap cfg) a b c; k = consistency_score a b c
      in (m, k, strength_of m efficiency k))"

text \<open>The score that \<open>market_regime.py\<close> stores with the features.\<close>

definition compute_asset_strength :: "(pyfloat \<Rightarrow> pyfloat) \<Rightarrow> pyfloat \<Rightarrow> pyfloat \<Rightarrow> pyfloat \<Rightarrow> pyfloat \<Rightarrow> pyfloat \<Rightarrow> pyfloat" where
  "compute_asset_strength th a b c efficiency cap =
     (let norm = (\<lambda>r. if cap \<le> 0 then 0 else th (flt (\<bar>r\<bar> / cap)));
          magnitude = flt (flt (flt (1/2 * norm a) + flt (flt (3/10) * norm b)) + flt (flt (1/5) * norm c));
          consistency = flt (of_nat (max (length (filter (\<lambda>r. 0 < r) [a, b, c])) (length (filter (\<lambda>r. r < 0) [a, b, c]))) / 3)
      in flt (flt (magnitude * flt (1/2 + flt (1/2 * efficiency))) * consistency))"

definition direction_of :: "regime_config \<Rightarrow> pyfloat \<Rightarrow> pyfloat" where
  "direction_of cfg ret = (if rc_trend_ret cfg = 0 then 0 else max (- 1) (min 1 (flt (ret / rc_trend_ret cfg))))"

section \<open>One asset\<close>

definition numbered_reason :: "string \<Rightarrow> nat \<Rightarrow> pyfloat \<Rightarrow> string" where
  "numbered_reason name digits x = name @ '':'' @ fixed_str digits x"

definition insufficient :: "string \<Rightarrow> classification" where
  "insufficient reason = \<lparr>cl_phase = PHASE_UNKNOWN, cl_strength = 0, cl_confidence = 0, cl_direction = 0, cl_reasons = [reason]\<rparr>"

definition trending :: "regime_config \<Rightarrow> pyfloat \<Rightarrow> pyfloat \<Rightarrow> pyfloat \<Rightarrow> bool" where
  "trending cfg consistency strength efficiency \<longleftrightarrow>
     flt (2/3) \<le> consistency \<and> rc_strong_score cfg \<le> strength \<and> float_le (rc_trend_efficiency_min cfg) (Finite efficiency)"

definition weakly_trending :: "regime_config \<Rightarrow> pyfloat \<Rightarrow> bool" where
  "weakly_trending cfg strength \<longleftrightarrow> rc_weak_score cfg \<le> strength \<and> strength < rc_strong_score cfg"

definition classify_asset_regime :: "(pyfloat \<Rightarrow> pyfloat) \<Rightarrow> regime_config \<Rightarrow> asset_features \<Rightarrow> classification" where
  "classify_asset_regime th cfg f =
     (if \<not> af_history_ready f then insufficient ''insufficient_history''
      else let a = af_ret_4h f; b = af_ret_12h f; c = af_ret_24h f; eff = af_efficiency f; vol = af_vol_ratio f;
               direction = direction_of cfg c; (_, consistency, strength) = classify_strength th cfg a b c eff;
               up = count_up a b c; down = count_down a b c;
               result = (\<lambda>phase confidence dir reasons. \<lparr>cl_phase = phase, cl_strength = strength, cl_confidence = confidence,
                           cl_direction = dir, cl_reasons = reasons\<rparr>);
               aligned = min 1 (flt (eff * consistency))
           in if rc_high_vol_ratio cfg < vol \<and> eff < rc_high_vol_efficiency_max cfg
              then result HIGH_VOL_CHOP (min 1 (flt (vol / 2))) direction [numbered_reason ''high_vol_ratio'' 2 vol, numbered_reason ''low_efficiency'' 2 eff]
              else if up = 3 \<and> trending cfg consistency strength eff
              then result STRONG_UP aligned 1
                     [numbered_reason ''ret_24h'' 4 c, numbered_reason ''strength'' 2 strength, numbered_reason ''consistency'' 2 consistency, numbered_reason ''efficiency'' 2 eff]
              else if down = 3 \<and> trending cfg consistency strength eff
              then result STRONG_DOWN aligned (- 1) [numbered_reason ''ret_24h'' 4 c, numbered_reason ''strength'' 2 strength, numbered_reason ''consistency'' 2 consistency]
              else if down < up \<and> weakly_trending cfg strength
              then result WEAK_UP aligned direction [numbered_reason ''ret_24h'' 4 c, numbered_reason ''strength'' 2 strength]
              else if up < down \<and> weakly_trending cfg strength
              then result WEAK_DOWN aligned direction [numbered_reason ''ret_24h'' 4 c, numbered_reason ''strength'' 2 strength]
              else if \<bar>c\<bar> < rc_sideways_ret_max cfg \<and> eff < rc_sideways_efficiency_max cfg
              then result SIDEWAYS (min 1 (flt (flt (rc_sideways_ret_max cfg - \<bar>c\<bar>) / rc_sideways_ret_max cfg))) 0
                     [numbered_reason ''ret_24h'' 4 c, numbered_reason ''efficiency'' 2 eff]
              else if down < up then result WEAK_UP (flt (3/10)) direction [numbered_reason ''weak_up_low_strength'' 2 strength]
              else if up < down then result WEAK_DOWN (flt (3/10)) direction [numbered_reason ''weak_down_low_strength'' 2 strength]
              else result MIXED (flt (3/10)) direction [numbered_reason ''ret_24h'' 4 c, numbered_reason ''efficiency'' 2 eff, ''contradictory_signals''])"

section \<open>The basket\<close>

definition median_vol_ratio :: "regime_snapshot \<Rightarrow> pyfloat" where
  "median_vol_ratio s =
     (let ready = map af_vol_ratio (filter af_history_ready (map snd (rg_assets s)))
      in if ready = [] then 0 else sort ready ! (length ready div 2))"

definition classify_global_regime :: "(pyfloat \<Rightarrow> pyfloat) \<Rightarrow> regime_config \<Rightarrow> regime_snapshot \<Rightarrow> classification" where
  "classify_global_regime th cfg s =
     (let bk = rg_basket s in
      if \<not> bk_history_ready bk then insufficient ''no_assets_ready''
      else let a = bk_ret_4h bk; b = bk_ret_12h bk; c = bk_ret_24h bk; eff = bk_efficiency bk; breadth = bk_breadth_up bk; disp = bk_dispersion bk;
               direction = direction_of cfg c; (_, consistency, strength) = classify_strength th cfg a b c eff;
               vol = median_vol_ratio s; up = count_up a b c; down = count_down a b c;
               result = (\<lambda>phase confidence dir reasons. \<lparr>cl_phase = phase, cl_strength = strength, cl_confidence = confidence,
                           cl_direction = dir, cl_reasons = reasons\<rparr>);
               aligned = min 1 (flt (eff * consistency))
           in if rc_dispersion_high cfg < disp
              then result MIXED (min 1 (flt (disp / rc_dispersion_high cfg))) direction [numbered_reason ''high_dispersion'' 4 disp]
              else if rc_high_vol_ratio cfg < vol \<and> eff < rc_high_vol_efficiency_max cfg
              then result HIGH_VOL_CHOP (min 1 (flt (vol / 2))) direction [numbered_reason ''global_high_vol'' 2 vol]
              else if up = 3 \<and> trending cfg consistency strength eff \<and> float_less (rc_breadth_strong cfg) (Finite breadth)
              then result STRONG_UP (min 1 (flt (eff * breadth))) 1
                     [numbered_reason ''median_ret'' 4 c, numbered_reason ''strength'' 2 strength, numbered_reason ''breadth'' 2 breadth, numbered_reason ''efficiency'' 2 eff]
              else if down = 3 \<and> trending cfg consistency strength eff \<and> float_less (Finite breadth) (rc_breadth_weak cfg)
              then result STRONG_DOWN (min 1 (flt (eff * flt (1 - breadth)))) (- 1)
                     [numbered_reason ''median_ret'' 4 c, numbered_reason ''strength'' 2 strength, numbered_reason ''breadth'' 2 breadth]
              else if down < up \<and> weakly_trending cfg strength
              then result WEAK_UP aligned direction [numbered_reason ''median_ret'' 4 c, numbered_reason ''strength'' 2 strength]
              else if up < down \<and> weakly_trending cfg strength
              then result WEAK_DOWN aligned direction [numbered_reason ''median_ret'' 4 c, numbered_reason ''strength'' 2 strength]
              else if \<bar>c\<bar> < rc_sideways_ret_max cfg \<and> eff < rc_sideways_efficiency_max cfg
              then result SIDEWAYS (min 1 (flt (flt (rc_sideways_ret_max cfg - \<bar>c\<bar>) / rc_sideways_ret_max cfg))) 0
                     [numbered_reason ''median_ret'' 4 c, numbered_reason ''efficiency'' 2 eff]
              else result MIXED (flt (3/10)) direction [numbered_reason ''median_ret'' 4 c, numbered_reason ''efficiency'' 2 eff, ''no_clear_regime''])"

definition extract_asset_phase :: "(pyfloat \<Rightarrow> pyfloat) \<Rightarrow> regime_config \<Rightarrow> regime_snapshot \<Rightarrow> string \<Rightarrow> market_phase \<times> pyfloat \<times> pyfloat" where
  "extract_asset_phase th cfg s symbol =
     (case map_of (rg_assets s) symbol of
        None \<Rightarrow> (PHASE_UNKNOWN, 0, 0)
      | Some f \<Rightarrow> if \<not> af_history_ready f then (PHASE_UNKNOWN, 0, 0)
                  else let c = classify_asset_regime th cfg f in (cl_phase c, cl_strength c, cl_confidence c))"

section \<open>Candles\<close>

record candle =
  cn_open_time :: "time option"
  cn_closed :: bool
  cn_open :: pyfloat
  cn_high :: pyfloat
  cn_low :: pyfloat
  cn_close :: pyfloat

text \<open>Closed candles that were not opened after the decision, in the order of time; equal times keep their order.\<close>

definition usable_candle :: "time \<Rightarrow> candle \<Rightarrow> bool" where
  "usable_candle as_of c \<longleftrightarrow> cn_closed c \<and> (case cn_open_time c of Some t \<Rightarrow> t \<le> as_of | None \<Rightarrow> False)"

definition open_time_of :: "candle \<Rightarrow> time" where
  "open_time_of c = (case cn_open_time c of Some t \<Rightarrow> t | None \<Rightarrow> 0)"

definition prepare_closed_candles :: "candle list \<Rightarrow> time \<Rightarrow> candle list" where
  "prepare_closed_candles cs as_of = sort_key open_time_of (filter (usable_candle as_of) cs)"

text \<open>The first pair of neighbors with a property, and the index of its second element.\<close>

fun first_pair :: "(time \<Rightarrow> time \<Rightarrow> bool) \<Rightarrow> nat \<Rightarrow> time list \<Rightarrow> (nat \<times> time) option" where
  "first_pair P i (s # t # ts) = (if P s t then Some (i, t - s) else first_pair P (Suc i) (t # ts))"
| "first_pair P i ts = None"

definition HISTORY_CANDLES :: nat where
  "HISTORY_CANDLES = 97"

definition MAX_CANDLE_SPAN :: time where
  "MAX_CANDLE_SPAN = seconds (25 * 3600)"

definition MAX_CANDLE_GAP :: time where
  "MAX_CANDLE_GAP = seconds (30 * 60)"

definition total_seconds :: "time \<Rightarrow> pyfloat" where
  "total_seconds t = flt (of_int t / 10 ^ 6)"

definition validate_candle_continuity :: "time list \<Rightarrow> nat \<Rightarrow> bool \<times> string" where
  "validate_candle_continuity ts expected =
     (let n = length ts; unique = card (set ts) in
      if n < 2 then (True, ''insufficient_candles_for_validation'')
      else if unique \<noteq> n then (False, ''duplicates:'' @ int_str (int (n - unique)))
      else if 0 < expected \<and> n < expected then (False, ''count_mismatch:'' @ int_str (int n) @ ''/'' @ int_str (int expected))
      else case first_pair (\<lambda>s t. t \<le> s) 1 ts of
        Some (i, _) \<Rightarrow> (False, ''not_sorted_at_'' @ int_str (int i))
      | None \<Rightarrow>
          let span = last ts - hd ts in
          if MAX_CANDLE_SPAN < span then (False, ''span_exceeded:'' @ fixed_str 1 (flt (total_seconds span / 3600)) @ ''h'')
          else case first_pair (\<lambda>s t. MAX_CANDLE_GAP < t - s) 1 ts of
            Some (i, gap) \<Rightarrow> (False, ''gap_at_index_'' @ int_str (int i) @ '':'' @ int_str (rhe (flt (total_seconds gap / 60))) @ ''min'')
          | None \<Rightarrow> (True, ''ok''))"

section \<open>The snapshot\<close>

text \<open>The two functions on numpy arrays: the features of one asset from its candles, and those of the basket.\<close>

record regime_numpy =
  np_asset :: "string \<Rightarrow> candle list \<Rightarrow> asset_features"
  np_basket :: "(string \<times> asset_features) list \<Rightarrow> basket_features"

definition no_history :: "string \<Rightarrow> nat \<Rightarrow> string" where
  "no_history symbol n = ''insufficient_history:'' @ symbol @ '':'' @ int_str (int n) @ ''/'' @ int_str (int HISTORY_CANDLES)"

definition build_regime_snapshot :: "regime_numpy \<Rightarrow> time \<Rightarrow> (string \<times> candle list) list \<Rightarrow> regime_snapshot" where
  "build_regime_snapshot np as_of data =
     (let trimmed = map (\<lambda>(s, cs). (s, filter (\<lambda>c. open_time_of c \<le> as_of) cs)) data;
          assets = map (\<lambda>(s, cs). (s, np_asset np s cs)) trimmed;
          basket = np_basket np assets;
          missing = concat (map (\<lambda>(s, cs). if af_history_ready (np_asset np s cs) then [] else [no_history s (length cs)]) trimmed)
      in \<lparr>rg_assets = assets, rg_basket = basket,
          rg_reasons = missing @
            (if \<not> bk_history_ready basket then [''no_assets_ready'']
             else if bk_ready_count basket < bk_total_count basket
             then [''partial_coverage:'' @ int_str (int (bk_ready_count basket)) @ ''/'' @ int_str (int (bk_total_count basket))] else [])\<rparr>)"

text \<open>What one asset contributes: its candles, or why they are not used.\<close>

definition last_candles :: "nat \<Rightarrow> 'a list \<Rightarrow> 'a list" where
  "last_candles n xs = drop (length xs - n) xs"

definition asset_data :: "time \<Rightarrow> candle list \<Rightarrow> string + candle list" where
  "asset_data as_of candles =
     (if candles = [] then Inl ''no_candles''
      else let cs = prepare_closed_candles candles as_of in
        if cs = [] then Inl ''no_valid_candles''
        else case validate_candle_continuity (last_candles HISTORY_CANDLES (map open_time_of cs)) HISTORY_CANDLES of
          (True, _) \<Rightarrow> Inr cs
        | (False, reason) \<Rightarrow> Inl (''candle_continuity:'' @ reason))"

definition failure_code :: "string \<Rightarrow> string \<Rightarrow> string" where
  "failure_code symbol failure =
     (if failure \<in> {''no_candles'', ''no_valid_candles'', ''asset_missing''} then failure @ '':'' @ symbol
      else ''candle_continuity:'' @ symbol @ '':'' @ drop (length ''candle_continuity:'') failure)"

definition incomplete :: "nat \<Rightarrow> nat \<Rightarrow> nat \<Rightarrow> basket_features \<Rightarrow> basket_features" where
  "incomplete missing expected loaded bk =
     (if missing = 0 then bk
      else bk\<lparr>bk_history_ready := False, bk_ready_count := (if expected \<le> missing then 0 else loaded), bk_total_count := expected\<rparr>)"

fun join_with :: "string \<Rightarrow> string list \<Rightarrow> string" where
  "join_with sep [] = []"
| "join_with sep [x] = x"
| "join_with sep (x # xs) = x @ sep @ join_with sep xs"

definition build_snapshot_from_multi_asset_candles ::
  "regime_numpy \<Rightarrow> (string \<times> candle list) list \<Rightarrow> time \<Rightarrow> string list \<Rightarrow> regime_snapshot" where
  "build_snapshot_from_multi_asset_candles np candles_by_asset as_of expected =
     (let parts = map (\<lambda>(s, cs). (s, asset_data as_of cs)) candles_by_asset;
          data = concat (map (\<lambda>(s, r). case r of Inr cs \<Rightarrow> [(s, cs)] | Inl _ \<Rightarrow> []) parts);
          broken = concat (map (\<lambda>(s, r). case r of Inl why \<Rightarrow> [(s, why)] | Inr _ \<Rightarrow> []) parts);
          absent = map (\<lambda>s. (s, ''asset_missing'')) (filter (\<lambda>s. s \<notin> set (map fst parts)) (rev (remdups (rev expected))));
          failures = broken @ absent;
          snap = build_regime_snapshot np as_of data
      in snap\<lparr>rg_basket := (if expected = [] then rg_basket snap
                             else incomplete (length failures) (length expected) (length data) (rg_basket snap)),
              rg_reasons := rg_reasons snap @ map (\<lambda>(s, why). failure_code s why) failures @
                (if failures = [] then []
                 else [''asset_failures:'' @ join_with '','' (map (\<lambda>(s, why). s @ ''='' @ why) failures)])\<rparr>)"

section \<open>Continuity\<close>

lemma first_pair_None: "first_pair P i ts = None \<longleftrightarrow> (\<forall>j. Suc j < length ts \<longrightarrow> \<not> P (ts ! j) (ts ! Suc j))"
proof (induction P i ts rule: first_pair.induct)
  case (1 P i s t ts)
  show ?case
  proof (cases "P s t")
    case True
    then show ?thesis by (auto intro!: exI [of _ 0])
  next
    case False
    then have "first_pair P i (s # t # ts) = None \<longleftrightarrow> (\<forall>j. Suc j < length (t # ts) \<longrightarrow> \<not> P ((t # ts) ! j) ((t # ts) ! Suc j))"
      using 1 by simp
    also have "\<dots> \<longleftrightarrow> (\<forall>j. Suc j < length (s # t # ts) \<longrightarrow> \<not> P ((s # t # ts) ! j) ((s # t # ts) ! Suc j))"
    proof (intro iffI allI impI)
      fix j assume h: "\<forall>j. Suc j < length (t # ts) \<longrightarrow> \<not> P ((t # ts) ! j) ((t # ts) ! Suc j)" "Suc j < length (s # t # ts)"
      then show "\<not> P ((s # t # ts) ! j) ((s # t # ts) ! Suc j)" using False by (cases j) auto
    next
      fix j assume h: "\<forall>j. Suc j < length (s # t # ts) \<longrightarrow> \<not> P ((s # t # ts) ! j) ((s # t # ts) ! Suc j)" "Suc j < length (t # ts)"
      then show "\<not> P ((t # ts) ! j) ((t # ts) ! Suc j)" using spec [OF h(1), of "Suc j"] by simp
    qed
    finally show ?thesis .
  qed
qed simp_all

lemma increasing_steps: "sorted_wrt (<) (ts :: time list) \<longleftrightarrow> (\<forall>j. Suc j < length ts \<longrightarrow> ts ! j < ts ! Suc j)"
  by (simp add: sorted_wrt_iff_nth_Suc_transp)

lemma guards_passed:
  "fst (if few then (True, t1) else if p1 then (False, t2) else if p2 then (False, t3)
        else case o1 of Some (i, x) \<Rightarrow> (False, t4 i) | None \<Rightarrow>
          if p3 then (False, t5) else case o2 of Some (i, gap) \<Rightarrow> (False, t6 i gap) | None \<Rightarrow> (True, t7)) \<longleftrightarrow>
     few \<or> \<not> p1 \<and> \<not> p2 \<and> o1 = None \<and> \<not> p3 \<and> o2 = None"
  by (auto split: option.split)

text \<open>
  The candles are accepted exactly when their times increase strictly, they are enough, cover at most 25 hours and
  leave no gap above 30 minutes.
\<close>

theorem continuity_exactly:
  "fst (validate_candle_continuity ts expected) \<longleftrightarrow> length ts < 2 \<or>
     sorted_wrt (<) ts \<and> expected \<le> length ts \<and> last ts - hd ts \<le> MAX_CANDLE_SPAN \<and>
     (\<forall>j. Suc j < length ts \<longrightarrow> ts ! Suc j - ts ! j \<le> MAX_CANDLE_GAP)"
proof (cases "length ts < 2")
  case False
  have d: "distinct ts \<longleftrightarrow> card (set ts) = length ts" by (metis card_distinct distinct_card)
  have s: "sorted_wrt (<) ts \<Longrightarrow> distinct ts" using strict_sorted_iff by blast
  have asc: "first_pair (\<lambda>s t. t \<le> s) 1 ts = None \<longleftrightarrow> sorted_wrt (<) ts"
    unfolding first_pair_None increasing_steps by (auto simp: not_le)
  have gap: "first_pair (\<lambda>s t. MAX_CANDLE_GAP < t - s) 1 ts = None \<longleftrightarrow> (\<forall>j. Suc j < length ts \<longrightarrow> ts ! Suc j - ts ! j \<le> MAX_CANDLE_GAP)"
    unfolding first_pair_None by (auto simp: not_less)
  have "fst (validate_candle_continuity ts expected) \<longleftrightarrow> length ts < 2 \<or> \<not> card (set ts) \<noteq> length ts \<and> \<not> (0 < expected \<and> length ts < expected) \<and>
      first_pair (\<lambda>s t. t \<le> s) 1 ts = None \<and> \<not> MAX_CANDLE_SPAN < last ts - hd ts \<and>
      first_pair (\<lambda>s t. MAX_CANDLE_GAP < t - s) 1 ts = None"
    unfolding validate_candle_continuity_def Let_def by (rule guards_passed)
  then show ?thesis unfolding asc gap using False s d by auto
qed (simp add: validate_candle_continuity_def)

section \<open>The snapshot is built from the past\<close>

text \<open>
  Candles that are open, have no time or were opened after the decision change nothing: two collections that agree
  on the usable candles of every asset give the same snapshot.
\<close>

theorem snapshot_causal:
  assumes "list_all2 (\<lambda>(s, cs) (s', cs'). s = s' \<and> (cs = [] \<longleftrightarrow> cs' = []) \<and>
      filter (usable_candle as_of) cs = filter (usable_candle as_of) cs') one two"
  shows "build_snapshot_from_multi_asset_candles np one as_of expected = build_snapshot_from_multi_asset_candles np two as_of expected"
proof -
  have "map (\<lambda>(s, cs). (s, asset_data as_of cs)) one = map (\<lambda>(s, cs). (s, asset_data as_of cs)) two"
    using assms by (induction rule: list_all2_induct) (auto simp: asset_data_def prepare_closed_candles_def)
  then show ?thesis unfolding build_snapshot_from_multi_asset_candles_def by simp
qed

text \<open>The basket is never complete when an expected asset has no continuous history.\<close>

theorem incomplete_basket_not_ready:
  assumes "s \<in> set expected" "\<forall>cs. (s, cs) \<in> set candles \<longrightarrow> (\<exists>why. asset_data as_of cs = Inl why)"
  shows "\<not> bk_history_ready (rg_basket (build_snapshot_from_multi_asset_candles np candles as_of expected))"
proof -
  let ?parts = "map (\<lambda>(s, cs). (s, asset_data as_of cs)) candles"
  let ?broken = "concat (map (\<lambda>(s, r). case r of Inl why \<Rightarrow> [(s, why)] | Inr _ \<Rightarrow> []) ?parts)"
  let ?absent = "map (\<lambda>s. (s, ''asset_missing'')) (filter (\<lambda>s. s \<notin> set (map fst ?parts)) (rev (remdups (rev expected))))"
  have "?broken @ ?absent \<noteq> []"
  proof (cases "s \<in> fst ` set candles")
    case True
    then obtain cs where cs: "(s, cs) \<in> set candles" by auto
    then obtain why where "asset_data as_of cs = Inl why" using assms(2) by blast
    then have "(s, Inl why) \<in> set ?parts" using cs by (metis (no_types, lifting) case_prod_conv image_eqI list.set_map)
    then have "(s, why) \<in> set ?broken" unfolding set_concat set_map by (rule UN_I [OF imageI]) simp
    then show ?thesis by (metis append_is_Nil_conv list.set(1) empty_iff)
  next
    case False
    then have "s \<notin> set (map fst ?parts)" by (simp add: image_image case_prod_unfold)
    then have "s \<in> set (filter (\<lambda>s. s \<notin> set (map fst ?parts)) (rev (remdups (rev expected))))" using assms(1) by simp
    then show ?thesis by (metis append_is_Nil_conv list.map_disc_iff list.set(1) empty_iff)
  qed
  then have "length (?broken @ ?absent) \<noteq> 0" by blast
  moreover have "expected \<noteq> []" using assms(1) by auto
  ultimately show ?thesis unfolding build_snapshot_from_multi_asset_candles_def Let_def incomplete_def by simp blast
qed

section \<open>The ranges of a classification\<close>

definition in_unit :: "pyfloat \<Rightarrow> bool" where
  "in_unit x \<longleftrightarrow> 0 \<le> x \<and> x \<le> 1"

definition well_classified :: "classification \<Rightarrow> bool" where
  "well_classified c \<longleftrightarrow> in_unit (cl_strength c) \<and> in_unit (cl_confidence c) \<and> - 1 \<le> cl_direction c \<and> cl_direction c \<le> 1"

text \<open>What is needed of \<open>tanh\<close>, and the divisors of the default configuration.\<close>

definition squashes :: "(pyfloat \<Rightarrow> pyfloat) \<Rightarrow> bool" where
  "squashes th \<longleftrightarrow> (\<forall>x. 0 \<le> x \<longrightarrow> in_unit (th x))"

definition proper_config :: "regime_config \<Rightarrow> bool" where
  "proper_config cfg \<longleftrightarrow> 0 < rc_sideways_ret_max cfg \<and> 0 < rc_dispersion_high cfg \<and> 0 \<le> rc_high_vol_ratio cfg"

lemma unit_flt: "in_unit x \<Longrightarrow> in_unit (flt x)"
  by (simp add: in_unit_def flt_le_1)

lemma unit_mult: "in_unit x \<Longrightarrow> in_unit y \<Longrightarrow> in_unit (flt (x * y))"
  by (intro unit_flt) (simp add: in_unit_def mult_le_one)

lemma unit_min: "0 \<le> x \<Longrightarrow> in_unit (min 1 (flt x))"
  by (simp add: in_unit_def)

lemma unit_consts: "in_unit 0" "in_unit 1" "in_unit (flt (3/10))"
  using unit_flt [of "3/10"] by (simp_all add: in_unit_def)

lemma normalize_unit: "squashes th \<Longrightarrow> in_unit (normalize_ret th r cap)"
  by (auto simp: normalize_ret_def squashes_def in_unit_def)

lemma magnitude_unit: "squashes th \<Longrightarrow> in_unit (magnitude_score th cap a b c)"
proof -
  assume th: "squashes th"
  let ?n = "\<lambda>r. normalize_ret th r cap"
  have n: "0 \<le> ?n r \<and> ?n r \<le> 1" for r using normalize_unit [OF th, of r cap] by (simp add: in_unit_def)
  have 1: "flt (1/2 * ?n a) \<le> flt (1/2)" using n [of a] by (intro flt_mono) simp
  have 2: "flt (flt (3/10) * ?n b) \<le> flt (flt (3/10))" using n [of b] by (intro flt_mono) (simp add: mult_left_le)
  have 3: "flt (flt (1/5) * ?n c) \<le> flt (flt (1/5))" using n [of c] by (intro flt_mono) (simp add: mult_left_le)
  have "magnitude_score th cap a b c \<le> flt (flt (flt (1/2) + flt (flt (3/10))) + flt (flt (1/5)))"
    unfolding magnitude_score_def by (intro flt_mono add_mono 1 2 3)
  also have "\<dots> = 1" by code_simp
  finally show ?thesis using n by (simp add: in_unit_def magnitude_score_def)
qed

lemma counts: "count_up a b c \<le> 3" "count_down a b c \<le> 3" "count_up a b c + count_down a b c \<le> 3"
  by (simp_all add: count_up_def count_down_def)

lemma consistency_unit: "in_unit (consistency_score a b c)"
proof -
  have "max (count_up a b c) (count_down a b c) \<le> 3" using counts by simp
  then have "rat_of_nat (max (count_up a b c) (count_down a b c)) \<le> 3" by (metis of_nat_le_iff of_nat_numeral)
  then show ?thesis unfolding consistency_score_def by (intro unit_flt) (simp add: in_unit_def)
qed

lemma strength_unit:
  assumes "squashes th" "in_unit e" shows "in_unit (strength_of (magnitude_score th cap a b c) e (consistency_score a b c))"
proof -
  have "in_unit (flt (1/2 * e))" using assms(2) by (intro unit_flt) (simp add: in_unit_def)
  moreover have "flt (1/2 * e) \<le> flt (1/2)" using assms(2) by (intro flt_mono) (simp add: in_unit_def)
  ultimately have "in_unit (flt (1/2 + flt (1/2 * e)))" by (intro unit_flt) (simp add: in_unit_def)
  then show ?thesis unfolding strength_of_def by (intro unit_mult magnitude_unit assms(1) consistency_unit)
qed

lemma direction_range: "- 1 \<le> direction_of cfg r \<and> direction_of cfg r \<le> 1"
  by (simp add: direction_of_def)

lemma sideways_confidence: "\<bar>c\<bar> < m \<Longrightarrow> in_unit (min 1 (flt (flt (m - \<bar>c\<bar>) / m)))"
  by (intro unit_min divide_nonneg_nonneg) simp_all

text \<open>
  Strength and confidence of every classification are between 0 and 1 and its direction between -1 and 1, for one
  asset and for the basket, whatever thresholds the settings hold.
\<close>

theorem classifications_in_range:
  assumes "squashes th" "proper_config cfg"
  shows "(\<forall>f. in_unit (af_efficiency f) \<and> 0 \<le> af_vol_ratio f \<longrightarrow> well_classified (classify_asset_regime th cfg f)) \<and>
    (\<forall>s. in_unit (bk_efficiency (rg_basket s)) \<and> in_unit (bk_breadth_up (rg_basket s)) \<longrightarrow> well_classified (classify_global_regime th cfg s))"
proof (intro conjI allI impI)
  fix f :: asset_features assume f: "in_unit (af_efficiency f) \<and> 0 \<le> af_vol_ratio f"
  then show "well_classified (classify_asset_regime th cfg f)"
    using assms strength_unit [OF assms(1)] direction_range [of cfg] sideways_confidence unit_consts
      unit_min [of "af_vol_ratio f / 2"] unit_min [of "af_efficiency f * consistency_score (af_ret_4h f) (af_ret_12h f) (af_ret_24h f)"]
      consistency_unit [of "af_ret_4h f" "af_ret_12h f" "af_ret_24h f"]
    unfolding classify_asset_regime_def classify_strength_def Let_def
    by (simp add: well_classified_def insufficient_def in_unit_def [of "af_efficiency f"] in_unit_def [of "consistency_score _ _ _"])
next
  fix s :: regime_snapshot let ?b = "rg_basket s"
  assume s: "in_unit (bk_efficiency ?b) \<and> in_unit (bk_breadth_up ?b)"
  then have e: "0 \<le> bk_efficiency ?b" and b: "0 \<le> bk_breadth_up ?b" "0 \<le> flt (1 - bk_breadth_up ?b)" by (simp_all add: in_unit_def)
  have k: "0 \<le> consistency_score (bk_ret_4h ?b) (bk_ret_12h ?b) (bk_ret_24h ?b)" using consistency_unit by (simp add: in_unit_def)
  have d: "rc_dispersion_high cfg < x \<Longrightarrow> 0 \<le> x / rc_dispersion_high cfg" "rc_high_vol_ratio cfg < x \<Longrightarrow> 0 \<le> x / 2" for x
    using assms(2) by (simp_all add: proper_config_def)
  note conf = unit_min [OF mult_nonneg_nonneg [OF e k]] unit_min [OF mult_nonneg_nonneg [OF e b(1)]]
    unit_min [OF mult_nonneg_nonneg [OF e b(2)]] unit_min [OF d(1)] unit_min [OF d(2)]
  show "well_classified (classify_global_regime th cfg s)"
    using s strength_unit [OF assms(1)] direction_range [of cfg] sideways_confidence unit_consts conf
    unfolding classify_global_regime_def classify_strength_def Let_def
    by (simp add: well_classified_def insufficient_def)
qed

section \<open>Up and down\<close>

text \<open>The score that is stored with the features is the strength of the classifier.\<close>

theorem stored_strength: "snd (snd (classify_strength th cfg a b c e)) = compute_asset_strength th a b c e (rc_ret_norm_cap cfg)"
  by (simp add: classify_strength_def compute_asset_strength_def magnitude_score_def normalize_ret_def consistency_score_def
      strength_of_def count_up_def count_down_def Let_def)

fun mirror_phase :: "market_phase \<Rightarrow> market_phase" where
  "mirror_phase STRONG_UP = STRONG_DOWN"
| "mirror_phase STRONG_DOWN = STRONG_UP"
| "mirror_phase WEAK_UP = WEAK_DOWN"
| "mirror_phase WEAK_DOWN = WEAK_UP"
| "mirror_phase p = p"

definition mirror_returns :: "asset_features \<Rightarrow> asset_features" where
  "mirror_returns f = f\<lparr>af_ret_4h := - af_ret_4h f, af_ret_12h := - af_ret_12h f, af_ret_24h := - af_ret_24h f\<rparr>"

lemma mirrored_counts: "count_up (- a) (- b) (- c) = count_down a b c" "count_down (- a) (- b) (- c) = count_up a b c"
  by (simp_all add: count_up_def count_down_def)

lemma mirrored_strength: "classify_strength th cfg (- a) (- b) (- c) e = classify_strength th cfg a b c e"
  by (simp add: classify_strength_def magnitude_score_def normalize_ret_def consistency_score_def mirrored_counts max.commute)

lemma mirrored_direction: "direction_of cfg (- r) = - direction_of cfg r"
  by (simp add: direction_of_def flt_minus min_def max_def)

text \<open>C31: an asset whose returns have the opposite sign is in the opposite phase, as strong, as sure and in the opposite direction.\<close>

theorem classification_symmetric:
  "cl_phase (classify_asset_regime th cfg (mirror_returns f)) = mirror_phase (cl_phase (classify_asset_regime th cfg f)) \<and>
   cl_strength (classify_asset_regime th cfg (mirror_returns f)) = cl_strength (classify_asset_regime th cfg f) \<and>
   cl_confidence (classify_asset_regime th cfg (mirror_returns f)) = cl_confidence (classify_asset_regime th cfg f) \<and>
   cl_direction (classify_asset_regime th cfg (mirror_returns f)) = - cl_direction (classify_asset_regime th cfg f)"
proof -
  obtain m k s where s: "classify_strength th cfg (af_ret_4h f) (af_ret_12h f) (af_ret_24h f) (af_efficiency f) = (m, k, s)" by (metis prod.exhaust)
  have c: "count_up (af_ret_4h f) (af_ret_12h f) (af_ret_24h f) + count_down (af_ret_4h f) (af_ret_12h f) (af_ret_24h f) \<le> 3" by (rule counts)
  show ?thesis using c unfolding classify_asset_regime_def mirror_returns_def
    by (simp add: mirrored_strength mirrored_counts mirrored_direction s insufficient_def Let_def) blast
qed

end
