(* ===== verification/Regime_Filter.thy ===== *)
theory Regime_Filter
  imports Market_Regime Trade_Decision
begin

text \<open>
  The market regime filter: \<open>crypto/market_regime_policy.py\<close> (the multipliers of the versions 1 and 2, the veto of
  version 3), \<open>crypto/market_regime_apply.py\<close> (its use on a decision) and \<open>_apply_mrf_filter\<close> of
  \<open>trading/decision_runners.py\<close>, which lets a decision pass when the regime cannot be computed. The audit
  dictionaries are left out; fields of a result that copy an argument or a classification are represented by it.
\<close>

section \<open>The multipliers\<close>

datatype filter_mode = Filter_off | Filter_shadow | Filter_active

definition filter_mode_of :: "string \<Rightarrow> filter_mode option" where
  "filter_mode_of s =
     (if s = ''OFF'' then Some Filter_off else if s = ''SHADOW'' then Some Filter_shadow
      else if s = ''ACTIVE'' then Some Filter_active else None)"

datatype strategy_kind = Outsider_kind | Trend_follow | Trend_fade | Favorite_kind | Other_kind

record multiplier_config =
  mc_outsider_trend :: dec_value
  mc_outsider_sideways :: dec_value
  mc_outsider_high_vol :: dec_value
  mc_outsider_mixed :: dec_value
  mc_outsider_unknown :: dec_value
  mc_trend_favor :: dec_value
  mc_trend_fade :: dec_value
  mc_trend_against :: dec_value
  mc_trend_high_vol :: dec_value
  mc_trend_mixed :: dec_value
  mc_trend_unknown :: dec_value
  mc_trend_sideways :: dec_value
  mc_favorite_follow :: dec_value
  mc_favorite_against :: dec_value
  mc_favorite_unknown :: dec_value
  mc_unknown :: dec_value

definition default_multipliers :: multiplier_config where
  "default_multipliers =
     (let half = Finite (1/2); most = Finite (flt (4/5)) in
      \<lparr>mc_outsider_trend = Finite 0, mc_outsider_sideways = Finite 1, mc_outsider_high_vol = half, mc_outsider_mixed = half,
       mc_outsider_unknown = most, mc_trend_favor = Finite 1, mc_trend_fade = most, mc_trend_against = Finite 0,
       mc_trend_high_vol = half, mc_trend_mixed = half, mc_trend_unknown = most, mc_trend_sideways = most,
       mc_favorite_follow = Finite 1, mc_favorite_against = Finite 0, mc_favorite_unknown = most, mc_unknown = most\<rparr>)"

record policy_verdict =
  pv_allow :: bool
  pv_multiplier :: dec_value
  pv_reason :: string
  pv_phase :: market_phase
  pv_confidence :: pyfloat
  pv_strength :: pyfloat

definition get_global_regime :: "(pyfloat \<Rightarrow> pyfloat) \<Rightarrow> regime_config \<Rightarrow> regime_snapshot \<Rightarrow> market_phase \<times> pyfloat \<times> pyfloat" where
  "get_global_regime th rc s =
     (if bk_history_ready (rg_basket s) then let c = classify_global_regime th rc s in (cl_phase c, cl_confidence c, cl_strength c)
      else (PHASE_UNKNOWN, 0, 0))"

definition is_trending :: "market_phase \<Rightarrow> bool" where
  "is_trending p \<longleftrightarrow> p \<in> {STRONG_UP, WEAK_UP, STRONG_DOWN, WEAK_DOWN}"

definition phase_direction :: "market_phase \<Rightarrow> pyfloat" where
  "phase_direction p = (if p \<in> {STRONG_UP, WEAK_UP} then 1 else if p \<in> {STRONG_DOWN, WEAK_DOWN} then - 1 else 0)"

definition outsider_rule :: "multiplier_config \<Rightarrow> market_phase \<Rightarrow> bool \<times> dec_value \<times> string" where
  "outsider_rule mc p =
     (if p = SIDEWAYS then (True, mc_outsider_sideways mc, ''outsider_in_sideways'')
      else if is_trending p then (float_less (Finite 0) (mc_outsider_trend mc), mc_outsider_trend mc, ''outsider_blocked_in_trend'')
      else if p = HIGH_VOL_CHOP then (True, mc_outsider_high_vol mc, ''outsider_reduced_in_high_vol'')
      else if p = MIXED then (True, mc_outsider_mixed mc, ''outsider_reduced_in_mixed'')
      else (True, mc_outsider_unknown mc, ''outsider_reduced_in_unknown''))"

definition trend_rule :: "multiplier_config \<Rightarrow> market_phase \<Rightarrow> bool \<Rightarrow> dec_value \<times> string" where
  "trend_rule mc p aligns =
     (if p = HIGH_VOL_CHOP then (mc_trend_high_vol mc, ''mltrend_reduced_high_vol'')
      else if p = MIXED then (mc_trend_mixed mc, ''mltrend_reduced_mixed'')
      else if p = PHASE_UNKNOWN then (mc_trend_unknown mc, ''mltrend_reduced_unknown'')
      else if p = SIDEWAYS then (mc_trend_sideways mc, ''mltrend_reduced_sideways'')
      else if aligns then (mc_trend_favor mc, ''mltrend_aligned_with_regime'')
      else (mc_trend_against mc, ''mltrend_against_regime''))"

definition favorite_rule :: "multiplier_config \<Rightarrow> market_phase \<Rightarrow> bool \<Rightarrow> dec_value \<times> string" where
  "favorite_rule mc p aligns =
     (if p = PHASE_UNKNOWN then (mc_favorite_unknown mc, ''favorite_reduced_unknown'')
      else if aligns then (mc_favorite_follow mc, ''favorite_aligned_with_regime'')
      else (mc_favorite_against mc, ''favorite_against_regime''))"

definition evaluate_policy ::
  "(pyfloat \<Rightarrow> pyfloat) \<Rightarrow> regime_snapshot \<Rightarrow> strategy_kind \<Rightarrow> pyfloat \<Rightarrow> filter_mode \<Rightarrow> multiplier_config \<Rightarrow> regime_config \<Rightarrow> policy_verdict" where
  "evaluate_policy th s kind direction mode mc rc =
     (let (phase, confidence, strength) = get_global_regime th rc s;
          verdict = (\<lambda>allow m reason. \<lparr>pv_allow = allow, pv_multiplier = m, pv_reason = reason, pv_phase = phase,
                       pv_confidence = confidence, pv_strength = strength\<rparr>);
          dir = phase_direction phase; aligns = (dir \<noteq> 0 \<and> 0 < direction * dir);
          positive = (\<lambda>(m, reason). verdict (float_less (Finite 0) m) m reason)
      in if mode = Filter_off then verdict True (Finite 1) ''filter_off''
         else case kind of
           Outsider_kind \<Rightarrow> (let (allow, m, reason) = outsider_rule mc phase in verdict allow m reason)
         | Trend_follow \<Rightarrow> positive (trend_rule mc phase aligns)
         | Trend_fade \<Rightarrow> positive (trend_rule mc phase aligns)
         | Favorite_kind \<Rightarrow> positive (favorite_rule mc phase aligns)
         | Other_kind \<Rightarrow> verdict True (Finite 1) ''unknown_strategy_no_policy'')"

section \<open>The veto\<close>

record veto_config =
  vg_asset_weight :: pyfloat
  vg_global_weight :: pyfloat
  vg_threshold :: pyfloat
  vg_margin :: pyfloat

text \<open>The checks of the constructor; finite numbers are given by the type.\<close>

definition make_veto_config :: "pyfloat \<Rightarrow> pyfloat \<Rightarrow> pyfloat \<Rightarrow> pyfloat \<Rightarrow> veto_config outcome" where
  "make_veto_config asset global threshold margin =
     (if asset < 0 \<or> global < 0 then Inl (ValueError ''MRF gate weights must be non-negative'')
      else if flt (asset + global) \<le> 0 then Inl (ValueError ''MRF gate weight sum must be positive'')
      else if \<not> (0 \<le> threshold \<and> threshold \<le> 1) then Inl (ValueError ''MRF veto threshold must be in [0, 1]'')
      else if margin < 0 then Inl (ValueError ''MRF edge override margin must be non-negative'')
      else Inr \<lparr>vg_asset_weight = asset, vg_global_weight = global, vg_threshold = threshold, vg_margin = margin\<rparr>)"

record gate_result =
  gt_would_block :: bool
  gt_reason :: string
  gt_direction :: pyfloat
  gt_asset :: classification
  gt_global :: classification
  gt_asset_evidence :: pyfloat
  gt_global_evidence :: pyfloat
  gt_evidence :: pyfloat
  gt_net_edge :: pyfloat
  gt_min_edge :: pyfloat
  gt_edge_margin :: pyfloat

definition classification_evidence :: "classification \<Rightarrow> pyfloat \<Rightarrow> pyfloat" where
  "classification_evidence c direction =
     max (- 1) (min 1 (flt (flt (flt (direction * phase_direction (cl_phase c)) * cl_strength c) * cl_confidence c)))"

definition combined_evidence :: "veto_config \<Rightarrow> pyfloat \<Rightarrow> pyfloat \<Rightarrow> pyfloat" where
  "combined_evidence vc asset global =
     round_float 6 (flt (flt (flt (vg_asset_weight vc * asset) + flt (vg_global_weight vc * global)) /
                         flt (vg_asset_weight vc + vg_global_weight vc)))"

definition compute_veto_gate ::
  "classification \<Rightarrow> classification \<Rightarrow> pyfloat \<Rightarrow> py_any \<Rightarrow> py_any \<Rightarrow> veto_config \<Rightarrow> gate_result outcome" where
  "compute_veto_gate asset global direction net_edge min_edge vc =
     (if direction \<notin> {- 1, 1} then Inl (ValueError ''candidate_direction must be -1.0 or 1.0'')
      else case (to_float net_edge, to_float min_edge) of
        (Some (Finite net), Some (Finite least)) \<Rightarrow>
          let ae = classification_evidence asset direction; ge = classification_evidence global direction;
              ev = combined_evidence vc ae ge; margin = round_float 6 (flt (net - least));
              negative = (ev < 0 \<and> ev \<le> - vg_threshold vc); override = (vg_margin vc \<le> margin)
          in Inr \<lparr>gt_would_block = (negative \<and> \<not> override),
                  gt_reason = (if negative \<and> \<not> override then ''regime_veto''
                               else if negative \<and> override then ''strong_edge_override''
                               else if 0 < ev then ''regime_supports_candidate'' else ''no_negative_regime_evidence''),
                  gt_direction = direction, gt_asset = asset, gt_global = global, gt_asset_evidence = round_float 6 ae,
                  gt_global_evidence = round_float 6 ge, gt_evidence = ev, gt_net_edge = net, gt_min_edge = least, gt_edge_margin = margin\<rparr>
      | _ \<Rightarrow> Inl (ValueError ''MRF gate received non-finite edge input''))"

definition evaluate_veto_gate ::
  "(pyfloat \<Rightarrow> pyfloat) \<Rightarrow> regime_snapshot \<Rightarrow> string \<Rightarrow> pyfloat \<Rightarrow> py_any \<Rightarrow> py_any \<Rightarrow> veto_config \<Rightarrow> regime_config \<Rightarrow> gate_result outcome" where
  "evaluate_veto_gate th s symbol direction net_edge min_edge vc rc =
     (case map_of (rg_assets s) symbol of
        Some f \<Rightarrow>
          if af_history_ready f
          then compute_veto_gate (classify_asset_regime th rc f) (classify_global_regime th rc s) direction net_edge min_edge vc
          else Inl (ValueError (''MRF asset regime unavailable: '' @ symbol))
      | None \<Rightarrow> Inl (ValueError (''MRF asset regime unavailable: '' @ symbol)))"

section \<open>The filter on a decision\<close>

definition determine_strategy_type :: "string option \<Rightarrow> dec_value \<Rightarrow> bool \<Rightarrow> strategy_kind" where
  "determine_strategy_type side fresh lgbm_applied =
     (case side of
        None \<Rightarrow> Other_kind
      | Some side \<Rightarrow>
          let half = Finite (1/2); no_price = f_sub (Finite 1) fresh in
          if lgbm_applied then
            (if side = BUY_YES \<and> float_less fresh half \<or> side = BUY_NO \<and> float_less no_price half then Trend_follow else Trend_fade)
          else if float_less (if side = BUY_YES then fresh else no_price) half then Outsider_kind else Favorite_kind)"

definition build_regime_config :: "trading_config \<Rightarrow> regime_config" where
  "build_regime_config cfg =
     default_regime_config\<lparr>rc_trend_efficiency_min := tc_mrf_efficiency_threshold cfg, rc_breadth_strong := tc_mrf_breadth_threshold cfg,
       rc_breadth_weak := f_sub (Finite 1) (tc_mrf_breadth_threshold cfg)\<rparr>"

definition multipliers_of :: "trading_config \<Rightarrow> multiplier_config" where
  "multipliers_of cfg =
     default_multipliers\<lparr>mc_outsider_trend := tc_mrf_outsider_trend_multiplier cfg, mc_unknown := tc_mrf_unknown_multiplier cfg\<rparr>"

record filter_outcome =
  fo_action :: string
  fo_bet :: dec_value
  fo_applied :: bool
  fo_skip_reason :: "string option"
  fo_global_phase :: "string option"
  fo_asset_phase :: "string option"
  fo_policy :: "policy_verdict option"
  fo_gate :: "gate_result option"
  fo_version :: int

definition apply_regime_policy ::
  "(pyfloat \<Rightarrow> pyfloat) \<Rightarrow> trading_config \<Rightarrow> regime_snapshot \<Rightarrow> string option \<Rightarrow> dec_value \<Rightarrow> bool \<Rightarrow> dec_value \<Rightarrow> string \<Rightarrow> string \<Rightarrow> filter_outcome" where
  "apply_regime_policy th cfg s side fresh lgbm_applied bet action symbol =
     (let mode = (case filter_mode_of (tc_mrf_mode cfg) of Some m \<Rightarrow> m | None \<Rightarrow> Filter_off);
          same = \<lparr>fo_action = action, fo_bet = bet, fo_applied = False, fo_skip_reason = None, fo_global_phase = None,
                  fo_asset_phase = None, fo_policy = None, fo_gate = None, fo_version = tc_mrf_version cfg\<rparr>
      in if mode = Filter_off \<or> \<not> bk_history_ready (rg_basket s) then same
         else let rc = build_regime_config cfg;
                  v = evaluate_policy th s (determine_strategy_type side fresh lgbm_applied) (if side = Some BUY_YES then 1 else - 1) mode (multipliers_of cfg) rc;
                  asset_phase = (if symbol = [] then PHASE_UNKNOWN else fst (extract_asset_phase th rc s symbol));
                  blocked = (\<not> pv_allow v \<and> action \<noteq> ''SKIP'');
                  seen = same\<lparr>fo_policy := Some v, fo_global_phase := Some (phase_value (pv_phase v)), fo_asset_phase := Some (phase_value asset_phase)\<rparr>
              in if mode = Filter_shadow then seen
                 else seen\<lparr>fo_action := (if blocked then ''SKIP'' else action),
                           fo_bet := (if blocked then Finite 0 else f_mul bet (pv_multiplier v)),
                           fo_applied := (pv_multiplier v \<noteq> Finite 1),
                           fo_skip_reason := (if blocked then Some (''MRF:'' @ phase_value (pv_phase v) @ '':'' @ pv_reason v) else None)\<rparr>)"

definition veto_config_of :: "trading_config \<Rightarrow> veto_config outcome" where
  "veto_config_of cfg =
     make_veto_config (tc_mrf_asset_weight cfg) (tc_mrf_global_weight cfg) (tc_mrf_veto_threshold cfg) (tc_mrf_edge_override_margin cfg)"

definition apply_regime_veto_gate ::
  "(pyfloat \<Rightarrow> pyfloat) \<Rightarrow> trading_config \<Rightarrow> regime_snapshot \<Rightarrow> string \<Rightarrow> string \<Rightarrow> py_any \<Rightarrow> py_any \<Rightarrow> dec_value \<Rightarrow> string \<Rightarrow> filter_outcome outcome" where
  "apply_regime_veto_gate th cfg s symbol side net_edge min_edge bet action =
     (case filter_mode_of (tc_mrf_mode cfg) of
        None \<Rightarrow> Inl (ValueError (quoted (tc_mrf_mode cfg) @ '' is not a valid FilterMode''))
      | Some mode \<Rightarrow>
          if side \<notin> {BUY_YES, BUY_NO} then Inl (ValueError (''Unsupported MRF candidate side: '' @ side))
          else bind_out (veto_config_of cfg) (\<lambda>vc.
               bind_out (evaluate_veto_gate th s symbol (if side = BUY_YES then 1 else - 1) net_edge min_edge vc (build_regime_config cfg)) (\<lambda>g.
                 let block = (mode = Filter_active \<and> gt_would_block g \<and> action \<noteq> ''SKIP'');
                     global = phase_value (cl_phase (gt_global g)); asset = phase_value (cl_phase (gt_asset g))
                 in Inr \<lparr>fo_action = (if block then ''SKIP'' else action), fo_bet = (if block then Finite 0 else bet), fo_applied = block,
                         fo_skip_reason = (if block then Some (''MRF:V3:'' @ global @ '':'' @ asset @ '':'' @ gt_reason g) else None),
                         fo_global_phase = Some global, fo_asset_phase = Some asset, fo_policy = None, fo_gate = Some g, fo_version = 3\<rparr>)))"

definition apply_market_regime_filter ::
  "(pyfloat \<Rightarrow> pyfloat) \<Rightarrow> trading_config \<Rightarrow> regime_snapshot \<Rightarrow> string option \<Rightarrow> dec_value \<Rightarrow> bool \<Rightarrow> dec_value \<Rightarrow> py_any \<Rightarrow> py_any \<Rightarrow> string \<Rightarrow> string \<Rightarrow>
   filter_outcome outcome" where
  "apply_market_regime_filter th cfg s side fresh lgbm_applied bet net_edge min_edge action symbol =
     (let by_policy = Inr (apply_regime_policy th cfg s side fresh lgbm_applied bet action symbol) in
      if tc_mrf_version cfg \<notin> {1, 2, 3} then Inl (ValueError (''Unsupported MRF policy version: '' @ int_str (tc_mrf_version cfg)))
      else if tc_mrf_mode cfg = ''OFF'' then by_policy
      else if tc_mrf_version cfg \<in> {1, 2} then by_policy
      else case side of
        None \<Rightarrow> Inl (ValueError ''MRF v3 requires candidate_side'')
      | Some c \<Rightarrow> apply_regime_veto_gate th cfg s symbol c net_edge min_edge bet action)"

section \<open>The filter in a cycle\<close>

fun error_name :: "py_error \<Rightarrow> string" where
  "error_name InvalidOperation = ''InvalidOperation''"
| "error_name (ValueError m) = ''ValueError''"
| "error_name (IntegrityError m) = ''IntegrityError''"
| "error_name MultipleResultsFound = ''MultipleResultsFound''"
| "error_name NoResultFound = ''NoResultFound''"
| "error_name (LiveSessionError m) = ''LiveSessionError''"
| "error_name LivePositionNotFound = ''LivePositionNotFound''"
| "error_name MarketNotResolved = ''MarketNotResolved''"
| "error_name GammaApiError = ''GammaApiError''"
| "error_name (TypeError m) = ''TypeError''"
| "error_name (UnboundLocalError m) = ''UnboundLocalError''"

text \<open>The snapshot that was loaded for the weighted policy, its failure, or a new load.\<close>

definition snapshot_to_use :: "regime_snapshot option \<Rightarrow> string option \<Rightarrow> string + regime_snapshot \<Rightarrow> string + regime_snapshot" where
  "snapshot_to_use preloaded failure loaded =
     (case preloaded of Some s \<Rightarrow> Inr s
      | None \<Rightarrow> (case failure of Some f \<Rightarrow> if f = [] then loaded else Inl f | None \<Rightarrow> loaded))"

record filter_reply =
  fr_action :: string
  fr_bet :: dec_value
  fr_outcome :: "filter_outcome option"
  fr_failure :: "string option"

definition apply_mrf_filter ::
  "(pyfloat \<Rightarrow> pyfloat) \<Rightarrow> trading_config \<Rightarrow> string + regime_snapshot \<Rightarrow> string option \<Rightarrow> dec_value \<Rightarrow> bool \<Rightarrow> dec_value \<Rightarrow> py_any \<Rightarrow> py_any \<Rightarrow> string \<Rightarrow> string \<Rightarrow>
   filter_reply" where
  "apply_mrf_filter th cfg source side fresh lgbm_applied bet net_edge min_edge action symbol =
     (let pass = (\<lambda>failure. \<lparr>fr_action = action, fr_bet = bet, fr_outcome = None, fr_failure = failure\<rparr>) in
      if tc_mrf_mode cfg = ''OFF'' then pass None
      else if tc_mrf_version cfg = 3 \<and> side \<notin> {Some BUY_YES, Some BUY_NO}
      then let failure = Some (''invalid_candidate_side:'' @ (case side of Some c \<Rightarrow> if c = [] then ''NONE'' else c | None \<Rightarrow> ''NONE''))
           in if tc_mrf_mode cfg = ''ACTIVE'' then \<lparr>fr_action = ''SKIP'', fr_bet = Finite 0, fr_outcome = None, fr_failure = failure\<rparr>
              else pass failure
      else case source of
        Inl failure \<Rightarrow> pass (Some failure)
      | Inr s \<Rightarrow>
          (case apply_market_regime_filter th cfg s side fresh lgbm_applied bet net_edge min_edge action symbol of
             Inl e \<Rightarrow> pass (Some (''runtime_error:'' @ error_name e))
           | Inr r \<Rightarrow> \<lparr>fr_action = fo_action r, fr_bet = fo_bet r, fr_outcome = Some r, fr_failure = None\<rparr>))"

definition weighted_mrf_yes_evidence :: "(pyfloat \<Rightarrow> pyfloat) \<Rightarrow> trading_config \<Rightarrow> regime_snapshot \<Rightarrow> string \<Rightarrow> pyfloat outcome" where
  "weighted_mrf_yes_evidence th cfg s symbol =
     bind_out (veto_config_of cfg) (\<lambda>vc.
     bind_out (evaluate_veto_gate th s symbol 1 (VNumber (Finite 0)) (VNumber (Finite 0)) vc (build_regime_config cfg)) (\<lambda>g. Inr (gt_evidence g)))"

section \<open>The filter never adds a trade\<close>

lemma policy_only_blocks:
  "fo_action (apply_regime_policy th cfg s side fresh l bet action symbol) \<in> {action, ''SKIP''} \<and>
   (tc_mrf_mode cfg \<noteq> ''ACTIVE'' \<longrightarrow> fo_action (apply_regime_policy th cfg s side fresh l bet action symbol) = action \<and>
      fo_bet (apply_regime_policy th cfg s side fresh l bet action symbol) = bet)"
  by (simp add: apply_regime_policy_def filter_mode_of_def Let_def)

lemma veto_only_blocks:
  "apply_regime_veto_gate th cfg s symbol side net least bet action = Inr r \<Longrightarrow>
     (fo_action r = action \<and> fo_bet r = bet \<or> fo_action r = ''SKIP'' \<and> fo_bet r = Finite 0 \<and> tc_mrf_mode cfg = ''ACTIVE'')"
  by (auto simp: apply_regime_veto_gate_def filter_mode_of_def Let_def split: if_splits sum.splits)

lemma filter_only_blocks:
  assumes "apply_market_regime_filter th cfg s side fresh l bet net least action symbol = Inr r"
  shows "fo_action r \<in> {action, ''SKIP''}" "tc_mrf_mode cfg \<noteq> ''ACTIVE'' \<Longrightarrow> fo_action r = action \<and> fo_bet r = bet"
    "tc_mrf_version cfg = 3 \<Longrightarrow> (fo_action r, fo_bet r) \<in> {(action, bet), (''SKIP'', Finite 0)}"
  using assms policy_only_blocks [of th cfg s side fresh l bet action symbol] veto_only_blocks [of th cfg s symbol _ net least bet action r]
  unfolding apply_market_regime_filter_def Let_def
  by (auto split: if_splits option.splits simp: apply_regime_policy_def filter_mode_of_def Let_def)

text \<open>
  C29: the regime filter never adds or turns a trade. Its action is the given one or SKIP; unless it is ACTIVE, both
  action and bet are the given ones; version 3 keeps the bet or refuses the trade; and when the regime cannot be
  computed, whatever goes wrong, a decision with a proper side passes unchanged.
\<close>

theorem regime_filter_only_blocks:
  "(let r = apply_mrf_filter th cfg source side fresh lgbm bet net least action symbol in
    fr_action r \<in> {action, ''SKIP''} \<and>
    (tc_mrf_mode cfg \<noteq> ''ACTIVE'' \<longrightarrow> fr_action r = action \<and> fr_bet r = bet) \<and>
    (tc_mrf_version cfg = 3 \<longrightarrow> (fr_action r, fr_bet r) \<in> {(action, bet), (''SKIP'', Finite 0)}) \<and>
    (side \<in> {Some BUY_YES, Some BUY_NO} \<and> fr_outcome r = None \<longrightarrow> fr_action r = action \<and> fr_bet r = bet))"
proof (cases source)
  case (Inl failure)
  then show ?thesis by (simp add: apply_mrf_filter_def Let_def)
next
  case (Inr s)
  show ?thesis
  proof (cases "apply_market_regime_filter th cfg s side fresh lgbm bet net least action symbol")
    case (Inl e)
    then show ?thesis using Inr by (simp add: apply_mrf_filter_def Let_def)
  next
    case (Inr r)
    note f = filter_only_blocks [OF Inr]
    show ?thesis using f Inr \<open>source = Inr s\<close> by (auto simp: apply_mrf_filter_def Let_def)
  qed
qed

section \<open>Opposite sides\<close>

lemma rhe_minus: "rhe (- x) = - rhe x"
proof (cases "x \<in> \<int>")
  case True
  then obtain n where x: "x = of_int n" by (auto elim: Ints_cases)
  then show ?thesis using rhe_of_int [of "- n"] by simp
next
  case False
  define f where "f = \<lfloor>x\<rfloor>"
  have "x \<noteq> of_int \<lfloor>x\<rfloor>" using False by (metis Ints_of_int)
  then have c: "\<lfloor>- x\<rfloor> = - f - 1" by (simp add: floor_minus f_def ceiling_altdef)
  show ?thesis unfolding rhe_def Let_def c f_def [symmetric] by auto
qed

lemma round_float_minus: "round_float n (- x) = - round_float n x"
  by (simp add: round_float_def rhe_minus flt_minus [symmetric])

lemma evidence_minus: "classification_evidence c (- d) = - classification_evidence c d"
  by (simp add: classification_evidence_def flt_minus min_def max_def)

lemma combined_minus: "combined_evidence vc (- a) (- b) = - combined_evidence vc a b"
proof -
  have "flt (vg_asset_weight vc * - a) + flt (vg_global_weight vc * - b) = - (flt (vg_asset_weight vc * a) + flt (vg_global_weight vc * b))"
    by (simp add: flt_minus)
  then show ?thesis by (simp only: combined_evidence_def flt_minus minus_divide_left [symmetric] round_float_minus)
qed

lemma gate_evidence:
  assumes "compute_veto_gate a g d net least vc = Inr r"
  shows "gt_evidence r = combined_evidence vc (classification_evidence a d) (classification_evidence g d)"
    "gt_would_block r \<longleftrightarrow> gt_evidence r < 0 \<and> gt_evidence r \<le> - vg_threshold vc \<and> gt_edge_margin r < vg_margin vc"
  using assms by (auto simp: compute_veto_gate_def Let_def not_le split: if_splits option.splits dec_value.splits)

text \<open>
  C30: the regime speaks for one side. The evidence for the two sides of a market differs only in the sign, and the
  veto never refuses both, whatever the edges of the two are.
\<close>

theorem veto_spares_one_side:
  assumes "evaluate_veto_gate th s symbol 1 net least vc rc = Inr up" "evaluate_veto_gate th s symbol (- 1) net' least' vc rc = Inr down"
  shows "gt_evidence down = - gt_evidence up \<and> \<not> (gt_would_block up \<and> gt_would_block down)"
proof -
  obtain f where up: "compute_veto_gate (classify_asset_regime th rc f) (classify_global_regime th rc s) 1 net least vc = Inr up"
    and down: "compute_veto_gate (classify_asset_regime th rc f) (classify_global_regime th rc s) (- 1) net' least' vc = Inr down"
    using assms by (auto simp: evaluate_veto_gate_def split: option.splits if_splits)
  have "gt_evidence down = - gt_evidence up"
    unfolding gate_evidence(1) [OF up] gate_evidence(1) [OF down] evidence_minus combined_minus ..
  then show ?thesis using gate_evidence(2) [OF up] gate_evidence(2) [OF down] by auto
qed

text \<open>A better edge never turns a pass into a veto.\<close>

theorem better_edge_not_vetoed:
  assumes "compute_veto_gate a g d net least vc = Inr r" "compute_veto_gate a g d net' least vc = Inr r'"
    "gt_net_edge r \<le> gt_net_edge r'" "gt_would_block r'"
  shows "gt_would_block r"
proof -
  have m: "gt_edge_margin q = round_float 6 (flt (gt_net_edge q - gt_min_edge q))" if "compute_veto_gate a g d n least vc = Inr q" for n q
    using that by (auto simp: compute_veto_gate_def Let_def split: if_splits option.splits dec_value.splits)
  have "gt_min_edge r = gt_min_edge r'"
    using assms(1,2) by (auto simp: compute_veto_gate_def Let_def split: if_splits option.splits dec_value.splits)
  then have "gt_edge_margin r \<le> gt_edge_margin r'"
    unfolding m [OF assms(1)] m [OF assms(2)] using assms(3) by (intro round_float_mono flt_mono) simp
  then show ?thesis using assms(4) gate_evidence [OF assms(1)] gate_evidence [OF assms(2)] by auto
qed

section \<open>What the settings do not do\<close>

lemma unknown_unread:
  "outsider_rule (mc\<lparr>mc_outsider_trend := x, mc_unknown := y\<rparr>) p = outsider_rule (mc\<lparr>mc_outsider_trend := x, mc_unknown := z\<rparr>) p"
  "trend_rule (mc\<lparr>mc_outsider_trend := x, mc_unknown := y\<rparr>) p a = trend_rule (mc\<lparr>mc_outsider_trend := x, mc_unknown := z\<rparr>) p a"
  "favorite_rule (mc\<lparr>mc_outsider_trend := x, mc_unknown := y\<rparr>) p a = favorite_rule (mc\<lparr>mc_outsider_trend := x, mc_unknown := z\<rparr>) p a"
  by (simp_all add: outsider_rule_def trend_rule_def favorite_rule_def)

text \<open>
  The setting for an unknown regime has no effect: the policy reads the multiplier of the strategy instead. And the
  multiplier for an outsider in a trend has no upper bound: it can raise the bet.
\<close>

theorem unknown_multiplier_ignored:
  "apply_mrf_filter th (cfg\<lparr>tc_mrf_unknown_multiplier := m\<rparr>) source side fresh lgbm bet net least action symbol =
   apply_mrf_filter th cfg source side fresh lgbm bet net least action symbol"
proof -
  have c: "build_regime_config (cfg\<lparr>tc_mrf_unknown_multiplier := m\<rparr>) = build_regime_config cfg"
    "veto_config_of (cfg\<lparr>tc_mrf_unknown_multiplier := m\<rparr>) = veto_config_of cfg" by (simp_all add: build_regime_config_def veto_config_of_def)
  have p: "evaluate_policy th s kind d mode (multipliers_of (cfg\<lparr>tc_mrf_unknown_multiplier := m\<rparr>)) rc =
      evaluate_policy th s kind d mode (multipliers_of cfg) rc" for s kind d mode rc
    by (cases kind; cases "get_global_regime th rc s")
      (simp_all add: evaluate_policy_def multipliers_of_def Let_def unknown_unread [where y = m and z = "tc_mrf_unknown_multiplier cfg"])
  let ?c = "cfg\<lparr>tc_mrf_unknown_multiplier := m\<rparr>"
  have f: "tc_mrf_mode ?c = tc_mrf_mode cfg" "tc_mrf_version ?c = tc_mrf_version cfg" by simp_all
  have q: "apply_regime_policy th ?c s side fresh lgbm bet action symbol = apply_regime_policy th cfg s side fresh lgbm bet action symbol" for s
    unfolding apply_regime_policy_def c p f by (rule refl)
  have v: "apply_regime_veto_gate th ?c s symbol d net least bet action = apply_regime_veto_gate th cfg s symbol d net least bet action" for s d
    unfolding apply_regime_veto_gate_def c f by (rule refl)
  show ?thesis unfolding apply_mrf_filter_def apply_market_regime_filter_def f q v by (rule refl)
qed

theorem trend_multiplier_raises_bet:
  assumes "tc_mrf_mode cfg = ''ACTIVE''" "bk_history_ready (rg_basket s)" "tc_mrf_outsider_trend_multiplier cfg = Finite m" "0 < m"
    "is_trending (cl_phase (classify_global_regime th (build_regime_config cfg) s))" "determine_strategy_type side fresh lgbm = Outsider_kind"
  shows "fo_action (apply_regime_policy th cfg s side fresh lgbm bet action symbol) = action \<and>
    fo_bet (apply_regime_policy th cfg s side fresh lgbm bet action symbol) = f_mul bet (Finite m)"
  using assms by (auto simp: apply_regime_policy_def filter_mode_of_def evaluate_policy_def get_global_regime_def outsider_rule_def
      multipliers_of_def is_trending_def Let_def)

section \<open>A falling market\<close>

definition falling_asset :: asset_features where
  "falling_asset = \<lparr>af_ret_4h = - 1, af_ret_12h = - 1, af_ret_24h = - 1, af_vol_ratio = 0, af_efficiency = 1, af_history_ready = True\<rparr>"

definition falling_market :: regime_snapshot where
  "falling_market =
     \<lparr>rg_assets = [(''BTC'', falling_asset)],
      rg_basket = \<lparr>bk_ret_4h = - 1, bk_ret_12h = - 1, bk_ret_24h = - 1, bk_breadth_up = 0, bk_dispersion = 0, bk_efficiency = 1,
        bk_ready_count = 1, bk_total_count = 1, bk_history_ready = True\<rparr>, rg_reasons = []\<rparr>"

definition veto_settings :: trading_config where
  "veto_settings =
     sample_config\<lparr>tc_mrf_mode := ''ACTIVE'', tc_mrf_version := 3, tc_mrf_asset_weight := 1/2, tc_mrf_global_weight := 1/2,
       tc_mrf_veto_threshold := 1/8, tc_mrf_edge_override_margin := 1/16, tc_mrf_efficiency_threshold := Finite (1/2),
       tc_mrf_breadth_threshold := Finite (3/4)\<rparr>"

definition sample_veto :: veto_config where
  "sample_veto = \<lparr>vg_asset_weight = 1/2, vg_global_weight = 1/2, vg_threshold = 1/8, vg_margin = 1/16\<rparr>"

lemma sample_veto_config: "veto_config_of veto_settings = Inr sample_veto"
  by (simp add: veto_config_of_def veto_settings_def make_veto_config_def sample_veto_def)

lemma falling_strength:
  assumes "0 < rc_ret_norm_cap rc" shows "classify_strength (\<lambda>_. 1) rc (- 1) (- 1) (- 1) 1 = (1, 1, 1)"
proof -
  have "flt (flt (flt (1/2) + flt (flt (3/10))) + flt (flt (1/5))) = 1" by code_simp
  then show ?thesis using assms
    by (simp add: classify_strength_def magnitude_score_def normalize_ret_def consistency_score_def strength_of_def count_up_def count_down_def)
qed

lemma falling_phases:
  "classify_asset_regime (\<lambda>_. 1) (build_regime_config veto_settings) falling_asset =
     classify_asset_regime (\<lambda>_. 1) (build_regime_config veto_settings) falling_asset\<lparr>cl_phase := STRONG_DOWN, cl_strength := 1, cl_confidence := 1\<rparr>"
  "classify_global_regime (\<lambda>_. 1) (build_regime_config veto_settings) falling_market =
     classify_global_regime (\<lambda>_. 1) (build_regime_config veto_settings) falling_market\<lparr>cl_phase := STRONG_DOWN, cl_strength := 1, cl_confidence := 1\<rparr>"
proof -
  let ?rc = "build_regime_config veto_settings"
  have rc: "rc_high_vol_ratio ?rc = 3/2" "rc_trend_efficiency_min ?rc = Finite (1/2)" "rc_strong_score ?rc = flt (3/5)"
    "rc_dispersion_high ?rc = flt (1/50)" "rc_breadth_weak ?rc = f_sub (Finite 1) (Finite (3/4))" "0 < rc_ret_norm_cap ?rc"
    by (simp_all add: build_regime_config_def default_regime_config_def veto_settings_def)
  have v: "flt (3/5) \<le> 1" "flt (2/3) \<le> 1" "0 < flt (1/4)" "\<not> flt (1/50) < 0" by (simp_all add: flt_le_1)
  have n: "count_up (- 1) (- 1) (- 1) = 0" "count_down (- 1) (- 1) (- 1) = 3" by (simp_all add: count_up_def count_down_def)
  show "classify_asset_regime (\<lambda>_. 1) ?rc falling_asset = classify_asset_regime (\<lambda>_. 1) ?rc falling_asset\<lparr>cl_phase := STRONG_DOWN, cl_strength := 1, cl_confidence := 1\<rparr>"
    by (simp add: classify_asset_regime_def falling_asset_def falling_strength rc trending_def v n Let_def)
  show "classify_global_regime (\<lambda>_. 1) ?rc falling_market = classify_global_regime (\<lambda>_. 1) ?rc falling_market\<lparr>cl_phase := STRONG_DOWN, cl_strength := 1, cl_confidence := 1\<rparr>"
    by (simp add: classify_global_regime_def falling_market_def median_vol_ratio_def falling_asset_def falling_strength rc trending_def f_sub_def v n Let_def)
qed

lemma falling_evidence:
  "phase_direction STRONG_DOWN = - 1" "combined_evidence sample_veto (- 1) (- 1) = - 1"
  using round_float_near [of "- 1" "- (10 ^ 6)" 6]
  by (simp_all add: phase_direction_def combined_evidence_def sample_veto_def flt_minus)

lemma falling_classification:
  "\<exists>a. classify_asset_regime (\<lambda>_. 1) (build_regime_config veto_settings) falling_asset = a \<and> cl_phase a = STRONG_DOWN \<and>
     cl_strength a = 1 \<and> cl_confidence a = 1"
  "\<exists>g. classify_global_regime (\<lambda>_. 1) (build_regime_config veto_settings) falling_market = g \<and> cl_phase g = STRONG_DOWN \<and>
     cl_strength g = 1 \<and> cl_confidence g = 1"
  by (subst falling_phases, simp)+

text \<open>In a falling market the veto stops the purchase of YES and spares that of NO.\<close>

lemma falling_gate:
  assumes "d \<in> {- 1, 1}"
  shows "\<exists>r. evaluate_veto_gate (\<lambda>_. 1) falling_market ''BTC'' d (VNumber (Finite 0)) (VNumber (Finite 0)) sample_veto
      (build_regime_config veto_settings) = Inr r \<and> (gt_would_block r \<longleftrightarrow> d = 1)"
proof -
  obtain a g where a: "classify_asset_regime (\<lambda>_. 1) (build_regime_config veto_settings) falling_asset = a" "cl_phase a = STRONG_DOWN"
      "cl_strength a = 1" "cl_confidence a = 1"
    and g: "classify_global_regime (\<lambda>_. 1) (build_regime_config veto_settings) falling_market = g" "cl_phase g = STRONG_DOWN"
      "cl_strength g = 1" "cl_confidence g = 1" using falling_classification by blast
  have e: "classification_evidence a d = - d" "classification_evidence g d = - d"
    using assms a(2-4) g(2-4) by (auto simp: classification_evidence_def falling_evidence flt_minus)
  have "combined_evidence sample_veto (- d) (- d) = - d"
    using assms combined_minus [of sample_veto "- 1" "- 1"] by (auto simp: falling_evidence)
  moreover have "map_of (rg_assets falling_market) ''BTC'' = Some falling_asset" "af_history_ready falling_asset"
    by (simp_all add: falling_market_def falling_asset_def)
  ultimately show ?thesis using assms
    by (auto simp: evaluate_veto_gate_def a(1) g(1) compute_veto_gate_def e sample_veto_def Let_def)
qed

theorem regime_filter_only_blocks_witness:
  "let r = apply_mrf_filter (\<lambda>_. 1) veto_settings (Inr falling_market) (Some BUY_YES) (Finite (3/4)) False (Finite 10)
       (VNumber (Finite 0)) (VNumber (Finite 0)) BUY_YES ''BTC''
   in fr_action r = ''SKIP'' \<and> fr_bet r = Finite 0"
proof -
  let ?r = "apply_mrf_filter (\<lambda>_. 1) veto_settings (Inr falling_market) (Some BUY_YES) (Finite (3/4)) False (Finite 10)
       (VNumber (Finite 0)) (VNumber (Finite 0)) BUY_YES ''BTC''"
  obtain g where g: "evaluate_veto_gate (\<lambda>_. 1) falling_market ''BTC'' 1 (VNumber (Finite 0)) (VNumber (Finite 0)) sample_veto
      (build_regime_config veto_settings) = Inr g" "gt_would_block g" using falling_gate [of 1] by auto
  have m: "tc_mrf_mode veto_settings = ''ACTIVE''" "tc_mrf_version veto_settings = 3" by (simp_all add: veto_settings_def)
  have "fr_action ?r = ''SKIP''"
    by (simp add: apply_mrf_filter_def apply_market_regime_filter_def apply_regime_veto_gate_def m filter_mode_of_def sample_veto_config g
        Let_def BUY_YES_def)
  then show ?thesis
    using regime_filter_only_blocks [of "\<lambda>_. 1" veto_settings "Inr falling_market" "Some BUY_YES" "Finite (3/4)" False "Finite 10"
        "VNumber (Finite 0)" "VNumber (Finite 0)" BUY_YES "''BTC''"] m(2) by (simp add: Let_def BUY_YES_def)
qed

theorem veto_spares_one_side_witness:
  "\<exists>up down. evaluate_veto_gate (\<lambda>_. 1) falling_market ''BTC'' 1 (VNumber (Finite 0)) (VNumber (Finite 0)) sample_veto
      (build_regime_config veto_settings) = Inr up \<and> gt_would_block up \<and>
    evaluate_veto_gate (\<lambda>_. 1) falling_market ''BTC'' (- 1) (VNumber (Finite 0)) (VNumber (Finite 0)) sample_veto
      (build_regime_config veto_settings) = Inr down \<and> gt_evidence down = - gt_evidence up"
  using falling_gate [of 1] falling_gate [of "- 1"] veto_spares_one_side [of "\<lambda>_. 1" falling_market "''BTC''"] by fastforce

end
