(* ===== verification/Spec2Isabelle.thy ===== *)
theory Spec2Isabelle
  imports Risk Outbox Strategies Strategy_Safety Paper_Gateway Accounting Worker_Config Worker Lifecycle Worker_Orders Reconcile
    Manual_Review Exit_Triggers Live_Session Mirror Release_Gate Session_Api Sizing Trading_Config Weighted_Policy Trade_Decision Ct_Policy Market_Guards
    Combined_Entry Activation_Gate Market_Regime Regime_Filter
begin

text \<open>
  Verification of PolyFlip, a trading bot for the binary markets of Polymarket. The trading engine
  (\<open>src/polyflip/trading\<close>) decides what to buy from quotes and the probabilities of its models; the execution
  subsystem (\<open>src/polyflip/execution\<close>) turns a decision into a stored request, submits it to a venue, books
  what was filled and settles the position. Modelled are the rules of the decisions and the whole execution; the
  models behind the probabilities are not.

  \<^bold>\<open>How the parts interact.\<close> In each cycle of the engine the guards (\<open>Market_Guards\<close>) leave out markets
  that are not evaluated; a policy (the outsider strategy, the COMBINED mode or the CT strategy) turns quotes
  and probabilities into a decision with a size, all under one parsed configuration. The COMBINED mode lets the
  votes of two models agree on a side, or lets the weighted policy choose it; in the shadow mode the weighted
  policy is only recorded. The market regime, computed from closed candles of all assets, can refuse or resize a
  decision of the legacy policy and is evidence for the weighted one. The weights and thresholds of the policy may come from an artifact, whose use in the
  active mode the activation gate decides on the evidence of the shadow records; a CT decision is reserved
  once in the database; the pre-trade check repeats price, edge and size at a fresh quote, and what it accepts
  is queued in the outbox. From there on all parts share one database (\<open>Exec_Store\<close>, record \<open>db\<close>). The
  engine and the exit triggers call the outbox, which checks the risk limits and inserts a request. The
  worker claims a request under a lease, checks it again, commits an attempt, runs an order strategy against
  a gateway and books the answer; what stays open is polled by the reconciliation, handed to a manual review
  after fifteen minutes and, for exits, closed automatically. Every booking rebuilds the accounting of the
  position from its fills; a resolved market settles it. A filled PAPER purchase is copied by the mirror worker
  into a LIVE candidate, once per purchase; the release gate checks a candidate again and, within the budgets of
  the active LIVE session, turns it into a LIVE trade and a LIVE request that the worker then handles like any
  other. The LIVE session service answers whether LIVE trading may start and how much of a budget is used, and
  operators start and stop sessions, flip the switches and settle reviews through the HTTP API.

  \<^bold>\<open>Theories and sources.\<close>
  \<^item> \<open>Prelude\<close>, \<open>Py_Number\<close>, \<open>Py_Text\<close>: Python strings, truthiness, exceptions as the left
    component of a sum (\<open>outcome\<close>), \<open>Decimal\<close> with 28 digits and \<open>float\<close> with 53 bits as rounded
    rationals (locale \<open>sig_rounding\<close>, interpreted for both), the text of numbers and times.
  \<^item> \<open>Exec_States\<close>: \<open>states.py\<close>, \<open>config.py\<close>. \<open>Exec_Store\<close>: \<open>db/execution_models.py\<close> and the
    columns of \<open>db/models.py\<close> that are used; rows are records, tables are lists, the partial unique
    indexes and the CHECK constraint are part of the insert.
  \<^item> \<open>Risk\<close>: \<open>exposure.py\<close>, \<open>risk_checks.py\<close>. \<open>Outbox\<close>: \<open>outbox.py\<close>.
  \<^item> \<open>Gateway\<close>: \<open>contracts.py\<close>, \<open>gateways/exceptions.py\<close>. A gateway is a record \<open>'w venue\<close> of
    operations on an abstract world. Locales state what a client may assume of it: \<open>guarded_venue\<close> (every
    order satisfies a guard), \<open>metered_venue\<close> (orders are counted), \<open>clocked_venue\<close> (sleeping advances the
    clock); they are interpreted on the recording of an arbitrary venue and on the PAPER gateway.
  \<^item> \<open>Strategies\<close>, \<open>Strategy_Safety\<close>: \<open>order_strategies.py\<close>. \<open>Paper_Gateway\<close>: \<open>gateways/fake.py\<close>,
    \<open>gateways/shadow.py\<close>, \<open>trading/fee_model.py\<close>.
  \<^item> \<open>Worker_Config\<close>, \<open>Worker\<close>, \<open>Accounting\<close>, \<open>Reconcile\<close>: \<open>worker.py\<close>, with the settings it
    reads (\<open>utils.py\<close>, a part of \<open>trading/trading_config.py\<close>, the PAPER branch of
    \<open>gateways/factory.py\<close>). \<open>Accounting\<close> also has \<open>settlement_service.py\<close>, \<open>trade_lifecycle.py\<close>,
    \<open>live_settlement_service.py\<close> and the resolution job of \<open>scheduler/jobs.py\<close>.
  \<^item> \<open>Lifecycle\<close>: the abstract machine of a request (inductive relation \<open>lifecycle\<close>) and the lemmas that
    every operation follows it. \<open>Worker_Orders\<close>: the properties of a worker call; its locale
    \<open>checked_venue\<close> extends \<open>guarded_venue\<close> by the approval and price calls.
  \<^item> \<open>Manual_Review\<close>: \<open>manual_review_service.py\<close>. \<open>Exit_Triggers\<close>: \<open>trading/stoploss.py\<close>,
    \<open>takeprofit.py\<close>, \<open>stoploss_worker.py\<close>, \<open>takeprofit_worker.py\<close>. \<open>Live_Session\<close>:
    \<open>live_session_service.py\<close>, \<open>assets.py\<close>.
  \<^item> \<open>Mirror\<close>: \<open>live_mirror_worker.py\<close>. \<open>Release_Gate\<close>: \<open>release_gate.py\<close>. \<open>Session_Api\<close>: the
    endpoints of \<open>api/execution_api.py\<close> that change the store (switches, LIVE sessions, reviews, closing of
    positions).
  \<^item> \<open>Py_Float\<close>: floats with infinities and NaN, Python's comparisons, \<open>min\<close>, \<open>max\<close>, \<open>round\<close> and
    compensated \<open>sum\<close>, and arguments of any type (\<open>py_any\<close>). \<open>Trading_Config\<close>: \<open>trading/trading_config.py\<close>;
    the fields are three extended records. \<open>Sizing\<close>: \<open>position_sizing.py\<close>, \<open>weighted_sizing.py\<close>.
  \<^item> \<open>Weighted_Policy\<close>: \<open>weighted_policy.py\<close>. \<open>Trade_Decision\<close>: \<open>decision_logic.py\<close>,
    \<open>pre_trade_validator.py\<close>, \<open>crypto/edge.py\<close> and \<open>MarketSignal\<close> of \<open>feature_builder.py\<close>.
    \<open>Ct_Policy\<close>: \<open>ct_policy.py\<close>, \<open>ct_reservation.py\<close>. \<open>Market_Guards\<close>: \<open>market_guards.py\<close>.
  \<^item> \<open>Policy_Artifact\<close>: the artifact of \<open>policy_artifact.py\<close> and what \<open>combined_voting.py\<close> reads from it;
    \<open>Activation_Gate\<close>: the gate of \<open>policy_artifact.py\<close>. \<open>Combined_Voting\<close>: votes, consensus, discount,
    selection, sizing and the shadow record of \<open>combined_voting.py\<close>. \<open>Combined_Entry\<close>: its decision
    \<open>evaluate_combined_entry\<close>, stage by stage, each stage being the returns between two calculations.
  \<^item> \<open>Market_Regime\<close>: \<open>crypto/market_regime_classifier.py\<close>, and of \<open>crypto/market_regime.py\<close> and
    \<open>crypto/market_regime_integration.py\<close> what does not compute with numpy. \<open>Regime_Filter\<close>:
    \<open>crypto/market_regime_policy.py\<close>, \<open>crypto/market_regime_apply.py\<close> and \<open>_apply_mrf_filter\<close> of \<open>decision_runners.py\<close>.
  \<^item> This theory: the step relation of the whole system and the properties of its runs.

  \<^bold>\<open>What is shown.\<close> Invariants of every run (unique requests, one active exit per position, one attempt per
  LIVE request) and that terminal states are final; the worker refines the machine of \<open>Lifecycle\<close> for every
  venue; orders reach a venue only after the checks, and every order of a strategy stays in the bounds of the
  request; a claim is exclusive for its lease; full case descriptions of the outbox; exact conditions of the
  risk checks and of LIVE readiness; the effect of \<open>finalize_request\<close> on the reserved exposure; bounds of
  simulated fills; termination of the polling loop; the conservation of money from fills to settlement and the
  idempotence of accounting, resolution and fill storage; the recovery of stored fills; the equivalence of the
  batch and single review; that the mirror copies every PAPER purchase once, that the gate releases a candidate
  exactly under its conditions, within the budgets and without changing existing requests; that at most one
  session is active, is activated only when ready and buys nothing after it was stopped. For the
  decisions: every text in the settings gives a configuration within its bounds; sizes stay within their limits
  and fail closed; the weighted policy chooses the better side after costs, its market-only arm ignores the
  models and a stake application ignores the evidence; a BUY of the COMBINED mode passed every gate, keeps the
  required consensus, is decided for every input without an exception, is the same in the shadow as in the legacy
  mode, and is what the eligibility in the shadow record says; the weighted stake stays below its cap; the
  activation gate opens exactly on sufficient evidence; the regime is computed from the past only and alike for
  rises and falls, its filter never adds a trade, changes nothing unless it is active and never vetoes both sides; the CT strategy buys exactly under its conditions, alike
  for UP and DOWN, from the past only and once per market; an accepted order passed every check. And the behaviours that deviate from what comments or names say, each as a theorem.

  \<^bold>\<open>Conventions.\<close> Times are integers in microseconds (UTC). What the code draws from outside (clock,
  identifiers, process id, the row a query without ORDER BY picks, environment variables, HTTP answers) is an
  argument. A transaction is applied as a whole or dropped; an exception that leaves a function is a value.
  Loops over rows are recursions on lists. The only loop that may wait is the polling of \<open>execute_gtc_ttl\<close>: it
  has fuel, and \<open>4 * ttl + 1\<close> rounds are proved enough for every venue whose clock advances while it sleeps.
  Russian texts are constructors or arguments. HTTP answers are the values of a reply type with the status code.
  The limits of a session are rounded to Numeric(18,6) when they are stored (\<open>pg_numeric\<close>); the index that
  allows one ACTIVE session is checked row by row in the order of the identifiers, as the UPDATEs are flushed.
  Not represented: the rounding of Numeric(38,18) columns and of SQL sums, trailing zeros of a \<open>Decimal\<close>, overflow, subnormal floats and the sign of zero, non-finite
  floats of orders and trades (those of settings, quotes and probabilities are represented). Powers with a fractional
  exponent, logarithm, exponential and \<open>tanh\<close> of the C library, the features of the market regime and the classifier
  of the price regime, which are computed with numpy, are
  arguments of the definitions. Reasons of the policies are texts or constructors.
  \<open>rebuild_trade_accounting\<close> commits an over-close on its own; the model has one transaction. A worker round
  is one step of the system, so two workers interleave between rounds and not inside them. The position state
  EXIT_FAILED is written by no code and has no constructor.

  \<^bold>\<open>Not modelled.\<close> Logging, the telemetry in \<open>raw_response\<close>, the advisory lock, the dialect lookup and the
  endless loops around single steps of the worker; JSON projections (\<open>serializers.py\<close>,
  \<open>settlement_snapshot.py\<close>, \<open>serialize_live_session_dto\<close>); the Polymarket gateway, which is built on an SDK
  outside the repository (strategies and worker are verified for every venue instead); the endpoints of the HTTP
  API that only read and those for redemption; migrations, data collection and model training. Of the engine: its cycle (\<open>engine.py\<close>
  and the rest of \<open>decision_runners.py\<close>), which assembles features, calls the models and writes
  telemetry, the benchmark reports (\<open>weighted_benchmark.py\<close>), the diagnostic controls and the hash of the CT
  specification, writing, hashing and loading the file of an artifact (the loaded artifact is an argument), the two
  functions of \<open>combined_voting.py\<close> on pandas tables and its \<open>combine_votes\<close>, which no code calls, and the
  dictionaries the policies write for telemetry.
\<close>

section \<open>The system\<close>

text \<open>
  The operations of all components as one step relation on the store and the world of the venue. The one
  operation left out is the operator's REQUEUE_AFTER_ALLOWANCE, which lets a submitted LIVE request be sent
  again (\<open>requeue_can_resubmit\<close> shows it). The last rule stands for the code that is not modelled and for
  users: it may change settings, markets, sessions, worker rows, fills, events and trades, but neither requests
  nor attempts nor the keys of the other tables.
\<close>

inductive system_step :: "db \<times> 'w \<Rightarrow> db \<times> 'w \<Rightarrow> bool" where
  open_request: "enqueue_open_request d now rid tid market asset outcome target limit mode cap = Inr (res, d') \<Longrightarrow>
     system_step (d, w) (d', w)"
| close_request: "enqueue_close_request d now rid tid trigger limit expires = Inr (res, d') \<Longrightarrow> system_step (d, w) (d', w)"
| worker: "worker_round gateway run newid last_check d w = ((last_check', d'), w') \<Longrightarrow> system_step (d, w) (d', w')"
| stop_loss: "stoploss_worker_cycle prices open_size newids goes_on now d w = (d', w') \<Longrightarrow> system_step (d, w) (d', w')"
| take_profit: "takeprofit_worker_cycle prices newids goes_on now d w = (d', w') \<Longrightarrow> system_step (d, w) (d', w')"
| settlement: "system_step (d, w) (resolve_trades_job outcomes now d, w)"
| live_resolution: "reconcile_live_resolution fetch i d = (answer, d') \<Longrightarrow> system_step (d, w) (d', w)"
| heartbeat: "system_step (d, w) (publish_liveness_once wid mode now d, w)"
| readiness: "refresh_gateway_readiness_once no_market wid get_readiness invalidate now d w = (d', w') \<Longrightarrow>
     system_step (d, w) (d', w')"
| mirror: "mirror_iteration fromiso hash newids target batch_size poll_interval max_backoff now errors d = (errors', pause, d') \<Longrightarrow>
     system_step (d, w) (d', w)"
| release: "release_batch g api sleep d w = ((n, d'), w') \<Longrightarrow> system_step (d, w) (d', w')"
| switch: "d' \<in> {snd (toggle_kill_switch b d), snd (toggle_mirror_switch b now d), snd (set_release_mode rm d),
       snd (toggle_ignore_edge_decay b d), snd (set_order_mode_api om d), snd (manual_release_candidate cid d)} \<Longrightarrow>
     system_step (d, w) (d', w)"
| live_session: "create_live_session l sid d = (x, d') \<or> update_live_session_limits i p d = (x, d') \<or>
       check_live_session_readiness i now d = (y, d') \<or> activate_live_session i now d = (x, d') \<or>
       stop_live_session i now d = (x, d') \<or> finish_live_session i now d = (x, d') \<Longrightarrow> system_step (d, w) (d', w)"
| no_fill: "resolve_manual_review text i body now d = (z, d') \<Longrightarrow> rv_action body = MARK_FAILED_NO_FILL \<Longrightarrow> system_step (d, w) (d', w)"
| no_fill_batch: "resolve_no_fill_batch texts ids operator now d = (answer, d') \<Longrightarrow> system_step (d, w) (d', w)"
| recheck: "reconcile_request rid now d = (z, d') \<Longrightarrow> system_step (d, w) (d', w)"
| close_position: "close_live_position tid rid now d = (u, d') \<Longrightarrow> system_step (d, w) (d', w)"
| close_all: "close_all_session_positions i newids now d = (v, d') \<Longrightarrow> system_step (d, w) (d', w)"
| elsewhere: "db_requests d' = db_requests d \<Longrightarrow> db_attempts d' = db_attempts d \<Longrightarrow> distinct (map tr_id (db_trades d')) \<Longrightarrow>
     distinct (map rs_request_id (db_reservations d')) \<Longrightarrow> system_step (d, w) (d', w')"

definition initial :: "db \<Rightarrow> bool" where
  "initial d \<longleftrightarrow> db_ok d \<and> db_requests d = [] \<and> db_attempts d = []"

section \<open>Steps of the other components\<close>

lemma open_request_advances:
  assumes "enqueue_open_request d now rid tid market asset outcome target limit mode cap = Inr (res, d')"
  shows "advances d d'"
  using assms
proof (cases rule: enqueue_open_cases)
  case (new s v)
  let ?r = "new_open_request rid now tid market asset outcome target limit mode cap s v"
  have s: "rq_state ?r \<in> {READY, AWAITING_APPROVAL}"
    using new(2) by (auto simp: new_open_request_def initial_state_def split: if_splits sum.splits option.splits)
  have "d' = d\<lparr>db_requests := db_requests d @ [?r]\<rparr>" using insert_request_SomeD [OF new(4)] by simp
  then show ?thesis using insert_request_ok [OF _ new(4)] insert_request_evolves [OF new(4) s] by (simp add: advances_def)
qed simp_all

lemma settlement_advances: "advances d (resolve_trades_job outcomes now d)"
proof (rule advances_other)
  have "tr_id (resolve_trade outcomes now t) = tr_id t" for t
    by (auto simp: resolve_trade_def book_resolution_def mark_trade_resolved_def Let_def split: option.split)
  then show "map tr_id (db_trades (resolve_trades_job outcomes now d)) = map tr_id (db_trades d)" by (simp add: resolve_trades_job_def)
qed (simp_all add: resolve_trades_job_def)

lemma live_resolution_advances: "reconcile_live_resolution fetch i d = (answer, d') \<Longrightarrow> advances d d'"
proof -
  have m: "advances x (upd_market k f x)" for x k f by (rule advances_other) (simp_all add: upd_market_def)
  have t: "advances x (upd_trade i (resolve_live_row final) x)" for x final
    by (rule advances_upd_trade) (simp add: resolve_live_row_def book_resolution_def mark_trade_resolved_def Let_def)
  assume "reconcile_live_resolution fetch i d = (answer, d')"
  then show ?thesis unfolding reconcile_live_resolution_def Let_def
    by (auto split: option.splits if_split_asm sum.splits intro: m advances_trans [OF m m] advances_trans [OF advances_trans [OF m m] t])
qed

lemma worker_status_advances:
  "advances d (publish_liveness_once wid mode now d)"
  "refresh_gateway_readiness_once no_market wid get_readiness invalidate now d w = (d', w') \<Longrightarrow> advances d d'"
proof -
  show "advances d (publish_liveness_once wid mode now d)" by (rule advances_other) (simp_all add: publish_liveness_once_def)
  have u: "advances d (upd_worker wid f d)" for f by (rule advances_other) (simp_all add: upd_worker_def)
  assume "refresh_gateway_readiness_once no_market wid get_readiness invalidate now d w = (d', w')"
  then show "advances d d'" using u unfolding refresh_gateway_readiness_once_def Let_def
    by (auto split: if_split_asm prod.splits sum.splits list.splits)
qed

lemma tables_advance:
  assumes "db_requests d' = db_requests d \<and> db_trades d' = db_trades d \<and> db_attempts d' = db_attempts d \<and> db_reservations d' = db_reservations d"
  shows "advances d d'"
  using assms by (intro advances_other) simp_all

lemma system_step_progress: "system_step (d, w) (d', w') \<Longrightarrow> db_ok d \<Longrightarrow> progress d d'"
proof (induction "(d, w)" "(d', w')" rule: system_step.induct)
  case (worker gateway run newid last_check last_check')
  then show ?case using worker_round_progress [of d gateway run newid last_check w] by simp
next
  case (stop_loss prices open_size newids goes_on now)
  then show ?case using stoploss_cycle_advances [of d prices open_size newids goes_on now w] by (simp add: advances_progress)
next
  case (take_profit prices newids goes_on now)
  then show ?case using takeprofit_cycle_advances [of d prices newids goes_on now w] by (simp add: advances_progress)
next
  case (release g api sleep n)
  then show ?case using release_batch_advances [of d g api sleep w] by (simp add: advances_progress)
next
  case (switch b now rm om cid)
  then show ?case using switches_advance by (auto intro: advances_progress)
next
  case (live_session l sid x i p now y)
  then show ?case using session_tables by (intro advances_progress tables_advance) blast
next
  case (elsewhere)
  then have "advances d d'" by (simp add: advances_def db_ok_def evolves_def get_request_def attempt_keys_def)
  then show ?case by (rule advances_progress)
qed (auto intro: advances_progress open_request_advances settlement_advances live_resolution_advances worker_status_advances
    mirror_iteration_advances resolve_review_advances no_fill_batch_advances reconcile_request_advances close_position_advances
    close_all_advances conjunct1 [OF advances_enqueue_close])

lemma system_run_progress:
  assumes "system_step\<^sup>*\<^sup>* (d, w) (d', w')" "db_ok d" shows "progress d d'"
  using assms
proof (induction "(d', w')" arbitrary: d' w' rule: rtranclp_induct)
  case (step y)
  obtain d1 w1 where y: "y = (d1, w1)" by fastforce
  have p: "progress d d1" using step by (simp add: y)
  then have "db_ok d1" using step.prems by (simp add: progress_def)
  then show ?case using progress_trans [OF p system_step_progress] step by (simp add: y)
qed simp

section \<open>Properties of every run\<close>


lemma sample_system_run:
  "system_step\<^sup>*\<^sup>* (empty_db, w) (snd (fst (worker_round gateway run newid None waiting_db w)),
     snd (worker_round gateway run newid None waiting_db w))"
proof -
  have "system_step (empty_db, w) (one_open READY, w)" by (rule system_step.open_request [OF enqueue_open_empty])
  moreover have "system_step (one_open READY, w) (waiting_db, w)"
    by (rule system_step.elsewhere) (simp_all add: waiting_db_def one_open_def empty_db_def)
  moreover have "system_step (waiting_db, w) (snd (fst (worker_round gateway run newid None waiting_db w)),
     snd (worker_round gateway run newid None waiting_db w))"
    by (rule system_step.worker [of gateway run newid None waiting_db w "fst (fst (worker_round gateway run newid None waiting_db w))"]) simp
  ultimately show ?thesis by (meson converse_rtranclp_into_rtranclp rtranclp.rtrancl_refl)
qed




end
